(* ===== verification/Codec.thy ===== *)
theory Codec
  imports Prelude
begin

section \<open>Byte streams and self-delimiting frames\<close>

text \<open>
  A source is the bytes a reader can still obtain and what it meets after them: end of stream
  (\<open>None\<close>) or a transport error. A sink records what was written and how many bytes it accepts
  before the connection fails. \<open>read_exact\<close> and \<open>write_all\<close> are Tokio's. The locale
  \<open>frame_codec\<close> is the interface both wire formats of the program meet: the front-end framing
  of \<^verbatim>\<open>framing.rs\<close> and the peer framing of \<^verbatim>\<open>network.rs\<close>.
\<close>

datatype io_kind = IoUnexpectedEof | IoInvalidData | IoConnection

record io_error =
  io_kind :: io_kind
  io_message :: rtext

record source =
  src_bytes :: bytes
  src_tail :: "io_error option"

record sink =
  snk_bytes :: bytes
  snk_room :: "nat option"

type_synonym 'a io_read = "(io_error + 'a) \<times> source"
type_synonym io_write = "(io_error + unit) \<times> sink"

definition early_eof :: io_error where
  "early_eof = \<lparr>io_kind = IoUnexpectedEof, io_message = lit ''early eof''\<rparr>"

definition broken_pipe :: io_error where
  "broken_pipe = \<lparr>io_kind = IoConnection, io_message = lit ''broken pipe''\<rparr>"

definition invalid_data :: "rtext \<Rightarrow> io_error" where
  "invalid_data m = \<lparr>io_kind = IoInvalidData, io_message = m\<rparr>"

definition read_exact :: "nat \<Rightarrow> source \<Rightarrow> bytes io_read" where
  "read_exact n s =
     (if n \<le> length (src_bytes s)
      then (Inr (take n (src_bytes s)), s\<lparr>src_bytes := drop n (src_bytes s)\<rparr>)
      else (Inl (unwrap_or early_eof (src_tail s)), s\<lparr>src_bytes := []\<rparr>))"

text \<open>One \<open>read\<close> into a buffer of one byte: no byte means end of stream.\<close>

definition read_one :: "source \<Rightarrow> (u8 option) io_read" where
  "read_one s =
     (case src_bytes s of
        b # bs \<Rightarrow> (Inr (Some b), s\<lparr>src_bytes := bs\<rparr>)
      | [] \<Rightarrow> (case src_tail s of None \<Rightarrow> (Inr None, s) | Some e \<Rightarrow> (Inl e, s)))"

definition write_all :: "bytes \<Rightarrow> sink \<Rightarrow> io_write" where
  "write_all bs k =
     (case snk_room k of
        None \<Rightarrow> (Inr (), k\<lparr>snk_bytes := snk_bytes k @ bs\<rparr>)
      | Some r \<Rightarrow>
          if length bs \<le> r
          then (Inr (), k\<lparr>snk_bytes := snk_bytes k @ bs, snk_room := Some (r - length bs)\<rparr>)
          else (Inl broken_pipe, k\<lparr>snk_bytes := snk_bytes k @ take r bs, snk_room := Some 0\<rparr>))"

text \<open>
  Reading frames until the first outcome that is not a frame; \<open>fuel\<close> bounds their number.
\<close>

datatype stream_end = StreamClosed | StreamFailed io_error | StreamOpen

fun read_many :: "(source \<Rightarrow> ('a option) io_read) \<Rightarrow> nat \<Rightarrow> source \<Rightarrow> 'a list \<times> stream_end" where
  "read_many rd 0 s = ([], StreamOpen)"
| "read_many rd (Suc n) s =
     (case rd s of
        (Inl e, s') \<Rightarrow> ([], StreamFailed e)
      | (Inr None, s') \<Rightarrow> ([], StreamClosed)
      | (Inr (Some x), s') \<Rightarrow> (let (xs, r) = read_many rd n s' in (x # xs, r)))"

subsection \<open>Facts about the streams\<close>

lemma read_exact_enough [simp]:
  "n = length p \<Longrightarrow> read_exact n \<lparr>src_bytes = p @ q, src_tail = t\<rparr> = (Inr p, \<lparr>src_bytes = q, src_tail = t\<rparr>)"
  by (simp add: read_exact_def)

lemma read_exact_short:
  "length p < n \<Longrightarrow>
   read_exact n \<lparr>src_bytes = p, src_tail = t\<rparr> = (Inl (unwrap_or early_eof t), \<lparr>src_bytes = [], src_tail = t\<rparr>)"
  by (simp add: read_exact_def)

lemma read_exact_Inr:
  "read_exact n s = (Inr bs, s') \<Longrightarrow>
   length bs = n \<and> src_bytes s = bs @ src_bytes s' \<and> src_tail s' = src_tail s"
  by (auto simp: read_exact_def split: if_splits)

lemma write_all_open: "snk_room k = None \<Longrightarrow> write_all bs k = (Inr (), k\<lparr>snk_bytes := snk_bytes k @ bs\<rparr>)"
  by (simp add: write_all_def)

lemma write_all_prefix:
  "write_all bs k = (r, k') \<Longrightarrow> \<exists>w z. bs = w @ z \<and> snk_bytes k' = snk_bytes k @ w \<and> (r = Inr () \<longrightarrow> z = [])"
  by (auto simp: write_all_def split: option.splits if_splits) (metis append_take_drop_id)

lemma write_all_cut:
  "write_all bs k = (Inl e, k') \<Longrightarrow> \<exists>w z. bs = w @ z \<and> z \<noteq> [] \<and> snk_bytes k' = snk_bytes k @ w"
  by (auto simp: write_all_def split: option.splits if_splits)
    (metis append_take_drop_id drop_eq_Nil linorder_not_less less_or_eq_imp_le)

subsection \<open>The interface of a framing\<close>

locale frame_codec =
  fixes enc :: "'a \<Rightarrow> bytes"
    and rd :: "source \<Rightarrow> ('a option) io_read"
    and ok :: "'a \<Rightarrow> bool"
  assumes rd_enc:
    "ok x \<Longrightarrow> rd \<lparr>src_bytes = enc x @ rest, src_tail = t\<rparr> = (Inr (Some x), \<lparr>src_bytes = rest, src_tail = t\<rparr>)"
    and rd_end: "fst (rd \<lparr>src_bytes = [], src_tail = None\<rparr>) = Inr None"
    and rd_cut: "ok x \<Longrightarrow> enc x = p @ q \<Longrightarrow> p \<noteq> [] \<Longrightarrow> q \<noteq> [] \<Longrightarrow>
      fst (rd \<lparr>src_bytes = p, src_tail = t\<rparr>) = Inl (unwrap_or early_eof t)"
begin

lemma enc_ne: "ok x \<Longrightarrow> enc x \<noteq> []"
  using rd_enc [of x "[]" None] rd_end by auto

lemma read_many_enc:
  "list_all ok xs \<Longrightarrow>
   read_many rd (length xs + n) \<lparr>src_bytes = concat (map enc xs) @ rest, src_tail = t\<rparr> =
   (let (ys, r) = read_many rd n \<lparr>src_bytes = rest, src_tail = t\<rparr> in (xs @ ys, r))"
  by (induction xs) (simp_all add: rd_enc Let_def split_beta)

lemma read_many_all:
  "list_all ok xs \<Longrightarrow> length xs < n \<Longrightarrow>
   read_many rd n \<lparr>src_bytes = concat (map enc xs), src_tail = None\<rparr> = (xs, StreamClosed)"
proof -
  assume a: "list_all ok xs" "length xs < n"
  then obtain m where "n = length xs + Suc m" using less_imp_Suc_add by auto
  moreover have "read_many rd (Suc m) \<lparr>src_bytes = [], src_tail = None\<rparr> = ([], StreamClosed)"
    using rd_end by (cases "rd \<lparr>src_bytes = [], src_tail = None\<rparr>") simp
  ultimately show ?thesis
    using read_many_enc [OF a(1), of "Suc m" "[]" None] by simp
qed

lemma read_many_cut:
  assumes "list_all ok xs" "ok x" "enc x = p @ q" "p \<noteq> []" "q \<noteq> []" "length xs < n"
  shows "read_many rd n \<lparr>src_bytes = concat (map enc xs) @ p, src_tail = t\<rparr> =
     (xs, StreamFailed (unwrap_or early_eof t))"
proof -
  obtain m where "n = length xs + Suc m" using assms(6) less_imp_Suc_add by auto
  moreover have "read_many rd (Suc m) \<lparr>src_bytes = p, src_tail = t\<rparr> = ([], StreamFailed (unwrap_or early_eof t))"
    using rd_cut [OF assms(2-5), of t] by (cases "rd \<lparr>src_bytes = p, src_tail = t\<rparr>") simp
  ultimately show ?thesis
    by (simp only: read_many_enc [OF assms(1)]) simp
qed

lemma enc_inj: "ok x \<Longrightarrow> ok y \<Longrightarrow> enc x @ r = enc y @ s \<Longrightarrow> x = y \<and> r = s"
proof -
  assume a: "ok x" "ok y" "enc x @ r = enc y @ s"
  have "rd \<lparr>src_bytes = enc x @ r, src_tail = None\<rparr> = (Inr (Some x), \<lparr>src_bytes = r, src_tail = None\<rparr>)"
    by (rule rd_enc [OF a(1)])
  moreover have "rd \<lparr>src_bytes = enc x @ r, src_tail = None\<rparr> = (Inr (Some y), \<lparr>src_bytes = s, src_tail = None\<rparr>)"
    unfolding a(3) by (rule rd_enc [OF a(2)])
  ultimately have "(Inr (Some x) :: io_error + 'a option, \<lparr>src_bytes = r, src_tail = None\<rparr>) =
      (Inr (Some y), \<lparr>src_bytes = s, src_tail = None\<rparr>)"
    by (rule trans [OF sym])
  then show ?thesis by simp
qed

lemma stream_inj:
  "list_all ok xs \<Longrightarrow> list_all ok ys \<Longrightarrow> concat (map enc xs) = concat (map enc ys) \<Longrightarrow> xs = ys"
proof -
  assume a: "list_all ok xs" "list_all ok ys" "concat (map enc xs) = concat (map enc ys)"
  let ?n = "Suc (length xs + length ys)"
  have "(xs, StreamClosed) = read_many rd ?n \<lparr>src_bytes = concat (map enc xs), src_tail = None\<rparr>"
    by (rule read_many_all [OF a(1), symmetric]) simp
  also have "\<dots> = (ys, StreamClosed)"
    unfolding a(3) by (rule read_many_all [OF a(2)]) simp
  finally show ?thesis by (rule Pair_inject)
qed

end

end
