(* ===== verification/Types.thy ===== *)
theory Types
  imports Prelude
begin

section \<open>Domain vocabulary (\<^verbatim>\<open>meta-text-proto/src/types.rs\<close>)\<close>

text \<open>
  The message kinds and content types, the application events, groups, contacts, presence and
  statistics. A \<^verbatim>\<open>Uuid\<close> is its 128-bit value and a \<^verbatim>\<open>DateTime<Utc>\<close> its number of milliseconds
  since the epoch; where the source draws a fresh identifier or reads the clock the model takes
  the value as an argument.
\<close>

type_synonym uuid = "128 word"
type_synonym timestamp = int

datatype MessageKind = KText | KAction

fun kind_as_str :: "MessageKind \<Rightarrow> rtext" where
  "kind_as_str KText = lit ''text''"
| "kind_as_str KAction = lit ''action''"

definition kind_from_db :: "rtext \<Rightarrow> MessageKind" where
  "kind_from_db v = (if eq_ignore_ascii_case v (lit ''action'') then KAction else KText)"

datatype ContentType = CText | CBinary

fun content_as_str :: "ContentType \<Rightarrow> rtext" where
  "content_as_str CText = lit ''text''"
| "content_as_str CBinary = lit ''binary''"

fun is_binary :: "ContentType \<Rightarrow> bool" where
  "is_binary CText = False"
| "is_binary CBinary = True"

definition content_from_db :: "rtext \<Rightarrow> ContentType" where
  "content_from_db v = (if eq_ignore_ascii_case v (lit ''binary'') then CBinary else CText)"

text \<open>Transport events: peer connected (id, metadata), disconnected (id, reason), bootstrap.\<close>

datatype NetworkEvent =
    NePeerConnected rtext "(rtext \<times> rtext) list"
  | NePeerDisconnected rtext rtext
  | NeBootstrapStatus rtext bool

text \<open>
  \<open>AeMessageReceived peer peer_id payload kind content_type\<close>;
  \<open>AeMessageDelivered peer peer_id message_id\<close>; \<open>AePeerRequestReceived peer_id message\<close>;
  \<open>AeFriendStatusChanged friend_id is_online\<close>; \<open>AeGroupChanged group_id name members joined\<close>;
  \<open>AeGroupMessageReceived group_id name peer peer_id payload kind content_type\<close>;
  \<open>AeGroupInviteReceived peer peer_id token\<close>.
\<close>

datatype AppEvent =
    AeShutdown
  | AeNetworkEvent NetworkEvent
  | AeUserInput rtext
  | AeMessageReceived rtext rtext bytes MessageKind ContentType
  | AeMessageDelivered rtext rtext u64
  | AePeerRequestReceived rtext rtext
  | AeFriendStatusChanged uuid bool
  | AeGroupChanged rtext rtext nat bool
  | AeGroupMessageReceived rtext rtext rtext rtext bytes MessageKind ContentType
  | AeGroupInviteReceived rtext rtext rtext

record Group =
  g_id :: rtext
  g_name :: rtext
  g_members :: nat
  g_joined :: bool

datatype GroupRole = RoleOwner | RoleAdmin | RoleModerator | RoleMember

datatype UserStatus = UsOnline | UsAway | UsBusy | UsInvisible | UsOffline

fun status_as_name :: "UserStatus \<Rightarrow> rtext" where
  "status_as_name UsOnline = lit ''online''"
| "status_as_name UsAway = lit ''away''"
| "status_as_name UsBusy = lit ''busy''"
| "status_as_name UsInvisible = lit ''invisible''"
| "status_as_name UsOffline = lit ''offline''"

definition status_from_name :: "rtext \<Rightarrow> UserStatus" where
  "status_from_name n =
     (if n = lit ''online'' then UsOnline
      else if n = lit ''away'' then UsAway
      else if n = lit ''busy'' then UsBusy
      else if n = lit ''invisible'' then UsInvisible
      else UsOffline)"

record AppStatistics =
  as_messages_sent :: u64
  as_messages_received :: u64
  as_active_connections :: u32
  as_start_time :: "timestamp option"
  as_bytes_sent :: u64
  as_bytes_received :: u64

definition app_statistics_default :: AppStatistics where
  "app_statistics_default = \<lparr>as_messages_sent = 0, as_messages_received = 0,
     as_active_connections = 0, as_start_time = None, as_bytes_sent = 0, as_bytes_received = 0\<rparr>"

datatype ThemeSelection = ThemeDark | ThemeLight | ThemeHighContrast | ThemeCustom rtext

record UserPreferences =
  up_notifications_enabled :: bool
  up_auto_save_conversations :: bool
  up_encryption_enabled :: bool
  up_theme :: ThemeSelection
  up_max_history_size :: nat
  up_auto_connect :: bool

definition user_preferences_default :: UserPreferences where
  "user_preferences_default = \<lparr>up_notifications_enabled = True, up_auto_save_conversations = True,
     up_encryption_enabled = True, up_theme = ThemeDark, up_max_history_size = 10000,
     up_auto_connect = True\<rparr>"

record AppState =
  st_active_conversation :: "uuid option"
  st_user_status :: UserStatus
  st_statistics :: AppStatistics
  st_preferences :: UserPreferences

definition app_state_new :: AppState where
  "app_state_new = \<lparr>st_active_conversation = None, st_user_status = UsOnline,
     st_statistics = app_statistics_default, st_preferences = user_preferences_default\<rparr>"

datatype ShutdownSignal = SdUserRequested | SdSystemSignal rtext | SdCriticalError rtext
  | SdResourceExhaustion

datatype MessagePriority = PrLow | PrNormal | PrHigh | PrCritical

fun priority_value :: "MessagePriority \<Rightarrow> nat" where
  "priority_value PrLow = 0"
| "priority_value PrNormal = 1"
| "priority_value PrHigh = 2"
| "priority_value PrCritical = 3"

text \<open>The derived \<^verbatim>\<open>Ord\<close> of the priorities: by their numbers.\<close>

instantiation MessagePriority :: linorder
begin

definition less_eq_MessagePriority :: "MessagePriority \<Rightarrow> MessagePriority \<Rightarrow> bool" where
  "less_eq_MessagePriority a b \<longleftrightarrow> priority_value a \<le> priority_value b"

definition less_MessagePriority :: "MessagePriority \<Rightarrow> MessagePriority \<Rightarrow> bool" where
  "less_MessagePriority a b \<longleftrightarrow> priority_value a < priority_value b"

instance
proof
  fix a b c :: MessagePriority
  show "(a < b) = (a \<le> b \<and> \<not> b \<le> a)"
    by (auto simp: less_eq_MessagePriority_def less_MessagePriority_def)
  show "a \<le> a" by (simp add: less_eq_MessagePriority_def)
  show "a \<le> b \<Longrightarrow> b \<le> c \<Longrightarrow> a \<le> c" by (simp add: less_eq_MessagePriority_def)
  show "a \<le> b \<Longrightarrow> b \<le> a \<Longrightarrow> a = b"
    by (cases a; cases b) (auto simp: less_eq_MessagePriority_def)
  show "a \<le> b \<or> b \<le> a" by (auto simp: less_eq_MessagePriority_def)
qed

end

record Contact =
  ct_id :: uuid
  ct_name :: rtext
  ct_public_key :: bytes
  ct_status :: UserStatus
  ct_status_message :: "rtext option"
  ct_added_at :: timestamp
  ct_last_seen :: "timestamp option"
  ct_avatar_hash :: "rtext option"
  ct_note :: "rtext option"
  ct_is_blocked :: bool

text \<open>The fresh identifier and the current time are arguments.\<close>

definition contact_new :: "uuid \<Rightarrow> timestamp \<Rightarrow> rtext \<Rightarrow> bytes \<Rightarrow> Contact" where
  "contact_new fresh now name public_key = \<lparr>ct_id = fresh, ct_name = name,
     ct_public_key = public_key, ct_status = UsOffline, ct_status_message = None,
     ct_added_at = now, ct_last_seen = None, ct_avatar_hash = None, ct_note = None,
     ct_is_blocked = False\<rparr>"

definition contact_is_online :: "Contact \<Rightarrow> bool" where
  "contact_is_online c \<longleftrightarrow> ct_status c \<in> {UsOnline, UsAway, UsBusy}"

definition update_last_seen :: "timestamp \<Rightarrow> Contact \<Rightarrow> Contact" where
  "update_last_seen now c = c\<lparr>ct_last_seen := Some now\<rparr>"

subsection \<open>Storage names round trip\<close>

lemma kind_from_db_as_str: "kind_from_db (kind_as_str k) = k"
  by (induction k; code_simp)

lemma content_from_db_as_str: "content_from_db (content_as_str c) = c"
  by (induction c; code_simp)

lemma status_from_as_name: "status_from_name (status_as_name s) = s"
  by (induction s; code_simp)

end
