(* ===== verification/PeerFrames.thy ===== *)
theory PeerFrames
  imports Codec Types
begin

section \<open>Peer frames (\<^verbatim>\<open>meta-text-backend/src/network.rs\<close>)\<close>

text \<open>
  A frame between peers is one byte of kind, four bytes of length and the payload. The payload of
  a message frame starts with the eight bytes of its id. \<open>peer_read_frame\<close> is the function
  \<open>read_frame\<close> of \<^verbatim>\<open>network.rs\<close>.
\<close>

definition FRAME_HELLO :: u8 where "FRAME_HELLO = 1"
definition FRAME_MESSAGE :: u8 where "FRAME_MESSAGE = 2"
definition FRAME_ACK :: u8 where "FRAME_ACK = 3"
definition FRAME_ACTION :: u8 where "FRAME_ACTION = 4"
definition FRAME_BINARY :: u8 where "FRAME_BINARY = 5"
definition FRAME_IDENTITY :: u8 where "FRAME_IDENTITY = 6"
definition FRAME_EPHEMERAL :: u8 where "FRAME_EPHEMERAL = 7"
definition FRAME_KEEPALIVE :: u8 where "FRAME_KEEPALIVE = 8"

definition MESSAGE_ID_LEN :: nat where "MESSAGE_ID_LEN = 8"
definition MAX_FRAME_SIZE :: u32 where "MAX_FRAME_SIZE = 64 * 1024"

lemmas frame_kinds = FRAME_HELLO_def FRAME_MESSAGE_def FRAME_ACK_def FRAME_ACTION_def FRAME_BINARY_def
  FRAME_IDENTITY_def FRAME_EPHEMERAL_def FRAME_KEEPALIVE_def

definition u32_try_from :: "nat \<Rightarrow> u32 option" where
  "u32_try_from n = (if n < 2 ^ 32 then Some (word_of_nat n) else None)"

definition encode_frame :: "u8 \<Rightarrow> bytes \<Rightarrow> bytes" where
  "encode_frame kind payload =
     (let size = unwrap_or (- 1) (u32_try_from (length payload)) in
      [kind] @ to_be_bytes32 size @ payload)"

definition encode_message_frame :: "u64 \<Rightarrow> bytes \<Rightarrow> MessageKind \<Rightarrow> ContentType \<Rightarrow> bytes" where
  "encode_message_frame message_id ciphertext kind content_type =
     (let payload = to_be_bytes64 message_id @ ciphertext;
          frame = (case (kind, content_type) of
                     (KText, CText) \<Rightarrow> FRAME_MESSAGE
                   | (KAction, _) \<Rightarrow> FRAME_ACTION
                   | (KText, CBinary) \<Rightarrow> FRAME_BINARY)
      in encode_frame frame payload)"

definition message_attributes_of :: "u8 \<Rightarrow> (MessageKind \<times> ContentType) option" where
  "message_attributes_of frame =
     (if frame = FRAME_MESSAGE then Some (KText, CText)
      else if frame = FRAME_ACTION then Some (KAction, CText)
      else if frame = FRAME_BINARY then Some (KText, CBinary)
      else None)"

definition decode_message_id :: "bytes \<Rightarrow> u64 option" where
  "decode_message_id payload =
     (if length payload < MESSAGE_ID_LEN then None
      else Some (from_be_bytes64 (take MESSAGE_ID_LEN payload)))"

definition peer_read_frame :: "source \<Rightarrow> ((u8 \<times> bytes) option) io_read" where
  "peer_read_frame s =
     (case read_exact 1 s of
        (Inl e, s1) \<Rightarrow> (if io_kind e = IoUnexpectedEof then (Inr None, s1) else (Inl e, s1))
      | (Inr kind, s1) \<Rightarrow>
          (case read_exact 4 s1 of
             (Inl e, s2) \<Rightarrow> (Inl e, s2)
           | (Inr len_bytes, s2) \<Rightarrow>
               let len = from_be_bytes32 len_bytes in
               if MAX_FRAME_SIZE < len then
                 (Inl (invalid_data (lit ''frame of '' @ dec (unat len) @ lit '' bytes exceeds the '' @
                    dec (unat MAX_FRAME_SIZE) @ lit '' byte limit'')), s2)
               else
                 (case read_exact (unat len) s2 of
                    (Inl e, s3) \<Rightarrow> (Inl e, s3)
                  | (Inr payload, s3) \<Rightarrow> (Inr (Some (kind ! 0, payload)), s3))))"

subsection \<open>The framing is a codec\<close>

definition peer_frame :: "u8 \<times> bytes \<Rightarrow> bytes" where
  "peer_frame f = encode_frame (fst f) (snd f)"

definition peer_frame_ok :: "u8 \<times> bytes \<Rightarrow> bool" where
  "peer_frame_ok f \<longleftrightarrow> length (snd f) \<le> unat MAX_FRAME_SIZE"

lemma unat_MAX_FRAME_SIZE [simp]: "unat MAX_FRAME_SIZE = 65536"
  by (simp add: MAX_FRAME_SIZE_def)

lemma encode_frame_small:
  "length p < 2 ^ 32 \<Longrightarrow> encode_frame k p = [k] @ to_be_bytes32 (word_of_nat (length p)) @ p"
  by (simp add: encode_frame_def u32_try_from_def unwrap_or_def)

lemma unat_small_length: "length p < 2 ^ 32 \<Longrightarrow> unat (word_of_nat (length p) :: u32) = length p"
  by (simp add: unat_of_nat)

lemma peer_read_header:
  fixes len :: u32
  shows "peer_read_frame \<lparr>src_bytes = [k] @ to_be_bytes32 len @ rest, src_tail = t\<rparr> =
    (if MAX_FRAME_SIZE < len then
       (Inl (invalid_data (lit ''frame of '' @ dec (unat len) @ lit '' bytes exceeds the '' @
          dec (unat MAX_FRAME_SIZE) @ lit '' byte limit'')), \<lparr>src_bytes = rest, src_tail = t\<rparr>)
     else (case read_exact (unat len) \<lparr>src_bytes = rest, src_tail = t\<rparr> of
             (Inl e, s3) \<Rightarrow> (Inl e, s3)
           | (Inr payload, s3) \<Rightarrow> (Inr (Some (k, payload)), s3)))"
proof -
  have "read_exact 1 \<lparr>src_bytes = [k] @ to_be_bytes32 len @ rest, src_tail = t\<rparr> =
      (Inr [k], \<lparr>src_bytes = to_be_bytes32 len @ rest, src_tail = t\<rparr>)"
    by (rule read_exact_enough) simp
  moreover have "read_exact 4 \<lparr>src_bytes = to_be_bytes32 len @ rest, src_tail = t\<rparr> =
      (Inr (to_be_bytes32 len), \<lparr>src_bytes = rest, src_tail = t\<rparr>)"
    by (rule read_exact_enough) simp
  ultimately show ?thesis by (simp add: peer_read_frame_def Let_def split: prod.split sum.split)
qed

lemma peer_read_encode:
  assumes "peer_frame_ok f"
  shows "peer_read_frame \<lparr>src_bytes = peer_frame f @ rest, src_tail = t\<rparr> =
    (Inr (Some f), \<lparr>src_bytes = rest, src_tail = t\<rparr>)"
proof -
  have len: "length (snd f) < 2 ^ 32" using assms by (simp add: peer_frame_ok_def)
  have "\<not> MAX_FRAME_SIZE < (word_of_nat (length (snd f)) :: u32)"
    using assms unat_small_length [OF len] by (simp add: peer_frame_ok_def word_less_nat_alt)
  then show ?thesis
    using peer_read_header [of "fst f" "word_of_nat (length (snd f))" "snd f @ rest" t] unat_small_length [OF len]
    by (simp add: peer_frame_def encode_frame_small [OF len])
qed

lemma peer_read_cut:
  assumes "peer_frame_ok f" "peer_frame f = p @ q" "p \<noteq> []" "q \<noteq> []"
  shows "fst (peer_read_frame \<lparr>src_bytes = p, src_tail = t\<rparr>) = Inl (unwrap_or early_eof t)"
proof -
  have len: "length (snd f) < 2 ^ 32" using assms(1) by (simp add: peer_frame_ok_def)
  let ?h = "to_be_bytes32 (word_of_nat (length (snd f)))"
  obtain p' where p: "p = fst f # p'"
    using assms(2,3) by (cases p) (auto simp: peer_frame_def encode_frame_small [OF len])
  then have eq: "?h @ snd f = p' @ q"
    using assms(2) by (simp add: peer_frame_def encode_frame_small [OF len])
  have one: "read_exact 1 \<lparr>src_bytes = fst f # p', src_tail = t\<rparr> = (Inr [fst f], \<lparr>src_bytes = p', src_tail = t\<rparr>)"
    using read_exact_enough [of 1 "[fst f]" p' t] by simp
  show ?thesis
  proof (cases "length p' < 4")
    case True
    then show ?thesis using one by (simp add: p peer_read_frame_def read_exact_short)
  next
    case False
    define r where "r = drop 4 p'"
    have "take 4 (p' @ q) = ?h" "drop 4 (p' @ q) = snd f"
      by (simp_all add: eq [symmetric])
    then have r: "p' = ?h @ r" "snd f = r @ q"
      using False append_take_drop_id [of 4 p'] by (simp_all add: r_def)
    have "\<not> MAX_FRAME_SIZE < (word_of_nat (length (snd f)) :: u32)"
      using assms(1) unat_small_length [OF len] by (simp add: peer_frame_ok_def word_less_nat_alt)
    moreover have "length r < length (snd f)" using r(2) assms(4) by simp
    ultimately show ?thesis
      using peer_read_header [of "fst f" "word_of_nat (length (snd f))" r t] unat_small_length [OF len]
      by (simp add: p r(1) read_exact_short)
  qed
qed

interpretation peer: frame_codec peer_frame peer_read_frame peer_frame_ok
proof (unfold_locales, goal_cases)
  case (1 x rest t)
  then show ?case by (rule peer_read_encode)
next
  case 2
  then show ?case by (simp add: peer_read_frame_def read_exact_def early_eof_def unwrap_or_def)
next
  case (3 x p q t)
  then show ?case by (rule peer_read_cut)
qed

subsection \<open>Message frames\<close>

definition message_payload :: "u64 \<Rightarrow> bytes \<Rightarrow> bytes" where
  "message_payload message_id ciphertext = to_be_bytes64 message_id @ ciphertext"

lemma decode_message_id_payload: "decode_message_id (message_payload i c) = Some i"
  by (simp add: decode_message_id_def message_payload_def MESSAGE_ID_LEN_def)

lemma drop_message_payload: "drop MESSAGE_ID_LEN (message_payload i c) = c"
  by (simp add: message_payload_def MESSAGE_ID_LEN_def)

definition message_frame_kind :: "MessageKind \<Rightarrow> ContentType \<Rightarrow> u8" where
  "message_frame_kind kind content_type =
     (case kind of KAction \<Rightarrow> FRAME_ACTION | KText \<Rightarrow> (case content_type of CText \<Rightarrow> FRAME_MESSAGE | CBinary \<Rightarrow> FRAME_BINARY))"

lemma encode_message_frame_peer:
  "encode_message_frame i c k t = peer_frame (message_frame_kind k t, message_payload i c)"
  by (simp add: encode_message_frame_def peer_frame_def message_frame_kind_def message_payload_def Let_def
      split: MessageKind.splits ContentType.splits)

text \<open>The attributes come back; an action is always text.\<close>

lemma message_attributes_frame_kind:
  "message_attributes_of (message_frame_kind k t) = Some (k, if k = KAction then CText else t)"
  by (simp add: message_attributes_of_def message_frame_kind_def frame_kinds
      split: MessageKind.splits ContentType.splits)

text \<open>A peer's reader delivers a message frame whenever id and ciphertext fit the frame limit.\<close>

lemma message_frame_read:
  assumes "MESSAGE_ID_LEN + length c \<le> 65536"
  shows "peer_read_frame \<lparr>src_bytes = encode_message_frame i c k t @ rest, src_tail = e\<rparr> =
    (Inr (Some (message_frame_kind k t, message_payload i c)), \<lparr>src_bytes = rest, src_tail = e\<rparr>)"
  unfolding encode_message_frame_peer
  by (rule peer_read_encode) (use assms in \<open>simp add: peer_frame_ok_def message_payload_def MESSAGE_ID_LEN_def\<close>)

lemma message_frame_too_long:
  assumes "65536 < MESSAGE_ID_LEN + length c" "MESSAGE_ID_LEN + length c < 2 ^ 32"
  shows "\<exists>e. fst (peer_read_frame \<lparr>src_bytes = encode_message_frame i c k t @ rest, src_tail = r\<rparr>) = Inl e"
proof -
  let ?p = "message_payload i c"
  have len: "length ?p < 2 ^ 32" "65536 < length ?p"
    using assms by (simp_all add: message_payload_def MESSAGE_ID_LEN_def)
  have "MAX_FRAME_SIZE < (word_of_nat (length ?p) :: u32)"
    using len(2) unat_small_length [OF len(1)] by (simp add: word_less_nat_alt)
  then show ?thesis
    using peer_read_header [of "message_frame_kind k t" "word_of_nat (length ?p)" "?p @ rest" r]
    by (simp add: encode_message_frame_peer peer_frame_def encode_frame_small [OF len(1)])
qed

end
