(* ===== verification/Outbox.thy ===== *)
theory Outbox
  imports PeerFrames
begin

section \<open>Bounded queues: peer channels and the outbox\<close>

text \<open>
  Two bounded queues carry what this node sends (\<^verbatim>\<open>meta-text-backend/src/network.rs\<close>): the channel
  to the writer of one connection, whose \<open>try_send\<close> is Tokio's, and the outbox, which keeps
  messages for a nickname that is not connected. The locale \<open>bounded_queue\<close> is what both promise:
  first in, first out, within a capacity, and a refusal changes nothing.
\<close>

locale bounded_queue =
  fixes push :: "'a \<Rightarrow> 'q \<Rightarrow> bool \<times> 'q"
    and items :: "'q \<Rightarrow> 'a list"
    and cap :: nat
  assumes push_ok: "push x q = (True, q') \<Longrightarrow> items q' = items q @ [x] \<and> length (items q) < cap"
    and push_refused: "push x q = (False, q') \<Longrightarrow> items q' = items q"
begin

lemma push_bounded: "length (items q) \<le> cap \<Longrightarrow> length (items (snd (push x q))) \<le> cap"
  by (cases "push x q"; cases "fst (push x q)") (auto dest: push_ok push_refused)

lemma push_extends: "\<exists>new. items (snd (push x q)) = items q @ new \<and> new = (if fst (push x q) then [x] else [])"
  by (cases "push x q"; cases "fst (push x q)") (auto dest: push_ok push_refused)

lemma push_full: "cap \<le> length (items q) \<Longrightarrow> \<not> fst (push x q)"
  by (cases "push x q"; cases "fst (push x q)") (auto dest!: push_ok)

text \<open>Pushing a whole list: what was accepted follows what was there, in order.\<close>

lemma push_all_extends:
  "\<exists>new. items (foldl (\<lambda>q x. snd (push x q)) q xs) = items q @ new \<and> set new \<subseteq> set xs \<and> length new \<le> length xs"
proof (induction xs arbitrary: q)
  case Nil
  then show ?case by simp
next
  case (Cons x xs)
  from Cons.IH [of "snd (push x q)"] obtain new
    where n: "items (foldl (\<lambda>q x. snd (push x q)) (snd (push x q)) xs) = items (snd (push x q)) @ new"
      "set new \<subseteq> set xs" "length new \<le> length xs" by blast
  obtain hd_new where "items (snd (push x q)) = items q @ hd_new" "hd_new = (if fst (push x q) then [x] else [])"
    using push_extends [of x q] by blast
  then show ?case using n by (intro exI [of _ "hd_new @ new"]) auto
qed

lemma push_all_bounded: "length (items q) \<le> cap \<Longrightarrow> length (items (foldl (\<lambda>q x. snd (push x q)) q xs)) \<le> cap"
  by (induction xs arbitrary: q) (simp_all add: push_bounded)

end

subsection \<open>The channel to one writer\<close>

definition PEER_QUEUE_CAPACITY :: nat where "PEER_QUEUE_CAPACITY = 256"

record channel =
  ch_items :: "bytes list"
  ch_open :: bool

definition channel_new :: channel where
  "channel_new = \<lparr>ch_items = [], ch_open = True\<rparr>"

datatype try_send_result = TrySent | TryFull | TryClosed

definition try_send :: "bytes \<Rightarrow> channel \<Rightarrow> try_send_result \<times> channel" where
  "try_send f c =
     (if \<not> ch_open c then (TryClosed, c)
      else if PEER_QUEUE_CAPACITY \<le> length (ch_items c) then (TryFull, c)
      else (TrySent, c\<lparr>ch_items := ch_items c @ [f]\<rparr>))"

text \<open>\<open>queue_frame\<close>: a full channel counts the dropped frame, a closed one does not.\<close>

definition queue_frame :: "bytes \<Rightarrow> channel \<times> u64 \<Rightarrow> bool \<times> channel \<times> u64" where
  "queue_frame f cd =
     (case try_send f (fst cd) of
        (TrySent, c) \<Rightarrow> (True, c, snd cd)
      | (TryFull, c) \<Rightarrow> (False, c, snd cd + 1)
      | (TryClosed, c) \<Rightarrow> (False, c, snd cd))"

interpretation chan: bounded_queue queue_frame "\<lambda>cd. ch_items (fst cd)" PEER_QUEUE_CAPACITY
  by unfold_locales (auto simp: queue_frame_def try_send_def split: if_splits)

lemma queue_frame_True:
  "fst (queue_frame f (c, d)) \<longleftrightarrow> ch_open c \<and> length (ch_items c) < PEER_QUEUE_CAPACITY"
  by (simp add: queue_frame_def try_send_def)

lemma queue_frame_dropped:
  "snd (snd (queue_frame f (c, d))) = (if ch_open c \<and> PEER_QUEUE_CAPACITY \<le> length (ch_items c) then d + 1 else d)"
  by (simp add: queue_frame_def try_send_def)

lemma queue_frame_open [simp]: "ch_open (fst (snd (queue_frame f (c, d)))) = ch_open c"
  by (simp add: queue_frame_def try_send_def)

subsection \<open>The outbox\<close>

definition OUTBOX_CAPACITY :: nat where "OUTBOX_CAPACITY = 32"
definition OUTBOX_TTL :: duration where "OUTBOX_TTL = secs 300"

record OutboxEntry =
  ob_message_id :: u64
  ob_ciphertext :: bytes
  ob_kind :: MessageKind
  ob_content :: ContentType
  ob_queued_at :: instant

type_synonym outbox = "(rtext \<times> OutboxEntry list) list"

record DeliveryReceipt =
  dr_message_id :: u64
  dr_peers :: nat

datatype SendOutcome = SoSent DeliveryReceipt | SoQueued u64 nat | SoDropped

definition outbox_queue :: "rtext \<Rightarrow> outbox \<Rightarrow> OutboxEntry list" where
  "outbox_queue k o' = unwrap_or [] (map_of o' k)"

text \<open>\<open>entry(..).or_default()\<close> leaves an empty queue behind even when the message is dropped.\<close>

definition enqueue :: "rtext \<Rightarrow> OutboxEntry \<Rightarrow> outbox \<Rightarrow> SendOutcome \<times> outbox" where
  "enqueue k e o' =
     (let queue = outbox_queue k o' in
      if OUTBOX_CAPACITY \<le> length queue then (SoDropped, AList.update k queue o')
      else (SoQueued (ob_message_id e) (Suc (length queue)), AList.update k (queue @ [e]) o'))"

definition entry_fresh :: "instant \<Rightarrow> OutboxEntry \<Rightarrow> bool" where
  "entry_fresh now e \<longleftrightarrow> now - ob_queued_at e < OUTBOX_TTL"

definition queued_messages :: "outbox \<Rightarrow> nat" where
  "queued_messages o' = sum_list (map (\<lambda>(k, q). length q) o')"

text \<open>\<open>prune_outbox\<close>: the outbox without expired entries and empty queues, and how many expired.\<close>

definition prune_outbox :: "instant \<Rightarrow> outbox \<Rightarrow> outbox \<times> nat" where
  "prune_outbox now o' =
     (filter (\<lambda>(k, q). q \<noteq> []) (map (\<lambda>(k, q). (k, filter (entry_fresh now) q)) o'),
      sum_list (map (\<lambda>(k, q). length q - length (filter (entry_fresh now) q)) o'))"

text \<open>The first part of \<open>flush_outbox\<close>: the queue leaves the map and is split by age.\<close>

definition outbox_take :: "instant \<Rightarrow> rtext \<Rightarrow> outbox \<Rightarrow> OutboxEntry list \<times> nat \<times> outbox" where
  "outbox_take now k o' =
     (let queue = outbox_queue k o' in
      (filter (entry_fresh now) queue, length (filter (\<lambda>e. \<not> entry_fresh now e) queue), AList.delete k o'))"

text \<open>The last part: what could not be sent goes to the end of the queue of that key.\<close>

definition outbox_put_back :: "rtext \<Rightarrow> OutboxEntry list \<Rightarrow> outbox \<Rightarrow> outbox" where
  "outbox_put_back k remaining o' =
     (if remaining = [] then o' else AList.update k (outbox_queue k o' @ remaining) o')"

definition entry_frame :: "OutboxEntry \<Rightarrow> bytes" where
  "entry_frame e = encode_message_frame (ob_message_id e) (ob_ciphertext e) (ob_kind e) (ob_content e)"

text \<open>The loop between them, over a function that queues one frame.\<close>

fun flush_loop :: "(bytes \<Rightarrow> 's \<Rightarrow> bool \<times> 's) \<Rightarrow> OutboxEntry list \<Rightarrow> 's \<Rightarrow> nat \<times> OutboxEntry list \<times> 's" where
  "flush_loop send [] s = (0, [], s)"
| "flush_loop send (e # es) s =
     (case send (entry_frame e) s of
        (True, s') \<Rightarrow> (let (n, rem, s'') = flush_loop send es s' in (Suc n, rem, s''))
      | (False, s') \<Rightarrow> (0, e # es, s'))"

definition outbox_wf :: "outbox \<Rightarrow> bool" where
  "outbox_wf o' \<longleftrightarrow> distinct (map fst o') \<and> (\<forall>(k, q) \<in> set o'. length q \<le> OUTBOX_CAPACITY)"

definition push_outbox :: "rtext \<Rightarrow> OutboxEntry \<Rightarrow> outbox \<Rightarrow> bool \<times> outbox" where
  "push_outbox k e o' = (let (r, o'') = enqueue k e o' in (r \<noteq> SoDropped, o''))"

lemma outbox_queue_update [simp]:
  "outbox_queue j (AList.update k q o') = (if j = k then q else outbox_queue j o')"
  by (simp add: outbox_queue_def update_conv' unwrap_or_def)

lemma outbox_queue_delete [simp]:
  "outbox_queue j (AList.delete k o') = (if j = k then [] else outbox_queue j o')"
  by (simp add: outbox_queue_def delete_conv' unwrap_or_def)

interpretation outq: bounded_queue "push_outbox k" "outbox_queue k" OUTBOX_CAPACITY for k
  by unfold_locales (auto simp: push_outbox_def enqueue_def Let_def split: if_splits)

lemma outbox_wf_queue: "outbox_wf o' \<Longrightarrow> length (outbox_queue k o') \<le> OUTBOX_CAPACITY"
  by (cases "map_of o' k") (auto simp: outbox_wf_def outbox_queue_def unwrap_or_def dest!: map_of_SomeD)

lemma update_mem_alist: "(k, v) \<in> set (AList.update n p m) \<Longrightarrow> (k = n \<and> v = p) \<or> (k, v) \<in> set m"
  by (induction m) (auto split: if_splits)

lemma outbox_wf_update: "outbox_wf o' \<Longrightarrow> length q \<le> OUTBOX_CAPACITY \<Longrightarrow> outbox_wf (AList.update k q o')"
  by (auto simp: outbox_wf_def distinct_update dest!: update_mem_alist)

lemma enqueue_wf: "outbox_wf o' \<Longrightarrow> outbox_wf (snd (enqueue k e o'))"
  using outbox_wf_queue [of o' k] by (auto simp: enqueue_def Let_def intro!: outbox_wf_update)

lemma enqueue_other: "j \<noteq> k \<Longrightarrow> outbox_queue j (snd (enqueue k e o')) = outbox_queue j o'"
  by (simp add: enqueue_def Let_def)

lemma enqueue_queue:
  "outbox_queue k (snd (enqueue k e o')) =
     outbox_queue k o' @ (if length (outbox_queue k o') < OUTBOX_CAPACITY then [e] else [])"
  by (simp add: enqueue_def Let_def)

lemma outbox_wf_delete: "outbox_wf o' \<Longrightarrow> outbox_wf (AList.delete k o')"
  unfolding outbox_wf_def by (intro conjI distinct_delete) (auto simp: AList.delete_eq)

lemma outbox_take_wf: "outbox_wf o' \<Longrightarrow> outbox_wf (snd (snd (outbox_take now k o')))"
  by (simp add: outbox_take_def Let_def outbox_wf_delete)

lemma prune_outbox_wf: "outbox_wf o' \<Longrightarrow> outbox_wf (fst (prune_outbox now o'))"
proof -
  have m: "map fst (map (\<lambda>(k, q). (k, filter (entry_fresh now) q)) o') = map fst o'"
    by (simp add: case_prod_beta' comp_def)
  assume wf: "outbox_wf o'"
  then have "distinct (map fst (filter (\<lambda>(k, q). q \<noteq> []) (map (\<lambda>(k, q). (k, filter (entry_fresh now) q)) o')))"
    by (intro distinct_filter_keys) (simp only: m outbox_wf_def)
  then show ?thesis
    using wf by (auto simp: outbox_wf_def prune_outbox_def intro: order_trans [OF length_filter_le])
qed

text \<open>Pruning keeps exactly the fresh entries, in order, and counts the others.\<close>

lemma map_of_map_filter:
  "distinct (map fst o') \<Longrightarrow>
   unwrap_or [] (map_of (filter (\<lambda>(k, q). q \<noteq> []) (map (\<lambda>(k, q). (k, filter p q)) o')) k) =
   filter p (unwrap_or [] (map_of o' k))"
proof (induction o')
  case Nil
  then show ?case by (simp add: unwrap_or_def)
next
  case (Cons a o')
  obtain j q where a: "a = (j, q)" by (cases a)
  show ?case
  proof (cases "k = j")
    case True
    then have "map_of o' k = None" using Cons.prems a by (simp add: map_of_eq_None_iff)
    then show ?thesis using Cons a True by (simp add: unwrap_or_def split: option.splits)
  next
    case False
    then show ?thesis using Cons a by simp
  qed
qed

lemma prune_outbox_queue:
  "outbox_wf o' \<Longrightarrow> outbox_queue k (fst (prune_outbox now o')) = filter (entry_fresh now) (outbox_queue k o')"
  by (simp add: prune_outbox_def outbox_queue_def outbox_wf_def map_of_map_filter)

lemma sum_filter_nonempty:
  "sum_list (map (\<lambda>(k, q). length q) (filter (\<lambda>(k, q). q \<noteq> []) xs)) = sum_list (map (\<lambda>(k, q). length q) xs)"
  by (induction xs) auto

lemma prune_outbox_count: "queued_messages (fst (prune_outbox now o')) + snd (prune_outbox now o') = queued_messages o'"
proof -
  have "sum_list (map (\<lambda>(k, q). length q) (map (\<lambda>(k, q). (k, filter (entry_fresh now) q)) o')) +
      sum_list (map (\<lambda>(k, q). length q - length (filter (entry_fresh now) q)) o') =
      sum_list (map (\<lambda>(k, q). length q) o')"
  proof (induction o')
    case Nil
    then show ?case by simp
  next
    case (Cons a o')
    have "length (filter (entry_fresh now) (snd a)) \<le> length (snd a)" by (rule length_filter_le)
    moreover have "sum_list (map (\<lambda>(k, q). length q) (map (\<lambda>(k, q). (k, filter (entry_fresh now) q)) (a # o'))) =
        length (filter (entry_fresh now) (snd a)) +
        sum_list (map (\<lambda>(k, q). length q) (map (\<lambda>(k, q). (k, filter (entry_fresh now) q)) o'))"
      by (simp add: case_prod_beta)
    ultimately show ?case using Cons.IH by (simp only: list.map sum_list.Cons case_prod_beta)
  qed
  then show ?thesis by (simp only: prune_outbox_def queued_messages_def fst_conv snd_conv sum_filter_nonempty)
qed

lemma prune_outbox_no_empty: "(k, q) \<in> set (fst (prune_outbox now o')) \<Longrightarrow> q \<noteq> []"
  by (auto simp: prune_outbox_def)

text \<open>The loop sends a prefix, in order, and returns the rest untouched.\<close>

lemma flush_loop_split:
  "flush_loop send es s = (n, rem, s') \<Longrightarrow> n \<le> length es \<and> rem = drop n es"
  by (induction send es s arbitrary: n rem s' rule: flush_loop.induct)
    (fastforce split: prod.splits bool.splits)+

lemma flush_loop_frames:
  assumes "\<And>f s. out (snd (send f s)) = out s @ (if fst (send f s) then [f] else [])"
  shows "flush_loop send es s = (n, rem, s') \<Longrightarrow> out s' = out s @ map entry_frame (take n es)"
proof (induction es arbitrary: s n rem)
  case Nil
  then show ?case by simp
next
  case (Cons e es)
  then show ?case
    using assms [of "entry_frame e" s] by (auto split: prod.splits bool.splits)
qed

end
