(* ===== verification/Errors.thy ===== *)
theory Errors
  imports Prelude
begin

section \<open>The error type of every layer (\<^verbatim>\<open>meta-text-proto/src/error.rs\<close>)\<close>

text \<open>
  \<open>MetaTextError\<close> with its fields in the source's order; a boxed source error is kept as its
  rendered text. \<open>log_error\<close> only writes a log line, so it is modelled by the line's class.
  \<open>ErrorContext\<close> is the fluent builder over a table of context values.
\<close>

datatype MetaTextError =
    MtConfiguration rtext "rtext option"
  | MtNetwork rtext rtext "rtext option"
  | MtCryptographic rtext rtext "rtext option"
  | MtDatabase rtext rtext "rtext option"
  | MtUserInterface rtext rtext "rtext option"
  | MtMessage rtext "rtext option" "rtext option"
  | MtAuthentication rtext rtext "rtext option"
  | MtResource rtext rtext "rtext option"
  | MtValidation rtext rtext "rtext option"
  | MtInternal rtext rtext "rtext option"

type_synonym 'a mt_result = "MetaTextError + 'a"

text \<open>The \<^verbatim>\<open>#[error(..)]\<close> attributes: the text a \<^verbatim>\<open>Display\<close> of the error gives.\<close>

fun error_display :: "MetaTextError \<Rightarrow> rtext" where
  "error_display (MtConfiguration m s) = lit ''Configuration error: '' @ m"
| "error_display (MtNetwork m p s) = lit ''Network error: '' @ m"
| "error_display (MtCryptographic m p s) = lit ''Cryptographic error: '' @ m"
| "error_display (MtDatabase m p s) = lit ''Database error: '' @ m"
| "error_display (MtUserInterface m p s) = lit ''UI error: '' @ m"
| "error_display (MtMessage m p s) = lit ''Message error: '' @ m"
| "error_display (MtAuthentication m p s) = lit ''Authentication error: '' @ m"
| "error_display (MtResource m p s) = lit ''Resource error: '' @ m"
| "error_display (MtValidation m f x) = lit ''Validation error: '' @ m"
| "error_display (MtInternal m c s) = lit ''Internal error: '' @ m"

fun is_critical :: "MetaTextError \<Rightarrow> bool" where
  "is_critical (MtResource m r s) = True"
| "is_critical (MtInternal m c s) = True"
| "is_critical e = False"

fun user_message :: "MetaTextError \<Rightarrow> rtext" where
  "user_message (MtConfiguration m s) = lit ''Configuration error. Please check your settings.''"
| "user_message (MtNetwork m p s) =
     lit ''Network connection failed. Please check your internet connection.''"
| "user_message (MtCryptographic m p s) = lit ''Security error. Please restart the application.''"
| "user_message (MtDatabase m p s) =
     lit ''Data storage error. Please check available disk space.''"
| "user_message (MtUserInterface m p s) = lit ''Interface error. Please restart the application.''"
| "user_message (MtMessage m p s) = lit ''Message processing error. Please try again.''"
| "user_message (MtAuthentication m p s) =
     lit ''Authentication failed. Please check your credentials.''"
| "user_message (MtResource m p s) =
     lit ''System resource error. Please restart the application.''"
| "user_message (MtValidation m f x) =
     lit ''Invalid input. Please check your data and try again.''"
| "user_message (MtInternal m c s) = lit ''Internal error. Please restart the application.''"

datatype log_class = CriticalError | SystemError | SecurityError | ApplicationWarning

fun log_error :: "MetaTextError \<Rightarrow> log_class" where
  "log_error (MtResource m p s) = CriticalError"
| "log_error (MtInternal m c s) = CriticalError"
| "log_error (MtNetwork m p s) = SystemError"
| "log_error (MtDatabase m p s) = SystemError"
| "log_error (MtCryptographic m p s) = SecurityError"
| "log_error (MtAuthentication m p s) = SecurityError"
| "log_error e = ApplicationWarning"

record ErrorContext =
  ec_message :: rtext
  ec_context :: "(rtext \<times> rtext) list"

definition error_context_new :: "rtext \<Rightarrow> ErrorContext" where
  "error_context_new message = \<lparr>ec_message = message, ec_context = []\<rparr>"

definition with_context :: "ErrorContext \<Rightarrow> rtext \<Rightarrow> rtext \<Rightarrow> ErrorContext" where
  "with_context c key val = c\<lparr>ec_context := AList.update key val (ec_context c)\<rparr>"

definition context_operation :: "ErrorContext \<Rightarrow> rtext" where
  "context_operation c = unwrap_or [] (map_of (ec_context c) (lit ''operation''))"

definition configuration_error :: "ErrorContext \<Rightarrow> MetaTextError" where
  "configuration_error c = MtConfiguration (ec_message c) None"

definition context_network_error :: "ErrorContext \<Rightarrow> MetaTextError" where
  "context_network_error c = MtNetwork (ec_message c) (context_operation c) None"

definition cryptographic_error :: "ErrorContext \<Rightarrow> MetaTextError" where
  "cryptographic_error c = MtCryptographic (ec_message c) (context_operation c) None"

definition database_error :: "ErrorContext \<Rightarrow> MetaTextError" where
  "database_error c = MtDatabase (ec_message c) (context_operation c) None"

text \<open>The \<^verbatim>\<open>From\<close> conversions, from the rendered text of the foreign error.\<close>

definition from_io_error :: "rtext \<Rightarrow> MetaTextError" where
  "from_io_error e = MtInternal (lit ''I/O error: '' @ e) (lit ''FileSystem'') (Some e)"

definition from_json_error :: "rtext \<Rightarrow> MetaTextError" where
  "from_json_error e = MtConfiguration (lit ''JSON parsing error: '' @ e) (Some e)"

definition from_sqlx_error :: "rtext \<Rightarrow> MetaTextError" where
  "from_sqlx_error e = MtDatabase (lit ''Database error: '' @ e) (lit ''query'') (Some e)"

definition from_join_error :: "rtext \<Rightarrow> MetaTextError" where
  "from_join_error e = MtInternal (lit ''Task join error: '' @ e) (lit ''AsyncRuntime'') (Some e)"

lemma critical_logged: "is_critical e \<longleftrightarrow> log_error e = CriticalError"
  by (cases e) auto

lemma context_operation_with:
  "context_operation (with_context c k v)
     = (if k = lit ''operation'' then v else context_operation c)"
  by (simp add: context_operation_def with_context_def update_conv' unwrap_or_def)

end
