(* ===== verification/Protocol.thy ===== *)
theory Protocol
  imports Errors Types
begin

section \<open>The interface contract (\<^verbatim>\<open>meta-text-proto/src/ipc/protocol.rs\<close>)\<close>

text \<open>
  The vocabulary between the core and its front-ends: error codes and error values, requests,
  replies, events and the messages of the wire. The serialized form (serde) is not modelled: the
  layers above carry these values as they are. Each constructor has its fields in the source's
  order.
\<close>

definition PROTOCOL_VERSION :: u32 where
  "PROTOCOL_VERSION = 9"

definition MIN_SUPPORTED_PROTOCOL_VERSION :: u32 where
  "MIN_SUPPORTED_PROTOCOL_VERSION = 3"

definition is_supported_protocol :: "u32 \<Rightarrow> bool" where
  "is_supported_protocol v \<longleftrightarrow> MIN_SUPPORTED_PROTOCOL_VERSION \<le> v \<and> v \<le> PROTOCOL_VERSION"

definition MAX_FRAME_LEN :: u32 where
  "MAX_FRAME_LEN = 1024 * 1024"

definition MAX_NICKNAME_LEN :: nat where
  "MAX_NICKNAME_LEN = 64"

definition MAX_STATUS_LEN :: nat where
  "MAX_STATUS_LEN = 256"

definition MAX_IDENTIFIER_LEN :: nat where
  "MAX_IDENTIFIER_LEN = 128"

definition MAX_NOTE_LEN :: nat where
  "MAX_NOTE_LEN = 256"

definition DEFAULT_HISTORY_LIMIT :: nat where
  "DEFAULT_HISTORY_LIMIT = 20"

definition MAX_HISTORY_LIMIT :: nat where
  "MAX_HISTORY_LIMIT = 1000"

text \<open>The newline and the tab.\<close>

definition ALLOWED_MESSAGE_CONTROLS :: "rchar list" where
  "ALLOWED_MESSAGE_CONTROLS = [10, 9]"

definition contains_forbidden_control :: "rtext \<Rightarrow> rchar list \<Rightarrow> bool" where
  "contains_forbidden_control s allowed \<longleftrightarrow>
     list_ex (\<lambda>c. is_control c \<and> \<not> List.member allowed c) s"

subsection \<open>Errors\<close>

datatype ErrorCode =
    EcInvalidRequest | EcNotFound | EcNetwork | EcCryptography | EcDatabase | EcConfiguration
  | EcUnauthorized | EcUnsupportedProtocol | EcBackpressure | EcTimeout | EcInternal

fun code_is_critical :: "ErrorCode \<Rightarrow> bool" where
  "code_is_critical EcInternal = True"
| "code_is_critical c = False"

datatype Severity = SevInfo | SevRecoverable | SevCritical

record ErrorInfo =
  ei_code :: ErrorCode
  ei_severity :: Severity
  ei_message :: rtext

definition error_info_new :: "ErrorCode \<Rightarrow> rtext \<Rightarrow> ErrorInfo" where
  "error_info_new code message = \<lparr>ei_code = code,
     ei_severity = (if code_is_critical code then SevCritical else SevRecoverable),
     ei_message = message\<rparr>"

definition error_info_critical :: "ErrorCode \<Rightarrow> rtext \<Rightarrow> ErrorInfo" where
  "error_info_critical code message = \<lparr>ei_code = code, ei_severity = SevCritical,
     ei_message = message\<rparr>"

fun error_info_of :: "MetaTextError \<Rightarrow> ErrorInfo" where
  "error_info_of (MtConfiguration m s) = error_info_new EcConfiguration m"
| "error_info_of (MtNetwork m p s) = error_info_new EcNetwork m"
| "error_info_of (MtCryptographic m p s) = error_info_new EcCryptography m"
| "error_info_of (MtDatabase m p s) = error_info_new EcDatabase m"
| "error_info_of (MtUserInterface m p s) = error_info_new EcInternal m"
| "error_info_of (MtMessage m p s) = error_info_new EcInvalidRequest m"
| "error_info_of (MtAuthentication m p s) = error_info_new EcUnauthorized m"
| "error_info_of (MtValidation m f x) = error_info_new EcInvalidRequest m"
| "error_info_of (MtResource m p s) = error_info_critical EcBackpressure m"
| "error_info_of (MtInternal m p s) = error_info_critical EcInternal m"

subsection \<open>Requests\<close>

text \<open>
  \<open>RqSendMessage target text kind content_type\<close>; \<open>RqRenameGroup group_id name\<close>;
  \<open>RqInviteToGroup group_id peer\<close>; \<open>RqSendGroupMessage group_id text kind content_type\<close>.
\<close>

datatype Request =
    RqPing "rtext option"
  | RqSessionInfo
  | RqStatistics
  | RqListContacts
  | RqAddContact rtext "rtext option"
  | RqRemoveContact rtext
  | RqSetNickname rtext
  | RqSetStatus rtext
  | RqSelectConversation rtext
  | RqConnect rtext
  | RqSendMessage "rtext option" rtext MessageKind ContentType
  | RqHistory "nat option"
  | RqSaveSession
  | RqPeerRequests
  | RqAcceptPeerRequest rtext
  | RqRejectPeerRequest rtext
  | RqGroups
  | RqGroupInvites
  | RqDeclineGroupInvite rtext
  | RqCreateGroup "rtext option"
  | RqJoinGroup rtext
  | RqRenameGroup "rtext option" rtext
  | RqInviteToGroup rtext rtext
  | RqSendGroupMessage "rtext option" rtext MessageKind ContentType
  | RqLeaveGroup "rtext option"
  | RqMetrics
  | RqShutdown

subsection \<open>Views\<close>

record PeerRequestView =
  prv_public_key :: rtext
  prv_message :: rtext
  prv_short_key :: rtext

record GroupView =
  gv_id :: rtext
  gv_name :: rtext
  gv_members :: nat
  gv_joined :: bool
  gv_short_id :: rtext

record GroupInviteView =
  giv_peer :: rtext
  giv_peer_id :: rtext
  giv_token :: rtext

datatype SendOutcomeKind = OkSent | OkQueued | OkDropped

record SendReport =
  sr_outcome :: SendOutcomeKind
  sr_message_id :: "u64 option"
  sr_queued_for :: nat
  sr_queue_position :: "nat option"
  sr_wire_bytes :: u64
  sr_ciphertext_preview :: rtext
  sr_encrypted :: bool
  sr_persisted :: bool

record PeerIdentityView =
  piv_nickname :: rtext
  piv_identity :: rtext
  piv_fingerprint :: rtext
  piv_changed :: bool

record SessionInfo =
  si_nickname :: rtext
  si_status_message :: rtext
  si_identity :: rtext
  si_mode :: rtext
  si_version :: rtext
  si_encryption :: rtext
  si_encryption_enabled :: bool
  si_network_running :: bool
  si_network_port :: u16
  si_network_bootstrap_nodes :: nat
  si_connected_peers :: nat
  si_pending_peers :: nat
  si_max_connections :: u32
  si_queued_messages :: nat
  si_desired_peers :: "rtext list"
  si_peer_nicknames :: "rtext list"
  si_local_address :: "rtext option"
  si_database_connected :: bool
  si_database :: rtext
  si_persistent :: bool
  si_database_max_connections :: u32
  si_friend_count :: nat
  si_max_friends :: nat
  si_active_chat :: "rtext option"
  si_uptime_seconds :: int
  si_config_path :: rtext
  si_data_dir :: rtext
  si_app_name :: rtext
  si_app_version :: rtext
  si_max_message_length :: nat
  si_auto_save_interval :: u64
  si_transport :: rtext
  si_public_identity :: "rtext option"
  si_pending_requests :: nat
  si_supports_friend_requests :: bool
  si_groups :: nat
  si_pending_group_invites :: nat
  si_supports_groups :: bool
  si_identity_fingerprint :: rtext
  si_peer_identities :: "PeerIdentityView list"

record StatisticsView =
  sv_messages_sent :: u64
  sv_messages_received :: u64
  sv_active_connections :: u32
  sv_bytes_sent :: u64
  sv_bytes_received :: u64
  sv_uptime_seconds :: int

record MetricsView =
  mv_uptime_seconds :: int
  mv_transport :: rtext
  mv_peers_connected :: nat
  mv_peers_pending :: nat
  mv_payloads_queued :: nat
  mv_payloads_expired :: u64
  mv_payloads_dropped :: u64
  mv_friend_count :: nat
  mv_max_friends :: nat
  mv_groups :: nat
  mv_groups_supported :: bool
  mv_friend_requests_pending :: nat
  mv_friend_requests_dropped :: u64
  mv_group_invites_dropped :: u64
  mv_request_queue_depth :: nat
  mv_request_queue_capacity :: nat
  mv_event_subscribers :: nat
  mv_request_wait_last_us :: u64
  mv_request_wait_max_us :: u64
  mv_request_service_last_us :: u64
  mv_request_service_max_us :: u64
  mv_requests_served :: u64
  mv_messages_sent :: u64
  mv_messages_received :: u64
  mv_bytes_sent :: u64
  mv_bytes_received :: u64
  mv_database_connected :: bool
  mv_persistent :: bool
  mv_peer_identities_changed :: u64
  mv_peer_identities_refused :: u64
  mv_greetings_refused :: u64

record ContactView =
  cv_id :: rtext
  cv_name :: rtext
  cv_status :: rtext
  cv_online :: bool
  cv_note :: "rtext option"
  cv_blocked :: bool
  cv_last_seen :: "rtext option"

record MessageView =
  msv_direction :: rtext
  msv_peer :: rtext
  msv_body :: rtext
  msv_wire_bytes :: u64
  msv_kind :: MessageKind
  msv_content_type :: ContentType
  msv_created_at :: rtext

subsection \<open>Replies and events\<close>

text \<open>
  \<open>RpContactAdded index identifier\<close>; \<open>RpContactRemoved index name\<close>;
  \<open>RpConversation active index\<close>; \<open>RpHistory persistent messages\<close>; \<open>RpUpdated subject detail\<close>;
  \<open>RpSent target report\<close>; \<open>RpGroups supported groups\<close>; \<open>RpGroupInvites supported invites\<close>;
  \<open>RpGroupRenamed group_id group\<close>; \<open>RpGroupInvited group_id peer\<close>;
  \<open>RpGroupSent group_id group wire_bytes\<close>.
\<close>

datatype Reply =
    RpPong "rtext option"
  | RpSession SessionInfo
  | RpStatistics StatisticsView
  | RpContacts "ContactView list"
  | RpContactAdded nat rtext
  | RpContactExists rtext
  | RpContactRemoved nat rtext
  | RpConversation "rtext option" "nat option"
  | RpSaved rtext
  | RpHistory bool "MessageView list"
  | RpUpdated rtext rtext
  | RpSent rtext SendReport
  | RpShuttingDown bool
  | RpPeerRequests "PeerRequestView list"
  | RpPeerRequestAccepted rtext
  | RpPeerRequestRejected rtext
  | RpGroups bool "GroupView list"
  | RpGroupInvites bool "GroupInviteView list"
  | RpGroupCreated GroupView
  | RpGroupJoined GroupView
  | RpGroupInviteDeclined rtext
  | RpGroupRenamed rtext rtext
  | RpGroupInvited rtext rtext
  | RpGroupSent rtext rtext u64
  | RpGroupLeft rtext
  | RpMetrics MetricsView

text \<open>
  \<open>CeMessageReceived peer peer_id body wire_bytes kind content_type\<close>;
  \<open>CeMessageDelivered peer peer_id message_id\<close>;
  \<open>CeMessageUndecodable peer peer_id wire_bytes reason group_id group\<close>;
  \<open>CePeerConnected peer_id nickname\<close>; \<open>CePeerDisconnected peer_id reason\<close>;
  \<open>CePeerRequestReceived public_key short_key message\<close>;
  \<open>CeGroupMessageReceived group_id group peer peer_id wire_bytes body kind content_type\<close>;
  \<open>CeGroupChanged group_id group members joined\<close>; \<open>CeGroupInviteReceived peer peer_id token\<close>.
\<close>

datatype CoreEvent =
    CeReady SessionInfo
  | CeMessageReceived rtext rtext rtext u64 MessageKind ContentType
  | CeMessageDelivered rtext rtext u64
  | CeMessageUndecodable rtext rtext u64 rtext "rtext option" "rtext option"
  | CePeerConnected rtext rtext
  | CePeerDisconnected rtext rtext
  | CeConversationChanged rtext
  | CeNicknameChanged rtext
  | CeStatusChanged rtext
  | CePeerRequestReceived rtext rtext rtext
  | CeGroupMessageReceived rtext rtext rtext rtext u64 rtext MessageKind ContentType
  | CeGroupChanged rtext rtext nat bool
  | CeGroupInviteReceived rtext rtext rtext
  | CeShutdown rtext

datatype ResponseResult = RrOk Reply | RrErr ErrorInfo

definition response_ok :: "Reply \<Rightarrow> ResponseResult" where
  "response_ok r = RrOk r"

definition response_err :: "ErrorInfo \<Rightarrow> ResponseResult" where
  "response_err e = RrErr e"

fun response_is_ok :: "ResponseResult \<Rightarrow> bool" where
  "response_is_ok (RrOk r) = True"
| "response_is_ok (RrErr e) = False"

fun into_result :: "ResponseResult \<Rightarrow> ErrorInfo + Reply" where
  "into_result (RrOk r) = Inr r"
| "into_result (RrErr e) = Inl e"

subsection \<open>Messages of the wire\<close>

datatype ClientMessage =
    CmHello u32 "rtext option" rtext
  | CmRequest u64 Request
  | CmGoodbye

datatype ServerMessage =
    SmWelcome u32 SessionInfo
  | SmResponse u64 ResponseResult
  | SmEvent CoreEvent
  | SmRejected ErrorInfo

subsection \<open>Lemmas\<close>

lemma contains_forbidden_control_iff:
  "contains_forbidden_control s allowed \<longleftrightarrow> (\<exists>c \<in> set s. is_control c \<and> c \<notin> set allowed)"
  by (auto simp: contains_forbidden_control_def list_ex_iff)

lemma error_info_of_severity:
  "is_critical e \<Longrightarrow> ei_severity (error_info_of e) = SevCritical"
  by (cases e) (auto simp: error_info_critical_def)

lemma error_info_of_message:
  "\<exists>prefix. error_display e = prefix @ ei_message (error_info_of e)"
  by (cases e) (auto simp: error_info_critical_def error_info_new_def)

end
