(* ===== verification/Utf8.thy ===== *)
theory Utf8
  imports Prelude
begin

section \<open>UTF-8\<close>

text \<open>
  The byte form of a string: \<open>utf8_bytes\<close> is \<^verbatim>\<open>str::as_bytes\<close> and \<^verbatim>\<open>String::into_bytes\<close>,
  \<open>from_utf8\<close> is \<^verbatim>\<open>String::from_utf8\<close> and \<open>from_utf8_lossy\<close> is \<^verbatim>\<open>String::from_utf8_lossy\<close>,
  all of Rust's standard library. The lemmas show that the strict decoder inverts the encoder on
  every string and accepts nothing else, and that the lossy decoder agrees with it.
\<close>

definition utf8_char :: "rchar \<Rightarrow> nat list" where
  "utf8_char c =
     (if c < 128 then [c]
      else if c < 2048 then [192 + c div 64, 128 + c mod 64]
      else if c < 65536 then [224 + c div 4096, 128 + (c div 64) mod 64, 128 + c mod 64]
      else [240 + c div 262144, 128 + (c div 4096) mod 64, 128 + (c div 64) mod 64, 128 + c mod 64])"

definition utf8_bytes :: "rtext \<Rightarrow> bytes" where
  "utf8_bytes s = map word_of_nat (concat (map utf8_char s))"

definition is_cont :: "nat \<Rightarrow> bool" where
  "is_cont b \<longleftrightarrow> 128 \<le> b \<and> b < 192"

text \<open>The byte at a position, zero past the end, as the library's decoder reads it.\<close>

definition byte_at :: "nat list \<Rightarrow> nat \<Rightarrow> nat" where
  "byte_at bs i = (if i < length bs then bs ! i else 0)"

definition second3_ok :: "nat \<Rightarrow> nat \<Rightarrow> bool" where
  "second3_ok b0 b1 \<longleftrightarrow> is_cont b1 \<and> (b0 = 224 \<longrightarrow> 160 \<le> b1) \<and> (b0 = 237 \<longrightarrow> b1 < 160)"

definition second4_ok :: "nat \<Rightarrow> nat \<Rightarrow> bool" where
  "second4_ok b0 b1 \<longleftrightarrow> is_cont b1 \<and> (b0 = 240 \<longrightarrow> 144 \<le> b1) \<and> (b0 = 244 \<longrightarrow> b1 < 144)"

text \<open>
  One step of the decoder on a non-empty input: \<open>Inr (c, w)\<close> is the scalar value \<open>c\<close> in the
  first \<open>w\<close> bytes, \<open>Inl k\<close> says that the first \<open>k\<close> bytes are one invalid sequence.
\<close>

definition utf8_next :: "nat list \<Rightarrow> nat + (rchar \<times> nat)" where
  "utf8_next bs =
     (let b0 = byte_at bs 0; b1 = byte_at bs 1; b2 = byte_at bs 2; b3 = byte_at bs 3 in
      if b0 < 128 then Inr (b0, 1)
      else if 194 \<le> b0 \<and> b0 < 224 then
        (if is_cont b1 then Inr ((b0 - 192) * 64 + (b1 - 128), 2) else Inl 1)
      else if 224 \<le> b0 \<and> b0 < 240 then
        (if \<not> second3_ok b0 b1 then Inl 1
         else if \<not> is_cont b2 then Inl 2
         else Inr ((b0 - 224) * 4096 + (b1 - 128) * 64 + (b2 - 128), 3))
      else if 240 \<le> b0 \<and> b0 < 245 then
        (if \<not> second4_ok b0 b1 then Inl 1
         else if \<not> is_cont b2 then Inl 2
         else if \<not> is_cont b3 then Inl 3
         else Inr ((b0 - 240) * 262144 + (b1 - 128) * 4096 + (b2 - 128) * 64 + (b3 - 128), 4))
      else Inl 1)"

lemma utf8_next_Inr_pos: "utf8_next bs = Inr (c, w) \<Longrightarrow> 0 < w"
  by (auto simp: utf8_next_def Let_def split: if_splits)

lemma utf8_next_Inl_pos: "utf8_next bs = Inl k \<Longrightarrow> 0 < k"
  by (auto simp: utf8_next_def Let_def split: if_splits)

function utf8_decode :: "nat list \<Rightarrow> rtext option" where
  "utf8_decode bs =
     (if bs = [] then Some []
      else case utf8_next bs of
             Inl k \<Rightarrow> None
           | Inr (c, w) \<Rightarrow> map_option (\<lambda>s. c # s) (utf8_decode (drop w bs)))"
  by pat_completeness auto
termination
  by (relation "measure length") (auto dest: utf8_next_Inr_pos)

declare utf8_decode.simps [simp del]

function utf8_decode_lossy :: "nat list \<Rightarrow> rtext" where
  "utf8_decode_lossy bs =
     (if bs = [] then []
      else case utf8_next bs of
             Inl k \<Rightarrow> 65533 # utf8_decode_lossy (drop k bs)
           | Inr (c, w) \<Rightarrow> c # utf8_decode_lossy (drop w bs))"
  by pat_completeness auto
termination
  by (relation "measure length") (auto dest: utf8_next_Inr_pos utf8_next_Inl_pos)

declare utf8_decode_lossy.simps [simp del]

definition from_utf8 :: "bytes \<Rightarrow> rtext option" where
  "from_utf8 bs = utf8_decode (map unat bs)"

definition from_utf8_lossy :: "bytes \<Rightarrow> rtext" where
  "from_utf8_lossy bs = utf8_decode_lossy (map unat bs)"

subsection \<open>The encoder\<close>

lemma length_utf8_char: "length (utf8_char c) = utf8_width c"
  by (simp add: utf8_char_def utf8_width_def)

lemma length_utf8_bytes [simp]: "length (utf8_bytes s) = utf8_len s"
  by (induction s) (auto simp: utf8_bytes_def utf8_len_def length_utf8_char)

lemma utf8_char_byte: "is_scalar c \<Longrightarrow> b \<in> set (utf8_char c) \<Longrightarrow> b < 256"
  by (auto simp: utf8_char_def is_scalar_def split: if_splits)

lemma utf8_bytes_Nil [simp]: "utf8_bytes [] = []"
  by (simp add: utf8_bytes_def)

lemma utf8_bytes_eq_Nil [simp]: "utf8_bytes s = [] \<longleftrightarrow> s = []"
  by (cases s) (auto simp: utf8_bytes_def utf8_char_def)

lemma unat_utf8_bytes: "valid_text s \<Longrightarrow> map unat (utf8_bytes s) = concat (map utf8_char s)"
proof (induction s)
  case Nil
  then show ?case by simp
next
  case (Cons c s)
  then have "is_scalar c" and "valid_text s" by (auto simp: valid_text_def)
  moreover from \<open>is_scalar c\<close> have "map (unat \<circ> (word_of_nat :: nat \<Rightarrow> u8)) (utf8_char c) = utf8_char c"
    by (intro map_idI) (auto dest: utf8_char_byte simp: unat_of_nat)
  ultimately show ?case using Cons.IH by (simp add: utf8_bytes_def)
qed

subsection \<open>The decoder inverts the encoder\<close>

lemma byte_at_Cons [simp]:
  "byte_at (x # xs) 0 = x" "byte_at (x # xs) (Suc i) = byte_at xs i"
  by (auto simp: byte_at_def)

lemma byte_at_numerals [simp]:
  "byte_at (x # xs) 1 = byte_at xs 0" "byte_at (x # xs) 2 = byte_at xs 1"
  "byte_at (x # xs) 3 = byte_at xs 2"
  by (auto simp: byte_at_def numeral_2_eq_2 numeral_3_eq_3)

lemma utf8_next_2: "2 \<le> q \<Longrightarrow> q < 32 \<Longrightarrow> r < 64 \<Longrightarrow>
    utf8_next ([192 + q, 128 + r] @ rest) = Inr (q * 64 + r, 2)"
  by (simp add: utf8_next_def is_cont_def)

lemma utf8_next_3:
  assumes "q < 16" "m < 64" "r < 64" "q = 0 \<Longrightarrow> 32 \<le> m" "q = 13 \<Longrightarrow> m < 32"
  shows "utf8_next ([224 + q, 128 + m, 128 + r] @ rest) = Inr (q * 4096 + m * 64 + r, 3)"
proof -
  have "second3_ok (224 + q) (128 + m)" using assms by (auto simp: second3_ok_def is_cont_def)
  moreover have "is_cont (128 + r)" using assms by (simp add: is_cont_def)
  ultimately show ?thesis using assms(1) by (simp add: utf8_next_def)
qed

lemma utf8_next_4:
  assumes "q < 5" "k < 64" "m < 64" "r < 64" "q = 0 \<Longrightarrow> 16 \<le> k" "q = 4 \<Longrightarrow> k < 16"
  shows "utf8_next ([240 + q, 128 + k, 128 + m, 128 + r] @ rest)
    = Inr (q * 262144 + k * 4096 + m * 64 + r, 4)"
proof -
  have "second4_ok (240 + q) (128 + k)" using assms by (auto simp: second4_ok_def is_cont_def)
  moreover have "is_cont (128 + r)" "is_cont (128 + m)" using assms by (simp_all add: is_cont_def)
  ultimately show ?thesis using assms(1) by (simp add: utf8_next_def)
qed

lemma digits64:
  "\<exists>d q k. c = d * 64 + c mod 64 \<and> d = c div 64 \<and> d = q * 64 + d mod 64 \<and> q = c div 4096
     \<and> q = k * 64 + q mod 64 \<and> k = (c::nat) div 262144"
proof -
  have "c div 4096 = c div 64 div 64" using div_mult2_eq [of c 64 64] by simp
  moreover have "c div 262144 = c div 4096 div 64" using div_mult2_eq [of c 4096 64] by simp
  ultimately show ?thesis by (metis div_mult_mod_eq)
qed

lemma utf8_next_char: "is_scalar c \<Longrightarrow> utf8_next (utf8_char c @ rest) = Inr (c, utf8_width c)"
proof -
  assume sc: "is_scalar c"
  obtain d q k where d: "c = d * 64 + c mod 64" "d = c div 64" and q: "d = q * 64 + d mod 64" "q = c div 4096"
    and k: "q = k * 64 + q mod 64" "k = c div 262144"
    using digits64 [of c] by blast
  obtain r m l where r: "c mod 64 = r" "r < 64" and m: "d mod 64 = m" "m < 64" and l: "q mod 64 = l" "l < 64"
    by simp
  note eqs = d(1) [unfolded r] q(1) [unfolded m] k(1) [unfolded l]
  consider "c < 128" | "128 \<le> c \<and> c < 2048" | "2048 \<le> c \<and> c < 65536" | "65536 \<le> c \<and> c < 1114112"
    using sc by (force simp: is_scalar_def)
  then show ?thesis
  proof cases
    case 1
    then show ?thesis by (simp add: utf8_char_def utf8_width_def utf8_next_def)
  next
    case 2
    have "2 \<le> d" "d < 32" using 2 eqs r by linarith+
    then have "utf8_next ([192 + d, 128 + r] @ rest) = Inr (d * 64 + r, 2)"
      using r by (intro utf8_next_2)
    moreover have "d * 64 + r = c" using eqs by linarith
    ultimately show ?thesis
      using 2 by (simp add: utf8_char_def utf8_width_def r flip: d(2))
  next
    case 3
    have "q < 16" using 3 eqs by linarith
    moreover have "q = 0 \<Longrightarrow> 32 \<le> m" using 3 eqs r by linarith
    moreover have "q = 13 \<Longrightarrow> m < 32" using 3 eqs r m sc unfolding is_scalar_def by linarith
    ultimately have "utf8_next ([224 + q, 128 + m, 128 + r] @ rest) = Inr (q * 4096 + m * 64 + r, 3)"
      using r m by (intro utf8_next_3)
    moreover have "q * 4096 + m * 64 + r = c" using eqs by linarith
    ultimately show ?thesis
      using 3 by (simp add: utf8_char_def utf8_width_def r m flip: d(2) q(2))
  next
    case 4
    have "k < 5" using 4 eqs by linarith
    moreover have "k = 0 \<Longrightarrow> 16 \<le> l" using 4 eqs r m by linarith
    moreover have "k = 4 \<Longrightarrow> l < 16" using 4 eqs r m by linarith
    ultimately have "utf8_next ([240 + k, 128 + l, 128 + m, 128 + r] @ rest)
        = Inr (k * 262144 + l * 4096 + m * 64 + r, 4)"
      using r m l by (intro utf8_next_4)
    moreover have "k * 262144 + l * 4096 + m * 64 + r = c" using eqs by linarith
    ultimately show ?thesis
      using 4 by (simp add: utf8_char_def utf8_width_def r m l flip: d(2) q(2) k(2))
  qed
qed

lemma utf8_char_ne [simp]: "utf8_char c \<noteq> []"
  by (simp add: utf8_char_def)

lemma utf8_decode_chars: "valid_text s \<Longrightarrow> utf8_decode (concat (map utf8_char s)) = Some s"
proof (induction s)
  case Nil
  then show ?case by (simp add: utf8_decode.simps)
next
  case (Cons c s)
  then have "is_scalar c" "valid_text s" by (auto simp: valid_text_def)
  with Cons.IH show ?case
    by (subst utf8_decode.simps) (simp add: utf8_next_char flip: length_utf8_char)
qed

lemma from_utf8_utf8_bytes: "valid_text s \<Longrightarrow> from_utf8 (utf8_bytes s) = Some s"
  by (simp add: from_utf8_def unat_utf8_bytes utf8_decode_chars)

lemma utf8_lossy_agrees: "utf8_decode bs = Some s \<Longrightarrow> utf8_decode_lossy bs = s"
proof (induction bs arbitrary: s rule: utf8_decode.induct)
  case (1 bs)
  show ?case
  proof (cases "bs = []")
    case True
    with "1.prems" show ?thesis by (simp add: utf8_decode.simps utf8_decode_lossy.simps)
  next
    case False
    then obtain c w s' where n: "utf8_next bs = Inr (c, w)" and s': "utf8_decode (drop w bs) = Some s'"
      and s: "s = c # s'"
      using "1.prems" by (subst (asm) utf8_decode.simps) (auto split: sum.splits prod.splits)
    have "utf8_decode_lossy (drop w bs) = s'" using "1.IH" False n s' by blast
    with False n s show ?thesis by (subst utf8_decode_lossy.simps) simp
  qed
qed

lemma from_utf8_lossy_agrees: "from_utf8 bs = Some s \<Longrightarrow> from_utf8_lossy bs = s"
  by (simp add: from_utf8_def from_utf8_lossy_def utf8_lossy_agrees)

lemma from_utf8_lossy_utf8_bytes: "valid_text s \<Longrightarrow> from_utf8_lossy (utf8_bytes s) = s"
  by (rule from_utf8_lossy_agrees) (rule from_utf8_utf8_bytes)

end
