(* ===== verification/External.thy ===== *)
theory External
  imports Utf8
begin

section \<open>Third-party functions as parameters\<close>

text \<open>
  The \<^verbatim>\<open>hex\<close> crate, the cryptographic crates and the clock, random and address functions are not
  part of the repository. The model takes them as the fields of two records; \<open>hex_laws\<close> and
  \<open>dh_laws\<close> name the documented behaviour that the proofs rely on, always as an explicit
  hypothesis. \<open>sample_hex\<close> is one concrete instance of the hexadecimal functions, used to
  show that the hypotheses can be met.
\<close>

record hex_lib =
  hex_encode :: "bytes \<Rightarrow> rtext"
  hex_encode_upper :: "bytes \<Rightarrow> rtext"
  hex_decode :: "rtext \<Rightarrow> rtext + bytes"

text \<open>
  What the crate documents: both encoders give two digits per byte, lower and upper case;
  the decoder accepts exactly an even number of hexadecimal digits, of either case, and inverts
  the encoders.
\<close>

definition hex_laws :: "hex_lib \<Rightarrow> bool" where
  "hex_laws H \<longleftrightarrow>
     (\<forall>b. hex_decode H (hex_encode H b) = Inr b) \<and>
     (\<forall>b. hex_decode H (hex_encode_upper H b) = Inr b) \<and>
     (\<forall>b. length (hex_encode H b) = 2 * length b) \<and>
     (\<forall>b. length (hex_encode_upper H b) = 2 * length b) \<and>
     (\<forall>b. list_all is_ascii_hexdigit (hex_encode H b)) \<and>
     (\<forall>b. list_all is_ascii_hexdigit (hex_encode_upper H b)) \<and>
     (\<forall>b. to_ascii_lowercase (hex_encode H b) = hex_encode H b) \<and>
     (\<forall>b. to_ascii_uppercase (hex_encode_upper H b) = hex_encode_upper H b) \<and>
     (\<forall>s b. hex_decode H s = Inr b \<longrightarrow>
        eq_ignore_ascii_case s (hex_encode H b) \<and> eq_ignore_ascii_case s (hex_encode_upper H b)) \<and>
     (\<forall>s t. eq_ignore_ascii_case s t \<longrightarrow> (\<forall>b. hex_decode H s = Inr b \<longrightarrow> hex_decode H t = Inr b))"

record crypto_lib =
  aead_seal :: "bytes \<Rightarrow> bytes \<Rightarrow> bytes \<Rightarrow> rtext + bytes" \<comment> \<open>key, nonce, plaintext\<close>
  aead_open :: "bytes \<Rightarrow> bytes \<Rightarrow> bytes \<Rightarrow> rtext + bytes" \<comment> \<open>key, nonce, ciphertext\<close>
  argon2 :: "bytes \<Rightarrow> bytes \<Rightarrow> rtext + bytes"             \<comment> \<open>password, salt\<close>
  hkdf_sha256 :: "bytes \<Rightarrow> bytes \<Rightarrow> bytes \<Rightarrow> rtext + bytes" \<comment> \<open>salt, key material, info; 32 bytes\<close>
  x25519 :: "bytes \<Rightarrow> bytes \<Rightarrow> bytes"                    \<comment> \<open>scalar, point\<close>
  x25519_base :: bytes
  sha256 :: "bytes \<Rightarrow> bytes"

text \<open>The Diffie-Hellman law: both ends of an agreement compute the same shared value.\<close>

definition dh_laws :: "crypto_lib \<Rightarrow> bool" where
  "dh_laws L \<longleftrightarrow>
     (\<forall>a b. x25519 L a (x25519 L b (x25519_base L)) = x25519 L b (x25519 L a (x25519_base L)))"

text \<open>
  An authenticated cipher opens what it sealed, under the same key and nonce, and a sealed text
  is 16 bytes (the tag) longer than its plaintext.
\<close>

definition aead_laws :: "crypto_lib \<Rightarrow> bool" where
  "aead_laws L \<longleftrightarrow>
     (\<forall>k n p c. aead_seal L k n p = Inr c \<longrightarrow>
        aead_open L k n c = Inr p \<and> length c = length p + 16)"

subsection \<open>A concrete hexadecimal instance\<close>

definition hex_digit :: "rchar \<Rightarrow> nat \<Rightarrow> rchar" where
  "hex_digit alpha d = (if d < 10 then 48 + d else alpha + (d - 10))"

definition hex_value :: "rchar \<Rightarrow> nat option" where
  "hex_value c =
     (if 48 \<le> c \<and> c \<le> 57 then Some (c - 48)
      else if 97 \<le> c \<and> c \<le> 102 then Some (c - 87)
      else if 65 \<le> c \<and> c \<le> 70 then Some (c - 55) else None)"

fun hex_encode_with :: "rchar \<Rightarrow> bytes \<Rightarrow> rtext" where
  "hex_encode_with alpha [] = []"
| "hex_encode_with alpha (b # bs) =
     hex_digit alpha (unat b div 16) # hex_digit alpha (unat b mod 16) # hex_encode_with alpha bs"

fun hex_decode_pairs :: "rtext \<Rightarrow> rtext + bytes" where
  "hex_decode_pairs [] = Inr []"
| "hex_decode_pairs [c] = Inl (lit ''Odd number of digits'')"
| "hex_decode_pairs (c # d # s) =
     (case (hex_value c, hex_value d) of
        (Some h, Some l) \<Rightarrow>
          (case hex_decode_pairs s of Inl e \<Rightarrow> Inl e | Inr bs \<Rightarrow> Inr (word_of_nat (h * 16 + l) # bs))
      | _ \<Rightarrow> Inl (lit ''Invalid character''))"

definition sample_hex :: hex_lib where
  "sample_hex = \<lparr>hex_encode = hex_encode_with 97, hex_encode_upper = hex_encode_with 65,
     hex_decode = hex_decode_pairs\<rparr>"

subsection \<open>The instance meets the laws\<close>

lemma hex_value_digit: "d < 16 \<Longrightarrow> alpha \<in> {65, 97} \<Longrightarrow> hex_value (hex_digit alpha d) = Some d"
  by (auto simp: hex_value_def hex_digit_def)

lemma unat_byte_split: "unat (b :: u8) div 16 < 16" "unat (b :: u8) mod 16 < 16"
  using unsigned_less [where 'a = nat, of b] by auto

lemma hex_decode_encode_with: "alpha \<in> {65, 97} \<Longrightarrow> hex_decode_pairs (hex_encode_with alpha bs) = Inr bs"
proof (induction bs)
  case Nil
  then show ?case by simp
next
  case (Cons b bs)
  have "hex_value (hex_digit alpha (unat b div 16)) = Some (unat b div 16)"
    "hex_value (hex_digit alpha (unat b mod 16)) = Some (unat b mod 16)"
    using hex_value_digit unat_byte_split Cons.prems by blast+
  moreover have "word_of_nat (unat b div 16 * 16 + unat b mod 16) = b"
    by (simp only: div_mult_mod_eq) simp
  ultimately show ?case using Cons by simp
qed

lemma length_hex_encode_with: "length (hex_encode_with alpha bs) = 2 * length bs"
  by (induction bs) auto

lemma hexdigit_encode_with:
  "alpha \<in> {65, 97} \<Longrightarrow> list_all is_ascii_hexdigit (hex_encode_with alpha bs)"
proof (induction bs)
  case Nil
  then show ?case by simp
next
  case (Cons b bs)
  then show ?case
    using unat_byte_split [of b] by (auto simp: is_ascii_hexdigit_def hex_digit_def)
qed

lemma hex_digit_lower: "d < 16 \<Longrightarrow> ascii_lower (hex_digit 97 d) = hex_digit 97 d"
  by (auto simp: ascii_lower_def hex_digit_def)

lemma hex_digit_upper: "d < 16 \<Longrightarrow> ascii_upper (hex_digit 65 d) = hex_digit 65 d"
  by (auto simp: ascii_upper_def hex_digit_def)

lemma hex_digit_lower_upper: "d < 16 \<Longrightarrow> ascii_lower (hex_digit 65 d) = hex_digit 97 d"
  by (auto simp: ascii_lower_def hex_digit_def)

lemma hex_value_lower: "hex_value (ascii_lower c) = hex_value c"
  by (auto simp: hex_value_def ascii_lower_def)

lemma hex_value_Some: "hex_value c = Some d \<Longrightarrow> d < 16 \<and> ascii_lower c = hex_digit 97 d"
  by (auto simp: hex_value_def ascii_lower_def hex_digit_def split: if_splits)

lemma lower_encode_97: "to_ascii_lowercase (hex_encode_with 97 bs) = hex_encode_with 97 bs"
  by (induction bs) (simp_all add: to_ascii_lowercase_def hex_digit_lower unat_byte_split)

lemma upper_encode_65: "to_ascii_uppercase (hex_encode_with 65 bs) = hex_encode_with 65 bs"
  by (induction bs) (simp_all add: to_ascii_uppercase_def hex_digit_upper unat_byte_split)

lemma lower_encode_65: "to_ascii_lowercase (hex_encode_with 65 bs) = hex_encode_with 97 bs"
  by (induction bs) (simp_all add: to_ascii_lowercase_def hex_digit_lower_upper unat_byte_split)

lemma hex_decode_lower:
  "hex_decode_pairs s = Inr bs \<Longrightarrow> to_ascii_lowercase s = hex_encode_with 97 bs"
proof (induction s arbitrary: bs rule: hex_decode_pairs.induct)
  case (3 c d s)
  then obtain h l bs' where hl: "hex_value c = Some h" "hex_value d = Some l"
    and bs': "hex_decode_pairs s = Inr bs'" "bs = word_of_nat (h * 16 + l) # bs'"
    by (auto split: option.splits sum.splits)
  from hl have lt: "h < 16" "l < 16" and low: "ascii_lower c = hex_digit 97 h" "ascii_lower d = hex_digit 97 l"
    by (auto dest: hex_value_Some)
  from lt have "h * 16 + l < 256" by simp
  then have "unat (word_of_nat (h * 16 + l) :: u8) = h * 16 + l" by (simp only: unat_of_nat) simp
  with 3 hl bs' lt low show ?case by (simp add: to_ascii_lowercase_def)
qed (auto simp: to_ascii_lowercase_def)

lemma hex_decode_map_lower: "hex_decode_pairs (map ascii_lower s) = hex_decode_pairs s"
  by (induction s rule: hex_decode_pairs.induct)
    (auto simp: hex_value_lower split: option.splits)

lemma sample_hex_laws: "hex_laws sample_hex"
proof -
  have dec: "hex_decode_pairs t = Inr b" if "eq_ignore_ascii_case s t" "hex_decode_pairs s = Inr b" for s t b
    using that hex_decode_map_lower [of s] hex_decode_map_lower [of t]
    by (simp add: eq_ignore_ascii_case_def to_ascii_lowercase_def)
  have eqs: "eq_ignore_ascii_case s (hex_encode_with 97 b)" "eq_ignore_ascii_case s (hex_encode_with 65 b)"
    if "hex_decode_pairs s = Inr b" for s b
    using hex_decode_lower [OF that] by (simp_all add: eq_ignore_ascii_case_def lower_encode_97 lower_encode_65)
  show ?thesis
    unfolding hex_laws_def sample_hex_def
    using dec eqs
    by (simp add: hex_decode_encode_with length_hex_encode_with hexdigit_encode_with
        lower_encode_97 upper_encode_65)
qed

subsection \<open>Consequences of the laws\<close>

lemma hex_laws_decode:
  "hex_laws H \<Longrightarrow> hex_decode H (hex_encode H b) = Inr b"
  "hex_laws H \<Longrightarrow> hex_decode H (hex_encode_upper H b) = Inr b"
  by (simp_all add: hex_laws_def)

lemma hex_laws_length:
  "hex_laws H \<Longrightarrow> length (hex_encode H b) = 2 * length b"
  "hex_laws H \<Longrightarrow> length (hex_encode_upper H b) = 2 * length b"
  by (simp_all add: hex_laws_def)

lemma hex_laws_digits:
  "hex_laws H \<Longrightarrow> list_all is_ascii_hexdigit (hex_encode H b)"
  "hex_laws H \<Longrightarrow> list_all is_ascii_hexdigit (hex_encode_upper H b)"
  by (simp_all add: hex_laws_def)

lemma hex_laws_decoded:
  "hex_laws H \<Longrightarrow> hex_decode H s = Inr b \<Longrightarrow> eq_ignore_ascii_case s (hex_encode_upper H b)"
  "hex_laws H \<Longrightarrow> hex_decode H s = Inr b \<Longrightarrow> eq_ignore_ascii_case s (hex_encode H b)"
  unfolding hex_laws_def by blast+

lemma hexdigit_not_space: "is_ascii_hexdigit c \<Longrightarrow> \<not> is_whitespace c"
  by (auto simp: is_ascii_hexdigit_def is_whitespace_def)

lemma hexdigit_width: "is_ascii_hexdigit c \<Longrightarrow> utf8_width c = 1"
  by (auto simp: is_ascii_hexdigit_def utf8_width_def)

lemma hexdigit_scalar: "is_ascii_hexdigit c \<Longrightarrow> is_scalar c"
  by (auto simp: is_ascii_hexdigit_def is_scalar_def)

lemma trim_hexdigits: "list_all is_ascii_hexdigit s \<Longrightarrow> trim s = s"
  by (rule trim_id) (cases s, auto simp: list_all_iff hexdigit_not_space)

lemma utf8_len_hexdigits: "list_all is_ascii_hexdigit s \<Longrightarrow> utf8_len s = length s"
  by (induction s) (auto simp: utf8_len_def hexdigit_width)

lemma valid_text_hexdigits: "list_all is_ascii_hexdigit s \<Longrightarrow> valid_text s"
  by (auto simp: valid_text_def list_all_iff hexdigit_scalar)

end
