(* ===== verification/Utils.thy ===== *)
theory Utils
  imports Errors External
begin

section \<open>Addresses and small text helpers (\<^verbatim>\<open>meta-text-proto/src/utils.rs\<close>)\<close>

text \<open>
  The first part is the standard library's address parser, which the loopback checks rely on: a
  reader consumes a prefix of the text and returns what it read with the rest. IPv4 octets are
  decimal without leading zeros, IPv6 groups are one to four hexadecimal digits, one run of zero
  groups may be elided, and the last two groups may be written as an IPv4 address. The second
  part is \<^verbatim>\<open>utils.rs\<close> itself.
\<close>

datatype ip_addr = IpV4 "nat list" | IpV6 "nat list"

record socket_addr =
  sa_ip :: ip_addr
  sa_port :: u16

subsection \<open>The standard library's address parser\<close>

definition digit_in :: "nat \<Rightarrow> rchar \<Rightarrow> nat option" where
  "digit_in radix c = (case hex_value c of Some d \<Rightarrow> (if d < radix then Some d else None) | None \<Rightarrow> None)"

fun take_digits :: "nat \<Rightarrow> rtext \<Rightarrow> nat list \<times> rtext" where
  "take_digits radix [] = ([], [])"
| "take_digits radix (c # s) =
     (case digit_in radix c of
        None \<Rightarrow> ([], c # s)
      | Some d \<Rightarrow> (let (ds, r) = take_digits radix s in (d # ds, r)))"

definition read_number :: "nat \<Rightarrow> nat \<Rightarrow> bool \<Rightarrow> nat \<Rightarrow> rtext \<Rightarrow> (nat \<times> rtext) option" where
  "read_number radix max_digits allow_zero_prefix max_value s =
     (let (ds, r) = take_digits radix s; v = foldl (\<lambda>a d. a * radix + d) 0 ds in
      if ds = [] \<or> max_digits < length ds \<or> max_value < v \<or>
         (\<not> allow_zero_prefix \<and> hd ds = 0 \<and> 1 < length ds)
      then None else Some (v, r))"

definition read_separator :: "rchar \<Rightarrow> nat \<Rightarrow> (rtext \<Rightarrow> ('a \<times> rtext) option) \<Rightarrow> rtext \<Rightarrow> ('a \<times> rtext) option" where
  "read_separator sep i inner s =
     (if i = 0 then inner s else case s of [] \<Rightarrow> None | c # r \<Rightarrow> if c = sep then inner r else None)"

fun read_octets :: "nat \<Rightarrow> nat \<Rightarrow> rtext \<Rightarrow> (nat list \<times> rtext) option" where
  "read_octets i 0 s = Some ([], s)"
| "read_octets i (Suc n) s =
     (case read_separator 46 i (read_number 10 3 False 255) s of
        None \<Rightarrow> None
      | Some (v, r) \<Rightarrow>
          (case read_octets (Suc i) n r of None \<Rightarrow> None | Some (vs, r') \<Rightarrow> Some (v # vs, r')))"

definition read_ipv4_addr :: "rtext \<Rightarrow> (nat list \<times> rtext) option" where
  "read_ipv4_addr s = read_octets 0 4 s"

text \<open>Up to \<open>n\<close> groups: those read, whether they end in an IPv4 address, and the rest.\<close>

fun read_groups :: "nat \<Rightarrow> nat \<Rightarrow> rtext \<Rightarrow> nat list \<times> bool \<times> rtext" where
  "read_groups i 0 s = ([], False, s)"
| "read_groups i (Suc n) s =
     (case (if 0 < n then read_separator 58 i read_ipv4_addr s else None) of
        Some (o4, r) \<Rightarrow> ([o4 ! 0 * 256 + o4 ! 1, o4 ! 2 * 256 + o4 ! 3], True, r)
      | None \<Rightarrow>
          (case read_separator 58 i (read_number 16 4 True 65535) s of
             None \<Rightarrow> ([], False, s)
           | Some (g, r) \<Rightarrow> (let (gs, v4, r') = read_groups (Suc i) n r in (g # gs, v4, r'))))"

definition read_ipv6_addr :: "rtext \<Rightarrow> (nat list \<times> rtext) option" where
  "read_ipv6_addr s =
     (let (head, head_v4, r) = read_groups 0 8 s in
      if length head = 8 then Some (head, r)
      else if head_v4 then None
      else case strip_prefix (lit ''::'') r of
        None \<Rightarrow> None
      | Some r' \<Rightarrow>
          (let (tail, _, r'') = read_groups 0 (8 - (length head + 1)) r' in
           Some (head @ replicate (8 - length head - length tail) 0 @ tail, r'')))"

definition parse_ip :: "rtext \<Rightarrow> ip_addr option" where
  "parse_ip s =
     (case read_ipv4_addr s of
        Some (o4, r) \<Rightarrow> (if r = [] then Some (IpV4 o4) else None)
      | None \<Rightarrow>
          (case read_ipv6_addr s of
             Some (gs, r) \<Rightarrow> (if r = [] then Some (IpV6 gs) else None)
           | None \<Rightarrow> None))"

fun ip_is_loopback :: "ip_addr \<Rightarrow> bool" where
  "ip_is_loopback (IpV4 os) = (os ! 0 = 127)"
| "ip_is_loopback (IpV6 gs) = (gs = [0, 0, 0, 0, 0, 0, 0, 1])"

subsection \<open>How the standard library prints an address\<close>

fun hex_lower :: "nat \<Rightarrow> rtext" where
  "hex_lower n = (if n < 16 then [hex_digit 97 n] else hex_lower (n div 16) @ [hex_digit 97 (n mod 16)])"

declare hex_lower.simps [simp del]

fun join_with :: "rtext \<Rightarrow> rtext list \<Rightarrow> rtext" where
  "join_with sep [] = []"
| "join_with sep [x] = x"
| "join_with sep (x # y # xs) = x @ sep @ join_with sep (y # xs)"

text \<open>The first longest run of zero groups, as its start and its length.\<close>

fun zero_span :: "nat \<Rightarrow> nat \<times> nat \<Rightarrow> nat \<times> nat \<Rightarrow> nat list \<Rightarrow> nat \<times> nat" where
  "zero_span i cur best [] = best"
| "zero_span i (start, len) best (g # gs) =
     (if g = 0 then
        (let cur = (if len = 0 then i else start, Suc len) in
         zero_span (Suc i) cur (if snd best < snd cur then cur else best) gs)
      else zero_span (Suc i) (0, 0) best gs)"

definition ipv4_display :: "nat list \<Rightarrow> rtext" where
  "ipv4_display os = join_with (lit ''.'') (map dec os)"

definition ipv6_display :: "nat list \<Rightarrow> rtext" where
  "ipv6_display gs =
     (if take 6 gs = [0, 0, 0, 0, 0, 65535] then
        lit ''::ffff:'' @ ipv4_display [gs ! 6 div 256, gs ! 6 mod 256, gs ! 7 div 256, gs ! 7 mod 256]
      else
        (let (start, len) = zero_span 0 (0, 0) (0, 0) gs; groups = (\<lambda>xs. join_with (lit '':'') (map hex_lower xs)) in
         if 1 < len then groups (take start gs) @ lit ''::'' @ groups (drop (start + len) gs)
         else groups gs))"

definition socket_display :: "socket_addr \<Rightarrow> rtext" where
  "socket_display a =
     (case sa_ip a of
        IpV4 os \<Rightarrow> ipv4_display os
      | IpV6 gs \<Rightarrow> lit ''['' @ ipv6_display gs @ lit '']'') @ [58] @ dec (unat (sa_port a))"

subsection \<open>Host and port\<close>

definition is_valid_host_port :: "rtext \<Rightarrow> bool" where
  "is_valid_host_port address =
     (let a = trim address;
          parts = (case strip_prefix (lit ''['') a of
                     Some rest \<Rightarrow> split_once_str (lit '']:'') rest
                   | None \<Rightarrow>
                       (case rsplit_once 58 a of
                          Some (host, port) \<Rightarrow> (if 58 \<notin> set host then Some (host, port) else None)
                        | None \<Rightarrow> None))
      in case parts of
           None \<Rightarrow> False
         | Some (host, port) \<Rightarrow>
             host \<noteq> [] \<and> (case parse_u16 port of Some v \<Rightarrow> 0 < v | None \<Rightarrow> False))"

definition host_of :: "rtext \<Rightarrow> rtext option" where
  "host_of address =
     (case strip_prefix (lit ''['') address of
        Some rest \<Rightarrow> map_option fst (split_once 93 rest)
      | None \<Rightarrow> Some (case rsplit_once 58 address of None \<Rightarrow> address | Some (host, _) \<Rightarrow> host))"

definition is_loopback_host :: "rtext \<Rightarrow> bool" where
  "is_loopback_host address =
     (let trimmed = trim address in
      case parse_ip trimmed of
        Some literal \<Rightarrow> ip_is_loopback literal
      | None \<Rightarrow>
          (case host_of trimmed of
             None \<Rightarrow> False
           | Some host \<Rightarrow>
               if eq_ignore_ascii_case host (lit ''localhost'') then True
               else case parse_ip host of Some a \<Rightarrow> ip_is_loopback a | None \<Rightarrow> False))"

subsection \<open>Text\<close>

fun split_on :: "rchar \<Rightarrow> rtext \<Rightarrow> rtext list" where
  "split_on c [] = [[]]"
| "split_on c (d # s) = (if d = c then [] # split_on c s
     else case split_on c s of [] \<Rightarrow> [[d]] | w # ws \<Rightarrow> (d # w) # ws)"

definition is_valid_email :: "rtext \<Rightarrow> bool" where
  "is_valid_email email =
     (if 64 \<notin> set email \<or> 46 \<notin> set email \<or> utf8_len email < 5 then False
      else case split_on 64 email of
        [username, domain] \<Rightarrow>
          if username = [] then False
          else if 46 \<notin> set domain \<or> hd domain = 46 \<or> last domain = 46 then False
          else True
      | _ \<Rightarrow> False)"

definition truncate_string :: "rtext \<Rightarrow> nat \<Rightarrow> rtext" where
  "truncate_string s max_length =
     (if length s \<le> max_length then s
      else if max_length \<le> 3 then take max_length s
      else take (max_length - 3) s @ lit ''...'')"

definition abbreviate :: "rtext \<Rightarrow> rtext" where
  "abbreviate v =
     (if length v \<le> 8 then v else take 4 v @ [8230] @ drop (length v - 4) v)"

definition bytes_to_hex :: "hex_lib \<Rightarrow> bytes \<Rightarrow> rtext" where
  "bytes_to_hex H b = hex_encode H b"

definition hex_to_bytes :: "hex_lib \<Rightarrow> rtext \<Rightarrow> bytes mt_result" where
  "hex_to_bytes H s =
     (case hex_decode H s of
        Inl e \<Rightarrow> Inl (MtValidation (lit ''Invalid hexadecimal string: '' @ e) (lit ''hex_string'')
                   (Some (lit ''Valid hexadecimal string'')))
      | Inr b \<Rightarrow> Inr b)"

definition CHARSET :: rtext where
  "CHARSET = lit ''ABCDEFGHIJKLMNOPQRSTUVWXYZabcdefghijklmnopqrstuvwxyz0123456789''"

text \<open>The random draws are an argument: one value per character, reduced to the range.\<close>

definition generate_random_string :: "(nat \<Rightarrow> nat) \<Rightarrow> nat \<Rightarrow> rtext" where
  "generate_random_string draw n = map (\<lambda>i. CHARSET ! (draw i mod length CHARSET)) [0..<n]"

subsection \<open>Facts\<close>

lemma truncate_string_length: "length (truncate_string s n) \<le> n"
  by (auto simp: truncate_string_def lit_def)

lemma truncate_string_prefix: "take (n - 3) (truncate_string s n) = take (n - 3) s"
  by (auto simp: truncate_string_def lit_def)

lemma truncate_string_id: "truncate_string s n = s \<longleftrightarrow> length s \<le> n"
  using truncate_string_length [of s n] by (auto simp: truncate_string_def)

lemma abbreviate_length: "length (abbreviate v) = min (length v) 9"
  by (auto simp: abbreviate_def)

lemma abbreviate_ends:
  "8 < length v \<Longrightarrow> take 4 (abbreviate v) = take 4 v \<and> drop 5 (abbreviate v) = drop (length v - 4) v"
  by (simp add: abbreviate_def)

lemma hex_to_bytes_encode: "hex_laws H \<Longrightarrow> hex_to_bytes H (bytes_to_hex H b) = Inr b"
  by (simp add: hex_to_bytes_def bytes_to_hex_def hex_laws_decode)

text \<open>Splitting a text at every separator loses nothing and leaves no separator.\<close>

lemma split_on_ne [simp]: "split_on c s \<noteq> []"
  by (induction s) (auto split: list.splits)

lemma split_on_concat: "concat (map (\<lambda>w. c # w) (split_on c s)) = c # s"
  by (induction s) (auto split: list.splits)

lemma split_on_free: "w \<in> set (split_on c s) \<Longrightarrow> c \<notin> set w"
  by (induction s arbitrary: w) (auto split: list.splits if_splits)

lemma split_on_two: "split_on c s = [a, b] \<longleftrightarrow> s = a @ c # b \<and> c \<notin> set a \<and> c \<notin> set b"
proof
  assume "split_on c s = [a, b]"
  then show "s = a @ c # b \<and> c \<notin> set a \<and> c \<notin> set b"
    using split_on_concat [of c s] split_on_free [of _ c s] by auto
next
  have one: "c \<notin> set b \<Longrightarrow> split_on c b = [b]" for b
    by (induction b) auto
  have two: "c \<notin> set a \<Longrightarrow> c \<notin> set b \<Longrightarrow> split_on c (a @ c # b) = [a, b]"
    by (induction a) (auto simp: one)
  then show "s = a @ c # b \<and> c \<notin> set a \<and> c \<notin> set b \<Longrightarrow> split_on c s = [a, b]"
    by simp
qed

lemma is_valid_email_iff:
  "is_valid_email e \<longleftrightarrow>
     (\<exists>u d. e = u @ 64 # d \<and> 64 \<notin> set u \<and> 64 \<notin> set d \<and> u \<noteq> [] \<and>
        46 \<in> set d \<and> hd d \<noteq> 46 \<and> last d \<noteq> 46 \<and> 5 \<le> utf8_len e)"
  (is "_ \<longleftrightarrow> (\<exists>u d. ?parts u d \<and> ?rest u d)")
proof -
  have "is_valid_email e \<longleftrightarrow>
     (\<exists>u d. split_on 64 e = [u, d] \<and> u \<noteq> [] \<and> 46 \<in> set d \<and> hd d \<noteq> 46 \<and> last d \<noteq> 46 \<and>
        5 \<le> utf8_len e \<and> 64 \<in> set e \<and> 46 \<in> set e)"
    by (auto simp: is_valid_email_def split: list.splits)
  also have "\<dots> \<longleftrightarrow> (\<exists>u d. ?parts u d \<and> ?rest u d)"
    unfolding split_on_two by (intro ex_cong1) auto
  finally show ?thesis .
qed

lemma parse_u16_port: "parse_u16 p = Some v \<Longrightarrow> v \<le> 65535"
  using parse_unsigned_le by (fastforce simp: parse_u16_def)

text \<open>A host without brackets, colons or outer blanks, and a decimal port: accepted unless zero.\<close>

lemma host_port_accepted:
  assumes "h \<noteq> []" "58 \<notin> set h" "hd h \<noteq> 91" "\<not> is_whitespace (hd h)" "n \<le> 65535"
  shows "is_valid_host_port (h @ 58 # dec n) \<longleftrightarrow> 0 < n"
proof -
  let ?a = "h @ 58 # dec n"
  have "\<not> is_whitespace (last (dec n))"
    using dec_digits [of "last (dec n)" n] by (auto simp: is_whitespace_def)
  then have "trim ?a = ?a" using assms by (intro trim_id) simp
  moreover have "strip_prefix (lit ''['') ?a = None"
    using assms by (cases h) (auto simp: lit_def)
  moreover have "58 \<notin> set (dec n)" using dec_digits [of 58 n] by auto
  then have "rsplit_once 58 ?a = Some (h, dec n)" by (simp add: rsplit_once_Some)
  ultimately show ?thesis
    using assms by (simp add: is_valid_host_port_def Let_def parse_u16_def parse_unsigned_dec)
qed

lemma generate_random_string_chars:
  "length (generate_random_string draw n) = n \<and> set (generate_random_string draw n) \<subseteq> set CHARSET"
proof -
  have "0 < length CHARSET" by (simp add: CHARSET_def lit_def)
  then show ?thesis by (auto simp: generate_random_string_def)
qed

end
