(* ===== verification/Cli.thy ===== *)
theory Cli
  imports Protocol Utils
begin

section \<open>Command line (\<^verbatim>\<open>meta-text-backend/src/cli.rs\<close>)\<close>

text \<open>
  The parsed arguments and their validation. Parsing itself is the \<^verbatim>\<open>clap\<close> crate. Whether a
  path exists and the platform's data directory are arguments; paths are Unix paths.
\<close>

datatype Transport = TransTcp | TransTox

datatype AppMode = ModeTui | ModeCli | ModeServer | ModeDaemon | ModeCore

datatype LogLevel = LvError | LvWarn | LvInfo | LvDebug | LvTrace

datatype CliCommand = CmdRun

record CliArgs =
  cl_config_path :: rtext
  cl_mode :: AppMode
  cl_log_level :: "LogLevel option"
  cl_headless :: bool
  cl_data_dir :: "rtext option"
  cl_port :: "u16 option"
  cl_bootstrap_node :: "rtext option"
  cl_debug :: bool
  cl_no_encryption :: bool
  cl_max_connections :: nat
  cl_history_limit :: nat
  cl_transport :: Transport
  cl_peers :: "rtext list"
  cl_passphrase :: "rtext option"
  cl_nickname :: "rtext option"
  cl_ipc_listen :: "rtext option"
  cl_ipc_token :: "rtext option"
  cl_ipc_rate :: "nat option"
  cl_ipc_burst :: "nat option"
  cl_command :: "CliCommand option"

definition TOX_ADDRESS_HEX_LEN :: nat where
  "TOX_ADDRESS_HEX_LEN = 76"

definition PUBLIC_KEY_HEX_LEN :: nat where
  "PUBLIC_KEY_HEX_LEN = 64"

fun transport_display :: "Transport \<Rightarrow> rtext" where
  "transport_display TransTcp = lit ''tcp''"
| "transport_display TransTox = lit ''tox''"

definition log_level_parse :: "rtext \<Rightarrow> LogLevel option" where
  "log_level_parse name =
     (let n = to_ascii_lowercase (trim name) in
      if n = lit ''error'' then Some LvError
      else if n = lit ''warn'' \<or> n = lit ''warning'' then Some LvWarn
      else if n = lit ''info'' then Some LvInfo
      else if n = lit ''debug'' then Some LvDebug
      else if n = lit ''trace'' then Some LvTrace
      else None)"

fun as_filter_str :: "LogLevel \<Rightarrow> rtext" where
  "as_filter_str LvError = lit ''error''"
| "as_filter_str LvWarn = lit ''warn''"
| "as_filter_str LvInfo = lit ''info''"
| "as_filter_str LvDebug = lit ''debug''"
| "as_filter_str LvTrace = lit ''trace''"

fun log_level_display :: "LogLevel \<Rightarrow> rtext" where
  "log_level_display LvError = lit ''ERROR''"
| "log_level_display LvWarn = lit ''WARN''"
| "log_level_display LvInfo = lit ''INFO''"
| "log_level_display LvDebug = lit ''DEBUG''"
| "log_level_display LvTrace = lit ''TRACE''"

fun app_mode_display :: "AppMode \<Rightarrow> rtext" where
  "app_mode_display ModeTui = lit ''TUI''"
| "app_mode_display ModeCli = lit ''CLI''"
| "app_mode_display ModeServer = lit ''Server''"
| "app_mode_display ModeDaemon = lit ''Daemon''"
| "app_mode_display ModeCore = lit ''Core''"

definition log_level_override :: "CliArgs \<Rightarrow> LogLevel option" where
  "log_level_override a = (if cl_debug a then Some LvDebug else cl_log_level a)"

definition effective_log_level :: "CliArgs \<Rightarrow> LogLevel" where
  "effective_log_level a = unwrap_or LvInfo (log_level_override a)"

definition effective_mode :: "CliArgs \<Rightarrow> AppMode" where
  "effective_mode a = (case cl_command a of Some CmdRun \<Rightarrow> ModeCli | None \<Rightarrow> cl_mode a)"

definition encryption_enabled :: "CliArgs \<Rightarrow> bool" where
  "encryption_enabled a \<longleftrightarrow> \<not> cl_no_encryption a"

subsection \<open>Paths\<close>

definition path_is_relative :: "rtext \<Rightarrow> bool" where
  "path_is_relative p \<longleftrightarrow> \<not> starts_with p (lit ''/'')"

definition path_join :: "rtext \<Rightarrow> rtext \<Rightarrow> rtext" where
  "path_join dir p =
     (if \<not> path_is_relative p then p
      else if dir = [] \<or> last dir = 47 then dir @ p else dir @ [47] @ p)"

text \<open>Two paths are equal when their components are: separators and inner dots do not count.\<close>

definition path_components :: "rtext \<Rightarrow> bool \<times> bool \<times> rtext list" where
  "path_components p =
     (let parts = split_on 47 p in
      (\<not> path_is_relative p, hd parts = lit ''.'', filter (\<lambda>c. c \<noteq> [] \<and> c \<noteq> lit ''.'') parts))"

definition path_eq :: "rtext \<Rightarrow> rtext \<Rightarrow> bool" where
  "path_eq p q \<longleftrightarrow> path_components p = path_components q"

definition data_directory :: "rtext option \<Rightarrow> CliArgs \<Rightarrow> rtext option" where
  "data_directory system_dir a =
     (case cl_data_dir a of
        Some d \<Rightarrow> Some d
      | None \<Rightarrow> map_option (\<lambda>d. path_join d (lit ''meta-text'')) system_dir)"

subsection \<open>Validation\<close>

definition is_valid_peer_address :: "rtext \<Rightarrow> bool" where
  "is_valid_peer_address = is_valid_host_port"

definition is_valid_tox_address :: "rtext \<Rightarrow> bool" where
  "is_valid_tox_address address =
     (let t = trim address in utf8_len t = TOX_ADDRESS_HEX_LEN \<and> list_all is_ascii_hexdigit t)"

definition is_valid_tox_bootstrap :: "rtext \<Rightarrow> bool" where
  "is_valid_tox_bootstrap v =
     (case rsplit_once 58 (trim v) of
        None \<Rightarrow> False
      | Some (host_port, key) \<Rightarrow>
          (utf8_len key = PUBLIC_KEY_HEX_LEN \<and> list_all is_ascii_hexdigit key) \<and>
          is_valid_peer_address host_port)"

definition peer_problem :: "Transport \<Rightarrow> rtext \<Rightarrow> rtext list" where
  "peer_problem t peer =
     (let valid = (case t of TransTcp \<Rightarrow> is_valid_peer_address peer | TransTox \<Rightarrow> is_valid_tox_address peer);
          expected = (case t of TransTcp \<Rightarrow> lit ''host:port'' | TransTox \<Rightarrow> lit ''a 76 character Tox address'')
      in if valid then []
         else [lit ''Invalid peer address for the '' @ transport_display t @
               lit '' transport (expected '' @ expected @ lit ''): '' @ peer])"

definition bootstrap_problem :: "Transport \<Rightarrow> rtext \<Rightarrow> rtext list" where
  "bootstrap_problem t node =
     (case t of
        TransTcp \<Rightarrow>
          if is_valid_peer_address node then []
          else [lit ''Invalid bootstrap address (expected host:port): '' @ node]
      | TransTox \<Rightarrow>
          if is_valid_tox_bootstrap node then []
          else [lit ''--bootstrap for the tox transport expects host:port:PUBLIC_KEY, where PUBLIC_KEY is 64 hexadecimal characters: ''
                @ node])"

definition cli_problems :: "(rtext \<Rightarrow> bool) \<Rightarrow> CliArgs \<Rightarrow> rtext list" where
  "cli_problems path_exists a =
     (if cl_max_connections a = 0 then [lit ''Maximum connections must be greater than 0''] else []) @
     (if cl_ipc_burst a = Some 0 then [lit ''--ipc-burst must be greater than 0''] else []) @
     (if 1 \<le> cl_history_limit a \<and> cl_history_limit a \<le> MAX_HISTORY_LIMIT then []
      else [lit ''--history-limit must be between 1 and '' @ dec MAX_HISTORY_LIMIT]) @
     concat (map (peer_problem (cl_transport a)) (cl_peers a)) @
     (case cl_bootstrap_node a of None \<Rightarrow> [] | Some node \<Rightarrow> bootstrap_problem (cl_transport a) node) @
     (if \<not> path_eq (cl_config_path a) (lit ''config.toml'') \<and> \<not> path_exists (cl_config_path a)
      then [lit ''Configuration file does not exist: '' @ cl_config_path a] else [])"

definition cli_validate :: "(rtext \<Rightarrow> bool) \<Rightarrow> CliArgs \<Rightarrow> rtext list + unit" where
  "cli_validate path_exists a =
     (let errors = cli_problems path_exists a in if errors = [] then Inr () else Inl errors)"

definition cli_default :: CliArgs where
  "cli_default =
     \<lparr>cl_config_path = lit ''config.toml'', cl_mode = ModeTui, cl_log_level = None, cl_headless = False,
      cl_data_dir = None, cl_port = None, cl_bootstrap_node = None, cl_debug = False,
      cl_no_encryption = False, cl_max_connections = 100, cl_history_limit = DEFAULT_HISTORY_LIMIT,
      cl_transport = TransTcp, cl_peers = [], cl_passphrase = None, cl_nickname = None,
      cl_ipc_listen = None, cl_ipc_token = None, cl_ipc_rate = None, cl_ipc_burst = None,
      cl_command = None\<rparr>"

subsection \<open>Facts\<close>

lemma log_level_parse_as_filter_str: "log_level_parse (as_filter_str l) = Some l"
  by (cases l) (simp_all add: log_level_parse_def Let_def trim_def trim_start_def trim_end_def
      to_ascii_lowercase_def ascii_lower_def is_whitespace_def lit_def)

lemma log_level_parse_display: "log_level_parse (log_level_display l) = Some l"
  by (cases l) (simp_all add: log_level_parse_def Let_def trim_def trim_start_def trim_end_def
      to_ascii_lowercase_def ascii_lower_def is_whitespace_def lit_def)

lemma log_level_parse_trim [simp]: "log_level_parse (trim s) = log_level_parse s"
  by (simp add: log_level_parse_def)

lemma peer_problem_Nil:
  "peer_problem t p = [] \<longleftrightarrow>
     (case t of TransTcp \<Rightarrow> is_valid_host_port p | TransTox \<Rightarrow> is_valid_tox_address p)"
  by (simp add: peer_problem_def Let_def is_valid_peer_address_def split: Transport.splits)

lemma cli_validate_iff:
  "cli_validate ex a = Inr () \<longleftrightarrow>
     0 < cl_max_connections a \<and> cl_ipc_burst a \<noteq> Some 0 \<and>
     1 \<le> cl_history_limit a \<and> cl_history_limit a \<le> MAX_HISTORY_LIMIT \<and>
     (\<forall>p \<in> set (cl_peers a). peer_problem (cl_transport a) p = []) \<and>
     (\<forall>n. cl_bootstrap_node a = Some n \<longrightarrow> bootstrap_problem (cl_transport a) n = []) \<and>
     (path_eq (cl_config_path a) (lit ''config.toml'') \<or> ex (cl_config_path a))"
  by (auto simp: cli_validate_def cli_problems_def Let_def split: option.splits)

lemma cli_default_valid: "cli_validate ex cli_default = Inr ()"
  by (simp add: cli_validate_iff cli_default_def DEFAULT_HISTORY_LIMIT_def MAX_HISTORY_LIMIT_def path_eq_def)

end
