(* ===== verification/Config.thy ===== *)
theory Config
  imports Cli
begin

section \<open>Configuration (\<^verbatim>\<open>meta-text-backend/src/config.rs\<close>)\<close>

text \<open>
  The configuration sections with their defaults, the list of problems a configuration has, and
  the overrides the core applies from the command line (\<^verbatim>\<open>apply_overrides\<close> of
  \<^verbatim>\<open>core.rs\<close>). Reading and writing the file is the \<^verbatim>\<open>toml\<close> crate and the file system.
\<close>

definition MAX_MESSAGE_LENGTH :: nat where "MAX_MESSAGE_LENGTH = 32 * 1024"
definition MAX_AUTO_SAVE_INTERVAL :: nat where "MAX_AUTO_SAVE_INTERVAL = 24 * 60 * 60"
definition MAX_CONNECTION_TIMEOUT :: nat where "MAX_CONNECTION_TIMEOUT = 60 * 60"
definition DEFAULT_KEEPALIVE_INTERVAL :: nat where "DEFAULT_KEEPALIVE_INTERVAL = 20"
definition MIN_KEEPALIVE_INTERVAL :: nat where "MIN_KEEPALIVE_INTERVAL = 1"
definition MAX_IPC_REQUESTS_PER_SECOND :: nat where "MAX_IPC_REQUESTS_PER_SECOND = 100000"
definition MAX_IPC_REQUEST_BURST :: nat where "MAX_IPC_REQUEST_BURST = 1000000"
definition DEFAULT_REQUESTS_PER_SECOND :: nat where "DEFAULT_REQUESTS_PER_SECOND = 256"
definition DEFAULT_REQUEST_BURST :: nat where "DEFAULT_REQUEST_BURST = 512"

definition SUPPORTED_DATABASES :: "rtext list" where
  "SUPPORTED_DATABASES = map lit [''sqlite'', ''postgres'', ''mysql'']"

definition SUPPORTED_ALGORITHMS :: "rtext list" where
  "SUPPORTED_ALGORITHMS = map lit [''ChaCha20-Poly1305'']"

definition SUPPORTED_KDFS :: "rtext list" where
  "SUPPORTED_KDFS = map lit [''Argon2'']"

definition SUPPORTED_THEMES :: "rtext list" where
  "SUPPORTED_THEMES = map lit [''dark'', ''light'']"

definition DEFAULT_MESSAGE_FORMAT :: rtext where
  "DEFAULT_MESSAGE_FORMAT = lit ''[{time}] {sender}: {message}''"

record AppSettings =
  app_name :: rtext
  app_version :: rtext
  app_default_nickname :: rtext
  app_default_status :: rtext
  app_max_friends :: nat
  app_max_message_length :: nat
  app_auto_save_interval :: nat

record NetworkConfig =
  net_port :: u16
  net_bootstrap_nodes :: "rtext list"
  net_connection_timeout :: nat
  net_max_connections :: nat
  net_keepalive_interval :: nat
  net_enable_upnp :: bool
  net_enable_ipv6 :: bool

record DatabaseConfig =
  dbc_type :: rtext
  dbc_connection_string :: rtext
  dbc_max_connections :: nat
  dbc_enable_migrations :: bool

record CryptoConfig =
  cc_enable_encryption :: bool
  cc_algorithm :: rtext
  cc_kdf :: rtext
  cc_key_rotation_days :: nat
  cc_enable_pfs :: bool

record UiConfig =
  ui_theme :: rtext
  ui_enable_colors :: bool
  ui_enable_mouse :: bool
  ui_message_format :: rtext
  ui_auto_scroll :: bool

record LoggingConfig =
  log_level :: rtext
  log_file_path :: rtext
  log_enable_console :: bool
  log_enable_file :: bool
  log_rotation_size_mb :: nat
  log_max_files :: nat

record IpcConfig =
  ipc_requests_per_second :: nat
  ipc_request_burst :: nat

record AppConfig =
  cfg_app :: AppSettings
  cfg_network :: NetworkConfig
  cfg_database :: DatabaseConfig
  cfg_crypto :: CryptoConfig
  cfg_ui :: UiConfig
  cfg_logging :: LoggingConfig
  cfg_ipc :: IpcConfig

definition problem_if :: "bool \<Rightarrow> rtext \<Rightarrow> rtext list" where
  "problem_if b m = (if b then [m] else [])"

text \<open>The debug form of a text without characters to escape.\<close>

definition quoted :: "rtext \<Rightarrow> rtext" where
  "quoted s = [34] @ s @ [34]"

definition debug_list :: "rtext list \<Rightarrow> rtext" where
  "debug_list xs = lit ''['' @ join_with (lit '', '') (map quoted xs) @ lit '']''"

definition supported :: "rtext list \<Rightarrow> rtext \<Rightarrow> bool" where
  "supported names v \<longleftrightarrow> list_ex (\<lambda>n. eq_ignore_ascii_case n (trim v)) names"

definition one_of :: "string \<Rightarrow> rtext list \<Rightarrow> rtext \<Rightarrow> rtext" where
  "one_of field names found =
     lit field @ lit '' must be one of '' @ debug_list names @ lit '', found '' @ [39] @ found @ [39]"

definition app_problems :: "AppSettings \<Rightarrow> rtext list" where
  "app_problems a =
     problem_if (trim (app_name a) = []) (lit ''app.name cannot be empty'') @
     problem_if (trim (app_version a) = []) (lit ''app.version cannot be empty'') @
     problem_if (app_max_friends a = 0) (lit ''app.max_friends must be greater than 0'') @
     problem_if (app_max_message_length a = 0) (lit ''app.max_message_length must be greater than 0'') @
     problem_if (MAX_MESSAGE_LENGTH < app_max_message_length a)
       (lit ''app.max_message_length must be at most '' @ dec MAX_MESSAGE_LENGTH) @
     problem_if (MAX_AUTO_SAVE_INTERVAL < app_auto_save_interval a)
       (lit ''app.auto_save_interval must be at most '' @ dec MAX_AUTO_SAVE_INTERVAL @ lit '' seconds'')"

definition network_problems :: "NetworkConfig \<Rightarrow> rtext list" where
  "network_problems n =
     problem_if (net_max_connections n = 0) (lit ''network.max_connections must be greater than 0'') @
     problem_if (net_enable_upnp n)
       (lit ''network.enable_upnp is not implemented (no UPnP mapping client is linked); set it to false or remove the key'') @
     problem_if (net_connection_timeout n = 0) (lit ''network.connection_timeout must be greater than 0'') @
     problem_if (MAX_CONNECTION_TIMEOUT < net_connection_timeout n)
       (lit ''network.connection_timeout must be at most '' @ dec MAX_CONNECTION_TIMEOUT @ lit '' seconds'') @
     problem_if (net_keepalive_interval n < MIN_KEEPALIVE_INTERVAL)
       (lit ''network.keepalive_interval must be at least '' @ dec MIN_KEEPALIVE_INTERVAL @
        lit '' second, because a connection that is never probed cannot be detected as half-open'') @
     problem_if (DEFAULT_KEEPALIVE_INTERVAL < net_keepalive_interval n)
       (lit ''network.keepalive_interval must be at most '' @ dec DEFAULT_KEEPALIVE_INTERVAL @
        lit '' seconds, the default: it may be shortened to survive a NAT that expires an idle mapping sooner, but a peer enforcing the default idle deadline would drop a slower probe'') @
     concat (map (\<lambda>node. problem_if (\<not> is_valid_host_port node)
       (lit ''network.bootstrap_nodes entry is not a host:port address: '' @ node)) (net_bootstrap_nodes n))"

definition database_problems :: "DatabaseConfig \<Rightarrow> rtext list" where
  "database_problems d =
     problem_if (trim (dbc_connection_string d) = []) (lit ''database.connection_string cannot be empty'') @
     problem_if (dbc_max_connections d = 0) (lit ''database.max_connections must be greater than 0'') @
     problem_if (\<not> supported SUPPORTED_DATABASES (dbc_type d))
       (one_of ''database.database_type'' SUPPORTED_DATABASES (dbc_type d))"

definition crypto_problems :: "CryptoConfig \<Rightarrow> rtext list" where
  "crypto_problems c =
     problem_if (\<not> supported SUPPORTED_ALGORITHMS (cc_algorithm c))
       (one_of ''crypto.algorithm'' SUPPORTED_ALGORITHMS (cc_algorithm c)) @
     problem_if (\<not> supported SUPPORTED_KDFS (cc_kdf c)) (one_of ''crypto.kdf'' SUPPORTED_KDFS (cc_kdf c)) @
     problem_if (cc_key_rotation_days c \<noteq> 0)
       (lit ''crypto.key_rotation_days must be 0 (no rotation): the session key is shared with every peer that has the passphrase and the identity key is what peers pin, so a rotation this end performed on a timer would leave them unable to read what it writes'') @
     problem_if (\<not> cc_enable_pfs c)
       (lit ''crypto.enable_pfs cannot be false: the per-connection key agreement is part of the identity handshake and has no downgrade path; set it to true or remove the key'')"

definition ui_problems :: "UiConfig \<Rightarrow> rtext list" where
  "ui_problems u =
     problem_if (\<not> supported SUPPORTED_THEMES (ui_theme u)) (one_of ''ui.theme'' SUPPORTED_THEMES (ui_theme u)) @
     problem_if (trim (ui_message_format u) \<noteq> DEFAULT_MESSAGE_FORMAT)
       (lit ''ui.message_format is not implemented (the interface renders message lines itself); set it to '' @
        quoted DEFAULT_MESSAGE_FORMAT @ lit '' or remove the key'')"

definition logging_problems :: "LoggingConfig \<Rightarrow> rtext list" where
  "logging_problems l =
     problem_if (log_level_parse (trim (log_level l)) = None)
       (lit ''logging.level must be one of error, warn, info, debug, trace; found '' @ [39] @ log_level l @ [39]) @
     problem_if (log_enable_file l \<and> trim (log_file_path l) = [])
       (lit ''logging.file_path cannot be empty when file logging is enabled'') @
     problem_if (log_rotation_size_mb l = 0) (lit ''logging.rotation_size_mb must be greater than 0'') @
     problem_if (log_max_files l = 0) (lit ''logging.max_files must be greater than 0'')"

definition ipc_problems :: "IpcConfig \<Rightarrow> rtext list" where
  "ipc_problems i =
     problem_if (ipc_request_burst i = 0) (lit ''ipc.request_burst must be greater than 0'') @
     problem_if (MAX_IPC_REQUESTS_PER_SECOND < ipc_requests_per_second i)
       (lit ''ipc.requests_per_second must be at most '' @ dec MAX_IPC_REQUESTS_PER_SECOND) @
     problem_if (MAX_IPC_REQUEST_BURST < ipc_request_burst i)
       (lit ''ipc.request_burst must be at most '' @ dec MAX_IPC_REQUEST_BURST)"

definition problems :: "AppConfig \<Rightarrow> rtext list" where
  "problems c =
     app_problems (cfg_app c) @ network_problems (cfg_network c) @ database_problems (cfg_database c) @
     crypto_problems (cfg_crypto c) @ ui_problems (cfg_ui c) @ logging_problems (cfg_logging c) @
     ipc_problems (cfg_ipc c)"

definition config_validate :: "AppConfig \<Rightarrow> unit mt_result" where
  "config_validate c =
     (let errors = problems c in
      if errors = [] then Inr ()
      else Inl (MtConfiguration (lit ''Configuration validation failed: '' @ join_with (lit '', '') errors) None))"

subsection \<open>Defaults\<close>

definition app_settings_default :: AppSettings where
  "app_settings_default =
     \<lparr>app_name = lit ''metaText'', app_version = lit ''0.4.0'', app_default_nickname = lit ''metaText00'',
      app_default_status = lit ''Keep on Metaverse .......'', app_max_friends = 1024,
      app_max_message_length = 1372, app_auto_save_interval = 300\<rparr>"

definition network_config_default :: NetworkConfig where
  "network_config_default =
     \<lparr>net_port = 33445,
      net_bootstrap_nodes = map lit [''tox.abilinski.com:33445'', ''tox.abilinski.com:3389'',
        ''tox.instinctive.ch:33445'', ''tox.instinctive.ch:3389''],
      net_connection_timeout = 30, net_max_connections = 100,
      net_keepalive_interval = DEFAULT_KEEPALIVE_INTERVAL, net_enable_upnp = False, net_enable_ipv6 = True\<rparr>"

definition database_config_default :: DatabaseConfig where
  "database_config_default =
     \<lparr>dbc_type = lit ''sqlite'', dbc_connection_string = lit ''meta_text.db'', dbc_max_connections = 10,
      dbc_enable_migrations = True\<rparr>"

definition crypto_config_default :: CryptoConfig where
  "crypto_config_default =
     \<lparr>cc_enable_encryption = True, cc_algorithm = lit ''ChaCha20-Poly1305'', cc_kdf = lit ''Argon2'',
      cc_key_rotation_days = 0, cc_enable_pfs = True\<rparr>"

definition ui_config_default :: UiConfig where
  "ui_config_default =
     \<lparr>ui_theme = lit ''dark'', ui_enable_colors = True, ui_enable_mouse = True,
      ui_message_format = DEFAULT_MESSAGE_FORMAT, ui_auto_scroll = True\<rparr>"

definition logging_config_default :: LoggingConfig where
  "logging_config_default =
     \<lparr>log_level = lit ''info'', log_file_path = lit ''logs/meta-text.log'', log_enable_console = True,
      log_enable_file = True, log_rotation_size_mb = 10, log_max_files = 5\<rparr>"

definition ipc_config_default :: IpcConfig where
  "ipc_config_default =
     \<lparr>ipc_requests_per_second = DEFAULT_REQUESTS_PER_SECOND, ipc_request_burst = DEFAULT_REQUEST_BURST\<rparr>"

definition config_default :: AppConfig where
  "config_default =
     \<lparr>cfg_app = app_settings_default, cfg_network = network_config_default,
      cfg_database = database_config_default, cfg_crypto = crypto_config_default,
      cfg_ui = ui_config_default, cfg_logging = logging_config_default, cfg_ipc = ipc_config_default\<rparr>"

subsection \<open>Overrides from the command line\<close>

definition override_database :: "rtext option \<Rightarrow> CliArgs \<Rightarrow> DatabaseConfig \<Rightarrow> DatabaseConfig" where
  "override_database system_dir args d =
     (if eq_ignore_ascii_case (dbc_type d) (lit ''sqlite'') then
        let configured = dbc_connection_string d;
            special = (configured = lit '':memory:'' \<or> starts_with configured (lit ''sqlite:''))
        in if \<not> special \<and> path_is_relative configured then
             (case data_directory system_dir args of
                Some dir \<Rightarrow> d\<lparr>dbc_connection_string := path_join dir configured\<rparr>
              | None \<Rightarrow> d)
           else d
      else d)"

definition override_network :: "CliArgs \<Rightarrow> NetworkConfig \<Rightarrow> NetworkConfig" where
  "override_network args n =
     (let n1 = (case cl_port args of Some p \<Rightarrow> n\<lparr>net_port := p\<rparr> | None \<Rightarrow> n);
          n2 = (if cl_max_connections args \<noteq> 0 then n1\<lparr>net_max_connections := cl_max_connections args\<rparr> else n1)
      in case cl_bootstrap_node args of
           Some node \<Rightarrow>
             if cl_transport args = TransTcp \<and> node \<notin> set (net_bootstrap_nodes n2)
             then n2\<lparr>net_bootstrap_nodes := net_bootstrap_nodes n2 @ [node]\<rparr> else n2
         | None \<Rightarrow> n2)"

definition apply_overrides :: "rtext option \<Rightarrow> AppConfig \<Rightarrow> CliArgs \<Rightarrow> AppConfig" where
  "apply_overrides system_dir c args =
     (let c1 = c\<lparr>cfg_network := override_network args (cfg_network c)\<rparr>;
          c2 = (if cl_no_encryption args
                then c1\<lparr>cfg_crypto := (cfg_crypto c1)\<lparr>cc_enable_encryption := False\<rparr>\<rparr> else c1);
          c3 = (case cl_nickname args of
                  Some n \<Rightarrow> c2\<lparr>cfg_app := (cfg_app c2)\<lparr>app_default_nickname := n\<rparr>\<rparr> | None \<Rightarrow> c2);
          c4 = (if cl_debug args
                then c3\<lparr>cfg_logging := (cfg_logging c3)\<lparr>log_level := lit ''debug''\<rparr>\<rparr> else c3)
      in c4\<lparr>cfg_database := override_database system_dir args (cfg_database c4)\<rparr>)"

subsection \<open>Facts\<close>

lemma problem_if_Nil [simp]: "problem_if b m = [] \<longleftrightarrow> \<not> b"
  by (simp add: problem_if_def)

lemma config_validate_problems: "config_validate c = Inr () \<longleftrightarrow> problems c = []"
  by (simp add: config_validate_def Let_def)

lemma network_problems_Nil:
  "network_problems n = [] \<longleftrightarrow>
     0 < net_max_connections n \<and> \<not> net_enable_upnp n \<and>
     0 < net_connection_timeout n \<and> net_connection_timeout n \<le> MAX_CONNECTION_TIMEOUT \<and>
     1 \<le> net_keepalive_interval n \<and> net_keepalive_interval n \<le> DEFAULT_KEEPALIVE_INTERVAL \<and>
     (\<forall>a \<in> set (net_bootstrap_nodes n). is_valid_host_port a)"
  by (auto simp: network_problems_def MIN_KEEPALIVE_INTERVAL_def)

lemma app_problems_Nil:
  "app_problems a = [] \<longleftrightarrow>
     trim (app_name a) \<noteq> [] \<and> trim (app_version a) \<noteq> [] \<and> 0 < app_max_friends a \<and>
     0 < app_max_message_length a \<and> app_max_message_length a \<le> MAX_MESSAGE_LENGTH \<and>
     app_auto_save_interval a \<le> MAX_AUTO_SAVE_INTERVAL"
  by (auto simp: app_problems_def)

lemma ipc_problems_Nil:
  "ipc_problems i = [] \<longleftrightarrow>
     0 < ipc_request_burst i \<and> ipc_requests_per_second i \<le> MAX_IPC_REQUESTS_PER_SECOND \<and>
     ipc_request_burst i \<le> MAX_IPC_REQUEST_BURST"
  by (auto simp: ipc_problems_def)

lemma default_nodes_valid:
  "is_valid_host_port (lit ''tox.abilinski.com:33445'')" "is_valid_host_port (lit ''tox.abilinski.com:3389'')"
  "is_valid_host_port (lit ''tox.instinctive.ch:33445'')" "is_valid_host_port (lit ''tox.instinctive.ch:3389'')"
  using host_port_accepted [of "lit ''tox.abilinski.com''" 33445] host_port_accepted [of "lit ''tox.abilinski.com''" 3389]
    host_port_accepted [of "lit ''tox.instinctive.ch''" 33445] host_port_accepted [of "lit ''tox.instinctive.ch''" 3389]
  by (simp_all add: lit_def is_whitespace_def dec.simps)

lemma default_parts_valid:
  "app_problems app_settings_default = []" "network_problems network_config_default = []"
  "database_problems database_config_default = []" "crypto_problems crypto_config_default = []"
  "ui_problems ui_config_default = []" "logging_problems logging_config_default = []"
  "ipc_problems ipc_config_default = []"
        apply (simp add: app_problems_Nil app_settings_default_def trim_eq_Nil lit_def is_whitespace_def
      MAX_MESSAGE_LENGTH_def MAX_AUTO_SAVE_INTERVAL_def)
       apply (simp add: network_problems_Nil network_config_default_def default_nodes_valid
      MAX_CONNECTION_TIMEOUT_def DEFAULT_KEEPALIVE_INTERVAL_def)
      apply (simp add: database_problems_def database_config_default_def trim_eq_Nil lit_def
      is_whitespace_def supported_def SUPPORTED_DATABASES_def trim_id)
     apply (simp add: crypto_problems_def crypto_config_default_def lit_def is_whitespace_def
      supported_def SUPPORTED_ALGORITHMS_def SUPPORTED_KDFS_def trim_id)
    apply (simp add: ui_problems_def ui_config_default_def lit_def is_whitespace_def
      supported_def SUPPORTED_THEMES_def DEFAULT_MESSAGE_FORMAT_def trim_id)
   apply (simp add: logging_problems_def logging_config_default_def trim_eq_Nil lit_def is_whitespace_def)
   apply (simp add: log_level_parse_def Let_def to_ascii_lowercase_def ascii_lower_def trim_id is_whitespace_def lit_def)
  apply (simp add: ipc_problems_Nil ipc_config_default_def DEFAULT_REQUESTS_PER_SECOND_def
      DEFAULT_REQUEST_BURST_def MAX_IPC_REQUESTS_PER_SECOND_def MAX_IPC_REQUEST_BURST_def)
  done

lemma config_default_valid: "config_validate config_default = Inr ()"
  by (simp add: config_validate_problems problems_def config_default_def default_parts_valid)

text \<open>The command line always carries a connection limit, so the configured one is never used.\<close>

lemma override_max_connections:
  "cli_validate ex args = Inr () \<Longrightarrow>
   net_max_connections (cfg_network (apply_overrides d c args)) = cl_max_connections args"
  by (auto simp: cli_validate_iff apply_overrides_def Let_def override_network_def split: option.splits)

text \<open>Overrides from valid arguments for the TCP transport keep a valid configuration valid.\<close>

lemma override_network_valid:
  assumes "network_problems n = []" "cli_validate ex args = Inr ()"
  shows "network_problems (override_network args n) = []"
proof -
  have "cl_bootstrap_node args = Some node \<Longrightarrow> cl_transport args = TransTcp \<Longrightarrow> is_valid_host_port node" for node
    using assms(2) by (auto simp: cli_validate_iff bootstrap_problem_def is_valid_peer_address_def split: if_splits)
  then show ?thesis
    using assms
    by (auto simp: network_problems_Nil cli_validate_iff override_network_def Let_def split: option.splits)
qed

lemma path_join_ne: "s \<noteq> [] \<Longrightarrow> path_join d s \<noteq> []"
  by (auto simp: path_join_def)

lemma trim_append_ne: "trim s \<noteq> [] \<Longrightarrow> trim (d @ s) \<noteq> []"
  by (simp add: trim_eq_Nil)

lemma override_database_valid:
  "database_problems d = [] \<Longrightarrow> database_problems (override_database sd args d) = []"
  by (auto simp: database_problems_def override_database_def Let_def path_join_def trim_eq_Nil
      split: option.splits if_splits)

lemma apply_overrides_valid:
  assumes "config_validate c = Inr ()" "cli_validate ex args = Inr ()"
  shows "config_validate (apply_overrides sd c args) = Inr ()"
proof -
  have dbg: "log_level_parse (lit ''debug'') = Some LvDebug"
    using log_level_parse_as_filter_str [of LvDebug] by simp
  have c: "network_problems (cfg_network c) = []" "database_problems (cfg_database c) = []"
    "app_problems (cfg_app c) = []" "crypto_problems (cfg_crypto c) = []" "ui_problems (cfg_ui c) = []"
    "logging_problems (cfg_logging c) = []" "ipc_problems (cfg_ipc c) = []"
    using assms(1) by (simp_all add: config_validate_problems problems_def)
  show ?thesis
    using c override_network_valid [OF c(1) assms(2)] override_database_valid [OF c(2), of sd args] dbg
    by (auto simp: config_validate_problems problems_def apply_overrides_def Let_def app_problems_def
        crypto_problems_def logging_problems_def split: option.splits)
qed

end
