(* ===== verification/Crypto.thy ===== *)
theory Crypto
  imports Config
begin

section \<open>Message encryption (\<^verbatim>\<open>meta-text-backend/src/crypto.rs\<close>)\<close>

text \<open>
  The manager, its key checks, sealing and opening with a nonce in front of the ciphertext, and the
  symmetric contact key. The cipher, the key derivations and the random bytes are parameters: a
  random nonce or key is an argument of the operation that draws it. A sealed payload is the nonce
  followed by what \<open>aead_seal\<close> returns.
\<close>

definition KEY_LENGTH :: nat where "KEY_LENGTH = 32"
definition NONCE_LENGTH :: nat where "NONCE_LENGTH = 12"
definition MIN_SALT_LENGTH :: nat where "MIN_SALT_LENGTH = 8"
definition SALT_LENGTH :: nat where "SALT_LENGTH = 16"

definition ascii_bytes :: "string \<Rightarrow> bytes" where
  "ascii_bytes s = utf8_bytes (lit s)"

definition PASSPHRASE_SALT :: bytes where
  "PASSPHRASE_SALT = ascii_bytes ''metaText-shared-salt''"

definition CONTACT_KEY_LABEL :: bytes where
  "CONTACT_KEY_LABEL = ascii_bytes ''metaText/contact-key/v1''"

definition crypto_error :: "rtext \<Rightarrow> string \<Rightarrow> MetaTextError" where
  "crypto_error m operation = MtCryptographic m (lit operation) None"

definition normalize_identity :: "rtext \<Rightarrow> rtext" where
  "normalize_identity s = to_ascii_uppercase (trim s)"

text \<open>
  The text that names a pair. The source compares the two strings by their UTF-8 bytes, which is
  the order of their code points.
\<close>

definition contact_info :: "rtext \<Rightarrow> rtext \<Rightarrow> rtext" where
  "contact_info own peer =
     (let (low, high) = (if own \<le> peer then (own, peer) else (peer, own)) in low @ [58] @ high)"

definition contact_key :: "crypto_lib \<Rightarrow> bytes \<Rightarrow> rtext \<Rightarrow> rtext \<Rightarrow> bytes mt_result" where
  "contact_key L session_key own_identity peer_identity =
     (let own = normalize_identity own_identity; peer = normalize_identity peer_identity in
      if own = [] \<or> peer = [] then
        Inl (crypto_error (lit ''A contact key needs both identities'') ''contact_key'')
      else case hkdf_sha256 L CONTACT_KEY_LABEL session_key (utf8_bytes (contact_info own peer)) of
        Inl e \<Rightarrow> Inl (crypto_error (lit ''Contact key derivation failed: '' @ e) ''contact_key'')
      | Inr k \<Rightarrow> Inr k)"

definition checked_key :: "bytes \<Rightarrow> string \<Rightarrow> bytes mt_result" where
  "checked_key key operation =
     (if length key \<noteq> KEY_LENGTH then
        Inl (crypto_error (lit ''Expected a '' @ dec KEY_LENGTH @ lit '' byte key, got '' @ dec (length key) @
          lit '' bytes'') operation)
      else Inr key)"

record CryptoManager =
  cm_enabled :: bool
  cm_algorithm :: rtext
  cm_key :: bytes

definition crypto_manager_new :: "CryptoConfig \<Rightarrow> bytes \<Rightarrow> CryptoManager mt_result" where
  "crypto_manager_new config generated =
     Inr \<lparr>cm_enabled = cc_enable_encryption config, cm_algorithm = cc_algorithm config, cm_key = generated\<rparr>"

definition derive_key :: "crypto_lib \<Rightarrow> rtext \<Rightarrow> bytes \<Rightarrow> bytes mt_result" where
  "derive_key L password salt =
     (if length salt < MIN_SALT_LENGTH then
        Inl (crypto_error (lit ''Salt must be at least '' @ dec MIN_SALT_LENGTH @ lit '' bytes long'') ''derive_key'')
      else case argon2 L (utf8_bytes password) salt of
        Inl e \<Rightarrow> Inl (crypto_error (lit ''Failed to derive key: '' @ e) ''derive_key'')
      | Inr k \<Rightarrow> Inr k)"

definition with_key :: "CryptoConfig \<Rightarrow> bytes \<Rightarrow> CryptoManager mt_result" where
  "with_key config key =
     (if length key \<noteq> KEY_LENGTH then
        Inl (crypto_error (lit ''Invalid key length: expected '' @ dec KEY_LENGTH @ lit '' bytes, got '' @
          dec (length key)) ''with_key'')
      else Inr \<lparr>cm_enabled = cc_enable_encryption config, cm_algorithm = cc_algorithm config, cm_key = key\<rparr>)"

definition from_passphrase :: "crypto_lib \<Rightarrow> CryptoConfig \<Rightarrow> rtext \<Rightarrow> CryptoManager mt_result" where
  "from_passphrase L config passphrase =
     (case derive_key L passphrase PASSPHRASE_SALT of
        Inl e \<Rightarrow> Inl e
      | Inr key \<Rightarrow> with_key config key)"

definition key_hex :: "hex_lib \<Rightarrow> CryptoManager \<Rightarrow> rtext" where
  "key_hex H m = hex_encode H (cm_key m)"

definition encrypt_with :: "crypto_lib \<Rightarrow> bytes \<Rightarrow> CryptoManager \<Rightarrow> bytes \<Rightarrow> bytes \<Rightarrow> bytes mt_result" where
  "encrypt_with L nonce m key plaintext =
     (if \<not> cm_enabled m then Inr plaintext
      else case checked_key key ''encrypt'' of
        Inl e \<Rightarrow> Inl e
      | Inr k \<Rightarrow>
          (case aead_seal L k nonce plaintext of
             Inl e \<Rightarrow> Inl (crypto_error (lit ''Encryption failed: '' @ e) ''encrypt'')
           | Inr c \<Rightarrow> Inr (nonce @ c)))"

definition encrypt :: "crypto_lib \<Rightarrow> bytes \<Rightarrow> CryptoManager \<Rightarrow> bytes \<Rightarrow> bytes mt_result" where
  "encrypt L nonce m plaintext = encrypt_with L nonce m (cm_key m) plaintext"

definition decrypt_with :: "crypto_lib \<Rightarrow> CryptoManager \<Rightarrow> bytes \<Rightarrow> bytes \<Rightarrow> bytes mt_result" where
  "decrypt_with L m key payload =
     (if \<not> cm_enabled m then Inr payload
      else if length payload \<le> NONCE_LENGTH then
        Inl (crypto_error (lit ''Ciphertext is too short to contain a nonce'') ''decrypt'')
      else case checked_key key ''decrypt'' of
        Inl e \<Rightarrow> Inl e
      | Inr k \<Rightarrow>
          (case aead_open L k (take NONCE_LENGTH payload) (drop NONCE_LENGTH payload) of
             Inl e \<Rightarrow> Inl (crypto_error (lit ''Decryption failed: '' @ e) ''decrypt'')
           | Inr p \<Rightarrow> Inr p))"

definition decrypt :: "crypto_lib \<Rightarrow> CryptoManager \<Rightarrow> bytes \<Rightarrow> bytes mt_result" where
  "decrypt L m payload = decrypt_with L m (cm_key m) payload"

definition manager_contact_key :: "crypto_lib \<Rightarrow> CryptoManager \<Rightarrow> rtext \<Rightarrow> rtext \<Rightarrow> bytes mt_result" where
  "manager_contact_key L m own peer = contact_key L (cm_key m) own peer"

definition encrypt_string :: "crypto_lib \<Rightarrow> bytes \<Rightarrow> CryptoManager \<Rightarrow> rtext \<Rightarrow> bytes mt_result" where
  "encrypt_string L nonce m s = encrypt L nonce m (utf8_bytes s)"

text \<open>The text of a UTF-8 error is the standard library's; it is an argument.\<close>

definition decrypt_string :: "crypto_lib \<Rightarrow> (bytes \<Rightarrow> rtext) \<Rightarrow> CryptoManager \<Rightarrow> bytes \<Rightarrow> rtext mt_result" where
  "decrypt_string L utf8_error m payload =
     (case decrypt L m payload of
        Inl e \<Rightarrow> Inl e
      | Inr p \<Rightarrow>
          (case from_utf8 p of
             Some s \<Rightarrow> Inr s
           | None \<Rightarrow> Inl (MtCryptographic (lit ''Decrypted payload is not valid UTF-8: '' @ utf8_error p)
                       (lit ''decrypt_string'') (Some (utf8_error p)))))"

subsection \<open>Round trips and refusals\<close>

lemma checked_key_Inr: "checked_key k op = Inr k' \<longleftrightarrow> k' = k \<and> length k = KEY_LENGTH"
  by (auto simp: checked_key_def)

lemma encrypt_with_length:
  assumes "aead_laws L" "length nonce = NONCE_LENGTH" "cm_enabled m" "encrypt_with L nonce m key p = Inr c"
  shows "length c = NONCE_LENGTH + length p + 16"
  using assms by (auto simp: encrypt_with_def aead_laws_def split: sum.splits)

lemma decrypt_encrypt_with:
  assumes "aead_laws L" "length nonce = NONCE_LENGTH" "encrypt_with L nonce m key p = Inr c"
  shows "decrypt_with L m key c = Inr p"
proof (cases "cm_enabled m")
  case False
  then show ?thesis using assms(3) by (simp add: encrypt_with_def decrypt_with_def)
next
  case True
  then obtain d where d: "length key = KEY_LENGTH" "aead_seal L key nonce p = Inr d" "c = nonce @ d"
    using assms(3) by (auto simp: encrypt_with_def checked_key_Inr split: sum.splits)
  then have "aead_open L key nonce d = Inr p" "length d = length p + 16"
    using assms(1) by (auto simp: aead_laws_def)
  then show ?thesis
    using True d assms(2) by (simp add: decrypt_with_def checked_key_def)
qed

lemma decrypt_string_encrypt_string:
  assumes "aead_laws L" "length nonce = NONCE_LENGTH" "valid_text s" "encrypt_string L nonce m s = Inr c"
  shows "decrypt_string L ue m c = Inr s"
  using decrypt_encrypt_with [OF assms(1,2), of m "cm_key m" "utf8_bytes s" c] assms(3,4)
  by (simp add: encrypt_string_def encrypt_def decrypt_string_def decrypt_def from_utf8_utf8_bytes)

lemma manager_key_length:
  "with_key config key = Inr m \<Longrightarrow> length (cm_key m) = KEY_LENGTH"
  "from_passphrase L config pass = Inr m \<Longrightarrow> length (cm_key m) = KEY_LENGTH"
  by (auto simp: with_key_def from_passphrase_def split: sum.splits if_splits)

text \<open>Two ends with one passphrase and one configuration get managers with the same key.\<close>

lemma from_passphrase_shared:
  "from_passphrase L c1 pass = Inr m1 \<Longrightarrow> from_passphrase L c2 pass = Inr m2 \<Longrightarrow> cm_key m1 = cm_key m2"
  by (auto simp: with_key_def from_passphrase_def split: sum.splits if_splits)

subsection \<open>The contact key\<close>

lemma contact_info_sym: "contact_info a b = contact_info b a"
  by (auto simp: contact_info_def)

lemma contact_key_sym: "contact_key L k a b = contact_key L k b a"
  by (auto simp: contact_key_def Let_def contact_info_sym)

lemma ascii_upper_eq: "ascii_lower c = ascii_lower d \<Longrightarrow> ascii_upper c = ascii_upper d"
  by (auto simp: ascii_lower_def ascii_upper_def split: if_splits)

lemma to_ascii_uppercase_cong: "eq_ignore_ascii_case a b \<Longrightarrow> to_ascii_uppercase a = to_ascii_uppercase b"
proof -
  assume "eq_ignore_ascii_case a b"
  then have "map ascii_lower a = map ascii_lower b"
    by (simp add: eq_ignore_ascii_case_def to_ascii_lowercase_def)
  then show ?thesis
    by (auto simp: to_ascii_uppercase_def list_eq_iff_nth_eq dest: map_eq_imp_length_eq
        intro!: ascii_upper_eq)
qed

lemma split_at_colon:
  "58 \<notin> set a \<Longrightarrow> 58 \<notin> set c \<Longrightarrow> a @ 58 # b = c @ 58 # d \<Longrightarrow> a = c \<and> b = (d :: rtext)"
  using split_once_Some [of 58 "a @ 58 # b" a b] split_once_Some [of 58 "a @ 58 # b" c d] by simp

text \<open>Without a colon in the identities, the text names the unordered pair and nothing else.\<close>

lemma contact_info_inj:
  assumes "58 \<notin> set a" "58 \<notin> set b" "58 \<notin> set c" "58 \<notin> set d" "contact_info a b = contact_info c d"
  shows "{a, b} = {c, d}"
proof -
  have low: "\<exists>l h. contact_info x y = l @ 58 # h \<and> {x, y} = {l, h} \<and> (58 \<notin> set x \<longrightarrow> 58 \<notin> set y \<longrightarrow> 58 \<notin> set l)"
    for x y :: rtext
    by (cases "x \<le> y") (auto simp: contact_info_def)
  obtain l h where 1: "contact_info a b = l @ 58 # h" "{a, b} = {l, h}" "58 \<notin> set l"
    using low [of a b] assms(1,2) by blast
  obtain l' h' where 2: "contact_info c d = l' @ 58 # h'" "{c, d} = {l', h'}" "58 \<notin> set l'"
    using low [of c d] assms(3,4) by blast
  have "l = l' \<and> h = h'"
    by (rule split_at_colon [OF 1(3) 2(3)]) (simp add: 1(1) [symmetric] 2(1) [symmetric] assms(5))
  then show ?thesis using 1(2) 2(2) by simp
qed

end
