(* ===== verification/Identity.thy ===== *)
theory Identity
  imports Crypto
begin

section \<open>Network identities and pair keys (\<^verbatim>\<open>meta-text-backend/src/identity.rs\<close>)\<close>

text \<open>
  An identity is an X25519 key pair. \<open>pair_key\<close> mixes three agreements into the key of one
  connection. The identity file is a value of \<open>stored_file\<close>: missing, unreadable or some bytes;
  reading never fails and writing may (\<open>writable\<close>).
\<close>

definition SECRET_LENGTH :: nat where "SECRET_LENGTH = KEY_LENGTH"
definition PUBLIC_KEY_LENGTH :: nat where "PUBLIC_KEY_LENGTH = 32"
definition FINGERPRINT_BYTES :: nat where "FINGERPRINT_BYTES = 16"
definition FINGERPRINT_GROUP :: nat where "FINGERPRINT_GROUP = 4"
definition IDENTITY_VERSION :: u32 where "IDENTITY_VERSION = 1"

definition PAIR_KEY_LABEL :: bytes where
  "PAIR_KEY_LABEL = ascii_bytes ''metaText/contact-key/v2''"

record NetworkIdentity =
  ni_secret :: bytes
  ni_public :: bytes

definition identity_from_secret :: "crypto_lib \<Rightarrow> bytes \<Rightarrow> NetworkIdentity" where
  "identity_from_secret L secret = \<lparr>ni_secret = secret, ni_public = x25519 L secret (x25519_base L)\<rparr>"

text \<open>\<^verbatim>\<open>try_into\<close> an array of fixed length.\<close>

definition exactly :: "nat \<Rightarrow> bytes \<Rightarrow> bytes option" where
  "exactly n bs = (if length bs = n then Some bs else None)"

definition decode_key :: "hex_lib \<Rightarrow> nat \<Rightarrow> rtext \<Rightarrow> bytes option" where
  "decode_key H n s = (case hex_decode H (trim s) of Inl e \<Rightarrow> None | Inr bs \<Rightarrow> exactly n bs)"

definition identity_from_secret_hex :: "crypto_lib \<Rightarrow> hex_lib \<Rightarrow> rtext \<Rightarrow> NetworkIdentity option" where
  "identity_from_secret_hex L H s = map_option (identity_from_secret L) (decode_key H SECRET_LENGTH s)"

definition secret_hex :: "hex_lib \<Rightarrow> NetworkIdentity \<Rightarrow> rtext" where
  "secret_hex H i = hex_encode H (ni_secret i)"

definition public_hex :: "hex_lib \<Rightarrow> NetworkIdentity \<Rightarrow> rtext" where
  "public_hex H i = hex_encode_upper H (ni_public i)"

definition agree :: "crypto_lib \<Rightarrow> NetworkIdentity \<Rightarrow> bytes \<Rightarrow> bytes" where
  "agree L i peer_public = x25519 L (ni_secret i) peer_public"

definition public_key_from_hex :: "hex_lib \<Rightarrow> rtext \<Rightarrow> bytes option" where
  "public_key_from_hex H s = decode_key H PUBLIC_KEY_LENGTH s"

fun chunks :: "nat \<Rightarrow> nat \<Rightarrow> 'a list \<Rightarrow> 'a list list" where
  "chunks 0 n xs = []"
| "chunks (Suc fuel) n xs = (if xs = [] then [] else take n xs # chunks fuel n (drop n xs))"

definition fingerprint :: "crypto_lib \<Rightarrow> hex_lib \<Rightarrow> bytes \<Rightarrow> rtext" where
  "fingerprint L H public_key =
     (let shown = hex_encode_upper H (take FINGERPRINT_BYTES (sha256 L public_key)) in
      join_with (lit ''-'') (chunks (length shown) FINGERPRINT_GROUP shown))"

text \<open>An ephemeral key is the same pair, drawn for one connection.\<close>

type_synonym EphemeralKey = NetworkIdentity

definition ephemeral_from_secret :: "crypto_lib \<Rightarrow> bytes \<Rightarrow> EphemeralKey" where
  "ephemeral_from_secret L secret = \<lparr>ni_secret = secret, ni_public = x25519 L secret (x25519_base L)\<rparr>"

definition pair_info :: "crypto_lib \<Rightarrow> NetworkIdentity \<Rightarrow> EphemeralKey \<Rightarrow> bytes \<Rightarrow> bytes \<Rightarrow> bytes" where
  "pair_info L own_static own_ephemeral peer_static peer_ephemeral =
     (let static_static = agree L own_static peer_static;
          (ephemeral_static, static_ephemeral) =
            (if ni_public own_static \<le> peer_static
             then (x25519 L (ni_secret own_ephemeral) peer_static, agree L own_static peer_ephemeral)
             else (agree L own_static peer_ephemeral, x25519 L (ni_secret own_ephemeral) peer_static))
      in static_static @ ephemeral_static @ static_ephemeral)"

definition pair_key ::
  "crypto_lib \<Rightarrow> bytes \<Rightarrow> NetworkIdentity \<Rightarrow> EphemeralKey \<Rightarrow> bytes \<Rightarrow> bytes \<Rightarrow> bytes mt_result" where
  "pair_key L session_key own_static own_ephemeral peer_static peer_ephemeral =
     (case hkdf_sha256 L PAIR_KEY_LABEL session_key
             (pair_info L own_static own_ephemeral peer_static peer_ephemeral) of
        Inl e \<Rightarrow> Inl (crypto_error (lit ''Pair key derivation failed: '' @ e) ''pair_key'')
      | Inr k \<Rightarrow> Inr k)"

subsection \<open>The identity file\<close>

datatype stored_file = FileMissing | FileUnreadable | FileBytes bytes

record StoredIdentity =
  sti_version :: u32
  sti_secret :: rtext

record 'a json_codec =
  to_json :: "'a \<Rightarrow> rtext + bytes"
  from_json :: "bytes \<Rightarrow> rtext + 'a"

definition identity_load ::
  "crypto_lib \<Rightarrow> hex_lib \<Rightarrow> StoredIdentity json_codec \<Rightarrow> stored_file \<Rightarrow> NetworkIdentity option" where
  "identity_load L H J f =
     (case f of
        FileMissing \<Rightarrow> None
      | FileUnreadable \<Rightarrow> None
      | FileBytes bs \<Rightarrow>
          (case from_json J bs of
             Inl e \<Rightarrow> None
           | Inr stored \<Rightarrow>
               if sti_version stored = IDENTITY_VERSION
               then identity_from_secret_hex L H (sti_secret stored) else None))"

definition identity_store ::
  "hex_lib \<Rightarrow> StoredIdentity json_codec \<Rightarrow> bool \<Rightarrow> NetworkIdentity \<Rightarrow> stored_file \<Rightarrow> bool \<times> stored_file" where
  "identity_store H J writable i f =
     (case to_json J \<lparr>sti_version = IDENTITY_VERSION, sti_secret = secret_hex H i\<rparr> of
        Inl e \<Rightarrow> (False, f)
      | Inr bs \<Rightarrow> if writable then (True, FileBytes bs) else (False, f))"

definition load_or_create ::
  "crypto_lib \<Rightarrow> hex_lib \<Rightarrow> StoredIdentity json_codec \<Rightarrow> bool \<Rightarrow> bytes \<Rightarrow> stored_file
   \<Rightarrow> NetworkIdentity \<times> stored_file" where
  "load_or_create L H J writable random_secret f =
     (case identity_load L H J f of
        Some i \<Rightarrow> (i, f)
      | None \<Rightarrow>
          (let i = identity_from_secret L random_secret in
           (i, snd (identity_store H J writable i f))))"

subsection \<open>Facts\<close>

lemma decode_key_encode:
  "hex_laws H \<Longrightarrow> length b = n \<Longrightarrow>
   decode_key H n (hex_encode H b) = Some b \<and> decode_key H n (hex_encode_upper H b) = Some b"
  by (simp add: decode_key_def trim_hexdigits hex_laws_digits hex_laws_decode exactly_def)

lemma decode_key_SomeD: "decode_key H n s = Some b \<Longrightarrow> length b = n \<and> hex_decode H (trim s) = Inr b"
  by (auto simp: decode_key_def exactly_def split: sum.splits if_splits)

lemma identity_secret_hex:
  assumes "hex_laws H" "length s = SECRET_LENGTH"
  shows "identity_from_secret_hex L H (secret_hex H (identity_from_secret L s)) = Some (identity_from_secret L s)"
  using decode_key_encode [OF assms] by (simp add: identity_from_secret_hex_def secret_hex_def identity_from_secret_def)

text \<open>
  Both ends of a connection derive the same key: the order of the two mixed agreements follows
  the order of the static keys, which the two ends see alike when the keys differ.
\<close>

lemma agree_sym:
  "dh_laws L \<Longrightarrow>
   x25519 L a (x25519 L b (x25519_base L)) = x25519 L b (x25519 L a (x25519_base L))"
  by (simp add: dh_laws_def)

lemma pair_info_sym:
  assumes "dh_laws L" "A = identity_from_secret L a" "B = identity_from_secret L b"
    "EA = ephemeral_from_secret L ea" "EB = ephemeral_from_secret L eb" "ni_public A \<noteq> ni_public B"
  shows "pair_info L A EA (ni_public B) (ni_public EB) = pair_info L B EB (ni_public A) (ni_public EA)"
  using assms(6) agree_sym [OF assms(1), of a b] agree_sym [OF assms(1), of ea b] agree_sym [OF assms(1), of eb a]
  by (auto simp: assms(2-5) pair_info_def agree_def identity_from_secret_def ephemeral_from_secret_def)

lemma pair_key_sym:
  assumes "dh_laws L" "A = identity_from_secret L a" "B = identity_from_secret L b"
    "EA = ephemeral_from_secret L ea" "EB = ephemeral_from_secret L eb" "ni_public A \<noteq> ni_public B"
  shows "pair_key L k A EA (ni_public B) (ni_public EB) = pair_key L k B EB (ni_public A) (ni_public EA)"
  by (simp add: pair_key_def pair_info_sym [OF assms])

text \<open>A stored identity comes back, and a second start finds the first start's identity.\<close>

lemma identity_store_load:
  assumes "hex_laws H" "\<And>s. case to_json J s of Inr bs \<Rightarrow> from_json J bs = Inr s | Inl e \<Rightarrow> True"
    "i = identity_from_secret L s" "length s = SECRET_LENGTH" "identity_store H J w i f = (True, f')"
  shows "identity_load L H J f' = Some i"
proof -
  let ?st = "\<lparr>sti_version = IDENTITY_VERSION, sti_secret = secret_hex H i\<rparr>"
  obtain bs where bs: "to_json J ?st = Inr bs" "f' = FileBytes bs"
    using assms(5) by (auto simp: identity_store_def split: sum.splits if_splits)
  then have "from_json J bs = Inr ?st" using assms(2) [of ?st] by simp
  then show ?thesis
    using bs identity_secret_hex [OF assms(1,4), of L] by (simp add: identity_load_def assms(3))
qed

lemma load_or_create_again:
  assumes "hex_laws H" "\<And>s. case to_json J s of Inr bs \<Rightarrow> from_json J bs = Inr s | Inl e \<Rightarrow> True"
    "\<And>s. \<exists>bs. to_json J s = Inr bs" "length r = SECRET_LENGTH" "load_or_create L H J True r f = (i, f')"
  shows "load_or_create L H J w' r' f' = (i, f')"
proof (cases "identity_load L H J f")
  case (Some j)
  then show ?thesis using assms(5) by (simp add: load_or_create_def)
next
  case None
  then have i: "i = identity_from_secret L r" "f' = snd (identity_store H J True i f)"
    using assms(5) by (auto simp: load_or_create_def Let_def)
  obtain bs where "to_json J \<lparr>sti_version = IDENTITY_VERSION, sti_secret = secret_hex H i\<rparr> = Inr bs"
    using assms(3) by blast
  then have "identity_store H J True i f = (True, f')" using i(2) by (simp add: identity_store_def)
  then show ?thesis
    using identity_store_load [OF assms(1,2) i(1) assms(4)] by (simp add: load_or_create_def)
qed

text \<open>A fingerprint of a 32-byte digest is eight groups of four digits with dashes between.\<close>

lemma length_join_chunks:
  "0 < n \<Longrightarrow> length xs = n * k \<Longrightarrow> k \<le> fuel \<Longrightarrow>
   length (join_with [d] (chunks fuel n xs)) = n * k + (k - 1)"
proof (induction fuel arbitrary: xs k)
  case 0
  then show ?case by simp
next
  case (Suc fuel)
  show ?case
  proof (cases k)
    case 0
    then show ?thesis using Suc.prems by simp
  next
    case (Suc k')
    have IH: "length (join_with [d] (chunks fuel n (drop n xs))) = n * k' + (k' - 1)"
      using Suc Suc.prems by (intro Suc.IH) auto
    have xs: "xs \<noteq> []" "length (take n xs) = n"
      using Suc.prems Suc by auto
    show ?thesis
    proof (cases k')
      case 0
      then have "chunks fuel n (drop n xs) = []"
        using Suc.prems Suc by (cases fuel) auto
      then show ?thesis using xs Suc 0 by simp
    next
      case (Suc k'')
      then obtain c cs where "chunks fuel n (drop n xs) = c # cs"
        using \<open>k = Suc k'\<close> Suc.prems by (cases fuel) auto
      then show ?thesis using xs IH Suc \<open>k = Suc k'\<close> by simp
    qed
  qed
qed

lemma length_fingerprint:
  assumes "hex_laws H" "length (sha256 L pk) = 32"
  shows "length (fingerprint L H pk) = 39"
proof -
  let ?s = "hex_encode_upper H (take FINGERPRINT_BYTES (sha256 L pk))"
  have "length ?s = FINGERPRINT_GROUP * 8"
    using assms hex_laws_length(2) [OF assms(1)] by (simp add: FINGERPRINT_BYTES_def FINGERPRINT_GROUP_def)
  then show ?thesis
    using length_join_chunks [of FINGERPRINT_GROUP ?s 8 "length ?s" 45]
    by (simp add: fingerprint_def Let_def lit_def FINGERPRINT_GROUP_def)
qed

end
