(* ===== verification/Trust.thy ===== *)
theory Trust
  imports Identity
begin

section \<open>Pinned peer identities (\<^verbatim>\<open>meta-text-backend/src/trust.rs\<close>)\<close>

text \<open>
  Trust on first use: the first key a nickname announces is pinned, a different one later is
  reported. The hash map is an association list with distinct keys; \<open>ps_file\<close> is the pin file.
  Unicode lower-casing, the clock and JSON are parameters; a write may fail (\<open>writable\<close>).
\<close>

definition PIN_VERSION :: u32 where "PIN_VERSION = 1"
definition PIN_CAPACITY :: nat where "PIN_CAPACITY = 1024"

datatype PinOutcome = PinFirstSeen | PinKnown | PinChanged rtext | PinRefused

record Pin =
  pin_public_key :: rtext
  pin_first_seen :: u64
  pin_changed :: bool
  pin_change_written :: bool

record PeerIdentity =
  pid_nickname :: rtext
  pid_public_key :: rtext
  pid_fingerprint :: rtext
  pid_changed :: bool

record StoredPin =
  spin_nickname :: rtext
  spin_public_key :: rtext
  spin_first_seen :: u64

record StoredPins =
  spins_version :: u32
  spins_pins :: "StoredPin list"

record PinStore =
  ps_persistent :: bool
  ps_pins :: "(rtext \<times> Pin) list"
  ps_changed :: u64
  ps_refused :: u64
  ps_file :: stored_file

text \<open>What the store uses of its surroundings.\<close>

record pin_env =
  pe_hex :: hex_lib
  pe_crypto :: crypto_lib
  pe_lower :: "rtext \<Rightarrow> rtext"
  pe_json :: "StoredPins json_codec"

definition pin_store_with_path :: "bool \<Rightarrow> stored_file \<Rightarrow> PinStore" where
  "pin_store_with_path persistent f =
     \<lparr>ps_persistent = persistent, ps_pins = [], ps_changed = 0, ps_refused = 0, ps_file = f\<rparr>"

definition pin_store_volatile :: PinStore where
  "pin_store_volatile = pin_store_with_path False FileMissing"

definition normalize_nickname :: "pin_env \<Rightarrow> rtext \<Rightarrow> rtext" where
  "normalize_nickname E n = pe_lower E (trim n)"

definition pinned :: "pin_env \<Rightarrow> PinStore \<Rightarrow> rtext \<Rightarrow> rtext option" where
  "pinned E s n = map_option pin_public_key (map_of (ps_pins s) (normalize_nickname E n))"

definition normalize_key :: "pin_env \<Rightarrow> rtext \<Rightarrow> rtext option" where
  "normalize_key E k = map_option (hex_encode_upper (pe_hex E)) (public_key_from_hex (pe_hex E) k)"

definition fingerprint_of :: "pin_env \<Rightarrow> rtext \<Rightarrow> rtext" where
  "fingerprint_of E k =
     (case public_key_from_hex (pe_hex E) k of
        None \<Rightarrow> k
      | Some b \<Rightarrow> fingerprint (pe_crypto E) (pe_hex E) b)"

subsection \<open>The pin file\<close>

definition snapshot :: "PinStore \<Rightarrow> StoredPins" where
  "snapshot s =
     \<lparr>spins_version = PIN_VERSION,
      spins_pins = sort_key spin_nickname
        (map (\<lambda>(n, p). \<lparr>spin_nickname = n, spin_public_key = pin_public_key p,
                         spin_first_seen = pin_first_seen p\<rparr>) (ps_pins s))\<rparr>"

definition persist :: "pin_env \<Rightarrow> bool \<Rightarrow> PinStore \<Rightarrow> PinStore" where
  "persist E writable s =
     (if \<not> ps_persistent s then s
      else case to_json (pe_json E) (snapshot s) of
        Inl e \<Rightarrow> s
      | Inr bs \<Rightarrow> if writable then s\<lparr>ps_file := FileBytes bs\<rparr> else s)"

definition restore_pin ::
  "pin_env \<Rightarrow> (rtext \<times> Pin) list \<times> nat \<Rightarrow> StoredPin \<Rightarrow> (rtext \<times> Pin) list \<times> nat" where
  "restore_pin E st p =
     (let (pins, dropped) = st; n = normalize_nickname E (spin_nickname p) in
      case normalize_key E (spin_public_key p) of
        None \<Rightarrow> (pins, Suc dropped)
      | Some k \<Rightarrow>
          if n = [] \<or> (PIN_CAPACITY \<le> length pins \<and> map_of pins n = None) then (pins, Suc dropped)
          else (AList.update n \<lparr>pin_public_key = k, pin_first_seen = spin_first_seen p,
                  pin_changed = False, pin_change_written = False\<rparr> pins, dropped))"

definition restore_pins :: "pin_env \<Rightarrow> PinStore \<Rightarrow> PinStore" where
  "restore_pins E s =
     (if \<not> ps_persistent s then s
      else case ps_file s of
        FileMissing \<Rightarrow> s
      | FileUnreadable \<Rightarrow> s
      | FileBytes bs \<Rightarrow>
          (case from_json (pe_json E) bs of
             Inl e \<Rightarrow> s
           | Inr stored \<Rightarrow>
               if spins_version stored = PIN_VERSION then
                 (let (pins, dropped) = foldl (restore_pin E) (ps_pins s, 0) (spins_pins stored) in
                  s\<lparr>ps_pins := pins, ps_refused := ps_refused s + word_of_nat dropped\<rparr>)
               else s))"

definition pin_store_load :: "pin_env \<Rightarrow> stored_file \<Rightarrow> PinStore" where
  "pin_store_load E f = restore_pins E (pin_store_with_path True f)"

subsection \<open>Observing an announcement\<close>

text \<open>The decision under the lock: the outcome, whether to write, and the table.\<close>

definition observe_decide ::
  "u64 \<Rightarrow> rtext \<Rightarrow> rtext \<Rightarrow> (rtext \<times> Pin) list \<Rightarrow> PinOutcome \<times> bool \<times> (rtext \<times> Pin) list" where
  "observe_decide now nickname key pins =
     (case map_of pins nickname of
        Some pin \<Rightarrow>
          if pin_public_key pin = key then (PinKnown, False, pins)
          else
            (let previous = pin_public_key pin; write = \<not> pin_change_written pin in
             (PinChanged previous, write,
              AList.update nickname
                (pin\<lparr>pin_public_key := key, pin_changed := True, pin_change_written := True\<rparr>) pins))
      | None \<Rightarrow>
          if PIN_CAPACITY \<le> length pins then (PinRefused, False, pins)
          else
            (PinFirstSeen, True,
             AList.update nickname \<lparr>pin_public_key = key, pin_first_seen = now, pin_changed = False,
                pin_change_written = False\<rparr> pins))"

definition pin_refuse :: "PinStore \<Rightarrow> PinStore" where
  "pin_refuse s = s\<lparr>ps_refused := ps_refused s + 1\<rparr>"

definition observe ::
  "pin_env \<Rightarrow> bool \<Rightarrow> u64 \<Rightarrow> rtext \<Rightarrow> rtext \<Rightarrow> PinStore \<Rightarrow> PinOutcome \<times> PinStore" where
  "observe E writable now nickname public_key s =
     (let n = normalize_nickname E nickname in
      if n = [] then (PinRefused, pin_refuse s)
      else case normalize_key E public_key of
        None \<Rightarrow> (PinRefused, pin_refuse s)
      | Some key \<Rightarrow>
          (let (outcome, write, pins) = observe_decide now n key (ps_pins s);
               s1 = s\<lparr>ps_pins := pins\<rparr>;
               s2 = (case outcome of
                       PinKnown \<Rightarrow> s1
                     | PinRefused \<Rightarrow> pin_refuse s1
                     | PinFirstSeen \<Rightarrow> if write then persist E writable s1 else s1
                     | PinChanged previous \<Rightarrow>
                         (let s3 = s1\<lparr>ps_changed := ps_changed s1 + 1\<rparr> in
                          if write then persist E writable s3 else s3))
           in (outcome, s2)))"

text \<open>Whether an announcement makes the store write its file.\<close>

definition observe_writes :: "pin_env \<Rightarrow> rtext \<Rightarrow> rtext \<Rightarrow> PinStore \<Rightarrow> bool" where
  "observe_writes E nickname public_key s =
     (let n = normalize_nickname E nickname in
      n \<noteq> [] \<and> (case normalize_key E public_key of
        None \<Rightarrow> False
      | Some key \<Rightarrow> fst (snd (observe_decide 0 n key (ps_pins s)))))"

definition identities :: "pin_env \<Rightarrow> PinStore \<Rightarrow> PeerIdentity list" where
  "identities E s =
     sort_key pid_nickname
       (map (\<lambda>(n, p). \<lparr>pid_nickname = n, pid_public_key = pin_public_key p,
          pid_fingerprint = fingerprint_of E (pin_public_key p), pid_changed = pin_changed p\<rparr>) (ps_pins s))"

subsection \<open>Invariant\<close>

definition pin_ok :: "pin_env \<Rightarrow> rtext \<times> Pin \<Rightarrow> bool" where
  "pin_ok E e \<longleftrightarrow>
     fst e \<noteq> [] \<and> normalize_nickname E (fst e) = fst e \<and>
     normalize_key E (pin_public_key (snd e)) = Some (pin_public_key (snd e)) \<and>
     (pin_change_written (snd e) \<longrightarrow> pin_changed (snd e))"

definition pins_wf :: "pin_env \<Rightarrow> (rtext \<times> Pin) list \<Rightarrow> bool" where
  "pins_wf E pins \<longleftrightarrow> distinct (map fst pins) \<and> length pins \<le> PIN_CAPACITY \<and> list_all (pin_ok E) pins"

text \<open>Normalising a nickname twice changes nothing: true of the standard library's lower-casing.\<close>

definition lower_laws :: "pin_env \<Rightarrow> bool" where
  "lower_laws E \<longleftrightarrow>
     (\<forall>n. normalize_nickname E (normalize_nickname E n) = normalize_nickname E n)"

lemma normalize_key_idem:
  "hex_laws (pe_hex E) \<Longrightarrow> normalize_key E k = Some k' \<Longrightarrow> normalize_key E k' = Some k'"
  using decode_key_encode [of "pe_hex E" _ PUBLIC_KEY_LENGTH]
  by (auto simp: normalize_key_def public_key_from_hex_def dest!: decode_key_SomeD)

lemma update_mem: "(k, v) \<in> set (AList.update n p m) \<Longrightarrow> (k = n \<and> v = p) \<or> (k, v) \<in> set m"
  by (induction m) (auto split: if_splits)

lemma pins_wf_update:
  "pins_wf E pins \<Longrightarrow> pin_ok E (n, p) \<Longrightarrow> map_of pins n \<noteq> None \<or> length pins < PIN_CAPACITY \<Longrightarrow>
   pins_wf E (AList.update n p pins)"
  by (cases "map_of pins n")
    (auto simp: pins_wf_def distinct_update list_all_iff length_update_new length_update_old dest!: update_mem)

lemma pins_wf_lookup: "pins_wf E pins \<Longrightarrow> map_of pins n = Some p \<Longrightarrow> pin_ok E (n, p)"
  by (auto simp: pins_wf_def list_all_iff dest!: map_of_SomeD)

lemma observe_decide_wf:
  assumes "pins_wf E pins" "n \<noteq> []" "normalize_nickname E n = n" "normalize_key E k = Some k"
    "observe_decide now n k pins = (outcome, write, pins')"
  shows "pins_wf E pins'"
  using assms pins_wf_lookup [OF assms(1), of n]
  by (auto simp: observe_decide_def Let_def pin_ok_def split: option.splits if_splits intro!: pins_wf_update)

lemma persist_pins [simp]:
  "ps_pins (persist E w s) = ps_pins s" "ps_changed (persist E w s) = ps_changed s"
  "ps_refused (persist E w s) = ps_refused s" "ps_persistent (persist E w s) = ps_persistent s"
  by (simp_all add: persist_def split: sum.splits)

lemma pin_refuse_simps [simp]:
  "ps_pins (pin_refuse s) = ps_pins s" "ps_changed (pin_refuse s) = ps_changed s"
  "ps_file (pin_refuse s) = ps_file s" "ps_persistent (pin_refuse s) = ps_persistent s"
  "ps_refused (pin_refuse s) = ps_refused s + 1"
  by (simp_all add: pin_refuse_def)

lemma observe_pins:
  "normalize_nickname E n = m \<Longrightarrow> m \<noteq> [] \<Longrightarrow> normalize_key E k = Some key \<Longrightarrow>
   observe_decide now m key (ps_pins s) = (outcome, write, pins) \<Longrightarrow>
   fst (observe E w now n k s) = outcome \<and> ps_pins (snd (observe E w now n k s)) = pins"
  by (auto simp: observe_def Let_def split: PinOutcome.splits)

lemma observe_unusable:
  "normalize_nickname E n = [] \<or> normalize_key E k = None \<Longrightarrow> observe E w now n k s = (PinRefused, pin_refuse s)"
  by (auto simp: observe_def Let_def)

lemma observe_wf:
  assumes "hex_laws (pe_hex E)" "lower_laws E" "pins_wf E (ps_pins s)"
  shows "pins_wf E (ps_pins (snd (observe E w now n k s)))"
proof (cases "normalize_nickname E n = [] \<or> normalize_key E k = None")
  case True
  then show ?thesis using assms(3) by (simp add: observe_unusable)
next
  case False
  then obtain key where k: "normalize_key E k = Some key" by auto
  obtain outcome wr pins
    where d: "observe_decide now (normalize_nickname E n) key (ps_pins s) = (outcome, wr, pins)"
    by (cases "observe_decide now (normalize_nickname E n) key (ps_pins s)") auto
  show ?thesis
    using observe_pins [OF refl _ k d] observe_decide_wf [OF assms(3) _ _ _ d] False
      normalize_key_idem [OF assms(1) k] assms(2)
    by (simp add: lower_laws_def)
qed

subsection \<open>What an announcement does\<close>

lemma observe_other:
  "normalize_nickname E m \<noteq> normalize_nickname E n \<Longrightarrow> pinned E (snd (observe E w now n k s)) m = pinned E s m"
  by (auto simp: observe_def Let_def pinned_def observe_decide_def update_conv'
      split: option.splits if_splits)

lemma observe_outcome:
  assumes "normalize_nickname E n \<noteq> []" "normalize_key E k = Some key"
  shows "fst (observe E w now n k s) =
    (case pinned E s n of
       Some old \<Rightarrow> if old = key then PinKnown else PinChanged old
     | None \<Rightarrow> if PIN_CAPACITY \<le> length (ps_pins s) then PinRefused else PinFirstSeen)"
    and "pinned E (snd (observe E w now n k s)) n =
    (if fst (observe E w now n k s) = PinRefused then pinned E s n else Some key)"
  using assms
  by (auto simp: observe_def Let_def pinned_def observe_decide_def update_conv'
      split: option.splits if_splits)

text \<open>A nickname whose key changed keeps its mark for the rest of the run.\<close>

definition marked :: "pin_env \<Rightarrow> PinStore \<Rightarrow> rtext \<Rightarrow> bool" where
  "marked E s n = (case map_of (ps_pins s) (normalize_nickname E n) of Some p \<Rightarrow> pin_changed p | None \<Rightarrow> False)"

lemma observe_marks:
  "marked E (snd (observe E w now n k s)) m \<longleftrightarrow>
     marked E s m \<or>
     (normalize_nickname E m = normalize_nickname E n \<and> (\<exists>old. fst (observe E w now n k s) = PinChanged old))"
  by (auto simp: observe_def Let_def marked_def observe_decide_def update_conv'
      split: option.splits if_splits)

subsection \<open>Bounded writes\<close>

text \<open>
  Each write uses up a unit of this budget: two for every free place of the table, one for every
  pin whose change is not written yet.
\<close>

definition write_budget :: "(rtext \<times> Pin) list \<Rightarrow> nat" where
  "write_budget pins =
     2 * (PIN_CAPACITY - length pins) + length (filter (\<lambda>e. \<not> pin_change_written (snd e)) pins)"

lemma filter_update_fresh:
  "map_of pins n = None \<Longrightarrow> filter p (AList.update n v pins) = filter p pins @ filter p [(n, v)]"
  by (simp add: update_new_append)

lemma filter_update_written:
  "distinct (map fst pins) \<Longrightarrow> map_of pins n = Some old \<Longrightarrow>
   length (filter (\<lambda>e. \<not> q (snd e)) (AList.update n v pins)) + (if q old then 0 else 1) =
   length (filter (\<lambda>e. \<not> q (snd e)) pins) + (if q v then 0 else 1)"
  by (induction pins) (auto simp: split: if_splits)

lemma observe_decide_budget:
  assumes "pins_wf E pins" "observe_decide now n k pins = (outcome, write, pins')"
  shows "write_budget pins' + (if write then 1 else 0) \<le> write_budget pins"
proof (cases "map_of pins n")
  case None
  then show ?thesis
    using assms by (auto simp: observe_decide_def write_budget_def length_update_new filter_update_fresh split: if_splits)
next
  case (Some p)
  then show ?thesis
    using assms filter_update_written [of pins n p pin_change_written
        "p\<lparr>pin_public_key := k, pin_changed := True, pin_change_written := True\<rparr>"]
    by (auto simp: observe_decide_def Let_def write_budget_def length_update_old pins_wf_def split: if_splits)
qed

lemma observe_decide_write_now:
  "fst (snd (observe_decide now n k pins)) = fst (snd (observe_decide 0 n k pins))"
  by (simp add: observe_decide_def Let_def split: option.splits)

lemma observe_budget:
  assumes "pins_wf E (ps_pins s)"
  shows "write_budget (ps_pins (snd (observe E w now n k s))) + (if observe_writes E n k s then 1 else 0)
     \<le> write_budget (ps_pins s)"
proof (cases "normalize_nickname E n = [] \<or> normalize_key E k = None")
  case True
  then show ?thesis by (auto simp: observe_unusable observe_writes_def Let_def)
next
  case False
  then obtain key where k: "normalize_key E k = Some key" by auto
  obtain outcome wr pins
    where d: "observe_decide now (normalize_nickname E n) key (ps_pins s) = (outcome, wr, pins)"
    by (cases "observe_decide now (normalize_nickname E n) key (ps_pins s)") auto
  have "observe_writes E n k s = wr"
    using False k d observe_decide_write_now [of now "normalize_nickname E n" key "ps_pins s"]
    by (simp add: observe_writes_def Let_def)
  then show ?thesis
    using observe_pins [OF refl _ k d] observe_decide_budget [OF assms d] False by simp
qed

text \<open>A run: announcements in the order they arrive, and the number of file writes they cause.\<close>

type_synonym announcement = "u64 \<times> bool \<times> rtext \<times> rtext"

fun observe_all :: "pin_env \<Rightarrow> announcement list \<Rightarrow> PinStore \<Rightarrow> PinStore \<times> nat" where
  "observe_all E [] s = (s, 0)"
| "observe_all E ((now, w, n, k) # as) s =
     (let (s', writes) = observe_all E as (snd (observe E w now n k s)) in
      (s', writes + (if observe_writes E n k s then 1 else 0)))"

lemma observe_all_budget:
  assumes "hex_laws (pe_hex E)" "lower_laws E"
  shows "pins_wf E (ps_pins s) \<Longrightarrow>
    pins_wf E (ps_pins (fst (observe_all E as s))) \<and>
    write_budget (ps_pins (fst (observe_all E as s))) + snd (observe_all E as s) \<le> write_budget (ps_pins s)"
proof (induction as arbitrary: s)
  case Nil
  then show ?case by simp
next
  case (Cons a as)
  obtain now w n k where a: "a = (now, w, n, k)" by (cases a)
  show ?case
    using Cons.IH [OF observe_wf [OF assms Cons.prems, of w now n k]] observe_budget [OF Cons.prems, of w now n k]
    by (auto simp: a split_beta Let_def)
qed

lemma write_budget_bound: "write_budget pins \<le> 2 * PIN_CAPACITY \<or> PIN_CAPACITY < length pins"
proof -
  have "length (filter (\<lambda>e. \<not> pin_change_written (snd e)) pins) \<le> length pins" by (rule length_filter_le)
  then show ?thesis unfolding write_budget_def by linarith
qed

subsection \<open>The pin file comes back\<close>

definition fresh_pin :: "Pin \<Rightarrow> Pin" where
  "fresh_pin p = p\<lparr>pin_changed := False, pin_change_written := False\<rparr>"

definition stored_of :: "rtext \<times> Pin \<Rightarrow> StoredPin" where
  "stored_of e = \<lparr>spin_nickname = fst e, spin_public_key = pin_public_key (snd e),
     spin_first_seen = pin_first_seen (snd e)\<rparr>"

lemma restore_pin_stored:
  assumes "pin_ok E e" "fst e \<notin> fst ` set pins" "length pins < PIN_CAPACITY"
  shows "restore_pin E (pins, d) (stored_of e) = (pins @ [(fst e, fresh_pin (snd e))], d)"
proof -
  have "map_of pins (fst e) = None" using assms(2) by (simp add: map_of_eq_None_iff)
  then show ?thesis
    using assms by (cases "snd e")
      (simp add: restore_pin_def stored_of_def pin_ok_def fresh_pin_def update_new_append)
qed

lemma restore_pins_stored:
  "list_all (pin_ok E) es \<Longrightarrow> distinct (map fst (pins @ es)) \<Longrightarrow> length pins + length es \<le> PIN_CAPACITY \<Longrightarrow>
   foldl (restore_pin E) (pins, d) (map stored_of es) = (pins @ map (\<lambda>(n, p). (n, fresh_pin p)) es, d)"
proof (induction es arbitrary: pins)
  case Nil
  then show ?case by simp
next
  case (Cons e es)
  have "restore_pin E (pins, d) (stored_of e) = (pins @ [(fst e, fresh_pin (snd e))], d)"
    using Cons.prems by (intro restore_pin_stored) auto
  moreover have "foldl (restore_pin E) (pins @ [(fst e, fresh_pin (snd e))], d) (map stored_of es) =
      ((pins @ [(fst e, fresh_pin (snd e))]) @ map (\<lambda>(n, p). (n, fresh_pin p)) es, d)"
    using Cons.prems by (intro Cons.IH) auto
  ultimately show ?case by (simp add: case_prod_beta)
qed

lemma snapshot_stored:
  "spins_pins (snapshot s) = map stored_of (sort_key fst (ps_pins s))"
proof -
  have "map stored_of (insort_key fst e es) = insort_key spin_nickname (stored_of e) (map stored_of es)" for e es
    by (induction es) (auto simp: stored_of_def)
  then have "sort_key spin_nickname (map stored_of es) = map stored_of (sort_key fst es)" for es
    by (induction es) simp_all
  then show ?thesis by (simp add: snapshot_def case_prod_beta' stored_of_def [abs_def])
qed

text \<open>
  A load of the file a store wrote gives the same keys under the same nicknames, with the marks
  of the run cleared and nothing dropped.
\<close>

lemma load_persisted:
  assumes "pins_wf E (ps_pins s)" "ps_persistent s"
    "to_json (pe_json E) (snapshot s) = Inr bs" "from_json (pe_json E) bs = Inr (snapshot s)"
  shows "map_of (ps_pins (pin_store_load E (ps_file (persist E True s)))) = map_option fresh_pin \<circ> map_of (ps_pins s)"
    and "ps_refused (pin_store_load E (ps_file (persist E True s))) = 0"
proof -
  let ?es = "sort_key fst (ps_pins s)"
  have wf: "list_all (pin_ok E) ?es" "distinct (map fst ?es)" "length ?es \<le> PIN_CAPACITY"
    using assms(1) by (simp_all add: pins_wf_def list_all_iff distinct_map)
  have f: "ps_file (persist E True s) = FileBytes bs"
    using assms(2,3) by (simp add: persist_def)
  have "foldl (restore_pin E) ([], 0) (spins_pins (snapshot s)) = (map (\<lambda>(n, p). (n, fresh_pin p)) ?es, 0)"
    using restore_pins_stored [of E ?es "[]" 0] wf by (simp add: snapshot_stored)
  moreover have "spins_version (snapshot s) = PIN_VERSION" by (simp add: snapshot_def)
  ultimately have l: "pin_store_load E (ps_file (persist E True s)) =
      (pin_store_with_path True (FileBytes bs))\<lparr>ps_pins := map (\<lambda>(n, p). (n, fresh_pin p)) ?es, ps_refused := 0\<rparr>"
    by (simp add: f pin_store_load_def restore_pins_def pin_store_with_path_def assms(4))
  have "map_of ?es = map_of (ps_pins s)"
    using assms(1) by (intro map_of_inject_set [THEN iffD2]) (simp_all add: pins_wf_def distinct_map)
  then show "map_of (ps_pins (pin_store_load E (ps_file (persist E True s)))) = map_option fresh_pin \<circ> map_of (ps_pins s)"
    by (simp add: l map_of_map)
  show "ps_refused (pin_store_load E (ps_file (persist E True s))) = 0"
    by (simp add: l)
qed

text \<open>Whatever a file holds, what is loaded from it is well formed.\<close>

lemma restore_pin_wf:
  assumes "hex_laws (pe_hex E)" "lower_laws E" "pins_wf E pins"
  shows "pins_wf E (fst (restore_pin E (pins, d) p))"
proof (cases "normalize_key E (spin_public_key p)")
  case None
  then show ?thesis using assms(3) by (simp add: restore_pin_def Let_def)
next
  case (Some k)
  have "normalize_key E k = Some k" by (rule normalize_key_idem [OF assms(1) Some])
  then show ?thesis
    using assms(2,3) Some
    by (auto simp: restore_pin_def Let_def pin_ok_def lower_laws_def intro!: pins_wf_update)
qed

lemma restore_fold_wf:
  assumes "hex_laws (pe_hex E)" "lower_laws E"
  shows "pins_wf E (fst st) \<Longrightarrow> pins_wf E (fst (foldl (restore_pin E) st ps))"
proof (induction ps arbitrary: st)
  case Nil
  then show ?case by simp
next
  case (Cons p ps)
  then show ?case using restore_pin_wf [OF assms, of "fst st" "snd st" p] by simp
qed

lemma pin_store_load_wf:
  assumes "hex_laws (pe_hex E)" "lower_laws E"
  shows "pins_wf E (ps_pins (pin_store_load E f))"
proof -
  have e: "pins_wf E []" by (simp add: pins_wf_def)
  have "pins_wf E (fst (foldl (restore_pin E) ([], 0) ps))" for ps
    by (rule restore_fold_wf [OF assms]) (simp add: e)
  then show ?thesis
    using e by (auto simp: pin_store_load_def restore_pins_def pin_store_with_path_def split_beta Let_def
        split: stored_file.splits sum.splits)
qed

end
