(* ===== verification/Validation.thy ===== *)
theory Validation
  imports Protocol External
begin

section \<open>Boundary validation (\<^verbatim>\<open>meta-text-proto/src/ipc/validation.rs\<close>)\<close>

text \<open>
  One function per field a front-end or a peer supplies; each returns the normalised value or an
  \<open>invalid_request\<close> error. The lemmas characterise exactly what is accepted.
\<close>

definition invalid :: "string \<Rightarrow> rtext \<Rightarrow> ErrorInfo" where
  "invalid field reason = error_info_new EcInvalidRequest (lit field @ lit '' '' @ reason)"

definition too_long :: "nat \<Rightarrow> nat \<Rightarrow> string \<Rightarrow> rtext" where
  "too_long n limit unit_name =
     lit ''is '' @ dec n @ lit '' '' @ lit unit_name @ lit '', the limit is '' @ dec limit"

definition validate_nickname :: "rtext \<Rightarrow> ErrorInfo + rtext" where
  "validate_nickname v =
     (let t = trim v in
      if t = [] then Inl (invalid ''nickname'' (lit ''cannot be empty''))
      else if length t > MAX_NICKNAME_LEN then
        Inl (invalid ''nickname'' (too_long (length t) MAX_NICKNAME_LEN ''characters''))
      else if contains_forbidden_control t [] then
        Inl (invalid ''nickname'' (lit ''must not contain control characters''))
      else Inr t)"

definition peer_label :: "rtext \<Rightarrow> rtext option" where
  "peer_label v = (case validate_nickname v of Inl e \<Rightarrow> None | Inr n \<Rightarrow> Some n)"

definition validate_status :: "rtext \<Rightarrow> ErrorInfo + rtext" where
  "validate_status v =
     (let t = trim v in
      if length t > MAX_STATUS_LEN then
        Inl (invalid ''status message'' (too_long (length t) MAX_STATUS_LEN ''characters''))
      else if contains_forbidden_control t [] then
        Inl (invalid ''status message'' (lit ''must not contain control characters''))
      else Inr t)"

definition validate_identifier :: "rtext \<Rightarrow> ErrorInfo + rtext" where
  "validate_identifier v =
     (let t = trim v in
      if t = [] then Inl (invalid ''contact identifier'' (lit ''cannot be empty''))
      else if length t > MAX_IDENTIFIER_LEN then
        Inl (invalid ''contact identifier'' (too_long (length t) MAX_IDENTIFIER_LEN ''characters''))
      else if list_ex is_whitespace t then
        Inl (invalid ''contact identifier'' (lit ''must not contain whitespace''))
      else if contains_forbidden_control t [] then
        Inl (invalid ''contact identifier'' (lit ''must not contain control characters''))
      else Inr t)"

definition validate_note :: "rtext option \<Rightarrow> ErrorInfo + rtext option" where
  "validate_note v =
     (case v of
        None \<Rightarrow> Inr None
      | Some w \<Rightarrow>
          let t = trim w in
          if t = [] then Inr None
          else if length t > MAX_NOTE_LEN then
            Inl (invalid ''contact note'' (too_long (length t) MAX_NOTE_LEN ''characters''))
          else if contains_forbidden_control t [] then
            Inl (invalid ''contact note'' (lit ''must not contain control characters''))
          else Inr (Some t))"

definition validate_message :: "rtext \<Rightarrow> nat \<Rightarrow> ErrorInfo + rtext" where
  "validate_message v max_length =
     (if trim v = [] then Inl (invalid ''message'' (lit ''cannot be empty''))
      else if length v > max_length then
        Inl (invalid ''message'' (too_long (length v) max_length ''characters''))
      else if contains_forbidden_control v ALLOWED_MESSAGE_CONTROLS then
        Inl (invalid ''message'' (lit ''must not contain control characters''))
      else Inr v)"

definition MAX_GROUP_NAME_LEN :: nat where
  "MAX_GROUP_NAME_LEN = 32"

definition validate_group_name :: "rtext \<Rightarrow> ErrorInfo + rtext" where
  "validate_group_name v =
     (let t = trim v in
      if length t > MAX_GROUP_NAME_LEN then
        Inl (invalid ''group name'' (too_long (length t) MAX_GROUP_NAME_LEN ''characters''))
      else if contains_forbidden_control t [] then
        Inl (invalid ''group name'' (lit ''must not contain control characters''))
      else Inr t)"

definition validate_binary :: "hex_lib \<Rightarrow> rtext \<Rightarrow> nat \<Rightarrow> ErrorInfo + bytes" where
  "validate_binary H v max_length =
     (let t = trim v in
      if t = [] then Inl (invalid ''binary body'' (lit ''cannot be empty''))
      else if utf8_len t mod 2 \<noteq> 0 then
        Inl (invalid ''binary body'' (lit ''must have an even number of hexadecimal digits''))
      else case hex_decode H t of
        Inl e \<Rightarrow> Inl (invalid ''binary body'' (lit ''must be hexadecimal (0-9, a-f)''))
      | Inr bs \<Rightarrow>
          if length bs > max_length then
            Inl (invalid ''binary body'' (too_long (length bs) max_length ''bytes''))
          else Inr bs)"

subsection \<open>What is accepted\<close>

text \<open>A label that may be shown: trimmed, without control characters, within a length.\<close>

definition displayable :: "nat \<Rightarrow> rtext \<Rightarrow> bool" where
  "displayable limit t \<longleftrightarrow> trim t = t \<and> length t \<le> limit \<and> (\<forall>c \<in> set t. \<not> is_control c)"

lemma forbidden_none: "contains_forbidden_control t [] \<longleftrightarrow> (\<exists>c \<in> set t. is_control c)"
  by (simp add: contains_forbidden_control_iff)

lemma validate_nickname_Inr:
  "validate_nickname v = Inr n \<longleftrightarrow> n = trim v \<and> n \<noteq> [] \<and> displayable MAX_NICKNAME_LEN n"
  by (auto simp: validate_nickname_def Let_def displayable_def forbidden_none)

lemma peer_label_Some:
  "peer_label v = Some n \<longleftrightarrow> n = trim v \<and> n \<noteq> [] \<and> displayable MAX_NICKNAME_LEN n"
  by (auto simp: peer_label_def validate_nickname_Inr [symmetric] split: sum.splits)

lemma validate_status_Inr: "validate_status v = Inr t \<longleftrightarrow> t = trim v \<and> displayable MAX_STATUS_LEN t"
  by (auto simp: validate_status_def Let_def displayable_def forbidden_none)

lemma validate_identifier_Inr:
  "validate_identifier v = Inr t \<longleftrightarrow>
     t = trim v \<and> t \<noteq> [] \<and> displayable MAX_IDENTIFIER_LEN t \<and> (\<forall>c \<in> set t. \<not> is_whitespace c)"
  by (auto simp: validate_identifier_def Let_def displayable_def forbidden_none list_ex_iff)

lemma validate_group_name_Inr: "validate_group_name v = Inr t \<longleftrightarrow> t = trim v \<and> displayable MAX_GROUP_NAME_LEN t"
  by (auto simp: validate_group_name_def Let_def displayable_def forbidden_none)

lemma validate_note_Inr_Some:
  "validate_note v = Inr (Some t) \<longleftrightarrow>
     (\<exists>w. v = Some w \<and> t = trim w \<and> t \<noteq> [] \<and> displayable MAX_NOTE_LEN t)"
  by (auto simp: validate_note_def Let_def displayable_def forbidden_none split: option.splits)

lemma validate_message_Inr:
  "validate_message v limit = Inr t \<longleftrightarrow>
     t = v \<and> trim v \<noteq> [] \<and> length v \<le> limit \<and>
     (\<forall>c \<in> set v. is_control c \<longrightarrow> c = 10 \<or> c = 9)"
  by (auto simp: validate_message_def contains_forbidden_control_iff ALLOWED_MESSAGE_CONTROLS_def)

lemma validate_binary_InrD:
  "validate_binary H v limit = Inr bs \<Longrightarrow> hex_decode H (trim v) = Inr bs \<and> length bs \<le> limit \<and> trim v \<noteq> []"
  by (auto simp: validate_binary_def Let_def split: if_splits sum.splits)

lemma validate_binary_hex_encode:
  assumes "hex_laws H" "bs \<noteq> []" "length bs \<le> limit"
  shows "validate_binary H (hex_encode H bs) limit = Inr bs"
proof -
  have digits: "list_all is_ascii_hexdigit (hex_encode H bs)"
    by (rule hex_laws_digits [OF assms(1)])
  have "hex_encode H bs \<noteq> []"
    using assms hex_laws_length(1) [of H bs] by force
  moreover have "even (utf8_len (hex_encode H bs))"
    using hex_laws_length(1) [OF assms(1)] by (simp add: utf8_len_hexdigits [OF digits])
  ultimately show ?thesis
    using assms by (simp add: validate_binary_def trim_hexdigits [OF digits] hex_laws_decode)
qed

text \<open>Every refusal is an \<open>invalid_request\<close> error of recoverable severity.\<close>

lemma invalid_fields [simp]:
  "ei_code (invalid f r) = EcInvalidRequest" "ei_severity (invalid f r) = SevRecoverable"
  by (simp_all add: invalid_def error_info_new_def)

end
