(* ===== verification/Network.thy ===== *)
theory Network
  imports Outbox Trust Validation
begin

section \<open>The peer network (\<^verbatim>\<open>meta-text-backend/src/network.rs\<close>)\<close>

text \<open>
  The state the tasks of the network manager share, one definition per method. The peer table,
  the desired peers and the outbox are association lists with distinct keys; \<open>nw_events\<close> is the
  sequence of events sent to the core, oldest first. A method that takes one lock is one atomic
  definition. The clock, fresh secrets and nonces, and whether the identity lock is held by a
  writer are arguments; a poisoned lock is not modelled. A writer's channel closes with its
  connection.
\<close>

definition KEEPALIVE_INTERVAL :: duration where "KEEPALIVE_INTERVAL = secs DEFAULT_KEEPALIVE_INTERVAL"
definition IDLE_TIMEOUT :: duration where "IDLE_TIMEOUT = secs 60"
definition DEFAULT_CONNECT_TIMEOUT :: duration where "DEFAULT_CONNECT_TIMEOUT = secs 5"

record DesiredPeer =
  dp_resolved :: "socket_addr option"
  dp_attempts :: nat

definition desired_default :: DesiredPeer where
  "desired_default = \<lparr>dp_resolved = None, dp_attempts = 0\<rparr>"

record Peer =
  peer_sender :: channel
  peer_nickname :: "rtext option"
  peer_identity :: "rtext option"
  peer_ephemeral :: EphemeralKey
  peer_remote_ephemeral :: "rtext option"
  peer_keepalive_seen :: bool

record Network =
  nw_port :: u16
  nw_bootstrap_nodes :: "rtext list"
  nw_max_connections :: nat
  nw_connect_timeout :: duration
  nw_handshake_timeout :: duration
  nw_idle_timeout :: duration
  nw_keepalive_interval :: duration
  nw_enable_ipv6 :: bool
  nw_started :: bool
  nw_listener_addr :: "socket_addr option"
  nw_crypto :: CryptoManager
  nw_nickname :: rtext
  nw_identity :: "NetworkIdentity option"
  nw_pins :: PinStore
  nw_peers :: "(socket_addr \<times> Peer) list"
  nw_desired :: "(rtext \<times> DesiredPeer) list"
  nw_outbox :: outbox
  nw_outbox_expired :: u64
  nw_frames_dropped :: u64
  nw_greetings_refused :: u64
  nw_next_message_id :: u64
  nw_events :: "AppEvent list"

text \<open>What one step reads of its surroundings.\<close>

record step_ctx =
  sx_now :: instant
  sx_now_ms :: u64
  sx_writable :: bool
  sx_identity_busy :: bool

definition network_new :: "NetworkConfig \<Rightarrow> CryptoManager \<Rightarrow> PinStore \<Rightarrow> Network mt_result" where
  "network_new config crypto pins =
     (let timeout = (if net_connection_timeout config = 0 then DEFAULT_CONNECT_TIMEOUT
                     else secs (net_connection_timeout config)) in
      Inr \<lparr>nw_port = net_port config, nw_bootstrap_nodes = net_bootstrap_nodes config,
        nw_max_connections = net_max_connections config, nw_connect_timeout = timeout,
        nw_handshake_timeout = timeout, nw_idle_timeout = IDLE_TIMEOUT,
        nw_keepalive_interval = (if net_keepalive_interval config = 0 then KEEPALIVE_INTERVAL
                                 else secs (net_keepalive_interval config)),
        nw_enable_ipv6 = net_enable_ipv6 config, nw_started = False, nw_listener_addr = None,
        nw_crypto = crypto, nw_nickname = [], nw_identity = None, nw_pins = pins, nw_peers = [],
        nw_desired = [], nw_outbox = [], nw_outbox_expired = 0, nw_frames_dropped = 0,
        nw_greetings_refused = 0, nw_next_message_id = 1, nw_events = []\<rparr>)"

text \<open>\<open>start\<close>, with the outcome of binding the listener as an argument; \<open>shutdown\<close>.\<close>

definition network_start :: "MetaTextError + socket_addr \<Rightarrow> Network \<Rightarrow> unit mt_result \<times> Network" where
  "network_start bound N =
     (if nw_started N then (Inr (), N)
      else case bound of
        Inl e \<Rightarrow> (Inl e, N)
      | Inr local \<Rightarrow> (Inr (), N\<lparr>nw_listener_addr := Some local, nw_port := sa_port local, nw_started := True\<rparr>))"

definition network_shutdown :: "Network \<Rightarrow> Network" where
  "network_shutdown N =
     N\<lparr>nw_peers := [], nw_desired := [], nw_outbox := [], nw_listener_addr := None, nw_started := False\<rparr>"

definition emit :: "AppEvent \<Rightarrow> Network \<Rightarrow> Network" where
  "emit e N = N\<lparr>nw_events := nw_events N @ [e]\<rparr>"

definition connected_peers :: "Network \<Rightarrow> nat" where
  "connected_peers N = length (nw_peers N)"

definition peer_nicknames :: "Network \<Rightarrow> rtext list" where
  "peer_nicknames N = List.map_filter (\<lambda>(a, p). peer_nickname p) (nw_peers N)"

subsection \<open>Queueing frames\<close>

definition queue_to :: "socket_addr \<Rightarrow> bytes \<Rightarrow> Network \<Rightarrow> bool \<times> Network" where
  "queue_to remote f N =
     (case map_of (nw_peers N) remote of
        None \<Rightarrow> (False, N)
      | Some peer \<Rightarrow>
          (let (sent, ch, dropped) = queue_frame f (peer_sender peer, nw_frames_dropped N) in
           (sent, N\<lparr>nw_peers := AList.update remote (peer\<lparr>peer_sender := ch\<rparr>) (nw_peers N),
                    nw_frames_dropped := dropped\<rparr>)))"

definition peer_senders :: "(Peer \<Rightarrow> bool) \<Rightarrow> Network \<Rightarrow> socket_addr list" where
  "peer_senders keep N = map fst (filter (\<lambda>(a, p). keep p) (nw_peers N))"

text \<open>One frame to several senders, and how many took it.\<close>

fun queue_all :: "socket_addr list \<Rightarrow> bytes \<Rightarrow> Network \<Rightarrow> nat \<times> Network" where
  "queue_all [] f N = (0, N)"
| "queue_all (a # addrs) f N =
     (let (sent, N1) = queue_to a f N; (n, N2) = queue_all addrs f N1 in
      ((if sent then Suc n else n), N2))"

definition dispatch_to ::
  "socket_addr list \<Rightarrow> bytes \<Rightarrow> MessageKind \<Rightarrow> ContentType \<Rightarrow> Network \<Rightarrow> DeliveryReceipt \<times> Network" where
  "dispatch_to senders ciphertext kind content_type N =
     (let message_id = nw_next_message_id N;
          N1 = N\<lparr>nw_next_message_id := message_id + 1\<rparr>;
          (peers, N2) = queue_all senders (encode_message_frame message_id ciphertext kind content_type) N1
      in (\<lparr>dr_message_id = message_id, dr_peers = peers\<rparr>, N2))"

subsection \<open>Announcing this node\<close>

definition hello_frame :: "Network \<Rightarrow> bytes" where
  "hello_frame N = encode_frame FRAME_HELLO (utf8_bytes (nw_nickname N))"

definition identity_frame :: "pin_env \<Rightarrow> Network \<Rightarrow> bytes" where
  "identity_frame E N =
     encode_frame FRAME_IDENTITY
       (utf8_bytes (case nw_identity N of None \<Rightarrow> [] | Some i \<Rightarrow> public_hex (pe_hex E) i))"

definition ephemeral_frame :: "pin_env \<Rightarrow> socket_addr \<Rightarrow> Network \<Rightarrow> bytes option" where
  "ephemeral_frame E remote N =
     map_option (\<lambda>p. encode_frame FRAME_EPHEMERAL (utf8_bytes (public_hex (pe_hex E) (peer_ephemeral p))))
       (map_of (nw_peers N) remote)"

definition announce :: "pin_env \<Rightarrow> socket_addr \<Rightarrow> Network \<Rightarrow> Network" where
  "announce E remote N =
     (let N1 = snd (queue_to remote (hello_frame N) N);
          N2 = snd (queue_to remote (identity_frame E N1) N1)
      in case ephemeral_frame E remote N2 of
           None \<Rightarrow> N2
         | Some f \<Rightarrow> snd (queue_to remote f N2))"

definition set_identity :: "pin_env \<Rightarrow> NetworkIdentity \<Rightarrow> Network \<Rightarrow> Network" where
  "set_identity E i N =
     (let N1 = N\<lparr>nw_identity := Some i\<rparr> in snd (queue_all (map fst (nw_peers N1)) (identity_frame E N1) N1))"

definition set_nickname :: "rtext \<Rightarrow> Network \<Rightarrow> Network" where
  "set_nickname n N =
     (let N1 = N\<lparr>nw_nickname := n\<rparr> in snd (queue_all (map fst (nw_peers N1)) (hello_frame N1) N1))"

definition send_keepalives :: "Network \<Rightarrow> Network" where
  "send_keepalives N =
     snd (queue_all (peer_senders (\<lambda>p. peer_nickname p \<noteq> None) N) (encode_frame FRAME_KEEPALIVE []) N)"

subsection \<open>Keys of a connection\<close>

definition pair_keys ::
  "pin_env \<Rightarrow> bytes \<Rightarrow> NetworkIdentity \<Rightarrow> EphemeralKey option \<Rightarrow> rtext \<Rightarrow> rtext option \<Rightarrow> bytes list" where
  "pair_keys E session_key own own_ephemeral peer_id peer_eph =
     (case (own_ephemeral, public_key_from_hex (pe_hex E) peer_id,
            Option.bind peer_eph (public_key_from_hex (pe_hex E))) of
        (Some oe, Some ps, Some pe) \<Rightarrow>
          (case pair_key (pe_crypto E) session_key own oe ps pe of Inr key \<Rightarrow> [key] | Inl e \<Rightarrow> [])
      | _ \<Rightarrow> []) @
     (case contact_key (pe_crypto E) session_key (public_hex (pe_hex E) own) peer_id of
        Inr key \<Rightarrow> [key] | Inl e \<Rightarrow> [])"

definition nickname_matches :: "rtext \<Rightarrow> Peer \<Rightarrow> bool" where
  "nickname_matches wanted p =
     (case peer_nickname p of None \<Rightarrow> False | Some n \<Rightarrow> to_ascii_lowercase n = wanted)"

definition network_contact_key :: "pin_env \<Rightarrow> step_ctx \<Rightarrow> Network \<Rightarrow> rtext \<Rightarrow> bytes option" where
  "network_contact_key E cx N nickname =
     (let wanted = to_ascii_lowercase (trim nickname) in
      case find (\<lambda>(a, p). nickname_matches wanted p) (nw_peers N) of
        None \<Rightarrow> None
      | Some (a, peer) \<Rightarrow>
          if sx_identity_busy cx then None
          else case (nw_identity N, peer_identity peer) of
            (Some own, Some peer_id) \<Rightarrow>
              (case pair_keys E (cm_key (nw_crypto N)) own (Some (peer_ephemeral peer)) peer_id
                      (peer_remote_ephemeral peer) of
                 [] \<Rightarrow> None
               | k # ks \<Rightarrow> Some k)
          | _ \<Rightarrow> None)"

definition connection_keys :: "pin_env \<Rightarrow> step_ctx \<Rightarrow> socket_addr \<Rightarrow> Network \<Rightarrow> bytes list" where
  "connection_keys E cx remote N =
     (if sx_identity_busy cx then []
      else case nw_identity N of
        None \<Rightarrow> []
      | Some own \<Rightarrow>
          (case map_of (nw_peers N) remote of
             None \<Rightarrow> []
           | Some peer \<Rightarrow>
               (case peer_identity peer of
                  None \<Rightarrow> []
                | Some peer_id \<Rightarrow>
                    pair_keys E (cm_key (nw_crypto N)) own (Some (peer_ephemeral peer)) peer_id
                      (peer_remote_ephemeral peer))))"

fun first_opening :: "crypto_lib \<Rightarrow> CryptoManager \<Rightarrow> bytes list \<Rightarrow> bytes \<Rightarrow> bytes option" where
  "first_opening L m [] c = None"
| "first_opening L m (k # ks) c =
     (case decrypt_with L m k c of Inr p \<Rightarrow> Some p | Inl e \<Rightarrow> first_opening L m ks c)"

definition decrypt_from :: "pin_env \<Rightarrow> step_ctx \<Rightarrow> socket_addr \<Rightarrow> bytes \<Rightarrow> Network \<Rightarrow> bytes mt_result" where
  "decrypt_from E cx remote ciphertext N =
     (case first_opening (pe_crypto E) (nw_crypto N) (connection_keys E cx remote N) ciphertext of
        Some p \<Rightarrow> Inr p
      | None \<Rightarrow> decrypt (pe_crypto E) (nw_crypto N) ciphertext)"

subsection \<open>Sending\<close>

definition broadcast_ciphertext ::
  "bytes \<Rightarrow> MessageKind \<Rightarrow> ContentType \<Rightarrow> Network \<Rightarrow> DeliveryReceipt \<times> Network" where
  "broadcast_ciphertext ciphertext kind content_type N =
     dispatch_to (peer_senders (\<lambda>p. True) N) ciphertext kind content_type N"

definition broadcast ::
  "pin_env \<Rightarrow> bytes \<Rightarrow> bytes \<Rightarrow> MessageKind \<Rightarrow> ContentType \<Rightarrow> Network \<Rightarrow> DeliveryReceipt mt_result \<times> Network" where
  "broadcast E nonce plaintext kind content_type N =
     (case encrypt (pe_crypto E) nonce (nw_crypto N) plaintext of
        Inl e \<Rightarrow> (Inl e, N)
      | Inr c \<Rightarrow> (let (r, N1) = broadcast_ciphertext c kind content_type N in (Inr r, N1)))"

text \<open>\<open>enqueue\<close> with its lock on the outbox.\<close>

definition network_enqueue ::
  "step_ctx \<Rightarrow> rtext \<Rightarrow> u64 \<Rightarrow> bytes \<Rightarrow> MessageKind \<Rightarrow> ContentType \<Rightarrow> Network \<Rightarrow> SendOutcome \<times> Network" where
  "network_enqueue cx nickname message_id ciphertext kind content_type N =
     (let (r, o') = enqueue nickname \<lparr>ob_message_id = message_id, ob_ciphertext = ciphertext,
                       ob_kind = kind, ob_content = content_type, ob_queued_at = sx_now cx\<rparr> (nw_outbox N)
      in (r, N\<lparr>nw_outbox := o'\<rparr>))"

definition send_ciphertext_to_peer ::
  "step_ctx \<Rightarrow> rtext \<Rightarrow> bytes \<Rightarrow> MessageKind \<Rightarrow> ContentType \<Rightarrow> Network \<Rightarrow> SendOutcome \<times> Network" where
  "send_ciphertext_to_peer cx nickname ciphertext kind content_type N =
     (let trimmed = trim nickname in
      if trimmed = [] then (SoDropped, N)
      else
        (let wanted = to_ascii_lowercase trimmed; senders = peer_senders (nickname_matches wanted) N in
         if senders \<noteq> [] then
           (let (r, N1) = dispatch_to senders ciphertext kind content_type N in (SoSent r, N1))
         else
           (let message_id = nw_next_message_id N; N1 = N\<lparr>nw_next_message_id := message_id + 1\<rparr> in
            network_enqueue cx wanted message_id ciphertext kind content_type N1)))"

definition send_to_peer ::
  "pin_env \<Rightarrow> step_ctx \<Rightarrow> bytes \<Rightarrow> rtext \<Rightarrow> bytes \<Rightarrow> MessageKind \<Rightarrow> ContentType \<Rightarrow> Network
   \<Rightarrow> SendOutcome mt_result \<times> Network" where
  "send_to_peer E cx nonce nickname plaintext kind content_type N =
     (case (case network_contact_key E cx N nickname of
              Some key \<Rightarrow> encrypt_with (pe_crypto E) nonce (nw_crypto N) key plaintext
            | None \<Rightarrow> encrypt (pe_crypto E) nonce (nw_crypto N) plaintext) of
        Inl e \<Rightarrow> (Inl e, N)
      | Inr c \<Rightarrow> (let (r, N1) = send_ciphertext_to_peer cx nickname c kind content_type N in (Inr r, N1)))"

definition flush_outbox :: "step_ctx \<Rightarrow> rtext \<Rightarrow> socket_addr \<Rightarrow> Network \<Rightarrow> nat \<times> Network" where
  "flush_outbox cx nickname remote N =
     (let key = to_ascii_lowercase nickname;
          (fresh, expired, o1) = outbox_take (sx_now cx) key (nw_outbox N);
          N1 = N\<lparr>nw_outbox := o1, nw_outbox_expired := nw_outbox_expired N + word_of_nat expired\<rparr>;
          (flushed, remaining, N2) = flush_loop (queue_to remote) fresh N1
      in (flushed, N2\<lparr>nw_outbox := outbox_put_back key remaining (nw_outbox N2)\<rparr>))"

definition network_prune_outbox :: "step_ctx \<Rightarrow> Network \<Rightarrow> Network" where
  "network_prune_outbox cx N =
     (let (o', dropped) = prune_outbox (sx_now cx) (nw_outbox N) in
      N\<lparr>nw_outbox := o', nw_outbox_expired := nw_outbox_expired N + word_of_nat dropped\<rparr>)"

subsection \<open>Connections\<close>

definition desire_peer :: "rtext \<Rightarrow> Network \<Rightarrow> Network" where
  "desire_peer address N =
     (if trim address = [] then N
      else case map_of (nw_desired N) address of
        Some d \<Rightarrow> N
      | None \<Rightarrow> N\<lparr>nw_desired := AList.update address desired_default (nw_desired N)\<rparr>)"

definition mark_resolved :: "rtext \<Rightarrow> socket_addr option \<Rightarrow> Network \<Rightarrow> Network" where
  "mark_resolved address resolved N =
     (let d = unwrap_or desired_default (map_of (nw_desired N) address);
          d1 = d\<lparr>dp_resolved := resolved\<rparr>;
          d2 = (if resolved \<noteq> None then d1\<lparr>dp_attempts := 0\<rparr> else d1)
      in N\<lparr>nw_desired := AList.update address d2 (nw_desired N)\<rparr>)"

definition note_failure :: "rtext \<Rightarrow> Network \<Rightarrow> Network" where
  "note_failure address N =
     N\<lparr>nw_desired := alter address (\<lambda>d. d\<lparr>dp_attempts := min (dp_attempts d + 1) (2 ^ 32 - 1)\<rparr>) (nw_desired N)\<rparr>"

definition desired_peers :: "Network \<Rightarrow> rtext list" where
  "desired_peers N = sort (map fst (nw_desired N))"

definition pending_peers :: "Network \<Rightarrow> nat" where
  "pending_peers N = length (filter (\<lambda>(a, d). dp_resolved d = None) (nw_desired N))"

definition peer_new :: "crypto_lib \<Rightarrow> bytes \<Rightarrow> Peer" where
  "peer_new L secret =
     \<lparr>peer_sender = channel_new, peer_nickname = None, peer_identity = None,
      peer_ephemeral = ephemeral_from_secret L secret, peer_remote_ephemeral = None,
      peer_keepalive_seen = False\<rparr>"

definition register :: "pin_env \<Rightarrow> bytes \<Rightarrow> socket_addr \<Rightarrow> Network \<Rightarrow> Network" where
  "register E secret remote N =
     (let N1 = N\<lparr>nw_peers := AList.update remote (peer_new (pe_crypto E) secret) (nw_peers N)\<rparr>;
          N2 = announce E remote N1
      in emit (AeNetworkEvent (NePeerConnected (socket_display remote) [])) N2)"

text \<open>One accepted stream: rejected at the connection limit.\<close>

definition accept_one :: "pin_env \<Rightarrow> bytes \<Rightarrow> socket_addr \<Rightarrow> Network \<Rightarrow> bool \<times> Network" where
  "accept_one E secret remote N =
     (if nw_max_connections N \<le> connected_peers N then (False, N) else (True, register E secret remote N))"

text \<open>\<open>connect\<close>, with the outcome of dialling as an argument.\<close>

definition connect_peer ::
  "pin_env \<Rightarrow> bytes \<Rightarrow> MetaTextError + socket_addr \<Rightarrow> rtext \<Rightarrow> Network \<Rightarrow> socket_addr mt_result \<times> Network" where
  "connect_peer E secret dialled address N =
     (let N1 = desire_peer address N in
      case dialled of
        Inl e \<Rightarrow> (Inl e, N1)
      | Inr remote \<Rightarrow> (Inr remote, mark_resolved address (Some remote) (register E secret remote N1)))"

fun connect_all ::
  "pin_env \<Rightarrow> (rtext \<times> (MetaTextError + socket_addr) \<times> bytes) list \<Rightarrow> Network \<Rightarrow> nat \<times> Network" where
  "connect_all E [] N = (0, N)"
| "connect_all E ((address, dialled, secret) # as) N =
     (case connect_peer E secret dialled address N of
        (Inr remote, N1) \<Rightarrow> (let (n, N2) = connect_all E as N1 in (Suc n, N2))
      | (Inl e, N1) \<Rightarrow> connect_all E as (note_failure address N1))"

text \<open>
  One pass of \<open>supervise\<close>: prune, then dial every unresolved address; \<open>dial\<close> gives the
  outcome and the fresh secret for each.
\<close>

definition pending_addresses :: "Network \<Rightarrow> rtext list" where
  "pending_addresses N = map fst (filter (\<lambda>(a, d). dp_resolved d = None) (nw_desired N))"

definition supervise_one ::
  "pin_env \<Rightarrow> (rtext \<Rightarrow> (MetaTextError + socket_addr) \<times> bytes) \<Rightarrow> Network \<Rightarrow> rtext \<Rightarrow> Network" where
  "supervise_one E dial N address =
     (case dial address of
        (Inr remote, secret) \<Rightarrow> mark_resolved address (Some remote) (register E secret remote N)
      | (Inl e, secret) \<Rightarrow> note_failure address N)"

definition supervise_pass ::
  "pin_env \<Rightarrow> step_ctx \<Rightarrow> (rtext \<Rightarrow> (MetaTextError + socket_addr) \<times> bytes) \<Rightarrow> Network \<Rightarrow> Network" where
  "supervise_pass E cx dial N =
     (let N1 = network_prune_outbox cx N in foldl (supervise_one E dial) N1 (pending_addresses N1))"

text \<open>What the end of a read loop does.\<close>

definition read_end :: "socket_addr \<Rightarrow> rtext \<Rightarrow> Network \<Rightarrow> Network" where
  "read_end remote reason N =
     (let N1 = N\<lparr>nw_peers := AList.delete remote (nw_peers N)\<rparr>;
          N2 = N1\<lparr>nw_desired := map (\<lambda>(a, d). (a, if dp_resolved d = Some remote
                                               then d\<lparr>dp_resolved := None\<rparr> else d)) (nw_desired N1)\<rparr>
      in emit (AeNetworkEvent (NePeerDisconnected (socket_display remote) reason)) N2)"

subsection \<open>Handling a frame\<close>

definition peer_field :: "socket_addr \<Rightarrow> (Peer \<Rightarrow> 'a option) \<Rightarrow> Network \<Rightarrow> 'a option" where
  "peer_field remote f N = Option.bind (map_of (nw_peers N) remote) f"

definition nickname_of :: "socket_addr \<Rightarrow> Network \<Rightarrow> rtext" where
  "nickname_of remote N = unwrap_or [] (peer_field remote peer_nickname N)"

definition peer_greeted :: "socket_addr \<Rightarrow> Network \<Rightarrow> bool" where
  "peer_greeted remote N \<longleftrightarrow> peer_field remote peer_nickname N \<noteq> None"

definition keepalive_seen :: "socket_addr \<Rightarrow> Network \<Rightarrow> bool" where
  "keepalive_seen remote N \<longleftrightarrow> (case map_of (nw_peers N) remote of None \<Rightarrow> False | Some p \<Rightarrow> peer_keepalive_seen p)"

definition alter_peer :: "socket_addr \<Rightarrow> (Peer \<Rightarrow> Peer) \<Rightarrow> Network \<Rightarrow> Network" where
  "alter_peer remote f N = N\<lparr>nw_peers := alter remote f (nw_peers N)\<rparr>"

definition pin_identity :: "pin_env \<Rightarrow> step_ctx \<Rightarrow> rtext \<Rightarrow> rtext \<Rightarrow> Network \<Rightarrow> Network" where
  "pin_identity E cx nickname public_key N =
     N\<lparr>nw_pins := snd (observe E (sx_writable cx) (sx_now_ms cx) nickname public_key (nw_pins N))\<rparr>"

definition accept_identity :: "pin_env \<Rightarrow> step_ctx \<Rightarrow> socket_addr \<Rightarrow> bytes \<Rightarrow> Network \<Rightarrow> Network" where
  "accept_identity E cx remote payload N =
     (let identity = trim (from_utf8_lossy payload);
          N1 = alter_peer remote (\<lambda>p. p\<lparr>peer_identity := (if identity = [] then None else Some identity)\<rparr>) N
      in if identity = [] then N1
         else (let nickname = nickname_of remote N1 in
               if nickname = [] then N1 else pin_identity E cx nickname identity N1))"

definition accept_ephemeral :: "pin_env \<Rightarrow> socket_addr \<Rightarrow> bytes \<Rightarrow> Network \<Rightarrow> Network" where
  "accept_ephemeral E remote payload N =
     (let announced = trim (from_utf8_lossy payload); parsed = normalize_key E announced in
      alter_peer remote
        (\<lambda>p. if peer_remote_ephemeral p = None then p\<lparr>peer_remote_ephemeral := parsed\<rparr> else p) N)"

definition dispatch_hello :: "pin_env \<Rightarrow> step_ctx \<Rightarrow> socket_addr \<Rightarrow> bytes \<Rightarrow> Network \<Rightarrow> Network" where
  "dispatch_hello E cx remote payload N =
     (case peer_label (from_utf8_lossy payload) of
        None \<Rightarrow> N\<lparr>nw_greetings_refused := nw_greetings_refused N + 1\<rparr>
      | Some nickname \<Rightarrow>
          (let N1 = alter_peer remote (\<lambda>p. p\<lparr>peer_nickname := Some nickname\<rparr>) N;
               N2 = (case peer_field remote peer_identity N1 of
                       None \<Rightarrow> N1
                     | Some identity \<Rightarrow> pin_identity E cx nickname identity N1);
               N3 = snd (flush_outbox cx nickname remote N2)
           in emit (AeNetworkEvent (NePeerConnected (socket_display remote) [(lit ''nickname'', nickname)])) N3))"

definition dispatch_message ::
  "pin_env \<Rightarrow> step_ctx \<Rightarrow> MessageKind \<Rightarrow> ContentType \<Rightarrow> socket_addr \<Rightarrow> bytes \<Rightarrow> Network \<Rightarrow> Network" where
  "dispatch_message E cx kind content_type remote payload N =
     (case decode_message_id payload of
        None \<Rightarrow> N
      | Some message_id \<Rightarrow>
          (case decrypt_from E cx remote (drop MESSAGE_ID_LEN payload) N of
             Inl e \<Rightarrow> N
           | Inr plaintext \<Rightarrow>
               (let N1 = emit (AeMessageReceived (nickname_of remote N) (socket_display remote) plaintext
                                 kind content_type) N
                in snd (queue_to remote (encode_frame FRAME_ACK (to_be_bytes64 message_id)) N1))))"

definition dispatch_ack :: "socket_addr \<Rightarrow> bytes \<Rightarrow> Network \<Rightarrow> Network" where
  "dispatch_ack remote payload N =
     (case decode_message_id payload of
        None \<Rightarrow> N
      | Some message_id \<Rightarrow>
          emit (AeMessageDelivered (nickname_of remote N) (socket_display remote) message_id) N)"

definition dispatch :: "pin_env \<Rightarrow> step_ctx \<Rightarrow> u8 \<Rightarrow> bytes \<Rightarrow> socket_addr \<Rightarrow> Network \<Rightarrow> Network" where
  "dispatch E cx kind payload remote N =
     (if kind = FRAME_HELLO then dispatch_hello E cx remote payload N
      else if kind = FRAME_IDENTITY then accept_identity E cx remote payload N
      else if kind = FRAME_EPHEMERAL then accept_ephemeral E remote payload N
      else if kind \<in> {FRAME_MESSAGE, FRAME_ACTION, FRAME_BINARY} then
        (case message_attributes_of kind of
           None \<Rightarrow> N
         | Some (k, t) \<Rightarrow> dispatch_message E cx k t remote payload N)
      else if kind = FRAME_ACK then dispatch_ack remote payload N
      else if kind = FRAME_KEEPALIVE then alter_peer remote (\<lambda>p. p\<lparr>peer_keepalive_seen := True\<rparr>) N
      else N)"

subsection \<open>The read loop and its deadlines\<close>

text \<open>
  The input of a read loop is the sequence of what \<open>read_frame\<close> returns, each with the moment it
  does and the surroundings of that moment. A read that is not done by the deadline is abandoned;
  one that is done at the deadline still counts.
\<close>

record read_state =
  rd_greeting :: "instant option"
  rd_last :: instant
  rd_armed :: bool

definition read_state_new :: "instant \<Rightarrow> Network \<Rightarrow> read_state" where
  "read_state_new now N = \<lparr>rd_greeting = Some (now + nw_handshake_timeout N), rd_last = now, rd_armed = False\<rparr>"

definition read_deadline :: "Network \<Rightarrow> read_state \<Rightarrow> instant option" where
  "read_deadline N r =
     (case rd_greeting r of
        Some d \<Rightarrow> Some d
      | None \<Rightarrow> if rd_armed r then Some (rd_last r + nw_idle_timeout N) else None)"

datatype read_status = ReadEnded instant rtext | ReadPending

definition timeout_reason :: "read_state \<Rightarrow> rtext" where
  "timeout_reason r =
     (if rd_greeting r \<noteq> None then lit ''no greeting within the deadline''
      else lit ''no traffic within the idle timeout'')"

type_synonym read_input = "step_ctx \<times> (io_error + (u8 \<times> bytes) option)"

definition read_next :: "socket_addr \<Rightarrow> instant \<Rightarrow> read_state \<Rightarrow> Network \<Rightarrow> read_state" where
  "read_next remote now r N =
     \<lparr>rd_greeting = (if rd_greeting r \<noteq> None \<and> peer_greeted remote N then None else rd_greeting r),
      rd_last = now,
      rd_armed = (if rd_armed r then True else keepalive_seen remote N)\<rparr>"

text \<open>\<open>until\<close> is how long the loop is watched after the last input: a deadline before it passes.\<close>

fun read_loop ::
  "pin_env \<Rightarrow> socket_addr \<Rightarrow> instant \<Rightarrow> read_input list \<Rightarrow> read_state \<Rightarrow> Network \<Rightarrow> read_status \<times> Network" where
  "read_loop E remote until [] r N =
     (case read_deadline N r of
        None \<Rightarrow> (ReadPending, N)
      | Some d \<Rightarrow>
          if d < until then (ReadEnded d (timeout_reason r), read_end remote (timeout_reason r) N)
          else (ReadPending, N))"
| "read_loop E remote until ((cx, result) # inputs) r N =
     (if (case read_deadline N r of None \<Rightarrow> False | Some d \<Rightarrow> d < sx_now cx) then
        (ReadEnded (unwrap_or 0 (read_deadline N r)) (timeout_reason r), read_end remote (timeout_reason r) N)
      else case result of
        Inr (Some (kind, payload)) \<Rightarrow>
          (let N1 = dispatch E cx kind payload remote N in
           read_loop E remote until inputs (read_next remote (sx_now cx) r N1) N1)
      | Inr None \<Rightarrow>
          (ReadEnded (sx_now cx) (lit ''connection closed''), read_end remote (lit ''connection closed'') N)
      | Inl e \<Rightarrow> (ReadEnded (sx_now cx) (lit ''read error''), read_end remote (lit ''read error'') N))"

end
