(* ===== verification/Sockets.thy ===== *)
theory Sockets
  imports Network "HOL-Library.Sublist"
begin

section \<open>Sockets and their tasks (\<^verbatim>\<open>meta-text-backend/src/network.rs\<close>)\<close>

text \<open>
  What stands between the state of the network manager and the operating system: opening the
  listener, dialling, the accept loop, the keepalive loop and the loop that writes one connection's
  queue. What the operating system answers is an argument of each.
\<close>

subsection \<open>The listener\<close>

text \<open>The calls of \<open>bind_listener\<close> and \<open>start\<close>; a text is the error of a call.\<close>

record listen_ops =
  lo_socket :: "rtext option"
  lo_set_only_v6 :: "rtext option"
  lo_set_reuse_address :: "rtext option"
  lo_set_nonblocking_v6 :: "rtext option"
  lo_bind_v6 :: "socket_addr \<Rightarrow> rtext option"
  lo_listen :: "rtext option"
  lo_bind_v4 :: "socket_addr \<Rightarrow> rtext option"
  lo_set_nonblocking_v4 :: "rtext option"
  lo_from_std :: "rtext option"
  lo_local_addr :: "socket_addr \<Rightarrow> rtext + socket_addr"

fun first_fault :: "rtext option list \<Rightarrow> rtext option" where
  "first_fault [] = None"
| "first_fault (Some e # fs) = Some e"
| "first_fault (None # fs) = first_fault fs"

definition any_v6 :: "u16 \<Rightarrow> socket_addr" where
  "any_v6 port = \<lparr>sa_ip = IpV6 [0, 0, 0, 0, 0, 0, 0, 0], sa_port = port\<rparr>"

definition any_v4 :: "u16 \<Rightarrow> socket_addr" where
  "any_v4 port = \<lparr>sa_ip = IpV4 [0, 0, 0, 0], sa_port = port\<rparr>"

definition dual_stack_listener :: "listen_ops \<Rightarrow> u16 \<Rightarrow> rtext + socket_addr" where
  "dual_stack_listener ops port =
     (case first_fault [lo_socket ops, lo_set_only_v6 ops, lo_set_reuse_address ops, lo_set_nonblocking_v6 ops,
                        lo_bind_v6 ops (any_v6 port), lo_listen ops] of
        Some e \<Rightarrow> Inl e
      | None \<Rightarrow> Inr (any_v6 port))"

definition bind_listener :: "listen_ops \<Rightarrow> u16 \<Rightarrow> bool \<Rightarrow> socket_addr mt_result" where
  "bind_listener ops port enable_ipv6 =
     (case (if enable_ipv6 then dual_stack_listener ops port else Inl []) of
        Inr bound \<Rightarrow> Inr bound
      | Inl _ \<Rightarrow>
          (let bind_addr = any_v4 port in
           case lo_bind_v4 ops bind_addr of
             Some e \<Rightarrow> Inl (MtNetwork (lit ''Failed to bind '' @ socket_display bind_addr @ lit '': '' @ e)
                              (lit ''bind'') (Some e))
           | None \<Rightarrow>
               (case lo_set_nonblocking_v4 ops of
                  Some e \<Rightarrow> Inl (MtNetwork (lit ''Failed to make the listener non-blocking: '' @ e)
                                   (lit ''bind'') (Some e))
                | None \<Rightarrow> Inr bind_addr)))"

definition open_listener :: "listen_ops \<Rightarrow> Network \<Rightarrow> socket_addr mt_result" where
  "open_listener ops N =
     (case bind_listener ops (nw_port N) (nw_enable_ipv6 N) of
        Inl e \<Rightarrow> Inl e
      | Inr bound \<Rightarrow>
          (case lo_from_std ops of
             Some e \<Rightarrow> Inl (MtNetwork (lit ''Failed to register the listener: '' @ e) (lit ''listen'') (Some e))
           | None \<Rightarrow>
               (case lo_local_addr ops bound of
                  Inl e \<Rightarrow> Inl (MtNetwork (lit ''Failed to read the local address: '' @ e) (lit ''local_addr'') (Some e))
                | Inr local \<Rightarrow> Inr local)))"

definition network_listen :: "listen_ops \<Rightarrow> Network \<Rightarrow> unit mt_result \<times> Network" where
  "network_listen ops N = network_start (open_listener ops N) N"

subsection \<open>Dialling and accepting\<close>

datatype tcp_connect = TcpTimeout | TcpRefused rtext | TcpOpen socket_addr

definition dial :: "tcp_connect \<Rightarrow> rtext \<Rightarrow> socket_addr mt_result" where
  "dial outcome address =
     (case outcome of
        TcpTimeout \<Rightarrow> Inl (MtNetwork (lit ''Timed out connecting to '' @ address) (lit ''connect'') None)
      | TcpRefused e \<Rightarrow> Inl (MtNetwork (lit ''Failed to connect to '' @ address @ lit '': '' @ e) (lit ''connect'') (Some e))
      | TcpOpen remote \<Rightarrow> Inr remote)"

text \<open>The accept loop over a sequence of accepted streams, each with the secret drawn for it.\<close>

fun accept_loop :: "pin_env \<Rightarrow> (rtext + socket_addr \<times> bytes) list \<Rightarrow> Network \<Rightarrow> Network" where
  "accept_loop E [] N = N"
| "accept_loop E (Inl e # as) N = accept_loop E as N"
| "accept_loop E (Inr (remote, secret) # as) N = accept_loop E as (snd (accept_one E secret remote N))"

text \<open>The keepalive loop after \<open>n\<close> ticks: the first one is immediate and sends nothing.\<close>

fun keepalive_loop :: "nat \<Rightarrow> Network \<Rightarrow> Network" where
  "keepalive_loop 0 N = N"
| "keepalive_loop (Suc 0) N = N"
| "keepalive_loop (Suc (Suc n)) N = send_keepalives (keepalive_loop (Suc n) N)"

subsection \<open>The write loop\<close>

text \<open>
  \<open>write_loop\<close> writes the queued frames until one fails. A link is the queue of one connection with
  its write loop: frames are queued while others are written, and once a write failed the receiver
  is gone, so that the queue is closed and what it held is lost.
\<close>

fun write_loop :: "bytes list \<Rightarrow> sink \<Rightarrow> sink" where
  "write_loop [] k = k"
| "write_loop (f # fs) k =
     (case write_all f k of
        (Inr _, k') \<Rightarrow> write_loop fs k'
      | (Inl e, k') \<Rightarrow> k')"

record link =
  lk_channel :: channel
  lk_dropped :: u64
  lk_sink :: sink

datatype link_event = LinkQueue "u8 \<times> bytes" | LinkWrite

definition link_new :: "sink \<Rightarrow> link" where
  "link_new k = \<lparr>lk_channel = channel_new, lk_dropped = 0, lk_sink = k\<rparr>"

text \<open>One event; the first component tells whether a frame was accepted into the queue.\<close>

definition link_step :: "link_event \<Rightarrow> link \<Rightarrow> bool \<times> link" where
  "link_step ev L =
     (case ev of
        LinkQueue f \<Rightarrow>
          (case queue_frame (peer_frame f) (lk_channel L, lk_dropped L) of
             (ok, ch, n) \<Rightarrow> (ok, L\<lparr>lk_channel := ch, lk_dropped := n\<rparr>))
      | LinkWrite \<Rightarrow>
          (case ch_items (lk_channel L) of
             [] \<Rightarrow> (False, L)
           | f # fs \<Rightarrow>
               (case write_all f (lk_sink L) of
                  (Inr _, k) \<Rightarrow> (False, L\<lparr>lk_channel := (lk_channel L)\<lparr>ch_items := fs\<rparr>, lk_sink := k\<rparr>)
                | (Inl e, k) \<Rightarrow> (False, L\<lparr>lk_channel := \<lparr>ch_items = [], ch_open = False\<rparr>, lk_sink := k\<rparr>))))"

fun link_run :: "link_event list \<Rightarrow> link \<Rightarrow> (u8 \<times> bytes) list \<times> link" where
  "link_run [] L = ([], L)"
| "link_run (ev # evs) L =
     (case link_step ev L of
        (ok, L1) \<Rightarrow>
          (case link_run evs L1 of
             (accepted, L2) \<Rightarrow> ((case ev of LinkQueue f \<Rightarrow> if ok then [f] else [] | LinkWrite \<Rightarrow> []) @ accepted, L2)))"

text \<open>The step for writing is the loop of the code: writing a whole queue is running it that often.\<close>

lemma write_loop_link:
  "write_loop (ch_items (lk_channel L)) (lk_sink L) =
   lk_sink (snd (link_run (replicate (length (ch_items (lk_channel L))) LinkWrite) L))"
proof (induction "ch_items (lk_channel L)" arbitrary: L)
  case Nil
  then show ?case by simp
next
  case (Cons f fs)
  obtain r k where w: "write_all f (lk_sink L) = (r, k)" by (cases "write_all f (lk_sink L)")
  show ?case
  proof (cases r)
    case (Inl e)
    have "lk_sink (snd (link_run (replicate n LinkWrite) M)) = lk_sink M" if "ch_items (lk_channel M) = []" for n M
      using that by (induction n) (auto simp: link_step_def split: prod.split)
    then show ?thesis using Cons(2) [symmetric] w Inl by (simp add: link_step_def split: prod.split)
  next
    case (Inr u)
    let ?L = "L\<lparr>lk_channel := (lk_channel L)\<lparr>ch_items := fs\<rparr>, lk_sink := k\<rparr>"
    have "write_loop fs k = lk_sink (snd (link_run (replicate (length fs) LinkWrite) ?L))"
      using Cons(1) [of ?L] by simp
    then show ?thesis using Cons(2) [symmetric] w Inr by (simp add: link_step_def split: prod.split)
  qed
qed

subsection \<open>What the other end reads\<close>

text \<open>
  After a run, the bytes written are a number of accepted frames in order, all of them but those
  still queued while the connection stands, and part of the next one when a write failed.
\<close>

definition link_ok :: "(u8 \<times> bytes) list \<Rightarrow> link \<Rightarrow> bool" where
  "link_ok acc L \<longleftrightarrow>
     (\<exists>n p. n \<le> length acc \<and> snk_bytes (lk_sink L) = concat (map peer_frame (take n acc)) @ p \<and>
        (if ch_open (lk_channel L) then p = [] \<and> ch_items (lk_channel L) = map peer_frame (drop n acc)
         else ch_items (lk_channel L) = [] \<and> n < length acc \<and> (\<exists>q. q \<noteq> [] \<and> peer_frame (acc ! n) = p @ q)))"

lemma link_new_ok: "snk_bytes k = [] \<Longrightarrow> link_ok [] (link_new k)"
  by (simp add: link_ok_def link_new_def channel_new_def)

lemma link_queue_ok:
  assumes "link_ok acc L" "link_step (LinkQueue f) L = (ok, L')"
  shows "link_ok (acc @ (if ok then [f] else [])) L'"
proof -
  obtain ch d where q: "queue_frame (peer_frame f) (lk_channel L, lk_dropped L) = (ok, ch, d)"
    using assms(2) by (auto simp: link_step_def split: prod.splits)
  then have L': "L' = L\<lparr>lk_channel := ch, lk_dropped := d\<rparr>" using assms(2) by (simp add: link_step_def)
  have ch: "ch = (if ok then (lk_channel L)\<lparr>ch_items := ch_items (lk_channel L) @ [peer_frame f]\<rparr> else lk_channel L)"
    "ok \<Longrightarrow> ch_open (lk_channel L)"
    using q by (auto simp: queue_frame_def try_send_def split: if_splits)
  obtain n p where n: "n \<le> length acc" "snk_bytes (lk_sink L) = concat (map peer_frame (take n acc)) @ p"
    "if ch_open (lk_channel L) then p = [] \<and> ch_items (lk_channel L) = map peer_frame (drop n acc)
     else ch_items (lk_channel L) = [] \<and> n < length acc \<and> (\<exists>q. q \<noteq> [] \<and> peer_frame (acc ! n) = p @ q)"
    using assms(1) by (auto simp: link_ok_def)
  show ?thesis
  proof (cases ok)
    case True
    then show ?thesis
      using n ch(2) unfolding link_ok_def L' ch(1) by (intro exI [of _ n] exI [of _ p]) simp
  next
    case False
    then show ?thesis
      using n unfolding link_ok_def L' ch(1) by (intro exI [of _ n] exI [of _ p]) simp
  qed
qed

lemma link_write_ok:
  assumes "link_ok acc L" "link_step LinkWrite L = (ok, L')"
  shows "link_ok acc L'"
proof (cases "ch_items (lk_channel L)")
  case Nil
  then show ?thesis using assms by (simp add: link_step_def)
next
  case (Cons x xs)
  obtain n where n: "n \<le> length acc" "snk_bytes (lk_sink L) = concat (map peer_frame (take n acc))"
    "ch_open (lk_channel L)" "x # xs = map peer_frame (drop n acc)"
    using assms(1) Cons by (auto simp: link_ok_def split: if_splits)
  have lt: "n < length acc" using n(4) by (cases "n < length acc") auto
  then have d: "x = peer_frame (acc ! n)" "xs = map peer_frame (drop (Suc n) acc)"
    using n(4) by (simp_all flip: Cons_nth_drop_Suc)
  obtain r k where w: "write_all x (lk_sink L) = (r, k)" by (cases "write_all x (lk_sink L)")
  show ?thesis
  proof (cases r)
    case (Inl e)
    then obtain a z where "x = a @ z" "z \<noteq> []" "snk_bytes k = snk_bytes (lk_sink L) @ a"
      using write_all_cut [of x "lk_sink L" e k] w by auto
    moreover have "L' = L\<lparr>lk_channel := \<lparr>ch_items = [], ch_open = False\<rparr>, lk_sink := k\<rparr>"
      using assms(2) Cons w Inl by (simp add: link_step_def)
    ultimately show ?thesis
      using n(1,2) lt d(1) unfolding link_ok_def by (intro exI [of _ n] exI [of _ a]) simp
  next
    case (Inr u)
    then have "snk_bytes k = snk_bytes (lk_sink L) @ x" using write_all_prefix [OF w] by auto
    then have "snk_bytes k = concat (map peer_frame (take (Suc n) acc))"
      using n(2) d(1) lt by (simp add: take_Suc_conv_app_nth)
    moreover have "L' = L\<lparr>lk_channel := (lk_channel L)\<lparr>ch_items := xs\<rparr>, lk_sink := k\<rparr>"
      using assms(2) Cons w Inr by (simp add: link_step_def)
    ultimately show ?thesis
      using lt n(3) d(2) unfolding link_ok_def by (intro exI [of _ "Suc n"] exI [of _ "[]"]) simp
  qed
qed

lemma link_run_ok: "link_ok acc L \<Longrightarrow> link_run evs L = (rest, L') \<Longrightarrow> link_ok (acc @ rest) L'"
proof (induction evs arbitrary: acc L rest)
  case (Cons ev evs)
  obtain ok L1 where s: "link_step ev L = (ok, L1)" by (cases "link_step ev L")
  obtain m L2 where r: "link_run evs L1 = (m, L2)" by (cases "link_run evs L1")
  show ?case
  proof (cases ev)
    case (LinkQueue f)
    then show ?thesis
      using Cons.IH [OF link_queue_ok [OF Cons.prems(1)], of f ok L1 m] s r Cons.prems(2) by auto
  next
    case LinkWrite
    then show ?thesis
      using Cons.IH [OF link_write_ok [OF Cons.prems(1)], of ok L1 m] s r Cons.prems(2) by auto
  qed
qed simp

lemma link_read:
  assumes "link_ok acc L" "list_all peer_frame_ok acc" "length acc < fuel"
  shows "\<exists>n. read_many peer_read_frame fuel \<lparr>src_bytes = snk_bytes (lk_sink L), src_tail = None\<rparr> =
      (take n acc, if snk_bytes (lk_sink L) = concat (map peer_frame (take n acc)) then StreamClosed
                   else StreamFailed early_eof) \<and>
    (ch_open (lk_channel L) \<longrightarrow> ch_items (lk_channel L) = map peer_frame (drop n acc) \<and>
       snk_bytes (lk_sink L) = concat (map peer_frame (take n acc)))"
proof -
  obtain n p where n: "n \<le> length acc" "snk_bytes (lk_sink L) = concat (map peer_frame (take n acc)) @ p"
    "if ch_open (lk_channel L) then p = [] \<and> ch_items (lk_channel L) = map peer_frame (drop n acc)
     else ch_items (lk_channel L) = [] \<and> n < length acc \<and> (\<exists>q. q \<noteq> [] \<and> peer_frame (acc ! n) = p @ q)"
    using assms(1) by (auto simp: link_ok_def)
  have ok: "list_all peer_frame_ok (take n acc)" "length (take n acc) < fuel"
    using assms(2,3) by (auto simp: list_all_iff dest: in_set_takeD)
  show ?thesis
  proof (cases "p = []")
    case True
    then show ?thesis
      using n peer.read_many_all [OF ok] by (intro exI [of _ n]) (auto split: if_splits)
  next
    case False
    then obtain q where q: "q \<noteq> []" "peer_frame (acc ! n) = p @ q" "n < length acc" "\<not> ch_open (lk_channel L)"
      using n(3) by (auto split: if_splits)
    then have "peer_frame_ok (acc ! n)" using assms(2) by (simp add: list_all_length)
    then show ?thesis
      using n(2) q(4) False peer.read_many_cut [OF ok(1) _ q(2) False q(1) ok(2), of None]
      by (intro exI [of _ n]) (simp add: unwrap_or_def)
  qed
qed

text \<open>What was accepted is among what was queued, in the same order.\<close>

fun queued_frames :: "link_event list \<Rightarrow> (u8 \<times> bytes) list" where
  "queued_frames [] = []"
| "queued_frames (LinkQueue f # evs) = f # queued_frames evs"
| "queued_frames (LinkWrite # evs) = queued_frames evs"

lemma queued_frames_set: "f \<in> set (queued_frames evs) \<longleftrightarrow> LinkQueue f \<in> set evs"
  by (induction evs rule: queued_frames.induct) auto

lemma length_queued_frames: "length (queued_frames evs) \<le> length evs"
  by (induction evs rule: queued_frames.induct) auto

lemma subseq_set: "subseq xs ys \<Longrightarrow> x \<in> set xs \<Longrightarrow> x \<in> set ys"
  by (auto dest: list_emb_set)

lemma link_run_accepted: "link_run evs L = (acc, L') \<Longrightarrow> subseq acc (queued_frames evs)"
proof (induction evs arbitrary: L acc)
  case (Cons ev evs)
  obtain ok L1 where s: "link_step ev L = (ok, L1)" by (cases "link_step ev L")
  obtain m where r: "link_run evs L1 = (m, L')" using Cons.prems s by (auto split: prod.splits)
  have "subseq m (queued_frames evs)" by (rule Cons.IH [OF r])
  then show ?case
    using Cons.prems s r by (cases ev) (auto intro: list_emb_Cons)
qed simp

subsection \<open>Opening the listener\<close>

lemma bind_listener_cases:
  "bind_listener ops port v6 =
     (if v6 \<and> (\<exists>a. dual_stack_listener ops port = Inr a) then Inr (any_v6 port)
      else case bind_listener ops port False of Inl e \<Rightarrow> Inl e | Inr a \<Rightarrow> Inr (any_v4 port))"
  by (auto simp: bind_listener_def dual_stack_listener_def Let_def split: option.splits sum.splits)

lemma network_listen_outcome:
  assumes "network_listen ops N = (r, N')" "\<not> nw_started N"
  shows "(r = Inr () \<longleftrightarrow> nw_started N') \<and> (r \<noteq> Inr () \<longrightarrow> N' = N) \<and>
    (\<forall>local. open_listener ops N = Inr local \<longrightarrow> nw_listener_addr N' = Some local \<and> nw_port N' = sa_port local)"
  using assms by (auto simp: network_listen_def network_start_def split: sum.splits)

end
