(* ===== verification/NetworkFacts.thy ===== *)
theory NetworkFacts
  imports Network
begin

section \<open>What the peer network keeps and does\<close>

text \<open>
  First what each method does to one connection, then the invariant \<open>network_wf\<close> and that every
  method keeps it, then the delivery of a message from one node to another, the deadlines of the
  read loop, and the life of a desired peer.
\<close>

subsection \<open>Frames queued for a connection\<close>

definition queued_for :: "socket_addr \<Rightarrow> Network \<Rightarrow> bytes list" where
  "queued_for remote N = (case map_of (nw_peers N) remote of None \<Rightarrow> [] | Some p \<Rightarrow> ch_items (peer_sender p))"

definition can_queue :: "socket_addr \<Rightarrow> Network \<Rightarrow> bool" where
  "can_queue remote N \<longleftrightarrow>
     (case map_of (nw_peers N) remote of
        None \<Rightarrow> False
      | Some p \<Rightarrow> ch_open (peer_sender p) \<and> length (ch_items (peer_sender p)) < PEER_QUEUE_CAPACITY)"

lemma queue_to_absent: "map_of (nw_peers N) remote = None \<Longrightarrow> queue_to remote f N = (False, N)"
  by (simp add: queue_to_def)

lemma queue_to_sent: "fst (queue_to remote f N) \<longleftrightarrow> can_queue remote N"
  by (simp add: queue_to_def can_queue_def queue_frame_True [of f "peer_sender _"] split: option.splits prod.splits)
    (metis fst_conv queue_frame_True)

lemma queue_to_queued:
  "queued_for j (snd (queue_to remote f N)) = queued_for j N @ (if j = remote \<and> can_queue remote N then [f] else [])"
  by (auto simp: queue_to_def can_queue_def queued_for_def queue_frame_def try_send_def update_conv'
      split: option.splits)

lemma queue_to_can_queue_other: "j \<noteq> remote \<Longrightarrow> can_queue j (snd (queue_to remote f N)) = can_queue j N"
  by (simp add: queue_to_def can_queue_def update_conv' split: option.splits prod.splits)

lemma queue_to_rest:
  "nw_events (snd (queue_to a f N)) = nw_events N" "nw_crypto (snd (queue_to a f N)) = nw_crypto N"
  "nw_identity (snd (queue_to a f N)) = nw_identity N" "nw_nickname (snd (queue_to a f N)) = nw_nickname N"
  "nw_pins (snd (queue_to a f N)) = nw_pins N" "nw_desired (snd (queue_to a f N)) = nw_desired N"
  "nw_outbox (snd (queue_to a f N)) = nw_outbox N" "nw_outbox_expired (snd (queue_to a f N)) = nw_outbox_expired N"
  "nw_next_message_id (snd (queue_to a f N)) = nw_next_message_id N"
  "nw_greetings_refused (snd (queue_to a f N)) = nw_greetings_refused N"
  "nw_max_connections (snd (queue_to a f N)) = nw_max_connections N"
  "nw_handshake_timeout (snd (queue_to a f N)) = nw_handshake_timeout N"
  "nw_idle_timeout (snd (queue_to a f N)) = nw_idle_timeout N"
  by (simp_all add: queue_to_def split: option.splits prod.splits)

text \<open>All a queued frame changes in a peer's entry is its channel.\<close>

lemma queue_to_peer:
  "map_of (nw_peers (snd (queue_to a f N))) j =
     map_option (\<lambda>p. if j = a then p\<lparr>peer_sender := fst (snd (queue_frame f (peer_sender p, nw_frames_dropped N)))\<rparr> else p)
       (map_of (nw_peers N) j)"
  by (cases "map_of (nw_peers N) a"; cases "map_of (nw_peers N) j")
    (auto simp: queue_to_def update_conv' split: prod.splits)

lemma queue_to_keys: "map fst (nw_peers (snd (queue_to a f N))) = map fst (nw_peers N)"
  by (auto simp: queue_to_def update_keys map_of_SomeD image_iff split: option.splits prod.splits)
    (metis fst_conv map_of_SomeD)

lemma queue_all_queued:
  "distinct addrs \<Longrightarrow>
   queued_for j (snd (queue_all addrs f N)) = queued_for j N @ (if j \<in> set addrs \<and> can_queue j N then [f] else [])"
proof (induction addrs arbitrary: N)
  case Nil
  then show ?case by simp
next
  case (Cons a addrs)
  then show ?case
    using queue_to_can_queue_other [of j a f N]
    by (cases "j = a") (auto simp: split_beta Let_def queue_to_queued)
qed

lemma queue_all_count:
  "distinct addrs \<Longrightarrow> fst (queue_all addrs f N) = length (filter (\<lambda>a. can_queue a N) addrs)"
proof (induction addrs arbitrary: N)
  case Nil
  then show ?case by simp
next
  case (Cons a addrs)
  have "filter (\<lambda>b. can_queue b (snd (queue_to a f N))) addrs = filter (\<lambda>b. can_queue b N) addrs"
    using Cons.prems by (intro filter_cong refl queue_to_can_queue_other) auto
  then show ?case using Cons by (simp add: split_beta Let_def queue_to_sent)
qed

lemma queue_all_rest:
  "nw_events (snd (queue_all as f N)) = nw_events N" "nw_outbox (snd (queue_all as f N)) = nw_outbox N"
  "nw_desired (snd (queue_all as f N)) = nw_desired N" "nw_pins (snd (queue_all as f N)) = nw_pins N"
  "nw_next_message_id (snd (queue_all as f N)) = nw_next_message_id N"
  "map fst (nw_peers (snd (queue_all as f N))) = map fst (nw_peers N)"
  by (induction as arbitrary: N) (simp_all add: split_beta Let_def queue_to_rest queue_to_keys)

lemma peer_senders_distinct: "distinct (map fst (nw_peers N)) \<Longrightarrow> distinct (peer_senders keep N)"
  by (simp add: peer_senders_def distinct_filter_keys)

lemma peer_senders_mem:
  "distinct (map fst (nw_peers N)) \<Longrightarrow>
   a \<in> set (peer_senders keep N) \<longleftrightarrow> (\<exists>p. map_of (nw_peers N) a = Some p \<and> keep p)"
  by (auto simp: peer_senders_def image_iff dest: map_of_SomeD)

text \<open>
  A dispatched message: one frame with a new id for each sender that can take it, and a receipt
  that counts them.
\<close>

lemma dispatch_to_effect:
  assumes "distinct addrs"
  shows "dr_message_id (fst (dispatch_to addrs c k t N)) = nw_next_message_id N"
    and "dr_peers (fst (dispatch_to addrs c k t N)) = length (filter (\<lambda>a. can_queue a N) addrs)"
    and "nw_next_message_id (snd (dispatch_to addrs c k t N)) = nw_next_message_id N + 1"
    and "queued_for j (snd (dispatch_to addrs c k t N)) = queued_for j N @
      (if j \<in> set addrs \<and> can_queue j N then [encode_message_frame (nw_next_message_id N) c k t] else [])"
    and "nw_outbox (snd (dispatch_to addrs c k t N)) = nw_outbox N"
    and "nw_events (snd (dispatch_to addrs c k t N)) = nw_events N"
proof -
  let ?N = "N\<lparr>nw_next_message_id := nw_next_message_id N + 1\<rparr>"
  have q: "can_queue a ?N = can_queue a N" "queued_for a ?N = queued_for a N" for a
    by (simp_all add: can_queue_def queued_for_def)
  show "dr_message_id (fst (dispatch_to addrs c k t N)) = nw_next_message_id N"
    "dr_peers (fst (dispatch_to addrs c k t N)) = length (filter (\<lambda>a. can_queue a N) addrs)"
    "nw_next_message_id (snd (dispatch_to addrs c k t N)) = nw_next_message_id N + 1"
    "queued_for j (snd (dispatch_to addrs c k t N)) = queued_for j N @
      (if j \<in> set addrs \<and> can_queue j N then [encode_message_frame (nw_next_message_id N) c k t] else [])"
    "nw_outbox (snd (dispatch_to addrs c k t N)) = nw_outbox N"
    "nw_events (snd (dispatch_to addrs c k t N)) = nw_events N"
    using queue_all_count [OF assms, of _ ?N] queue_all_queued [OF assms, of j _ ?N]
    by (simp_all add: dispatch_to_def Let_def split_beta queue_all_rest q)
qed

text \<open>
  Where a message goes: to every connection whose peer has the nickname, or, without one, to the
  end of the outbox queue of that nickname if there is room.
\<close>

lemma send_ciphertext_connected:
  assumes "distinct (map fst (nw_peers N))" "trim nick \<noteq> []"
    "map_of (nw_peers N) a = Some p" "nickname_matches (to_ascii_lowercase (trim nick)) p" "can_queue a N"
  shows "\<exists>r. fst (send_ciphertext_to_peer cx nick c k t N) = SoSent r \<and> 0 < dr_peers r \<and>
    dr_message_id r = nw_next_message_id N"
    and "queued_for a (snd (send_ciphertext_to_peer cx nick c k t N)) =
      queued_for a N @ [encode_message_frame (nw_next_message_id N) c k t]"
    and "nw_outbox (snd (send_ciphertext_to_peer cx nick c k t N)) = nw_outbox N"
proof -
  let ?s = "peer_senders (nickname_matches (to_ascii_lowercase (trim nick))) N"
  have d: "distinct ?s" by (rule peer_senders_distinct [OF assms(1)])
  have a: "a \<in> set ?s" using assms by (simp add: peer_senders_mem)
  then have ne: "?s \<noteq> []" by auto
  have "filter (\<lambda>a. can_queue a N) ?s \<noteq> []" using a assms(5) by (auto simp: filter_empty_conv)
  then show "\<exists>r. fst (send_ciphertext_to_peer cx nick c k t N) = SoSent r \<and> 0 < dr_peers r \<and>
      dr_message_id r = nw_next_message_id N"
    "queued_for a (snd (send_ciphertext_to_peer cx nick c k t N)) =
      queued_for a N @ [encode_message_frame (nw_next_message_id N) c k t]"
    "nw_outbox (snd (send_ciphertext_to_peer cx nick c k t N)) = nw_outbox N"
    using dispatch_to_effect [OF d] a ne assms(2,5)
    by (simp_all add: send_ciphertext_to_peer_def Let_def split_beta)
qed

lemma send_ciphertext_offline:
  assumes "trim nick \<noteq> []" "peer_senders (nickname_matches (to_ascii_lowercase (trim nick))) N = []"
  defines "q \<equiv> outbox_queue (to_ascii_lowercase (trim nick)) (nw_outbox N)"
  shows "fst (send_ciphertext_to_peer cx nick c k t N) =
      (if length q < OUTBOX_CAPACITY then SoQueued (nw_next_message_id N) (Suc (length q)) else SoDropped)"
    and "outbox_queue (to_ascii_lowercase (trim nick)) (nw_outbox (snd (send_ciphertext_to_peer cx nick c k t N))) =
      q @ (if length q < OUTBOX_CAPACITY
           then [\<lparr>ob_message_id = nw_next_message_id N, ob_ciphertext = c, ob_kind = k, ob_content = t,
                  ob_queued_at = sx_now cx\<rparr>] else [])"
    and "nw_peers (snd (send_ciphertext_to_peer cx nick c k t N)) = nw_peers N"
  using assms by (auto simp: send_ciphertext_to_peer_def Let_def split_beta network_enqueue_def enqueue_def)

subsection \<open>The invariant\<close>

text \<open>
  What the table promises of each peer: its channel is within its capacity, its nickname can be
  displayed, its identity is a trimmed, non-empty text and its ephemeral key is a normalised
  32-byte key.
\<close>

definition peer_ok :: "pin_env \<Rightarrow> Peer \<Rightarrow> bool" where
  "peer_ok E p \<longleftrightarrow>
     length (ch_items (peer_sender p)) \<le> PEER_QUEUE_CAPACITY \<and>
     (\<forall>n. peer_nickname p = Some n \<longrightarrow> n \<noteq> [] \<and> displayable MAX_NICKNAME_LEN n) \<and>
     (\<forall>i. peer_identity p = Some i \<longrightarrow> i \<noteq> [] \<and> trim i = i) \<and>
     (\<forall>k. peer_remote_ephemeral p = Some k \<longrightarrow> normalize_key E k = Some k)"

definition peers_wf :: "pin_env \<Rightarrow> (socket_addr \<times> Peer) list \<Rightarrow> bool" where
  "peers_wf E ps \<longleftrightarrow> distinct (map fst ps) \<and> (\<forall>(a, p) \<in> set ps. peer_ok E p)"

definition network_wf :: "pin_env \<Rightarrow> Network \<Rightarrow> bool" where
  "network_wf E N \<longleftrightarrow>
     peers_wf E (nw_peers N) \<and> distinct (map fst (nw_desired N)) \<and> outbox_wf (nw_outbox N) \<and>
     pins_wf E (ps_pins (nw_pins N))"

definition env_ok :: "pin_env \<Rightarrow> bool" where
  "env_ok E \<longleftrightarrow> hex_laws (pe_hex E) \<and> lower_laws E"

lemma peers_wf_lookup: "peers_wf E ps \<Longrightarrow> map_of ps a = Some p \<Longrightarrow> peer_ok E p"
  by (auto simp: peers_wf_def dest!: map_of_SomeD)

lemma peers_wf_update: "peers_wf E ps \<Longrightarrow> peer_ok E p \<Longrightarrow> peers_wf E (AList.update a p ps)"
  by (auto simp: peers_wf_def distinct_update dest!: update_mem_alist)

lemma alter_mem: "(a, p) \<in> set (alter k f m) \<Longrightarrow> \<exists>q. (a, q) \<in> set m \<and> (p = f q \<or> p = q)"
  by (cases "map_of m k") (auto simp: alter_def dest!: update_mem_alist dest: map_of_SomeD)

lemma peers_wf_alter: "peers_wf E ps \<Longrightarrow> (\<And>p. peer_ok E p \<Longrightarrow> peer_ok E (f p)) \<Longrightarrow> peers_wf E (alter a f ps)"
  unfolding peers_wf_def by (fastforce dest!: alter_mem)

lemma peers_wf_delete: "peers_wf E ps \<Longrightarrow> peers_wf E (AList.delete a ps)"
  unfolding peers_wf_def by (intro conjI distinct_delete) (auto simp: AList.delete_eq)

lemma network_wf_peers: "network_wf E N \<Longrightarrow> peers_wf E ps \<Longrightarrow> network_wf E (N\<lparr>nw_peers := ps\<rparr>)"
  by (simp add: network_wf_def)

lemma network_wf_more [simp]:
  "network_wf E (N\<lparr>nw_events := v1\<rparr>) = network_wf E N"
  "network_wf E (N\<lparr>nw_frames_dropped := v2\<rparr>) = network_wf E N"
  "network_wf E (N\<lparr>nw_next_message_id := v3\<rparr>) = network_wf E N"
  "network_wf E (N\<lparr>nw_greetings_refused := v4\<rparr>) = network_wf E N"
  "network_wf E (N\<lparr>nw_outbox_expired := v5\<rparr>) = network_wf E N"
  "network_wf E (N\<lparr>nw_identity := v6\<rparr>) = network_wf E N"
  "network_wf E (N\<lparr>nw_nickname := v7\<rparr>) = network_wf E N"
  by (simp_all add: network_wf_def)

lemma emit_wf [simp]: "network_wf E (emit e N) = network_wf E N"
  by (simp add: emit_def)

lemma queue_to_wf: "network_wf E N \<Longrightarrow> network_wf E (snd (queue_to a f N))"
proof (cases "map_of (nw_peers N) a")
  case None
  then show "network_wf E N \<Longrightarrow> ?thesis" by (simp add: queue_to_absent)
next
  case (Some p)
  assume wf: "network_wf E N"
  then have ok: "peer_ok E p" using peers_wf_lookup Some by (auto simp: network_wf_def)
  let ?q = "queue_frame f (peer_sender p, nw_frames_dropped N)"
  have "length (ch_items (fst (snd ?q))) \<le> PEER_QUEUE_CAPACITY"
    by (rule chan.push_bounded [of "(peer_sender p, nw_frames_dropped N)", simplified])
      (use ok in \<open>simp add: peer_ok_def\<close>)
  then have "peer_ok E (p\<lparr>peer_sender := fst (snd ?q)\<rparr>)" using ok by (simp add: peer_ok_def)
  then have "peers_wf E (AList.update a (p\<lparr>peer_sender := fst (snd ?q)\<rparr>) (nw_peers N))"
    using wf peers_wf_update by (auto simp: network_wf_def)
  then show ?thesis using wf by (auto simp: queue_to_def Some split_beta network_wf_peers)
qed

lemma queue_all_wf: "network_wf E N \<Longrightarrow> network_wf E (snd (queue_all as f N))"
  by (induction as arbitrary: N) (simp_all add: split_beta Let_def queue_to_wf)

lemma dispatch_to_wf: "network_wf E N \<Longrightarrow> network_wf E (snd (dispatch_to as c k t N))"
  by (simp add: dispatch_to_def Let_def split_beta queue_all_wf)

lemma alter_peer_wf:
  "network_wf E N \<Longrightarrow> (\<And>p. peer_ok E p \<Longrightarrow> peer_ok E (f p)) \<Longrightarrow> network_wf E (alter_peer a f N)"
  unfolding alter_peer_def by (rule network_wf_peers) (auto simp: network_wf_def intro!: peers_wf_alter)

lemma pin_identity_wf: "env_ok E \<Longrightarrow> network_wf E N \<Longrightarrow> network_wf E (pin_identity E cx n k N)"
  by (simp add: pin_identity_def network_wf_def env_ok_def observe_wf)

lemma peer_new_ok: "peer_ok E (peer_new L secret)"
  by (simp add: peer_ok_def peer_new_def channel_new_def)

lemma announce_wf: "network_wf E N \<Longrightarrow> network_wf E (announce E a N)"
  by (simp add: announce_def Let_def queue_to_wf split: option.splits)

lemma register_wf: "network_wf E N \<Longrightarrow> network_wf E (register E secret a N)"
proof -
  assume wf: "network_wf E N"
  then have "network_wf E (N\<lparr>nw_peers := AList.update a (peer_new (pe_crypto E) secret) (nw_peers N)\<rparr>)"
    by (intro network_wf_peers peers_wf_update peer_new_ok) (simp_all add: network_wf_def)
  then show ?thesis by (simp add: register_def Let_def announce_wf)
qed

lemma flush_loop_wf:
  "network_wf E N \<Longrightarrow> flush_loop (queue_to a) es N = (n, rem, N') \<Longrightarrow> network_wf E N' \<and> nw_outbox N' = nw_outbox N"
proof (induction es arbitrary: N n)
  case Nil
  then show ?case by simp
next
  case (Cons e es)
  have wf: "network_wf E (snd (queue_to a (entry_frame e) N))" by (rule queue_to_wf [OF Cons.prems(1)])
  show ?case
  proof (cases "queue_to a (entry_frame e) N")
    case (Pair ok N1)
    then have N1: "network_wf E N1" "nw_outbox N1 = nw_outbox N" using wf queue_to_rest [of a "entry_frame e" N] by auto
    show ?thesis
    proof (cases ok)
      case True
      then show ?thesis
        using Cons.prems(2) Pair Cons.IH [OF N1(1)] N1(2) by (auto split: prod.splits)
    next
      case False
      then show ?thesis using Cons.prems(2) Pair N1 by auto
    qed
  qed
qed

lemma flush_outbox_wf: "network_wf E N \<Longrightarrow> network_wf E (snd (flush_outbox cx nick a N))"
proof -
  assume wf: "network_wf E N"
  let ?key = "to_ascii_lowercase nick"
  obtain fresh expired o1 where t: "outbox_take (sx_now cx) ?key (nw_outbox N) = (fresh, expired, o1)"
    by (cases "outbox_take (sx_now cx) ?key (nw_outbox N)") auto
  let ?N1 = "N\<lparr>nw_outbox := o1, nw_outbox_expired := nw_outbox_expired N + word_of_nat expired\<rparr>"
  have o1: "outbox_wf o1" using wf outbox_take_wf [of "nw_outbox N" "sx_now cx" ?key] by (simp add: t network_wf_def)
  then have N1: "network_wf E ?N1" using wf by (simp add: network_wf_def)
  obtain n rem N2 where l: "flush_loop (queue_to a) fresh ?N1 = (n, rem, N2)"
    by (cases "flush_loop (queue_to a) fresh ?N1") auto
  have N2: "network_wf E N2" "nw_outbox N2 = o1" using flush_loop_wf [OF N1 l] by simp_all
  have "length fresh \<le> OUTBOX_CAPACITY" "outbox_queue ?key o1 = []"
    using t outbox_wf_queue [of "nw_outbox N" ?key] wf
    by (auto simp: outbox_take_def Let_def network_wf_def intro: order_trans [OF length_filter_le])
  moreover have "rem = drop n fresh" using flush_loop_split [OF l] by simp
  ultimately have "outbox_wf (outbox_put_back ?key rem o1)"
    using o1 by (auto simp: outbox_put_back_def intro!: outbox_wf_update)
  then show ?thesis using N2 by (simp add: flush_outbox_def t l Let_def network_wf_def)
qed

lemma accept_identity_wf: "env_ok E \<Longrightarrow> network_wf E N \<Longrightarrow> network_wf E (accept_identity E cx a b N)"
  by (auto simp: accept_identity_def Let_def peer_ok_def intro!: alter_peer_wf pin_identity_wf)

lemma accept_ephemeral_wf: "env_ok E \<Longrightarrow> network_wf E N \<Longrightarrow> network_wf E (accept_ephemeral E a b N)"
  by (auto simp: accept_ephemeral_def Let_def peer_ok_def env_ok_def intro!: alter_peer_wf dest: normalize_key_idem)

lemma dispatch_hello_wf: "env_ok E \<Longrightarrow> network_wf E N \<Longrightarrow> network_wf E (dispatch_hello E cx a b N)"
  by (auto simp: dispatch_hello_def Let_def peer_ok_def peer_label_Some
      intro!: alter_peer_wf pin_identity_wf flush_outbox_wf split: option.splits)

lemma dispatch_message_wf: "network_wf E N \<Longrightarrow> network_wf E (dispatch_message E cx k t a b N)"
  by (simp add: dispatch_message_def Let_def queue_to_wf split: option.splits sum.splits)

lemma dispatch_wf: "env_ok E \<Longrightarrow> network_wf E N \<Longrightarrow> network_wf E (dispatch E cx kind payload a N)"
  by (auto simp: dispatch_def dispatch_ack_def peer_ok_def split: option.splits
      intro!: dispatch_hello_wf accept_identity_wf accept_ephemeral_wf dispatch_message_wf alter_peer_wf)

lemma read_end_wf: "network_wf E N \<Longrightarrow> network_wf E (read_end a reason N)"
  unfolding read_end_def Let_def emit_wf by (simp add: network_wf_def peers_wf_delete comp_def case_prod_beta')

lemma desired_update_wf: "network_wf E N \<Longrightarrow> network_wf E (N\<lparr>nw_desired := AList.update a d (nw_desired N)\<rparr>)"
  by (simp add: network_wf_def distinct_update)

lemma desire_peer_wf: "network_wf E N \<Longrightarrow> network_wf E (desire_peer a N)"
  by (simp add: desire_peer_def desired_update_wf split: option.splits)

lemma mark_resolved_wf: "network_wf E N \<Longrightarrow> network_wf E (mark_resolved a r N)"
  by (simp add: mark_resolved_def Let_def desired_update_wf)

lemma note_failure_wf: "network_wf E N \<Longrightarrow> network_wf E (note_failure a N)"
  by (simp add: note_failure_def network_wf_def)

lemma send_ciphertext_to_peer_wf: "network_wf E N \<Longrightarrow> network_wf E (snd (send_ciphertext_to_peer cx n c k t N))"
  by (auto simp: send_ciphertext_to_peer_def Let_def split_beta network_enqueue_def network_wf_def enqueue_wf
      intro!: dispatch_to_wf [unfolded network_wf_def])

lemma prune_wf: "network_wf E N \<Longrightarrow> network_wf E (network_prune_outbox cx N)"
  using prune_outbox_wf [of "nw_outbox N" "sx_now cx"] by (auto simp: network_prune_outbox_def split_beta network_wf_def)


subsection \<open>From one node to another\<close>

text \<open>
  One node's entry for a connection mirrors the other's when the handshake frames of both have
  arrived: each holds the other's announced identity and ephemeral key in hexadecimal.
\<close>

definition mirrors :: "pin_env \<Rightarrow> NetworkIdentity \<Rightarrow> EphemeralKey \<Rightarrow> Peer \<Rightarrow> bool" where
  "mirrors E other_static other_ephemeral p \<longleftrightarrow>
     peer_identity p = Some (public_hex (pe_hex E) other_static) \<and>
     peer_remote_ephemeral p = Some (public_hex (pe_hex E) other_ephemeral)"

lemma pair_keys_mirrored:
  assumes "env_ok E" "mirrors E B EB p" "length (ni_public B) = 32" "length (ni_public EB) = 32"
    "pair_key (pe_crypto E) sk A (peer_ephemeral p) (ni_public B) (ni_public EB) = Inr key"
  shows "\<exists>ks. pair_keys E sk A (Some (peer_ephemeral p)) (public_hex (pe_hex E) B) (peer_remote_ephemeral p) = key # ks"
proof -
  have k: "public_key_from_hex (pe_hex E) (public_hex (pe_hex E) X) = Some (ni_public X)"
    if "length (ni_public X) = 32" for X
    using decode_key_encode [of "pe_hex E" "ni_public X" PUBLIC_KEY_LENGTH] assms(1) that
    by (simp add: public_key_from_hex_def public_hex_def env_ok_def PUBLIC_KEY_LENGTH_def)
  show ?thesis
    using assms(2,5) k [OF assms(3)] k [OF assms(4)] by (simp add: pair_keys_def mirrors_def)
qed

text \<open>The sender picks the key of the one connection whose peer has the nickname.\<close>

lemma find_filter: "filter q xs = y # ys \<Longrightarrow> find q xs = Some y"
  by (induction xs) (auto split: if_splits)

lemma network_contact_key_pair:
  assumes "env_ok E" "filter (\<lambda>(a, p). nickname_matches (to_ascii_lowercase (trim nick)) p) (nw_peers N) = [(a, p)]"
    "nw_identity N = Some A" "\<not> sx_identity_busy cx" "mirrors E B EB p"
    "length (ni_public B) = 32" "length (ni_public EB) = 32"
    "pair_key (pe_crypto E) (cm_key (nw_crypto N)) A (peer_ephemeral p) (ni_public B) (ni_public EB) = Inr key"
  shows "network_contact_key E cx N nick = Some key"
proof -
  have "find (\<lambda>(a, p). nickname_matches (to_ascii_lowercase (trim nick)) p) (nw_peers N) = Some (a, p)"
    by (rule find_filter [OF assms(2)])
  then show ?thesis
    using pair_keys_mirrored [OF assms(1,5-8)] assms(3,4,5)
    by (auto simp: network_contact_key_def Let_def mirrors_def)
qed

text \<open>The receiver tries the same key first, so it opens what the sender sealed.\<close>

lemma decrypt_from_pair:
  assumes "env_ok E" "aead_laws (pe_crypto E)" "length nonce = NONCE_LENGTH"
    "map_of (nw_peers N) a = Some p" "nw_identity N = Some B" "\<not> sx_identity_busy cx" "mirrors E A EA p"
    "length (ni_public A) = 32" "length (ni_public EA) = 32"
    "pair_key (pe_crypto E) (cm_key (nw_crypto N)) B (peer_ephemeral p) (ni_public A) (ni_public EA) = Inr key"
    "encrypt_with (pe_crypto E) nonce m key plain = Inr c" "cm_enabled m = cm_enabled (nw_crypto N)"
  shows "decrypt_from E cx a c N = Inr plain"
proof -
  have "encrypt_with (pe_crypto E) nonce (nw_crypto N) key plain = Inr c"
    using assms(11,12) by (simp add: encrypt_with_def)
  then have "decrypt_with (pe_crypto E) (nw_crypto N) key c = Inr plain"
    by (rule decrypt_encrypt_with [OF assms(2,3)])
  moreover obtain ks where "connection_keys E cx a N = key # ks"
    using pair_keys_mirrored [OF assms(1,7-10)] assms(4-7) by (auto simp: connection_keys_def mirrors_def)
  ultimately show ?thesis by (simp add: decrypt_from_def)
qed

lemma dispatch_message_frame:
  "dispatch E cx (message_frame_kind k t) (message_payload i c) a N =
   dispatch_message E cx k (if k = KAction then CText else t) a (message_payload i c) N"
  using message_attributes_frame_kind [of k t]
  by (simp add: dispatch_def message_frame_kind_def frame_kinds split: MessageKind.splits ContentType.splits)

text \<open>
  A message that opens is reported with the sender's nickname and attributes and acknowledged
  under its id.
\<close>

lemma dispatch_message_opens:
  assumes "decrypt_from E cx a c N = Inr plain"
  shows "nw_events (dispatch_message E cx k t a (message_payload i c) N) =
      nw_events N @ [AeMessageReceived (nickname_of a N) (socket_display a) plain k t]"
    and "queued_for a (dispatch_message E cx k t a (message_payload i c) N) =
      queued_for a N @ (if can_queue a N then [encode_frame FRAME_ACK (to_be_bytes64 i)] else [])"
proof -
  have e: "queued_for b (emit ev N) = queued_for b N" "can_queue b (emit ev N) = can_queue b N" for b ev
    by (simp_all add: emit_def queued_for_def can_queue_def)
  show "nw_events (dispatch_message E cx k t a (message_payload i c) N) =
      nw_events N @ [AeMessageReceived (nickname_of a N) (socket_display a) plain k t]"
    "queued_for a (dispatch_message E cx k t a (message_payload i c) N) =
      queued_for a N @ (if can_queue a N then [encode_frame FRAME_ACK (to_be_bytes64 i)] else [])"
    using assms by (simp_all add: dispatch_message_def decode_message_id_payload drop_message_payload Let_def
        queue_to_rest queue_to_queued e) (simp add: emit_def)
qed

lemma dispatch_message_fails:
  "decrypt_from E cx a (drop MESSAGE_ID_LEN payload) N = Inl e \<Longrightarrow>
   dispatch_message E cx k t a payload N = N"
  by (simp add: dispatch_message_def split: option.splits)

text \<open>An acknowledgement that arrives is reported under the id it carries.\<close>

lemma dispatch_ack_frame:
  "nw_events (dispatch E cx FRAME_ACK (to_be_bytes64 i) a N) =
     nw_events N @ [AeMessageDelivered (nickname_of a N) (socket_display a) i]"
  by (simp add: dispatch_def frame_kinds dispatch_ack_def decode_message_id_def MESSAGE_ID_LEN_def emit_def)


subsection \<open>What a frame leaves alone\<close>

text \<open>A peer's entry without its channel, and the settings of the loops.\<close>

definition peer_view :: "socket_addr \<Rightarrow> Network \<Rightarrow> Peer option" where
  "peer_view a N = map_option (\<lambda>p. p\<lparr>peer_sender := channel_new\<rparr>) (map_of (nw_peers N) a)"

lemma peer_view_queue_to [simp]: "peer_view j (snd (queue_to a f N)) = peer_view j N"
  by (cases "map_of (nw_peers N) j") (simp_all add: peer_view_def queue_to_peer)

lemma peer_view_field:
  "(\<And>p c. f (p\<lparr>peer_sender := c\<rparr>) = f p) \<Longrightarrow> peer_field a f N = Option.bind (peer_view a N) f"
  by (cases "map_of (nw_peers N) a") (simp_all add: peer_field_def peer_view_def)

lemma peer_greeted_view: "peer_greeted a N \<longleftrightarrow> Option.bind (peer_view a N) peer_nickname \<noteq> None"
  unfolding peer_greeted_def by (subst peer_view_field) simp_all

lemma keepalive_seen_view:
  "keepalive_seen a N \<longleftrightarrow> (case peer_view a N of None \<Rightarrow> False | Some p \<Rightarrow> peer_keepalive_seen p)"
  by (cases "map_of (nw_peers N) a") (simp_all add: keepalive_seen_def peer_view_def)

lemma flush_loop_keeps:
  "flush_loop (queue_to a) es N = (n, rem, N') \<Longrightarrow>
   peer_view j N' = peer_view j N \<and> nw_idle_timeout N' = nw_idle_timeout N \<and> map fst (nw_peers N') = map fst (nw_peers N) \<and>
   nw_desired N' = nw_desired N"
proof (induction es arbitrary: N n)
  case Nil
  then show ?case by simp
next
  case (Cons e es)
  let ?q = "queue_to a (entry_frame e) N"
  have q: "peer_view j (snd ?q) = peer_view j N \<and> nw_idle_timeout (snd ?q) = nw_idle_timeout N \<and>
      map fst (nw_peers (snd ?q)) = map fst (nw_peers N) \<and> nw_desired (snd ?q) = nw_desired N"
    by (simp add: queue_to_rest queue_to_keys)
  show ?case
  proof (cases "fst ?q")
    case True
    then obtain N1 where N1: "?q = (True, N1)" by (cases ?q) auto
    then show ?thesis using Cons.prems Cons.IH [of N1] q by (auto split: prod.splits)
  next
    case False
    then obtain N1 where N1: "?q = (False, N1)" by (cases ?q) auto
    then show ?thesis using Cons.prems q by auto
  qed
qed

lemma peer_view_set [simp]:
  "peer_view j (N\<lparr>nw_outbox := v1\<rparr>) = peer_view j N" "peer_view j (N\<lparr>nw_outbox_expired := v2\<rparr>) = peer_view j N"
  "peer_view j (N\<lparr>nw_pins := v3\<rparr>) = peer_view j N" "peer_view j (N\<lparr>nw_events := v4\<rparr>) = peer_view j N"
  "peer_view j (N\<lparr>nw_greetings_refused := v5\<rparr>) = peer_view j N"
  "peer_view j (N\<lparr>nw_desired := v6\<rparr>) = peer_view j N"
  by (simp_all add: peer_view_def)

lemma flush_outbox_keeps:
  "peer_view j (snd (flush_outbox cx n a N)) = peer_view j N \<and>
   nw_idle_timeout (snd (flush_outbox cx n a N)) = nw_idle_timeout N \<and>
   map fst (nw_peers (snd (flush_outbox cx n a N))) = map fst (nw_peers N) \<and>
   nw_desired (snd (flush_outbox cx n a N)) = nw_desired N"
proof -
  obtain fresh expired o1 where t: "outbox_take (sx_now cx) (to_ascii_lowercase n) (nw_outbox N) = (fresh, expired, o1)"
    by (cases "outbox_take (sx_now cx) (to_ascii_lowercase n) (nw_outbox N)") auto
  let ?N1 = "N\<lparr>nw_outbox := o1, nw_outbox_expired := nw_outbox_expired N + word_of_nat expired\<rparr>"
  obtain k rem N2 where l: "flush_loop (queue_to a) fresh ?N1 = (k, rem, N2)"
    by (cases "flush_loop (queue_to a) fresh ?N1") auto
  show ?thesis using flush_loop_keeps [OF l, of j] by (simp add: flush_outbox_def t l Let_def)
qed

lemma peer_view_alter:
  "(\<And>p c. f (p\<lparr>peer_sender := c\<rparr>) = (f p)\<lparr>peer_sender := c\<rparr>) \<Longrightarrow>
   peer_view j (alter_peer a f N) = (if j = a then map_option f (peer_view j N) else peer_view j N)"
  by (cases "map_of (nw_peers N) j"; cases "j = a") (auto simp: peer_view_def alter_peer_def map_of_alter)

lemma peer_view_None: "peer_view a N = None \<longleftrightarrow> a \<notin> set (map fst (nw_peers N))"
  by (simp add: peer_view_def map_of_eq_None_iff)

lemma alter_peer_rest [simp]:
  "nw_idle_timeout (alter_peer a f N) = nw_idle_timeout N" "map fst (nw_peers (alter_peer a f N)) = map fst (nw_peers N)"
  "nw_desired (alter_peer a f N) = nw_desired N" "nw_events (alter_peer a f N) = nw_events N"
  by (simp_all add: alter_peer_def)

lemma pin_identity_rest [simp]:
  "nw_idle_timeout (pin_identity E cx n k N) = nw_idle_timeout N" "nw_peers (pin_identity E cx n k N) = nw_peers N"
  "nw_desired (pin_identity E cx n k N) = nw_desired N" "peer_view j (pin_identity E cx n k N) = peer_view j N"
  by (simp_all add: pin_identity_def)

lemma emit_rest [simp]:
  "nw_idle_timeout (emit e N) = nw_idle_timeout N" "nw_peers (emit e N) = nw_peers N"
  "nw_desired (emit e N) = nw_desired N" "peer_view j (emit e N) = peer_view j N"
  by (simp_all add: emit_def)

definition same_loops :: "Network \<Rightarrow> Network \<Rightarrow> bool" where
  "same_loops N N' \<longleftrightarrow>
     nw_idle_timeout N' = nw_idle_timeout N \<and> map fst (nw_peers N') = map fst (nw_peers N) \<and>
     nw_desired N' = nw_desired N"

lemma same_loops_basic:
  "same_loops N N" "same_loops M (snd (queue_to a f N)) = same_loops M N" "same_loops M (emit e N) = same_loops M N"
  "same_loops M (alter_peer a g N) = same_loops M N" "same_loops M (pin_identity E cx n k N) = same_loops M N"
  "same_loops M (snd (flush_outbox cx n a N)) = same_loops M N"
  "same_loops M (N\<lparr>nw_greetings_refused := v\<rparr>) = same_loops M N"
  by (simp_all add: same_loops_def queue_to_rest queue_to_keys flush_outbox_keeps)

lemma dispatch_hello_loops: "same_loops N (dispatch_hello E cx a payload N)"
  by (simp add: dispatch_hello_def Let_def same_loops_basic split: option.split)

lemma accept_identity_loops: "same_loops N (accept_identity E cx a payload N)"
  by (simp add: accept_identity_def Let_def same_loops_basic)

lemma accept_ephemeral_loops: "same_loops N (accept_ephemeral E a payload N)"
  by (simp add: accept_ephemeral_def Let_def same_loops_basic)

lemma dispatch_message_loops: "same_loops N (dispatch_message E cx k t a payload N)"
  by (simp add: dispatch_message_def Let_def same_loops_basic split: option.split sum.split)

lemma dispatch_ack_loops: "same_loops N (dispatch_ack a payload N)"
  by (simp add: dispatch_ack_def same_loops_basic split: option.split)

lemma dispatch_loops: "same_loops N (dispatch E cx kind payload a N)"
  by (simp add: dispatch_def dispatch_hello_loops accept_identity_loops accept_ephemeral_loops
      dispatch_message_loops dispatch_ack_loops same_loops_basic split: option.split)

lemma dispatch_rest:
  "nw_idle_timeout (dispatch E cx kind payload a N) = nw_idle_timeout N"
  "map fst (nw_peers (dispatch E cx kind payload a N)) = map fst (nw_peers N)"
  "nw_desired (dispatch E cx kind payload a N) = nw_desired N"
  using dispatch_loops [of N E cx kind payload a] by (simp_all add: same_loops_def)

text \<open>The nickname label a hello frame announces, if it can be displayed.\<close>

definition greeting_label :: "u8 \<Rightarrow> bytes \<Rightarrow> rtext option" where
  "greeting_label kind payload = (if kind = FRAME_HELLO then peer_label (from_utf8_lossy payload) else None)"

lemma dispatch_hello_view:
  "peer_view j (dispatch_hello E cx a payload N) =
   (if j = a then map_option (\<lambda>p. case peer_label (from_utf8_lossy payload) of
      None \<Rightarrow> p | Some n \<Rightarrow> p\<lparr>peer_nickname := Some n\<rparr>) (peer_view j N) else peer_view j N)"
  by (cases "peer_label (from_utf8_lossy payload)")
    (simp_all add: dispatch_hello_def Let_def flush_outbox_keeps peer_view_alter option.map_ident split: option.split)

lemma accept_identity_view:
  "peer_view j (accept_identity E cx a payload N) =
   (if j = a then map_option (\<lambda>p. let i = trim (from_utf8_lossy payload) in
      p\<lparr>peer_identity := (if i = [] then None else Some i)\<rparr>) (peer_view j N) else peer_view j N)"
  by (simp add: accept_identity_def Let_def peer_view_alter)

lemma accept_ephemeral_view:
  "peer_view j (accept_ephemeral E a payload N) =
   (if j = a then map_option (\<lambda>p. if peer_remote_ephemeral p = None
      then p\<lparr>peer_remote_ephemeral := normalize_key E (trim (from_utf8_lossy payload))\<rparr> else p) (peer_view j N)
    else peer_view j N)"
  by (simp add: accept_ephemeral_def Let_def peer_view_alter)

lemma dispatch_message_view: "peer_view j (dispatch_message E cx k t a payload N) = peer_view j N"
  by (simp add: dispatch_message_def Let_def split: option.split sum.split)

lemma dispatch_ack_view: "peer_view j (dispatch_ack a payload N) = peer_view j N"
  by (simp add: dispatch_ack_def split: option.split)

lemma dispatch_view:
  "peer_view j (dispatch E cx kind payload a N) =
   (if j \<noteq> a then peer_view j N
    else map_option (\<lambda>p.
      if kind = FRAME_HELLO then
        (case greeting_label kind payload of None \<Rightarrow> p | Some n \<Rightarrow> p\<lparr>peer_nickname := Some n\<rparr>)
      else if kind = FRAME_IDENTITY then
        (let i = trim (from_utf8_lossy payload) in p\<lparr>peer_identity := (if i = [] then None else Some i)\<rparr>)
      else if kind = FRAME_EPHEMERAL then
        (if peer_remote_ephemeral p = None
         then p\<lparr>peer_remote_ephemeral := normalize_key E (trim (from_utf8_lossy payload))\<rparr> else p)
      else if kind = FRAME_KEEPALIVE then p\<lparr>peer_keepalive_seen := True\<rparr>
      else p) (peer_view j N))"
  by (simp add: dispatch_def dispatch_hello_view accept_identity_view accept_ephemeral_view
      dispatch_message_view dispatch_ack_view greeting_label_def frame_kinds peer_view_alter
      option.map_ident split: option.split)

text \<open>A peer is named by a displayable greeting and by nothing else.\<close>

lemma dispatch_greeted:
  "peer_greeted a (dispatch E cx kind payload a N) \<longleftrightarrow>
   peer_greeted a N \<or> (greeting_label kind payload \<noteq> None \<and> a \<in> set (map fst (nw_peers N)))"
  using peer_view_None [of a N]
  by (cases "peer_view a N"; cases "greeting_label kind payload")
    (auto simp: peer_greeted_view dispatch_view greeting_label_def Let_def frame_kinds)

lemma dispatch_keepalive_seen:
  "keepalive_seen a (dispatch E cx kind payload a N) \<longleftrightarrow>
   keepalive_seen a N \<or> (kind = FRAME_KEEPALIVE \<and> a \<in> set (map fst (nw_peers N)))"
  using peer_view_None [of a N]
  by (cases "peer_view a N"; cases "greeting_label kind payload")
    (auto simp: keepalive_seen_view dispatch_view greeting_label_def Let_def frame_kinds)

subsection \<open>Deadlines\<close>

definition greets :: "read_input \<Rightarrow> bool" where
  "greets i \<longleftrightarrow> (\<exists>kind payload. snd i = Inr (Some (kind, payload)) \<and> greeting_label kind payload \<noteq> None)"

lemma read_end_gone [simp]: "a \<notin> set (map fst (nw_peers (read_end a reason N)))"
  by (simp add: read_end_def Let_def delete_keys)

lemma read_end_gone_map [simp]: "map_of (nw_peers (read_end a reason N)) a = None"
  by (simp add: read_end_def Let_def delete_conv')

text \<open>A connection that never greets ends by its deadline, whatever else it sends.\<close>

lemma read_loop_ungreeted:
  "rd_greeting r = Some d \<Longrightarrow> \<not> peer_greeted a N \<Longrightarrow> \<forall>i \<in> set inputs. \<not> greets i \<Longrightarrow> d < until \<Longrightarrow>
   read_loop E a until inputs r N = (st, N') \<Longrightarrow>
   (\<exists>t reason. st = ReadEnded t reason \<and> t \<le> d) \<and> map_of (nw_peers N') a = None"
proof (induction E a until inputs r N rule: read_loop.induct)
  case (1 E remote until r N)
  then show ?case by (auto simp: read_deadline_def)
next
  case (2 E remote until cx result inputs r N)
  have dl: "read_deadline N r = Some d" using 2 by (simp add: read_deadline_def)
  show ?case
  proof (cases "d < sx_now cx")
    case True
    then show ?thesis using 2 dl by (auto simp: unwrap_or_def)
  next
    case False
    then have c: "\<not> (case read_deadline N r of None \<Rightarrow> False | Some d \<Rightarrow> d < sx_now cx)" by (simp add: dl)
    show ?thesis
    proof (cases "\<exists>kind payload. result = Inr (Some (kind, payload))")
      case False
      then show ?thesis using 2(6) c \<open>\<not> d < sx_now cx\<close> by (auto split: sum.splits option.splits prod.splits)
    next
      case True
      then obtain kind payload where res: "result = Inr (Some (kind, payload))" by blast
      let ?N1 = "dispatch E cx kind payload remote N"
      have g: "greeting_label kind payload = None" using 2(4) by (auto simp: greets_def res)
      then have "\<not> peer_greeted remote ?N1" using 2(3) by (simp add: dispatch_greeted)
      moreover have "rd_greeting (read_next remote (sx_now cx) r ?N1) = Some d"
        using 2(2) \<open>\<not> peer_greeted remote ?N1\<close> by (simp add: read_next_def)
      moreover have "read_loop E remote until inputs (read_next remote (sx_now cx) r ?N1) ?N1 = (st, N')"
        using 2(6) c by (simp add: res Let_def)
      ultimately show ?thesis
        using 2(1) [OF c res refl refl refl] 2(4,5) by simp
    qed
  qed
qed

text \<open>A greeted connection whose peer keeps frames coming is never dropped for silence.\<close>

fun steady :: "duration \<Rightarrow> instant \<Rightarrow> read_input list \<Rightarrow> bool" where
  "steady gap prev [] = True"
| "steady gap prev ((cx, result) # inputs) =
     (sx_now cx \<le> prev + gap \<and> (\<exists>f. result = Inr (Some f)) \<and> steady gap (sx_now cx) inputs)"

fun last_input :: "instant \<Rightarrow> read_input list \<Rightarrow> instant" where
  "last_input prev [] = prev"
| "last_input prev ((cx, result) # inputs) = last_input (sx_now cx) inputs"

lemma read_loop_steady:
  "rd_greeting r = None \<Longrightarrow> steady (nw_idle_timeout N) (rd_last r) inputs \<Longrightarrow>
   until \<le> last_input (rd_last r) inputs + nw_idle_timeout N \<Longrightarrow>
   fst (read_loop E a until inputs r N) = ReadPending"
proof (induction E a until inputs r N rule: read_loop.induct)
  case (1 E remote until r N)
  then show ?case by (simp add: read_deadline_def)
next
  case (2 E remote until cx result inputs r N)
  obtain kind payload where res: "result = Inr (Some (kind, payload))" using 2(3) by auto
  have c: "\<not> (case read_deadline N r of None \<Rightarrow> False | Some d \<Rightarrow> d < sx_now cx)"
    using 2(2,3) by (simp add: read_deadline_def)
  let ?N1 = "dispatch E cx kind payload remote N"
  have "fst (read_loop E remote until inputs (read_next remote (sx_now cx) r ?N1) ?N1) = ReadPending"
    using 2(2-4) by (intro 2(1) [OF c res refl refl refl]) (simp_all add: read_next_def dispatch_rest)
  then show ?case using c by (simp add: res Let_def)
qed

text \<open>One that sent a keepalive and then goes silent is dropped at the idle timeout.\<close>

lemma read_loop_silent:
  assumes "rd_greeting r = None" "rd_armed r" "rd_last r + nw_idle_timeout N < until"
  shows "read_loop E a until [] r N =
    (ReadEnded (rd_last r + nw_idle_timeout N) (lit ''no traffic within the idle timeout''),
     read_end a (lit ''no traffic within the idle timeout'') N)"
  using assms by (simp add: read_deadline_def timeout_reason_def)

end
