(* ===== verification/Samples.thy ===== *)
theory Samples
  imports NetworkFacts
begin

section \<open>Concrete surroundings\<close>

text \<open>
  One instance of every parameter, so that each hypothesis about third-party code is met by
  computable functions: a cipher that appends a tag and checks it, a key agreement by addition,
  ASCII lower-casing and a pin file format. They stand in for the crates only in the witnesses.
\<close>

definition sample_tag :: bytes where
  "sample_tag = replicate 16 0"

definition sample_crypto :: crypto_lib where
  "sample_crypto =
     \<lparr>aead_seal = (\<lambda>k n p. Inr (p @ sample_tag)),
      aead_open = (\<lambda>k n c. if drop (length c - 16) c = sample_tag then Inr (take (length c - 16) c)
                           else Inl (lit ''aead::Error'')),
      argon2 = (\<lambda>p s. Inr (take 32 (p @ replicate 32 0))),
      hkdf_sha256 = (\<lambda>s k i. Inr (take 32 (i @ replicate 32 0))),
      x25519 = (\<lambda>a p. map2 (+) a p),
      x25519_base = replicate 32 0,
      sha256 = (\<lambda>b. take 32 (b @ replicate 32 0))\<rparr>"

lemma sample_aead_laws: "aead_laws sample_crypto"
  by (simp add: aead_laws_def sample_crypto_def sample_tag_def)

lemma map2_plus_left: "map2 (+) a (map2 (+) b c) = map2 (+) b (map2 (+) a (c :: u8 list))"
  by (rule nth_equalityI) (simp_all add: add.left_commute)

lemma sample_dh_laws: "dh_laws sample_crypto"
  by (simp add: dh_laws_def sample_crypto_def map2_plus_left)

definition sample_env :: pin_env where
  "sample_env = \<lparr>pe_hex = sample_hex, pe_crypto = sample_crypto, pe_lower = to_ascii_lowercase,
     pe_json = \<lparr>to_json = (\<lambda>s. Inr []), from_json = (\<lambda>b. Inl [])\<rparr>\<rparr>"

lemma is_whitespace_lower: "is_whitespace (ascii_lower c) = is_whitespace c"
  by (auto simp: is_whitespace_def ascii_lower_def)

lemma trim_lower: "trim (to_ascii_lowercase s) = to_ascii_lowercase (trim s)"
proof -
  have d: "dropWhile is_whitespace (map ascii_lower t) = map ascii_lower (dropWhile is_whitespace t)" for t
    by (induction t) (simp_all add: is_whitespace_lower)
  show ?thesis
    by (simp add: trim_def trim_start_def trim_end_def to_ascii_lowercase_def d rev_map)
qed

lemma sample_env_ok: "env_ok sample_env"
  by (simp add: env_ok_def sample_env_def sample_hex_laws lower_laws_def normalize_nickname_def trim_lower)

lemma sample_env_simps [simp]:
  "pe_hex sample_env = sample_hex" "pe_crypto sample_env = sample_crypto" "pe_lower sample_env = to_ascii_lowercase"
  by (simp_all add: sample_env_def)

definition sample_address :: socket_addr where
  "sample_address = \<lparr>sa_ip = IpV4 [127, 0, 0, 1], sa_port = 33445\<rparr>"

definition sample_manager :: CryptoManager where
  "sample_manager = \<lparr>cm_enabled = True, cm_algorithm = lit ''ChaCha20-Poly1305'', cm_key = replicate 32 7\<rparr>"

definition sample_network :: Network where
  "sample_network =
     (case network_new network_config_default sample_manager pin_store_volatile of Inr N \<Rightarrow> N)"

lemma sample_network_wf: "network_wf E sample_network"
  by (simp add: sample_network_def network_new_def Let_def network_wf_def peers_wf_def outbox_wf_def
      pins_wf_def pin_store_volatile_def pin_store_with_path_def)

definition sample_ctx :: step_ctx where
  "sample_ctx = \<lparr>sx_now = 0, sx_now_ms = 0, sx_writable = True, sx_identity_busy = False\<rparr>"

text \<open>A file format for the identity file: each number in unary, closed by a zero byte.\<close>

definition unary :: "nat list \<Rightarrow> bytes" where
  "unary ns = concat (map (\<lambda>n. replicate n 1 @ [0]) ns)"

fun ununary :: "nat \<Rightarrow> bytes \<Rightarrow> nat list" where
  "ununary n [] = []"
| "ununary n (b # bs) = (if b = 0 then n # ununary 0 bs else ununary (Suc n) bs)"

lemma ununary_unary: "ununary 0 (unary ns) = ns"
proof -
  have "ununary k (replicate n 1 @ 0 # r) = (k + n) # ununary 0 r" for k n r
    by (induction n arbitrary: k) auto
  then show ?thesis by (induction ns) (simp_all add: unary_def)
qed

definition sample_json :: "StoredIdentity json_codec" where
  "sample_json =
     \<lparr>to_json = (\<lambda>s. Inr (unary (unat (sti_version s) # sti_secret s))),
      from_json = (\<lambda>b. case ununary 0 b of v # t \<Rightarrow> Inr \<lparr>sti_version = word_of_nat v, sti_secret = t\<rparr> | [] \<Rightarrow> Inl [])\<rparr>"

lemma sample_json_laws: "\<forall>s. \<exists>bs. to_json sample_json s = Inr bs \<and> from_json sample_json bs = Inr s"
  by (simp add: sample_json_def ununary_unary)

end
