(* ===== verification/Framing.thy ===== *)
theory Framing
  imports Codec Protocol
begin

section \<open>Front-end framing (\<^verbatim>\<open>meta-text-proto/src/ipc/framing.rs\<close>)\<close>

text \<open>
  A frame is its length as four big-endian bytes, then the payload. \<open>ipc_read_frame\<close> and
  \<open>ipc_write_frame\<close> are \<open>read_frame\<close> and \<open>write_frame\<close>; \<open>read_message\<close> and
  \<open>write_message\<close> take the JSON functions of \<^verbatim>\<open>serde_json\<close> as parameters.
\<close>

definition FRAME_HEADER_LEN :: nat where
  "FRAME_HEADER_LEN = 4"

definition frame_too_long :: "nat \<Rightarrow> rtext" where
  "frame_too_long n =
     lit ''frame of '' @ dec n @ lit '' bytes exceeds the '' @ dec (unat MAX_FRAME_LEN) @ lit '' byte limit''"

definition ipc_read_frame :: "source \<Rightarrow> (bytes option) io_read" where
  "ipc_read_frame s =
     (case read_one s of
        (Inl e, s1) \<Rightarrow> (Inl e, s1)
      | (Inr None, s1) \<Rightarrow> (Inr None, s1)
      | (Inr (Some b), s1) \<Rightarrow>
          (case read_exact (FRAME_HEADER_LEN - 1) s1 of
             (Inl e, s2) \<Rightarrow> (Inl e, s2)
           | (Inr bs, s2) \<Rightarrow>
               let declared = from_be_bytes32 (b # bs) in
               if declared = 0 then (Inl (invalid_data (lit ''refusing to read an empty frame'')), s2)
               else if MAX_FRAME_LEN < declared then
                 (Inl (invalid_data (frame_too_long (unat declared))), s2)
               else
                 (case read_exact (unat declared) s2 of
                    (Inl e, s3) \<Rightarrow> (Inl e, s3)
                  | (Inr payload, s3) \<Rightarrow> (Inr (Some payload), s3))))"

definition ipc_write_frame :: "bytes \<Rightarrow> sink \<Rightarrow> io_write" where
  "ipc_write_frame payload k =
     (if payload = [] then (Inl (invalid_data (lit ''refusing to write an empty frame'')), k)
      else if unat MAX_FRAME_LEN < length payload then
        (Inl (invalid_data (frame_too_long (length payload))), k)
      else
        (case write_all (to_be_bytes32 (word_of_nat (length payload))) k of
           (Inl e, k1) \<Rightarrow> (Inl e, k1)
         | (Inr u, k1) \<Rightarrow> write_all payload k1))"

definition read_message :: "(bytes \<Rightarrow> rtext + 'm) \<Rightarrow> source \<Rightarrow> ('m option) io_read" where
  "read_message from_json s =
     (case ipc_read_frame s of
        (Inl e, s1) \<Rightarrow> (Inl e, s1)
      | (Inr None, s1) \<Rightarrow> (Inr None, s1)
      | (Inr (Some bs), s1) \<Rightarrow>
          (case from_json bs of
             Inl e \<Rightarrow> (Inl (invalid_data (lit ''malformed frame payload: '' @ e)), s1)
           | Inr m \<Rightarrow> (Inr (Some m), s1)))"

definition write_message :: "('m \<Rightarrow> rtext + bytes) \<Rightarrow> 'm \<Rightarrow> sink \<Rightarrow> io_write" where
  "write_message to_json m k =
     (case to_json m of
        Inl e \<Rightarrow> (Inl (invalid_data (lit ''unserializable message: '' @ e)), k)
      | Inr bs \<Rightarrow> ipc_write_frame bs k)"

subsection \<open>The bytes of a frame\<close>

definition ipc_frame :: "bytes \<Rightarrow> bytes" where
  "ipc_frame payload = to_be_bytes32 (word_of_nat (length payload)) @ payload"

definition ipc_payload_ok :: "bytes \<Rightarrow> bool" where
  "ipc_payload_ok payload \<longleftrightarrow> payload \<noteq> [] \<and> length payload \<le> unat MAX_FRAME_LEN"

lemma frame_limit_word: "ipc_payload_ok p \<Longrightarrow>
    unat (word_of_nat (length p) :: u32) = length p \<and> (word_of_nat (length p) :: u32) \<noteq> 0 \<and>
    \<not> MAX_FRAME_LEN < (word_of_nat (length p) :: u32)"
proof -
  assume ok: "ipc_payload_ok p"
  then have u: "unat (word_of_nat (length p) :: u32) = length p"
    by (simp add: ipc_payload_ok_def MAX_FRAME_LEN_def unat_of_nat)
  then have "(word_of_nat (length p) :: u32) \<noteq> 0"
    using ok by (metis ipc_payload_ok_def length_0_conv unat_0)
  with u ok show ?thesis by (simp add: word_less_nat_alt ipc_payload_ok_def)
qed

lemma header_split: "\<exists>b bs. to_be_bytes32 w = b # bs \<and> length bs = FRAME_HEADER_LEN - 1"
  using length_to_be_bytes(1) [of w] by (cases "to_be_bytes32 w") (auto simp: FRAME_HEADER_LEN_def)

lemma ipc_read_frame_header:
  assumes "ipc_payload_ok p"
  shows "ipc_read_frame \<lparr>src_bytes = to_be_bytes32 (word_of_nat (length p)) @ rest, src_tail = t\<rparr> =
    (case read_exact (length p) \<lparr>src_bytes = rest, src_tail = t\<rparr> of
       (Inl e, s3) \<Rightarrow> (Inl e, s3)
     | (Inr payload, s3) \<Rightarrow> (Inr (Some payload), s3))"
proof -
  obtain b bs where h: "to_be_bytes32 (word_of_nat (length p)) = b # bs" "length bs = FRAME_HEADER_LEN - 1"
    using header_split by blast
  have "from_be_bytes32 (b # bs) = word_of_nat (length p)"
    by (simp add: h(1) [symmetric])
  then show ?thesis
    using frame_limit_word [OF assms] h
    by (simp add: ipc_read_frame_def read_one_def h(2) [symmetric] Let_def)
qed

lemma ipc_read_frame_enc:
  "ipc_payload_ok p \<Longrightarrow>
   ipc_read_frame \<lparr>src_bytes = ipc_frame p @ rest, src_tail = t\<rparr> =
   (Inr (Some p), \<lparr>src_bytes = rest, src_tail = t\<rparr>)"
  by (simp add: ipc_frame_def ipc_read_frame_header)

lemma ipc_read_frame_cut:
  assumes "ipc_payload_ok p" "ipc_frame p = a @ q" "a \<noteq> []" "q \<noteq> []"
  shows "fst (ipc_read_frame \<lparr>src_bytes = a, src_tail = t\<rparr>) = Inl (unwrap_or early_eof t)"
proof (cases "length a < FRAME_HEADER_LEN")
  case True
  then show ?thesis
    using assms(3) by (cases a) (auto simp: ipc_read_frame_def read_one_def read_exact_short)
next
  case False
  then have len: "length (to_be_bytes32 (word_of_nat (length p))) \<le> length a"
    by (simp add: FRAME_HEADER_LEN_def)
  define r where "r = drop 4 a"
  have "take 4 (a @ q) = to_be_bytes32 (word_of_nat (length p))" "drop 4 (a @ q) = p"
    by (simp_all add: assms(2) [symmetric] ipc_frame_def)
  then have r: "a = to_be_bytes32 (word_of_nat (length p)) @ r" "p = r @ q"
    using len by (metis append_take_drop_id diff_is_0_eq length_to_be_bytes(1) take0 append_Nil2 take_append r_def, simp add: r_def)
  then have "length r < length p" using assms(4) by simp
  then show ?thesis by (simp add: r(1) ipc_read_frame_header [OF assms(1)] read_exact_short)
qed

interpretation ipc: frame_codec ipc_frame ipc_read_frame ipc_payload_ok
proof (unfold_locales, goal_cases)
  case (1 x rest t)
  then show ?case by (rule ipc_read_frame_enc)
next
  case 2
  then show ?case by (simp add: ipc_read_frame_def read_one_def)
next
  case (3 x p q t)
  then show ?case by (rule ipc_read_frame_cut)
qed

subsection \<open>What is written and what is refused\<close>

lemma ipc_write_frame_ok:
  "ipc_payload_ok p \<Longrightarrow> snk_room k = None \<Longrightarrow>
   ipc_write_frame p k = (Inr (), k\<lparr>snk_bytes := snk_bytes k @ ipc_frame p\<rparr>)"
  by (simp add: ipc_write_frame_def ipc_payload_ok_def write_all_open ipc_frame_def)

lemma ipc_write_frame_refused:
  "\<not> ipc_payload_ok p \<Longrightarrow> \<exists>e. ipc_write_frame p k = (Inl e, k) \<and> io_kind e = IoInvalidData"
  by (auto simp: ipc_write_frame_def ipc_payload_ok_def invalid_data_def)

lemma ipc_write_frame_wire:
  assumes "ipc_write_frame p k = (r, k')"
  shows "\<exists>w z. ipc_frame p = w @ z \<and> snk_bytes k' = snk_bytes k @ w \<and> (r = Inr () \<longrightarrow> z = [] \<and> ipc_payload_ok p)"
proof (cases "ipc_payload_ok p")
  case False
  then show ?thesis using ipc_write_frame_refused [OF False, of k] assms by auto
next
  case True
  let ?h = "to_be_bytes32 (word_of_nat (length p))"
  obtain r1 k1 where w1: "write_all ?h k = (r1, k1)" by (cases "write_all ?h k")
  have eq: "ipc_write_frame p k = (case r1 of Inl e \<Rightarrow> (Inl e, k1) | Inr u \<Rightarrow> write_all p k1)"
    using True w1 by (simp add: ipc_write_frame_def ipc_payload_ok_def)
  from write_all_prefix [OF w1] obtain w z
    where h: "?h = w @ z" "snk_bytes k1 = snk_bytes k @ w" "r1 = Inr () \<longrightarrow> z = []" by auto
  show ?thesis
  proof (cases r1)
    case (Inl e)
    then show ?thesis using eq assms h by (auto simp: ipc_frame_def)
  next
    case (Inr u)
    then have "write_all p k1 = (r, k')" using eq assms by simp
    from write_all_prefix [OF this] obtain w2 z2
      where "p = w2 @ z2" "snk_bytes k' = snk_bytes k1 @ w2" "r = Inr () \<longrightarrow> z2 = []" by auto
    then show ?thesis using h Inr True by (auto simp: ipc_frame_def)
  qed
qed

text \<open>A frame that is read never holds more than the limit, and is never empty.\<close>

lemma ipc_read_frame_bounded:
  "ipc_read_frame s = (Inr (Some p), s') \<Longrightarrow> ipc_payload_ok p"
proof -
  assume a: "ipc_read_frame s = (Inr (Some p), s')"
  then obtain d :: u32 and s2 where d: "d \<noteq> 0" "\<not> MAX_FRAME_LEN < d" "read_exact (unat d) s2 = (Inr p, s')"
    by (auto simp: ipc_read_frame_def Let_def split: prod.splits sum.splits option.splits if_splits)
  then have "length p = unat d" using read_exact_Inr by blast
  moreover have "0 < unat d" using d(1) by (simp add: unat_gt_0)
  moreover have "unat d \<le> unat MAX_FRAME_LEN" using d(2) by (simp add: not_less word_le_nat_alt)
  ultimately show ?thesis by (auto simp: ipc_payload_ok_def)
qed

text \<open>A declared length outside the limits is refused before any payload byte is read.\<close>

lemma ipc_read_frame_oversized:
  assumes "MAX_FRAME_LEN < d"
  shows "ipc_read_frame \<lparr>src_bytes = to_be_bytes32 d @ rest, src_tail = t\<rparr> =
    (Inl (invalid_data (frame_too_long (unat d))), \<lparr>src_bytes = rest, src_tail = t\<rparr>)"
proof -
  obtain b bs where h: "to_be_bytes32 d = b # bs" "length bs = FRAME_HEADER_LEN - 1"
    using header_split by blast
  have "from_be_bytes32 (b # bs) = d" by (simp add: h(1) [symmetric])
  moreover have "d \<noteq> 0" using assms by auto
  ultimately show ?thesis
    using assms h by (simp add: ipc_read_frame_def read_one_def h(2) [symmetric] Let_def)
qed

subsection \<open>Messages\<close>

lemma read_write_message:
  assumes "to_json m = Inr bs" "from_json bs = Inr m" "ipc_payload_ok bs" "snk_room k = None"
  shows "fst (write_message to_json m k) = Inr ()"
    and "read_message from_json
      \<lparr>src_bytes = drop (length (snk_bytes k)) (snk_bytes (snd (write_message to_json m k))) @ rest, src_tail = t\<rparr>
      = (Inr (Some m), \<lparr>src_bytes = rest, src_tail = t\<rparr>)"
  using assms by (simp_all add: write_message_def ipc_write_frame_ok read_message_def ipc_read_frame_enc)

lemma write_message_read_many:
  "list_all ipc_payload_ok ps \<Longrightarrow> length ps < n \<Longrightarrow>
   read_many ipc_read_frame n \<lparr>src_bytes = concat (map ipc_frame ps), src_tail = None\<rparr> = (ps, StreamClosed)"
  by (rule ipc.read_many_all)

end
