(* ===== verification/FrontText.thy ===== *)
theory FrontText
  imports Protocol Utils
begin

section \<open>Wording of the front ends (\<^verbatim>\<open>meta-text-tui/src/text.rs\<close>)\<close>

text \<open>
  Help, banner and introduction. The signs outside ASCII have names of their own, with the blank
  that follows them in every line; a line is the concatenation of its parts.
\<close>

definition g_warn :: rtext where "g_warn = [9888, 65039, 32]"
definition g_info :: rtext where "g_info = [8505, 65039, 32]"
definition g_question :: rtext where "g_question = [10067, 32]"
definition g_group :: rtext where "g_group = [128101, 32]"
definition g_link :: rtext where "g_link = [128279, 32]"
definition g_unplug :: rtext where "g_unplug = [128268, 32]"
definition g_chat :: rtext where "g_chat = [128172, 32]"
definition g_inbox :: rtext where "g_inbox = [128229, 32]"
definition g_outbox :: rtext where "g_outbox = [128228, 32]"
definition g_check :: rtext where "g_check = [9989, 32]"
definition g_mail :: rtext where "g_mail = [128232, 32]"
definition g_halt :: rtext where "g_halt = [128721, 32]"
definition g_refuse :: rtext where "g_refuse = [128683, 32]"
definition g_cross :: rtext where "g_cross = [10060, 32]"
definition g_hands :: rtext where "g_hands = [129309, 32]"
definition g_bin :: rtext where "g_bin = [128465, 65039, 32]"
definition g_disk :: rtext where "g_disk = [128190, 32]"
definition g_clock :: rtext where "g_clock = [9201, 65039, 32]"
definition g_star :: rtext where "g_star = [127775, 32]"
definition g_right :: rtext where "g_right = [8594]"
definition g_left :: rtext where "g_left = [8592]"
definition g_dash :: rtext where "g_dash = [8212]"
definition g_dots :: rtext where "g_dots = [8230]"
definition g_dot :: rtext where "g_dot = [183]"

text \<open>\<^verbatim>\<open>{:02}\<close>, and a flag as \<^verbatim>\<open>Display\<close> writes it.\<close>

definition dec2 :: "nat \<Rightarrow> rtext" where
  "dec2 n = (if n < 10 then 48 # dec n else dec n)"

definition flag :: "bool \<Rightarrow> rtext" where
  "flag b = (if b then lit ''true'' else lit ''false'')"

definition format_duration :: "int \<Rightarrow> rtext" where
  "format_duration total_seconds =
     (let clamped = nat (max total_seconds 0) in
      dec (clamped div 3600) @ lit ''h '' @ dec2 (clamped mod 3600 div 60) @ lit ''m '' @
      dec2 (clamped mod 60) @ lit ''s'')"

definition help_lines :: "rtext list" where
  "help_lines =
   [[],
    lit ''metaText commands:'',
    lit ''  /help [command]    - show this command list or one command'' @ [39] @ lit ''s help'',
    lit ''  /readme            - show the metaText introduction'',
    lit ''  /info              - show session and subsystem information'',
    lit ''  /list              - list your friends'',
    lit ''  /peers             - list connected peers'',
    lit ''  /connect <addr>    - connect to a peer (host:port, or a Tox address on tox)'',
    lit ''  /add <DID> [note]  - add a friend by DID address (sends a Tox friend request)'',
    lit ''  /remove <n|name>   - remove a friend from the list'',
    lit ''  /requests          - list pending friend requests (tox transport)'',
    lit ''  /accept <n|key>    - accept a pending friend request (tox transport)'',
    lit ''  /reject <n|key>    - refuse a pending friend request (tox transport)'',
    lit ''  /chat <n|name>     - talk to friend n or the given name (no arg: show)'',
    lit ''  /msg <name> <text> - send <text> to one peer without switching chat'',
    lit ''  /me <action>       - send a third-person action ('' @ [34] @ lit ''* you <action>'' @ [34] @ lit '')'',
    lit ''  /bin <hexadecimal> - send a binary payload (e.g. /bin 00ff10)'',
    lit ''  /group [sub]       - group chats: list, invites, create, rename, join, decline'',
    lit ''  /nick <name>       - change your nickname (no arg: show it)'',
    lit ''  /status <text>     - change your status message (no arg: show it)'',
    lit ''  /whoami            - show your nickname, DID and bound address'',
    lit ''  /version           - show the application version'',
    lit ''  /uptime            - show how long this session has been running'',
    lit ''  /stats             - show runtime statistics'',
    lit ''  /metrics           - show operational counters (key=value, scriptable)'',
    lit ''  /history [n]       - show the last n stored messages (default 20)'',
    lit ''  /save              - persist the current session to disk'',
    lit ''  /clear             - clear the screen'',
    lit ''  /quit              - leave metaText'',
    lit ''  <text>             - send <text> to the active conversation'',
    []]"

text \<open>Names, usage and description of each command with a help of its own.\<close>

definition COMMAND_HELP :: "(rtext list \<times> rtext \<times> rtext) list" where
  "COMMAND_HELP =
   [([lit ''help'', lit ''h'', lit ''?''],
      lit ''/help [command]'',
      lit ''Show all commands, or the help for one of them''),
    ([lit ''readme''],
      lit ''/readme'',
      lit ''Show the metaText introduction''),
    ([lit ''info''],
      lit ''/info'',
      lit ''Show session and subsystem information''),
    ([lit ''list'', lit ''friends''],
      lit ''/list'',
      lit ''List your friends''),
    ([lit ''peers'', lit ''connections''],
      lit ''/peers'',
      lit ''List connected peers and the local address''),
    ([lit ''stats''],
      lit ''/stats'',
      lit ''Show runtime statistics''),
    ([lit ''metrics''],
      lit ''/metrics'',
      lit ''Show operational counters as key=value lines (queues, sheds, subscribers)''),
    ([lit ''history'', lit ''log''],
      lit ''/history [n]'',
      lit ''Show the last n stored messages (default 20)''),
    ([lit ''clear'', lit ''cls''],
      lit ''/clear'',
      lit ''Clear the screen''),
    ([lit ''nick'', lit ''nickname''],
      lit ''/nick [name]'',
      lit ''Change your nickname; without a name the current one is shown''),
    ([lit ''status''],
      lit ''/status [text]'',
      lit ''Change your status message; without text the current one is shown''),
    ([lit ''add''],
      lit ''/add <address> [note]'',
      lit ''Add a friend; on the tox transport this sends a friend request''),
    ([lit ''chat'', lit ''to''],
      lit ''/chat [n|name]'',
      lit ''Talk to friend n or the given name; without a target the active chat is shown''),
    ([lit ''connect'', lit ''join''],
      lit ''/connect <address>'',
      lit ''Reach a peer: host:port on tcp, a Tox address on tox''),
    ([lit ''requests'', lit ''pending''],
      lit ''/requests'',
      lit ''List the friend requests waiting for an answer (tox transport)''),
    ([lit ''accept''],
      lit ''/accept <n|public key>'',
      lit ''Accept a pending friend request by index or public key (tox transport)''),
    ([lit ''reject'', lit ''decline''],
      lit ''/reject <n|public key>'',
      lit ''Refuse a pending friend request by index or public key (tox transport). Nothing is sent to the requester, and the request leaves the pending list''),
    ([lit ''msg'', lit ''send''],
      lit ''/msg <name> <text>'',
      lit ''Send <text> to one peer without switching the active conversation''),
    ([lit ''me'', lit ''action'', lit ''emote''],
      lit ''/me <action>'',
      lit ''Send a third-person action; peers render it as '' @ [34] @ lit ''* you <action>'' @ [34]),
    ([lit ''bin'', lit ''binary'', lit ''hex''],
      lit ''/bin <hexadecimal>'',
      lit ''Send an opaque binary payload; the peer sees its size and a preview''),
    ([lit ''group'', lit ''groups'', lit ''g''],
      lit ''/group [subcommand] [@group] [args]'',
      lit ''Group chats (Tox only): list (default), invites, create <name>, rename [@group] <name>, join <token>, decline <token> (discard an invitation; alias reject), invite [@group] <peer>, send [@group] <text>, me [@group] <text>, bin [@group] <hex>, select <id|name|index>, leave [@group]''),
    ([lit ''remove'', lit ''rm'', lit ''del''],
      lit ''/remove <n|name>'',
      lit ''Remove a friend from the list''),
    ([lit ''whoami''],
      lit ''/whoami'',
      lit ''Show your nickname, DID and bound address''),
    ([lit ''version'', lit ''ver''],
      lit ''/version'',
      lit ''Show the application version''),
    ([lit ''uptime''],
      lit ''/uptime'',
      lit ''Show how long this session has been running''),
    ([lit ''save''],
      lit ''/save'',
      lit ''Persist the current session to disk''),
    ([lit ''quit'', lit ''exit'', lit ''q''],
      lit ''/quit'',
      lit ''Leave metaText'')]"

definition topic_name :: "rtext \<Rightarrow> rtext" where
  "topic_name topic = to_ascii_lowercase (dropWhile (\<lambda>c. c = 47) (trim topic))"

definition command_help_lines :: "rtext \<Rightarrow> rtext list" where
  "command_help_lines topic =
     (let name = topic_name topic in
      case List.find (\<lambda>(names, usage, description). name \<in> set names) COMMAND_HELP of
        Some (names, usage, description) \<Rightarrow> [[], lit ''Usage: '' @ usage, lit ''  '' @ description, []]
      | None \<Rightarrow>
          if name = [] then help_lines
          else [g_question @ lit ''no help available for '' @ [39] @ lit ''/'' @ name @ [39] @
            lit ''. Type /help for the command list.''])"

definition readme_lines :: "rtext list" where
  "readme_lines =
   [[],
    lit ''>> metaText ~ a Web3 decentralized instant messenger'',
    lit ''   - P2P text messaging with end-to-end encryption'',
    lit ''   - Your identity is a self generated key pair (no server needed)'',
    lit ''   - Use /add <DID_Address> Hello to invite a friend'',
    lit ''   - Use /chat <n> to start talking, /info shows the numbering'',
    lit ''   arkDelphi Metaverse Lab ~ arksong2018@gmail.com'',
    []]"

definition startup_banner :: "bool \<Rightarrow> rtext list" where
  "startup_banner full_screen =
     (if full_screen then
   [g_star @ lit ''Welcome to Metaverse Web3 Communication CyberSpace'',
    lit ''>> metaText ~ a Simple Web3 Text Instant Messager'',
    lit ''   ::: arkDelphi Metaverse Lab'',
    lit ''Type '' @ [96] @ lit ''/help'' @ [96] @ lit '' for the command list, '' @ [96] @ lit ''/readme'' @
      [96] @ lit '' for an introduction.'',
    []]
      else
   [[],
    [],
    [],
    g_star @ lit ''Welcome to Metaverse Web3 Communication CyberSpace'',
    [27] @ lit ''[36m'',
    lit ''                __       ___________              __   '',
    lit ''   ___    _____/  |______'' @ [92] @ lit ''__    ___/___ ___  ____/  |_ '',
    lit '' /     '' @ [92] @ lit ''_/ __ '' @ [92] @ lit ''   __'' @ [92] @ lit ''__  '' @ [92] @
      lit '' |    |_/ __ '' @ [92] @ lit ''  '' @ [92] @ lit ''/  /'' @ [92] @ lit ''   __'',
    lit ''|  Y Y  '' @ [92] @ lit ''  ___/|  |  / __ '' @ [92] @ lit ''|    |'' @ [92] @
      lit ''  ___/ >    <  |  |  '',
    lit ''|__|_|  /'' @ [92] @ lit ''___  >__| (____  /____| '' @ [92] @ lit ''___  >__/'' @ [92] @ lit ''_ '' @
      [92] @ lit '' |__|  '',
    lit ''      '' @ [92] @ lit ''/     '' @ [92] @ lit ''/          '' @ [92] @ lit ''/           '' @ [92] @
      lit ''/      '' @ [92] @ lit ''/     '',
    [27] @ lit ''[0m'',
    lit ''>> metaText ~ a Simple Web3 Text Instant Messager'',
    lit ''   ::: arkDelphi Metaverse Lab'',
    lit ''         arksong2018@gmail.com'',
    lit ''..................................................................'',
    [],
    lit ''Type '' @ [96] @ lit ''/help'' @ [96] @ lit '' to get metaText command list.'',
    lit ''Type '' @ [96] @ lit ''/readme'' @ [96] @ lit '' to get metaText introduction.'',
    []])"

end
