(* ===== verification/Commands.thy ===== *)
theory Commands
  imports FrontText
begin

section \<open>Interactive commands (\<^verbatim>\<open>meta-text-tui/src/commands.rs\<close>)\<close>

text \<open>
  The commands and the parser of a typed line. \<open>lower\<close> is \<^verbatim>\<open>str::to_lowercase\<close>, whose tables are not
  part of the program.
\<close>

datatype Command =
    CmHelp "rtext option"
  | CmReadme
  | CmInfo
  | CmList
  | CmPeers
  | CmStats
  | CmMetrics
  | CmHistory "nat option"
  | CmClear
  | CmNick rtext
  | CmStatus rtext
  | CmAdd rtext "rtext option"
  | CmChat rtext
  | CmConnect rtext
  | CmReject rtext
  | CmAccept rtext
  | CmRequests
  | CmMessage rtext
  | CmAction rtext
  | CmBinary rtext
  | CmGroup rtext rtext
  | CmWhoami
  | CmVersion
  | CmUptime
  | CmSave
  | CmMsg rtext rtext
  | CmRemove rtext
  | CmQuit
  | CmUnknown rtext

text \<open>\<^verbatim>\<open>splitn(2, char::is_whitespace)\<close>: the text before the first blank and, where there is one, after it.\<close>

definition split_word :: "rtext \<Rightarrow> rtext \<times> rtext option" where
  "split_word s =
     (takeWhile (\<lambda>c. \<not> is_whitespace c) s,
      case dropWhile (\<lambda>c. \<not> is_whitespace c) s of [] \<Rightarrow> None | c # rest \<Rightarrow> Some rest)"

definition among :: "string list \<Rightarrow> rtext \<Rightarrow> bool" where
  "among names name \<longleftrightarrow> name \<in> set (map lit names)"

text \<open>The \<^verbatim>\<open>match\<close> on the command name.\<close>

definition command_of :: "(rtext \<Rightarrow> rtext) \<Rightarrow> rtext \<Rightarrow> rtext \<Rightarrow> Command" where
  "command_of lower name args =
     (if among [''help'', ''h'', ''?''] name then CmHelp (if args = [] then None else Some args)
      else if among [''readme''] name then CmReadme
      else if among [''info''] name then CmInfo
      else if among [''list'', ''friends''] name then CmList
      else if among [''peers'', ''connections''] name then CmPeers
      else if among [''stats''] name then CmStats
      else if among [''metrics''] name then CmMetrics
      else if among [''history'', ''log''] name then CmHistory (parse_usize args)
      else if among [''clear'', ''cls''] name then CmClear
      else if among [''quit'', ''exit'', ''q''] name then CmQuit
      else if among [''nick'', ''nickname''] name then CmNick args
      else if among [''status''] name then CmStatus args
      else if among [''whoami''] name then CmWhoami
      else if among [''version'', ''ver''] name then CmVersion
      else if among [''uptime''] name then CmUptime
      else if among [''save''] name then CmSave
      else if among [''msg'', ''send''] name then
        (case split_word args of (target, rest) \<Rightarrow> CmMsg (trim target) (trim (unwrap_or [] rest)))
      else if among [''remove'', ''rm'', ''del''] name then CmRemove args
      else if among [''add''] name then
        (case split_word args of (who, rest) \<Rightarrow>
           CmAdd (trim who) (case rest of None \<Rightarrow> None
                             | Some r \<Rightarrow> if trim r = [] then None else Some (trim r)))
      else if among [''chat'', ''to''] name then CmChat args
      else if among [''connect'', ''join''] name then CmConnect args
      else if among [''accept''] name then CmAccept args
      else if among [''reject'', ''decline''] name then CmReject args
      else if among [''requests'', ''pending''] name then CmRequests
      else if among [''me'', ''action'', ''emote''] name then CmAction args
      else if among [''bin'', ''binary'', ''hex''] name then CmBinary args
      else if among [''group'', ''groups'', ''g''] name then
        (case split_word args of
           (head, None) \<Rightarrow> CmGroup (lower args) []
         | (head, Some rest) \<Rightarrow> CmGroup (lower head) (trim rest))
      else CmUnknown name)"

definition parse_command :: "(rtext \<Rightarrow> rtext) \<Rightarrow> rtext \<Rightarrow> Command" where
  "parse_command lower line =
     (let trimmed = trim line in
      case strip_prefix (lit ''/'') trimmed of
        None \<Rightarrow> CmMessage trimmed
      | Some rest \<Rightarrow>
          (case split_word (trim_start rest) of
             (name, args) \<Rightarrow> command_of lower (to_ascii_lowercase name) (trim (unwrap_or [] args))))"

subsection \<open>What the parser gives\<close>

lemma parse_plain:
  "strip_prefix (lit ''/'') (trim line) = None \<Longrightarrow> parse_command lower line = CmMessage (trim line)"
  by (simp add: parse_command_def)

end
