(* ===== verification/Terminal.thy ===== *)
theory Terminal
  imports Commands Types
begin

section \<open>Full screen interface (\<^verbatim>\<open>meta-text-tui/src/tui.rs\<close>)\<close>

text \<open>
  The line editor, the bounded output buffer, and what the conversation pane and the input line
  show. Drawing itself is the terminal library; \<open>columns\<close> is the width of a character by its
  Unicode table. Positions and widths are natural numbers: no text is long enough for the
  saturating additions of the code to differ from them. Inserting past the end of the text or
  removing a character that is not there would be a panic; the editor keeps its cursor within the
  text, so neither happens (\<open>Editor\<close> facts).
\<close>

definition OUTPUT_CAPACITY :: nat where "OUTPUT_CAPACITY = 1000"
definition INPUT_HISTORY_CAPACITY :: nat where "INPUT_HISTORY_CAPACITY = 100"

subsection \<open>The line editor\<close>

record InputBuffer =
  ib_chars :: rtext
  ib_cursor :: nat
  ib_history :: "rtext list"
  ib_history_index :: "nat option"
  ib_draft :: rtext

definition input_buffer_new :: InputBuffer where
  "input_buffer_new = \<lparr>ib_chars = [], ib_cursor = 0, ib_history = [], ib_history_index = None, ib_draft = []\<rparr>"

definition insert_at :: "nat \<Rightarrow> 'a \<Rightarrow> 'a list \<Rightarrow> 'a list" where
  "insert_at i x xs = take i xs @ x # drop i xs"

definition ib_stop_browsing :: "InputBuffer \<Rightarrow> InputBuffer" where
  "ib_stop_browsing B = B\<lparr>ib_history_index := None, ib_draft := []\<rparr>"

definition ib_insert :: "rchar \<Rightarrow> InputBuffer \<Rightarrow> InputBuffer" where
  "ib_insert c B = ib_stop_browsing
     (B\<lparr>ib_chars := insert_at (ib_cursor B) c (ib_chars B), ib_cursor := ib_cursor B + 1\<rparr>)"

text \<open>What a pasted character becomes: newlines and tabs a blank, other control characters nothing.\<close>

definition pasted :: "rchar \<Rightarrow> rchar option" where
  "pasted c = (if c = 10 \<or> c = 13 \<or> c = 9 then Some 32 else if is_control c then None else Some c)"

fun ib_insert_chars :: "rtext \<Rightarrow> InputBuffer \<Rightarrow> InputBuffer" where
  "ib_insert_chars [] B = B"
| "ib_insert_chars (c # cs) B =
     ib_insert_chars cs
       (case pasted c of
          None \<Rightarrow> B
        | Some d \<Rightarrow> B\<lparr>ib_chars := insert_at (ib_cursor B) d (ib_chars B), ib_cursor := ib_cursor B + 1\<rparr>)"

definition ib_insert_str :: "rtext \<Rightarrow> InputBuffer \<Rightarrow> InputBuffer" where
  "ib_insert_str s B = ib_stop_browsing (ib_insert_chars s B)"

definition ib_backspace :: "InputBuffer \<Rightarrow> InputBuffer" where
  "ib_backspace B = ib_stop_browsing
     (if 0 < ib_cursor B
      then B\<lparr>ib_chars := remove_at (ib_cursor B - 1) (ib_chars B), ib_cursor := ib_cursor B - 1\<rparr>
      else B)"

definition ib_delete :: "InputBuffer \<Rightarrow> InputBuffer" where
  "ib_delete B = ib_stop_browsing
     (if ib_cursor B < length (ib_chars B)
      then B\<lparr>ib_chars := remove_at (ib_cursor B) (ib_chars B)\<rparr> else B)"

definition ib_clear :: "InputBuffer \<Rightarrow> InputBuffer" where
  "ib_clear B = ib_stop_browsing (B\<lparr>ib_chars := [], ib_cursor := 0\<rparr>)"

definition ib_move_left :: "InputBuffer \<Rightarrow> InputBuffer" where
  "ib_move_left B = B\<lparr>ib_cursor := ib_cursor B - 1\<rparr>"

definition ib_move_right :: "InputBuffer \<Rightarrow> InputBuffer" where
  "ib_move_right B = (if ib_cursor B < length (ib_chars B) then B\<lparr>ib_cursor := ib_cursor B + 1\<rparr> else B)"

definition ib_move_home :: "InputBuffer \<Rightarrow> InputBuffer" where
  "ib_move_home B = B\<lparr>ib_cursor := 0\<rparr>"

definition ib_move_end :: "InputBuffer \<Rightarrow> InputBuffer" where
  "ib_move_end B = B\<lparr>ib_cursor := length (ib_chars B)\<rparr>"

text \<open>Enter: the line as typed; it joins the history unless it is blank or repeats the newest entry.\<close>

definition remembers :: "rtext \<Rightarrow> rtext list \<Rightarrow> bool" where
  "remembers line history \<longleftrightarrow> trim line \<noteq> [] \<and> (history = [] \<or> last history \<noteq> line)"

definition ib_submit :: "InputBuffer \<Rightarrow> InputBuffer \<times> rtext" where
  "ib_submit B =
     (let line = ib_chars B; B1 = ib_stop_browsing (B\<lparr>ib_chars := [], ib_cursor := 0\<rparr>) in
      (if remembers line (ib_history B1)
       then B1\<lparr>ib_history := (if INPUT_HISTORY_CAPACITY \<le> length (ib_history B1) then tl (ib_history B1)
                              else ib_history B1) @ [line]\<rparr>
       else B1, line))"

definition ib_set_from_history :: "nat \<Rightarrow> InputBuffer \<Rightarrow> InputBuffer" where
  "ib_set_from_history i B =
     (case get_at i (ib_history B) of
        None \<Rightarrow> B
      | Some line \<Rightarrow> B\<lparr>ib_chars := line, ib_cursor := length line\<rparr>)"

definition ib_history_previous :: "InputBuffer \<Rightarrow> InputBuffer" where
  "ib_history_previous B =
     (if ib_history B = [] then B
      else case ib_history_index B of
             None \<Rightarrow>
               (let i = length (ib_history B) - 1 in
                ib_set_from_history i (B\<lparr>ib_draft := ib_chars B, ib_history_index := Some i\<rparr>))
           | Some i \<Rightarrow>
               (let next = (if i = 0 then 0 else i - 1) in
                ib_set_from_history next (B\<lparr>ib_history_index := Some next\<rparr>)))"

definition ib_history_next :: "InputBuffer \<Rightarrow> InputBuffer" where
  "ib_history_next B =
     (case ib_history_index B of
        None \<Rightarrow> B
      | Some i \<Rightarrow>
          if i + 1 < length (ib_history B)
          then ib_set_from_history (i + 1) (B\<lparr>ib_history_index := Some (i + 1)\<rparr>)
          else B\<lparr>ib_history_index := None, ib_draft := [], ib_chars := ib_draft B,
                 ib_cursor := length (ib_draft B)\<rparr>)"

subsection \<open>Keys\<close>

datatype key_code =
    KcChar rchar | KcBackspace | KcDelete | KcLeft | KcRight | KcHome | KcEnd | KcUp | KcDown
  | KcEsc | KcEnter | KcPageUp | KcPageDown | KcOther

record key_event =
  ke_press :: bool
  ke_control :: bool
  ke_code :: key_code

datatype KeyAction = KaNone | KaLine rtext | KaQuit | KaClearOutput | KaScrollUp | KaScrollDown

definition apply_char :: "bool \<Rightarrow> rchar \<Rightarrow> InputBuffer \<Rightarrow> InputBuffer \<times> KeyAction" where
  "apply_char control c B =
     (if \<not> control then (ib_insert c B, KaNone)
      else if c = 99 \<or> c = 113 then (B, KaQuit)
      else if c = 117 then (ib_clear B, KaNone)
      else if c = 97 then (ib_move_home B, KaNone)
      else if c = 101 then (ib_move_end B, KaNone)
      else if c = 108 then (B, KaClearOutput)
      else (B, KaNone))"

definition apply_key :: "key_event \<Rightarrow> InputBuffer \<Rightarrow> InputBuffer \<times> KeyAction" where
  "apply_key key B =
     (if \<not> ke_press key then (B, KaNone)
      else case ke_code key of
             KcChar c \<Rightarrow> apply_char (ke_control key) c B
           | KcBackspace \<Rightarrow> (ib_backspace B, KaNone)
           | KcDelete \<Rightarrow> (ib_delete B, KaNone)
           | KcLeft \<Rightarrow> (ib_move_left B, KaNone)
           | KcRight \<Rightarrow> (ib_move_right B, KaNone)
           | KcHome \<Rightarrow> (ib_move_home B, KaNone)
           | KcEnd \<Rightarrow> (ib_move_end B, KaNone)
           | KcUp \<Rightarrow> (ib_history_previous B, KaNone)
           | KcDown \<Rightarrow> (ib_history_next B, KaNone)
           | KcEsc \<Rightarrow> (ib_clear B, KaNone)
           | KcEnter \<Rightarrow> (case ib_submit B of (B', line) \<Rightarrow> (B', KaLine line))
           | KcPageUp \<Rightarrow> (B, KaScrollUp)
           | KcPageDown \<Rightarrow> (B, KaScrollDown)
           | KcOther \<Rightarrow> (B, KaNone))"

subsection \<open>The output buffer\<close>

record OutputSink =
  os_enabled :: bool
  os_lines :: "rtext list"

definition output_sink_default :: OutputSink where
  "output_sink_default = \<lparr>os_enabled = False, os_lines = []\<rparr>"

definition sink_clear :: "OutputSink \<Rightarrow> OutputSink" where
  "sink_clear S = S\<lparr>os_lines := []\<rparr>"

definition sink_enable :: "OutputSink \<Rightarrow> OutputSink" where
  "sink_enable S = S\<lparr>os_enabled := True\<rparr>"

definition sink_disable :: "OutputSink \<Rightarrow> OutputSink" where
  "sink_disable S = sink_clear (S\<lparr>os_enabled := False\<rparr>)"

definition sink_push :: "rtext \<Rightarrow> OutputSink \<Rightarrow> OutputSink" where
  "sink_push line S =
     S\<lparr>os_lines := (if OUTPUT_CAPACITY \<le> length (os_lines S) then tl (os_lines S) else os_lines S) @
       [line]\<rparr>"

text \<open>The sink and, as its lines, what was printed instead while it was disabled.\<close>

record screen =
  sc_sink :: OutputSink
  sc_printed :: "rtext list"

definition write_line :: "rtext \<Rightarrow> screen \<Rightarrow> screen" where
  "write_line line S =
     (if os_enabled (sc_sink S) then S\<lparr>sc_sink := sink_push line (sc_sink S)\<rparr>
      else S\<lparr>sc_printed := sc_printed S @ [line]\<rparr>)"

definition clear_output :: "screen \<Rightarrow> screen" where
  "clear_output S =
     (if os_enabled (sc_sink S) then S\<lparr>sc_sink := sink_clear (sc_sink S)\<rparr>
      else S\<lparr>sc_printed := sc_printed S @ [[27, 91, 50, 74, 27, 91, 72]]\<rparr>)"

definition should_show_prompt :: "bool \<Rightarrow> bool \<Rightarrow> bool \<Rightarrow> bool" where
  "should_show_prompt stdin_is_terminal stdout_is_terminal sink_enabled \<longleftrightarrow>
     stdin_is_terminal \<and> stdout_is_terminal \<and> \<not> sink_enabled"

subsection \<open>Rows of the conversation pane\<close>

text \<open>The row being filled, the columns it takes, the characters left; the rows from there on.\<close>

fun wrap_rows :: "(rchar \<Rightarrow> nat) \<Rightarrow> nat \<Rightarrow> rtext \<Rightarrow> nat \<Rightarrow> rtext \<Rightarrow> rtext list" where
  "wrap_rows columns width row used [] = (if row = [] then [] else [row])"
| "wrap_rows columns width row used (c # cs) =
     (if 0 < used \<and> width < used + columns c
      then row # wrap_rows columns width [c] (columns c) cs
      else wrap_rows columns width (row @ [c]) (used + columns c) cs)"

definition wrap_line :: "(rchar \<Rightarrow> nat) \<Rightarrow> rtext \<Rightarrow> nat \<Rightarrow> rtext list" where
  "wrap_line columns line width =
     (if width = 0 then [line]
      else case wrap_rows columns width [] 0 line of [] \<Rightarrow> [[]] | rows \<Rightarrow> rows)"

text \<open>The rows of the newest lines, until \<open>wanted\<close> of them are there, and whether the oldest line was
  passed without a stop.\<close>

fun newest_rows :: "(rchar \<Rightarrow> nat) \<Rightarrow> nat \<Rightarrow> nat \<Rightarrow> rtext list \<Rightarrow> rtext list \<Rightarrow> rtext list \<times> bool" where
  "newest_rows columns width wanted rows [] = (rows, True)"
| "newest_rows columns width wanted rows (line # older) =
     (let rows' = wrap_line columns line width @ rows in
      if wanted \<le> length rows' then (rows', False) else newest_rows columns width wanted rows' older)"

definition visible_log_rows ::
    "(rchar \<Rightarrow> nat) \<Rightarrow> rtext list \<Rightarrow> nat \<Rightarrow> nat \<Rightarrow> nat \<Rightarrow> rtext list \<times> nat" where
  "visible_log_rows columns lines width visible scroll =
     (if visible = 0 then ([], 0)
      else case newest_rows columns width (visible + scroll) [] (rev lines) of
        (rows, reached_the_start) \<Rightarrow>
          (let limit = (if reached_the_start then length rows - visible else usize_max);
               clamped = min scroll limit;
               last_row = length rows - clamped;
               first_row = last_row - visible in
           (take (last_row - first_row) (drop first_row rows), limit)))"

subsection \<open>Scrolling\<close>

record PaneScroll =
  pn_page :: nat
  pn_limit :: nat
  pn_arrived :: nat
  pn_seen_lines :: nat
  pn_primed :: bool

definition pane_scroll_default :: PaneScroll where
  "pane_scroll_default = \<lparr>pn_page = 1, pn_limit = usize_max, pn_arrived = 0, pn_seen_lines = 0, pn_primed = False\<rparr>"

definition pane_step :: "PaneScroll \<Rightarrow> nat \<Rightarrow> bool \<Rightarrow> nat" where
  "pane_step P scroll towards_older =
     (let page = max (pn_page P) 1 in
      if towards_older then min (scroll + page) (pn_limit P) else scroll - page)"

definition count_arrivals :: "(rchar \<Rightarrow> nat) \<Rightarrow> rtext list \<Rightarrow> nat \<Rightarrow> PaneScroll \<Rightarrow> PaneScroll \<times> nat" where
  "count_arrivals columns lines width P =
     (let seen = pn_seen_lines P; P1 = P\<lparr>pn_seen_lines := length lines, pn_primed := True\<rparr> in
      (P1, if \<not> pn_primed P \<or> length lines \<le> seen then 0
           else sum_list (map (\<lambda>line. length (wrap_line columns line width)) (drop seen lines))))"

text \<open>What \<^verbatim>\<open>draw_log\<close> shows in an area, and what it leaves in the pane.\<close>

definition draw_log ::
    "(rchar \<Rightarrow> nat) \<Rightarrow> rtext list \<Rightarrow> nat \<Rightarrow> nat \<Rightarrow> nat \<Rightarrow> PaneScroll \<Rightarrow> PaneScroll \<times> rtext list" where
  "draw_log columns lines area_width area_height scroll P =
     (let width = area_width - 2; visible_height = area_height - 2 in
      case visible_log_rows columns lines width visible_height scroll of
        (rows, limit) \<Rightarrow>
          (case count_arrivals columns lines width (P\<lparr>pn_page := max visible_height 1, pn_limit := limit\<rparr>) of
             (P1, arrived) \<Rightarrow> (P1\<lparr>pn_arrived := arrived\<rparr>, rows)))"

subsection \<open>The input line\<close>

definition width_of :: "(rchar \<Rightarrow> nat) \<Rightarrow> rtext \<Rightarrow> nat" where
  "width_of columns s = sum_list (map columns s)"

function view_start :: "(rchar \<Rightarrow> nat) \<Rightarrow> rtext \<Rightarrow> nat \<Rightarrow> nat \<Rightarrow> nat \<Rightarrow> nat" where
  "view_start columns cs cursor width start =
     (if cursor \<le> start
         \<or> width_of columns (take cursor cs) - width_of columns (take start cs) + (if 0 < start then 1 else 0) < width
      then start
      else view_start columns cs cursor width (start + 1))"
  by pat_completeness auto

termination
  by (relation "measure (\<lambda>(columns, cs, cursor, width, start). cursor - start)") auto

declare view_start.simps [simp del]

definition u16_capped :: "nat \<Rightarrow> nat" where
  "u16_capped n = min n 65535"

definition input_view :: "(rchar \<Rightarrow> nat) \<Rightarrow> rtext \<Rightarrow> nat \<Rightarrow> nat \<Rightarrow> rtext \<times> nat" where
  "input_view columns input cursor width =
     (if width = 0 then ([], 0)
      else
        (let at = min cursor (length input);
             start = view_start columns input at width 0;
             offset = width_of columns (take at input) - width_of columns (take start input);
             shown = drop start input in
         if 0 < start then (8230 # shown, u16_capped (offset + 1)) else (shown, u16_capped offset)))"

definition title_with_overflow :: "rtext \<Rightarrow> nat \<Rightarrow> rtext" where
  "title_with_overflow base hidden =
     (if hidden = 0 then base else (trim_end base @ lit '' '' @ g_dot @ lit '' +'' @ dec hidden @ lit '' more ''))"

subsection \<open>What the interface draws from\<close>

datatype Theme = ThDark | ThLight

record UiOptions =
  uo_colors :: bool
  uo_theme :: Theme
  uo_mouse :: bool
  uo_auto_scroll :: bool

definition ui_options_default :: UiOptions where
  "ui_options_default = \<lparr>uo_colors = True, uo_theme = ThDark, uo_mouse = True, uo_auto_scroll = True\<rparr>"

record TuiInfo =
  ti_app_name :: rtext
  ti_nickname :: rtext
  ti_status_message :: rtext
  ti_identity :: rtext
  ti_mode :: rtext
  ti_network :: rtext
  ti_database :: rtext
  ti_encryption :: rtext
  ti_friends :: "rtext list"
  ti_peers :: "rtext list"
  ti_pending_peers :: nat
  ti_active_chat :: "rtext option"
  ti_messages_sent :: u64
  ti_messages_received :: u64
  ti_bytes_sent :: u64
  ti_bytes_received :: u64

definition pane_title :: "TuiInfo \<Rightarrow> bool \<Rightarrow> rtext" where
  "pane_title info scrolled =
     (lit '' conversation '' @ g_dot @ lit '' sent '' @ dec (unat (ti_messages_sent info)) @ lit '' '' @ g_dot @
       lit '' recv '' @ dec (unat (ti_messages_received info)) @ lit '' '') @
     (if scrolled then (g_dot @ lit '' scrolled (PgDn) '') else [])"

definition header_title :: "TuiInfo \<Rightarrow> rtext" where
  "header_title info =
     (if trim (ti_app_name info) = [] then (lit '' metaText '') else (lit '' '' @ trim (ti_app_name info) @
       lit '' ''))"

definition header_lines :: "TuiInfo \<Rightarrow> rtext list list" where
  "header_lines info =
     [[lit '' '' @ ti_nickname info @ lit '' '', lit ''  '' @ ti_status_message info, lit ''  ['' @
       ti_mode info @ lit '']''],
      [lit '' id '' @ truncate_string (ti_identity info) 24 @ lit '' '', lit '' enc '' @ ti_encryption info @
        lit '' '', lit '' db '' @ ti_database info @ lit '' '']]"

text \<open>The rows and titles of the two lists beside the conversation, for the heights they are given.\<close>

fun numbered_from :: "nat \<Rightarrow> rtext list \<Rightarrow> rtext list" where
  "numbered_from n [] = []"
| "numbered_from n (name # names) = (lit '' '' @ dec n @ lit ''. '' @ name) # numbered_from (n + 1) names"

definition friend_rows :: "TuiInfo \<Rightarrow> rtext list" where
  "friend_rows info = (if ti_friends info = [] then [lit '' (no friends yet)''] else numbered_from 1 (ti_friends info))"

definition peer_rows :: "TuiInfo \<Rightarrow> rtext list" where
  "peer_rows info =
     (if ti_peers info = []
      then [if 0 < ti_pending_peers info then (lit '' retrying '' @ dec (ti_pending_peers info) @
        lit '' address(es)'' @ g_dots)
            else (lit '' (nobody connected)'')]
      else numbered_from 1 (ti_peers info))"

definition peer_list_height :: "TuiInfo \<Rightarrow> nat" where
  "peer_list_height info =
     (let n = length (ti_peers info) + 2 in if 65535 < n then 3 else min 8 (max 3 n))"

definition friend_title :: "TuiInfo \<Rightarrow> nat \<Rightarrow> rtext" where
  "friend_title info height =
     title_with_overflow
       (case ti_active_chat info of None \<Rightarrow> (lit '' friends '') | Some chat \<Rightarrow> (lit '' friends (chatting: '' @ chat @ lit '') ''))
       (length (ti_friends info) - (height - 2))"

definition peer_title :: "TuiInfo \<Rightarrow> nat \<Rightarrow> rtext" where
  "peer_title info height =
     title_with_overflow (lit '' peers ('' @ dec (length (ti_peers info)) @
       lit '') '') (length (ti_peers info) - (height - 2))"

subsection \<open>The loop of the interface\<close>

datatype TuiInput = TuLine rtext | TuQuit

datatype ui_event = UeKey key_event | UeWheelUp | UeWheelDown | UePaste rtext | UeOther

record ui_state =
  us_input :: InputBuffer
  us_scroll :: nat
  us_pane :: PaneScroll
  us_screen :: screen
  us_sent :: "TuiInput list"
  us_running :: bool

definition ui_start :: "screen \<Rightarrow> ui_state" where
  "ui_start S = \<lparr>us_input = input_buffer_new, us_scroll = 0, us_pane = pane_scroll_default, us_screen = S,
     us_sent = [], us_running = True\<rparr>"

text \<open>One round: draw, hold the view when it does not follow, then the event that came, if one did
  within the poll. \<open>receiver\<close> is whether the presentation task still listens.\<close>

definition ui_draw :: "(rchar \<Rightarrow> nat) \<Rightarrow> UiOptions \<Rightarrow> nat \<Rightarrow> nat \<Rightarrow> ui_state \<Rightarrow> ui_state" where
  "ui_draw columns o' area_width area_height U =
     (case draw_log columns (os_lines (sc_sink (us_screen U))) area_width area_height (us_scroll U) (us_pane U) of
        (P, rows) \<Rightarrow>
          if uo_auto_scroll o' then U\<lparr>us_pane := P\<rparr>
          else U\<lparr>us_pane := P\<lparr>pn_arrived := 0\<rparr>, us_scroll := min (us_scroll U + pn_arrived P) (pn_limit P)\<rparr>)"

fun ui_action :: "bool \<Rightarrow> KeyAction \<Rightarrow> ui_state \<Rightarrow> ui_state" where
  "ui_action receiver KaNone U = U"
| "ui_action receiver KaQuit U = U\<lparr>us_sent := (if receiver then us_sent U @
  [TuQuit] else us_sent U), us_running := False\<rparr>"
| "ui_action receiver (KaLine line) U =
     (if receiver then U\<lparr>us_scroll := 0, us_sent := us_sent U @ [TuLine line]\<rparr>
      else U\<lparr>us_scroll := 0, us_running := False\<rparr>)"
| "ui_action receiver KaClearOutput U = U\<lparr>us_screen := clear_output (us_screen U), us_scroll := 0\<rparr>"
| "ui_action receiver KaScrollUp U = U\<lparr>us_scroll := pane_step (us_pane U) (us_scroll U) True\<rparr>"
| "ui_action receiver KaScrollDown U = U\<lparr>us_scroll := pane_step (us_pane U) (us_scroll U) False\<rparr>"

fun ui_event_step :: "bool \<Rightarrow> ui_event \<Rightarrow> ui_state \<Rightarrow> ui_state" where
  "ui_event_step receiver (UeKey key) U =
     (case apply_key key (us_input U) of (B, action) \<Rightarrow> ui_action receiver action (U\<lparr>us_input := B\<rparr>))"
| "ui_event_step receiver UeWheelUp U = U\<lparr>us_scroll := pane_step (us_pane U) (us_scroll U) True\<rparr>"
| "ui_event_step receiver UeWheelDown U = U\<lparr>us_scroll := pane_step (us_pane U) (us_scroll U) False\<rparr>"
| "ui_event_step receiver (UePaste s) U = U\<lparr>us_input := ib_insert_str s (us_input U)\<rparr>"
| "ui_event_step receiver UeOther U = U"

definition ui_round ::
    "(rchar \<Rightarrow> nat) \<Rightarrow> UiOptions \<Rightarrow> nat \<Rightarrow> nat \<Rightarrow> bool \<Rightarrow> ui_event option \<Rightarrow> ui_state \<Rightarrow> ui_state" where
  "ui_round columns o' area_width area_height receiver event U =
     (if \<not> us_running U then U
      else
        (let U1 = ui_draw columns o' area_width area_height U in
         case event of None \<Rightarrow> U1 | Some e \<Rightarrow> ui_event_step receiver e U1))"

end
