(* ===== verification/Presenter.thy ===== *)
theory Presenter
  imports Terminal
begin

section \<open>Presenter (\<^verbatim>\<open>meta-text-tui/src/presenter.rs\<close>)\<close>

text \<open>
  What both front ends do with a command or an event: the requests they make of the core, in
  order, the lines they write, and the copies of session, contacts and counters they keep. The
  core is behind a function from a request and its state to the next state and the answer;
  \<open>tl_stamp\<close> is the date library's reading and formatting of an RFC 3339 time. What runs between two
  requests of one handler is part of the core's answer to the second.
\<close>

record text_lib =
  tl_lower :: "rtext \<Rightarrow> rtext"
  tl_stamp :: "rtext \<Rightarrow> rtext option"

type_synonym 'c core_port = "Request \<Rightarrow> 'c \<Rightarrow> 'c \<times> (ErrorInfo + Reply)"

record Presenter =
  pr_session :: SessionInfo
  pr_contacts :: "ContactView list"
  pr_statistics :: StatisticsView
  pr_active_group :: "rtext option"
  pr_events_taken :: bool
  pr_stop :: bool
  pr_announced :: bool

record 'c front =
  fr_core :: 'c
  fr_presenter :: Presenter
  fr_screen :: screen

definition session_info_default :: SessionInfo where
  "session_info_default =
     \<lparr>si_nickname = [], si_status_message = [], si_identity = [], si_mode = [], si_version = [],
      si_encryption = [], si_encryption_enabled = False, si_network_running = False, si_network_port = 0,
      si_network_bootstrap_nodes = 0, si_connected_peers = 0, si_pending_peers = 0, si_max_connections = 0,
      si_queued_messages = 0, si_desired_peers = [], si_peer_nicknames = [], si_local_address = None,
      si_database_connected = False, si_database = [], si_persistent = False, si_database_max_connections = 0,
      si_friend_count = 0, si_max_friends = 0, si_active_chat = None, si_uptime_seconds = 0, si_config_path = [],
      si_data_dir = [], si_app_name = [], si_app_version = [], si_max_message_length = 0,
      si_auto_save_interval = 0, si_transport = [], si_public_identity = None, si_pending_requests = 0,
      si_supports_friend_requests = False, si_groups = 0, si_pending_group_invites = 0,
      si_supports_groups = False, si_identity_fingerprint = [], si_peer_identities = []\<rparr>"

definition statistics_view_default :: StatisticsView where
  "statistics_view_default = \<lparr>sv_messages_sent = 0, sv_messages_received = 0, sv_active_connections = 0,
     sv_bytes_sent = 0, sv_bytes_received = 0, sv_uptime_seconds = 0\<rparr>"

definition presenter_new :: Presenter where
  "presenter_new = \<lparr>pr_session = session_info_default, pr_contacts = [], pr_statistics = statistics_view_default,
     pr_active_group = None, pr_events_taken = False, pr_stop = False, pr_announced = False\<rparr>"

text \<open>\<^verbatim>\<open>take_events\<close>: whether the stream it gives is the core's.\<close>

definition take_events :: "'c front \<Rightarrow> 'c front \<times> bool" where
  "take_events F =
     (F\<lparr>fr_presenter := (fr_presenter F)\<lparr>pr_events_taken := True\<rparr>\<rparr>, \<not> pr_events_taken (fr_presenter F))"

definition emit :: "rtext \<Rightarrow> 'c front \<Rightarrow> 'c front" where
  "emit line F = F\<lparr>fr_screen := write_line line (fr_screen F)\<rparr>"

fun emit_all :: "rtext list \<Rightarrow> 'c front \<Rightarrow> 'c front" where
  "emit_all [] F = F"
| "emit_all (line # lines) F = emit_all lines (emit line F)"

definition ask_core :: "'c core_port \<Rightarrow> Request \<Rightarrow> 'c front \<Rightarrow> 'c front \<times> (ErrorInfo + Reply)" where
  "ask_core P r F = (case P r (fr_core F) of (c, answer) \<Rightarrow> (F\<lparr>fr_core := c\<rparr>, answer))"

definition fr_session :: "'c front \<Rightarrow> SessionInfo" where
  "fr_session F = pr_session (fr_presenter F)"

definition set_session :: "SessionInfo \<Rightarrow> 'c front \<Rightarrow> 'c front" where
  "set_session s F = F\<lparr>fr_presenter := (fr_presenter F)\<lparr>pr_session := s\<rparr>\<rparr>"

definition display_group_name :: "GroupView \<Rightarrow> rtext" where
  "display_group_name g = (if gv_name g = [] then gv_short_id g else gv_name g)"

definition PREVIEW_DIGITS :: nat where "PREVIEW_DIGITS = 16"

definition NO_FRIEND_REQUESTS :: rtext where
  "NO_FRIEND_REQUESTS = g_info @ lit ''friend requests only exist on the Tox transport; run with '' @ [96] @
    lit ''--transport tox'' @ [96] @ lit ''.''"

definition refresh :: "'c core_port \<Rightarrow> 'c front \<Rightarrow> 'c front" where
  "refresh P F =
     (let (F1, a1) = ask_core P RqSessionInfo F;
          F2 = (case a1 of Inr (RpSession s) \<Rightarrow> set_session s F1 | _ \<Rightarrow> F1);
          (F3, a3) = ask_core P RqListContacts F2;
          F4 = (case a3 of Inr (RpContacts cs) \<Rightarrow> F3\<lparr>fr_presenter := (fr_presenter F3)\<lparr>pr_contacts := cs\<rparr>\<rparr>
                | _ \<Rightarrow> F3);
          (F5, a5) = ask_core P RqStatistics F4 in
      case a5 of Inr (RpStatistics v) \<Rightarrow> F5\<lparr>fr_presenter := (fr_presenter F5)\<lparr>pr_statistics := v\<rparr>\<rparr> | _ \<Rightarrow> F5)"

subsection \<open>Bodies and times\<close>

definition describe_binary :: "text_lib \<Rightarrow> rtext \<Rightarrow> rtext" where
  "describe_binary T hex_body =
     (let size = utf8_len hex_body div 2; preview = tl_lower T (take PREVIEW_DIGITS hex_body) in
      if utf8_len preview < utf8_len hex_body then (lit ''[binary, '' @ dec size @ lit '' B] '' @ preview @ g_dots)
      else (lit ''[binary, '' @ dec size @ lit '' B] '' @ preview))"

definition history_body :: "text_lib \<Rightarrow> MessageView \<Rightarrow> rtext \<Rightarrow> rtext" where
  "history_body T m local_nickname =
     (if msv_content_type m = CBinary then describe_binary T (msv_body m)
      else if msv_kind m = KAction then
        (lit ''* '' @ (if msv_direction m = lit ''out'' then local_nickname else msv_peer m) @ lit '' '' @ msv_body m)
      else msv_body m)"

definition format_timestamp :: "text_lib \<Rightarrow> rtext \<Rightarrow> rtext" where
  "format_timestamp T value = unwrap_or value (tl_stamp T value)"

text \<open>The lines of \<^verbatim>\<open>render_send\<close>.\<close>

definition send_shown :: "text_lib \<Rightarrow> rtext \<Rightarrow> MessageKind \<Rightarrow> ContentType \<Rightarrow> rtext \<Rightarrow> rtext" where
  "send_shown T body kind content sender =
     (if kind = KAction then (lit ''* '' @ (if trim sender = [] then lit ''you'' else sender) @ lit '' '' @ body)
      else if content = CBinary then describe_binary T body
      else body)"

definition render_send ::
    "text_lib \<Rightarrow> rtext \<Rightarrow> rtext \<Rightarrow> SendReport \<Rightarrow> MessageKind \<Rightarrow> ContentType \<Rightarrow> rtext \<Rightarrow> rtext list" where
  "render_send T target body report kind content sender =
     (let shown = send_shown T body kind content sender;
          display = (if sr_encrypted report
            then (dec (unat (sr_wire_bytes report)) @ lit '' bytes ciphertext ['' @
              take 16 (sr_ciphertext_preview report) @ g_dots @ lit '']'')
            else (lit ''encryption disabled, sent in clear text''));
          number = dec (unat (unwrap_or 0 (sr_message_id report))) in
      case sr_outcome report of
        OkSent \<Rightarrow>
          (let peers = (if sr_queued_for report = 0 then (lit ''no peers connected'')
                        else if sr_queued_for report = 1 then (lit ''1 peer'')
                        else (dec (sr_queued_for report) @ lit '' peers'')) in
           [g_outbox @ g_right @ lit '' '' @ target @ lit '': '' @ shown @ lit ''  ('' @ display @
             lit ''; queued for '' @ peers @ lit '', id #'' @ number @ lit '')''])
      | OkQueued \<Rightarrow>
          [g_mail @ g_right @ lit '' '' @ target @ lit '': '' @ shown @ lit ''  ('' @ display @ lit ''; '' @
            target @ lit '' is offline, buffered as #'' @ dec (unwrap_or 0 (sr_queue_position report)) @
            lit '', id #'' @ number @ lit '')'',
           lit ''   it will be delivered automatically once '' @ target @ lit '' connects'']
      | OkDropped \<Rightarrow>
          [g_warn @ lit ''the outbox for '' @ target @ lit '' is full; the message was not sent''])"

subsection \<open>Groups\<close>

definition warn_error :: "ErrorInfo \<Rightarrow> 'c front \<Rightarrow> 'c front" where
  "warn_error e F = emit (g_warn @ ei_message e) F"

fun group_lines :: "rtext option \<Rightarrow> nat \<Rightarrow> GroupView list \<Rightarrow> rtext list" where
  "group_lines active_group n [] = []"
| "group_lines active_group n (g # gs) =
     (let active = (case active_group of None \<Rightarrow> False | Some a \<Rightarrow> eq_ignore_ascii_case a (gv_id g)) in
      (lit ''  '' @ dec n @ lit ''. '' @ display_group_name g @ lit '' ['' @
        (if gv_joined g then lit ''joined'' else lit ''connecting'') @ lit '', '' @ dec (gv_members g) @
        lit '' peer(s)]'' @ (if active then (lit '' '' @ g_left @ lit '' active'') else [])))
     # group_lines active_group (n + 1) gs"

definition list_groups :: "'c core_port \<Rightarrow> 'c front \<Rightarrow> 'c front" where
  "list_groups P F =
     (let (F1, answer) = ask_core P RqGroups F in
      case answer of
        Inr (RpGroups supported groups) \<Rightarrow>
          if \<not> supported then emit (g_info @
            lit ''the tcp transport has no groups. Start with --transport tox.'') F1
          else if groups = [] then emit (g_info @ lit ''no groups. Create one with /group create <name>.'') F1
          else emit_all ([[], g_group @ dec (length groups) @ lit '' group(s):''] @
                 group_lines (pr_active_group (fr_presenter F1)) 1 groups) F1
      | Inr _ \<Rightarrow> F1
      | Inl e \<Rightarrow> warn_error e F1)"

fun invite_lines :: "nat \<Rightarrow> GroupInviteView list \<Rightarrow> rtext list" where
  "invite_lines n [] = []"
| "invite_lines n (v # vs) =
     (lit ''  '' @ dec n @ lit ''. '' @ (if giv_peer v = [] then abbreviate (giv_peer_id v) else giv_peer v)) #
     (lit ''     /group join '' @ giv_token v) # invite_lines (n + 1) vs"

definition list_group_invites :: "'c core_port \<Rightarrow> 'c front \<Rightarrow> 'c front" where
  "list_group_invites P F =
     (let (F1, answer) = ask_core P RqGroupInvites F in
      case answer of
        Inr (RpGroupInvites supported invites) \<Rightarrow>
          if \<not> supported then emit (g_info @
            lit ''the tcp transport has no groups. Start with --transport tox.'') F1
          else if invites = [] then emit (g_info @ lit ''no group invitations waiting.'') F1
          else emit_all ([[], g_group @ dec (length invites) @ lit '' group invitation(s):''] @
            invite_lines 1 invites) F1
      | Inr _ \<Rightarrow> F1
      | Inl e \<Rightarrow> warn_error e F1)"

definition create_group :: "'c core_port \<Rightarrow> rtext \<Rightarrow> 'c front \<Rightarrow> 'c front" where
  "create_group P title F =
     (let (F1, answer) = ask_core P (RqCreateGroup (Some (trim title))) F in
      refresh P
        (case answer of
           Inr (RpGroupCreated g) \<Rightarrow>
             emit_all [g_group @ lit ''created group '' @ display_group_name g,
                       lit ''   invite a peer with /group invite '' @ display_group_name g @ lit '' <peer>''] F1
         | Inr _ \<Rightarrow> F1
         | Inl e \<Rightarrow> warn_error e F1))"

definition rename_group :: "'c core_port \<Rightarrow> rtext option \<Rightarrow> rtext \<Rightarrow> 'c front \<Rightarrow> 'c front" where
  "rename_group P gid raw F =
     (let name = trim raw in
      if name = [] then emit (lit ''Usage: /group rename [@group] <name>'') F
      else
        (let (F1, answer) = ask_core P (RqRenameGroup gid name) F in
         refresh P
           (case answer of
              Inr (RpGroupRenamed i g) \<Rightarrow> emit (g_group @ lit ''renamed group '' @ abbreviate i @
                lit '' to '' @ g) F1
            | Inr _ \<Rightarrow> F1
            | Inl e \<Rightarrow> warn_error e F1)))"

definition join_group :: "'c core_port \<Rightarrow> rtext \<Rightarrow> 'c front \<Rightarrow> 'c front" where
  "join_group P token F =
     (let (F1, answer) = ask_core P (RqJoinGroup (trim token)) F in
      refresh P
        (case answer of
           Inr (RpGroupJoined g) \<Rightarrow> emit (g_group @ lit ''joined group '' @ display_group_name g) F1
         | Inr _ \<Rightarrow> F1
         | Inl e \<Rightarrow> warn_error e F1))"

definition decline_group_invite :: "'c core_port \<Rightarrow> rtext \<Rightarrow> 'c front \<Rightarrow> 'c front" where
  "decline_group_invite P raw F =
     (let token = trim raw in
      if token = [] then emit (lit ''Usage: /group decline <token> (see /group invites)'') F
      else
        (let (F1, answer) = ask_core P (RqDeclineGroupInvite token) F in
         refresh P
           (case answer of
              Inr (RpGroupInviteDeclined t) \<Rightarrow> emit (g_refuse @
                lit ''discarded the group invitation '' @ abbreviate t) F1
            | Inr _ \<Rightarrow> F1
            | Inl e \<Rightarrow> warn_error e F1)))"

definition invite_to_group :: "'c core_port \<Rightarrow> rtext option \<Rightarrow> rtext \<Rightarrow> 'c front \<Rightarrow> 'c front" where
  "invite_to_group P gid peer F =
     (if trim peer = [] then emit (lit ''Usage: /group invite [@group] <peer>'') F
      else
        (let (F1, answer) = ask_core P (RqInviteToGroup (unwrap_or [] gid) (trim peer)) F in
         refresh P
           (case answer of
              Inr (RpGroupInvited i p) \<Rightarrow> emit (g_group @ lit ''invited '' @ p @ lit '' to the group'') F1
            | Inr _ \<Rightarrow> F1
            | Inl e \<Rightarrow> warn_error e F1)))"

definition send_group_message ::
    "text_lib \<Rightarrow> 'c core_port \<Rightarrow> rtext option \<Rightarrow> rtext \<Rightarrow> MessageKind \<Rightarrow> ContentType \<Rightarrow> 'c front \<Rightarrow> 'c front" where
  "send_group_message T P gid body kind content F =
     (if trim body = [] then emit (lit ''Usage: /group send [@group] <text>'') F
      else
        (let (F1, answer) = ask_core P (RqSendGroupMessage gid (trim body) kind content) F in
         case answer of
           Inr (RpGroupSent i g wire) \<Rightarrow>
             (let who = (if si_nickname (fr_session F1) = [] then lit ''you'' else si_nickname (fr_session F1));
                  shown = (if kind = KAction then (lit ''* '' @ who @ lit '' '' @ body)
                           else if content = CBinary then describe_binary T (trim body) else trim body) in
              emit (g_group @ g_right @ lit '' ['' @ g @ lit ''] '' @ shown @ lit '' ('' @ dec (unat wire) @
                lit '' B)'') F1)
         | Inr _ \<Rightarrow> F1
         | Inl e \<Rightarrow> warn_error e F1))"

definition leave_group :: "'c core_port \<Rightarrow> rtext \<Rightarrow> 'c front \<Rightarrow> 'c front" where
  "leave_group P selector F =
     (let gid = dropWhile (\<lambda>c. c = 64) (trim selector);
          (F1, answer) = ask_core P (RqLeaveGroup (Some gid)) F in
      refresh P
        (case answer of
           Inr (RpGroupLeft i) \<Rightarrow> emit (g_group @ lit ''left group '' @ abbreviate i) F1
         | Inr _ \<Rightarrow> F1
         | Inl e \<Rightarrow> warn_error e F1))"

definition split_group_and_rest :: "rtext \<Rightarrow> rtext option \<times> rtext" where
  "split_group_and_rest arguments =
     (let trimmed = trim arguments in
      case strip_prefix (lit ''@'') trimmed of
        None \<Rightarrow> (None, trimmed)
      | Some rest \<Rightarrow>
          (case split_word rest of (head, tail) \<Rightarrow> (Some head, trim (unwrap_or [] tail))))"

definition run_group_command :: "text_lib \<Rightarrow> 'c core_port \<Rightarrow> rtext \<Rightarrow> rtext \<Rightarrow> 'c front \<Rightarrow> 'c front" where
  "run_group_command T P sub arguments F =
     (let (gid, rest) = split_group_and_rest arguments in
      if among ['''', ''list'', ''ls''] sub then list_groups P F
      else if among [''invites'', ''invitations''] sub then list_group_invites P F
      else if among [''create''] sub then create_group P arguments F
      else if among [''rename'', ''title''] sub then rename_group P gid rest F
      else if among [''join'', ''accept''] sub then join_group P arguments F
      else if among [''decline'', ''reject''] sub then decline_group_invite P arguments F
      else if among [''invite''] sub then invite_to_group P gid rest F
      else if among [''send'', ''msg'', ''say''] sub then send_group_message T P gid rest KText CText F
      else if among [''me'', ''action''] sub then send_group_message T P gid rest KAction CText F
      else if among [''bin''] sub then send_group_message T P gid rest KText CBinary F
      else if among [''leave'', ''quit''] sub then leave_group P arguments F
      else if among [''select'', ''chat''] sub then
        (let wanted = trim arguments in
         if wanted = [] then emit (lit ''Usage: /group select <id|name|index>'') F
         else emit (g_group @ lit ''active group set to '' @ wanted)
                (F\<lparr>fr_presenter := (fr_presenter F)\<lparr>pr_active_group := Some wanted\<rparr>\<rparr>))
      else emit (g_question @ lit ''unknown /group subcommand '' @ [39] @ lit ''/'' @ sub @ [39] @
        lit ''. Type /help /group.'') F)"

end
