(* ===== verification/PresenterCommands.thy ===== *)
theory PresenterCommands
  imports Presenter
begin

section \<open>Presenter: commands and events (\<^verbatim>\<open>meta-text-tui/src/presenter.rs\<close>)\<close>

text \<open>
  The screens a command shows, the commands that change something, \<open>handle_command\<close> and
  \<open>handle_event\<close>, which choose among them. The last two give whether the front end is to stop.
\<close>

definition signed_dec :: "int \<Rightarrow> rtext" where
  "signed_dec i = (if i < 0 then 45 # dec (nat (- i)) else dec (nat i))"

subsection \<open>Screens\<close>

definition metrics_lines :: "MetricsView \<Rightarrow> rtext list" where
  "metrics_lines m =
     [[], lit ''metaText metrics'',
      lit ''  uptime_seconds='' @ signed_dec (mv_uptime_seconds m),
      lit ''  transport='' @ mv_transport m,
      lit ''  peers_connected='' @ dec (mv_peers_connected m),
      lit ''  peers_pending='' @ dec (mv_peers_pending m),
      lit ''  payloads_queued='' @ dec (mv_payloads_queued m),
      lit ''  payloads_expired='' @ dec (unat (mv_payloads_expired m)),
      lit ''  payloads_dropped='' @ dec (unat (mv_payloads_dropped m)),
      lit ''  friend_count='' @ dec (mv_friend_count m),
      lit ''  max_friends='' @ dec (mv_max_friends m),
      lit ''  friend_requests_pending='' @ dec (mv_friend_requests_pending m),
      lit ''  friend_requests_dropped='' @ dec (unat (mv_friend_requests_dropped m)),
      lit ''  group_invites_dropped='' @ dec (unat (mv_group_invites_dropped m)),
      lit ''  peer_identities_changed='' @ dec (unat (mv_peer_identities_changed m)),
      lit ''  peer_identities_refused='' @ dec (unat (mv_peer_identities_refused m)),
      lit ''  greetings_refused='' @ dec (unat (mv_greetings_refused m)),
      lit ''  groups='' @ dec (mv_groups m),
      lit ''  groups_supported='' @ flag (mv_groups_supported m),
      lit ''  request_queue_depth='' @ dec (mv_request_queue_depth m),
      lit ''  request_queue_capacity='' @ dec (mv_request_queue_capacity m),
      lit ''  event_subscribers='' @ dec (mv_event_subscribers m),
      lit ''  request_wait_last_us='' @ dec (unat (mv_request_wait_last_us m)),
      lit ''  request_wait_max_us='' @ dec (unat (mv_request_wait_max_us m)),
      lit ''  request_service_last_us='' @ dec (unat (mv_request_service_last_us m)),
      lit ''  request_service_max_us='' @ dec (unat (mv_request_service_max_us m)),
      lit ''  requests_served='' @ dec (unat (mv_requests_served m)),
      lit ''  messages_sent='' @ dec (unat (mv_messages_sent m)),
      lit ''  messages_received='' @ dec (unat (mv_messages_received m)),
      lit ''  bytes_sent='' @ dec (unat (mv_bytes_sent m)),
      lit ''  bytes_received='' @ dec (unat (mv_bytes_received m)),
      lit ''  database_connected='' @ flag (mv_database_connected m),
      lit ''  persistent='' @ flag (mv_persistent m),
      []]"

definition show_metrics :: "'c core_port \<Rightarrow> 'c front \<Rightarrow> 'c front" where
  "show_metrics P F =
     (let (F1, answer) = ask_core P RqMetrics F in
      case answer of
        Inr (RpMetrics m) \<Rightarrow> emit_all (metrics_lines m) F1
      | Inr _ \<Rightarrow> F1
      | Inl e \<Rightarrow> emit (g_warn @ lit ''could not read metrics: '' @ ei_message e) F1)"

definition info_lines :: "SessionInfo \<Rightarrow> StatisticsView \<Rightarrow> rtext list" where
  "info_lines s v =
     [[], replicate 16 9552 @ lit '' metaText status '' @ replicate 16 9552,
      lit ''  nickname        : '' @ si_nickname s,
      lit ''  status          : '' @ si_status_message s,
      lit ''  identity        : '' @ si_identity s] @
     (if si_identity_fingerprint s = [] then [] else [lit ''  fingerprint     : '' @ si_identity_fingerprint s]) @
     [lit ''  encryption      : '' @ (if si_encryption_enabled s then lit ''enabled'' else lit ''disabled'') @
       lit '' ('' @ si_encryption s @ lit '')'',
      lit ''  mode            : '' @ si_mode s,
      lit ''  transport       : '' @ si_transport s,
      lit ''  network         : '' @ (if si_network_running s then lit ''running'' else lit ''stopped'') @
        lit '' (port '' @ dec (unat (si_network_port s)) @ lit '', '' @ dec (si_connected_peers s) @
        lit '' peer(s) connected, max '' @ dec (unat (si_max_connections s)) @ lit '' conn)'',
      lit ''  database        : '' @ (if si_database_connected s then lit ''connected'' else lit ''disconnected'') @ lit '' ('' @ si_database s @ lit '', max '' @ dec (unat (si_database_max_connections s)) @ lit '' conn)'',
      lit ''  friends         : '' @ dec (si_friend_count s),
      lit ''  active chat     : '' @ unwrap_or (lit ''none'') (si_active_chat s),
      lit ''  messages sent   : '' @ dec (unat (sv_messages_sent v)),
      lit ''  messages received: '' @ dec (unat (sv_messages_received v)),
      lit ''  config file     : '' @ si_config_path s,
      lit ''  data directory  : '' @ si_data_dir s,
      lit ''  app             : '' @ si_app_name s @ lit '' v'' @ si_app_version s,
      replicate 49 9552, []]"

definition show_info :: "'c front \<Rightarrow> 'c front" where
  "show_info F = emit_all (info_lines (fr_session F) (pr_statistics (fr_presenter F))) F"

definition whoami_lines :: "SessionInfo \<Rightarrow> rtext list" where
  "whoami_lines s =
     [[], lit ''metaText identity'',
      lit ''  nickname : '' @ si_nickname s,
      lit ''  status   : '' @ si_status_message s,
      lit ''  transport: '' @ si_transport s,
      lit ''  identity : '' @ si_identity s] @
     (if si_identity_fingerprint s = [] then []
      else [lit ''  fingerprint: '' @ si_identity_fingerprint s,
            lit ''             read it out to a peer and compare; the same pair must see'',
            lit ''             the same two fingerprints every run'']) @
     [lit ''  address  : '' @ unwrap_or (lit ''not listening'') (si_local_address s)] @
     (case si_public_identity s of
        None \<Rightarrow> []
      | Some tox \<Rightarrow>
          (if si_local_address s = Some tox then [] else [lit ''  Tox addr : '' @ tox]) @
          [lit ''             share the Tox address with a friend so they can /add you'']) @
     (if 0 < si_pending_requests s
      then [lit ''  pending  : '' @ dec (si_pending_requests s) @
        lit '' friend request(s); see /requests''] else []) @
     (if si_supports_groups s
      then [(lit ''  groups   : '' @ dec (si_groups s)) @
            (if 0 < si_pending_group_invites s
             then (lit '', '' @ dec (si_pending_group_invites s) @
               lit '' invitation(s) pending; see /group invites'') else [])]
      else [lit ''  groups   : not supported by this transport (use --transport tox)'']) @
     [[]]"

definition show_whoami :: "'c front \<Rightarrow> 'c front" where
  "show_whoami F = emit_all (whoami_lines (fr_session F)) F"

definition show_version :: "'c front \<Rightarrow> 'c front" where
  "show_version F = emit (lit ''metaText v'' @ si_version (fr_session F) @ lit '' (encryption: '' @
    si_encryption (fr_session F) @ lit '')'') F"

fun list_lines :: "nat \<Rightarrow> rtext list \<Rightarrow> rtext list" where
  "list_lines n [] = []"
| "list_lines n (name # names) = (lit ''  '' @ dec n @ lit ''. '' @ name) # list_lines (n + 1) names"

definition identity_line :: "PeerIdentityView \<Rightarrow> rtext" where
  "identity_line p = piv_nickname p @ lit '' '' @ g_dash @ lit '' '' @ piv_fingerprint p @
    (if piv_changed p then (lit '' '' @ g_warn @ lit ''changed since it was pinned'') else [])"

definition peers_lines :: "SessionInfo \<Rightarrow> rtext list" where
  "peers_lines s =
     [[], lit ''Local address: '' @ unwrap_or (lit ''not listening'') (si_local_address s)] @
     (if 0 < si_queued_messages s
      then [dec (si_queued_messages s) @ lit '' message(s) waiting to be delivered''] else []) @
     (if si_connected_peers s = 0 then
        (lit ''No peers connected yet.'') #
        (if 0 < si_pending_peers s
         then (dec (si_pending_peers s) @ lit '' address(es) are being retried in the background:'') #
              map (\<lambda>address. (lit ''  - '' @ address)) (si_desired_peers s)
         else [lit ''Start another instance with the same --passphrase and point it'',
               lit ''here using --peer <host:port> (or /connect).''])
      else
        (dec (si_connected_peers s) @ lit '' peer(s) connected:'') # list_lines 1 (si_peer_nicknames s) @
        (let unnamed = si_connected_peers s - length (si_peer_nicknames s) in
         if 0 < unnamed then [lit ''  (+'' @ dec unnamed @ lit '' still completing the handshake)''] else [])) @
     (if si_peer_identities s = [] then []
      else [[], dec (length (si_peer_identities s)) @
        lit '' pinned identit(ies) (compare a fingerprint with the peer out of band):''] @
           list_lines 1 (map identity_line (si_peer_identities s))) @
     [[]]"

definition show_peers :: "'c front \<Rightarrow> 'c front" where
  "show_peers F = emit_all (peers_lines (fr_session F)) F"

definition contact_line :: "rtext option \<Rightarrow> ContactView \<Rightarrow> rtext" where
  "contact_line active c =
     cv_name c @ lit '' ['' @ cv_status c @ lit '']'' @
       (case cv_note c of None \<Rightarrow> [] | Some n \<Rightarrow> (lit ''  // '' @ n)) @
       (if active = Some (cv_name c) then (lit ''  '' @ g_left @ lit '' active chat'') else [])"

definition contacts_lines :: "rtext option \<Rightarrow> ContactView list \<Rightarrow> rtext list" where
  "contacts_lines active cs =
     (if cs = [] then [[], lit ''You have no friends yet. Use /add <DID_Address> to invite one.'', []]
      else [[], lit ''Friends:''] @ list_lines 1 (map (contact_line active) cs) @ [[]])"

definition show_contacts :: "'c front \<Rightarrow> 'c front" where
  "show_contacts F = emit_all (contacts_lines (si_active_chat (fr_session F)) (pr_contacts (fr_presenter F))) F"

definition statistics_lines :: "StatisticsView \<Rightarrow> rtext list" where
  "statistics_lines c =
     [[], lit ''Runtime statistics:'',
      lit ''  uptime            : '' @ signed_dec (sv_uptime_seconds c) @ lit ''s'',
      lit ''  messages sent     : '' @ dec (unat (sv_messages_sent c)),
      lit ''  messages received : '' @ dec (unat (sv_messages_received c)),
      lit ''  active connections: '' @ dec (unat (sv_active_connections c)),
      lit ''  bytes sent        : '' @ dec (unat (sv_bytes_sent c)),
      lit ''  bytes received    : '' @ dec (unat (sv_bytes_received c)), []]"

definition show_statistics :: "'c core_port \<Rightarrow> 'c front \<Rightarrow> 'c front" where
  "show_statistics P F = (let F1 = refresh P F in emit_all (statistics_lines (pr_statistics (fr_presenter F1))) F1)"

definition history_line :: "text_lib \<Rightarrow> rtext \<Rightarrow> MessageView \<Rightarrow> rtext" where
  "history_line T local_nickname m =
     lit ''  ['' @ format_timestamp T (msv_created_at m) @ lit ''] '' @
       (if msv_direction m = lit ''out'' then g_right else g_left) @ lit '' '' @ msv_peer m @ lit '': '' @
       history_body T m local_nickname @ lit '' ('' @ dec (unat (msv_wire_bytes m)) @ lit '' B)''"

definition show_history :: "text_lib \<Rightarrow> 'c core_port \<Rightarrow> nat option \<Rightarrow> 'c front \<Rightarrow> 'c front" where
  "show_history T P limit F =
     (let (F1, answer) = ask_core P (RqHistory limit) F in
      case answer of
        Inl e \<Rightarrow> emit (g_warn @ lit ''could not read message history: '' @ ei_message e) F1
      | Inr reply \<Rightarrow>
          (case (case reply of RpHistory persistent messages \<Rightarrow> (persistent, messages) | _ \<Rightarrow> (False, [])) of
             (persistent, messages) \<Rightarrow>
               if \<not> persistent then
                 emit_all [g_info @ lit ''message history is not available in this build.'',
                           lit ''   Rebuild with '' @ [96] @ lit ''--features sqlite'' @ [96] @
                             lit '' to persist messages.''] F1
               else if messages = [] then emit (g_info @ lit ''no stored messages yet.'') F1
               else emit_all ([[], lit ''Last '' @ dec (length messages) @ lit '' stored message(s):''] @
                      map (history_line T (si_nickname (fr_session F1))) messages @ [[]]) F1))"

definition presenter_tui_info :: "Presenter \<Rightarrow> TuiInfo" where
  "presenter_tui_info Q =
     (let s = pr_session Q; v = pr_statistics Q in
      \<lparr>ti_app_name = si_app_name s, ti_nickname = si_nickname s, ti_status_message = si_status_message s,
       ti_identity = si_identity s, ti_mode = si_mode s,
       ti_network = ((if si_network_running s then lit ''running'' else lit ''stopped'') @ lit '' (port '' @
         dec (unat (si_network_port s)) @ lit '', '' @ dec (si_network_bootstrap_nodes s) @
         lit '' bootstrap, max '' @ dec (unat (si_max_connections s)) @ lit '' conn)''),
       ti_database = ((if si_database_connected s then lit ''connected'' else lit ''disconnected'') @
         lit '' ('' @ si_database s @ lit '')''),
       ti_encryption = ((if si_encryption_enabled s then lit ''enabled'' else lit ''disabled'') @ lit '' ('' @
         si_encryption s @ lit '')''),
       ti_friends = map cv_name (pr_contacts Q), ti_peers = si_peer_nicknames s,
       ti_pending_peers = si_pending_peers s, ti_active_chat = si_active_chat s,
       ti_messages_sent = sv_messages_sent v, ti_messages_received = sv_messages_received v,
       ti_bytes_sent = sv_bytes_sent v, ti_bytes_received = sv_bytes_received v\<rparr>)"

subsection \<open>Commands that ask for a change\<close>

definition set_nickname :: "'c core_port \<Rightarrow> rtext \<Rightarrow> 'c front \<Rightarrow> 'c front" where
  "set_nickname P nick F =
     (let (F1, answer) = ask_core P (RqSetNickname nick) F in
      case answer of
        Inr (RpUpdated subject detail) \<Rightarrow>
          set_session ((fr_session F1)\<lparr>si_nickname := detail\<rparr>)
            (emit (if trim nick = [] then (lit ''nickname: '' @ detail) else (g_check @
              lit ''nickname set to '' @ [39] @ detail @ [39])) F1)
      | Inr _ \<Rightarrow> F1
      | Inl e \<Rightarrow> emit (g_cross @ lit ''could not change the nickname: '' @ ei_message e) F1)"

definition set_status :: "'c core_port \<Rightarrow> rtext \<Rightarrow> 'c front \<Rightarrow> 'c front" where
  "set_status P t F =
     (let (F1, answer) = ask_core P (RqSetStatus t) F in
      case answer of
        Inr (RpUpdated subject detail) \<Rightarrow>
          set_session ((fr_session F1)\<lparr>si_status_message := detail\<rparr>)
            (emit (if trim t = [] then (lit ''status: '' @ detail) else (g_check @ lit ''status set to '' @
              [39] @ detail @ [39])) F1)
      | Inr _ \<Rightarrow> F1
      | Inl e \<Rightarrow> emit (g_cross @ lit ''could not change the status: '' @ ei_message e) F1)"

definition add_contact :: "'c core_port \<Rightarrow> rtext \<Rightarrow> rtext option \<Rightarrow> 'c front \<Rightarrow> 'c front" where
  "add_contact P who remark F =
     (if trim who = [] then emit (lit ''Usage: /add <DID_Address> [note]'') F
      else
        (let (F1, answer) = ask_core P (RqAddContact who remark) F in
         refresh P
           (case answer of
              Inr (RpContactAdded n name) \<Rightarrow> emit (g_check @ lit ''added friend #'' @ dec n @
                lit '' : '' @ name) F1
            | Inr (RpContactExists name) \<Rightarrow> emit (g_info @ lit ''contact '' @ [39] @ name @ [39] @
              lit '' already exists'') F1
            | Inr _ \<Rightarrow> F1
            | Inl e \<Rightarrow> warn_error e F1)))"

definition select_conversation :: "'c core_port \<Rightarrow> rtext \<Rightarrow> 'c front \<Rightarrow> 'c front" where
  "select_conversation P target F =
     (let trimmed = trim target in
      if parse_usize trimmed = Some 0 then
        emit (g_warn @ lit ''friend numbers start at 1. Use /list to see them.'') F
      else
        (let (F1, answer) = ask_core P (RqSelectConversation trimmed) F in
         refresh P
           (case answer of
              Inr (RpConversation (Some name) (Some i)) \<Rightarrow>
                set_session ((fr_session F1)\<lparr>si_active_chat := Some name\<rparr>)
                  (emit (if trimmed = [] then (g_chat @ lit ''active conversation: #'' @ dec i @ lit '' '' @ name)
                         else (g_chat @ lit ''now chatting with #'' @ dec i @ lit '' '' @ name)) F1)
            | Inr (RpConversation active i) \<Rightarrow>
                emit (g_info @ lit ''no active conversation. Use /chat <index|name> to pick one.'') F1
            | Inr _ \<Rightarrow> F1
            | Inl e \<Rightarrow>
                if ei_code e = EcNotFound then emit (g_cross @ lit ''no friend matches '' @ [39] @ trimmed @
                  [39] @ lit ''. Use /list to see them.'') F1
                else warn_error e F1)))"

definition connect :: "'c core_port \<Rightarrow> rtext \<Rightarrow> 'c front \<Rightarrow> 'c front" where
  "connect P target F =
     (let address = trim target in
      if address = [] then emit (lit ''Usage: /connect <host:port>'') F
      else
        (let (F1, answer) = ask_core P (RqConnect address) F in
         case answer of
           Inr (RpUpdated subject detail) \<Rightarrow> emit (g_link @ lit ''connected to peer '' @ detail) F1
         | Inr _ \<Rightarrow> F1
         | Inl e \<Rightarrow> if ei_code e = EcInvalidRequest then warn_error e F1 else emit (g_cross @
           ei_message e) F1))"

text \<open>A request by its number in the list, or anything else as a key.\<close>

definition resolve_pending_request :: "'c core_port \<Rightarrow> rtext \<Rightarrow> 'c front \<Rightarrow> 'c front \<times> rtext option" where
  "resolve_pending_request P target F =
     (case parse_usize (trim target) of
        None \<Rightarrow> (F, Some (trim target))
      | Some i \<Rightarrow>
          (let (F1, answer) = ask_core P RqPeerRequests F in
           case answer of
             Inr (RpPeerRequests requests) \<Rightarrow>
               (case (if i = 0 then None else get_at (i - 1) requests) of
                  None \<Rightarrow> (emit (g_cross @ lit ''no pending request #'' @ dec i @
                    lit ''; use /requests'') F1, None)
                | Some r \<Rightarrow> (F1, Some (prv_public_key r)))
           | _ \<Rightarrow> (emit (g_cross @ lit ''could not read the pending friend requests'') F1, None)))"

definition accept_request :: "'c core_port \<Rightarrow> rtext \<Rightarrow> 'c front \<Rightarrow> 'c front" where
  "accept_request P target F =
     (if trim target = [] then emit (lit ''Usage: /accept <index|public key>  (see /requests)'') F
      else if \<not> si_supports_friend_requests (fr_session F) then emit NO_FRIEND_REQUESTS F
      else case resolve_pending_request P target F of
             (F1, None) \<Rightarrow> F1
           | (F1, Some key) \<Rightarrow>
               (let (F2, answer) = ask_core P (RqAcceptPeerRequest key) F1 in
                refresh P
                  (case answer of
                     Inr (RpPeerRequestAccepted k) \<Rightarrow> emit (g_hands @
                       lit ''accepted friend request from '' @ k) F2
                   | Inr _ \<Rightarrow> F2
                   | Inl e \<Rightarrow> warn_error e F2)))"

definition reject_request :: "'c core_port \<Rightarrow> rtext \<Rightarrow> 'c front \<Rightarrow> 'c front" where
  "reject_request P target F =
     (if trim target = [] then emit (lit ''Usage: /reject <index|public key>  (see /requests)'') F
      else if \<not> si_supports_friend_requests (fr_session F) then emit NO_FRIEND_REQUESTS F
      else case resolve_pending_request P target F of
             (F1, None) \<Rightarrow> F1
           | (F1, Some key) \<Rightarrow>
               (let (F2, answer) = ask_core P (RqRejectPeerRequest key) F1 in
                refresh P
                  (case answer of
                     Inr (RpPeerRequestRejected k) \<Rightarrow> emit (g_refuse @
                       lit ''rejected friend request from '' @ abbreviate k) F2
                   | Inr _ \<Rightarrow> F2
                   | Inl e \<Rightarrow> warn_error e F2)))"

definition request_line :: "PeerRequestView \<Rightarrow> rtext" where
  "request_line r =
     (if prv_message r = [] then prv_short_key r else (prv_short_key r @ lit '' '' @ g_dash @ lit '' '' @
       prv_message r))"

definition show_requests :: "'c core_port \<Rightarrow> 'c front \<Rightarrow> 'c front" where
  "show_requests P F =
     (if \<not> si_supports_friend_requests (fr_session F) then emit NO_FRIEND_REQUESTS F
      else
        (let (F1, answer) = ask_core P RqPeerRequests F in
         case answer of
           Inr (RpPeerRequests requests) \<Rightarrow>
             if requests = [] then emit (lit ''No pending friend requests.'') F1
             else emit_all ([[], dec (length requests) @ lit '' pending friend request(s):''] @
                    list_lines 1 (map request_line requests) @
                    [[], lit ''Answer one with /accept <index|public key> (become friends)'',
                     lit ''or refuse it with /reject <index|public key>. The list is bounded,'',
                     lit ''so refusing is how room is made for the requests you do want.'']) F1
         | Inr _ \<Rightarrow> F1
         | Inl e \<Rightarrow> warn_error e F1))"

definition no_conversation :: rtext where
  "no_conversation = g_info @ lit ''no active conversation. Use /chat <index> first.''"

definition send_message ::
    "text_lib \<Rightarrow> 'c core_port \<Rightarrow> rtext option \<Rightarrow> rtext \<Rightarrow> MessageKind \<Rightarrow> ContentType \<Rightarrow> 'c front \<Rightarrow> 'c front" where
  "send_message T P target raw kind content F =
     (let body = trim raw in
      if (case target of None \<Rightarrow> False | Some t \<Rightarrow> trim t = []) \<or> body = [] then
        emit (lit ''Usage: /msg <name> <text>'') F
      else if target = None \<and> si_active_chat (fr_session F) = None then emit no_conversation F
      else
        (let (F1, answer) = ask_core P (RqSendMessage target body kind content) F in
         refresh P
           (case answer of
              Inr (RpSent who report) \<Rightarrow>
                emit_all (render_send T who body report kind content (si_nickname (fr_session F1))) F1
            | Inr _ \<Rightarrow> F1
            | Inl e \<Rightarrow> if ei_code e = EcNotFound then emit no_conversation F1 else warn_error e F1)))"

definition remove_contact :: "'c core_port \<Rightarrow> rtext \<Rightarrow> 'c front \<Rightarrow> 'c front" where
  "remove_contact P target F =
     (let trimmed = trim target in
      if trimmed = [] then emit (lit ''Usage: /remove <index|name>'') F
      else
        (let (F1, answer) = ask_core P (RqRemoveContact trimmed) F in
         refresh P
           (case answer of
              Inr (RpContactRemoved i name) \<Rightarrow> emit (g_bin @ lit ''removed friend #'' @ dec i @
                lit '' '' @ name) F1
            | Inr _ \<Rightarrow> F1
            | Inl e \<Rightarrow>
                if ei_code e = EcNotFound then emit (g_cross @ lit ''no friend matches '' @ [39] @ trimmed @
                  [39] @ lit ''. Use /list to see them.'') F1
                else warn_error e F1)))"

definition presenter_save_session :: "'c core_port \<Rightarrow> 'c front \<Rightarrow> 'c front" where
  "presenter_save_session P F =
     (let (F1, answer) = ask_core P RqSaveSession F in
      case answer of
        Inr (RpSaved path) \<Rightarrow> emit (g_disk @ lit ''session saved to '' @ path) F1
      | Inr _ \<Rightarrow> emit (g_disk @ lit ''session saved'') F1
      | Inl e \<Rightarrow> emit (g_cross @ lit ''could not save session: '' @ ei_message e) F1)"

subsection \<open>Commands, lines and events\<close>

definition run_command :: "text_lib \<Rightarrow> 'c core_port \<Rightarrow> Command \<Rightarrow> 'c front \<Rightarrow> 'c front" where
  "run_command T P c F =
     (case c of
        CmHelp None \<Rightarrow> emit_all help_lines F
      | CmHelp (Some topic) \<Rightarrow> emit_all (command_help_lines topic) F
      | CmReadme \<Rightarrow> emit_all readme_lines F
      | CmInfo \<Rightarrow> show_info (refresh P F)
      | CmList \<Rightarrow> show_contacts (refresh P F)
      | CmPeers \<Rightarrow> show_peers (refresh P F)
      | CmStats \<Rightarrow> show_statistics P F
      | CmMetrics \<Rightarrow> show_metrics P F
      | CmHistory limit \<Rightarrow> show_history T P limit F
      | CmClear \<Rightarrow> F\<lparr>fr_screen := clear_output (fr_screen F)\<rparr>
      | CmNick name \<Rightarrow> set_nickname P name F
      | CmStatus t \<Rightarrow> set_status P t F
      | CmAdd who remark \<Rightarrow> add_contact P who remark F
      | CmChat target \<Rightarrow> select_conversation P target F
      | CmConnect target \<Rightarrow> connect P target F
      | CmAccept target \<Rightarrow> accept_request P target F
      | CmReject target \<Rightarrow> reject_request P target F
      | CmRequests \<Rightarrow> show_requests P F
      | CmMessage t \<Rightarrow> send_message T P None t KText CText F
      | CmAction t \<Rightarrow>
          if trim t = [] then emit (lit ''Usage: /me <action>'') F else send_message T P None t KAction CText F
      | CmBinary t \<Rightarrow>
          if trim t = [] then emit (lit ''Usage: /bin <hexadecimal>'') F else send_message T P None t KText CBinary F
      | CmGroup sub arguments \<Rightarrow> run_group_command T P sub arguments F
      | CmWhoami \<Rightarrow> show_whoami (refresh P F)
      | CmVersion \<Rightarrow> show_version F
      | CmUptime \<Rightarrow>
          (let F1 = refresh P F in emit (g_clock @ lit ''uptime: '' @
            format_duration (si_uptime_seconds (fr_session F1))) F1)
      | CmSave \<Rightarrow> presenter_save_session P F
      | CmMsg target t \<Rightarrow> send_message T P (Some target) t KText CText F
      | CmRemove target \<Rightarrow> remove_contact P target F
      | CmQuit \<Rightarrow> F\<lparr>fr_presenter := (fr_presenter F)\<lparr>pr_stop := True\<rparr>\<rparr>
      | CmUnknown name \<Rightarrow> emit (g_question @ lit ''unknown command '' @ [39] @ lit ''/'' @ name @
        [39] @ lit ''. Type /help for the command list.'') F)"

definition handle_command :: "text_lib \<Rightarrow> 'c core_port \<Rightarrow> Command \<Rightarrow> 'c front \<Rightarrow> 'c front \<times> bool" where
  "handle_command T P c F = (let F1 = run_command T P c F in (F1, pr_stop (fr_presenter F1)))"

definition handle_line :: "text_lib \<Rightarrow> 'c core_port \<Rightarrow> rtext \<Rightarrow> 'c front \<Rightarrow> 'c front \<times> bool" where
  "handle_line T P line F =
     (case parse_command (tl_lower T) line of
        CmMessage t \<Rightarrow> if t = [] then (F, False) else handle_command T P (CmMessage t) F
      | c \<Rightarrow> handle_command T P c F)"

text \<open>The lines an event shows before anything is read again.\<close>

definition received_line :: "text_lib \<Rightarrow> rtext \<Rightarrow> rtext \<Rightarrow> MessageKind \<Rightarrow> ContentType \<Rightarrow> rtext" where
  "received_line T peer body kind content =
     (if content = CBinary then (g_inbox @ peer @ lit '': '' @ describe_binary T body)
      else if kind = KAction then (lit ''* '' @ peer @ lit '' '' @ body)
      else (g_inbox @ peer @ lit '': '' @ body))"

definition group_line :: "text_lib \<Rightarrow> rtext \<Rightarrow> rtext \<Rightarrow> rtext \<Rightarrow> MessageKind \<Rightarrow> ContentType \<Rightarrow> rtext" where
  "group_line T label peer body kind content =
     (if content = CBinary then (g_group @ lit ''['' @ label @ lit ''] '' @ peer @ lit '': '' @
       describe_binary T body)
      else if kind = KAction then (g_group @ lit ''['' @ label @ lit ''] * '' @ peer @ lit '' '' @ body)
      else (g_group @ lit ''['' @ label @ lit ''] '' @ peer @ lit '': '' @ body))"

definition group_label :: "rtext \<Rightarrow> rtext \<Rightarrow> rtext" where
  "group_label gid name = (if name = [] then abbreviate gid else name)"

fun run_event :: "text_lib \<Rightarrow> 'c core_port \<Rightarrow> CoreEvent \<Rightarrow> 'c front \<Rightarrow> 'c front" where
  "run_event T P (CeMessageReceived peer i body w kind content) F =
     refresh P (emit (received_line T peer body kind content) F)"
| "run_event T P (CeMessageUndecodable peer i w reason gid g) F =
     emit (g_warn @ peer @ lit '' sent '' @ dec (unat w) @ lit '' bytes'' @
       (case g of None \<Rightarrow> [] | Some name \<Rightarrow> (lit '' in group '' @ [39] @ name @ [39])) @
       lit '' that '' @ reason @ lit ''; the frame was not displayed'') F"
| "run_event T P (CeMessageDelivered peer i n) F = emit (g_check @ lit ''delivered to '' @ peer @ lit '' (#'' @
  dec (unat n) @ lit '')'') F"
| "run_event T P (CePeerConnected i nick) F =
     refresh P (if nick = [] then F else emit (g_link @ nick @ lit '' connected'') F)"
| "run_event T P (CePeerDisconnected i reason) F = refresh P (emit (g_unplug @ i @ lit '' disconnected: '' @
  reason) F)"
| "run_event T P (CeConversationChanged target) F = refresh P (emit (g_chat @ lit ''now chatting with '' @ target) F)"
| "run_event T P (CeNicknameChanged nick) F = set_session ((fr_session F)\<lparr>si_nickname := nick\<rparr>) F"
| "run_event T P (CeStatusChanged t) F = set_session ((fr_session F)\<lparr>si_status_message := t\<rparr>) F"
| "run_event T P (CePeerRequestReceived key short m) F =
     refresh P (emit_all
       [if m = [] then (g_mail @ lit ''friend request from '' @ short) else (g_mail @
         lit ''friend request from '' @ short @ lit '': '' @ m),
        lit ''   accept it with /accept '' @ key, lit ''   or refuse it with /reject '' @ key] F)"
| "run_event T P (CeGroupMessageReceived gid g peer i w body kind content) F =
     refresh P (emit (group_line T (group_label gid g) peer body kind content) F)"
| "run_event T P (CeGroupChanged gid g members joined) F =
     refresh P (emit
       (if \<not> joined then (g_group @ lit ''group '' @ group_label gid g @ lit '' is connecting'')
        else if members = 0 then (g_group @ lit ''joined group '' @ group_label gid g)
        else (g_group @ lit ''group '' @ group_label gid g @ lit '' now has '' @ dec members @ lit '' peer(s)'')) F)"
| "run_event T P (CeGroupInviteReceived peer i token) F =
     refresh P (emit_all
       [g_group @ (if peer = [] then lit ''a peer'' else peer) @ lit '' invited you to a group'',
        lit ''   join it with /group join <token> using:'', lit ''   '' @ token] F)"
| "run_event T P (CeReady s) F = F"
| "run_event T P (CeShutdown reason) F =
     (let F1 = emit (g_halt @ lit ''the core service stopped: '' @ reason) F in
      F1\<lparr>fr_presenter := (fr_presenter F1)\<lparr>pr_stop := True\<rparr>\<rparr>)"

definition handle_event :: "text_lib \<Rightarrow> 'c core_port \<Rightarrow> CoreEvent \<Rightarrow> 'c front \<Rightarrow> 'c front \<times> bool" where
  "handle_event T P e F = (let F1 = run_event T P e F in (F1, pr_stop (fr_presenter F1)))"

definition announce :: "'c core_port \<Rightarrow> bool \<Rightarrow> 'c front \<Rightarrow> 'c front" where
  "announce P full_screen F =
     (if pr_announced (fr_presenter F) then F
      else show_info (refresh P (emit_all (startup_banner full_screen)
             (F\<lparr>fr_presenter := (fr_presenter F)\<lparr>pr_announced := True\<rparr>\<rparr>))))"

definition request_shutdown :: "'c core_port \<Rightarrow> 'c front \<Rightarrow> 'c front" where
  "request_shutdown P F =
     (let (F1, answer) = ask_core P RqShutdown F in
      case answer of
        Inl e \<Rightarrow> emit (g_warn @ lit ''shutdown was not acknowledged: '' @ ei_message e) F1
      | Inr _ \<Rightarrow> F1)"

end
