(* ===== verification/Budget.thy ===== *)
theory Budget
  imports Complex_Main Config
begin

section \<open>Request budgets (\<^verbatim>\<open>meta-text-core/src/ipc/server.rs\<close>)\<close>

text \<open>
  The token bucket of a client address and the bounded table of buckets. The bucket counts in
  \<^verbatim>\<open>f64\<close>: a value is the rational it stands for, \<open>fo_round\<close> is the rounding of a fused
  multiply-add and \<open>fo_secs\<close> is \<^verbatim>\<open>Duration::as_secs_f64\<close>. Taking one token off a value of at
  least one is exact. \<open>float_laws\<close> states what IEEE 754 promises of the two, with a relative
  error of \<open>unit_error\<close>.
\<close>

record float_ops =
  fo_round :: "rat \<Rightarrow> rat"
  fo_secs :: "duration \<Rightarrow> rat"

definition unit_error :: rat where
  "unit_error = 1 / 2 ^ 52"

definition float_laws :: "float_ops \<Rightarrow> bool" where
  "float_laws F \<longleftrightarrow>
     (\<forall>x y. x \<le> y \<longrightarrow> fo_round F x \<le> fo_round F y) \<and>
     fo_round F 0 = 0 \<and> fo_round F 1 = 1 \<and>
     (\<forall>x. 0 \<le> x \<longrightarrow> fo_round F x \<le> x * (1 + unit_error)) \<and>
     (\<forall>a b. a \<le> b \<longrightarrow> fo_secs F a \<le> fo_secs F b) \<and>
     fo_secs F 0 = 0 \<and> fo_secs F (secs 1) = 1 \<and>
     (\<forall>d. fo_secs F d \<le> of_nat d / 10 ^ 9 * (1 + unit_error))"

definition exact_floats :: float_ops where
  "exact_floats = \<lparr>fo_round = (\<lambda>x. x), fo_secs = (\<lambda>d. of_nat d / 10 ^ 9)\<rparr>"

lemma exact_floats_laws: "float_laws exact_floats"
  by (auto simp: float_laws_def exact_floats_def secs_def unit_error_def divide_right_mono mult_right_le_one_le algebra_simps)

subsection \<open>The bucket\<close>

record TokenBucket =
  tb_rate :: nat
  tb_burst :: nat
  tb_tokens :: rat
  tb_last :: instant

definition bucket_new :: "nat \<Rightarrow> nat \<Rightarrow> instant \<Rightarrow> TokenBucket" where
  "bucket_new rate burst now =
     (let b = (if rate = 0 then 0 else max burst 1) in
      \<lparr>tb_rate = rate, tb_burst = b, tb_tokens = of_nat b, tb_last = now\<rparr>)"

definition bucket_try_acquire :: "float_ops \<Rightarrow> instant \<Rightarrow> TokenBucket \<Rightarrow> bool \<times> TokenBucket" where
  "bucket_try_acquire F now b =
     (if tb_rate b = 0 then (True, b)
      else
        (let elapsed = fo_secs F (now - tb_last b);
             tokens = min (fo_round F (elapsed * of_nat (tb_rate b) + tb_tokens b)) (of_nat (tb_burst b))
         in if 1 \<le> tokens then (True, b\<lparr>tb_last := now, tb_tokens := tokens - 1\<rparr>)
            else (False, b\<lparr>tb_last := now, tb_tokens := tokens\<rparr>)))"

text \<open>A run of requests at the given moments, and how many were served.\<close>

fun bucket_run :: "float_ops \<Rightarrow> instant list \<Rightarrow> TokenBucket \<Rightarrow> nat \<times> TokenBucket" where
  "bucket_run F [] b = (0, b)"
| "bucket_run F (t # ts) b =
     (let (ok, b1) = bucket_try_acquire F t b; (n, b2) = bucket_run F ts b1 in ((if ok then Suc n else n), b2))"

definition bucket_ok :: "TokenBucket \<Rightarrow> bool" where
  "bucket_ok b \<longleftrightarrow> 0 \<le> tb_tokens b \<and> tb_tokens b \<le> of_nat (tb_burst b) \<and> (tb_rate b \<noteq> 0 \<longrightarrow> 1 \<le> tb_burst b)"

lemma bucket_new_ok: "bucket_ok (bucket_new rate burst now)"
  by (simp add: bucket_ok_def bucket_new_def Let_def)

lemma secs_nonneg: "float_laws F \<Longrightarrow> 0 \<le> fo_secs F d"
  unfolding float_laws_def by (metis zero_le)

lemma round_nonneg: "float_laws F \<Longrightarrow> 0 \<le> x \<Longrightarrow> 0 \<le> fo_round F x"
  unfolding float_laws_def by metis

lemma round_one: "float_laws F \<Longrightarrow> 1 \<le> x \<Longrightarrow> 1 \<le> fo_round F x"
  unfolding float_laws_def by metis

lemma bucket_try_acquire_ok:
  assumes "float_laws F" "bucket_ok b"
  shows "bucket_ok (snd (bucket_try_acquire F now b))"
    and "tb_rate (snd (bucket_try_acquire F now b)) = tb_rate b"
    and "tb_burst (snd (bucket_try_acquire F now b)) = tb_burst b"
proof -
  have "0 \<le> fo_round F (fo_secs F (now - tb_last b) * of_nat (tb_rate b) + tb_tokens b)"
    using assms by (intro round_nonneg [OF assms(1)]) (simp add: secs_nonneg bucket_ok_def)
  then show "bucket_ok (snd (bucket_try_acquire F now b))"
    using assms(2) by (auto simp: bucket_ok_def bucket_try_acquire_def Let_def)
qed (simp_all add: bucket_try_acquire_def Let_def)

text \<open>One request costs at most the tokens that came in since the last, up to the rounding.\<close>

lemma bucket_step_bound:
  assumes "float_laws F" "bucket_ok b" "tb_rate b \<noteq> 0" "bucket_try_acquire F now b = (ok, b')"
  shows "tb_tokens b' + (if ok then 1 else 0) \<le>
    tb_tokens b + fo_secs F (now - tb_last b) * of_nat (tb_rate b) + unit_error * of_nat (tb_burst b)"
proof -
  let ?x = "fo_secs F (now - tb_last b) * of_nat (tb_rate b) + tb_tokens b"
  let ?t = "min (fo_round F ?x) (of_nat (tb_burst b))"
  have x0: "0 \<le> ?x" using assms(1,2) by (simp add: secs_nonneg bucket_ok_def)
  have e: "tb_tokens b' + (if ok then 1 else 0) = ?t"
    using assms(3,4) by (auto simp: bucket_try_acquire_def Let_def split: if_splits)
  have u0: "0 \<le> unit_error" by (simp add: unit_error_def)
  have "?t \<le> ?x + unit_error * of_nat (tb_burst b)"
  proof (cases "?x \<le> of_nat (tb_burst b)")
    case True
    have "fo_round F ?x \<le> ?x + ?x * unit_error"
      using assms(1) x0 by (auto simp: float_laws_def algebra_simps)
    moreover have "?x * unit_error \<le> of_nat (tb_burst b) * unit_error"
      by (rule mult_right_mono [OF True u0])
    ultimately show ?thesis by (simp add: mult.commute)
  next
    case False
    moreover have "0 \<le> unit_error * (of_nat (tb_burst b) :: rat)" using u0 by simp
    ultimately show ?thesis by linarith
  qed
  then show ?thesis using e by simp
qed

text \<open>The seconds a run lasts, as the bucket measures them.\<close>

fun elapsed_sum :: "float_ops \<Rightarrow> instant \<Rightarrow> instant list \<Rightarrow> rat" where
  "elapsed_sum F prev [] = 0"
| "elapsed_sum F prev (t # ts) = fo_secs F (t - prev) + elapsed_sum F t ts"

lemma bucket_run_bound:
  assumes "float_laws F"
  shows "bucket_ok b \<Longrightarrow> tb_rate b \<noteq> 0 \<Longrightarrow> bucket_run F ts b = (n, b') \<Longrightarrow>
    of_nat n + tb_tokens b' \<le>
      tb_tokens b + of_nat (tb_rate b) * elapsed_sum F (tb_last b) ts + of_nat (length ts) * (unit_error * of_nat (tb_burst b))"
proof (induction ts arbitrary: b n)
  case Nil
  then show ?case by simp
next
  case (Cons t ts)
  obtain ok b1 where s: "bucket_try_acquire F t b = (ok, b1)" by (cases "bucket_try_acquire F t b")
  obtain m where m: "bucket_run F ts b1 = (m, b')" "n = (if ok then Suc m else m)"
    using Cons.prems(3) s by (auto split: prod.splits)
  have b1: "bucket_ok b1" "tb_rate b1 = tb_rate b" "tb_burst b1 = tb_burst b" "tb_last b1 = t"
    using bucket_try_acquire_ok [OF assms Cons.prems(1), of t] s Cons.prems(2)
    by (auto simp: bucket_try_acquire_def Let_def split: if_splits)
  have IH: "of_nat m + tb_tokens b' \<le> tb_tokens b1 + of_nat (tb_rate b) * elapsed_sum F t ts +
      of_nat (length ts) * (unit_error * of_nat (tb_burst b))"
    using Cons.IH [OF b1(1) _ m(1)] Cons.prems(2) b1 by simp
  have "tb_tokens b1 + (if ok then 1 else 0) \<le>
      tb_tokens b + fo_secs F (t - tb_last b) * of_nat (tb_rate b) + unit_error * of_nat (tb_burst b)"
    by (rule bucket_step_bound [OF assms Cons.prems(1,2) s])
  with IH show ?case using m(2) by (simp add: algebra_simps split: if_splits)
qed

lemma elapsed_sum_le:
  assumes "float_laws F"
  shows "sorted (prev # ts) \<Longrightarrow>
    elapsed_sum F prev ts \<le> of_nat (last (prev # ts) - prev) / 10 ^ 9 * (1 + unit_error)"
proof (induction ts arbitrary: prev)
  case Nil
  then show ?case by simp
next
  case (Cons t ts)
  have le: "prev \<le> t" "t \<le> last (t # ts)"
    using Cons.prems by (auto simp del: last.simps) (metis last_in_set list.distinct(1) set_ConsD order_refl)
  have "fo_secs F (t - prev) \<le> of_nat (t - prev) / 10 ^ 9 * (1 + unit_error)"
    using assms by (simp add: float_laws_def)
  moreover have "elapsed_sum F t ts \<le> of_nat (last (t # ts) - t) / 10 ^ 9 * (1 + unit_error)"
    using Cons by simp
  moreover have "(of_nat (last (t # ts) - prev) :: rat) = of_nat (t - prev) + of_nat (last (t # ts) - t)"
    using le by (simp flip: of_nat_add)
  ultimately show ?case by (simp add: field_simps)
qed

text \<open>
  However many requests a client sends, it is served at most its burst plus what its rate gives
  for the time that passed; the last two factors are the rounding.
\<close>

lemma bucket_served_bound:
  assumes "float_laws F" "0 < rate" "sorted (start # ts)" "bucket_run F ts (bucket_new rate burst start) = (n, b')"
  shows "of_nat n \<le> of_nat (max burst 1) +
    of_nat rate * (of_nat (last (start # ts) - start) / 10 ^ 9 * (1 + unit_error)) +
    of_nat (length ts) * (unit_error * of_nat (max burst 1))"
proof -
  let ?b = "bucket_new rate burst start"
  have b: "tb_rate ?b = rate" "tb_burst ?b = max burst 1" "tb_tokens ?b = of_nat (max burst 1)" "tb_last ?b = start"
    using assms(2) by (simp_all add: bucket_new_def Let_def)
  note ok = bucket_new_ok [of rate burst start]
  have "0 \<le> tb_tokens b'"
  proof -
    have "bucket_ok b \<Longrightarrow> bucket_ok (snd (bucket_run F ts b))" for b ts
      by (induction ts arbitrary: b) (simp_all add: split_beta Let_def bucket_try_acquire_ok [OF assms(1)])
    from this [OF ok, of ts] show ?thesis using assms(4) by (simp add: bucket_ok_def)
  qed
  moreover have "of_nat rate * elapsed_sum F start ts \<le>
      of_nat rate * (of_nat (last (start # ts) - start) / 10 ^ 9 * (1 + unit_error))"
    by (rule mult_left_mono [OF elapsed_sum_le [OF assms(1,3)]]) simp
  moreover have "of_nat n + tb_tokens b' \<le>
      of_nat (max burst 1) + of_nat rate * elapsed_sum F start ts + of_nat (length ts) * (unit_error * of_nat (max burst 1))"
    using bucket_run_bound [OF assms(1) ok _ assms(4)] b assms(2) by simp
  ultimately show ?thesis by linarith
qed

text \<open>After a second of silence a client is served again.\<close>

lemma bucket_idle_second:
  assumes "float_laws F" "bucket_ok b" "tb_last b + secs 1 \<le> now"
  shows "fst (bucket_try_acquire F now b)"
proof (cases "tb_rate b = 0")
  case True
  then show ?thesis by (simp add: bucket_try_acquire_def)
next
  case False
  have "1 \<le> fo_secs F (now - tb_last b)"
    using assms(1,3) by (auto simp: float_laws_def) (metis add_le_imp_le_diff add.commute)
  then have "1 * 1 \<le> fo_secs F (now - tb_last b) * of_nat (tb_rate b)"
    using False by (intro mult_mono) auto
  then have "1 \<le> fo_secs F (now - tb_last b) * of_nat (tb_rate b) + tb_tokens b"
    using assms(2) by (simp add: bucket_ok_def)
  then have "1 \<le> fo_round F (fo_secs F (now - tb_last b) * of_nat (tb_rate b) + tb_tokens b)"
    by (rule round_one [OF assms(1)])
  then show ?thesis
    using False assms(2) by (auto simp: bucket_try_acquire_def Let_def bucket_ok_def)
qed

subsection \<open>The table of addresses\<close>

definition BUDGET_IDLE_TTL :: duration where "BUDGET_IDLE_TTL = secs 600"
definition MAX_TRACKED_PEERS :: nat where "MAX_TRACKED_PEERS = 1024"

record AddressBudget =
  ab_bucket :: TokenBucket
  ab_last_seen :: instant

record PeerBudgets =
  pb_rate :: nat
  pb_burst :: nat
  pb_ttl :: duration
  pb_capacity :: nat
  pb_entries :: "(ip_addr \<times> AddressBudget) list"

definition budgets_with_limits :: "nat \<Rightarrow> nat \<Rightarrow> duration \<Rightarrow> nat \<Rightarrow> PeerBudgets" where
  "budgets_with_limits rate burst ttl capacity =
     \<lparr>pb_rate = rate, pb_burst = burst, pb_ttl = ttl, pb_capacity = max capacity 1, pb_entries = []\<rparr>"

definition budgets_new :: "nat \<Rightarrow> nat \<Rightarrow> PeerBudgets" where
  "budgets_new rate burst = budgets_with_limits rate burst BUDGET_IDLE_TTL MAX_TRACKED_PEERS"

definition sweep :: "instant \<Rightarrow> PeerBudgets \<Rightarrow> PeerBudgets" where
  "sweep now B = B\<lparr>pb_entries := filter (\<lambda>(a, e). now - ab_last_seen e < pb_ttl B) (pb_entries B)\<rparr>"

definition oldest_entry :: "(ip_addr \<times> AddressBudget) list \<Rightarrow> ip_addr option" where
  "oldest_entry es = (case sort_key (\<lambda>(a, e). ab_last_seen e) es of [] \<Rightarrow> None | (a, e) # rest \<Rightarrow> Some a)"

definition evict_oldest :: "PeerBudgets \<Rightarrow> PeerBudgets" where
  "evict_oldest B =
     (case oldest_entry (pb_entries B) of
        None \<Rightarrow> B
      | Some a \<Rightarrow> B\<lparr>pb_entries := AList.delete a (pb_entries B)\<rparr>)"

text \<open>\<open>created\<close> is the clock a new bucket reads for itself.\<close>

definition budgets_try_acquire ::
  "float_ops \<Rightarrow> instant \<Rightarrow> ip_addr \<Rightarrow> instant \<Rightarrow> PeerBudgets \<Rightarrow> bool \<times> PeerBudgets" where
  "budgets_try_acquire F created peer now B =
     (if pb_rate B = 0 then (True, B)
      else
        (let B1 = sweep now B;
             B2 = (if map_of (pb_entries B1) peer = None \<and> pb_capacity B1 \<le> length (pb_entries B1)
                   then evict_oldest B1 else B1);
             budget = unwrap_or \<lparr>ab_bucket = bucket_new (pb_rate B) (pb_burst B) created, ab_last_seen = now\<rparr>
                        (map_of (pb_entries B2) peer);
             (ok, bucket) = bucket_try_acquire F now (ab_bucket budget)
         in (ok, B2\<lparr>pb_entries := AList.update peer \<lparr>ab_bucket = bucket, ab_last_seen = now\<rparr> (pb_entries B2)\<rparr>)))"

definition entry_ok :: "PeerBudgets \<Rightarrow> AddressBudget \<Rightarrow> bool" where
  "entry_ok B e \<longleftrightarrow> bucket_ok (ab_bucket e) \<and> tb_rate (ab_bucket e) = pb_rate B"

definition budgets_wf :: "PeerBudgets \<Rightarrow> bool" where
  "budgets_wf B \<longleftrightarrow>
     1 \<le> pb_capacity B \<and> distinct (map fst (pb_entries B)) \<and> length (pb_entries B) \<le> pb_capacity B \<and>
     (\<forall>(a, e) \<in> set (pb_entries B). entry_ok B e)"

lemma budgets_new_wf: "budgets_wf (budgets_with_limits rate burst ttl capacity)"
  by (simp add: budgets_wf_def budgets_with_limits_def)

lemma budgets_wf_lookup: "budgets_wf B \<Longrightarrow> map_of (pb_entries B) a = Some e \<Longrightarrow> entry_ok B e"
  by (auto simp: budgets_wf_def dest!: map_of_SomeD)

lemma sweep_wf: "budgets_wf B \<Longrightarrow> budgets_wf (sweep now B)"
  by (auto simp: budgets_wf_def sweep_def entry_ok_def distinct_filter_keys intro: order_trans [OF length_filter_le])

lemma length_delete_present:
  "distinct (map fst m) \<Longrightarrow> k \<in> set (map fst m) \<Longrightarrow> length (AList.delete k m) = length m - 1"
proof -
  assume a: "distinct (map fst m)" "k \<in> set (map fst m)"
  have "length (map fst (AList.delete k m)) = length (map fst m) - 1"
    unfolding delete_keys using a by (simp add: distinct_remove1_removeAll [symmetric] length_remove1 del: set_map)
  then show ?thesis by simp
qed

lemma oldest_entry_mem: "es \<noteq> [] \<Longrightarrow> \<exists>a. oldest_entry es = Some a \<and> a \<in> set (map fst es)"
proof -
  assume "es \<noteq> []"
  then have "sort_key (\<lambda>(a, e). ab_last_seen e) es \<noteq> []"
    by (metis length_0_conv length_sort)
  then obtain a e rest where s: "sort_key (\<lambda>(a, e). ab_last_seen e) es = (a, e) # rest"
    by (cases "sort_key (\<lambda>(a, e). ab_last_seen e) es") auto
  then have "(a, e) \<in> set es" by (metis list.set_intros(1) set_sort)
  then show ?thesis using s by (force simp: oldest_entry_def)
qed

lemma evict_oldest_room:
  assumes "budgets_wf B"
  shows "budgets_wf (evict_oldest B) \<and> length (pb_entries (evict_oldest B)) < pb_capacity B"
proof (cases "pb_entries B = []")
  case True
  then show ?thesis using assms by (simp add: evict_oldest_def oldest_entry_def budgets_wf_def)
next
  case False
  then obtain a where a: "oldest_entry (pb_entries B) = Some a" "a \<in> set (map fst (pb_entries B))"
    using oldest_entry_mem by blast
  have d: "length (AList.delete a (pb_entries B)) = length (pb_entries B) - 1"
    using assms a(2) by (intro length_delete_present) (simp_all add: budgets_wf_def)
  moreover have "0 < length (pb_entries B)" using False by simp
  moreover have "distinct (map fst (AList.delete a (pb_entries B)))"
    using assms by (intro distinct_delete) (simp add: budgets_wf_def)
  ultimately show ?thesis
    using assms a by (auto simp: evict_oldest_def budgets_wf_def entry_ok_def AList.delete_eq)
qed

lemma budgets_update_wf:
  assumes "budgets_wf B" "entry_ok B e" "map_of (pb_entries B) p \<noteq> None \<or> length (pb_entries B) < pb_capacity B"
  shows "budgets_wf (B\<lparr>pb_entries := AList.update p e (pb_entries B)\<rparr>)"
proof -
  have "(a, x) \<in> set (AList.update p e m) \<Longrightarrow> (a = p \<and> x = e) \<or> (a, x) \<in> set m" for a x m
    by (induction m) (auto split: if_splits)
  then have "\<forall>(a, x) \<in> set (AList.update p e (pb_entries B)). entry_ok B x"
    using assms(1,2) by (fastforce simp: budgets_wf_def)
  moreover have "length (AList.update p e (pb_entries B)) \<le> pb_capacity B"
    using assms(1,3) by (cases "map_of (pb_entries B) p") (auto simp: length_update_new length_update_old budgets_wf_def)
  ultimately show ?thesis
    using assms(1) by (auto simp: budgets_wf_def distinct_update entry_ok_def)
qed

lemma budgets_try_acquire_wf:
  assumes "float_laws F" "budgets_wf B"
  shows "budgets_wf (snd (budgets_try_acquire F created peer now B))"
proof (cases "pb_rate B = 0")
  case True
  then show ?thesis using assms(2) by (simp add: budgets_try_acquire_def)
next
  case False
  let ?B1 = "sweep now B"
  let ?B2 = "if map_of (pb_entries ?B1) peer = None \<and> pb_capacity ?B1 \<le> length (pb_entries ?B1) then evict_oldest ?B1 else ?B1"
  let ?new = "\<lparr>ab_bucket = bucket_new (pb_rate B) (pb_burst B) created, ab_last_seen = now\<rparr>"
  let ?budget = "unwrap_or ?new (map_of (pb_entries ?B2) peer)"
  have B1: "budgets_wf ?B1" by (rule sweep_wf [OF assms(2)])
  have B2: "budgets_wf ?B2" "map_of (pb_entries ?B2) peer \<noteq> None \<or> length (pb_entries ?B2) < pb_capacity ?B2"
      "pb_rate ?B2 = pb_rate B"
    using B1 evict_oldest_room [OF B1]
    by (auto simp: evict_oldest_def sweep_def split: option.splits)
  have e: "entry_ok ?B2 ?budget"
  proof (cases "map_of (pb_entries ?B2) peer")
    case None
    then show ?thesis
      using B2(3) bucket_new_ok by (simp add: unwrap_or_def entry_ok_def bucket_new_def Let_def del: if_split)
  next
    case (Some b)
    then show ?thesis using budgets_wf_lookup [OF B2(1) Some] by (simp only: unwrap_or_def option.case)
  qed
  obtain ok bk where acq: "bucket_try_acquire F now (ab_bucket ?budget) = (ok, bk)"
    by (cases "bucket_try_acquire F now (ab_bucket ?budget)")
  have "entry_ok ?B2 \<lparr>ab_bucket = bk, ab_last_seen = now\<rparr>"
    using bucket_try_acquire_ok [OF assms(1), of "ab_bucket ?budget" now] e acq by (simp add: entry_ok_def del: if_split)
  then have "budgets_wf (?B2\<lparr>pb_entries := AList.update peer \<lparr>ab_bucket = bk, ab_last_seen = now\<rparr> (pb_entries ?B2)\<rparr>)"
    by (rule budgets_update_wf [OF B2(1) _ B2(2)])
  then show ?thesis
    using False acq by (simp add: budgets_try_acquire_def Let_def del: if_split)
qed

text \<open>An address that is not tracked is always served, however full the table is.\<close>

lemma budgets_new_address:
  assumes "float_laws F" "budgets_wf B" "map_of (pb_entries B) peer = None" "now \<le> created"
  shows "fst (budgets_try_acquire F created peer now B)"
proof -
  have keep: "map_of (pb_entries (sweep now B)) peer = None"
    using assms(3) by (auto simp: sweep_def map_of_eq_None_iff)
  then have "map_of (pb_entries (evict_oldest (sweep now B))) peer = None"
    by (auto simp: evict_oldest_def delete_conv' split: option.splits)
  moreover have "bucket_ok (bucket_new (pb_rate B) (pb_burst B) created)" by (rule bucket_new_ok)
  moreover have "fst (bucket_try_acquire F now (bucket_new (pb_rate B) (pb_burst B) created))" if "pb_rate B \<noteq> 0"
  proof -
    let ?m = "max (pb_burst B) 1"
    have r: "1 \<le> fo_round F (of_nat ?m)" by (rule round_one [OF assms(1)]) simp
    show ?thesis
      using that assms(1,4) r by (auto simp: bucket_try_acquire_def bucket_new_def Let_def float_laws_def)
  qed
  ultimately show ?thesis
    using keep by (auto simp: budgets_try_acquire_def Let_def split_beta unwrap_or_def)
qed

end
