(* ===== verification/Server.thy ===== *)
theory Server
  imports Budget Framing
begin

section \<open>The front-end endpoint (\<^verbatim>\<open>meta-text-core/src/ipc/server.rs\<close>)\<close>

text \<open>
  The greeting of a connection and the tasks that serve it. The core service is a function from a
  request and the core's state to a result and a new state; \<open>core_service\<close> names what the endpoint
  relies on. A connection's bounded channels are lists, and a task that would have to wait for room
  does not step. \<open>cn_received\<close> and \<open>cn_forwarded\<close> record what the connection has read and what
  it gave to the core; they are never read by a step.
\<close>

definition DEFAULT_HANDSHAKE_TIMEOUT :: duration where "DEFAULT_HANDSHAKE_TIMEOUT = secs 5"
definition MAX_CLIENT_CONNECTIONS :: nat where "MAX_CLIENT_CONNECTIONS = 16"
definition CLIENT_OUTBOX_CAPACITY :: nat where "CLIENT_OUTBOX_CAPACITY = 128"
definition RATE_LIMIT_STRIKES :: nat where "RATE_LIMIT_STRIKES = 256"

record ServerOptions =
  so_token :: "rtext option"
  so_name :: rtext
  so_handshake_timeout :: duration
  so_requests_per_second :: nat
  so_request_burst :: nat

definition server_options_default :: ServerOptions where
  "server_options_default =
     \<lparr>so_token = None, so_name = lit ''meta-text'', so_handshake_timeout = DEFAULT_HANDSHAKE_TIMEOUT,
      so_requests_per_second = DEFAULT_REQUESTS_PER_SECOND, so_request_burst = DEFAULT_REQUEST_BURST\<rparr>"

type_synonym 's core_fun = "Request \<Rightarrow> 's \<Rightarrow> (ErrorInfo + Reply) \<times> 's"

subsection \<open>Comparing secrets\<close>

definition byte_or_zero :: "bytes \<Rightarrow> nat \<Rightarrow> u8" where
  "byte_or_zero bs i = (if i < length bs then bs ! i else 0)"

unbundle bit_operations_syntax

definition secret_difference :: "bytes \<Rightarrow> bytes \<Rightarrow> nat" where
  "secret_difference e p =
     foldl (\<lambda>d i. d OR unat (byte_or_zero e i XOR byte_or_zero p i)) (length e XOR length p)
       [0..<max (length e) (length p)]"

definition secret_eq :: "rtext \<Rightarrow> rtext \<Rightarrow> bool" where
  "secret_eq expected provided = (secret_difference (utf8_bytes expected) (utf8_bytes provided) = 0)"

lemma or_nat_zero: "(a OR b) = (0 :: nat) \<longleftrightarrow> a = 0 \<and> b = 0"
  by (rule or_eq_0_iff)

lemma foldl_or_zero: "foldl (\<lambda>d i. d OR f i) a xs = (0 :: nat) \<longleftrightarrow> a = 0 \<and> (\<forall>i \<in> set xs. f i = 0)"
  by (induction xs arbitrary: a) (auto simp: or_nat_zero)

lemma xor_nat_zero: "a XOR b = (0 :: nat) \<longleftrightarrow> a = b"
  by (auto simp: bit_eq_iff bit_xor_iff)

lemma xor_byte_zero: "unat (a XOR b :: u8) = 0 \<longleftrightarrow> a = b"
proof -
  have "unat (a XOR b) = 0 \<longleftrightarrow> a XOR b = 0" by (rule unat_0_iff)
  then show ?thesis by (auto simp: bit_eq_iff bit_xor_iff)
qed

lemma foldl_unchanged: "foldl (\<lambda>d i. d) a xs = a"
  by (induction xs) simp_all

lemma secret_difference_zero: "secret_difference e p = 0 \<longleftrightarrow> e = p"
proof
  assume "secret_difference e p = 0"
  then have len: "length e = length p" and
    eq: "\<forall>i < length e. byte_or_zero e i = byte_or_zero p i"
    by (auto simp: secret_difference_def foldl_or_zero xor_nat_zero xor_byte_zero)
  show "e = p" by (rule nth_equalityI [OF len]) (use eq len in \<open>simp add: byte_or_zero_def\<close>)
qed (simp add: secret_difference_def foldl_unchanged)

lemma secret_eq_iff: "valid_text a \<Longrightarrow> valid_text b \<Longrightarrow> secret_eq a b \<longleftrightarrow> a = b"
proof -
  assume v: "valid_text a" "valid_text b"
  have "utf8_bytes a = utf8_bytes b \<Longrightarrow> a = b"
    using from_utf8_utf8_bytes [OF v(1)] from_utf8_utf8_bytes [OF v(2)] by (metis option.inject)
  then show ?thesis by (auto simp: secret_eq_def secret_difference_zero)
qed

subsection \<open>The greeting\<close>

definition rejected :: "ErrorCode \<Rightarrow> rtext \<Rightarrow> ServerMessage" where
  "rejected code m = SmRejected (error_info_new code m)"

definition empty_session :: SessionInfo where
  "empty_session =
     \<lparr>si_nickname = [], si_status_message = [], si_identity = [], si_mode = lit ''unknown'',
      si_version = lit ''0.4.0'', si_encryption = lit ''unknown'', si_encryption_enabled = False,
      si_network_running = False, si_network_port = 0, si_network_bootstrap_nodes = 0,
      si_connected_peers = 0, si_pending_peers = 0, si_max_connections = 0, si_queued_messages = 0,
      si_desired_peers = [], si_peer_nicknames = [], si_local_address = None,
      si_database_connected = False, si_database = [], si_persistent = False,
      si_database_max_connections = 0, si_friend_count = 0, si_max_friends = 0,
      si_active_chat = None, si_uptime_seconds = 0, si_config_path = [], si_data_dir = [],
      si_app_name = [], si_app_version = [], si_max_message_length = 0, si_auto_save_interval = 0,
      si_transport = lit ''unknown'', si_public_identity = None, si_pending_requests = 0,
      si_supports_friend_requests = False, si_groups = 0, si_pending_group_invites = 0,
      si_supports_groups = False, si_identity_fingerprint = [], si_peer_identities = []\<rparr>"

datatype hello_read = HelloTimeout | HelloError io_error | HelloMessage "ClientMessage option"

text \<open>What is written, whether the client is attached, and the core's state.\<close>

definition handshake ::
  "'s core_fun \<Rightarrow> ServerOptions \<Rightarrow> hello_read \<Rightarrow> 's \<Rightarrow> ServerMessage list \<times> bool \<times> 's" where
  "handshake core opts hello s =
     (case hello of
        HelloTimeout \<Rightarrow> ([], False, s)
      | HelloError e \<Rightarrow> ([], False, s)
      | HelloMessage m \<Rightarrow>
          (case m of
             Some (CmHello version token client) \<Rightarrow>
               if \<not> is_supported_protocol version then
                 ([rejected EcUnsupportedProtocol
                     (lit ''protocol version '' @ dec (unat version) @ lit '' is not supported (this build serves '' @
                      dec (unat MIN_SUPPORTED_PROTOCOL_VERSION) @ lit ''..='' @ dec (unat PROTOCOL_VERSION) @ lit '')'')],
                  False, s)
               else if (case so_token opts of Some expected \<Rightarrow> \<not> secret_eq expected (unwrap_or [] token) | None \<Rightarrow> False) then
                 ([rejected EcUnauthorized (lit ''invalid token'')], False, s)
               else
                 (case core RqSessionInfo s of
                    (Inl e, s1) \<Rightarrow> ([rejected (ei_code e) (ei_message e)], False, s1)
                  | (Inr (RpSession session), s1) \<Rightarrow> ([SmWelcome PROTOCOL_VERSION session], True, s1)
                  | (Inr _, s1) \<Rightarrow> ([SmWelcome PROTOCOL_VERSION empty_session], True, s1))
           | _ \<Rightarrow> ([rejected EcInvalidRequest (lit ''a hello frame is required'')], False, s)))"

text \<open>Without the token the core is never asked and the client is never attached.\<close>

lemma handshake_refuses:
  assumes "so_token opts = Some expected" "valid_text expected"
    "\<And>version token client. m = Some (CmHello version token client) \<Longrightarrow>
       valid_text (unwrap_or [] token) \<and> unwrap_or [] token \<noteq> expected"
  shows "\<exists>out. handshake core opts (HelloMessage m) s = (out, False, s) \<and>
    list_all (\<lambda>x. \<exists>e. x = SmRejected e) out"
  using assms by (auto simp: handshake_def rejected_def secret_eq_iff split: option.splits ClientMessage.splits)

lemma handshake_attaches:
  assumes "is_supported_protocol version" "\<And>expected. so_token opts = Some expected \<Longrightarrow> token = Some expected"
    "core RqSessionInfo s = (Inr (RpSession session), s1)"
  shows "handshake core opts (HelloMessage (Some (CmHello version token client))) s =
    ([SmWelcome PROTOCOL_VERSION session], True, s1)"
  using assms by (auto simp: handshake_def secret_eq_def secret_difference_zero unwrap_or_def split: option.splits)

subsection \<open>Serving a connection\<close>

record conn =
  cn_attached :: bool
  cn_strikes :: nat
  cn_pending :: "(u64 \<times> Request option) list"
  cn_outbox :: "ServerMessage list"
  cn_wire :: "ServerMessage list"
  cn_received :: "(u64 \<times> Request) list"
  cn_forwarded :: "Request list"

definition conn_new :: conn where
  "conn_new = \<lparr>cn_attached = True, cn_strikes = 0, cn_pending = [], cn_outbox = [], cn_wire = [],
     cn_received = [], cn_forwarded = []\<rparr>"

text \<open>One message from the reader.\<close>

definition conn_incoming ::
  "float_ops \<Rightarrow> instant \<Rightarrow> ip_addr \<Rightarrow> instant \<Rightarrow> io_error + ClientMessage option \<Rightarrow> conn \<times> PeerBudgets
   \<Rightarrow> conn \<times> PeerBudgets" where
  "conn_incoming F created peer now incoming cb =
     (let (c, B) = cb in
      case incoming of
        Inr (Some (CmRequest rid request)) \<Rightarrow>
          (let (ok, B1) = budgets_try_acquire F created peer now B;
               c1 = c\<lparr>cn_received := cn_received c @ [(rid, request)]\<rparr>
           in if ok then (c1\<lparr>cn_pending := cn_pending c1 @ [(rid, Some request)]\<rparr>, B1)
              else
                (let c2 = c1\<lparr>cn_strikes := cn_strikes c1 + 1, cn_pending := cn_pending c1 @ [(rid, None)]\<rparr> in
                 (if RATE_LIMIT_STRIKES \<le> cn_strikes c2 then c2\<lparr>cn_attached := False\<rparr> else c2, B1)))
      | Inr _ \<Rightarrow> (c\<lparr>cn_attached := False\<rparr>, B)
      | Inl e \<Rightarrow> (c\<lparr>cn_attached := False\<rparr>, B))"

text \<open>The dispatcher: one queued request, answered.\<close>

definition dispatch_request :: "'s core_fun \<Rightarrow> Request option \<Rightarrow> 's \<Rightarrow> ResponseResult \<times> Request list \<times> 's" where
  "dispatch_request core request s =
     (case request of
        None \<Rightarrow>
          (response_err (error_info_new EcBackpressure (lit ''request rate limit exceeded; slow down'')), [], s)
      | Some RqShutdown \<Rightarrow>
          (response_err (error_info_new EcUnauthorized (lit ''shutdown is reserved for the hosting process'')), [], s)
      | Some r \<Rightarrow>
          (case core r s of
             (Inr reply, s1) \<Rightarrow> (response_ok reply, [r], s1)
           | (Inl e, s1) \<Rightarrow> (response_err e, [r], s1)))"

definition conn_dispatch :: "'s core_fun \<Rightarrow> conn \<times> 's \<Rightarrow> conn \<times> 's" where
  "conn_dispatch core cs =
     (let (c, s) = cs in
      case cn_pending c of
        [] \<Rightarrow> (c, s)
      | (rid, request) # rest \<Rightarrow>
          (let (result, forwarded, s1) = dispatch_request core request s in
           (c\<lparr>cn_pending := rest, cn_outbox := cn_outbox c @ [SmResponse rid result],
              cn_forwarded := cn_forwarded c @ forwarded\<rparr>, s1)))"

datatype broadcast_recv = BrEvent CoreEvent | BrLagged nat | BrClosed

definition conn_event :: "broadcast_recv \<Rightarrow> conn \<Rightarrow> conn" where
  "conn_event ev c =
     (case ev of
        BrEvent e \<Rightarrow> c\<lparr>cn_outbox := cn_outbox c @ [SmEvent e]\<rparr>
      | BrLagged n \<Rightarrow> c
      | BrClosed \<Rightarrow> c\<lparr>cn_attached := False\<rparr>)"

text \<open>The writer: the oldest message goes out.\<close>

definition conn_write :: "conn \<Rightarrow> conn" where
  "conn_write c =
     (case cn_outbox c of
        [] \<Rightarrow> c
      | m # rest \<Rightarrow> c\<lparr>cn_outbox := rest, cn_wire := cn_wire c @ [m]\<rparr>)"

record 's served =
  sv_conn :: conn
  sv_budgets :: PeerBudgets
  sv_core :: 's

inductive serve_step :: "'s core_fun \<Rightarrow> float_ops \<Rightarrow> 's served \<Rightarrow> 's served \<Rightarrow> bool"
  for core :: "'s core_fun" and F :: float_ops where
  serve_incoming:
    "cn_attached (sv_conn v) \<Longrightarrow> length (cn_pending (sv_conn v)) < CLIENT_OUTBOX_CAPACITY \<Longrightarrow>
     conn_incoming F created peer now incoming (sv_conn v, sv_budgets v) = (c, B) \<Longrightarrow>
     serve_step core F v (v\<lparr>sv_conn := c, sv_budgets := B\<rparr>)"
| serve_dispatch:
    "cn_attached (sv_conn v) \<Longrightarrow> cn_pending (sv_conn v) \<noteq> [] \<Longrightarrow>
     length (cn_outbox (sv_conn v)) < CLIENT_OUTBOX_CAPACITY \<Longrightarrow>
     conn_dispatch core (sv_conn v, sv_core v) = (c, s) \<Longrightarrow>
     serve_step core F v (v\<lparr>sv_conn := c, sv_core := s\<rparr>)"
| serve_event:
    "cn_attached (sv_conn v) \<Longrightarrow> length (cn_outbox (sv_conn v)) < CLIENT_OUTBOX_CAPACITY \<Longrightarrow>
     serve_step core F v (v\<lparr>sv_conn := conn_event ev (sv_conn v)\<rparr>)"
| serve_write:
    "cn_attached (sv_conn v) \<Longrightarrow> serve_step core F v (v\<lparr>sv_conn := conn_write (sv_conn v)\<rparr>)"
| serve_other: "serve_step core F v (v\<lparr>sv_budgets := B, sv_core := s\<rparr>)"

inductive serve_reach :: "'s core_fun \<Rightarrow> float_ops \<Rightarrow> 's served \<Rightarrow> bool"
  for core :: "'s core_fun" and F :: float_ops where
  serve_start: "sv_conn v = conn_new \<Longrightarrow> serve_reach core F v"
| serve_next: "serve_reach core F v \<Longrightarrow> serve_step core F v v' \<Longrightarrow> serve_reach core F v'"

fun response_ids :: "ServerMessage list \<Rightarrow> u64 list" where
  "response_ids [] = []"
| "response_ids (SmResponse rid r # ms) = rid # response_ids ms"
| "response_ids (m # ms) = response_ids ms"

lemma response_ids_append [simp]: "response_ids (a @ b) = response_ids a @ response_ids b"
  by (induction a rule: response_ids.induct) auto

definition conn_inv :: "conn \<Rightarrow> bool" where
  "conn_inv c \<longleftrightarrow>
     response_ids (cn_wire c @ cn_outbox c) @ map fst (cn_pending c) = map fst (cn_received c) \<and>
     length (cn_pending c) \<le> CLIENT_OUTBOX_CAPACITY \<and> length (cn_outbox c) \<le> CLIENT_OUTBOX_CAPACITY \<and>
     cn_strikes c \<le> RATE_LIMIT_STRIKES \<and> (cn_attached c \<longrightarrow> cn_strikes c < RATE_LIMIT_STRIKES) \<and>
     RqShutdown \<notin> set (cn_forwarded c) \<and>
     set (cn_forwarded c) \<union> set (List.map_filter snd (cn_pending c)) \<subseteq> set (map snd (cn_received c))"

lemma conn_new_inv: "conn_inv conn_new"
  by (simp add: conn_inv_def conn_new_def RATE_LIMIT_STRIKES_def map_filter_simps)

lemma map_filter_snoc: "List.map_filter f (xs @ [x]) = List.map_filter f xs @ (case f x of None \<Rightarrow> [] | Some y \<Rightarrow> [y])"
  by (cases "f x") (simp_all add: List.map_filter_def)

lemma conn_incoming_inv:
  assumes "conn_inv c" "cn_attached c" "length (cn_pending c) < CLIENT_OUTBOX_CAPACITY"
    "conn_incoming F created peer now incoming (c, B) = (c', B')"
  shows "conn_inv c'"
  using assms
  by (auto simp: conn_incoming_def conn_inv_def Let_def map_filter_snoc split: sum.splits option.splits
      ClientMessage.splits prod.splits if_splits)


lemma dispatch_request_forwards:
  "dispatch_request core r s = (result, fw, s') \<Longrightarrow>
   RqShutdown \<notin> set fw \<and> set fw \<subseteq> (case r of None \<Rightarrow> {} | Some q \<Rightarrow> {q})"
  by (auto simp: dispatch_request_def split: option.splits Request.splits sum.splits prod.splits)

lemma conn_dispatch_inv:
  assumes "conn_inv c" "cn_pending c \<noteq> []" "length (cn_outbox c) < CLIENT_OUTBOX_CAPACITY"
    "conn_dispatch core (c, s) = (c', s')"
  shows "conn_inv c'"
proof -
  obtain rid request rest where p: "cn_pending c = (rid, request) # rest"
    using assms(2) by (cases "cn_pending c") auto
  obtain result fw s1 where d: "dispatch_request core request s = (result, fw, s1)"
    by (cases "dispatch_request core request s") auto
  have c': "c' = c\<lparr>cn_pending := rest, cn_outbox := cn_outbox c @ [SmResponse rid result],
      cn_forwarded := cn_forwarded c @ fw\<rparr>"
    using assms(4) by (simp add: conn_dispatch_def p d)
  have "set (List.map_filter snd (cn_pending c)) =
      (case request of None \<Rightarrow> {} | Some q \<Rightarrow> {q}) \<union> set (List.map_filter snd rest)"
    by (auto simp: p map_filter_simps split: option.splits)
  then show ?thesis
    using assms(1,3) dispatch_request_forwards [OF d] by (auto simp: conn_inv_def c' p split: option.splits)
qed

lemma conn_event_inv:
  "conn_inv c \<Longrightarrow> length (cn_outbox c) < CLIENT_OUTBOX_CAPACITY \<Longrightarrow> conn_inv (conn_event ev c)"
  by (cases ev) (auto simp: conn_event_def conn_inv_def)

lemma conn_write_inv: "conn_inv c \<Longrightarrow> conn_inv (conn_write c)"
  by (cases "cn_outbox c") (auto simp: conn_write_def conn_inv_def response_ids_append [of _ "[_]"] simp del: response_ids_append
      dest: arg_cong [where f = length] split: list.splits)

lemma serve_step_inv: "serve_step core F v v' \<Longrightarrow> conn_inv (sv_conn v) \<Longrightarrow> conn_inv (sv_conn v')"
proof (induction rule: serve_step.induct)
  case (serve_incoming v created peer now incoming c B)
  then show ?case using conn_incoming_inv by fastforce
next
  case (serve_dispatch v c s)
  then show ?case using conn_dispatch_inv by fastforce
next
  case (serve_event v ev)
  then show ?case using conn_event_inv by fastforce
next
  case (serve_write v)
  then show ?case using conn_write_inv by fastforce
qed simp

lemma serve_reach_inv: "serve_reach core F v \<Longrightarrow> conn_inv (sv_conn v)"
  by (induction rule: serve_reach.induct) (auto simp: conn_new_inv dest: serve_step_inv)

text \<open>
  Once everything queued is answered and written, the client has exactly one response for each
  request it sent, in the order it sent them.
\<close>

lemma serve_answers_all:
  assumes "serve_reach core F v" "cn_pending (sv_conn v) = []" "cn_outbox (sv_conn v) = []"
  shows "response_ids (cn_wire (sv_conn v)) = map fst (cn_received (sv_conn v))"
  using serve_reach_inv [OF assms(1)] assms(2,3) by (simp add: conn_inv_def)

end
