(* ===== verification/FrontEnds.thy ===== *)
theory FrontEnds
  imports PresenterCommands Server Config
begin

section \<open>Front ends and entry point (\<^verbatim>\<open>meta-text-cli/src/ui.rs\<close>, \<^verbatim>\<open>meta-text-tui/src/ui/tui.rs\<close>, \<^verbatim>\<open>src/main.rs\<close>)\<close>

text \<open>
  The loops of the line oriented and of the full screen front end over the presenter, the manager
  of the full screen interface, and what the process decides before it starts one of them. An
  input is what a loop wakes up for; the inputs after the one that ends the loop are not read.
\<close>

subsection \<open>Line oriented front end\<close>

definition INPUT_QUEUE_CAPACITY :: nat where "INPUT_QUEUE_CAPACITY = 64"

datatype cli_input = FiLine rtext | FiEnd | FiEvent CoreEvent | FiLagged nat | FiClosed | FiInterrupt

text \<open>A line as the keyboard thread hands it on: without its end of line.\<close>

definition strip_eol :: "rtext \<Rightarrow> rtext" where
  "strip_eol s = rev (dropWhile (\<lambda>c. c = 10 \<or> c = 13) (rev s))"

definition write_prompt :: "bool \<Rightarrow> bool \<Rightarrow> 'c front \<Rightarrow> 'c front" where
  "write_prompt stdin_is_terminal stdout_is_terminal F =
     (if should_show_prompt stdin_is_terminal stdout_is_terminal (os_enabled (sc_sink (fr_screen F)))
      then F\<lparr>fr_screen := (fr_screen F)\<lparr>sc_printed := sc_printed (fr_screen F) @
        [lit ''>> '']\<rparr>\<rparr> else F)"

fun cli_step :: "text_lib \<Rightarrow> 'c core_port \<Rightarrow> bool \<Rightarrow> bool \<Rightarrow> cli_input \<Rightarrow> 'c front \<Rightarrow> 'c front \<times> bool" where
  "cli_step T P tty_in tty_out (FiLine line) F =
     (case handle_line T P line F of
        (F1, True) \<Rightarrow> (F1, True)
      | (F1, False) \<Rightarrow> (write_prompt tty_in tty_out F1, False))"
| "cli_step T P tty_in tty_out FiEnd F = (F, True)"
| "cli_step T P tty_in tty_out (FiEvent e) F = handle_event T P e F"
| "cli_step T P tty_in tty_out (FiLagged n) F = (F, False)"
| "cli_step T P tty_in tty_out FiClosed F = (F, True)"
| "cli_step T P tty_in tty_out FiInterrupt F = (F, True)"

fun cli_loop :: "text_lib \<Rightarrow> 'c core_port \<Rightarrow> bool \<Rightarrow> bool \<Rightarrow> cli_input list \<Rightarrow> 'c front \<Rightarrow> 'c front \<times> bool" where
  "cli_loop T P tty_in tty_out [] F = (F, False)"
| "cli_loop T P tty_in tty_out (i # inputs) F =
     (case cli_step T P tty_in tty_out i F of
        (F1, True) \<Rightarrow> (F1, True)
      | (F1, False) \<Rightarrow> cli_loop T P tty_in tty_out inputs F1)"

text \<open>\<^verbatim>\<open>CliFrontend::run\<close>; the flag is whether it has returned.\<close>

definition cli_run :: "text_lib \<Rightarrow> 'c core_port \<Rightarrow> bool \<Rightarrow> bool \<Rightarrow> cli_input list \<Rightarrow> 'c front \<Rightarrow> 'c front \<times> bool" where
  "cli_run T P tty_in tty_out inputs F =
     (case cli_loop T P tty_in tty_out inputs
             (write_prompt tty_in tty_out (announce P False (fst (take_events F)))) of
        (F1, True) \<Rightarrow> (request_shutdown P F1, True)
      | (F1, False) \<Rightarrow> (F1, False))"

subsection \<open>Full screen front end\<close>

text \<open>\<open>tm_task\<close> is whether the thread that draws was started and not yet joined.\<close>

record TuiManager =
  tm_options :: UiOptions
  tm_started :: bool
  tm_info :: TuiInfo
  tm_active :: bool
  tm_task :: bool

definition tui_info_default :: TuiInfo where
  "tui_info_default = \<lparr>ti_app_name = [], ti_nickname = [], ti_status_message = [], ti_identity = [], ti_mode = [],
     ti_network = [], ti_database = [], ti_encryption = [], ti_friends = [], ti_peers = [], ti_pending_peers = 0,
     ti_active_chat = None, ti_messages_sent = 0, ti_messages_received = 0, ti_bytes_sent = 0, ti_bytes_received = 0\<rparr>"

definition tui_manager_new :: "rtext \<Rightarrow> UiOptions \<Rightarrow> TuiManager" where
  "tui_manager_new name o' = \<lparr>tm_options = o', tm_started = False,
     tm_info = tui_info_default\<lparr>ti_app_name := name\<rparr>, tm_active = False, tm_task = False\<rparr>"

definition spawn_interface :: "bool \<Rightarrow> TuiManager \<times> screen \<Rightarrow> TuiManager \<times> screen" where
  "spawn_interface stdout_is_terminal MS =
     (if \<not> stdout_is_terminal then MS
      else ((fst MS)\<lparr>tm_active := True, tm_task := True\<rparr>,
            (snd MS)\<lparr>sc_sink := sink_enable (sc_sink (snd MS))\<rparr>))"

text \<open>\<open>built\<close> is the feature \<^verbatim>\<open>terminal-ui\<close>; without it a full screen that was asked for is only warned about.\<close>

definition tui_manager_start :: "bool \<Rightarrow> bool \<Rightarrow> bool \<Rightarrow> TuiManager \<times> screen \<Rightarrow> TuiManager \<times> screen" where
  "tui_manager_start built stdout_is_terminal full_screen MS =
     (if tm_started (fst MS) then MS
      else
        (let MS1 = (if built \<and> full_screen then spawn_interface stdout_is_terminal MS else MS) in
         ((fst MS1)\<lparr>tm_started := True\<rparr>, snd MS1)))"

definition tui_manager_shutdown :: "bool \<Rightarrow> TuiManager \<times> screen \<Rightarrow> TuiManager \<times> screen" where
  "tui_manager_shutdown built MS =
     (if built
      then ((fst MS)\<lparr>tm_active := False, tm_task := False, tm_started := False\<rparr>,
            (snd MS)\<lparr>sc_sink := sink_disable (sc_sink (snd MS))\<rparr>)
      else ((fst MS)\<lparr>tm_started := False\<rparr>, snd MS))"

definition tui_is_active :: "bool \<Rightarrow> TuiManager \<Rightarrow> bool" where
  "tui_is_active built M \<longleftrightarrow> built \<and> tm_active M"

text \<open>The drawing thread did not start: the output goes back to the terminal.\<close>

definition interface_failed :: "TuiManager \<times> screen \<Rightarrow> TuiManager \<times> screen" where
  "interface_failed MS =
     ((fst MS)\<lparr>tm_active := False\<rparr>, (snd MS)\<lparr>sc_sink := sink_disable (sc_sink (snd MS))\<rparr>)"

record 'c tui_front =
  tf_front :: "'c front"
  tf_manager :: TuiManager
  tf_full_screen :: bool

definition tui_frontend_start ::
    "bool \<Rightarrow> bool \<Rightarrow> 'c \<Rightarrow> rtext \<Rightarrow> bool \<Rightarrow> UiOptions \<Rightarrow> screen \<Rightarrow> 'c tui_front" where
  "tui_frontend_start built stdout_is_terminal core name request_full_screen o' S =
     (case tui_manager_start built stdout_is_terminal request_full_screen (tui_manager_new name o', S) of
        (M, S1) \<Rightarrow>
          \<lparr>tf_front = \<lparr>fr_core = core, fr_presenter = presenter_new, fr_screen = S1\<rparr>, tf_manager = M,
           tf_full_screen = tui_is_active built M\<rparr>)"

definition tui_publish :: "'c tui_front \<Rightarrow> 'c tui_front" where
  "tui_publish U =
     U\<lparr>tf_manager := (tf_manager U)\<lparr>tm_info := presenter_tui_info (fr_presenter (tf_front U))\<rparr>\<rparr>"

datatype tui_wake = TwInput "TuiInput option" | TwEvent CoreEvent | TwLagged nat | TwClosed | TwInterrupt

fun tui_step :: "text_lib \<Rightarrow> 'c core_port \<Rightarrow> bool \<Rightarrow> bool \<Rightarrow> tui_wake \<Rightarrow> 'c tui_front \<Rightarrow> 'c tui_front \<times> bool" where
  "tui_step T P tty_in tty_out (TwInput (Some (TuLine line))) U =
     (case handle_line T P line (tf_front U) of
        (F1, True) \<Rightarrow> (U\<lparr>tf_front := F1\<rparr>, True)
      | (F1, False) \<Rightarrow>
          (let U1 = tui_publish (U\<lparr>tf_front := F1\<rparr>) in
           (if tf_full_screen U1 then U1
            else U1\<lparr>tf_front := write_prompt tty_in tty_out (tf_front U1)\<rparr>, False)))"
| "tui_step T P tty_in tty_out (TwInput (Some TuQuit)) U = (U, True)"
| "tui_step T P tty_in tty_out (TwInput None) U = (U, True)"
| "tui_step T P tty_in tty_out (TwEvent e) U =
     (case handle_event T P e (tf_front U) of (F1, stop) \<Rightarrow> (tui_publish (U\<lparr>tf_front := F1\<rparr>), stop))"
| "tui_step T P tty_in tty_out (TwLagged n) U = (U, False)"
| "tui_step T P tty_in tty_out TwClosed U = (U, True)"
| "tui_step T P tty_in tty_out TwInterrupt U = (U, True)"

fun tui_loop :: "text_lib \<Rightarrow> 'c core_port \<Rightarrow> bool \<Rightarrow> bool \<Rightarrow> tui_wake list \<Rightarrow> 'c tui_front \<Rightarrow> 'c tui_front \<times> bool" where
  "tui_loop T P tty_in tty_out [] U = (U, False)"
| "tui_loop T P tty_in tty_out (i # inputs) U =
     (case tui_step T P tty_in tty_out i U of
        (U1, True) \<Rightarrow> (U1, True)
      | (U1, False) \<Rightarrow> tui_loop T P tty_in tty_out inputs U1)"

definition tui_run ::
    "text_lib \<Rightarrow> 'c core_port \<Rightarrow> bool \<Rightarrow> bool \<Rightarrow> bool \<Rightarrow> tui_wake list \<Rightarrow> 'c tui_front \<Rightarrow> 'c tui_front \<times> bool" where
  "tui_run T P built tty_in tty_out inputs U =
     (let U1 = tui_publish (U\<lparr>tf_front := announce P (tf_full_screen U) (fst (take_events (tf_front U)))\<rparr>);
          U2 = (if tf_full_screen U1 then U1
                else U1\<lparr>tf_front := write_prompt tty_in tty_out (tf_front U1)\<rparr>) in
      case tui_loop T P tty_in tty_out inputs U2 of
        (U3, False) \<Rightarrow> (U3, False)
      | (U3, True) \<Rightarrow>
          (case tui_manager_shutdown built (tf_manager U3, fr_screen (tf_front U3)) of
             (M, S) \<Rightarrow>
               (U3\<lparr>tf_manager := M,
                   tf_front := request_shutdown P ((tf_front U3)\<lparr>fr_screen := S\<rparr>)\<rparr>, True)))"

subsection \<open>Entry point\<close>

definition ui_options :: "UiConfig \<Rightarrow> UiOptions" where
  "ui_options ui =
     \<lparr>uo_colors = ui_enable_colors ui,
      uo_theme = (if eq_ignore_ascii_case (trim (ui_theme ui)) (lit ''light'') then ThLight else ThDark),
      uo_mouse = ui_enable_mouse ui, uo_auto_scroll = ui_auto_scroll ui\<rparr>"

datatype interface = IfTui | IfCli | IfHeadless

definition choose_interface :: "AppMode \<Rightarrow> bool \<Rightarrow> interface" where
  "choose_interface mode headless =
     (if mode = ModeTui \<and> \<not> headless then IfTui
      else if mode = ModeCli \<and> \<not> headless then IfCli
      else IfHeadless)"

definition console_logging :: "bool \<Rightarrow> AppMode \<Rightarrow> bool \<Rightarrow> bool" where
  "console_logging built mode headless \<longleftrightarrow> \<not> (built \<and> mode = ModeTui \<and> \<not> headless)"

text \<open>The level of \<^verbatim>\<open>init_logging\<close> where the environment names none, and which layers it installs.\<close>

definition configured_level :: "LoggingConfig \<Rightarrow> LogLevel option \<Rightarrow> LogLevel" where
  "configured_level c cli_level =
     (case cli_level of
        Some level \<Rightarrow> level
      | None \<Rightarrow> unwrap_or LvInfo (log_level_parse (log_level c)))"

definition log_layers :: "LoggingConfig \<Rightarrow> bool \<Rightarrow> bool \<times> bool" where
  "log_layers c console = (log_enable_file c, console \<and> log_enable_console c)"

text \<open>What \<^verbatim>\<open>run_headless\<close> does about the endpoint: refuse, serve with these options, or only wait.\<close>

definition headless_endpoint :: "CliArgs \<Rightarrow> IpcConfig \<Rightarrow> rtext + (rtext \<times> ServerOptions) option" where
  "headless_endpoint args ipc =
     (case cl_ipc_listen args of
        None \<Rightarrow> Inr None
      | Some address \<Rightarrow>
          if cl_ipc_token args = None \<and> \<not> is_loopback_host address then
            Inl (lit ''--ipc-listen '' @ address @
              lit '' is not a loopback address and no --ipc-token was given: refusing to expose an unauthenticated core endpoint'')
          else Inr (Some (address,
            server_options_default
              \<lparr>so_token := cl_ipc_token args,
               so_requests_per_second := unwrap_or (ipc_requests_per_second ipc) (cl_ipc_rate args),
               so_request_burst := unwrap_or (ipc_request_burst ipc) (cl_ipc_burst args)\<rparr>)))"

end
