(* ===== verification/ReaderTasks.thy ===== *)
theory ReaderTasks
  imports Framing FrontEnds
begin

section \<open>The tasks that read and write whole messages\<close>

text \<open>
  The reader and the writer task of a connection (\<^verbatim>\<open>ipc/client.rs\<close>, \<^verbatim>\<open>ipc/server.rs\<close>) over its bytes,
  and the thread that reads the keyboard (\<^verbatim>\<open>meta-text-cli/src/ui.rs\<close>). Each hands what it read to a
  queue; the number it takes is how much that queue accepts before its receiver is gone.
\<close>

fun message_reader :: "(bytes \<Rightarrow> rtext + 'm) \<Rightarrow> nat \<Rightarrow> source \<Rightarrow> (io_error + 'm option) list" where
  "message_reader from_json 0 s = []"
| "message_reader from_json (Suc n) s =
     (case read_message from_json s of
        (Inr (Some m), s1) \<Rightarrow> Inr (Some m) # message_reader from_json n s1
      | (r, s1) \<Rightarrow> [r])"

text \<open>The writer stops at the first message it cannot write; the flag is whether it still runs.\<close>

fun message_writer :: "('m \<Rightarrow> rtext + bytes) \<Rightarrow> 'm list \<Rightarrow> sink \<Rightarrow> bool \<times> sink" where
  "message_writer to_json [] k = (True, k)"
| "message_writer to_json (m # ms) k =
     (case write_message to_json m k of
        (Inr u, k1) \<Rightarrow> message_writer to_json ms k1
      | (Inl e, k1) \<Rightarrow> (False, k1))"

text \<open>A read of the keyboard gives a line with its end, nothing at the end of input, or an error.\<close>

fun stdin_reader :: "nat \<Rightarrow> (io_error + rtext) list \<Rightarrow> rtext list" where
  "stdin_reader 0 reads = []"
| "stdin_reader (Suc n) [] = []"
| "stdin_reader (Suc n) (Inl e # reads) = []"
| "stdin_reader (Suc n) (Inr line # reads) = (if line = [] then [] else strip_eol line # stdin_reader n reads)"

subsection \<open>The keyboard\<close>

lemma strip_eol_line: "\<forall>c \<in> set s. c \<noteq> 10 \<and> c \<noteq> 13 \<Longrightarrow> strip_eol (s @ [10]) = s \<and> strip_eol (s @ [13, 10]) = s"
  by (cases "rev s") (auto simp: strip_eol_def rev_swap)

lemma stdin_reader_lines:
  assumes "\<forall>l \<in> set ls. \<forall>c \<in> set l. c \<noteq> 10 \<and> c \<noteq> 13" "length ls < n"
  shows "stdin_reader n (map (\<lambda>l. Inr (l @ [10])) ls @ Inr [] # rest) = ls"
  using assms
proof (induction ls arbitrary: n)
  case Nil
  then show ?case by (cases n) simp_all
next
  case (Cons l ls)
  then obtain m where "n = Suc m" by (cases n) simp_all
  then show ?case using Cons by (simp add: strip_eol_line)
qed

subsection \<open>What is written is read\<close>

text \<open>What a writer leaves on the wire: whole frames, then possibly the beginning of one.\<close>

definition cut_frame :: "bytes \<Rightarrow> bool" where
  "cut_frame w \<longleftrightarrow> (\<exists>p z. ipc_payload_ok p \<and> ipc_frame p = w @ z \<and> z \<noteq> [])"

lemma write_frame_cut:
  assumes "ipc_write_frame p k = (Inl e, k')"
  shows "\<exists>w. snk_bytes k' = snk_bytes k @ w \<and> (w = [] \<or> cut_frame w)"
proof (cases "ipc_payload_ok p")
  case False
  then show ?thesis using ipc_write_frame_refused [OF False, of k] assms by auto
next
  case ok: True
  let ?h = "to_be_bytes32 (word_of_nat (length p))"
  have cut: "cut_frame w" if "ipc_frame p = w @ z" "z \<noteq> []" for w z using that ok by (auto simp: cut_frame_def)
  obtain r1 k1 where w1: "write_all ?h k = (r1, k1)" by (cases "write_all ?h k")
  have eq: "(case r1 of Inl e \<Rightarrow> (Inl e, k1) | Inr u \<Rightarrow> write_all p k1) = (Inl e, k')"
    using assms ok w1 by (simp add: ipc_write_frame_def ipc_payload_ok_def)
  show ?thesis
  proof (cases r1)
    case (Inl e1)
    then have h: "write_all ?h k = (Inl e1, k1)" using w1 by simp
    obtain w z where "?h = w @ z" "z \<noteq> []" "snk_bytes k1 = snk_bytes k @ w" using write_all_cut [OF h] by blast
    then show ?thesis using cut [of w "z @ p"] eq Inl by (auto simp: ipc_frame_def)
  next
    case (Inr u)
    have all: "write_all p k1 = (Inl e, k')" using eq Inr by simp
    obtain w z where wz: "p = w @ z" "z \<noteq> []" "snk_bytes k' = snk_bytes k1 @ w" using write_all_cut [OF all] by blast
    have "snk_bytes k1 = snk_bytes k @ ?h" using write_all_prefix [OF w1] Inr by auto
    moreover have "ipc_frame p = (?h @ w) @ z" using wz(1) unfolding ipc_frame_def by simp
    ultimately show ?thesis using cut wz(2,3) by auto
  qed
qed

lemma message_writer_wire:
  assumes "message_writer to_json ms k = (running, k')"
  shows "\<exists>ps w. list_all ipc_payload_ok ps \<and> length ps \<le> length ms \<and>
    map to_json (take (length ps) ms) = map Inr ps \<and>
    snk_bytes k' = snk_bytes k @ concat (map ipc_frame ps) @ w \<and> (w = [] \<or> cut_frame w) \<and>
    (if running then length ps = length ms \<and> w = [] else length ps < length ms)"
  using assms
proof (induction ms arbitrary: k)
  case Nil
  then show ?case by simp
next
  case (Cons m ms)
  obtain r k1 where wm: "write_message to_json m k = (r, k1)" by fastforce
  show ?case
  proof (cases r)
    case (Inl e)
    then have last: "running = False" "k' = k1" using Cons.prems wm by simp_all
    have "\<exists>w. snk_bytes k1 = snk_bytes k @ w \<and> (w = [] \<or> cut_frame w)"
      using wm Inl write_frame_cut by (auto simp: write_message_def split: sum.splits)
    then obtain w where "snk_bytes k1 = snk_bytes k @ w" "w = [] \<or> cut_frame w" by blast
    then show ?thesis using last by (intro exI [of _ "[]"] exI [of _ w]) simp
  next
    case (Inr u)
    then obtain p where p: "to_json m = Inr p" "ipc_write_frame p k = (Inr (), k1)"
      using wm by (auto simp: write_message_def split: sum.splits)
    then have ok: "ipc_payload_ok p" "snk_bytes k1 = snk_bytes k @ ipc_frame p"
      using ipc_write_frame_wire [OF p(2)] by auto
    have "message_writer to_json ms k1 = (running, k')" using Cons.prems wm Inr by simp
    then obtain ps w where ps: "list_all ipc_payload_ok ps" "length ps \<le> length ms"
        "map to_json (take (length ps) ms) = map Inr ps"
        "snk_bytes k' = snk_bytes k1 @ concat (map ipc_frame ps) @ w" "w = [] \<or> cut_frame w"
        "if running then length ps = length ms \<and> w = [] else length ps < length ms"
      using Cons.IH by blast
    have "list_all ipc_payload_ok (p # ps) \<and> length (p # ps) \<le> length (m # ms) \<and>
        map to_json (take (length (p # ps)) (m # ms)) = map Inr (p # ps) \<and>
        snk_bytes k' = snk_bytes k @ concat (map ipc_frame (p # ps)) @ w \<and> (w = [] \<or> cut_frame w) \<and>
        (if running then length (p # ps) = length (m # ms) \<and> w = [] else length (p # ps) < length (m # ms))"
      using ps ok p(1) by (cases running) simp_all
    then show ?thesis by blast
  qed
qed

lemma map_json_inverse:
  assumes "map to_json ms = map Inr ps" "\<forall>m p. to_json m = Inr p \<longrightarrow> from_json p = Inr m"
  shows "map from_json ps = map Inr ms"
  using assms(1)
proof (induction ms arbitrary: ps)
  case (Cons m ms)
  then show ?case using assms(2) by (cases ps) auto
qed simp

lemma message_reader_frames:
  assumes "list_all ipc_payload_ok ps" "map from_json ps = map Inr ms" "length ps \<le> n"
  shows "message_reader from_json n \<lparr>src_bytes = concat (map ipc_frame ps) @ rest, src_tail = t\<rparr> =
    map (\<lambda>m. Inr (Some m)) ms @ message_reader from_json (n - length ps) \<lparr>src_bytes = rest, src_tail = t\<rparr>"
  using assms
proof (induction ps arbitrary: ms n)
  case Nil
  then show ?case by simp
next
  case (Cons p ps)
  then obtain m ms' k where m: "ms = m # ms'" "from_json p = Inr m" "map from_json ps = map Inr ms'" "n = Suc k"
    by (cases ms; cases n) auto
  then show ?case
    using Cons by (simp add: read_message_def ipc_read_frame_enc)
qed

lemma message_reader_cut:
  assumes "cut_frame w" "w \<noteq> []"
  shows "message_reader from_json (Suc n) \<lparr>src_bytes = w, src_tail = None\<rparr> = [Inl early_eof]"
proof -
  obtain p z where "ipc_payload_ok p" "ipc_frame p = w @ z" "z \<noteq> []" using assms(1) by (auto simp: cut_frame_def)
  then have "fst (ipc_read_frame \<lparr>src_bytes = w, src_tail = None\<rparr>) = Inl early_eof"
    using ipc_read_frame_cut [of p w z None] assms(2) by (simp add: unwrap_or_def)
  then show ?thesis
    by (cases "ipc_read_frame \<lparr>src_bytes = w, src_tail = None\<rparr>") (simp add: read_message_def)
qed

lemma message_reader_end:
  "message_reader from_json (Suc n) \<lparr>src_bytes = [], src_tail = None\<rparr> = [Inr None]"
  by (simp add: read_message_def ipc_read_frame_def read_one_def)

end
