(* ===== verification/WireGuarantees.thy ===== *)
theory WireGuarantees
  imports Sockets Samples Framing ReaderTasks
begin

section \<open>What the two wire formats guarantee\<close>

text \<open>C8: While frames are queued on a connection and its write loop writes them, in any order and
  however long the connection lasts, the other end reads the frames that were accepted into the
  queue, whole and in order, up to some point. While the connection stands, the rest is still
  queued; once a write failed, the frame it was at is reported as an error and not as a frame.\<close>

theorem accepted_frames_arrive:
  assumes "link_run evs (link_new k) = (accepted, L)" "snk_bytes k = []"
    "\<forall>f. LinkQueue f \<in> set evs \<longrightarrow> length (snd f) \<le> 65536" "length evs < fuel"
  shows "\<exists>n. read_many peer_read_frame fuel \<lparr>src_bytes = snk_bytes (lk_sink L), src_tail = None\<rparr> =
      (take n accepted,
       if snk_bytes (lk_sink L) = concat (map (\<lambda>f. encode_frame (fst f) (snd f)) (take n accepted)) then StreamClosed
       else StreamFailed early_eof) \<and>
    (ch_open (lk_channel L) \<longrightarrow>
       ch_items (lk_channel L) = map (\<lambda>f. encode_frame (fst f) (snd f)) (drop n accepted) \<and>
       snk_bytes (lk_sink L) = concat (map (\<lambda>f. encode_frame (fst f) (snd f)) (take n accepted)))"
proof -
  have acc: "subseq accepted (queued_frames evs)" by (rule link_run_accepted [OF assms(1)])
  have "list_all peer_frame_ok accepted"
    using assms(3) subseq_set [OF acc] unfolding list_all_iff peer_frame_ok_def queued_frames_set by fastforce
  moreover have "length accepted < fuel"
    using assms(4) list_emb_length [OF acc] length_queued_frames [of evs] by linarith
  moreover have "link_ok accepted L"
    using link_run_ok [OF link_new_ok [OF assms(2)] assms(1)] by simp
  ultimately show ?thesis
    using link_read [of accepted L fuel] by (simp add: peer_frame_def [abs_def])
qed

theorem accepted_frames_arrive_witness:
  "\<exists>n. read_many peer_read_frame 9 \<lparr>src_bytes = [1, 0, 0, 0, 1, 110, 8, 0], src_tail = None\<rparr> =
     (take n [(1, [110]), (8, [])],
      if [1, 0, 0, 0, 1, 110, 8, 0] = concat (map (\<lambda>f. encode_frame (fst f) (snd f)) (take n [(1, [110]), (8, [])]))
      then StreamClosed else StreamFailed early_eof)"
proof -
  let ?evs = "[LinkQueue (1, [110]), LinkQueue (8, []), LinkWrite, LinkWrite]"
  let ?k = "\<lparr>snk_bytes = [], snk_room = Some 8\<rparr>"
  have b: "to_be_bytes32 0 = [0, 0, 0, 0]" "to_be_bytes32 1 = [0, 0, 0, 1]" by code_simp+
  show ?thesis
    using accepted_frames_arrive [of ?evs ?k _ _ 9]
    by (simp add: link_new_def link_step_def queue_frame_def try_send_def channel_new_def PEER_QUEUE_CAPACITY_def
        peer_frame_def encode_frame_small b write_all_def)
qed

text \<open>Peer frames are self-delimiting: whatever frames within the size limit are written, one
  after the other, reading the stream returns exactly those frames in order; if the stream is cut
  inside a further frame, the frames before it are still delivered and the cut is reported as an
  error, never as a frame.\<close>

theorem peer_stream_roundtrip:
  assumes "\<forall>f \<in> set (g # fs). length (snd f) \<le> 65536" "length fs < n"
    "encode_frame (fst g) (snd g) = p @ q" "p \<noteq> []" "q \<noteq> []"
  defines "wire \<equiv> concat (map (\<lambda>f. encode_frame (fst f) (snd f)) fs)"
  shows "read_many peer_read_frame n \<lparr>src_bytes = wire, src_tail = None\<rparr> = (fs, StreamClosed) \<and>
    read_many peer_read_frame n \<lparr>src_bytes = wire @ p, src_tail = None\<rparr> = (fs, StreamFailed early_eof)"
proof -
  have ok: "list_all peer_frame_ok fs" "peer_frame_ok g" using assms(1) by (simp_all add: list_all_iff peer_frame_ok_def)
  have wire: "wire = concat (map peer_frame fs)" by (simp add: wire_def peer_frame_def [abs_def])
  have "peer_frame g = p @ q" using assms(3) by (simp add: peer_frame_def)
  then show ?thesis
    using peer.read_many_all [OF ok(1) assms(2)] peer.read_many_cut [OF ok _ assms(4,5,2), of None]
    by (simp add: wire unwrap_or_def)
qed

theorem peer_stream_roundtrip_witness:
  "read_many peer_read_frame 3
     \<lparr>src_bytes = encode_frame 1 [110] @ encode_frame 8 [] @ [8], src_tail = None\<rparr>
     = ([(1, [110]), (8, [])], StreamFailed early_eof)"
proof -
  have ne: "to_be_bytes32 0 \<noteq> []" using length_to_be_bytes(1) [of 0] by force
  have cut: "encode_frame 8 [] = [8] @ to_be_bytes32 0" by (simp add: encode_frame_small)
  show ?thesis
    using peer_stream_roundtrip [of "(8, [])" "[(1, [110]), (8, [])]" 3 "[8]" "to_be_bytes32 0"] ne
    by (simp add: cut)
qed

lemma ipc_writes:
  "list_all ipc_payload_ok ps \<Longrightarrow> snk_room k = None \<Longrightarrow>
   snk_bytes (foldl (\<lambda>k p. snd (ipc_write_frame p k)) k ps) = snk_bytes k @ concat (map ipc_frame ps)"
  by (induction ps arbitrary: k) (simp_all add: ipc_write_frame_ok)

text \<open>Front-end frames of one byte to one mebibyte come back exactly and in order from the bytes
  that writing them one after the other produces.\<close>

theorem ipc_stream_roundtrip:
  assumes "\<forall>p \<in> set ps. p \<noteq> [] \<and> length p \<le> 1048576" "length ps < n"
  shows "read_many ipc_read_frame n
      \<lparr>src_bytes = snk_bytes (foldl (\<lambda>k p. snd (ipc_write_frame p k)) \<lparr>snk_bytes = [], snk_room = None\<rparr> ps),
       src_tail = None\<rparr> = (ps, StreamClosed)"
proof -
  have ok: "list_all ipc_payload_ok ps"
    using assms(1) by (simp add: list_all_iff ipc_payload_ok_def MAX_FRAME_LEN_def)
  then show ?thesis by (simp add: ipc_writes ipc.read_many_all [OF ok assms(2)])
qed

theorem ipc_stream_roundtrip_witness:
  "read_many ipc_read_frame 3
     \<lparr>src_bytes = snk_bytes (foldl (\<lambda>k p. snd (ipc_write_frame p k)) \<lparr>snk_bytes = [], snk_room = None\<rparr> [[123], [125, 125]]),
      src_tail = None\<rparr> = ([[123], [125, 125]], StreamClosed)"
  by (rule ipc_stream_roundtrip) simp_all

text \<open>C9: Between the writer task of one end and the reader task of the other, over a connection that may
  fail at any byte: the reader hands on the messages written, whole and in order, up to some point,
  then exactly one end of the stream; all of them and a clean end when the writer met no failure, a
  truncated frame never as a message.\<close>

theorem messages_arrive_in_order:
  assumes "message_writer (to_json J) ms k = (running, k')" "snk_bytes k = []" "length ms < n"
    "\<forall>m p. to_json J m = Inr p \<longrightarrow> from_json J p = Inr m"
  shows "\<exists>j stop. message_reader (from_json J) n \<lparr>src_bytes = snk_bytes k', src_tail = None\<rparr> =
      map (\<lambda>m. Inr (Some m)) (take j ms) @ [stop] \<and> (stop = Inr None \<or> stop = Inl early_eof) \<and>
    (if running then j = length ms \<and> stop = Inr None else j < length ms)"
proof -
  obtain ps w where ps: "list_all ipc_payload_ok ps" "length ps \<le> length ms"
      "map (to_json J) (take (length ps) ms) = map Inr ps" "snk_bytes k' = concat (map ipc_frame ps) @ w" "w = [] \<or> cut_frame w"
      "if running then length ps = length ms \<and> w = [] else length ps < length ms"
    using message_writer_wire [OF assms(1)] assms(2) by auto
  have json: "map (from_json J) ps = map Inr (take (length ps) ms)"
    by (rule map_json_inverse [OF ps(3) assms(4)])
  obtain i where i: "n - length ps = Suc i" using ps(2) assms(3) by (metis Suc_diff_Suc le_less_trans)
  let ?stop = "if w = [] then Inr None else Inl early_eof"
  have "message_reader (from_json J) (Suc i) \<lparr>src_bytes = w, src_tail = None\<rparr> = [?stop]"
    using message_reader_end message_reader_cut ps(5) by (cases "w = []") auto
  then have "message_reader (from_json J) n \<lparr>src_bytes = snk_bytes k', src_tail = None\<rparr> =
      map (\<lambda>m. Inr (Some m)) (take (length ps) ms) @ [?stop]"
    using message_reader_frames [OF ps(1) json, of n w None] ps(2,4) assms(3) i by simp
  then show ?thesis using ps(6) by (intro exI [of _ "length ps"] exI [of _ ?stop]) (auto split: if_splits)
qed

definition plain_json :: "bytes json_codec" where
  "plain_json = \<lparr>to_json = (\<lambda>m. Inr m), from_json = (\<lambda>b. Inr b)\<rparr>"

theorem messages_arrive_in_order_witness:
  "\<exists>j stop. message_reader (from_json plain_json) 3 \<lparr>src_bytes = [0, 0, 0, 1, 123, 0], src_tail = None\<rparr> =
     map (\<lambda>m. Inr (Some m)) (take j [[123], [125]]) @ [stop] \<and> j < 2"
proof -
  have h: "to_be_bytes32 1 = [0, 0, 0, 1]" by code_simp
  have "message_writer (to_json plain_json) [[123], [125]] \<lparr>snk_bytes = [], snk_room = Some 6\<rparr> =
      (False, \<lparr>snk_bytes = [0, 0, 0, 1, 123, 0], snk_room = Some 0\<rparr>)"
    by (simp add: write_message_def ipc_write_frame_def MAX_FRAME_LEN_def h write_all_def plain_json_def)
  from messages_arrive_in_order [OF this, of 3] show ?thesis by (auto simp: plain_json_def)
qed

text \<open>No front-end frame outside the limits ever crosses the wire: a payload that is empty or
  longer than one mebibyte is refused before a byte is written, a header that declares such a
  length is refused before a payload byte is read, and every payload a read returns is within the
  limits.\<close>

theorem ipc_frame_limits:
  "(p = [] \<or> 1048576 < length p \<longrightarrow> (\<exists>e. ipc_write_frame p k = (Inl e, k))) \<and>
   (1048576 < d \<longrightarrow>
     (\<exists>e. ipc_read_frame \<lparr>src_bytes = to_be_bytes32 d @ rest, src_tail = t\<rparr> = (Inl e, \<lparr>src_bytes = rest, src_tail = t\<rparr>))) \<and>
   (ipc_read_frame s = (Inr (Some payload), s') \<longrightarrow> payload \<noteq> [] \<and> length payload \<le> 1048576)"
proof -
  have m: "unat MAX_FRAME_LEN = 1048576" "MAX_FRAME_LEN = 1048576" by (simp_all add: MAX_FRAME_LEN_def)
  show ?thesis
    using ipc_write_frame_refused [of p k] ipc_read_frame_oversized [of d rest t] ipc_read_frame_bounded [of s payload s']
    by (auto simp: ipc_payload_ok_def m)
qed

theorem ipc_frame_limits_witness:
  "(\<exists>e. ipc_write_frame [] \<lparr>snk_bytes = [], snk_room = None\<rparr> = (Inl e, \<lparr>snk_bytes = [], snk_room = None\<rparr>)) \<and>
   (\<exists>e. ipc_read_frame \<lparr>src_bytes = to_be_bytes32 1048577 @ [1], src_tail = None\<rparr> =
      (Inl e, \<lparr>src_bytes = [1], src_tail = None\<rparr>))"
  using ipc_frame_limits [of "[]" "\<lparr>snk_bytes = [], snk_room = None\<rparr>" 1048577 "[1]" None] by simp

text \<open>A message of the peer network carries its id and its attributes faithfully: the frame
  written for it is read back with the frame kind that stands for those attributes (an action is
  always text), the same id and the same ciphertext, provided id and ciphertext fit the 64 KiB
  frame limit.\<close>

theorem message_frame_roundtrip:
  assumes "8 + length c \<le> 65536"
  shows "\<exists>kind payload.
    peer_read_frame \<lparr>src_bytes = encode_message_frame i c k t @ rest, src_tail = e\<rparr> =
      (Inr (Some (kind, payload)), \<lparr>src_bytes = rest, src_tail = e\<rparr>) \<and>
    message_attributes_of kind = Some (k, if k = KAction then CText else t) \<and>
    decode_message_id payload = Some i \<and> drop MESSAGE_ID_LEN payload = c"
  using message_frame_read [of c i k t rest e] assms message_attributes_frame_kind [of k t]
  by (simp add: MESSAGE_ID_LEN_def [symmetric] decode_message_id_payload drop_message_payload)

theorem message_frame_roundtrip_witness:
  "\<exists>kind payload.
    peer_read_frame \<lparr>src_bytes = encode_message_frame 7 [1, 2, 3] KText CBinary @ [], src_tail = None\<rparr> =
      (Inr (Some (kind, payload)), \<lparr>src_bytes = [], src_tail = None\<rparr>) \<and>
    message_attributes_of kind = Some (KText, CBinary) \<and>
    decode_message_id payload = Some 7 \<and> drop MESSAGE_ID_LEN payload = [1, 2, 3]"
  using message_frame_roundtrip [of "[1, 2, 3]" 7 KText CBinary "[]" None] by simp

text \<open>C23: A message whose text the core accepts is not always one its peers can read: there is a
  text within the largest configurable message length whose encrypted frame exceeds the frame
  limit, so the reader of every peer fails on it and drops the connection.\<close>

theorem accepted_message_unreadable:
  "\<exists>body. validate_message body MAX_MESSAGE_LENGTH = Inr body \<and>
     (\<forall>L nonce m c i rest.
        aead_laws L \<longrightarrow> length nonce = NONCE_LENGTH \<longrightarrow> cm_enabled m \<longrightarrow>
        encrypt L nonce m (utf8_bytes body) = Inr c \<longrightarrow>
        (\<exists>e. fst (peer_read_frame \<lparr>src_bytes = encode_message_frame i c KText CText @ rest, src_tail = None\<rparr>) = Inl e))"
proof -
  let ?t = "replicate MAX_MESSAGE_LENGTH (128512 :: rchar)"
  have "set ?t \<subseteq> {128512}" by auto
  then have "\<not> list_all is_whitespace ?t" "\<forall>c \<in> set ?t. \<not> is_control c"
    by (auto simp: list_all_iff is_whitespace_def is_control_def MAX_MESSAGE_LENGTH_def)
  then have "validate_message ?t MAX_MESSAGE_LENGTH = Inr ?t"
    unfolding validate_message_Inr trim_eq_Nil by simp
  moreover have len: "utf8_len ?t = 131072"
    by (simp add: utf8_len_def map_replicate sum_list_replicate utf8_width_def MAX_MESSAGE_LENGTH_def)
  moreover have "\<exists>e. fst (peer_read_frame \<lparr>src_bytes = encode_message_frame i c KText CText @ rest, src_tail = None\<rparr>) = Inl e"
    if "aead_laws L" "length nonce = NONCE_LENGTH" "cm_enabled m" "encrypt L nonce m (utf8_bytes ?t) = Inr c"
    for L nonce m c i rest
  proof (rule message_frame_too_long)
    have "length c = NONCE_LENGTH + utf8_len ?t + 16"
      using encrypt_with_length [OF that(1-3)] that(4) by (simp add: encrypt_def)
    then show "65536 < MESSAGE_ID_LEN + length c" "MESSAGE_ID_LEN + length c < 2 ^ 32"
      by (simp_all only: len) (simp_all add: MESSAGE_ID_LEN_def NONCE_LENGTH_def)
  qed
  ultimately show ?thesis by blast
qed

theorem accepted_message_unreadable_witness:
  "\<exists>body. validate_message body MAX_MESSAGE_LENGTH = Inr body \<and>
     (\<forall>i c. encrypt sample_crypto (replicate 12 0) sample_manager (utf8_bytes body) = Inr c \<longrightarrow>
        (\<exists>e. fst (peer_read_frame \<lparr>src_bytes = encode_message_frame i c KText CText @ [], src_tail = None\<rparr>) = Inl e)) \<and>
     (\<exists>c. encrypt sample_crypto (replicate 12 0) sample_manager (utf8_bytes body) = Inr c)"
proof -
  obtain body where t: "validate_message body MAX_MESSAGE_LENGTH = Inr body"
    "\<forall>L nonce m c i rest.
        aead_laws L \<longrightarrow> length nonce = NONCE_LENGTH \<longrightarrow> cm_enabled m \<longrightarrow>
        encrypt L nonce m (utf8_bytes body) = Inr c \<longrightarrow>
        (\<exists>e. fst (peer_read_frame \<lparr>src_bytes = encode_message_frame i c KText CText @ rest, src_tail = None\<rparr>) = Inl e)"
    using accepted_message_unreadable by blast
  have "\<exists>c. encrypt sample_crypto (replicate 12 0) sample_manager (utf8_bytes body) = Inr c"
    by (simp add: encrypt_def encrypt_with_def sample_manager_def sample_crypto_def checked_key_def KEY_LENGTH_def)
  moreover have "length (replicate 12 (0 :: u8)) = NONCE_LENGTH" "cm_enabled sample_manager"
    by (simp_all add: NONCE_LENGTH_def sample_manager_def)
  ultimately show ?thesis using t sample_aead_laws by blast
qed

end
