(* ===== verification/Delivery.thy ===== *)
theory Delivery
  imports NetworkFacts
begin

section \<open>Two nodes and the frames between them\<close>

text \<open>
  The frames one node queues, read and dispatched by the node at the other end: the handshake that
  makes the two entries mirror each other, a message under the key of the pair, and its
  acknowledgement.
\<close>

text \<open>The bytes of a list of queued frames, read off the stream and dispatched one by one.\<close>

definition deliver_frame :: "pin_env \<Rightarrow> step_ctx \<Rightarrow> socket_addr \<Rightarrow> bytes \<Rightarrow> Network \<Rightarrow> Network" where
  "deliver_frame E cx remote f N =
     (case fst (peer_read_frame \<lparr>src_bytes = f, src_tail = None\<rparr>) of
        Inr (Some (kind, payload)) \<Rightarrow> dispatch E cx kind payload remote N
      | Inr None \<Rightarrow> N
      | Inl e \<Rightarrow> N)"

definition deliver :: "pin_env \<Rightarrow> step_ctx \<Rightarrow> socket_addr \<Rightarrow> bytes list \<Rightarrow> Network \<Rightarrow> Network" where
  "deliver E cx remote fs N = foldl (\<lambda>N f. deliver_frame E cx remote f N) N fs"

lemma deliver_encoded:
  "length payload \<le> 65536 \<Longrightarrow>
   deliver_frame E cx remote (encode_frame kind payload) N = dispatch E cx kind payload remote N"
  using peer_read_encode [of "(kind, payload)" "[]" None]
  by (simp add: deliver_frame_def peer_frame_def peer_frame_ok_def)

lemma deliver_message:
  "8 + length c \<le> 65536 \<Longrightarrow>
   deliver_frame E cx remote (encode_message_frame i c k t) N =
   dispatch_message E cx k (if k = KAction then CText else t) remote (message_payload i c) N"
  using message_frame_read [of c i k t "[]" None]
  by (simp add: deliver_frame_def MESSAGE_ID_LEN_def dispatch_message_frame)

subsection \<open>The handshake\<close>

definition announcement :: "pin_env \<Rightarrow> rtext \<Rightarrow> NetworkIdentity option \<Rightarrow> EphemeralKey \<Rightarrow> bytes list" where
  "announcement E nick own eph =
     [encode_frame FRAME_HELLO (utf8_bytes nick),
      encode_frame FRAME_IDENTITY (utf8_bytes (case own of None \<Rightarrow> [] | Some i \<Rightarrow> public_hex (pe_hex E) i)),
      encode_frame FRAME_EPHEMERAL (utf8_bytes (public_hex (pe_hex E) eph))]"

lemma queue_to_room:
  assumes "can_queue a M" "length (queued_for a M) < 5"
  shows "queued_for a (snd (queue_to a f M)) = queued_for a M @ [f] \<and> can_queue a (snd (queue_to a f M))"
proof -
  obtain p where p: "map_of (nw_peers M) a = Some p" "ch_open (peer_sender p)"
    using assms(1) by (auto simp: can_queue_def split: option.splits)
  have "map_of (nw_peers (snd (queue_to a f M))) a =
      Some (p\<lparr>peer_sender := (peer_sender p)\<lparr>ch_items := ch_items (peer_sender p) @ [f]\<rparr>\<rparr>)"
    using assms p by (simp add: queue_to_peer can_queue_def queue_frame_def try_send_def)
  then show ?thesis
    using assms p by (simp add: can_queue_def queued_for_def PEER_QUEUE_CAPACITY_def)
qed

text \<open>A new connection starts with the three announcements, in this order.\<close>

lemma register_announces:
  "queued_for a (register E secret a N) =
   announcement E (nw_nickname N) (nw_identity N) (ephemeral_from_secret (pe_crypto E) secret)"
proof -
  let ?p = "peer_new (pe_crypto E) secret"
  let ?N = "N\<lparr>nw_peers := AList.update a ?p (nw_peers N)\<rparr>"
  have p: "map_of (nw_peers ?N) a = Some ?p" by (simp add: update_conv')
  have q0: "queued_for a ?N = []" "can_queue a ?N"
    unfolding queued_for_def can_queue_def p
    by (simp_all add: peer_new_def channel_new_def PEER_QUEUE_CAPACITY_def)
  note step = queue_to_room [of a]
  define N1 where "N1 = snd (queue_to a (hello_frame ?N) ?N)"
  define N2 where "N2 = snd (queue_to a (identity_frame E N1) N1)"
  have 1: "queued_for a N1 = [hello_frame ?N]" "can_queue a N1" using step [of ?N "hello_frame ?N"] q0 by (simp_all add: N1_def)
  have 2: "queued_for a N2 = [hello_frame ?N, identity_frame E N1]" "can_queue a N2"
    using step [of N1 "identity_frame E N1"] 1 by (simp_all add: N2_def)
  have eph: "ephemeral_frame E a N2 =
      Some (encode_frame FRAME_EPHEMERAL (utf8_bytes (public_hex (pe_hex E) (ephemeral_from_secret (pe_crypto E) secret))))"
  proof -
    have "map_option peer_ephemeral (map_of (nw_peers N2) a) = Some (peer_ephemeral ?p)"
      by (simp only: N2_def N1_def queue_to_peer p option.map if_True refl) simp
    then show ?thesis
      by (auto simp: ephemeral_frame_def peer_new_def)
  qed
  have emit: "queued_for a (emit e M) = queued_for a M" for e M by (simp add: queued_for_def emit_def)
  have id: "nw_identity N1 = nw_identity N" "hello_frame ?N = encode_frame FRAME_HELLO (utf8_bytes (nw_nickname N))"
    by (simp_all add: N1_def queue_to_rest hello_frame_def)
  have "queued_for a (register E secret a N) =
      queued_for a (snd (queue_to a (the (ephemeral_frame E a N2)) N2))"
    by (simp add: register_def announce_def Let_def emit N1_def [symmetric] N2_def [symmetric] eph)
  also have "\<dots> = [hello_frame ?N, identity_frame E N1, the (ephemeral_frame E a N2)]"
    using step [of N2 "the (ephemeral_frame E a N2)"] 2 by simp
  finally show ?thesis by (simp add: announcement_def eph id identity_frame_def)
qed

lemma public_hex_read:
  assumes "env_ok E" "length (ni_public X) = 32"
  shows "from_utf8_lossy (utf8_bytes (public_hex (pe_hex E) X)) = public_hex (pe_hex E) X"
    and "trim (public_hex (pe_hex E) X) = public_hex (pe_hex E) X" "public_hex (pe_hex E) X \<noteq> []"
    and "normalize_key E (public_hex (pe_hex E) X) = Some (public_hex (pe_hex E) X)"
    and "length (utf8_bytes (public_hex (pe_hex E) X)) = 64"
proof -
  have H: "hex_laws (pe_hex E)" using assms(1) by (simp add: env_ok_def)
  have d: "list_all is_ascii_hexdigit (public_hex (pe_hex E) X)"
    using hex_laws_digits(2) [OF H] by (simp add: public_hex_def)
  show "from_utf8_lossy (utf8_bytes (public_hex (pe_hex E) X)) = public_hex (pe_hex E) X"
    by (rule from_utf8_lossy_utf8_bytes [OF valid_text_hexdigits [OF d]])
  show "trim (public_hex (pe_hex E) X) = public_hex (pe_hex E) X" by (rule trim_hexdigits [OF d])
  have l: "length (public_hex (pe_hex E) X) = 64"
    using hex_laws_length(2) [OF H] assms(2) by (simp add: public_hex_def)
  then show "public_hex (pe_hex E) X \<noteq> []" by auto
  show "length (utf8_bytes (public_hex (pe_hex E) X)) = 64" using utf8_len_hexdigits [OF d] l by simp
  show "normalize_key E (public_hex (pe_hex E) X) = Some (public_hex (pe_hex E) X)"
    using decode_key_encode [OF H, of "ni_public X" PUBLIC_KEY_LENGTH] assms(2)
    by (simp add: normalize_key_def public_key_from_hex_def public_hex_def PUBLIC_KEY_LENGTH_def)
qed

lemma utf8_len_bound: "utf8_len s \<le> 4 * length s"
  by (induction s) (auto simp: utf8_len_def utf8_width_def)

text \<open>
  Dispatching the three announcements leaves an entry that mirrors the announcing node, under the
  nickname it announced and with this end's own ephemeral key unchanged.
\<close>

lemma deliver_announcement:
  assumes "env_ok E" "valid_text nick" "peer_label nick = Some label" "length nick \<le> 16384"
    "length (ni_public X) = 32" "length (ni_public XE) = 32"
    "map_of (nw_peers N) a = Some p" "peer_remote_ephemeral p = None"
  shows "\<exists>q. map_of (nw_peers (deliver E cx a (announcement E nick (Some X) XE) N)) a = Some q \<and>
    mirrors E X XE q \<and> peer_nickname q = Some label \<and> peer_ephemeral q = peer_ephemeral p"
proof -
  have n: "length (utf8_bytes nick) \<le> 65536" "from_utf8_lossy (utf8_bytes nick) = nick"
    using utf8_len_bound [of nick] assms(4) from_utf8_lossy_utf8_bytes [OF assms(2)] by simp_all
  note x = public_hex_read [OF assms(1,5)] and ex = public_hex_read [OF assms(1,6)]
  let ?N = "deliver E cx a (announcement E nick (Some X) XE) N"
  have "peer_view a ?N = Some (p\<lparr>peer_sender := channel_new, peer_nickname := Some label,
      peer_identity := Some (public_hex (pe_hex E) X), peer_remote_ephemeral := Some (public_hex (pe_hex E) XE)\<rparr>)"
    using n x ex assms(3,8)
    by (simp add: deliver_def announcement_def deliver_encoded dispatch_view greeting_label_def frame_kinds Let_def
        peer_view_def [of a N] assms(7))
  then obtain q where q: "map_of (nw_peers ?N) a = Some q"
      "q\<lparr>peer_sender := channel_new\<rparr> = p\<lparr>peer_sender := channel_new, peer_nickname := Some label,
      peer_identity := Some (public_hex (pe_hex E) X), peer_remote_ephemeral := Some (public_hex (pe_hex E) XE)\<rparr>"
    by (auto simp: peer_view_def)
  from q(2) have "peer_nickname q = Some label" "peer_identity q = Some (public_hex (pe_hex E) X)"
    "peer_remote_ephemeral q = Some (public_hex (pe_hex E) XE)" "peer_ephemeral q = peer_ephemeral p"
    by (auto dest: arg_cong [of _ _ peer_nickname] arg_cong [of _ _ peer_identity]
        arg_cong [of _ _ peer_remote_ephemeral] arg_cong [of _ _ peer_ephemeral])
  then show ?thesis using q(1) by (simp add: mirrors_def)
qed

subsection \<open>A message and its acknowledgement\<close>

definition paired ::
  "pin_env \<Rightarrow> bytes \<Rightarrow> bytes \<Rightarrow> bytes \<Rightarrow> bytes \<Rightarrow> socket_addr \<Rightarrow> Peer \<Rightarrow> Network \<Rightarrow> bool" where
  "paired E own_secret own_eph peer_secret peer_eph remote p N \<longleftrightarrow>
     nw_identity N = Some (identity_from_secret (pe_crypto E) own_secret) \<and>
     map_of (nw_peers N) remote = Some p \<and>
     peer_ephemeral p = ephemeral_from_secret (pe_crypto E) own_eph \<and>
     mirrors E (identity_from_secret (pe_crypto E) peer_secret) (ephemeral_from_secret (pe_crypto E) peer_eph) p"

lemma send_to_peer_paired:
  assumes "env_ok E" "network_wf E N" "paired E a ea b eb remote p N"
    "filter (\<lambda>(r, p). nickname_matches (to_ascii_lowercase (trim nick)) p) (nw_peers N) = [(remote, p)]"
    "trim nick \<noteq> []" "\<not> sx_identity_busy cx" "can_queue remote N"
    "length (x25519 (pe_crypto E) b (x25519_base (pe_crypto E))) = 32"
    "length (x25519 (pe_crypto E) eb (x25519_base (pe_crypto E))) = 32"
    "pair_key (pe_crypto E) (cm_key (nw_crypto N)) (identity_from_secret (pe_crypto E) a)
       (ephemeral_from_secret (pe_crypto E) ea) (ni_public (identity_from_secret (pe_crypto E) b))
       (ni_public (ephemeral_from_secret (pe_crypto E) eb)) = Inr key"
    "encrypt_with (pe_crypto E) nonce (nw_crypto N) key plain = Inr c"
  shows "\<exists>r. fst (send_to_peer E cx nonce nick plain k t N) = Inr (SoSent r) \<and> dr_message_id r = nw_next_message_id N"
    and "queued_for remote (snd (send_to_peer E cx nonce nick plain k t N)) =
      queued_for remote N @ [encode_message_frame (nw_next_message_id N) c k t]"
proof -
  have "(remote, p) \<in> set (filter (\<lambda>(r, p). nickname_matches (to_ascii_lowercase (trim nick)) p) (nw_peers N))"
    by (simp add: assms(4))
  then have m: "nickname_matches (to_ascii_lowercase (trim nick)) p" by simp
  have d: "distinct (map fst (nw_peers N))" using assms(2) by (simp add: network_wf_def peers_wf_def)
  have key: "network_contact_key E cx N nick = Some key"
    by (rule network_contact_key_pair [OF assms(1,4) _ assms(6)])
      (use assms(3,8,9,10) in \<open>auto simp: paired_def identity_from_secret_def ephemeral_from_secret_def\<close>)
  have lk: "map_of (nw_peers N) remote = Some p" using assms(3) by (simp add: paired_def)
  show "\<exists>r. fst (send_to_peer E cx nonce nick plain k t N) = Inr (SoSent r) \<and> dr_message_id r = nw_next_message_id N"
    "queued_for remote (snd (send_to_peer E cx nonce nick plain k t N)) =
      queued_for remote N @ [encode_message_frame (nw_next_message_id N) c k t]"
    using send_ciphertext_connected [OF d assms(5) lk m assms(7), of cx c k t]
    by (auto simp: send_to_peer_def key assms(11) split_beta)
qed

lemma deliver_paired:
  assumes "env_ok E" "dh_laws (pe_crypto E)" "aead_laws (pe_crypto E)" "length nonce = NONCE_LENGTH"
    "paired E b eb a ea remote p N" "\<not> sx_identity_busy cx" "can_queue remote N"
    "length (x25519 (pe_crypto E) a (x25519_base (pe_crypto E))) = 32"
    "length (x25519 (pe_crypto E) ea (x25519_base (pe_crypto E))) = 32"
    "x25519 (pe_crypto E) a (x25519_base (pe_crypto E)) \<noteq> x25519 (pe_crypto E) b (x25519_base (pe_crypto E))"
    "pair_key (pe_crypto E) (cm_key (nw_crypto N)) (identity_from_secret (pe_crypto E) a)
       (ephemeral_from_secret (pe_crypto E) ea) (ni_public (identity_from_secret (pe_crypto E) b))
       (ni_public (ephemeral_from_secret (pe_crypto E) eb)) = Inr key"
    "encrypt_with (pe_crypto E) nonce m key plain = Inr c" "cm_enabled m = cm_enabled (nw_crypto N)"
    "8 + length c \<le> 65536"
  shows "nw_events (deliver_frame E cx remote (encode_message_frame i c k t) N) = nw_events N @
      [AeMessageReceived (nickname_of remote N) (socket_display remote) plain k (if k = KAction then CText else t)]"
    and "queued_for remote (deliver_frame E cx remote (encode_message_frame i c k t) N) = queued_for remote N @ [encode_frame FRAME_ACK (to_be_bytes64 i)]"
proof -
  let ?L = "pe_crypto E"
  have ne: "ni_public (identity_from_secret ?L b) \<noteq> ni_public (identity_from_secret ?L a)"
    using assms(10) by (simp add: identity_from_secret_def)
  have key: "pair_key ?L (cm_key (nw_crypto N)) (identity_from_secret ?L b) (peer_ephemeral p)
      (ni_public (identity_from_secret ?L a)) (ni_public (ephemeral_from_secret ?L ea)) = Inr key"
    using pair_key_sym [OF assms(2) refl refl refl refl ne, of "cm_key (nw_crypto N)" eb ea] assms(5,11)
    by (simp add: paired_def)
  have "decrypt_from E cx remote c N = Inr plain"
    by (rule decrypt_from_pair [OF assms(1,3,4) _ _ assms(6) _ _ _ key assms(12,13)])
      (use assms(5,8,9) in \<open>auto simp: paired_def identity_from_secret_def ephemeral_from_secret_def\<close>)
  note opens = dispatch_message_opens [OF this]
  show "nw_events (deliver_frame E cx remote (encode_message_frame i c k t) N) = nw_events N @
      [AeMessageReceived (nickname_of remote N) (socket_display remote) plain k (if k = KAction then CText else t)]"
    "queued_for remote (deliver_frame E cx remote (encode_message_frame i c k t) N) = queued_for remote N @ [encode_frame FRAME_ACK (to_be_bytes64 i)]"
    using opens assms(7) by (simp_all add: deliver_message [OF assms(14)])
qed

lemma deliver_ack:
  "nw_events (deliver_frame E cx remote (encode_frame FRAME_ACK (to_be_bytes64 i)) N) =
   nw_events N @ [AeMessageDelivered (nickname_of remote N) (socket_display remote) i]"
  by (simp add: deliver_encoded dispatch_ack_frame)

subsection \<open>Flushing the outbox\<close>

lemma flush_loop_network:
  "flush_loop (queue_to a) es N = (n, rem, N') \<Longrightarrow>
   nw_outbox N' = nw_outbox N \<and> nw_identity N' = nw_identity N \<and> nw_crypto N' = nw_crypto N \<and>
   (rem \<noteq> [] \<longrightarrow> \<not> can_queue a N')"
proof (induction es arbitrary: N n)
  case Nil
  then show ?case by simp
next
  case (Cons e es)
  obtain ok N1 where q: "queue_to a (entry_frame e) N = (ok, N1)" by (cases "queue_to a (entry_frame e) N")
  have N1: "nw_outbox N1 = nw_outbox N" "nw_identity N1 = nw_identity N" "nw_crypto N1 = nw_crypto N"
    using queue_to_rest [of a "entry_frame e" N] by (simp_all add: q)
  show ?case
  proof (cases ok)
    case True
    then show ?thesis using Cons.prems q Cons.IH [of N1] N1 by (auto split: prod.splits)
  next
    case False
    then have "\<not> can_queue a N" using queue_to_sent [of a "entry_frame e" N] by (simp add: q)
    moreover have "N1 = snd (queue_to a (entry_frame e) N)" by (simp add: q)
    ultimately have "\<not> can_queue a N1"
      by (auto simp: can_queue_def queue_to_peer queue_frame_def try_send_def split: option.splits)
    then show ?thesis using Cons.prems q False N1 by simp
  qed
qed

text \<open>
  The fresh messages go out in the order they were queued; what the channel has no room for stays
  queued, and only the expired ones are given up.
\<close>

lemma flush_outbox_effect:
  assumes "flush_outbox cx nick a N = (n, N')"
  defines "key \<equiv> to_ascii_lowercase nick"
  defines "fresh \<equiv> filter (entry_fresh (sx_now cx)) (outbox_queue (to_ascii_lowercase nick) (nw_outbox N))"
  shows "n \<le> length fresh" "queued_for a N' = queued_for a N @ map entry_frame (take n fresh)"
    "outbox_queue key (nw_outbox N') = drop n fresh"
    "n < length fresh \<Longrightarrow> \<not> can_queue a N'"
    "j \<noteq> key \<Longrightarrow> outbox_queue j (nw_outbox N') = outbox_queue j (nw_outbox N)"
proof -
  let ?k = "length (filter (\<lambda>e. \<not> entry_fresh (sx_now cx) e) (outbox_queue key (nw_outbox N)))"
  let ?N1 = "N\<lparr>nw_outbox := AList.delete key (nw_outbox N), nw_outbox_expired := nw_outbox_expired N + word_of_nat ?k\<rparr>"
  obtain m rem N2 where l: "flush_loop (queue_to a) fresh ?N1 = (m, rem, N2)"
    by (cases "flush_loop (queue_to a) fresh ?N1") auto
  have r: "n = m" "N' = N2\<lparr>nw_outbox := outbox_put_back key rem (nw_outbox N2)\<rparr>"
    using assms(1) l by (simp_all add: flush_outbox_def outbox_take_def Let_def key_def fresh_def)
  note net = flush_loop_network [OF l] and split = flush_loop_split [OF l]
  have q1: "queued_for a (M\<lparr>nw_outbox := x, nw_outbox_expired := y\<rparr>) = queued_for a M" for M x y
    by (simp add: queued_for_def)
  have q2: "queued_for a (M\<lparr>nw_outbox := x\<rparr>) = queued_for a M" "can_queue a (M\<lparr>nw_outbox := x\<rparr>) = can_queue a M" for M x
    by (simp_all add: queued_for_def can_queue_def)
  have "queued_for a N2 = queued_for a ?N1 @ map entry_frame (take m fresh)"
    by (rule flush_loop_frames [OF _ l]) (simp add: queue_to_queued queue_to_sent)
  then show "queued_for a N' = queued_for a N @ map entry_frame (take n fresh)"
    by (simp add: r q1 q2)
  show "n \<le> length fresh" using split r by simp
  show "outbox_queue key (nw_outbox N') = drop n fresh"
    using net split by (simp add: r outbox_put_back_def)
  show "n < length fresh \<Longrightarrow> \<not> can_queue a N'" using net split by (simp add: r q2)
  show "j \<noteq> key \<Longrightarrow> outbox_queue j (nw_outbox N') = outbox_queue j (nw_outbox N)"
    using net by (simp add: r outbox_put_back_def)
qed

subsection \<open>What dispatching leaves of the node's own keys\<close>

definition same_keys :: "Network \<Rightarrow> Network \<Rightarrow> bool" where
  "same_keys N N' \<longleftrightarrow> nw_identity N' = nw_identity N \<and> nw_crypto N' = nw_crypto N"

lemma flush_outbox_keys: "same_keys N (snd (flush_outbox cx nick a N))"
proof -
  let ?fresh = "filter (entry_fresh (sx_now cx)) (outbox_queue (to_ascii_lowercase nick) (nw_outbox N))"
  obtain k o1 where t: "outbox_take (sx_now cx) (to_ascii_lowercase nick) (nw_outbox N) = (?fresh, k, o1)"
    by (simp add: outbox_take_def Let_def)
  let ?N1 = "N\<lparr>nw_outbox := o1, nw_outbox_expired := nw_outbox_expired N + word_of_nat k\<rparr>"
  obtain m rem N2 where l: "flush_loop (queue_to a) ?fresh ?N1 = (m, rem, N2)"
    by (cases "flush_loop (queue_to a) ?fresh ?N1") auto
  show ?thesis using flush_loop_network [OF l] by (simp add: flush_outbox_def t l Let_def same_keys_def)
qed

lemma same_keys_steps:
  "same_keys N N" "same_keys M (snd (queue_to a f N)) = same_keys M N" "same_keys M (emit e N) = same_keys M N"
  "same_keys M (alter_peer a g N) = same_keys M N" "same_keys M (pin_identity E cx n k N) = same_keys M N"
  "same_keys M (snd (flush_outbox cx n a N)) = same_keys M N"
  "same_keys M (N\<lparr>nw_greetings_refused := v\<rparr>) = same_keys M N"
  using flush_outbox_keys [of N cx n a]
  by (auto simp: same_keys_def queue_to_rest emit_def alter_peer_def pin_identity_def)

lemma dispatch_keys: "same_keys N (dispatch E cx kind payload a N)"
proof -
  have h: "same_keys N (dispatch_hello E cx a payload N)"
    by (simp add: dispatch_hello_def Let_def same_keys_steps split: option.split)
  have i: "same_keys N (accept_identity E cx a payload N)" "same_keys N (accept_ephemeral E a payload N)"
    by (simp_all add: accept_identity_def accept_ephemeral_def Let_def same_keys_steps)
  have m: "same_keys N (dispatch_message E cx k t a payload N)" for k t
    by (simp add: dispatch_message_def Let_def same_keys_steps split: option.split sum.split)
  have k: "same_keys N (dispatch_ack a payload N)"
    by (simp add: dispatch_ack_def same_keys_steps split: option.split)
  show ?thesis by (simp add: dispatch_def h i m k same_keys_steps split: option.split)
qed

lemma deliver_keys: "same_keys N (deliver E cx a fs N)"
proof (induction fs arbitrary: N)
  case Nil
  then show ?case by (simp add: deliver_def same_keys_steps)
next
  case (Cons f fs)
  have "same_keys N (deliver_frame E cx a f N)"
    using dispatch_keys by (simp add: deliver_frame_def same_keys_steps split: sum.split option.split prod.split)
  then show ?case using Cons [of "deliver_frame E cx a f N"] by (simp add: deliver_def same_keys_def)
qed

text \<open>The entry of a fresh connection.\<close>

lemma register_view: "peer_view a (register E secret a N) = Some (peer_new (pe_crypto E) secret)"
proof -
  let ?p = "peer_new (pe_crypto E) secret"
  let ?N = "N\<lparr>nw_peers := AList.update a ?p (nw_peers N)\<rparr>"
  have ann: "peer_view a (announce E a M) = peer_view a M" for M
    by (simp add: announce_def Let_def split: option.split)
  have "peer_view a (register E secret a N) = peer_view a ?N"
    by (simp add: register_def Let_def ann)
  moreover have "map_of (nw_peers ?N) a = Some ?p" by (simp add: update_conv')
  ultimately have "peer_view a (register E secret a N) = Some (?p\<lparr>peer_sender := channel_new\<rparr>)"
    by (simp only: peer_view_def option.map)
  then show ?thesis by (simp add: peer_new_def)
qed

lemma register_entry:
  "\<exists>q. map_of (nw_peers (register E secret a N)) a = Some q \<and> peer_remote_ephemeral q = None \<and>
    peer_ephemeral q = ephemeral_from_secret (pe_crypto E) secret"
proof -
  let ?p = "peer_new (pe_crypto E) secret"
  obtain q where q: "map_of (nw_peers (register E secret a N)) a = Some q" "q\<lparr>peer_sender := channel_new\<rparr> = ?p"
    using register_view [of a E secret N] by (auto simp: peer_view_def)
  then have "peer_remote_ephemeral q = peer_remote_ephemeral ?p" "peer_ephemeral q = peer_ephemeral ?p"
    by (auto dest: arg_cong [of _ _ peer_remote_ephemeral] arg_cong [of _ _ peer_ephemeral])
  then show ?thesis using q(1) by (simp add: peer_new_def)
qed

lemma register_timeout: "nw_handshake_timeout (register E secret a N) = nw_handshake_timeout N"
  by (simp add: register_def announce_def Let_def queue_to_rest emit_def split: option.split)

lemma register_keys: "same_keys N (register E secret a N)"
  by (simp add: register_def announce_def Let_def same_keys_steps split: option.split) (simp add: same_keys_def)

end
