(* ===== verification/Supervisor.thy ===== *)
theory Supervisor
  imports NetworkFacts
begin

section \<open>The life of a desired peer\<close>

text \<open>
  A desired address is either unresolved, and then the supervisor dials it on its next pass, or
  resolved to the connection that serves it. The first part shows this for the methods of
  \<^verbatim>\<open>network.rs\<close> one at a time. The second part interleaves them the way the tasks can: a
  connection is registered, its read loop may end, and only then is the address marked resolved.
\<close>

definition linked :: "Network \<Rightarrow> bool" where
  "linked N \<longleftrightarrow>
     (\<forall>address d remote. map_of (nw_desired N) address = Some d \<longrightarrow> dp_resolved d = Some remote \<longrightarrow>
        remote \<in> set (map fst (nw_peers N)))"

lemma linkedD:
  "linked N \<Longrightarrow> map_of (nw_desired N) address = Some d \<Longrightarrow> dp_resolved d = Some remote \<Longrightarrow>
   remote \<in> set (map fst (nw_peers N))"
  by (auto simp: linked_def)

lemma linked_cong:
  "nw_desired N' = nw_desired N \<Longrightarrow> set (map fst (nw_peers N)) \<subseteq> set (map fst (nw_peers N')) \<Longrightarrow> linked N \<Longrightarrow> linked N'"
proof -
  assume a: "nw_desired N' = nw_desired N" "set (map fst (nw_peers N)) \<subseteq> set (map fst (nw_peers N'))" "linked N"
  show "linked N'"
    unfolding linked_def a(1)
  proof (intro allI impI)
    fix address d remote
    assume "map_of (nw_desired N) address = Some d" "dp_resolved d = Some remote"
    then show "remote \<in> set (map fst (nw_peers N'))" by (rule subsetD [OF a(2) linkedD [OF a(3)]])
  qed
qed

lemma announce_keeps:
  "nw_desired (announce E a N) = nw_desired N" "map fst (nw_peers (announce E a N)) = map fst (nw_peers N)"
  by (simp_all add: announce_def Let_def queue_to_rest queue_to_keys split: option.split)

lemma update_key_set: "set (map fst (AList.update a v m)) = insert a (set (map fst m))"
  unfolding update_keys by auto

lemma register_keeps:
  "nw_desired (register E secret a N) = nw_desired N"
  "set (map fst (nw_peers (register E secret a N))) = insert a (set (map fst (nw_peers N)))"
  unfolding register_def Let_def emit_rest announce_keeps by (simp_all add: update_key_set del: set_map)

lemma register_linked: "linked N \<Longrightarrow> linked (register E secret a N)"
  by (rule linked_cong [of _ N]) (auto simp: register_keeps simp del: set_map)

lemma mark_resolved_desired:
  "map_of (nw_desired (mark_resolved address r N)) b =
   (if b = address
    then Some (let d = unwrap_or desired_default (map_of (nw_desired N) address) in
               if r \<noteq> None then d\<lparr>dp_resolved := r, dp_attempts := 0\<rparr> else d\<lparr>dp_resolved := r\<rparr>)
    else map_of (nw_desired N) b)"
  by (simp add: mark_resolved_def Let_def update_conv')

lemma mark_resolved_peers [simp]: "nw_peers (mark_resolved address r N) = nw_peers N"
  by (simp add: mark_resolved_def Let_def)

lemma mark_resolved_linked:
  "linked N \<Longrightarrow> remote \<in> set (map fst (nw_peers N)) \<Longrightarrow> linked (mark_resolved address (Some remote) N)"
  by (auto simp: linked_def mark_resolved_desired Let_def split: if_splits)

lemma desire_peer_linked: "linked N \<Longrightarrow> linked (desire_peer address N)"
  by (auto simp: linked_def desire_peer_def update_conv' desired_default_def split: option.splits if_splits)

lemma note_failure_linked: "linked N \<Longrightarrow> linked (note_failure address N)"
  by (auto simp: linked_def note_failure_def map_of_alter split: if_splits)

lemma connect_peer_linked: "linked N \<Longrightarrow> linked (snd (connect_peer E secret dialled address N))"
  by (auto simp: connect_peer_def Let_def register_keeps desire_peer_linked simp del: set_map
      intro!: mark_resolved_linked register_linked split: sum.splits)

lemma supervise_one_linked: "linked N \<Longrightarrow> linked (supervise_one E dial N address)"
  by (auto simp: supervise_one_def register_keeps simp del: set_map
      intro!: mark_resolved_linked register_linked note_failure_linked split: prod.splits sum.splits)

lemma dispatch_linked: "linked N \<Longrightarrow> linked (dispatch E cx kind payload a N)"
  by (rule linked_cong [of _ N]) (simp_all add: dispatch_rest del: set_map)

lemma read_end_desired:
  "map_of (nw_desired (read_end a reason N)) address =
   map_option (\<lambda>d. if dp_resolved d = Some a then d\<lparr>dp_resolved := None\<rparr> else d) (map_of (nw_desired N) address)"
  by (simp add: read_end_def Let_def map_of_map)

lemma read_end_keys: "set (map fst (nw_peers (read_end a reason N))) = set (map fst (nw_peers N)) - {a}"
  by (auto simp: read_end_def Let_def delete_keys simp del: set_map)

lemma read_end_resolved:
  assumes "map_of (nw_desired (read_end a reason N)) address = Some d" "dp_resolved d = Some r"
  shows "map_of (nw_desired N) address = Some d \<and> r \<noteq> a"
proof -
  obtain z where z: "map_of (nw_desired N) address = Some z"
      "d = (if dp_resolved z = Some a then z\<lparr>dp_resolved := None\<rparr> else z)"
    using assms(1) by (auto simp: read_end_desired)
  then show ?thesis using assms(2) by (cases "dp_resolved z = Some a") auto
qed

lemma read_end_linked: "linked N \<Longrightarrow> linked (read_end a reason N)"
  using read_end_resolved [of a reason N] linkedD [of N]
  by (subst linked_def) (fastforce simp: read_end_keys simp del: set_map)

text \<open>A connection that ends sends its addresses back to the supervisor.\<close>

lemma pending_addresses_iff:
  "distinct (map fst (nw_desired N)) \<Longrightarrow>
   address \<in> set (pending_addresses N) \<longleftrightarrow> (\<exists>d. map_of (nw_desired N) address = Some d \<and> dp_resolved d = None)"
  by (auto simp: pending_addresses_def image_iff dest: map_of_SomeD)

lemma read_end_pending:
  assumes "distinct (map fst (nw_desired N))" "map_of (nw_desired N) address = Some d" "dp_resolved d = Some a"
  shows "address \<in> set (pending_addresses (read_end a reason N))"
proof -
  have "distinct (map fst (nw_desired (read_end a reason N)))"
    using assms(1) by (simp add: read_end_def Let_def comp_def case_prod_beta')
  then show ?thesis using assms(2,3) by (simp add: pending_addresses_iff read_end_desired)
qed

text \<open>A pass whose dials all succeed leaves nothing pending; one whose dials fail counts them.\<close>

lemma supervise_one_resolves:
  "dial address = (Inr remote, secret) \<Longrightarrow>
   map_of (nw_desired (supervise_one E dial N address)) b =
   (if b = address
    then Some (unwrap_or desired_default (map_of (nw_desired N) address)\<lparr>dp_resolved := Some remote, dp_attempts := 0\<rparr>)
    else map_of (nw_desired N) b)"
  by (simp add: supervise_one_def mark_resolved_desired register_keeps Let_def)

lemma supervise_fold_resolves:
  assumes "\<And>a. a \<in> set as \<Longrightarrow> \<exists>remote secret. dial a = (Inr remote, secret)"
  shows "(\<forall>b. map_of (nw_desired N) b \<noteq> None \<longrightarrow> (b \<in> set as \<or> b \<in> done) \<or>
            (\<exists>d. map_of (nw_desired N) b = Some d \<and> dp_resolved d \<noteq> None)) \<Longrightarrow>
    (\<forall>b \<in> done. \<exists>d. map_of (nw_desired N) b = Some d \<and> dp_resolved d \<noteq> None) \<Longrightarrow>
    \<forall>b d. map_of (nw_desired (foldl (supervise_one E dial) N as)) b = Some d \<longrightarrow> dp_resolved d \<noteq> None"
  using assms
proof (induction as arbitrary: N "done")
  case Nil
  then show ?case by fastforce
next
  case (Cons a as)
  obtain remote secret where d: "dial a = (Inr remote, secret)" using Cons.prems(3) [of a] by auto
  let ?N = "supervise_one E dial N a"
  have "\<forall>b d. map_of (nw_desired (foldl (supervise_one E dial) ?N as)) b = Some d \<longrightarrow> dp_resolved d \<noteq> None"
  proof (rule Cons.IH [of _ "insert a done"])
    show "\<forall>b. map_of (nw_desired ?N) b \<noteq> None \<longrightarrow> (b \<in> set as \<or> b \<in> insert a done) \<or>
        (\<exists>d. map_of (nw_desired ?N) b = Some d \<and> dp_resolved d \<noteq> None)"
      using Cons.prems(1) by (auto simp: supervise_one_resolves [of dial a, OF d])
    show "\<forall>b \<in> insert a done. \<exists>d. map_of (nw_desired ?N) b = Some d \<and> dp_resolved d \<noteq> None"
      using Cons.prems(2) by (auto simp: supervise_one_resolves [of dial a, OF d])
  qed (use Cons.prems(3) in auto)
  then show ?case by simp
qed

lemma network_prune_desired [simp]:
  "nw_desired (network_prune_outbox cx N) = nw_desired N" "nw_peers (network_prune_outbox cx N) = nw_peers N"
  by (simp_all add: network_prune_outbox_def split_beta)

lemma supervise_pass_resolves:
  assumes "distinct (map fst (nw_desired N))"
    "\<And>a. a \<in> set (pending_addresses N) \<Longrightarrow> \<exists>remote secret. dial a = (Inr remote, secret)"
  shows "\<forall>b d. map_of (nw_desired (supervise_pass E cx dial N)) b = Some d \<longrightarrow> dp_resolved d \<noteq> None"
proof -
  have p: "pending_addresses (network_prune_outbox cx N) = pending_addresses N"
    by (simp add: pending_addresses_def)
  show ?thesis unfolding supervise_pass_def Let_def p
  proof (rule supervise_fold_resolves [of _ _ _ "{}"])
    show "\<forall>b. map_of (nw_desired (network_prune_outbox cx N)) b \<noteq> None \<longrightarrow>
        (b \<in> set (pending_addresses N) \<or> b \<in> {}) \<or>
        (\<exists>d. map_of (nw_desired (network_prune_outbox cx N)) b = Some d \<and> dp_resolved d \<noteq> None)"
      using pending_addresses_iff [OF assms(1)] by auto
  qed (use assms(2) in auto)
qed

lemma supervise_fold_keys:
  "map_of (nw_desired N) b \<noteq> None \<Longrightarrow> map_of (nw_desired (foldl (supervise_one E dial) N as)) b \<noteq> None"
proof (induction as arbitrary: N)
  case (Cons a as)
  have "map_of (nw_desired (supervise_one E dial N a)) b \<noteq> None"
    using Cons.prems by (auto simp: supervise_one_def mark_resolved_desired register_keeps note_failure_def map_of_alter
        split: prod.splits sum.splits)
  then show ?case using Cons.IH by simp
qed simp

lemma supervise_fold_linked: "linked N \<Longrightarrow> linked (foldl (supervise_one E dial) N as)"
  by (induction as arbitrary: N) (simp_all add: supervise_one_linked)

lemma supervise_pass_linked: "linked N \<Longrightarrow> linked (supervise_pass E cx dial N)"
  unfolding supervise_pass_def Let_def
  by (rule supervise_fold_linked, rule linked_cong [of _ N]) (simp_all del: set_map)

subsection \<open>Tasks interleaved\<close>

text \<open>
  The state of the tasks: the shared network and the marks that registered connections still have
  to set. Each step is what a task does between two points where another task may run.
\<close>

record tasks =
  tk_network :: Network
  tk_marks :: "(rtext \<times> socket_addr) list"

inductive task_step :: "pin_env \<Rightarrow> tasks \<Rightarrow> tasks \<Rightarrow> bool" for E :: pin_env where
  task_desire: "task_step E t (t\<lparr>tk_network := desire_peer address (tk_network t)\<rparr>)"
| task_register:
    "address \<in> set (pending_addresses (tk_network t)) \<Longrightarrow>
     task_step E t (t\<lparr>tk_network := register E secret remote (tk_network t),
                      tk_marks := (address, remote) # tk_marks t\<rparr>)"
| task_mark:
    "(address, remote) \<in> set (tk_marks t) \<Longrightarrow>
     task_step E t (t\<lparr>tk_network := mark_resolved address (Some remote) (tk_network t),
                      tk_marks := remove1 (address, remote) (tk_marks t)\<rparr>)"
| task_fail: "task_step E t (t\<lparr>tk_network := note_failure address (tk_network t)\<rparr>)"
| task_accept: "task_step E t (t\<lparr>tk_network := snd (accept_one E secret remote (tk_network t))\<rparr>)"
| task_frame:
    "remote \<in> set (map fst (nw_peers (tk_network t))) \<Longrightarrow>
     task_step E t (t\<lparr>tk_network := dispatch E cx kind payload remote (tk_network t)\<rparr>)"
| task_end:
    "remote \<in> set (map fst (nw_peers (tk_network t))) \<Longrightarrow>
     task_step E t (t\<lparr>tk_network := read_end remote reason (tk_network t)\<rparr>)"
| task_send: "task_step E t (t\<lparr>tk_network := snd (send_ciphertext_to_peer cx n c k ct (tk_network t))\<rparr>)"
| task_prune: "task_step E t (t\<lparr>tk_network := network_prune_outbox cx (tk_network t)\<rparr>)"
| task_keepalive: "task_step E t (t\<lparr>tk_network := send_keepalives (tk_network t)\<rparr>)"
| task_broadcast: "task_step E t (t\<lparr>tk_network := snd (broadcast E nonce plain k ct (tk_network t))\<rparr>)"
| task_nickname: "task_step E t (t\<lparr>tk_network := set_nickname n (tk_network t)\<rparr>)"
| task_identity: "task_step E t (t\<lparr>tk_network := set_identity E i (tk_network t)\<rparr>)"

inductive_cases task_stepE: "task_step E t t'"

inductive tasks_reach :: "pin_env \<Rightarrow> tasks \<Rightarrow> tasks \<Rightarrow> bool" for E :: pin_env where
  reach_refl: "tasks_reach E t t"
| reach_step: "tasks_reach E t t' \<Longrightarrow> task_step E t' t'' \<Longrightarrow> tasks_reach E t t''"

text \<open>The shared tables stay well formed under every interleaving.\<close>

lemma accept_one_wf: "network_wf E N \<Longrightarrow> network_wf E (snd (accept_one E secret a N))"
  by (simp add: accept_one_def register_wf)

lemma broadcast_wf: "network_wf E N \<Longrightarrow> network_wf E (snd (broadcast E nonce plain k ct N))"
  by (simp add: broadcast_def broadcast_ciphertext_def split_beta Let_def dispatch_to_wf split: sum.split)

lemma task_step_wf:
  "task_step E t t' \<Longrightarrow> env_ok E \<Longrightarrow> network_wf E (tk_network t) \<Longrightarrow> network_wf E (tk_network t')"
  by (induction rule: task_step.induct)
    (simp_all add: desire_peer_wf register_wf mark_resolved_wf note_failure_wf accept_one_wf dispatch_wf
      read_end_wf send_ciphertext_to_peer_wf prune_wf send_keepalives_def queue_all_wf broadcast_wf
      set_nickname_def set_identity_def Let_def)

lemma tasks_reach_wf:
  "tasks_reach E t t' \<Longrightarrow> env_ok E \<Longrightarrow> network_wf E (tk_network t) \<Longrightarrow> network_wf E (tk_network t')"
  by (induction rule: tasks_reach.induct) (auto dest: task_step_wf)

text \<open>
  The order that loses a desired peer: registered, ended, marked. The address is then resolved to
  a connection that is gone.
\<close>

definition stranded :: "rtext \<Rightarrow> socket_addr \<Rightarrow> Network \<Rightarrow> bool" where
  "stranded address remote N \<longleftrightarrow>
     (\<exists>d. map_of (nw_desired N) address = Some d \<and> dp_resolved d = Some remote) \<and>
     remote \<notin> set (map fst (nw_peers N))"

lemma stranded_reachable:
  assumes "address \<in> set (pending_addresses (tk_network t))" "tk_marks t = []"
    "distinct (map fst (nw_desired (tk_network t)))"
  shows "\<exists>t'. tasks_reach E t t' \<and> tk_marks t' = [] \<and> stranded address remote (tk_network t') \<and>
    distinct (map fst (nw_desired (tk_network t')))"
proof -
  let ?t1 = "t\<lparr>tk_network := register E [] remote (tk_network t), tk_marks := [(address, remote)]\<rparr>"
  let ?t2 = "?t1\<lparr>tk_network := read_end remote [] (tk_network ?t1)\<rparr>"
  let ?t3 = "?t2\<lparr>tk_network := mark_resolved address (Some remote) (tk_network ?t2), tk_marks := []\<rparr>"
  have "task_step E t ?t1" using task_register [OF assms(1)] assms(2) by fastforce
  moreover have "task_step E ?t1 ?t2"
    by (rule task_end) (simp add: register_keeps del: set_map)
  moreover have "task_step E ?t2 ?t3"
    using task_mark [of address remote ?t2] by simp
  ultimately have "tasks_reach E t ?t3" by (meson reach_refl reach_step)
  moreover have "stranded address remote (tk_network ?t3)"
    by (auto simp: stranded_def mark_resolved_desired read_end_keys Let_def simp del: set_map)
  moreover have "distinct (map fst (nw_desired (tk_network ?t3)))"
    using assms(3) by (simp add: mark_resolved_def Let_def distinct_update read_end_def register_keeps comp_def case_prod_beta')
  ultimately show ?thesis by (intro exI [of _ ?t3]) simp
qed

text \<open>No later pass of the supervisor dials a stranded address.\<close>

lemma stranded_not_pending:
  "distinct (map fst (nw_desired N)) \<Longrightarrow> stranded address remote N \<Longrightarrow> address \<notin> set (pending_addresses N)"
  by (simp only: stranded_def pending_addresses_iff) fastforce

lemma supervise_fold_other:
  "address \<notin> set as \<Longrightarrow> map_of (nw_desired (foldl (supervise_one E dial) N as)) address = map_of (nw_desired N) address"
proof (induction as arbitrary: N)
  case (Cons a as)
  then have "map_of (nw_desired (supervise_one E dial N a)) address = map_of (nw_desired N) address"
    by (auto simp: supervise_one_def mark_resolved_desired register_keeps note_failure_def map_of_alter
        split: prod.splits sum.splits)
  then show ?case using Cons by simp
qed simp

lemma stranded_pass:
  assumes "distinct (map fst (nw_desired N))" "stranded address remote N"
  shows "map_of (nw_desired (supervise_pass E cx dial N)) address = map_of (nw_desired N) address"
  using supervise_fold_other [of address "pending_addresses N" E dial "network_prune_outbox cx N"]
    stranded_not_pending [OF assms]
  by (simp add: supervise_pass_def Let_def pending_addresses_def)

text \<open>A connection that ends is redialled by the next pass: its address is resolved to a live connection again.\<close>

lemma read_end_distinct:
  "distinct (map fst (nw_desired N)) \<Longrightarrow> distinct (map fst (nw_desired (read_end a reason N)))"
  by (simp add: read_end_def Let_def comp_def case_prod_beta')

lemma redialled:
  fixes E :: pin_env and cx :: step_ctx
  assumes "linked N" "distinct (map fst (nw_desired N))" "map_of (nw_desired N) address = Some d"
    "\<And>b. b \<in> set (pending_addresses (read_end a reason N)) \<Longrightarrow> \<exists>remote secret. dial b = (Inr remote, secret)"
  defines "N' \<equiv> supervise_pass E cx dial (read_end a reason N)"
  shows "\<exists>d' r. map_of (nw_desired N') address = Some d' \<and> dp_resolved d' = Some r \<and> r \<in> set (map fst (nw_peers N'))"
proof -
  let ?N1 = "read_end a reason N"
  have "map_of (nw_desired ?N1) address \<noteq> None" using assms(3) by (simp add: read_end_desired)
  then have "map_of (nw_desired (network_prune_outbox cx ?N1)) address \<noteq> None" by simp
  from supervise_fold_keys [OF this] obtain d' where d': "map_of (nw_desired N') address = Some d'"
    unfolding N'_def supervise_pass_def Let_def by blast
  moreover have "\<forall>b d. map_of (nw_desired N') b = Some d \<longrightarrow> dp_resolved d \<noteq> None"
    unfolding N'_def by (rule supervise_pass_resolves [OF read_end_distinct [OF assms(2)] assms(4)])
  ultimately obtain r where r: "dp_resolved d' = Some r" by blast
  have "linked N'" unfolding N'_def by (rule supervise_pass_linked [OF read_end_linked [OF assms(1)]])
  then show ?thesis using d' r linkedD by blast
qed

end
