(* ===== verification/NetworkGuarantees.thy ===== *)
theory NetworkGuarantees
  imports Delivery Supervisor Samples
begin

section \<open>What the peer network guarantees\<close>

text \<open>
  The properties of \<^verbatim>\<open>meta-text-backend/src/network.rs\<close>: delivery between two nodes, the outbox,
  the tables under every interleaving of the tasks, the deadlines and the desired peers. Each is
  followed by an instance with concrete nodes.
\<close>

subsection \<open>Two concrete nodes\<close>

definition sample_secret :: "u8 \<Rightarrow> bytes" where
  "sample_secret n = replicate 32 n"

definition sample_identity :: "u8 \<Rightarrow> NetworkIdentity" where
  "sample_identity n = identity_from_secret sample_crypto (sample_secret n)"

definition sample_node :: "u8 \<Rightarrow> rtext \<Rightarrow> Network" where
  "sample_node n nick = sample_network\<lparr>nw_identity := Some (sample_identity n), nw_nickname := nick\<rparr>"

definition sample_peer :: "u8 \<Rightarrow> u8 \<Rightarrow> u8 \<Rightarrow> Peer" where
  "sample_peer own_eph peer peer_eph =
     \<lparr>peer_sender = channel_new, peer_nickname = Some (lit ''Bob''),
      peer_identity = Some (public_hex sample_hex (sample_identity peer)),
      peer_ephemeral = sample_identity own_eph,
      peer_remote_ephemeral = Some (public_hex sample_hex (sample_identity peer_eph)),
      peer_keepalive_seen = False\<rparr>"

definition sample_linked :: "u8 \<Rightarrow> u8 \<Rightarrow> u8 \<Rightarrow> u8 \<Rightarrow> Network" where
  "sample_linked own own_eph peer peer_eph =
     (sample_node own (lit ''Alice''))\<lparr>nw_peers := [(sample_address, sample_peer own_eph peer peer_eph)]\<rparr>"

lemma ephemeral_identity: "ephemeral_from_secret L s = identity_from_secret L s"
  by (simp add: ephemeral_from_secret_def identity_from_secret_def)

lemma sample_public: "x25519 sample_crypto (sample_secret n) (x25519_base sample_crypto) = sample_secret n"
  by (simp add: sample_crypto_def sample_secret_def zip_replicate)

lemma sample_identity_public [simp]: "ni_public (sample_identity n) = sample_secret n"
  by (simp add: sample_identity_def identity_from_secret_def sample_public)

lemma length_sample_secret [simp]: "length (sample_secret n) = 32"
  by (simp add: sample_secret_def)

lemma sample_linked_fields [simp]:
  "nw_peers (sample_linked o' oe p pe) = [(sample_address, sample_peer oe p pe)]"
  "nw_identity (sample_linked o' oe p pe) = Some (sample_identity o')"
  "nw_crypto (sample_linked o' oe p pe) = sample_manager"
  "nw_events (sample_linked o' oe p pe) = []" "nw_outbox (sample_linked o' oe p pe) = []"
  "nw_next_message_id (sample_linked o' oe p pe) = 1"
  by (simp_all add: sample_linked_def sample_node_def sample_network_def network_new_def Let_def)

lemma sample_linked_queue: "can_queue sample_address (sample_linked o' oe p pe)" "queued_for sample_address (sample_linked o' oe p pe) = []"
  by (simp_all add: can_queue_def queued_for_def sample_peer_def channel_new_def PEER_QUEUE_CAPACITY_def)

lemma sample_paired:
  "paired sample_env (sample_secret o') (sample_secret oe) (sample_secret p) (sample_secret pe) sample_address
     (sample_peer oe p pe) (sample_linked o' oe p pe)"
  by (simp add: paired_def mirrors_def ephemeral_identity sample_identity_def [symmetric]) (simp add: sample_peer_def)

lemma sample_linked_wf: "network_wf sample_env (sample_linked o' oe p pe)"
proof -
  have "length (ni_public (sample_identity n)) = 32" for n by simp
  note pub = public_hex_read [OF sample_env_ok this, simplified]
  have "displayable MAX_NICKNAME_LEN (lit ''Bob'')"
    by (simp add: displayable_def lit_def trim_id is_whitespace_def is_control_def MAX_NICKNAME_LEN_def)
  then have "peer_ok sample_env (sample_peer oe p pe)"
    by (simp add: peer_ok_def sample_peer_def channel_new_def pub lit_def)
  moreover have "network_wf sample_env (sample_node o' (lit ''Alice''))"
    using sample_network_wf by (simp add: sample_node_def)
  ultimately show ?thesis
    unfolding sample_linked_def by (intro network_wf_peers) (simp_all add: peers_wf_def)
qed

subsection \<open>Delivery\<close>

text \<open>C6: The handshake makes a pair: when two nodes register one connection, each with an
  ephemeral key of its own, and the three frames one of them queues at once are read and handled
  by the other, the other's entry for the connection holds exactly the first node's nickname,
  identity and ephemeral key beside its own ephemeral key.\<close>

theorem handshake_pairs:
  assumes "env_ok E" "nw_identity A = Some (identity_from_secret (pe_crypto E) a)"
    "nw_identity B = Some (identity_from_secret (pe_crypto E) b)"
    "valid_text (nw_nickname A)" "peer_label (nw_nickname A) = Some (nw_nickname A)"
    "length (x25519 (pe_crypto E) a (x25519_base (pe_crypto E))) = 32"
    "length (x25519 (pe_crypto E) ea (x25519_base (pe_crypto E))) = 32"
  shows "\<exists>p. paired E b eb a ea at_b p (deliver E cx at_b (queued_for at_a (register E ea at_a A)) (register E eb at_b B)) \<and>
    peer_nickname p = Some (nw_nickname A)"
proof -
  let ?B = "register E eb at_b B"
  obtain q where q: "map_of (nw_peers ?B) at_b = Some q" "peer_remote_ephemeral q = None"
      "peer_ephemeral q = ephemeral_from_secret (pe_crypto E) eb"
    using register_entry [of E eb at_b B] by blast
  have "length (nw_nickname A) \<le> 16384"
    using assms(5) by (simp add: peer_label_Some displayable_def MAX_NICKNAME_LEN_def)
  from deliver_announcement [OF assms(1,4,5) this _ _ q(1,2), of "identity_from_secret (pe_crypto E) a"
      "ephemeral_from_secret (pe_crypto E) ea" cx] assms(6,7)
  obtain p where "map_of (nw_peers (deliver E cx at_b (announcement E (nw_nickname A) (nw_identity A)
        (ephemeral_from_secret (pe_crypto E) ea)) ?B)) at_b = Some p"
      "mirrors E (identity_from_secret (pe_crypto E) a) (ephemeral_from_secret (pe_crypto E) ea) p"
      "peer_nickname p = Some (nw_nickname A)" "peer_ephemeral p = peer_ephemeral q"
    by (auto simp: assms(2) identity_from_secret_def ephemeral_from_secret_def)
  moreover have "nw_identity (deliver E cx at_b fs ?B) = nw_identity B" for fs
    using deliver_keys [of ?B E cx at_b fs] register_keys [of B E eb at_b] by (simp add: same_keys_def)
  ultimately show ?thesis
    using q(3) assms(3) by (intro exI [of _ p]) (simp add: paired_def register_announces)
qed

theorem handshake_pairs_witness:
  "\<exists>p. paired sample_env (sample_secret 2) (sample_secret 4) (sample_secret 1) (sample_secret 3) sample_address p
      (deliver sample_env sample_ctx sample_address
        (queued_for sample_address (register sample_env (sample_secret 3) sample_address (sample_node 1 (lit ''Alice''))))
        (register sample_env (sample_secret 4) sample_address (sample_node 2 (lit ''Bob'')))) \<and>
    peer_nickname p = Some (lit ''Alice'')"
proof -
  have "valid_text (lit ''Alice'')" "peer_label (lit ''Alice'') = Some (lit ''Alice'')"
    by (simp_all add: peer_label_Some displayable_def lit_def trim_id is_whitespace_def is_control_def
        MAX_NICKNAME_LEN_def valid_text_def is_scalar_def)
  then show ?thesis
    using handshake_pairs [OF sample_env_ok, of "sample_node 1 (lit ''Alice'')" "sample_secret 1"
        "sample_node 2 (lit ''Bob'')" "sample_secret 2" "sample_secret 3" "sample_secret 4" sample_address sample_ctx
        sample_address]
    by (simp add: sample_node_def sample_public sample_identity_def)
qed

text \<open>C5: End to end: between two nodes whose entries are paired and that share the session key, a
  message sent to a nickname is queued as one frame; the other node reads that frame, opens it and
  reports exactly the plaintext under the sender's nickname, and answers with one frame, which
  reports the message as delivered under the id of the sender's receipt.\<close>

theorem message_delivered:
  assumes "env_ok E" "dh_laws (pe_crypto E)" "aead_laws (pe_crypto E)" "length nonce = NONCE_LENGTH"
    "network_wf E A" "paired E a ea b eb at_a pa A" "paired E b eb a ea at_b pb B"
    "filter (\<lambda>(r, p). nickname_matches (to_ascii_lowercase (trim nick)) p) (nw_peers A) = [(at_a, pa)]"
    "trim nick \<noteq> []" "\<not> sx_identity_busy cx" "\<not> sx_identity_busy cy" "can_queue at_a A" "can_queue at_b B"
    "\<forall>s \<in> {a, ea, b, eb}. length (x25519 (pe_crypto E) s (x25519_base (pe_crypto E))) = 32"
    "x25519 (pe_crypto E) a (x25519_base (pe_crypto E)) \<noteq> x25519 (pe_crypto E) b (x25519_base (pe_crypto E))"
    "nw_crypto A = nw_crypto B"
    "pair_key (pe_crypto E) (cm_key (nw_crypto A)) (identity_from_secret (pe_crypto E) a)
       (ephemeral_from_secret (pe_crypto E) ea) (ni_public (identity_from_secret (pe_crypto E) b))
       (ni_public (ephemeral_from_secret (pe_crypto E) eb)) = Inr key"
    "encrypt_with (pe_crypto E) nonce (nw_crypto A) key plain = Inr c" "8 + length c \<le> 65536"
  shows "\<exists>r f ack A'.
    send_to_peer E cx nonce nick plain k t A = (Inr (SoSent r), A') \<and>
    queued_for at_a A' = queued_for at_a A @ [f] \<and>
    nw_events (deliver_frame E cy at_b f B) = nw_events B @
      [AeMessageReceived (nickname_of at_b B) (socket_display at_b) plain k (if k = KAction then CText else t)] \<and>
    queued_for at_b (deliver_frame E cy at_b f B) = queued_for at_b B @ [ack] \<and>
    nw_events (deliver_frame E cz at_a ack A') = nw_events A' @
      [AeMessageDelivered (nickname_of at_a A') (socket_display at_a) (dr_message_id r)]"
proof -
  note len = assms(14)
  obtain r where r: "fst (send_to_peer E cx nonce nick plain k t A) = Inr (SoSent r)"
      "dr_message_id r = nw_next_message_id A"
    using send_to_peer_paired(1) [OF assms(1,5,6,8,9,10,12) _ _ assms(17,18)] len by blast
  have q: "queued_for at_a (snd (send_to_peer E cx nonce nick plain k t A)) =
      queued_for at_a A @ [encode_message_frame (nw_next_message_id A) c k t]"
    by (rule send_to_peer_paired(2) [OF assms(1,5,6,8,9,10,12) _ _ assms(17,18)]) (use len in auto)
  have key: "pair_key (pe_crypto E) (cm_key (nw_crypto B)) (identity_from_secret (pe_crypto E) a)
       (ephemeral_from_secret (pe_crypto E) ea) (ni_public (identity_from_secret (pe_crypto E) b))
       (ni_public (ephemeral_from_secret (pe_crypto E) eb)) = Inr key"
    "cm_enabled (nw_crypto A) = cm_enabled (nw_crypto B)"
    using assms(16,17) by simp_all
  have "length (x25519 (pe_crypto E) a (x25519_base (pe_crypto E))) = 32"
    "length (x25519 (pe_crypto E) ea (x25519_base (pe_crypto E))) = 32" using len by simp_all
  note d = deliver_paired [OF assms(1-4,7,11,13) this assms(15) key(1) assms(18) key(2) assms(19),
      of "nw_next_message_id A" k t]
  show ?thesis
    by (rule exI [of _ r], rule exI [of _ "encode_message_frame (nw_next_message_id A) c k t"],
        rule exI [of _ "encode_frame FRAME_ACK (to_be_bytes64 (nw_next_message_id A))"],
        rule exI [of _ "snd (send_to_peer E cx nonce nick plain k t A)"])
      (simp only: r q d deliver_ack prod_eq_iff fst_conv snd_conv simp_thms)
qed

lemma sample_pair_key:
  "pair_key sample_crypto k A EA p pe = Inr (take 32 (pair_info sample_crypto A EA p pe @ replicate 32 0))"
  by (simp add: pair_key_def sample_crypto_def)

lemma sample_encrypt:
  "length key = 32 \<Longrightarrow> encrypt_with sample_crypto nonce sample_manager key plain = Inr (nonce @ plain @ sample_tag)"
  by (simp add: encrypt_with_def sample_manager_def sample_crypto_def checked_key_def KEY_LENGTH_def)

theorem message_delivered_witness:
  "\<exists>r f ack A'.
    send_to_peer sample_env sample_ctx (replicate 12 0) (lit ''bob'') [104, 105] KText CText (sample_linked 1 3 2 4) =
      (Inr (SoSent r), A') \<and>
    queued_for sample_address A' = [f] \<and>
    nw_events (deliver_frame sample_env sample_ctx sample_address f (sample_linked 2 4 1 3)) =
      [AeMessageReceived (nickname_of sample_address (sample_linked 2 4 1 3)) (socket_display sample_address)
        [104, 105] KText CText] \<and>
    queued_for sample_address (deliver_frame sample_env sample_ctx sample_address f (sample_linked 2 4 1 3)) = [ack] \<and>
    nw_events (deliver_frame sample_env sample_ctx sample_address ack A') = nw_events A' @
      [AeMessageDelivered (nickname_of sample_address A') (socket_display sample_address) (dr_message_id r)]"
proof -
  let ?key = "take 32 (pair_info sample_crypto (identity_from_secret sample_crypto (sample_secret 1))
    (ephemeral_from_secret sample_crypto (sample_secret 3)) (ni_public (identity_from_secret sample_crypto (sample_secret 2)))
    (ni_public (ephemeral_from_secret sample_crypto (sample_secret 4))) @ replicate 32 0)"
  have bob: "to_ascii_lowercase (trim (lit ''bob'')) = lit ''bob''" "trim (lit ''bob'') \<noteq> []"
    "to_ascii_lowercase (lit ''Bob'') = lit ''bob''"
    by (simp_all add: lit_def trim_id is_whitespace_def to_ascii_lowercase_def ascii_lower_def)
  have one: "filter (\<lambda>(r, p). nickname_matches (to_ascii_lowercase (trim (lit ''bob''))) p) (nw_peers (sample_linked 1 3 2 4)) =
      [(sample_address, sample_peer 3 2 4)]"
    by (simp add: nickname_matches_def bob) (simp add: sample_peer_def bob)
  have few: "\<not> sx_identity_busy sample_ctx" "length sample_tag = 16" "sample_secret 1 \<noteq> sample_secret 2"
    by (simp_all add: sample_ctx_def sample_tag_def sample_secret_def)
  have "encrypt_with sample_crypto (replicate 12 0) sample_manager ?key [104, 105] =
      Inr (replicate 12 0 @ [104, 105] @ sample_tag)"
    by (rule sample_encrypt) simp
  then show ?thesis
    using message_delivered [OF sample_env_ok _ _ _ sample_linked_wf sample_paired sample_paired one bob(2),
        of "replicate 12 0" sample_ctx sample_ctx ?key "[104, 105]" "replicate 12 0 @ [104, 105] @ sample_tag" KText CText sample_ctx]
    by (simp add: sample_dh_laws sample_aead_laws sample_linked_queue sample_public sample_pair_key NONCE_LENGTH_def few)
qed

text \<open>A message for a nickname nobody on the network has goes to the end of that nickname's
  outbox queue under a fresh id, unless the queue holds 32 messages already, and no connection is
  touched.\<close>

theorem offline_message_queued:
  assumes "trim nick \<noteq> []" "peer_senders (nickname_matches (to_ascii_lowercase (trim nick))) N = []"
    "encrypt (pe_crypto E) nonce (nw_crypto N) plain = Inr c" "network_contact_key E cx N nick = None"
    "outbox_queue (to_ascii_lowercase (trim nick)) (nw_outbox N) = q"
  shows "\<exists>r N'. send_to_peer E cx nonce nick plain k t N = (Inr r, N') \<and> nw_peers N' = nw_peers N \<and>
    (if length q < 32
     then r = SoQueued (nw_next_message_id N) (Suc (length q)) \<and>
       outbox_queue (to_ascii_lowercase (trim nick)) (nw_outbox N') =
         q @ [\<lparr>ob_message_id = nw_next_message_id N, ob_ciphertext = c, ob_kind = k, ob_content = t,
               ob_queued_at = sx_now cx\<rparr>]
     else r = SoDropped \<and> outbox_queue (to_ascii_lowercase (trim nick)) (nw_outbox N') = q)"
  using send_ciphertext_offline [OF assms(1,2), of cx c k t] assms(3,4,5)
  by (simp add: send_to_peer_def split_beta OUTBOX_CAPACITY_def)

theorem offline_message_queued_witness:
  "\<exists>r N'. send_to_peer sample_env sample_ctx (replicate 12 0) (lit ''carol'') [104] KText CText (sample_linked 1 3 2 4) = (Inr r, N') \<and>
    nw_peers N' = nw_peers (sample_linked 1 3 2 4) \<and> r = SoQueued 1 1 \<and>
    outbox_queue (lit ''carol'') (nw_outbox N') =
      [\<lparr>ob_message_id = 1, ob_ciphertext = replicate 12 0 @ [104] @ sample_tag, ob_kind = KText, ob_content = CText,
        ob_queued_at = 0\<rparr>]"
proof -
  have carol: "to_ascii_lowercase (trim (lit ''carol'')) = lit ''carol''" "trim (lit ''carol'') \<noteq> []"
    "to_ascii_lowercase (lit ''Bob'') \<noteq> lit ''carol''"
    by (simp_all add: lit_def trim_id is_whitespace_def to_ascii_lowercase_def ascii_lower_def)
  have no: "\<not> nickname_matches (lit ''carol'') (sample_peer 3 2 4)"
    using carol(3) by (simp add: nickname_matches_def) (simp add: sample_peer_def)
  have c: "encrypt sample_crypto (replicate 12 0) sample_manager [104] = Inr (replicate 12 0 @ [104] @ sample_tag)"
    unfolding encrypt_def by (rule sample_encrypt) (simp add: sample_manager_def)
  show ?thesis
    using offline_message_queued [OF carol(2), of "sample_linked 1 3 2 4" sample_env "replicate 12 0" "[104]"
        "replicate 12 0 @ [104] @ sample_tag" sample_ctx "[]" KText CText]
    by (simp add: carol(1) peer_senders_def no c network_contact_key_def Let_def outbox_queue_def unwrap_or_def)
      (simp add: sample_ctx_def)
qed

text \<open>C13: A greeting empties the outbox in order: when a connected peer announces a nickname, the
  messages queued for it that are younger than five minutes follow what its channel holds, in the
  order they were queued; only where the channel is full does a rest stay queued, in order, and
  no other nickname's queue changes.\<close>

theorem greeting_flushes_outbox:
  fixes N :: Network and cx :: step_ctx and E :: pin_env and a :: socket_addr
  assumes "peer_label (from_utf8_lossy payload) = Some nick"
  defines "key \<equiv> to_ascii_lowercase nick"
  defines "fresh \<equiv> filter (\<lambda>e. sx_now cx - ob_queued_at e < secs 300) (outbox_queue (to_ascii_lowercase nick) (nw_outbox N))"
  defines "N' \<equiv> dispatch E cx FRAME_HELLO payload a N"
  shows "\<exists>n \<le> length fresh.
    queued_for a N' = queued_for a N @ map entry_frame (take n fresh) \<and>
    outbox_queue key (nw_outbox N') = drop n fresh \<and>
    (n < length fresh \<longrightarrow> \<not> can_queue a N') \<and>
    (\<forall>j. j \<noteq> key \<longrightarrow> outbox_queue j (nw_outbox N') = outbox_queue j (nw_outbox N))"
proof -
  define N1 where "N1 = alter_peer a (\<lambda>p. p\<lparr>peer_nickname := Some nick\<rparr>) N"
  define N2 where "N2 = (case peer_field a peer_identity N1 of None \<Rightarrow> N1 | Some i \<Rightarrow> pin_identity E cx nick i N1)"
  obtain n N3 where f: "flush_outbox cx nick a N2 = (n, N3)" by (cases "flush_outbox cx nick a N2")
  have N': "N' = emit (AeNetworkEvent (NePeerConnected (socket_display a) [(lit ''nickname'', nick)])) N3"
    by (simp add: N'_def dispatch_def frame_kinds dispatch_hello_def assms(1) N1_def [symmetric] N2_def [symmetric] f Let_def)
  have e: "queued_for a N' = queued_for a N3" "can_queue a N' = can_queue a N3" "nw_outbox N' = nw_outbox N3"
    by (simp_all add: N' queued_for_def can_queue_def) (simp add: emit_def)
  have "queued_for a N1 = queued_for a N" "nw_outbox N1 = nw_outbox N"
    by (auto simp: N1_def alter_peer_def queued_for_def map_of_alter split: option.split)
  then have N2: "queued_for a N2 = queued_for a N" "nw_outbox N2 = nw_outbox N"
    by (auto simp: N2_def queued_for_def pin_identity_def split: option.split)
  have fresh: "fresh = filter (entry_fresh (sx_now cx)) (outbox_queue (to_ascii_lowercase nick) (nw_outbox N2))"
    by (simp add: fresh_def N2 entry_fresh_def [abs_def] OUTBOX_TTL_def)
  show ?thesis
    using flush_outbox_effect [OF f] by (intro exI [of _ n]) (simp add: e N2 fresh key_def)
qed

theorem greeting_flushes_outbox_witness:
  "let q = [\<lparr>ob_message_id = 1, ob_ciphertext = [1], ob_kind = KText, ob_content = CText, ob_queued_at = 0\<rparr>];
         N = (sample_linked 1 3 2 4)\<lparr>nw_outbox := [(lit ''bob'', q)]\<rparr>;
         N' = dispatch sample_env sample_ctx FRAME_HELLO (utf8_bytes (lit ''Bob'')) sample_address N
     in (queued_for sample_address N' = map entry_frame q \<and> outbox_queue (lit ''bob'') (nw_outbox N') = [] \<or>
        \<not> can_queue sample_address N')"
proof -
  let ?e = "\<lparr>ob_message_id = 1, ob_ciphertext = [1], ob_kind = KText, ob_content = CText, ob_queued_at = 0\<rparr>"
  let ?N = "(sample_linked 1 3 2 4)\<lparr>nw_outbox := [(lit ''bob'', [?e])]\<rparr>"
  have v: "valid_text (lit ''Bob'')" "to_ascii_lowercase (lit ''Bob'') = lit ''bob''"
    by (simp_all add: lit_def valid_text_def is_scalar_def to_ascii_lowercase_def ascii_lower_def)
  have "peer_label (lit ''Bob'') = Some (lit ''Bob'')"
    by (simp add: peer_label_Some displayable_def lit_def trim_id is_whitespace_def is_control_def MAX_NICKNAME_LEN_def)
  then have l: "peer_label (from_utf8_lossy (utf8_bytes (lit ''Bob''))) = Some (lit ''Bob'')"
    by (simp add: from_utf8_lossy_utf8_bytes v)
  have q: "outbox_queue (lit ''bob'') [(lit ''bob'', [?e])] = [?e]" "queued_for sample_address ?N = []"
    by (simp add: outbox_queue_def unwrap_or_def) (simp add: queued_for_def sample_peer_def channel_new_def)
  have t: "sx_now sample_ctx < secs 300" by (simp add: sample_ctx_def secs_def)
  obtain n where "n \<le> 1"
      "queued_for sample_address (dispatch sample_env sample_ctx FRAME_HELLO (utf8_bytes (lit ''Bob'')) sample_address ?N) =
        map entry_frame (take n [?e])"
      "outbox_queue (lit ''bob'') (nw_outbox (dispatch sample_env sample_ctx FRAME_HELLO (utf8_bytes (lit ''Bob'')) sample_address ?N)) =
        drop n [?e]"
      "n < 1 \<longrightarrow> \<not> can_queue sample_address (dispatch sample_env sample_ctx FRAME_HELLO (utf8_bytes (lit ''Bob'')) sample_address ?N)"
    using greeting_flushes_outbox [OF l, of sample_ctx ?N sample_address sample_env] by (auto simp: v q t)
  then show ?thesis by (cases n) (auto simp: Let_def)
qed

subsection \<open>The tables\<close>



subsection \<open>Deadlines\<close>

text \<open>C14: A connection that does not greet is dropped at its deadline at the latest: whatever frames it
  sends, at whatever moments, as long as none is a greeting with a displayable nickname, its read
  loop ends by the handshake timeout and its entry is gone.\<close>

theorem ungreeted_connection_ends:
  assumes "\<not> peer_greeted a N" "\<forall>i \<in> set inputs. \<not> greets i" "now + nw_handshake_timeout N < until"
    "read_loop E a until inputs (read_state_new now N) N = (st, N')"
  shows "\<exists>t reason. st = ReadEnded t reason \<and> t \<le> now + nw_handshake_timeout N \<and> map_of (nw_peers N') a = None"
proof -
  have "rd_greeting (read_state_new now N) = Some (now + nw_handshake_timeout N)"
    by (simp add: read_state_new_def)
  from read_loop_ungreeted [OF this assms] show ?thesis by blast
qed

theorem ungreeted_connection_ends_witness:
  "let c = (\<lambda>t. sample_ctx\<lparr>sx_now := t\<rparr>);
       inputs = [(c (secs 1), Inr (Some (FRAME_KEEPALIVE, []))), (c (secs 20), Inr (Some (FRAME_KEEPALIVE, [])))];
       N = register sample_env (sample_secret 3) sample_address sample_network
   in \<exists>t reason. fst (read_loop sample_env sample_address (secs 60) inputs (read_state_new 0 N) N) = ReadEnded t reason \<and>
     t \<le> 0 + nw_handshake_timeout N"
proof -
  let ?N = "register sample_env (sample_secret 3) sample_address sample_network"
  let ?c = "\<lambda>t. sample_ctx\<lparr>sx_now := t\<rparr>"
  let ?i = "[(?c (secs 1), Inr (Some (FRAME_KEEPALIVE, []))), (?c (secs 20), Inr (Some (FRAME_KEEPALIVE, [])))] :: read_input list"
  have v: "peer_view sample_address ?N = Some (peer_new sample_crypto (sample_secret 3))"
    using register_view [of sample_address sample_env] by simp
  have g: "\<not> peer_greeted sample_address ?N"
    by (simp add: peer_greeted_view v) (simp add: peer_new_def)
  have t: "nw_handshake_timeout ?N = secs 30"
    by (simp add: register_timeout sample_network_def network_new_def Let_def network_config_default_def)
  have i: "\<forall>i \<in> set ?i. \<not> greets i"
    by (simp add: greets_def greeting_label_def frame_kinds)
  obtain st N' where r: "read_loop sample_env sample_address (secs 60) ?i (read_state_new 0 ?N) ?N = (st, N')"
    by (cases "read_loop sample_env sample_address (secs 60) ?i (read_state_new 0 ?N) ?N")
  have u: "0 + nw_handshake_timeout ?N < secs 60" by (simp add: t secs_def)
  show ?thesis using ungreeted_connection_ends [OF g i u r] unfolding Let_def r fst_conv by blast
qed

text \<open>A greeted connection is dropped for silence and only for silence: while frames keep arriving
  within the idle timeout of each other its read loop goes on, and when a peer that has sent a
  keepalive is silent for the idle timeout the loop ends at that very moment.\<close>

theorem idle_timeout_exact:
  assumes "rd_greeting r = None"
  shows "(steady (nw_idle_timeout N) (rd_last r) inputs \<longrightarrow> until \<le> last_input (rd_last r) inputs + nw_idle_timeout N \<longrightarrow>
      fst (read_loop E a until inputs r N) = ReadPending) \<and>
    (rd_armed r \<longrightarrow> rd_last r + nw_idle_timeout N < until' \<longrightarrow>
      (\<exists>reason N'. read_loop E a until' [] r N = (ReadEnded (rd_last r + nw_idle_timeout N) reason, N') \<and>
        map_of (nw_peers N') a = None))"
  using read_loop_steady [OF assms] read_loop_silent [OF assms] by auto

theorem idle_timeout_exact_witness:
  "let r = \<lparr>rd_greeting = None, rd_last = 0, rd_armed = True\<rparr>;
       inputs = [(sample_ctx\<lparr>sx_now := secs 59\<rparr>, Inr (Some (FRAME_KEEPALIVE, [])))]
   in fst (read_loop sample_env sample_address (secs 119) inputs r sample_network) = ReadPending \<and>
     (\<exists>reason N'. read_loop sample_env sample_address (secs 61) [] r sample_network = (ReadEnded (secs 60) reason, N'))"
proof -
  have t: "nw_idle_timeout sample_network = secs 60"
    by (simp add: sample_network_def network_new_def Let_def IDLE_TIMEOUT_def)
  show ?thesis
    using idle_timeout_exact [of "\<lparr>rd_greeting = None, rd_last = 0, rd_armed = True\<rparr>" sample_network
        "[(sample_ctx\<lparr>sx_now := secs 59\<rparr>, Inr (Some (FRAME_KEEPALIVE, [])))]" "secs 119" sample_env sample_address "secs 61"]
    unfolding t Let_def by (simp add: secs_def del: read_loop.simps) blast
qed

subsection \<open>Desired peers\<close>

text \<open>C15: A desired peer whose connection ends is connected again: when every address the supervisor's
  next pass dials answers, each desired address is then resolved to a connection that is in the
  peer table, the lost one included.\<close>

theorem lost_peer_reconnects:
  assumes "linked N" "distinct (map fst (nw_desired N))" "map_of (nw_desired N) address = Some d"
    "dp_resolved d = Some a"
    "\<forall>b \<in> set (pending_addresses (read_end a reason N)). \<exists>remote secret. dial b = (Inr remote, secret)"
  shows "address \<in> set (pending_addresses (read_end a reason N)) \<and>
    (\<exists>d' r. map_of (nw_desired (supervise_pass E cx dial (read_end a reason N))) address = Some d' \<and>
      dp_resolved d' = Some r \<and> r \<in> set (map fst (nw_peers (supervise_pass E cx dial (read_end a reason N)))))"
  using read_end_pending [OF assms(2-4)] redialled [OF assms(1-3)] assms(5) by blast

theorem lost_peer_reconnects_witness:
  "let N = (sample_linked 1 3 2 4)\<lparr>nw_desired := [(lit ''peer:1'', \<lparr>dp_resolved = Some sample_address, dp_attempts = 0\<rparr>)]\<rparr>;
       N' = supervise_pass sample_env sample_ctx (\<lambda>b. (Inr sample_address, sample_secret 5)) (read_end sample_address [] N)
   in \<exists>d' r. map_of (nw_desired N') (lit ''peer:1'') = Some d' \<and> dp_resolved d' = Some r \<and> r \<in> set (map fst (nw_peers N'))"
proof -
  let ?N = "(sample_linked 1 3 2 4)\<lparr>nw_desired := [(lit ''peer:1'', \<lparr>dp_resolved = Some sample_address, dp_attempts = 0\<rparr>)]\<rparr>"
  have "linked ?N" by (auto simp: linked_def)
  from lost_peer_reconnects [OF this, of "lit ''peer:1''" _ sample_address "[]" "\<lambda>b. (Inr sample_address, sample_secret 5)"
      sample_env sample_ctx]
  show ?thesis by (auto simp: Let_def simp del: set_map)
qed

text \<open>C20: A connection that ends before its address is marked resolved strands the address: from any
  state with an address the supervisor is about to dial, its tasks can interleave so that the
  address ends up resolved to a connection that does not exist, and then no pass of the supervisor
  dials it or changes its entry.\<close>

theorem resolved_address_can_strand:
  assumes "address \<in> set (pending_addresses (tk_network t))" "tk_marks t = []"
    "distinct (map fst (nw_desired (tk_network t)))"
  shows "\<exists>t'. tasks_reach E t t' \<and> tk_marks t' = [] \<and> stranded address remote (tk_network t') \<and>
    address \<notin> set (pending_addresses (tk_network t')) \<and>
    (\<forall>cx dial. map_of (nw_desired (supervise_pass E cx dial (tk_network t'))) address =
      map_of (nw_desired (tk_network t')) address)"
proof -
  obtain t' where t': "tasks_reach E t t'" "tk_marks t' = []" "stranded address remote (tk_network t')"
      "distinct (map fst (nw_desired (tk_network t')))"
    using stranded_reachable [OF assms] by blast
  show ?thesis using t' stranded_not_pending [OF t'(4,3)] stranded_pass [OF t'(4,3)] by blast
qed

theorem resolved_address_can_strand_witness:
  "\<exists>t'. tasks_reach sample_env \<lparr>tk_network = desire_peer (lit ''peer:1'') sample_network, tk_marks = []\<rparr> t' \<and>
    stranded (lit ''peer:1'') sample_address (tk_network t')"
proof -
  let ?N = "desire_peer (lit ''peer:1'') sample_network"
  have d: "nw_desired ?N = [(lit ''peer:1'', desired_default)]"
    by (simp add: desire_peer_def lit_def trim_id is_whitespace_def sample_network_def network_new_def Let_def)
  show ?thesis
    using resolved_address_can_strand [of "lit ''peer:1''" "\<lparr>tk_network = ?N, tk_marks = []\<rparr>" sample_env sample_address]
    by (auto simp: pending_addresses_def d desired_default_def)
qed

end
