(* ===== verification/SecurityGuarantees.thy ===== *)
theory SecurityGuarantees
  imports Trust Samples
begin

section \<open>What encryption, identities and pins guarantee\<close>

text \<open>
  The properties of \<^verbatim>\<open>crypto.rs\<close>, \<^verbatim>\<open>identity.rs\<close> and \<^verbatim>\<open>trust.rs\<close> of \<^verbatim>\<open>meta-text-backend\<close>,
  each followed by a concrete instance.
\<close>

definition sample_key :: "u8 \<Rightarrow> rtext" where
  "sample_key n = hex_encode_upper sample_hex (replicate 32 n)"

lemma sample_key_normal: "normalize_key sample_env (sample_key n) = Some (sample_key n)"
  using decode_key_encode [OF sample_hex_laws, of "replicate 32 n" PUBLIC_KEY_LENGTH]
  by (simp add: normalize_key_def public_key_from_hex_def sample_key_def PUBLIC_KEY_LENGTH_def)

lemma sample_key_neq: "sample_key 1 \<noteq> sample_key 2"
proof
  assume "sample_key 1 = sample_key 2"
  then have "Inr (replicate 32 (1 :: u8)) = (Inr (replicate 32 2) :: rtext + bytes)"
    by (metis sample_key_def hex_laws_decode(2) [OF sample_hex_laws])
  then show False by simp
qed

lemma bob_normal: "normalize_nickname sample_env (lit ''Bob'') = lit ''bob''" "lit ''bob'' \<noteq> []"
  by (simp_all add: normalize_nickname_def lit_def trim_id is_whitespace_def to_ascii_lowercase_def ascii_lower_def)

definition sample_store :: PinStore where
  "sample_store = (pin_store_with_path True FileMissing)\<lparr>ps_pins :=
     [(lit ''bob'', \<lparr>pin_public_key = sample_key 1, pin_first_seen = 0, pin_changed = False, pin_change_written = False\<rparr>)]\<rparr>"

lemma sample_store_pins [simp]:
  "ps_pins sample_store =
     [(lit ''bob'', \<lparr>pin_public_key = sample_key 1, pin_first_seen = 0, pin_changed = False, pin_change_written = False\<rparr>)]"
  "ps_persistent sample_store"
  by (simp_all add: sample_store_def pin_store_with_path_def)

lemma bob_lower: "normalize_nickname sample_env (lit ''bob'') = lit ''bob''"
  by (simp add: normalize_nickname_def lit_def trim_id is_whitespace_def to_ascii_lowercase_def ascii_lower_def)

lemma sample_store_pinned: "pinned sample_env sample_store (lit ''Bob'') = Some (sample_key 1)"
  by (simp add: pinned_def bob_normal)

lemma sample_store_wf: "pins_wf sample_env (ps_pins sample_store)"
  by (simp add: pins_wf_def pin_ok_def PIN_CAPACITY_def bob_lower bob_normal sample_key_normal)

subsection \<open>Pins\<close>



text \<open>A changed key cannot be hidden: once a pinned nickname announced another key, the nickname is
  listed as changed after whatever announcements follow in the same run, even if the first key
  comes back.\<close>

theorem changed_key_stays_marked:
  assumes "normalize_nickname E n \<noteq> []" "normalize_key E k = Some key" "pinned E s n = Some old" "old \<noteq> key"
  shows "marked E (fst (observe_all E later (snd (observe E w now n k s)))) n"
proof -
  have "marked E (snd (observe E w now n k s)) n"
    using observe_outcome(1) [OF assms(1,2), of w now s] assms(3,4) observe_marks [of E w now n k s n] by simp
  moreover have "marked E s n \<Longrightarrow> marked E (fst (observe_all E as s)) n" for as s
  proof (induction as arbitrary: s)
    case (Cons a as)
    obtain t w m j where a: "a = (t, w, m, j)" by (cases a)
    have "marked E (snd (observe E w t m j s)) n" using Cons.prems by (simp add: observe_marks)
    then show ?case using Cons.IH by (simp add: a split_beta Let_def)
  qed simp
  ultimately show ?thesis by blast
qed

theorem changed_key_stays_marked_witness:
  "marked sample_env
     (fst (observe_all sample_env [(9, True, lit ''Bob'', sample_key 1)]
       (snd (observe sample_env True 5 (lit ''Bob'') (sample_key 2) sample_store)))) (lit ''Bob'')"
  by (rule changed_key_stays_marked [OF _ sample_key_normal sample_store_pinned sample_key_neq]) (simp add: bob_normal)

text \<open>Announcements cannot wear out the disk: from whatever file the store was loaded, any sequence
  of announcements of any length makes it write its file at most 2048 times.\<close>

theorem pin_writes_bounded:
  assumes "hex_laws (pe_hex E)" "lower_laws E"
  shows "snd (observe_all E as (pin_store_load E f)) \<le> 2048"
proof -
  have wf: "pins_wf E (ps_pins (pin_store_load E f))" by (rule pin_store_load_wf [OF assms])
  then have "write_budget (ps_pins (pin_store_load E f)) \<le> 2048"
    using write_budget_bound [of "ps_pins (pin_store_load E f)"] by (auto simp: pins_wf_def PIN_CAPACITY_def)
  then show ?thesis using observe_all_budget [OF assms wf, of as] by simp
qed

theorem pin_writes_bounded_witness:
  "snd (observe_all sample_env [(1, True, lit ''Bob'', sample_key 1), (2, True, lit ''Bob'', sample_key 2)]
     (pin_store_load sample_env FileMissing)) \<le> 2048"
  using pin_writes_bounded [of sample_env] sample_env_ok by (simp add: env_ok_def)

text \<open>C18: Pins survive a restart: loading the file a store has written gives every nickname the key and
  the date it had, with nothing dropped; only the marks of the run are cleared.\<close>

theorem pins_survive_restart:
  assumes "pins_wf E (ps_pins s)" "ps_persistent s"
    "to_json (pe_json E) (snapshot s) = Inr bs" "from_json (pe_json E) bs = Inr (snapshot s)"
  shows "(\<forall>n. pinned E (pin_store_load E (ps_file (persist E True s))) n = pinned E s n \<and>
      map_option pin_first_seen (map_of (ps_pins (pin_store_load E (ps_file (persist E True s)))) n) =
        map_option pin_first_seen (map_of (ps_pins s) n)) \<and>
    ps_refused (pin_store_load E (ps_file (persist E True s))) = 0"
proof -
  let ?m = "map_of (ps_pins s)"
  have l: "map_of (ps_pins (pin_store_load E (ps_file (persist E True s)))) = map_option fresh_pin \<circ> ?m"
    "ps_refused (pin_store_load E (ps_file (persist E True s))) = 0"
    using load_persisted [OF assms] by simp_all
  have "pin_public_key \<circ> fresh_pin = pin_public_key" "pin_first_seen \<circ> fresh_pin = pin_first_seen"
    by (simp_all add: fun_eq_iff fresh_pin_def)
  then show ?thesis by (simp add: pinned_def l option.map_comp)
qed

theorem pins_survive_restart_witness:
  "let E = sample_env\<lparr>pe_json := \<lparr>to_json = (\<lambda>s. Inr [1]), from_json = (\<lambda>b. Inr (snapshot sample_store))\<rparr>\<rparr>
   in pinned E (pin_store_load E (ps_file (persist E True sample_store))) (lit ''Bob'') = Some (sample_key 1)"
proof -
  let ?E = "sample_env\<lparr>pe_json := \<lparr>to_json = (\<lambda>s. Inr [1]), from_json = (\<lambda>b. Inr (snapshot sample_store))\<rparr>\<rparr>"
  have n: "normalize_nickname ?E = normalize_nickname sample_env" "normalize_key ?E = normalize_key sample_env"
    by (simp_all add: fun_eq_iff normalize_nickname_def normalize_key_def)
  have "pins_wf ?E (ps_pins sample_store)" using sample_store_wf by (simp add: pins_wf_def pin_ok_def n)
  from pins_survive_restart [OF this, of "[1]"] have
    "pinned ?E (pin_store_load ?E (ps_file (persist ?E True sample_store))) (lit ''Bob'') = pinned ?E sample_store (lit ''Bob'')"
    by simp
  moreover have "pinned ?E sample_store (lit ''Bob'') = Some (sample_key 1)"
    using sample_store_pinned by (simp add: pinned_def n)
  ultimately show ?thesis by (simp add: Let_def)
qed

subsection \<open>Encryption\<close>

text \<open>C16: Two ends with one passphrase read each other: whatever text one of them encrypts with whatever
  fresh nonce, the other decrypts to exactly that text, and a ciphertext is 28 bytes longer than
  the text's UTF-8 form.\<close>

theorem passphrase_ends_agree:
  assumes "aead_laws L" "from_passphrase L ca pass = Inr a" "from_passphrase L cb pass = Inr b"
    "cm_enabled a" "cm_enabled b" "length nonce = 12" "valid_text s" "encrypt_string L nonce a s = Inr c"
  shows "decrypt_string L ue b c = Inr s \<and> length c = utf8_len s + 28"
proof -
  have k: "cm_key a = cm_key b" by (rule from_passphrase_shared [OF assms(2,3)])
  have c: "encrypt_with L nonce a (cm_key a) (utf8_bytes s) = Inr c"
    using assms(8) by (simp add: encrypt_string_def encrypt_def)
  have "encrypt_string L nonce b s = Inr c"
    using c assms(4,5) by (simp add: encrypt_string_def encrypt_def encrypt_with_def k)
  then have "decrypt_string L ue b c = Inr s"
    using decrypt_string_encrypt_string [OF assms(1) _ assms(7)] assms(6) by (simp add: NONCE_LENGTH_def)
  moreover have "length c = utf8_len s + 28"
    using encrypt_with_length [OF assms(1) _ assms(4) c] assms(6) by (simp add: NONCE_LENGTH_def)
  ultimately show ?thesis by simp
qed

theorem passphrase_ends_agree_witness:
  "\<exists>a c. from_passphrase sample_crypto crypto_config_default (lit ''open sesame'') = Inr a \<and>
    encrypt_string sample_crypto (replicate 12 0) a [104, 233, 128512] = Inr c \<and>
    decrypt_string sample_crypto (\<lambda>b. []) a c = Inr [104, 233, 128512] \<and> length c = 35"
proof -
  have salt: "\<not> length PASSPHRASE_SALT < MIN_SALT_LENGTH"
    by (simp add: PASSPHRASE_SALT_def ascii_bytes_def lit_def utf8_len_def utf8_width_def MIN_SALT_LENGTH_def)
  define key where "key = take 32 (utf8_bytes (lit ''open sesame'') @ replicate 32 0)"
  have "argon2 sample_crypto (utf8_bytes (lit ''open sesame'')) salt' = Inr key" for salt'
    by (simp add: sample_crypto_def key_def)
  moreover have "length key = 32" by (simp add: key_def)
  ultimately obtain a where a: "from_passphrase sample_crypto crypto_config_default (lit ''open sesame'') = Inr a" "cm_enabled a"
      "length (cm_key a) = 32"
    by (simp add: from_passphrase_def derive_key_def salt with_key_def KEY_LENGTH_def)
      (simp add: crypto_config_default_def)
  then obtain c where c: "encrypt_string sample_crypto (replicate 12 0) a [104, 233, 128512] = Inr c"
    by (simp add: encrypt_string_def encrypt_def encrypt_with_def checked_key_def KEY_LENGTH_def sample_crypto_def)
  have "valid_text [104, 233, 128512]" "utf8_len [104, 233, 128512] = 7"
    by (simp_all add: valid_text_def is_scalar_def utf8_len_def utf8_width_def)
  then show ?thesis
    using passphrase_ends_agree [OF sample_aead_laws a(1) a(1) a(2) a(2) _ _ c] a(1) c by auto
qed

text \<open>Both ends of a connection compute the same key, each from its own secrets and the other's
  public keys, when their static keys differ; the older key of two identities is the same from
  both ends always.\<close>

theorem connection_key_agreed:
  assumes "dh_laws L" "x25519 L a (x25519_base L) \<noteq> x25519 L b (x25519_base L)"
  shows "pair_key L session (identity_from_secret L a) (ephemeral_from_secret L ea)
      (ni_public (identity_from_secret L b)) (ni_public (ephemeral_from_secret L eb)) =
    pair_key L session (identity_from_secret L b) (ephemeral_from_secret L eb)
      (ni_public (identity_from_secret L a)) (ni_public (ephemeral_from_secret L ea)) \<and>
    contact_key L session x y = contact_key L session y x"
proof -
  have "ni_public (identity_from_secret L a) \<noteq> ni_public (identity_from_secret L b)"
    using assms(2) by (simp add: identity_from_secret_def)
  from pair_key_sym [OF assms(1) refl refl refl refl this] contact_key_sym show ?thesis by blast
qed

theorem connection_key_agreed_witness:
  "pair_key sample_crypto [] (identity_from_secret sample_crypto (replicate 32 1)) (ephemeral_from_secret sample_crypto (replicate 32 3))
      (ni_public (identity_from_secret sample_crypto (replicate 32 2))) (ni_public (ephemeral_from_secret sample_crypto (replicate 32 4))) =
   pair_key sample_crypto [] (identity_from_secret sample_crypto (replicate 32 2)) (ephemeral_from_secret sample_crypto (replicate 32 4))
      (ni_public (identity_from_secret sample_crypto (replicate 32 1))) (ni_public (ephemeral_from_secret sample_crypto (replicate 32 3)))"
proof -
  have "x25519 sample_crypto (replicate 32 1) (x25519_base sample_crypto) \<noteq>
      x25519 sample_crypto (replicate 32 2) (x25519_base sample_crypto)"
    by (simp add: sample_crypto_def zip_replicate)
  from connection_key_agreed [OF sample_dh_laws this] show ?thesis by blast
qed

text \<open>C19: A node keeps its identity: whatever the identity file held, once a start could write it every
  later start, with other random bytes and even with the file now read-only, has the same identity
  and leaves the file as it is.\<close>

theorem identity_stable:
  assumes "hex_laws H" "\<forall>s. \<exists>bs. to_json J s = Inr bs \<and> from_json J bs = Inr s"
    "length r = 32" "load_or_create L H J True r f = (i, f')"
  shows "load_or_create L H J w r' f' = (i, f')"
proof (rule load_or_create_again [OF assms(1) _ _ _ assms(4)])
  fix s
  obtain bs where "to_json J s = Inr bs" "from_json J bs = Inr s" using assms(2) by blast
  then show "case to_json J s of Inl e \<Rightarrow> True | Inr bs \<Rightarrow> from_json J bs = Inr s"
    "\<exists>bs. to_json J s = Inr bs" by auto
qed (use assms(3) in \<open>simp add: SECRET_LENGTH_def KEY_LENGTH_def\<close>)

theorem identity_stable_witness:
  "let J = sample_json; first = load_or_create sample_crypto sample_hex J True (replicate 32 9) FileUnreadable
   in load_or_create sample_crypto sample_hex J False (replicate 32 5) (snd first) = first"
  using identity_stable [OF sample_hex_laws sample_json_laws, of "replicate 32 9" sample_crypto FileUnreadable]
  by (simp add: Let_def prod_eq_iff)

end
