(* ===== verification/Client.thy ===== *)
theory Client
  imports Server
begin

section \<open>The front-end's side of the protocol (\<^verbatim>\<open>meta-text-core/src/ipc/client.rs\<close>)\<close>

text \<open>
  The greeting, the table of requests that wait for an answer, and the pump that reads the
  connection. \<open>rc_results\<close> is what the calls of \<open>request\<close> have returned, in order;
  \<open>rc_pumping\<close> is whether the pump still takes messages. A request ends in one of four ways:
  its response, its timeout, the end of the pump, or a connection that was closed before it began.
\<close>

definition DEFAULT_REQUEST_TIMEOUT :: duration where "DEFAULT_REQUEST_TIMEOUT = secs 30"
definition INBOUND_QUEUE_CAPACITY :: nat where "INBOUND_QUEUE_CAPACITY = 128"

record RemoteClient =
  rc_next_id :: u64
  rc_waiting :: "u64 list"
  rc_outbox :: "ClientMessage list"
  rc_events :: "CoreEvent list"
  rc_closed :: bool
  rc_pumping :: bool
  rc_results :: "(u64 \<times> (ErrorInfo + Reply)) list"

definition remote_client_new :: RemoteClient where
  "remote_client_new =
     \<lparr>rc_next_id = 1, rc_waiting = [], rc_outbox = [], rc_events = [], rc_closed = False,
      rc_pumping = True, rc_results = []\<rparr>"

text \<open>\<open>connect\<close>: what happened to the dial, the greeting and the first message.\<close>

datatype dial_outcome = DialTimeout | DialFailed rtext | DialOk

datatype first_reply = FirstTimeout | FirstFailed rtext | FirstMessage "ServerMessage option"

definition client_connect ::
  "(ServerMessage \<Rightarrow> rtext) \<Rightarrow> rtext \<Rightarrow> dial_outcome \<Rightarrow> rtext option \<Rightarrow> first_reply \<Rightarrow> ErrorInfo + RemoteClient" where
  "client_connect debug_message address dialled write_error first =
     (case dialled of
        DialTimeout \<Rightarrow> Inl (error_info_new EcTimeout (lit ''connecting to '' @ address @ lit '' timed out''))
      | DialFailed e \<Rightarrow> Inl (error_info_new EcNetwork (lit ''cannot reach '' @ address @ lit '': '' @ e))
      | DialOk \<Rightarrow>
          (case write_error of
             Some e \<Rightarrow> Inl (error_info_new EcNetwork (lit ''handshake failed: '' @ e))
           | None \<Rightarrow>
               (case first of
                  FirstTimeout \<Rightarrow> Inl (error_info_new EcTimeout (lit ''the handshake reply timed out''))
                | FirstFailed e \<Rightarrow> Inl (error_info_new EcNetwork (lit ''handshake failed: '' @ e))
                | FirstMessage None \<Rightarrow>
                    Inl (error_info_new EcNetwork (lit ''the server closed the connection during the handshake''))
                | FirstMessage (Some (SmWelcome v session)) \<Rightarrow> Inr remote_client_new
                | FirstMessage (Some (SmRejected e)) \<Rightarrow> Inl e
                | FirstMessage (Some other) \<Rightarrow>
                    Inl (error_info_new EcUnsupportedProtocol
                      (lit ''unexpected handshake reply: '' @ debug_message other)))))"

definition client_greeting :: "rtext option \<Rightarrow> rtext \<Rightarrow> ClientMessage" where
  "client_greeting token name = CmHello PROTOCOL_VERSION token name"

definition closed_error :: ErrorInfo where
  "closed_error = error_info_new EcNetwork (lit ''the connection to the core service is closed'')"

definition dropped_error :: ErrorInfo where
  "dropped_error = error_info_new EcNetwork (lit ''the core service closed before replying'')"

definition timeout_error :: ErrorInfo where
  "timeout_error = error_info_new EcTimeout (lit ''the core service did not reply in time'')"

text \<open>
  \<open>request\<close> up to the point where it waits: the id it waits for, or the error it returned. A
  message for a pump that is gone is refused and the table entry forgotten.
\<close>

definition client_request :: "Request \<Rightarrow> RemoteClient \<Rightarrow> (ErrorInfo + u64) \<times> RemoteClient" where
  "client_request request c =
     (if rc_closed c then (Inl closed_error, c)
      else
        (let rid = rc_next_id c;
             c1 = c\<lparr>rc_next_id := rid + 1, rc_waiting := rc_waiting c @ [rid]\<rparr>
         in if rc_pumping c
            then (Inr rid, c1\<lparr>rc_outbox := rc_outbox c1 @ [CmRequest rid request]\<rparr>)
            else (Inl closed_error, c1\<lparr>rc_waiting := remove1 rid (rc_waiting c1)\<rparr>)))"

definition client_timeout :: "u64 \<Rightarrow> RemoteClient \<Rightarrow> RemoteClient" where
  "client_timeout rid c =
     (if rid \<in> set (rc_waiting c)
      then c\<lparr>rc_waiting := remove1 rid (rc_waiting c), rc_results := rc_results c @ [(rid, Inl timeout_error)]\<rparr>
      else c)"

definition client_goodbye :: "RemoteClient \<Rightarrow> RemoteClient" where
  "client_goodbye c = (if rc_pumping c then c\<lparr>rc_outbox := rc_outbox c @ [CmGoodbye]\<rparr> else c)"

text \<open>The end of the pump: later calls are refused, and the waiting ones get an error.\<close>

definition pump_end :: "RemoteClient \<Rightarrow> RemoteClient" where
  "pump_end c =
     c\<lparr>rc_closed := True, rc_pumping := False, rc_waiting := [],
       rc_results := rc_results c @ map (\<lambda>i. (i, Inl dropped_error)) (rc_waiting c)\<rparr>"

definition pump_incoming :: "io_error + ServerMessage option \<Rightarrow> RemoteClient \<Rightarrow> RemoteClient" where
  "pump_incoming incoming c =
     (case incoming of
        Inr (Some (SmResponse rid result)) \<Rightarrow>
          if rid \<in> set (rc_waiting c)
          then c\<lparr>rc_waiting := remove1 rid (rc_waiting c), rc_results := rc_results c @ [(rid, into_result result)]\<rparr>
          else c
      | Inr (Some (SmEvent e)) \<Rightarrow> c\<lparr>rc_events := rc_events c @ [e]\<rparr>
      | Inr (Some (SmRejected e)) \<Rightarrow> pump_end c
      | Inr (Some (SmWelcome v s)) \<Rightarrow> pump_end c
      | Inr None \<Rightarrow> pump_end c
      | Inl e \<Rightarrow> pump_end c)"

text \<open>The oldest outgoing message, written or failed.\<close>

definition pump_outgoing :: "bool \<Rightarrow> RemoteClient \<Rightarrow> ClientMessage option \<times> RemoteClient" where
  "pump_outgoing written c =
     (case rc_outbox c of
        [] \<Rightarrow> (None, c)
      | m # rest \<Rightarrow>
          if written then (Some m, c\<lparr>rc_outbox := rest\<rparr>) else (None, pump_end (c\<lparr>rc_outbox := rest\<rparr>)))"

subsection \<open>Every request returns at most once\<close>

inductive client_step :: "RemoteClient \<Rightarrow> RemoteClient \<Rightarrow> bool" where
  step_request: "client_step c (snd (client_request request c))"
| step_timeout: "client_step c (client_timeout rid c)"
| step_goodbye: "client_step c (client_goodbye c)"
| step_incoming: "rc_pumping c \<Longrightarrow> client_step c (pump_incoming incoming c)"
| step_outgoing: "rc_pumping c \<Longrightarrow> client_step c (snd (pump_outgoing written c))"

text \<open>\<open>n\<close> counts the requests: the invariant holds until the 64-bit ids run out.\<close>

inductive client_reach :: "nat \<Rightarrow> RemoteClient \<Rightarrow> bool" where
  client_start: "client_reach 1 remote_client_new"
| client_next: "client_reach n c \<Longrightarrow> client_step c c' \<Longrightarrow>
    client_reach (if rc_next_id c' = rc_next_id c then n else Suc n) c'"

definition client_inv :: "nat \<Rightarrow> RemoteClient \<Rightarrow> bool" where
  "client_inv n c \<longleftrightarrow>
     unat (rc_next_id c) = n \<and> distinct (rc_waiting c @ map fst (rc_results c)) \<and>
     (\<forall>i \<in> set (rc_waiting c @ map fst (rc_results c)). unat i < n) \<and> (rc_closed c \<longrightarrow> rc_waiting c = [])"

lemma client_inv_new: "client_inv 1 remote_client_new"
  by (simp add: client_inv_def remote_client_new_def)

lemma next_id_unat: "unat (w :: u64) = n \<Longrightarrow> Suc n < 2 ^ 64 \<Longrightarrow> unat (w + 1) = Suc n"
  by (simp add: unat_word_ariths)

lemma distinct_move: "distinct (xs @ ys) \<Longrightarrow> x \<in> set xs \<Longrightarrow> distinct (remove1 x xs @ ys @ [x])"
  by (auto simp: distinct_remove1 dest: notin_set_remove1)

lemma client_request_inv:
  assumes "client_inv n c" "Suc n < 2 ^ 64"
  shows "client_inv (if rc_next_id (snd (client_request r c)) = rc_next_id c then n else Suc n) (snd (client_request r c))"
proof (cases "rc_closed c")
  case True
  then show ?thesis using assms(1) by (simp add: client_request_def)
next
  case False
  have n1: "unat (rc_next_id c + 1) = Suc n"
    using assms by (intro next_id_unat) (simp_all add: client_inv_def)
  have ne: "rc_next_id c + 1 \<noteq> rc_next_id c" by simp
  have new: "rc_next_id c \<notin> set (rc_waiting c @ map fst (rc_results c))"
    using assms(1) by (auto simp: client_inv_def)
  show ?thesis
    using False assms(1) new n1 ne
    by (auto simp: client_request_def Let_def client_inv_def less_Suc_eq remove1_append)
qed

lemma pump_end_inv: "client_inv n c \<Longrightarrow> client_inv n (pump_end c)"
  by (auto simp: client_inv_def pump_end_def comp_def)

lemma client_step_inv:
  assumes "client_step c c'" "client_inv n c" "Suc n < 2 ^ 64"
  shows "client_inv (if rc_next_id c' = rc_next_id c then n else Suc n) c'"
  using assms
proof (induction rule: client_step.induct)
  case (step_request c request)
  then show ?case by (intro client_request_inv)
next
  case (step_timeout c rid)
  then show ?case
    using distinct_move [of "rc_waiting c" "map fst (rc_results c)" rid]
    by (auto simp: client_timeout_def client_inv_def dest: notin_set_remove1)
next
  case (step_goodbye c)
  then show ?case by (simp add: client_goodbye_def client_inv_def)
next
  case (step_incoming c incoming)
  have e: "rc_next_id (pump_end c) = rc_next_id c" by (simp add: pump_end_def)
  have m: "client_inv n (c\<lparr>rc_waiting := remove1 rid (rc_waiting c), rc_results := rc_results c @ [(rid, res)]\<rparr>)"
    if "rid \<in> set (rc_waiting c)" for rid res
    using that step_incoming(2) distinct_move [of "rc_waiting c" "map fst (rc_results c)" rid]
    by (auto simp: client_inv_def dest: notin_set_remove1)
  show ?case
    using step_incoming(2) pump_end_inv [OF step_incoming(2)] m e
    by (auto simp: pump_incoming_def client_inv_def split: sum.splits option.splits ServerMessage.splits)
next
  case (step_outgoing c written)
  have "client_inv n (c\<lparr>rc_outbox := v\<rparr>)" for v
    using step_outgoing(2) by (simp add: client_inv_def)
  moreover have "rc_next_id (pump_end (c\<lparr>rc_outbox := v\<rparr>)) = rc_next_id c" for v
    by (simp add: pump_end_def)
  ultimately show ?case
    using pump_end_inv step_outgoing(2) by (simp add: pump_outgoing_def split: list.splits)
qed

lemma client_reach_inv: "client_reach n c \<Longrightarrow> Suc n < 2 ^ 64 \<Longrightarrow> client_inv n c"
proof (induction rule: client_reach.induct)
  case client_start
  then show ?case using client_inv_new by simp
next
  case (client_next n c c')
  then have b: "Suc n < 2 ^ 64" by (simp split: if_splits)
  show ?case by (rule client_step_inv [OF client_next.hyps(2) client_next.IH [OF b] b])
qed

text \<open>No request ever returns twice, and a closed client has no request left waiting.\<close>

lemma client_returns_once:
  assumes "client_reach n c" "Suc n < 2 ^ 64"
  shows "distinct (map fst (rc_results c))" "rc_closed c \<Longrightarrow> rc_waiting c = []"
  using client_reach_inv [OF assms] by (simp_all add: client_inv_def)

text \<open>A response reaches exactly the request that waits for its id.\<close>

lemma pump_response:
  "rid \<in> set (rc_waiting c) \<Longrightarrow>
   rc_results (pump_incoming (Inr (Some (SmResponse rid result))) c) = rc_results c @ [(rid, into_result result)]"
  "rid \<notin> set (rc_waiting c) \<Longrightarrow> pump_incoming (Inr (Some (SmResponse rid result))) c = c"
  by (simp_all add: pump_incoming_def)

end
