(* ===== verification/Endpoint.thy ===== *)
theory Endpoint
  imports Server
begin

section \<open>The listening endpoint (\<^verbatim>\<open>meta-text-core/src/ipc/server.rs\<close>)\<close>

text \<open>
  The accept loop and the connections it serves side by side. Every connection holds one permit
  from its acceptance to its end; all of them share the request budgets and the core. A step of
  the endpoint is one step of one of its tasks, so a run of steps is one interleaving of them. The
  connection number, the greeting a connection was attached by and the log of refused streams are
  recorded and never read by a step. The core may change between steps, as other front ends and
  its own timers use it.
\<close>

datatype phase = Greeting | Serving hello_read conn

record client_conn =
  cc_peer :: socket_addr
  cc_phase :: phase

record 's endpoint =
  ep_permits :: nat
  ep_next :: nat
  ep_conns :: "(nat \<times> client_conn) list"
  ep_refused :: "socket_addr list"
  ep_budgets :: PeerBudgets
  ep_core :: 's

text \<open>\<open>bind\<close> with the outcome of binding the socket as an argument, and \<open>run\<close> up to its loop.\<close>

record CoreServer =
  srv_listener :: socket_addr
  srv_permits :: nat

definition server_bind :: "rtext + socket_addr \<Rightarrow> rtext + CoreServer" where
  "server_bind bound =
     (case bound of
        Inl e \<Rightarrow> Inl e
      | Inr local \<Rightarrow> Inr \<lparr>srv_listener = local, srv_permits = MAX_CLIENT_CONNECTIONS\<rparr>)"

definition server_run :: "ServerOptions \<Rightarrow> 's \<Rightarrow> CoreServer \<Rightarrow> 's endpoint" where
  "server_run opts core S =
     \<lparr>ep_permits = srv_permits S, ep_next = 0, ep_conns = [], ep_refused = [],
      ep_budgets = budgets_new (so_requests_per_second opts) (so_request_burst opts), ep_core = core\<rparr>"

text \<open>One turn of the accept loop, and the end of a connection, which returns its permit.\<close>

definition endpoint_accept :: "rtext + socket_addr \<Rightarrow> 's endpoint \<Rightarrow> 's endpoint" where
  "endpoint_accept accepted E =
     (case accepted of
        Inl e \<Rightarrow> E
      | Inr peer \<Rightarrow>
          if ep_permits E = 0 then E\<lparr>ep_refused := ep_refused E @ [peer]\<rparr>
          else E\<lparr>ep_permits := ep_permits E - 1, ep_next := Suc (ep_next E),
                 ep_conns := ep_conns E @ [(ep_next E, \<lparr>cc_peer = peer, cc_phase = Greeting\<rparr>)]\<rparr>)"

definition endpoint_release :: "nat \<Rightarrow> 's endpoint \<Rightarrow> 's endpoint" where
  "endpoint_release k E =
     (if k \<in> fst ` set (ep_conns E)
      then E\<lparr>ep_permits := Suc (ep_permits E), ep_conns := AList.delete k (ep_conns E)\<rparr> else E)"

definition set_phase :: "nat \<Rightarrow> phase \<Rightarrow> 's endpoint \<Rightarrow> 's endpoint" where
  "set_phase k p E =
     E\<lparr>ep_conns := AList.map_entry k (\<lambda>c. c\<lparr>cc_phase := p\<rparr>) (ep_conns E)\<rparr>"

text \<open>The greeting of a connection; \<open>sent\<close> tells whether the welcome could be written.\<close>

definition endpoint_greet ::
    "'s core_fun \<Rightarrow> ServerOptions \<Rightarrow> nat \<Rightarrow> hello_read \<Rightarrow> bool \<Rightarrow> 's endpoint \<Rightarrow> 's endpoint" where
  "endpoint_greet core opts k hello sent E =
     (case handshake core opts hello (ep_core E) of
        (out, attached, s) \<Rightarrow>
          (let E1 = E\<lparr>ep_core := s\<rparr>
           in if attached \<and> sent then set_phase k (Serving hello conn_new) E1 else endpoint_release k E1))"

definition phase_of :: "nat \<Rightarrow> 's endpoint \<Rightarrow> phase option" where
  "phase_of k E = map_option cc_phase (map_of (ep_conns E) k)"

definition peer_ip :: "nat \<Rightarrow> 's endpoint \<Rightarrow> ip_addr" where
  "peer_ip k E = sa_ip (unwrap_or \<lparr>sa_ip = IpV4 [0, 0, 0, 0], sa_port = 0\<rparr> (map_option cc_peer (map_of (ep_conns E) k)))"

inductive endpoint_step :: "'s core_fun \<Rightarrow> ServerOptions \<Rightarrow> float_ops \<Rightarrow> 's endpoint \<Rightarrow> 's endpoint \<Rightarrow> bool"
  for core :: "'s core_fun" and opts :: ServerOptions and F :: float_ops where
  step_accept: "endpoint_step core opts F E (endpoint_accept accepted E)"
| step_greet:
    "phase_of k E = Some Greeting \<Longrightarrow> endpoint_step core opts F E (endpoint_greet core opts k hello sent E)"
| step_incoming:
    "phase_of k E = Some (Serving h c) \<Longrightarrow> cn_attached c \<Longrightarrow> length (cn_pending c) < CLIENT_OUTBOX_CAPACITY \<Longrightarrow>
     conn_incoming F created (peer_ip k E) now incoming (c, ep_budgets E) = (c', B) \<Longrightarrow>
     endpoint_step core opts F E (set_phase k (Serving h c') (E\<lparr>ep_budgets := B\<rparr>))"
| step_dispatch:
    "phase_of k E = Some (Serving h c) \<Longrightarrow> cn_attached c \<Longrightarrow> cn_pending c \<noteq> [] \<Longrightarrow>
     length (cn_outbox c) < CLIENT_OUTBOX_CAPACITY \<Longrightarrow>
     conn_dispatch core (c, ep_core E) = (c', s) \<Longrightarrow>
     endpoint_step core opts F E (set_phase k (Serving h c') (E\<lparr>ep_core := s\<rparr>))"
| step_event:
    "phase_of k E = Some (Serving h c) \<Longrightarrow> cn_attached c \<Longrightarrow> length (cn_outbox c) < CLIENT_OUTBOX_CAPACITY \<Longrightarrow>
     endpoint_step core opts F E (set_phase k (Serving h (conn_event ev c)) E)"
| step_write:
    "phase_of k E = Some (Serving h c) \<Longrightarrow> cn_attached c \<Longrightarrow>
     endpoint_step core opts F E (set_phase k (Serving h (conn_write c)) E)"
| step_detach:
    "phase_of k E = Some (Serving h c) \<Longrightarrow> \<not> cn_attached c \<Longrightarrow>
     endpoint_step core opts F E (endpoint_release k E)"

inductive endpoint_reach :: "'s core_fun \<Rightarrow> ServerOptions \<Rightarrow> float_ops \<Rightarrow> 's endpoint \<Rightarrow> bool"
  for core :: "'s core_fun" and opts :: ServerOptions and F :: float_ops where
  reach_start: "server_bind (Inr local) = Inr S \<Longrightarrow> endpoint_reach core opts F (server_run opts s S)"
| reach_next: "endpoint_reach core opts F E \<Longrightarrow> endpoint_step core opts F E E' \<Longrightarrow> endpoint_reach core opts F E'"
| reach_core: "endpoint_reach core opts F E \<Longrightarrow> endpoint_reach core opts F (E\<lparr>ep_core := s\<rparr>)"

inductive_cases endpoint_step_cases: "endpoint_step core opts F E E'"

subsection \<open>Reading the table of connections\<close>

named_theorems endpoint_simps

lemma phase_set_phase [endpoint_simps]:
  "phase_of j (set_phase k p E) = (if j = k then map_option (\<lambda>_. p) (phase_of k E) else phase_of j E)"
  by (simp add: phase_of_def set_phase_def map_of_map_entry option.map_comp comp_def split: option.split)

lemma phase_release [endpoint_simps]:
  "phase_of j (endpoint_release k E) = (if j = k then None else phase_of j E)"
  by (simp add: phase_of_def endpoint_release_def delete_conv' map_of_eq_None_iff delete_notin_dom)

lemma phase_core [endpoint_simps]:
  "phase_of k (E\<lparr>ep_core := s\<rparr>) = phase_of k E" "phase_of k (E\<lparr>ep_budgets := B\<rparr>) = phase_of k E"
  by (simp_all add: phase_of_def)

lemma phase_accept [endpoint_simps]:
  "phase_of j (endpoint_accept accepted E) =
     (case accepted of
        Inl e \<Rightarrow> phase_of j E
      | Inr peer \<Rightarrow> if ep_permits E \<noteq> 0 \<and> j = ep_next E \<and> phase_of j E = None then Some Greeting else phase_of j E)"
  by (auto simp: phase_of_def endpoint_accept_def map_add_def split: sum.split option.split)

lemma conns_set_phase [endpoint_simps]:
  "map fst (ep_conns (set_phase k p E)) = map fst (ep_conns E)" "ep_permits (set_phase k p E) = ep_permits E"
  "ep_next (set_phase k p E) = ep_next E" "ep_core (set_phase k p E) = ep_core E"
  "length (ep_conns (set_phase k p E)) = length (ep_conns E)"
proof -
  have "map fst (AList.map_entry k f xs) = map fst xs" for f and xs :: "(nat \<times> client_conn) list"
    by (induction xs) auto
  then show k: "map fst (ep_conns (set_phase k p E)) = map fst (ep_conns E)"
    by (simp add: set_phase_def)
  show "length (ep_conns (set_phase k p E)) = length (ep_conns E)"
    using arg_cong [OF k, of length] by simp
qed (simp_all add: set_phase_def)

text \<open>What another connection or another user of the core does cannot be told from the connection's side.\<close>

definition conn_reach :: "'s core_fun \<Rightarrow> float_ops \<Rightarrow> conn \<Rightarrow> bool" where
  "conn_reach core F c \<longleftrightarrow> (\<exists>B s. serve_reach core F \<lparr>sv_conn = c, sv_budgets = B, sv_core = s\<rparr>)"

lemma conn_reach_any:
  assumes "conn_reach core F c"
  shows "serve_reach core F \<lparr>sv_conn = c, sv_budgets = B, sv_core = s\<rparr>"
proof -
  obtain B0 s0 where "serve_reach core F \<lparr>sv_conn = c, sv_budgets = B0, sv_core = s0\<rparr>"
    using assms by (auto simp: conn_reach_def)
  then show ?thesis
    using serve_next [OF _ serve_other [where B = B and s = s]] by fastforce
qed

lemma conn_reach_new: "conn_reach core F conn_new"
  unfolding conn_reach_def by (intro exI serve_start) simp

lemma conn_reach_step:
  assumes "conn_reach core F c"
    "serve_step core F \<lparr>sv_conn = c, sv_budgets = B, sv_core = s\<rparr> \<lparr>sv_conn = c', sv_budgets = B', sv_core = s'\<rparr>"
  shows "conn_reach core F c'"
  using serve_next [OF conn_reach_any [OF assms(1)] assms(2)] by (auto simp: conn_reach_def)

lemma conn_reach_incoming:
  "conn_reach core F c \<Longrightarrow> cn_attached c \<Longrightarrow> length (cn_pending c) < CLIENT_OUTBOX_CAPACITY \<Longrightarrow>
   conn_incoming F created peer now incoming (c, B) = (c', B') \<Longrightarrow> conn_reach core F c'"
  using serve_incoming [of "\<lparr>sv_conn = c, sv_budgets = B, sv_core = undefined\<rparr>" F created peer now incoming c' B' core]
  by (simp add: conn_reach_step)

lemma conn_reach_dispatch:
  "conn_reach core F c \<Longrightarrow> cn_attached c \<Longrightarrow> cn_pending c \<noteq> [] \<Longrightarrow> length (cn_outbox c) < CLIENT_OUTBOX_CAPACITY \<Longrightarrow>
   conn_dispatch core (c, s) = (c', s') \<Longrightarrow> conn_reach core F c'"
  using serve_dispatch [of "\<lparr>sv_conn = c, sv_budgets = undefined, sv_core = s\<rparr>" core c' s' F]
  by (simp add: conn_reach_step)

lemma conn_reach_event:
  "conn_reach core F c \<Longrightarrow> cn_attached c \<Longrightarrow> length (cn_outbox c) < CLIENT_OUTBOX_CAPACITY \<Longrightarrow>
   conn_reach core F (conn_event ev c)"
  using serve_event [of "\<lparr>sv_conn = c, sv_budgets = undefined, sv_core = undefined\<rparr>" core F ev]
  by (simp add: conn_reach_step)

lemma conn_reach_write: "conn_reach core F c \<Longrightarrow> cn_attached c \<Longrightarrow> conn_reach core F (conn_write c)"
  using serve_write [of "\<lparr>sv_conn = c, sv_budgets = undefined, sv_core = undefined\<rparr>" core F]
  by (simp add: conn_reach_step)

subsection \<open>Every interleaving\<close>

definition greeted :: "'s core_fun \<Rightarrow> ServerOptions \<Rightarrow> hello_read \<Rightarrow> bool" where
  "greeted core opts h \<longleftrightarrow> (\<exists>s out s'. handshake core opts h s = (out, True, s'))"

lemma greeted_token:
  assumes "greeted core opts h"
  shows "\<exists>v t name. h = HelloMessage (Some (CmHello v t name)) \<and>
     (\<forall>expected. so_token opts = Some expected \<longrightarrow> secret_eq expected (unwrap_or [] t))"
proof -
  obtain s out s' where g: "handshake core opts h s = (out, True, s')" using assms by (auto simp: greeted_def)
  then obtain m where h: "h = HelloMessage (Some m)"
    by (cases h) (auto simp: handshake_def split: option.splits)
  with g obtain v t name where "m = CmHello v t name"
    by (cases m) (auto simp: handshake_def)
  then show ?thesis using g h by (auto simp: handshake_def split: if_splits)
qed

lemma conn_reach_inv: "conn_reach core F c \<Longrightarrow> conn_inv c"
  using serve_reach_inv by (fastforce simp: conn_reach_def)

definition slots_ok :: "'s endpoint \<Rightarrow> bool" where
  "slots_ok E \<longleftrightarrow> ep_permits E + length (ep_conns E) = MAX_CLIENT_CONNECTIONS \<and>
     distinct (map fst (ep_conns E)) \<and> (\<forall>k \<in> set (map fst (ep_conns E)). k < ep_next E)"

definition serving_ok :: "'s core_fun \<Rightarrow> ServerOptions \<Rightarrow> float_ops \<Rightarrow> 's endpoint \<Rightarrow> bool" where
  "serving_ok core opts F E \<longleftrightarrow>
     (\<forall>k h c. phase_of k E = Some (Serving h c) \<longrightarrow> greeted core opts h \<and> conn_reach core F c)"

lemma serving_okD: "serving_ok core opts F E \<Longrightarrow> phase_of k E = Some (Serving h c) \<Longrightarrow> greeted core opts h \<and> conn_reach core F c"
  by (simp add: serving_ok_def)

lemma length_removeAll_member: "distinct xs \<Longrightarrow> k \<in> set xs \<Longrightarrow> Suc (length (removeAll k xs)) = length xs"
  by (induction xs) auto

lemma slots_release: "slots_ok E \<Longrightarrow> slots_ok (endpoint_release k E)"
proof -
  assume s: "slots_ok E"
  have l: "k \<in> fst ` set (ep_conns E) \<Longrightarrow> Suc (length (AList.delete k (ep_conns E))) = length (ep_conns E)"
    using s length_removeAll_member [of "map fst (ep_conns E)" k]
    by (simp add: slots_ok_def flip: delete_keys)
  have sub: "\<forall>j \<in> fst ` set (AList.delete k (ep_conns E)). j < ep_next E"
    using s dom_delete_subset [of k "ep_conns E"] unfolding slots_ok_def set_map by (meson in_mono)
  show ?thesis
  proof (cases "k \<in> fst ` set (ep_conns E)")
    case True
    then show ?thesis
      using s sub l [OF True, symmetric] by (simp add: slots_ok_def endpoint_release_def distinct_delete)
  qed (use s in \<open>simp add: endpoint_release_def\<close>)
qed

lemma slots_accept: "slots_ok E \<Longrightarrow> slots_ok (endpoint_accept accepted E)"
  by (auto simp: slots_ok_def endpoint_accept_def less_Suc_eq split: sum.splits)

lemma slots_set_phase: "slots_ok (set_phase k p E) \<longleftrightarrow> slots_ok E"
  by (simp add: slots_ok_def endpoint_simps del: set_map)

lemma slots_core: "slots_ok (E\<lparr>ep_core := s\<rparr>) \<longleftrightarrow> slots_ok E" "slots_ok (E\<lparr>ep_budgets := B\<rparr>) \<longleftrightarrow> slots_ok E"
  by (simp_all add: slots_ok_def)

lemma slots_greet: "slots_ok E \<Longrightarrow> slots_ok (endpoint_greet core opts k hello sent E)"
  by (simp add: endpoint_greet_def slots_set_phase slots_core slots_release Let_def split: prod.split)

lemma endpoint_step_slots: "endpoint_step core opts F E E' \<Longrightarrow> slots_ok E \<Longrightarrow> slots_ok E'"
  by (induction rule: endpoint_step.induct)
    (simp_all add: slots_accept slots_greet slots_set_phase slots_core slots_release)

lemma serving_set_phase:
  "serving_ok core opts F E \<Longrightarrow> greeted core opts h \<Longrightarrow> conn_reach core F c \<Longrightarrow>
   serving_ok core opts F (set_phase k (Serving h c) E)"
  by (auto simp: serving_ok_def endpoint_simps split: if_splits)

lemma serving_release: "serving_ok core opts F E \<Longrightarrow> serving_ok core opts F (endpoint_release k E)"
  by (auto simp: serving_ok_def endpoint_simps split: if_splits)

lemma serving_core:
  "serving_ok core opts F (E\<lparr>ep_core := s\<rparr>) \<longleftrightarrow> serving_ok core opts F E"
  "serving_ok core opts F (E\<lparr>ep_budgets := B\<rparr>) \<longleftrightarrow> serving_ok core opts F E"
  by (simp_all add: serving_ok_def endpoint_simps)

lemma serving_accept: "serving_ok core opts F E \<Longrightarrow> serving_ok core opts F (endpoint_accept accepted E)"
  by (auto simp: serving_ok_def endpoint_simps split: sum.splits if_splits)

lemma serving_greet:
  assumes "serving_ok core opts F E"
  shows "serving_ok core opts F (endpoint_greet core opts k hello sent E)"
proof -
  obtain out attached s where h: "handshake core opts hello (ep_core E) = (out, attached, s)"
    by (metis prod_cases3)
  then have "attached \<Longrightarrow> greeted core opts hello" by (auto simp: greeted_def)
  then show ?thesis
    using assms by (simp add: endpoint_greet_def h Let_def serving_set_phase serving_release serving_core conn_reach_new)
qed

lemma endpoint_step_serving: "endpoint_step core opts F E E' \<Longrightarrow> serving_ok core opts F E \<Longrightarrow> serving_ok core opts F E'"
proof (induction rule: endpoint_step.induct)
  case (step_incoming k E h c created now incoming c' B)
  then show ?case
    using serving_okD [OF step_incoming(5,1)] by (auto simp: serving_core intro!: serving_set_phase dest: conn_reach_incoming)
next
  case (step_dispatch k E h c c' s)
  then show ?case
    using serving_okD [OF step_dispatch(6,1)] by (auto simp: serving_core intro!: serving_set_phase dest: conn_reach_dispatch)
next
  case (step_event k E h c ev)
  then show ?case
    using serving_okD [OF step_event(4,1)] by (auto intro!: serving_set_phase conn_reach_event)
next
  case (step_write k E h c)
  then show ?case
    using serving_okD [OF step_write(3,1)] by (auto intro!: serving_set_phase conn_reach_write)
qed (simp_all add: serving_accept serving_greet serving_release serving_core)

lemma endpoint_reach_ok: "endpoint_reach core opts F E \<Longrightarrow> slots_ok E \<and> serving_ok core opts F E"
proof (induction rule: endpoint_reach.induct)
  case (reach_start local S s)
  then show ?case
    by (auto simp: server_bind_def server_run_def slots_ok_def serving_ok_def phase_of_def)
next
  case (reach_next E E')
  then show ?case using endpoint_step_slots endpoint_step_serving by blast
next
  case (reach_core E s)
  then show ?case by (simp add: slots_core serving_core)
qed

text \<open>A step leaves the core alone or asks it one thing, which is never to stop.\<close>

lemma dispatch_request_forward:
  "r \<noteq> RqShutdown \<Longrightarrow> snd (snd (dispatch_request core (Some r) s)) = snd (core r s)"
  by (cases r; cases "core r s"; cases "fst (core r s)") (simp_all add: dispatch_request_def)

lemma dispatch_request_core:
  assumes "dispatch_request core request s = (result, forwarded, s')"
  shows "s' = s \<or> (\<exists>r. r \<noteq> RqShutdown \<and> s' = snd (core r s))"
proof (cases request)
  case None
  then show ?thesis using assms by (simp add: dispatch_request_def)
next
  case (Some r)
  then show ?thesis
    using assms dispatch_request_forward [of r core s] by (cases "r = RqShutdown") (auto simp: dispatch_request_def)
qed

lemma conn_dispatch_core:
  "conn_dispatch core (c, s) = (c', s') \<Longrightarrow> s' = s \<or> (\<exists>r. r \<noteq> RqShutdown \<and> s' = snd (core r s))"
  using dispatch_request_core [of core _ s] by (fastforce simp: conn_dispatch_def split: list.splits prod.splits)

lemma handshake_core:
  "handshake core opts hello s = (out, attached, s') \<Longrightarrow> s' = s \<or> s' = snd (core RqSessionInfo s)"
  by (cases "core RqSessionInfo s")
    (auto simp: handshake_def split: hello_read.splits option.splits ClientMessage.splits if_splits sum.splits Reply.splits)

lemma endpoint_step_core:
  assumes "endpoint_step core opts F E E'"
  shows "ep_core E' = ep_core E \<or> (\<exists>r. r \<noteq> RqShutdown \<and> ep_core E' = snd (core r (ep_core E)))"
  using assms
proof cases
  case (step_greet k hello sent)
  obtain out attached s where h: "handshake core opts hello (ep_core E) = (out, attached, s)" by (metis prod_cases3)
  then show ?thesis
    using handshake_core [OF h] step_greet(1)
    by (auto simp: endpoint_greet_def Let_def conns_set_phase endpoint_release_def)
next
  case (step_dispatch k h c c' s)
  then show ?thesis using conn_dispatch_core [of core c "ep_core E" c' s] by (simp add: conns_set_phase)
qed (auto simp: conns_set_phase endpoint_release_def endpoint_accept_def split: sum.splits)

text \<open>A full endpoint refuses a stream, and serves the next one once a connection has ended.\<close>

lemma slot_reused:
  assumes "slots_ok E" "length (ep_conns E) = MAX_CLIENT_CONNECTIONS" "phase_of k E = Some p"
  shows "ep_conns (endpoint_accept (Inr a) E) = ep_conns E"
    "phase_of (ep_next E) (endpoint_accept (Inr b) (endpoint_release k E)) = Some Greeting"
proof -
  have "phase_of (ep_next E) E = None"
    using assms(1) by (auto simp: slots_ok_def phase_of_def map_of_eq_None_iff)
  moreover have "k \<in> fst ` set (ep_conns E)"
    using assms(3) by (auto simp: phase_of_def dest: map_of_SomeD intro: rev_image_eqI)
  moreover have "ep_permits E = 0" using assms(1,2) by (simp add: slots_ok_def)
  ultimately show "ep_conns (endpoint_accept (Inr a) E) = ep_conns E"
    "phase_of (ep_next E) (endpoint_accept (Inr b) (endpoint_release k E)) = Some Greeting"
    by (simp_all add: phase_accept phase_release endpoint_accept_def [of "Inr a"])
      (auto simp: endpoint_release_def)
qed

end
