(* ===== verification/RemoteCall.thy ===== *)
theory RemoteCall
  imports Client
begin

section \<open>A remote call from end to end (\<^verbatim>\<open>ipc/client.rs\<close> and \<^verbatim>\<open>ipc/server.rs\<close>)\<close>

text \<open>
  One attached client, its connection and the core behind it. Messages travel in order and whole,
  which is what the reader and writer tasks give (\<open>ReaderTasks\<close>); either end may stop at any time.
  \<open>cl_asked\<close> records the requests the client has made, \<open>cl_read\<close> counts the messages it has read and
  \<open>cl_turns\<close> holds, for each request that was answered, the state the core was in when its turn came;
  the program reads none of them. A step is one step of the client, of one of the tasks that serve
  it, or of somebody else who uses the core.
\<close>

record 's call_link =
  cl_client :: RemoteClient
  cl_asked :: "(u64 \<times> Request) list"
  cl_up :: "ClientMessage list"
  cl_conn :: conn
  cl_read :: nat
  cl_budgets :: PeerBudgets
  cl_core :: 's
  cl_turns :: "(u64 \<times> 's) list"

definition link_call :: "Request \<Rightarrow> 's call_link \<Rightarrow> 's call_link" where
  "link_call r L =
     (case client_request r (cl_client L) of
        (Inr rid, c) \<Rightarrow> L\<lparr>cl_client := c, cl_asked := cl_asked L @ [(rid, r)]\<rparr>
      | (Inl e, c) \<Rightarrow> L\<lparr>cl_client := c\<rparr>)"

definition link_send :: "bool \<Rightarrow> 's call_link \<Rightarrow> 's call_link" where
  "link_send written L =
     (case pump_outgoing written (cl_client L) of
        (sent, c) \<Rightarrow> L\<lparr>cl_client := c, cl_up := cl_up L @ (case sent of None \<Rightarrow> [] | Some m \<Rightarrow> [m])\<rparr>)"

definition turn :: "conn \<Rightarrow> 's \<Rightarrow> (u64 \<times> 's) list" where
  "turn c s = (case cn_pending c of [] \<Rightarrow> [] | (rid, q) # rest \<Rightarrow> [(rid, s)])"

inductive call_step :: "'s core_fun \<Rightarrow> float_ops \<Rightarrow> 's call_link \<Rightarrow> 's call_link \<Rightarrow> bool"
  for core :: "'s core_fun" and F :: float_ops where
  call_request: "call_step core F L (link_call r L)"
| call_timeout: "call_step core F L (L\<lparr>cl_client := client_timeout rid (cl_client L)\<rparr>)"
| call_goodbye: "call_step core F L (L\<lparr>cl_client := client_goodbye (cl_client L)\<rparr>)"
| call_send: "rc_pumping (cl_client L) \<Longrightarrow> call_step core F L (link_send written L)"
| call_receive:
    "rc_pumping (cl_client L) \<Longrightarrow> cl_read L < length (cn_wire (cl_conn L)) \<Longrightarrow>
     call_step core F L (L\<lparr>cl_client := pump_incoming (Inr (Some (cn_wire (cl_conn L) ! cl_read L))) (cl_client L),
       cl_read := Suc (cl_read L)\<rparr>)"
| call_client_ends: "rc_pumping (cl_client L) \<Longrightarrow> call_step core F L (L\<lparr>cl_client := pump_end (cl_client L)\<rparr>)"
| call_arrives:
    "cl_up L = m # up \<Longrightarrow> cn_attached (cl_conn L) \<Longrightarrow> length (cn_pending (cl_conn L)) < CLIENT_OUTBOX_CAPACITY \<Longrightarrow>
     conn_incoming F created peer now (Inr (Some m)) (cl_conn L, cl_budgets L) = (c, B) \<Longrightarrow>
     call_step core F L (L\<lparr>cl_up := up, cl_conn := c, cl_budgets := B\<rparr>)"
| call_server_ends:
    "incoming = Inl e \<or> incoming = Inr None \<Longrightarrow> cn_attached (cl_conn L) \<Longrightarrow>
     conn_incoming F created peer now incoming (cl_conn L, cl_budgets L) = (c, B) \<Longrightarrow>
     call_step core F L (L\<lparr>cl_conn := c, cl_budgets := B\<rparr>)"
| call_dispatch:
    "cn_attached (cl_conn L) \<Longrightarrow> length (cn_outbox (cl_conn L)) < CLIENT_OUTBOX_CAPACITY \<Longrightarrow>
     conn_dispatch core (cl_conn L, cl_core L) = (c, s) \<Longrightarrow>
     call_step core F L (L\<lparr>cl_conn := c, cl_core := s, cl_turns := cl_turns L @ turn (cl_conn L) (cl_core L)\<rparr>)"
| call_event:
    "cn_attached (cl_conn L) \<Longrightarrow> length (cn_outbox (cl_conn L)) < CLIENT_OUTBOX_CAPACITY \<Longrightarrow>
     call_step core F L (L\<lparr>cl_conn := conn_event ev (cl_conn L)\<rparr>)"
| call_write: "cn_attached (cl_conn L) \<Longrightarrow> call_step core F L (L\<lparr>cl_conn := conn_write (cl_conn L)\<rparr>)"
| call_others: "call_step core F L (L\<lparr>cl_budgets := B, cl_core := s\<rparr>)"

inductive call_reach :: "'s core_fun \<Rightarrow> float_ops \<Rightarrow> 's call_link \<Rightarrow> bool"
  for core :: "'s core_fun" and F :: float_ops where
  call_start:
    "call_reach core F \<lparr>cl_client = remote_client_new, cl_asked = [], cl_up = [], cl_conn = conn_new, cl_read = 0,
       cl_budgets = B, cl_core = s, cl_turns = []\<rparr>"
| call_next: "call_reach core F L \<Longrightarrow> call_step core F L L' \<Longrightarrow> call_reach core F L'"

subsection \<open>Requests arrive in the order they were made\<close>

fun requests_of :: "ClientMessage list \<Rightarrow> (u64 \<times> Request) list" where
  "requests_of [] = []"
| "requests_of (CmRequest rid r # ms) = (rid, r) # requests_of ms"
| "requests_of (m # ms) = requests_of ms"

lemma requests_of_append [simp]: "requests_of (xs @ ys) = requests_of xs @ requests_of ys"
  by (induction xs rule: requests_of.induct) auto

text \<open>The identifiers of the first \<open>n\<close> requests, which are counted from one.\<close>

definition call_id :: "nat \<Rightarrow> u64" where
  "call_id n = word_of_nat (Suc n)"

definition call_ids :: "nat \<Rightarrow> u64 list" where
  "call_ids n = map call_id [0..<n]"

lemma call_ids_Suc: "call_ids (Suc n) = call_ids n @ [call_id n]"
  by (simp add: call_ids_def)

lemma call_id_Suc: "call_id n + 1 = call_id (Suc n)"
  by (simp add: call_id_def)

lemma call_id_inj: "Suc n < 2 ^ 64 \<Longrightarrow> inj_on call_id {0..n}"
  by (rule inj_onI) (auto simp: call_id_def word_of_nat_eq_iff take_bit_nat_eq_self simp del: of_nat_Suc)

lemma distinct_call_ids: "n < 2 ^ 64 \<Longrightarrow> distinct (call_ids n)"
proof -
  assume "n < 2 ^ 64"
  then have "inj_on call_id {0..<n}"
    by (cases n) (simp, metis call_id_inj atLeastLessThanSuc_atLeastAtMost)
  then show ?thesis by (simp add: call_ids_def distinct_map)
qed

lemma call_id_fresh: "Suc n < 2 ^ 64 \<Longrightarrow> call_id n \<notin> set (call_ids n)"
  using distinct_call_ids [of "Suc n"] by (simp add: call_ids_Suc)

text \<open>The client's side: fresh identifiers, and what it asked is received, under way or still queued.\<close>

definition asked_ok :: "'s call_link \<Rightarrow> bool" where
  "asked_ok L \<longleftrightarrow>
     rc_next_id (cl_client L) = call_id (length (cl_asked L)) \<and>
     map fst (cl_asked L) = call_ids (length (cl_asked L)) \<and>
     rc_closed (cl_client L) = (\<not> rc_pumping (cl_client L)) \<and>
     (\<exists>rest. cl_asked L = cn_received (cl_conn L) @ requests_of (cl_up L) @ rest \<and>
        (rc_pumping (cl_client L) \<longrightarrow> rest = requests_of (rc_outbox (cl_client L))))"

text \<open>The server's side: every response belongs to a request that was received.\<close>

definition answer_to :: "'s core_fun \<Rightarrow> (u64 \<times> 's) list \<Rightarrow> u64 \<Rightarrow> Request \<Rightarrow> ResponseResult \<Rightarrow> bool" where
  "answer_to core turns rid r result \<longleftrightarrow>
     (\<exists>q s. (q = None \<or> q = Some r) \<and> (rid, s) \<in> set turns \<and> result = fst (dispatch_request core q s))"

definition answers_ok :: "'s core_fun \<Rightarrow> (u64 \<times> 's) list \<Rightarrow> conn \<Rightarrow> bool" where
  "answers_ok core turns c \<longleftrightarrow>
     (\<forall>rid q. (rid, q) \<in> set (cn_pending c) \<longrightarrow> (\<exists>r. (rid, r) \<in> set (cn_received c) \<and> (q = None \<or> q = Some r))) \<and>
     (\<forall>rid result. SmResponse rid result \<in> set (cn_wire c @ cn_outbox c) \<longrightarrow>
        (\<exists>r. (rid, r) \<in> set (cn_received c) \<and> answer_to core turns rid r result))"

lemma answers_ok_incoming:
  "answers_ok core turns c \<Longrightarrow> conn_incoming F created peer now incoming (c, B) = (c', B') \<Longrightarrow>
   answers_ok core turns c'"
  by (auto simp: conn_incoming_def Let_def answers_ok_def split: sum.splits option.splits ClientMessage.splits
      prod.splits if_splits) blast+

lemma answers_ok_dispatch:
  assumes "answers_ok core turns c" "conn_dispatch core (c, s) = (c', s')"
  shows "answers_ok core (turns @ turn c s) c'"
proof (cases "cn_pending c")
  case Nil
  then show ?thesis using assms by (simp add: conn_dispatch_def turn_def)
next
  case (Cons p rest)
  obtain rid q where p: "p = (rid, q)" by fastforce
  obtain result fw s1 where d: "dispatch_request core q s = (result, fw, s1)" by (metis prod_cases3)
  have c': "c' = c\<lparr>cn_pending := rest, cn_outbox := cn_outbox c @ [SmResponse rid result],
      cn_forwarded := cn_forwarded c @ fw\<rparr>"
    using assms(2) by (simp add: conn_dispatch_def Cons p d)
  obtain r where r: "(rid, r) \<in> set (cn_received c)" "q = None \<or> q = Some r"
    using assms(1) Cons p by (fastforce simp: answers_ok_def)
  have "(rid, s) \<in> set (turns @ turn c s)" by (simp add: turn_def Cons p)
  then have new: "answer_to core (turns @ turn c s) rid r result"
    using d r(2) unfolding answer_to_def by (metis fst_conv)
  have old: "answer_to core (turns @ turn c s) i r' res" if "answer_to core turns i r' res" for i r' res
    using that unfolding answer_to_def by fastforce
  have pending: "\<exists>r. (i, r) \<in> set (cn_received c) \<and> (q' = None \<or> q' = Some r)" if "(i, q') \<in> set rest" for i q'
    using that assms(1) Cons by (simp add: answers_ok_def)
  have sent: "\<exists>r. (i, r) \<in> set (cn_received c) \<and> answer_to core (turns @ turn c s) i r res"
    if "SmResponse i res \<in> set (cn_wire c @ cn_outbox c)" for i res
    using that assms(1) old unfolding answers_ok_def by blast
  show ?thesis using pending sent new r(1) unfolding answers_ok_def c' by auto
qed

lemma answers_ok_event: "answers_ok core turns c \<Longrightarrow> answers_ok core turns (conn_event ev c)"
  by (cases ev) (auto simp: answers_ok_def conn_event_def)

lemma answers_ok_write: "answers_ok core turns c \<Longrightarrow> answers_ok core turns (conn_write c)"
  by (cases "cn_outbox c") (auto simp: answers_ok_def conn_write_def)

lemma conn_dispatch_keeps:
  "conn_inv c \<Longrightarrow> length (cn_outbox c) < CLIENT_OUTBOX_CAPACITY \<Longrightarrow> conn_dispatch core (c, s) = (c', s') \<Longrightarrow> conn_inv c'"
  using conn_dispatch_inv by (cases "cn_pending c") (fastforce simp: conn_dispatch_def)+

text \<open>What stays of a connection: the requests it received grow by appending, and so does what it wrote.\<close>

lemma conn_keeps:
  "conn_dispatch core (c, s) = (c1, s1) \<Longrightarrow> cn_received c1 = cn_received c \<and> cn_wire c1 = cn_wire c"
  "cn_received (conn_event ev c) = cn_received c" "cn_wire (conn_event ev c) = cn_wire c"
  "cn_received (conn_write c) = cn_received c" "\<exists>ms. cn_wire (conn_write c) = cn_wire c @ ms"
  by (auto simp: conn_dispatch_def conn_event_def conn_write_def split: list.splits prod.splits broadcast_recv.splits)

lemma conn_incoming_keeps:
  "conn_incoming F created peer now incoming (c, B) = (c', B') \<Longrightarrow> cn_wire c' = cn_wire c"
  "conn_incoming F created peer now (Inr (Some m)) (c, B) = (c', B') \<Longrightarrow> cn_received c' = cn_received c @ requests_of [m]"
  "conn_incoming F created peer now incoming (c, B) = (c', B') \<Longrightarrow> incoming = Inl e \<or> incoming = Inr None \<Longrightarrow>
   cn_received c' = cn_received c"
  by (auto simp: conn_incoming_def Let_def split: sum.splits option.splits ClientMessage.splits prod.splits if_splits)

subsection \<open>The client\<close>

definition client_ok :: "'s call_link \<Rightarrow> bool" where
  "client_ok L \<longleftrightarrow>
     cl_read L \<le> length (cn_wire (cl_conn L)) \<and> distinct (rc_waiting (cl_client L)) \<and>
     set (rc_waiting (cl_client L)) \<subseteq> fst ` set (cl_asked L) \<and>
     set (rc_waiting (cl_client L)) \<inter> set (response_ids (take (cl_read L) (cn_wire (cl_conn L)))) = {} \<and>
     (\<forall>rid res. (rid, res) \<in> set (rc_results (cl_client L)) \<longrightarrow>
        rid \<in> fst ` set (cl_asked L) \<and>
        (res = Inl timeout_error \<or> res = Inl dropped_error \<or>
         (\<exists>result. SmResponse rid result \<in> set (cn_wire (cl_conn L)) \<and> res = into_result result)))"

definition call_ok :: "'s core_fun \<Rightarrow> 's call_link \<Rightarrow> bool" where
  "call_ok core L \<longleftrightarrow> asked_ok L \<and> conn_inv (cl_conn L) \<and> answers_ok core (cl_turns L) (cl_conn L) \<and> client_ok L"

lemma asked_distinct: "asked_ok L \<Longrightarrow> length (cl_asked L) < 2 ^ 64 \<Longrightarrow> distinct (map fst (cl_asked L))"
  unfolding asked_ok_def using distinct_call_ids by simp

lemma fresh_id:
  assumes "asked_ok L" "Suc (length (cl_asked L)) < 2 ^ 64"
  shows "rc_next_id (cl_client L) \<notin> fst ` set (cl_asked L)"
proof -
  have "rc_next_id (cl_client L) \<notin> set (map fst (cl_asked L))"
    using assms call_id_fresh unfolding asked_ok_def by simp
  then show ?thesis by simp
qed

lemma received_asked: "asked_ok L \<Longrightarrow> set (cn_received (cl_conn L)) \<subseteq> set (cl_asked L)"
proof -
  assume "asked_ok L"
  then obtain rest where "cl_asked L = cn_received (cl_conn L) @ requests_of (cl_up L) @ rest"
    by (auto simp only: asked_ok_def)
  then show ?thesis by simp
qed

lemma response_ids_asked:
  assumes "asked_ok L" "conn_inv (cl_conn L)"
  shows "set (response_ids (cn_wire (cl_conn L))) \<subseteq> fst ` set (cl_asked L)"
proof -
  have "set (response_ids (cn_wire (cl_conn L))) \<subseteq> set (map fst (cn_received (cl_conn L)))"
    using assms(2) unfolding conn_inv_def by (metis Un_iff response_ids_append set_append subsetI)
  also have "\<dots> \<subseteq> fst ` set (cl_asked L)" using received_asked [OF assms(1)] by auto
  finally show ?thesis .
qed

subsection \<open>Every step keeps the books\<close>

lemma asked_ok_client:
  assumes "asked_ok L" "rc_next_id c = rc_next_id (cl_client L)" "rc_closed c = (\<not> rc_pumping c)"
    "rc_pumping c \<Longrightarrow> rc_pumping (cl_client L) \<and> requests_of (rc_outbox c) = requests_of (rc_outbox (cl_client L))"
  shows "asked_ok (L\<lparr>cl_client := c\<rparr>)" "asked_ok (L\<lparr>cl_client := c, cl_read := n\<rparr>)"
  using assms by (auto simp: asked_ok_def)

lemma asked_ok_conn:
  "asked_ok L \<Longrightarrow> cn_received c = cn_received (cl_conn L) \<Longrightarrow> asked_ok (L\<lparr>cl_conn := c, cl_core := s, cl_turns := T\<rparr>)"
  "asked_ok L \<Longrightarrow> cn_received c = cn_received (cl_conn L) \<Longrightarrow> asked_ok (L\<lparr>cl_conn := c, cl_budgets := B\<rparr>)"
  "asked_ok L \<Longrightarrow> cn_received c = cn_received (cl_conn L) \<Longrightarrow> asked_ok (L\<lparr>cl_conn := c\<rparr>)"
  "asked_ok L \<Longrightarrow> asked_ok (L\<lparr>cl_budgets := B, cl_core := s\<rparr>)"
  by (simp_all add: asked_ok_def)

lemma pump_incoming_shape:
  "rc_next_id (pump_incoming i c) = rc_next_id c" "rc_outbox (pump_incoming i c) = rc_outbox c"
  "rc_pumping c \<Longrightarrow> \<not> rc_closed c \<Longrightarrow> rc_closed (pump_incoming i c) = (\<not> rc_pumping (pump_incoming i c))"
  by (auto simp: pump_incoming_def pump_end_def split: sum.splits option.splits ServerMessage.splits)

lemma asked_ok_call:
  assumes "asked_ok L"
  shows "asked_ok (link_call r L)"
proof (cases "rc_closed (cl_client L)")
  case True
  then show ?thesis using assms by (simp add: link_call_def client_request_def)
next
  case False
  then have "rc_pumping (cl_client L)" using assms by (simp add: asked_ok_def)
  then show ?thesis
    using assms False
    by (auto simp: asked_ok_def link_call_def client_request_def Let_def call_ids_Suc call_id_Suc)
qed

lemma asked_ok_send:
  assumes "asked_ok L" "rc_pumping (cl_client L)"
  shows "asked_ok (link_send written L)"
proof (cases "rc_outbox (cl_client L)")
  case Nil
  then show ?thesis using assms by (simp add: link_send_def pump_outgoing_def)
next
  case (Cons m rest)
  have "requests_of (m # rest) = requests_of [m] @ requests_of rest"
    by (cases m) simp_all
  then show ?thesis
    using assms Cons by (auto simp: asked_ok_def link_send_def pump_outgoing_def pump_end_def)
qed

lemma asked_ok_arrives:
  assumes "asked_ok L" "cl_up L = m # up" "cn_received c = cn_received (cl_conn L) @ requests_of [m]"
  shows "asked_ok (L\<lparr>cl_up := up, cl_conn := c, cl_budgets := B\<rparr>)"
proof -
  have "requests_of (m # up) = requests_of [m] @ requests_of up" by (cases m) simp_all
  then show ?thesis using assms by (auto simp: asked_ok_def)
qed

lemma call_step_asked:
  assumes "call_step core F L L'" "asked_ok L"
  shows "asked_ok L'"
  using assms
proof cases
  case (call_request r)
  then show ?thesis using asked_ok_call [OF assms(2)] by simp
next
  case (call_timeout rid)
  then show ?thesis
    using assms(2) by (auto simp: client_timeout_def asked_ok_def intro!: asked_ok_client)
next
  case call_goodbye
  then show ?thesis
    using assms(2) by (auto simp: client_goodbye_def asked_ok_def intro!: asked_ok_client)
next
  case (call_send written)
  then show ?thesis using asked_ok_send [OF assms(2)] by simp
next
  case call_receive
  then show ?thesis
    using assms(2) by (auto simp: pump_incoming_shape asked_ok_def intro!: asked_ok_client(2) [OF assms(2)])
next
  case call_client_ends
  then show ?thesis using assms(2) by (auto simp: pump_end_def intro!: asked_ok_client)
next
  case (call_arrives m up created peer now c B)
  then show ?thesis using asked_ok_arrives [OF assms(2) call_arrives(2)] conn_incoming_keeps(2) by simp
next
  case (call_server_ends incoming e created peer now c B)
  then show ?thesis using asked_ok_conn(2) [OF assms(2)] conn_incoming_keeps(3) by metis
next
  case (call_dispatch c s)
  then show ?thesis using asked_ok_conn(1) [OF assms(2)] conn_keeps(1) by metis
next
  case (call_event ev)
  then show ?thesis using asked_ok_conn(3) [OF assms(2)] conn_keeps(2) by metis
next
  case call_write
  then show ?thesis using asked_ok_conn(3) [OF assms(2)] conn_keeps(4) by metis
next
  case (call_others B s)
  then show ?thesis using asked_ok_conn(4) [OF assms(2)] by simp
qed

lemma call_step_server:
  assumes "call_step core F L L'" "conn_inv (cl_conn L)" "answers_ok core (cl_turns L) (cl_conn L)"
  shows "conn_inv (cl_conn L') \<and> answers_ok core (cl_turns L') (cl_conn L') \<and> (\<exists>ms. cn_wire (cl_conn L') = cn_wire (cl_conn L) @ ms)"
  using assms(1)
proof cases
  case (call_arrives m up created peer now c B)
  then show ?thesis
    using assms(2,3) conn_incoming_inv answers_ok_incoming conn_incoming_keeps(1) by fastforce
next
  case (call_server_ends incoming e created peer now c B)
  have "c = (cl_conn L)\<lparr>cn_attached := False\<rparr>" using call_server_ends by (auto simp: conn_incoming_def)
  then have "conn_inv c" using assms(2) by (simp add: conn_inv_def)
  then show ?thesis using call_server_ends assms(3) answers_ok_incoming conn_incoming_keeps(1) by fastforce
next
  case (call_dispatch c s)
  then show ?thesis
    using assms(2,3) conn_dispatch_keeps answers_ok_dispatch conn_keeps(1) by fastforce
next
  case (call_event ev)
  then show ?thesis using assms(2,3) conn_event_inv answers_ok_event conn_keeps(3) by fastforce
next
  case call_write
  then show ?thesis using assms(2,3) conn_write_inv answers_ok_write conn_keeps(5) by fastforce
qed (use assms(2,3) in \<open>auto simp: link_call_def link_send_def split: prod.splits sum.splits\<close>)

text \<open>The client's books: a call that waits has not been answered on what the client has read.\<close>

lemma response_ids_take_Suc:
  "n < length ms \<Longrightarrow> response_ids (take (Suc n) ms) = response_ids (take n ms) @ response_ids [ms ! n]"
  by (simp add: take_Suc_conv_app_nth)

lemma client_ok_keep:
  assumes "client_ok L" "set (rc_waiting c) \<subseteq> set (rc_waiting (cl_client L))" "distinct (rc_waiting c)"
    "\<forall>p \<in> set (rc_results c). p \<in> set (rc_results (cl_client L)) \<or>
       fst p \<in> set (rc_waiting (cl_client L)) \<and> (snd p = Inl timeout_error \<or> snd p = Inl dropped_error)"
  shows "client_ok (L\<lparr>cl_client := c\<rparr>)" "client_ok (L\<lparr>cl_client := c, cl_up := up\<rparr>)"
  using assms unfolding client_ok_def by fastforce+

lemma client_ok_server:
  assumes "client_ok L" "cl_client L' = cl_client L" "cl_asked L' = cl_asked L" "cl_read L' = cl_read L"
    "cn_wire (cl_conn L') = cn_wire (cl_conn L) @ ms"
  shows "client_ok L'"
  using assms unfolding client_ok_def by fastforce

lemma client_ok_call:
  assumes "client_ok L" "asked_ok L" "conn_inv (cl_conn L)" "Suc (length (cl_asked L)) < 2 ^ 64"
  shows "client_ok (link_call r L)"
proof (cases "rc_closed (cl_client L)")
  case True
  then show ?thesis using assms(1) by (simp add: link_call_def client_request_def)
next
  case False
  then have p: "rc_pumping (cl_client L)" using assms(2) by (simp add: asked_ok_def)
  let ?rid = "rc_next_id (cl_client L)" and ?w = "cn_wire (cl_conn L)"
  have fresh: "?rid \<notin> fst ` set (cl_asked L)" by (rule fresh_id [OF assms(2,4)])
  then have "?rid \<notin> set (rc_waiting (cl_client L))" using assms(1) by (auto simp: client_ok_def)
  moreover have "?rid \<notin> set (response_ids (take (cl_read L) ?w))"
    using fresh response_ids_asked [OF assms(2,3)] response_ids_append [of "take (cl_read L) ?w" "drop (cl_read L) ?w"]
    by (metis UnCI append_take_drop_id set_append subsetD)
  ultimately show ?thesis
    using assms(1) False p unfolding client_ok_def link_call_def client_request_def Let_def by fastforce
qed

lemma client_ok_receive:
  assumes "client_ok L" "cl_read L < length (cn_wire (cl_conn L))"
  shows "client_ok (L\<lparr>cl_client := pump_incoming (Inr (Some (cn_wire (cl_conn L) ! cl_read L))) (cl_client L),
    cl_read := Suc (cl_read L)\<rparr>)"
proof -
  let ?m = "cn_wire (cl_conn L) ! cl_read L"
  have m: "?m \<in> set (cn_wire (cl_conn L))" using assms(2) by simp
  show ?thesis
  proof (cases ?m)
    case (SmResponse rid result)
    then show ?thesis
      using assms m unfolding client_ok_def
      by (auto simp: pump_incoming_def response_ids_take_Suc)
  next
    case (SmEvent e)
    then show ?thesis
      using assms unfolding client_ok_def by (auto simp: pump_incoming_def response_ids_take_Suc)
  next
    case (SmWelcome v s)
    then show ?thesis
      using assms unfolding client_ok_def by (auto simp: pump_incoming_def pump_end_def response_ids_take_Suc)
  next
    case (SmRejected e)
    then show ?thesis
      using assms unfolding client_ok_def by (auto simp: pump_incoming_def pump_end_def response_ids_take_Suc)
  qed
qed

lemma client_ok_parts:
  assumes "client_ok L"
  shows "client_ok (L\<lparr>cl_client := client_timeout rid (cl_client L)\<rparr>)"
    "client_ok (L\<lparr>cl_client := client_goodbye (cl_client L)\<rparr>)"
    "client_ok (L\<lparr>cl_client := pump_end (cl_client L)\<rparr>)" "client_ok (link_send written L)"
proof -
  have d: "distinct (rc_waiting (cl_client L))" using assms by (simp add: client_ok_def)
  show "client_ok (L\<lparr>cl_client := client_timeout rid (cl_client L)\<rparr>)"
    by (rule client_ok_keep [OF assms]) (use d in \<open>auto simp: client_timeout_def\<close>)
  show "client_ok (L\<lparr>cl_client := client_goodbye (cl_client L)\<rparr>)"
    by (rule client_ok_keep [OF assms]) (use d in \<open>auto simp: client_goodbye_def\<close>)
  show "client_ok (L\<lparr>cl_client := pump_end (cl_client L)\<rparr>)"
    by (rule client_ok_keep [OF assms]) (auto simp: pump_end_def)
  show "client_ok (link_send written L)"
    unfolding link_send_def prod.case_distrib [of client_ok] split_beta
    by (rule client_ok_keep(2) [OF assms])
      (use d in \<open>auto simp: pump_outgoing_def pump_end_def split: list.splits\<close>)
qed

lemma call_step_ok:
  assumes "call_step core F L L'" "call_ok core L" "length (cl_asked L') < 2 ^ 64"
  shows "call_ok core L'"
proof -
  have ok: "asked_ok L" "conn_inv (cl_conn L)" "answers_ok core (cl_turns L) (cl_conn L)" "client_ok L"
    using assms(2) by (simp_all add: call_ok_def)
  have server: "conn_inv (cl_conn L') \<and> answers_ok core (cl_turns L') (cl_conn L') \<and> (\<exists>ms. cn_wire (cl_conn L') = cn_wire (cl_conn L) @ ms)"
    by (rule call_step_server [OF assms(1) ok(2,3)])
  then obtain ms where ms: "cn_wire (cl_conn L') = cn_wire (cl_conn L) @ ms" by blast
  have same: "client_ok L'" if "cl_client L' = cl_client L" "cl_asked L' = cl_asked L" "cl_read L' = cl_read L"
    by (rule client_ok_server [OF ok(4) that ms])
  from assms(1) have "client_ok L'"
  proof cases
    case (call_request r)
    show ?thesis
    proof (cases "rc_closed (cl_client L)")
      case True
      then show ?thesis using ok(4) call_request by (simp add: link_call_def client_request_def)
    next
      case False
      then have "length (cl_asked L') = Suc (length (cl_asked L))"
        using ok(1) call_request by (simp add: link_call_def client_request_def Let_def asked_ok_def)
      then show ?thesis using client_ok_call [OF ok(4,1,2)] assms(3) call_request by simp
    qed
  next
    case call_receive
    then show ?thesis using client_ok_receive [OF ok(4)] by simp
  qed (use same client_ok_parts [OF ok(4)] in simp_all)
  then show ?thesis using server call_step_asked [OF assms(1) ok(1)] by (simp add: call_ok_def)
qed

lemma call_step_grows: "call_step core F L L' \<Longrightarrow> length (cl_asked L) \<le> length (cl_asked L')"
  by (induction rule: call_step.induct) (auto simp: link_call_def link_send_def split: prod.split sum.split)

lemma call_reach_ok: "call_reach core F L \<Longrightarrow> length (cl_asked L) < 2 ^ 64 \<Longrightarrow> call_ok core L"
proof (induction rule: call_reach.induct)
  case (call_start B s)
  have "answers_ok core [] conn_new" by (simp add: answers_ok_def conn_new_def)
  moreover have "cn_received conn_new = []" "cn_wire conn_new = []" by (simp_all add: conn_new_def)
  ultimately show ?case
    by (simp add: call_ok_def asked_ok_def remote_client_new_def call_id_def call_ids_def conn_new_inv client_ok_def)
next
  case (call_next L L')
  have "length (cl_asked L) < 2 ^ 64" using call_step_grows [OF call_next.hyps(2)] call_next.prems by simp
  then show ?case using call_step_ok [OF call_next.hyps(2)] call_next by blast
qed

text \<open>The client of the link is a client as it is on its own: every step of the link is one of its steps
  or leaves it alone.\<close>

lemma call_step_client:
  assumes "call_step core F L L'" "asked_ok L"
  shows "cl_client L' = cl_client L \<and> cl_asked L' = cl_asked L \<or>
    client_step (cl_client L) (cl_client L') \<and>
      (rc_next_id (cl_client L') = rc_next_id (cl_client L) \<and> cl_asked L' = cl_asked L \<or>
       rc_next_id (cl_client L') \<noteq> rc_next_id (cl_client L) \<and> length (cl_asked L') = Suc (length (cl_asked L)))"
  using assms(1)
proof cases
  case (call_request r)
  have "client_step (cl_client L) (cl_client L')"
    using step_request [of "cl_client L" r] call_request
    by (cases "client_request r (cl_client L)"; cases "fst (client_request r (cl_client L))") (simp_all add: link_call_def)
  then show ?thesis
    using assms(2) call_request by (auto simp: link_call_def client_request_def Let_def asked_ok_def)
next
  case (call_timeout rid)
  then show ?thesis using step_timeout [of "cl_client L" rid] by (simp add: client_timeout_def)
next
  case call_goodbye
  then show ?thesis using step_goodbye [of "cl_client L"] by (simp add: client_goodbye_def)
next
  case (call_send written)
  then show ?thesis
    using step_outgoing [of "cl_client L" written]
    by (auto simp: link_send_def pump_outgoing_def pump_end_def split: list.splits)
next
  case call_receive
  then show ?thesis
    using step_incoming [of "cl_client L" "Inr (Some (cn_wire (cl_conn L) ! cl_read L))"] by (simp add: pump_incoming_shape)
next
  case call_client_ends
  then show ?thesis
    using step_incoming [of "cl_client L" "Inr None"] by (simp add: pump_incoming_def pump_end_def)
qed simp_all

lemma call_reach_asked: "call_reach core F L \<Longrightarrow> asked_ok L"
proof (induction rule: call_reach.induct)
  case (call_start B s)
  have "cn_received conn_new = []" by (simp add: conn_new_def)
  then show ?case by (simp add: asked_ok_def remote_client_new_def call_id_def call_ids_def)
next
  case (call_next L L')
  then show ?case by (metis call_step_asked)
qed

lemma call_reach_client: "call_reach core F L \<Longrightarrow> client_reach (Suc (length (cl_asked L))) (cl_client L)"
proof (induction rule: call_reach.induct)
  case (call_start B s)
  then show ?case using client_start by simp
next
  case (call_next L L')
  have next_client: "client_reach (if rc_next_id c = rc_next_id (cl_client L) then Suc (length (cl_asked L))
      else Suc (Suc (length (cl_asked L)))) c" if "client_step (cl_client L) c" for c
    by (rule client_next [OF call_next.IH that])
  show ?case
    using call_step_client [OF call_next.hyps(2) call_reach_asked [OF call_next.hyps(1)]] call_next.IH next_client [of "cl_client L'"]
    by (elim disjE conjE) simp_all
qed

subsection \<open>What a call returns\<close>

definition rate_limited :: ErrorInfo where
  "rate_limited = error_info_new EcBackpressure (lit ''request rate limit exceeded; slow down'')"

definition shutdown_reserved :: ErrorInfo where
  "shutdown_reserved = error_info_new EcUnauthorized (lit ''shutdown is reserved for the hosting process'')"

lemma answer_to_cases:
  assumes "answer_to core turns rid r result"
  shows "into_result result = Inl rate_limited \<or> r = RqShutdown \<and> into_result result = Inl shutdown_reserved \<or>
    r \<noteq> RqShutdown \<and> (\<exists>s. (rid, s) \<in> set turns \<and> into_result result = fst (core r s))"
proof -
  obtain q s where q: "q = None \<or> q = Some r" "(rid, s) \<in> set turns" "result = fst (dispatch_request core q s)"
    using assms by (auto simp: answer_to_def)
  have "into_result (fst (dispatch_request core (Some r) s)) = fst (core r s)" if "r \<noteq> RqShutdown"
    using that by (cases r; cases "core r s"; cases "fst (core r s)")
      (simp_all add: dispatch_request_def response_ok_def response_err_def)
  then show ?thesis
    using q by (cases "r = RqShutdown")
      (auto simp: dispatch_request_def rate_limited_def shutdown_reserved_def response_err_def)
qed

text \<open>Every result of a call belongs to a request that was made.\<close>

lemma call_ok_result:
  assumes "call_ok core L" "(rid, res) \<in> set (rc_results (cl_client L))"
  shows "\<exists>r. (rid, r) \<in> set (cl_asked L) \<and>
    (res \<in> {Inl timeout_error, Inl dropped_error, Inl rate_limited} \<or> r = RqShutdown \<and> res = Inl shutdown_reserved \<or>
     r \<noteq> RqShutdown \<and> (\<exists>s. (rid, s) \<in> set (cl_turns L) \<and> res = fst (core r s)))"
proof -
  have ok: "asked_ok L" "answers_ok core (cl_turns L) (cl_conn L)" "client_ok L" using assms(1) by (simp_all add: call_ok_def)
  have asked: "rid \<in> fst ` set (cl_asked L)"
    and answered: "res = Inl timeout_error \<or> res = Inl dropped_error \<or>
      (\<exists>result. SmResponse rid result \<in> set (cn_wire (cl_conn L)) \<and> res = into_result result)"
    using ok(3) assms(2) unfolding client_ok_def by blast+
  show ?thesis
  proof (cases "res = Inl timeout_error \<or> res = Inl dropped_error")
    case True
    then show ?thesis using asked by fastforce
  next
    case False
    then obtain result where "SmResponse rid result \<in> set (cn_wire (cl_conn L))" and res: "res = into_result result"
      using answered by blast
    then obtain r where "(rid, r) \<in> set (cn_received (cl_conn L))" "answer_to core (cl_turns L) rid r result"
      using ok(2) unfolding answers_ok_def by (metis Un_iff set_append)
    then have "(rid, r) \<in> set (cl_asked L)" "answer_to core (cl_turns L) rid r result"
      using received_asked [OF ok(1)] by blast+
    then show ?thesis using answer_to_cases [of core "cl_turns L" rid r result] unfolding res by fastforce
  qed
qed

text \<open>Nothing waits once everything is sent, answered and read.\<close>

lemma call_ok_quiet:
  assumes "call_ok core L" "rc_pumping (cl_client L)" "requests_of (cl_up L @ rc_outbox (cl_client L)) = []"
    "cn_pending (cl_conn L) = []" "cn_outbox (cl_conn L) = []" "cl_read L = length (cn_wire (cl_conn L))"
  shows "rc_waiting (cl_client L) = []"
proof -
  have "cn_received (cl_conn L) = cl_asked L" using assms(1-3) by (auto simp: call_ok_def asked_ok_def)
  moreover have "response_ids (cn_wire (cl_conn L)) = map fst (cn_received (cl_conn L))"
    using assms(1,4,5) by (simp add: call_ok_def conn_inv_def)
  ultimately have "set (rc_waiting (cl_client L)) \<subseteq> set (response_ids (cn_wire (cl_conn L)))"
    using assms(1) by (simp add: call_ok_def client_ok_def)
  moreover have "set (rc_waiting (cl_client L)) \<inter> set (response_ids (cn_wire (cl_conn L))) = {}"
  proof -
    have "set (rc_waiting (cl_client L)) \<inter> set (response_ids (take (cl_read L) (cn_wire (cl_conn L)))) = {}"
      using assms(1) unfolding call_ok_def client_ok_def by blast
    then show ?thesis unfolding assms(6) by simp
  qed
  ultimately have "set (rc_waiting (cl_client L)) = {}"
    by (metis inf.absorb1)
  then show ?thesis by simp
qed

end
