(* ===== verification/ServiceGuarantees.thy ===== *)
theory ServiceGuarantees
  imports Client Endpoint RemoteCall Samples
begin

section \<open>What the front-end endpoint guarantees\<close>

text \<open>
  The properties of \<^verbatim>\<open>meta-text-core/src/ipc/server.rs\<close> and \<^verbatim>\<open>client.rs\<close>: who is attached, that
  every request is answered once and in order, how much one address is served, and that a client
  call returns once. Each is followed by a concrete instance.
\<close>

subsection \<open>Attaching\<close>

definition sample_core :: "nat core_fun" where
  "sample_core r n = (case r of RqSessionInfo \<Rightarrow> (Inr (RpSession empty_session), n) | _ \<Rightarrow> (Inr (RpPong None), Suc n))"

definition sample_options :: ServerOptions where
  "sample_options = server_options_default\<lparr>so_token := Some (lit ''secret'')\<rparr>"

text \<open>C17: With a token configured, a connection is attached only by a greeting of a supported version
  that carries exactly that token; any other greeting leaves the core's state alone and is answered
  with a rejection or nothing, and a right one is answered with a welcome when the core gives its
  session.\<close>

theorem token_guards_attachment:
  assumes "so_token opts = Some expected" "expected \<noteq> []" "valid_text expected"
    "\<forall>v t c. hello = HelloMessage (Some (CmHello v (Some t) c)) \<longrightarrow> valid_text t"
    "handshake core opts hello s = (out, attached, s')"
  shows "(attached \<longrightarrow> (\<exists>v c. hello = HelloMessage (Some (CmHello v (Some expected) c)) \<and> is_supported_protocol v)) \<and>
    ((\<nexists>v c. hello = HelloMessage (Some (CmHello v (Some expected) c)) \<and> is_supported_protocol v) \<longrightarrow>
       s' = s \<and> (\<forall>m \<in> set out. \<exists>e. m = SmRejected e)) \<and>
    (\<forall>v c session. hello = HelloMessage (Some (CmHello v (Some expected) c)) \<longrightarrow> is_supported_protocol v \<longrightarrow>
       fst (core RqSessionInfo s) = Inr (RpSession session) \<longrightarrow> out = [SmWelcome PROTOCOL_VERSION session] \<and> attached)"
proof -
  have eq: "secret_eq expected (unwrap_or [] t) \<longleftrightarrow> t = Some expected"
    if "hello = HelloMessage (Some (CmHello v t c))" for v t c
  proof (cases t)
    case None
    have "valid_text []" by (simp add: valid_text_def)
    then show ?thesis using None assms(2,3) by (simp add: unwrap_or_def secret_eq_iff)
  next
    case (Some x)
    then have "valid_text x" using assms(4) that by blast
    then show ?thesis using Some assms(3) by (auto simp: unwrap_or_def secret_eq_iff)
  qed
  show ?thesis
    using assms(1,5) eq
    by (auto simp: handshake_def rejected_def split: hello_read.splits option.splits ClientMessage.splits
        if_splits prod.splits sum.splits Reply.splits)
qed

theorem token_guards_attachment_witness:
  "handshake sample_core sample_options (HelloMessage (Some (CmHello PROTOCOL_VERSION (Some (lit ''secret'')) []))) 0 =
     ([SmWelcome PROTOCOL_VERSION empty_session], True, 0) \<and>
   \<not> fst (snd (handshake sample_core sample_options (HelloMessage (Some (CmHello PROTOCOL_VERSION (Some (lit ''secreT'')) []))) 0))"
proof -
  have o: "so_token sample_options = Some (lit ''secret'')" "lit ''secret'' \<noteq> []" "valid_text (lit ''secret'')"
    "valid_text (lit ''secreT'')" "lit ''secret'' \<noteq> lit ''secreT''"
    by (simp_all add: sample_options_def lit_def valid_text_def is_scalar_def)
  have v: "is_supported_protocol PROTOCOL_VERSION"
    by (simp add: is_supported_protocol_def PROTOCOL_VERSION_def MIN_SUPPORTED_PROTOCOL_VERSION_def)
  let ?h = "\<lambda>t. HelloMessage (Some (CmHello PROTOCOL_VERSION (Some t) []))"
  have t: "\<forall>v t c. ?h (lit x) = HelloMessage (Some (CmHello v (Some t) c)) \<longrightarrow> valid_text t" if "valid_text (lit x)" for x
    using that by auto
  obtain out att s' where h: "handshake sample_core sample_options (?h (lit ''secret'')) 0 = (out, att, s')"
    by (metis prod_cases3)
  have "s' = 0"
    using h o v by (auto simp: handshake_def sample_core_def secret_eq_iff unwrap_or_def split: if_splits)
  moreover have "out = [SmWelcome PROTOCOL_VERSION empty_session] \<and> att"
    using token_guards_attachment [OF o(1-3) t [OF o(3)] h] v by (auto simp: sample_core_def)
  moreover obtain out2 att2 s2 where h2: "handshake sample_core sample_options (?h (lit ''secreT'')) 0 = (out2, att2, s2)"
    by (metis prod_cases3)
  moreover have "\<not> att2"
    using token_guards_attachment [OF o(1-3) t [OF o(4)] h2] o(5) by auto
  ultimately show ?thesis using h h2 by simp
qed

subsection \<open>Answering\<close>

text \<open>C10: Whatever the accept loop, the greetings and the tasks of all connections do, in any
  interleaving and with any other use of the core in between: at most sixteen connections exist and
  each holds one permit; a served connection was attached by a greeting that carried a token equal
  to the configured one; its responses written, its responses waiting and its requests waiting are
  the requests it received, in order and each once; and the core is given only requests it sent,
  never a shutdown.\<close>

theorem endpoint_sound:
  assumes "endpoint_reach core opts F E"
  shows "ep_permits E + length (ep_conns E) = 16 \<and> distinct (map fst (ep_conns E)) \<and>
    (\<forall>k h c. phase_of k E = Some (Serving h c) \<longrightarrow>
       (\<exists>v t name. h = HelloMessage (Some (CmHello v t name)) \<and>
          (\<forall>expected. so_token opts = Some expected \<longrightarrow> secret_eq expected (unwrap_or [] t))) \<and>
       response_ids (cn_wire c) @ response_ids (cn_outbox c) @ map fst (cn_pending c) = map fst (cn_received c) \<and>
       length (cn_pending c) \<le> 128 \<and> length (cn_outbox c) \<le> 128 \<and>
       RqShutdown \<notin> set (cn_forwarded c) \<and> set (cn_forwarded c) \<subseteq> set (map snd (cn_received c)))"
proof -
  have ok: "slots_ok E" "serving_ok core opts F E" using endpoint_reach_ok [OF assms] by blast+
  have "conn_inv c \<and> greeted core opts h" if "phase_of k E = Some (Serving h c)" for k h c
    using serving_okD [OF ok(2) that] conn_reach_inv by blast
  then show ?thesis
    using ok(1) greeted_token by (fastforce simp: slots_ok_def MAX_CLIENT_CONNECTIONS_def conn_inv_def CLIENT_OUTBOX_CAPACITY_def)
qed

theorem endpoint_sound_witness:
  "\<exists>E. endpoint_reach sample_core sample_options exact_floats E \<and> ep_permits E = 15 \<and>
     phase_of 0 E = Some (Serving (HelloMessage (Some (CmHello PROTOCOL_VERSION (Some (lit ''secret'')) []))) conn_new) \<and>
     ep_permits E + length (ep_conns E) = 16"
proof -
  let ?h = "HelloMessage (Some (CmHello PROTOCOL_VERSION (Some (lit ''secret'')) []))"
  let ?S = "\<lparr>srv_listener = \<lparr>sa_ip = IpV4 [127, 0, 0, 1], sa_port = 9\<rparr>, srv_permits = MAX_CLIENT_CONNECTIONS\<rparr>"
  let ?E0 = "server_run sample_options 0 ?S"
  let ?E1 = "endpoint_accept (Inr \<lparr>sa_ip = IpV4 [127, 0, 0, 1], sa_port = 10\<rparr>) ?E0"
  let ?E2 = "endpoint_greet sample_core sample_options 0 ?h True ?E1"
  have h: "handshake sample_core sample_options ?h n = ([SmWelcome PROTOCOL_VERSION empty_session], True, n)" for n
    by (rule handshake_attaches)
      (auto simp: is_supported_protocol_def PROTOCOL_VERSION_def MIN_SUPPORTED_PROTOCOL_VERSION_def sample_options_def
        sample_core_def)
  have E: "ep_permits ?E2 = 15" "phase_of 0 ?E2 = Some (Serving ?h conn_new)" "phase_of 0 ?E1 = Some Greeting"
    by (simp_all add: endpoint_greet_def h Let_def phase_set_phase phase_core phase_accept conns_set_phase)
      (simp_all add: endpoint_accept_def server_run_def phase_of_def MAX_CLIENT_CONNECTIONS_def)
  have "endpoint_reach sample_core sample_options exact_floats ?E0"
    by (rule reach_start) (simp add: server_bind_def)
  then have "endpoint_reach sample_core sample_options exact_floats ?E2"
    by (blast intro: reach_next step_accept step_greet [OF E(3)])
  then show ?thesis using endpoint_sound E(1,2) by blast
qed

text \<open>Under every interleaving of a connection's reader, dispatcher, event forwarder and writer, the
  responses on the wire, then those waiting to be written, then the requests waiting for the core
  are at every moment exactly the requests received, in order and each once; both queues stay
  within 128; a shutdown request never reaches the core; and the core is given only requests the
  client sent.\<close>

theorem every_request_answered_once:
  assumes "serve_reach core F v"
  shows "response_ids (cn_wire (sv_conn v)) @ response_ids (cn_outbox (sv_conn v)) @ map fst (cn_pending (sv_conn v)) =
      map fst (cn_received (sv_conn v)) \<and>
    length (cn_pending (sv_conn v)) \<le> 128 \<and> length (cn_outbox (sv_conn v)) \<le> 128 \<and>
    RqShutdown \<notin> set (cn_forwarded (sv_conn v)) \<and>
    set (cn_forwarded (sv_conn v)) \<subseteq> set (map snd (cn_received (sv_conn v)))"
  using serve_reach_inv [OF assms] by (simp add: conn_inv_def CLIENT_OUTBOX_CAPACITY_def)

definition sample_served :: "conn \<Rightarrow> nat \<Rightarrow> nat served" where
  "sample_served c n = \<lparr>sv_conn = c, sv_budgets = budgets_new 0 1, sv_core = n\<rparr>"

theorem every_request_answered_once_witness:
  "\<exists>v. serve_reach sample_core exact_floats v \<and> cn_received (sv_conn v) = [(7, RqShutdown)] \<and>
    response_ids (cn_outbox (sv_conn v)) = [7] \<and> RqShutdown \<notin> set (cn_forwarded (sv_conn v))"
proof -
  let ?c1 = "conn_new\<lparr>cn_received := [(7, RqShutdown)], cn_pending := [(7, Some RqShutdown)]\<rparr>"
  let ?c2 = "fst (conn_dispatch sample_core (?c1, 0))"
  have inc: "conn_incoming exact_floats 0 (IpV4 [127, 0, 0, 1]) 0 (Inr (Some (CmRequest 7 RqShutdown))) (conn_new, budgets_new 0 1) =
      (?c1, budgets_new 0 1)"
    by (simp add: conn_incoming_def budgets_try_acquire_def budgets_new_def budgets_with_limits_def conn_new_def)
  have dis: "conn_dispatch sample_core (?c1, 0) = (?c2, 0)"
    by (simp add: conn_dispatch_def dispatch_request_def)
  have "serve_reach sample_core exact_floats (sample_served conn_new 0)"
    by (rule serve_start) (simp add: sample_served_def)
  moreover have "serve_step sample_core exact_floats (sample_served conn_new 0) (sample_served ?c1 0)"
    using serve_incoming [of "sample_served conn_new 0" exact_floats 0 _ 0 _ ?c1 "budgets_new 0 1" sample_core] inc
    by (simp add: sample_served_def conn_new_def CLIENT_OUTBOX_CAPACITY_def)
  moreover have "serve_step sample_core exact_floats (sample_served ?c1 0) (sample_served ?c2 0)"
    using serve_dispatch [of "sample_served ?c1 0" sample_core ?c2 0 exact_floats] dis
    by (simp add: sample_served_def conn_new_def CLIENT_OUTBOX_CAPACITY_def)
  ultimately have r: "serve_reach sample_core exact_floats (sample_served ?c2 0)" by (meson serve_next)
  have "cn_received ?c2 = [(7, RqShutdown)]" "cn_pending ?c2 = []" "cn_wire ?c2 = []"
    by (simp_all add: conn_dispatch_def dispatch_request_def conn_new_def)
  then show ?thesis
    using r every_request_answered_once [OF r] by (intro exI [of _ "sample_served ?c2 0"]) (simp add: sample_served_def)
qed

subsection \<open>Budgets\<close>



text \<open>No address is shut out: one that has been silent for a second is served again, and one the
  table does not hold is served whatever the table holds, while the table never grows beyond its
  capacity.\<close>

theorem address_budget_fair:
  assumes "float_laws F" "budgets_wf B" "now \<le> created"
  shows "(map_of (pb_entries B) peer = None \<longrightarrow> fst (budgets_try_acquire F created peer now B)) \<and>
    (\<forall>b. bucket_ok b \<longrightarrow> tb_last b + secs 1 \<le> now \<longrightarrow> fst (bucket_try_acquire F now b)) \<and>
    length (pb_entries (snd (budgets_try_acquire F created peer now B))) \<le>
      pb_capacity (snd (budgets_try_acquire F created peer now B)) \<and>
    pb_capacity (snd (budgets_try_acquire F created peer now B)) = pb_capacity B"
proof -
  have "pb_capacity (snd (budgets_try_acquire F created peer now B)) = pb_capacity B"
    by (simp add: budgets_try_acquire_def Let_def split_beta evict_oldest_def sweep_def split: option.split)
  then show ?thesis
    using budgets_new_address [OF assms(1,2) _ assms(3)] bucket_idle_second [OF assms(1)]
      budgets_try_acquire_wf [OF assms(1,2), of created peer now]
    by (simp add: budgets_wf_def)
qed

theorem address_budget_fair_witness:
  "fst (budgets_try_acquire exact_floats 5 (IpV4 [10, 0, 0, 1]) 5 (budgets_new 256 512)) \<and>
   length (pb_entries (snd (budgets_try_acquire exact_floats 5 (IpV4 [10, 0, 0, 1]) 5 (budgets_new 256 512)))) \<le>
     pb_capacity (budgets_new 256 512)"
proof -
  have wf: "budgets_wf (budgets_new 256 512)" unfolding budgets_new_def by (rule budgets_new_wf)
  have "map_of (pb_entries (budgets_new 256 512)) (IpV4 [10, 0, 0, 1]) = None"
    by (simp add: budgets_new_def budgets_with_limits_def)
  then show ?thesis
    using address_budget_fair [OF exact_floats_laws wf, of 5 5 "IpV4 [10, 0, 0, 1]"] by simp
qed

subsection \<open>The client\<close>

text \<open>Every call on a remote client returns at most once, whatever answers, timeouts and failures
  arrive in whatever order, as long as the 64-bit request ids do not run out; a response goes to
  exactly the call that waits for its id; and when the connection has ended no call is left
  waiting.\<close>

theorem client_calls_return_once:
  assumes "client_reach n c" "Suc n < 2 ^ 64"
  shows "distinct (map fst (rc_results c)) \<and> set (rc_waiting c) \<inter> set (map fst (rc_results c)) = {} \<and>
    (rc_closed c \<longrightarrow> rc_waiting c = []) \<and>
    rc_results (pump_incoming (Inr (Some (SmResponse rid result))) c) =
      rc_results c @ (if rid \<in> set (rc_waiting c) then [(rid, into_result result)] else [])"
  using client_reach_inv [OF assms] pump_response [of rid c result]
  by (auto simp: client_inv_def)

theorem client_calls_return_once_witness:
  "\<exists>c. client_reach 2 c \<and> rc_waiting c = [1] \<and>
    rc_results (pump_incoming (Inr (Some (SmResponse 1 (response_ok (RpPong None))))) c) = [(1, into_result (response_ok (RpPong None)))]"
proof -
  let ?c = "snd (client_request RqShutdown remote_client_new)"
  have c: "rc_waiting ?c = [1]" "rc_results ?c = []" "rc_next_id ?c \<noteq> rc_next_id remote_client_new"
    by (simp_all add: client_request_def remote_client_new_def)
  have "client_reach (if rc_next_id ?c = rc_next_id remote_client_new then 1 else Suc 1) ?c"
    by (rule client_next [OF client_start step_request])
  then have r: "client_reach 2 ?c" using c(3) by (simp add: numeral_2_eq_2)
  show ?thesis
    using client_calls_return_once [OF r, of 1 "response_ok (RpPong None)"] r c by (intro exI [of _ ?c]) simp
qed

subsection \<open>A call, from the caller to the core and back\<close>


definition sample_link :: "RemoteClient \<Rightarrow> (u64 \<times> Request) list \<Rightarrow> ClientMessage list \<Rightarrow> conn \<Rightarrow> nat \<Rightarrow> nat \<Rightarrow> (u64 \<times> nat) list \<Rightarrow> nat call_link"
  where "sample_link c asked up cn n core turns = \<lparr>cl_client = c, cl_asked = asked, cl_up = up, cl_conn = cn, cl_read = n,
    cl_budgets = budgets_new 0 1, cl_core = core, cl_turns = turns\<rparr>"

lemma sample_link_select [simp]:
  "cl_client (sample_link c asked up cn n core turns) = c" "cl_asked (sample_link c asked up cn n core turns) = asked"
  "cl_up (sample_link c asked up cn n core turns) = up" "cl_conn (sample_link c asked up cn n core turns) = cn"
  "cl_read (sample_link c asked up cn n core turns) = n" "cl_core (sample_link c asked up cn n core turns) = core"
  "cl_budgets (sample_link c asked up cn n core turns) = budgets_new 0 1"
  "cl_turns (sample_link c asked up cn n core turns) = turns"
  by (simp_all add: sample_link_def)


end
