(* ===== verification/ConfigGuarantees.thy ===== *)
theory ConfigGuarantees
  imports Config Validation Samples
begin

section \<open>What the configuration and the boundary checks guarantee\<close>

text \<open>
  The properties of \<^verbatim>\<open>config.rs\<close>, of the overrides \<^verbatim>\<open>core.rs\<close> applies and of
  \<^verbatim>\<open>meta-text-proto/src/ipc/validation.rs\<close>.
\<close>

text \<open>A start from valid parts is valid: the default configuration passes validation, and a valid
  configuration overridden by a valid command line is valid again.\<close>

theorem overrides_keep_config_valid:
  assumes "cli_validate ex args = Inr ()"
  shows "config_validate config_default = Inr () \<and>
    (\<forall>c. config_validate c = Inr () \<longrightarrow> config_validate (apply_overrides dir c args) = Inr ())"
  using config_default_valid apply_overrides_valid [OF _ assms] by blast

theorem overrides_keep_config_valid_witness:
  "config_validate (apply_overrides (Some (lit ''/home/me'')) config_default cli_default) = Inr ()"
  using overrides_keep_config_valid [OF cli_default_valid] by blast

text \<open>The connection limit of the configuration file is never used: for every command line that
  validates, the limit in force is the command line's, given or not.\<close>

theorem configured_connection_limit_ignored:
  assumes "cli_validate ex args = Inr ()"
  shows "net_max_connections (cfg_network (apply_overrides dir c args)) = cl_max_connections args"
  by (rule override_max_connections [OF assms])

theorem configured_connection_limit_ignored_witness:
  "net_max_connections (cfg_network (apply_overrides None
     (config_default\<lparr>cfg_network := network_config_default\<lparr>net_max_connections := 5\<rparr>\<rparr>) cli_default)) = 100"
  using configured_connection_limit_ignored [OF cli_default_valid] by (simp add: cli_default_def)

text \<open>What a front-end or a peer may put on the screen: a nickname, status, identifier or group name
  is accepted exactly when its trimmed form has no control character and is within its limit, a
  nickname and an identifier also being non-empty and an identifier free of blanks; what is
  accepted is the trimmed form, which is accepted again unchanged; and a peer's own announcement of
  a nickname is held to the same rule.\<close>

theorem accepted_labels:
  "(validate_nickname v = Inr t \<longleftrightarrow>
      t = trim v \<and> t \<noteq> [] \<and> length t \<le> MAX_NICKNAME_LEN \<and> (\<forall>c \<in> set t. \<not> is_control c)) \<and>
   (validate_status v = Inr t \<longleftrightarrow> t = trim v \<and> length t \<le> MAX_STATUS_LEN \<and> (\<forall>c \<in> set t. \<not> is_control c)) \<and>
   (validate_identifier v = Inr t \<longleftrightarrow>
      t = trim v \<and> t \<noteq> [] \<and> length t \<le> MAX_IDENTIFIER_LEN \<and> (\<forall>c \<in> set t. \<not> is_control c \<and> \<not> is_whitespace c)) \<and>
   (validate_group_name v = Inr t \<longleftrightarrow> t = trim v \<and> length t \<le> MAX_GROUP_NAME_LEN \<and> (\<forall>c \<in> set t. \<not> is_control c)) \<and>
   (validate_nickname v = Inr t \<longrightarrow> validate_nickname t = Inr t) \<and>
   (peer_label v = Some t \<longleftrightarrow> validate_nickname v = Inr t)"
  unfolding validate_nickname_Inr validate_status_Inr validate_identifier_Inr validate_group_name_Inr peer_label_Some
  by (auto simp: displayable_def)

theorem accepted_labels_witness:
  "validate_nickname (lit '' Bob '') = Inr (lit ''Bob'') \<and> \<not> (\<exists>t. validate_nickname (lit ''  '') = Inr t) \<and>
   validate_nickname (lit ''Bob'') = Inr (lit ''Bob'')"
proof -
  have t: "trim (lit '' Bob '') = lit ''Bob''" "trim (lit ''Bob'') = lit ''Bob''" "trim (lit ''  '') = []"
    by (simp_all add: trim_def trim_start_def trim_end_def lit_def is_whitespace_def)
  have "length (lit ''Bob'') \<le> MAX_NICKNAME_LEN" "\<forall>c \<in> set (lit ''Bob''). \<not> is_control c" "lit ''Bob'' \<noteq> []"
    by (simp_all add: MAX_NICKNAME_LEN_def lit_def is_control_def)
  then show ?thesis
    using accepted_labels [of "lit '' Bob ''" "lit ''Bob''"] accepted_labels [of "lit ''  ''"] by (auto simp: t)
qed

end
