(* ===== verification/Database.thy ===== *)
theory Database
  imports Config "HOL-Library.Multiset"
begin

section \<open>Message database (\<^verbatim>\<open>meta-text-backend/src/database.rs\<close>)\<close>

text \<open>
  The manager, the statements it sends and the rows it reads back. SQLite, its driver, the
  clock, identifiers and RFC 3339 are not part of the repository: \<open>sqlite\<close> collects them as
  functions over an abstract database, a statement is a constructor with the tables and columns
  the code writes in its SQL, and \<open>sqlite_laws\<close> states what the statements are documented to do.
  Every operation that reaches the engine can fail with the engine's own text.
\<close>

datatype MessageDirection = Incoming | Outgoing

fun direction_as_str :: "MessageDirection \<Rightarrow> rtext" where
  "direction_as_str Incoming = lit ''in''"
| "direction_as_str Outgoing = lit ''out''"

definition direction_from_db :: "rtext \<Rightarrow> MessageDirection" where
  "direction_from_db v = (if v = lit ''out'' then Outgoing else Incoming)"

datatype ConversationKind = Direct | InGroup

fun conversation_as_str :: "ConversationKind \<Rightarrow> rtext" where
  "conversation_as_str Direct = lit ''direct''"
| "conversation_as_str InGroup = lit ''group''"

definition conversation_from_db :: "rtext \<Rightarrow> ConversationKind" where
  "conversation_from_db v = (if eq_ignore_ascii_case v (lit ''group'') then InGroup else Direct)"

record StoredMessage =
  sm_id :: int
  sm_direction :: MessageDirection
  sm_peer :: rtext
  sm_body :: rtext
  sm_wire_bytes :: u64
  sm_kind :: MessageKind
  sm_content_type :: ContentType
  sm_conversation :: ConversationKind
  sm_group_id :: rtext
  sm_created_at :: timestamp

definition stored_message_new ::
    "timestamp \<Rightarrow> MessageDirection \<Rightarrow> rtext \<Rightarrow> rtext \<Rightarrow> u64 \<Rightarrow> MessageKind \<Rightarrow> ContentType \<Rightarrow> StoredMessage" where
  "stored_message_new now d peer body wire k c = \<lparr>sm_id = 0, sm_direction = d, sm_peer = peer,
     sm_body = body, sm_wire_bytes = wire, sm_kind = k, sm_content_type = c,
     sm_conversation = Direct, sm_group_id = [], sm_created_at = now\<rparr>"

definition stored_message_in_group ::
    "timestamp \<Rightarrow> MessageDirection \<Rightarrow> Group \<Rightarrow> rtext \<Rightarrow> u64 \<Rightarrow> MessageKind \<Rightarrow> ContentType \<Rightarrow> StoredMessage" where
  "stored_message_in_group now d g body wire k c =
     (let name = (if g_name g = [] then abbreviate (g_id g) else g_name g) in
      \<lparr>sm_id = 0, sm_direction = d, sm_peer = name, sm_body = body, sm_wire_bytes = wire,
       sm_kind = k, sm_content_type = c, sm_conversation = InGroup, sm_group_id = g_id g,
       sm_created_at = now\<rparr>)"

subsection \<open>The engine\<close>

datatype sql_value = SqlNull | SqlInt int | SqlText rtext | SqlBlob bytes

type_synonym sql_row = "(rtext \<times> sql_value) list"

text \<open>The statements of the module: what each one names.\<close>

datatype statement =
    SelectTableNames rtext                    \<comment> \<open>the tables of that name\<close>
  | TableInfo rtext                           \<comment> \<open>PRAGMA table\_info\<close>
  | CreateTable rtext "(rtext \<times> rtext) list" \<comment> \<open>if not exists; columns with declarations\<close>
  | CreateIndex rtext rtext rtext             \<comment> \<open>if not exists; index, table, column\<close>
  | AddColumn rtext rtext rtext               \<comment> \<open>ALTER TABLE .. ADD COLUMN\<close>
  | InsertOrReplace rtext "rtext list"
  | Insert rtext "rtext list"
  | SelectOrdered rtext "rtext list" rtext    \<comment> \<open>ORDER BY that column, ascending\<close>
  | SelectNewest rtext "rtext list"           \<comment> \<open>ORDER BY id DESC LIMIT ?\<close>
  | CountRows rtext

record 'db sqlite =
  sq_create_dir :: "rtext \<Rightarrow> rtext option"                \<comment> \<open>the parent directory; an error\<close>
  sq_parent :: "rtext \<Rightarrow> rtext option"                    \<comment> \<open>\<open>Path::parent\<close>\<close>
  sq_connect :: "rtext \<Rightarrow> nat \<Rightarrow> rtext + 'db"
  sq_execute :: "'db \<Rightarrow> statement \<Rightarrow> sql_value list \<Rightarrow> rtext + 'db"
  sq_fetch_all :: "'db \<Rightarrow> statement \<Rightarrow> sql_value list \<Rightarrow> rtext + sql_row list"
  sq_column_error :: "rtext \<Rightarrow> rtext"                      \<comment> \<open>a column that cannot be read\<close>
  sq_uuid_text :: "uuid \<Rightarrow> rtext"
  sq_uuid_parse :: "rtext \<Rightarrow> rtext + uuid"
  sq_rfc3339 :: "timestamp \<Rightarrow> rtext"
  sq_parse_rfc3339 :: "rtext \<Rightarrow> rtext + timestamp"

text \<open>\<^verbatim>\<open>row.try_get\<close> at the types the module reads: a missing column, NULL or another type is
  an error for a plain type; an option reads NULL as nothing.\<close>

definition get_text :: "sql_row \<Rightarrow> rtext \<Rightarrow> rtext option" where
  "get_text row c = (case map_of row c of Some (SqlText t) \<Rightarrow> Some t | _ \<Rightarrow> None)"

definition get_blob :: "sql_row \<Rightarrow> rtext \<Rightarrow> bytes option" where
  "get_blob row c = (case map_of row c of Some (SqlBlob b) \<Rightarrow> Some b | _ \<Rightarrow> None)"

definition get_int :: "sql_row \<Rightarrow> rtext \<Rightarrow> int option" where
  "get_int row c = (case map_of row c of Some (SqlInt i) \<Rightarrow> Some i | _ \<Rightarrow> None)"

definition get_bool :: "sql_row \<Rightarrow> rtext \<Rightarrow> bool option" where
  "get_bool row c = map_option (\<lambda>i. i \<noteq> 0) (get_int row c)"

definition bind_option :: "rtext option \<Rightarrow> sql_value" where
  "bind_option v = (case v of None \<Rightarrow> SqlNull | Some t \<Rightarrow> SqlText t)"

subsection \<open>The manager\<close>

record 'db Database =
  db_connection_string :: rtext
  db_max_connections :: nat
  db_type :: rtext
  db_enable_migrations :: bool
  db_initialized :: bool
  db_pool :: "'db option"

definition database_new :: "DatabaseConfig \<Rightarrow> 'db Database mt_result" where
  "database_new c = Inr \<lparr>db_connection_string = dbc_connection_string c,
     db_max_connections = dbc_max_connections c, db_type = dbc_type c,
     db_enable_migrations = dbc_enable_migrations c, db_initialized = False, db_pool = None\<rparr>"

definition is_initialized :: "'db Database \<Rightarrow> bool" where
  "is_initialized D = db_initialized D"

definition is_persistent :: "'db Database \<Rightarrow> bool" where
  "is_persistent D \<longleftrightarrow> db_pool D \<noteq> None"

definition db_fail :: "string \<Rightarrow> rtext \<Rightarrow> MetaTextError" where
  "db_fail operation m = MtDatabase m (lit operation) None"

definition database_pool :: "'db Database \<Rightarrow> 'db mt_result" where
  "database_pool D = (case db_pool D of
       None \<Rightarrow> Inl (db_fail ''pool'' (lit ''SQLite pool is not available; call start() first''))
     | Some p \<Rightarrow> Inr p)"

definition contact_columns :: "rtext list" where
  "contact_columns = map lit [''id'', ''name'', ''public_key'', ''status'', ''status_message'',
     ''added_at'', ''last_seen'', ''avatar_hash'', ''note'', ''is_blocked'']"

definition message_columns :: "rtext list" where
  "message_columns = map lit [''id'', ''direction'', ''peer'', ''body'', ''wire_bytes'', ''kind'',
     ''content_type'', ''conversation'', ''group_id'', ''created_at'']"

definition schema :: "(rtext \<times> rtext list) list" where
  "schema = [(lit ''contacts'', contact_columns), (lit ''messages'', message_columns)]"

definition quoted :: "rtext \<Rightarrow> rtext" where
  "quoted v = [39] @ v @ [39]"

definition schema_error :: "rtext \<Rightarrow> MetaTextError" where
  "schema_error missing = db_fail ''migrate'' (lit ''the database has '' @ missing @
     lit '' and migrations are disabled (database.enable_migrations = false): enable them, or point database.connection_string at a database whose schema is already applied'')"

definition inspect_error :: "rtext \<Rightarrow> rtext \<Rightarrow> MetaTextError" where
  "inspect_error table e =
     db_fail ''migrate'' (lit ''Failed to inspect the schema of '' @ table @ lit '': '' @ e)"

definition sqlite_table_exists :: "'db sqlite \<Rightarrow> 'db \<Rightarrow> rtext \<Rightarrow> bool mt_result" where
  "sqlite_table_exists Q p table =
     (case sq_fetch_all Q p (SelectTableNames table) [SqlText table] of
        Inl e \<Rightarrow> Inl (inspect_error table e)
      | Inr rows \<Rightarrow> Inr (rows \<noteq> []))"

definition plain_name :: "rtext \<Rightarrow> bool" where
  "plain_name table \<longleftrightarrow> list_all (\<lambda>c. (48 \<le> c \<and> c \<le> 57) \<or> (65 \<le> c \<and> c \<le> 90) \<or> (97 \<le> c \<and> c \<le> 122) \<or> c = 95) table"

definition sqlite_column_exists :: "'db sqlite \<Rightarrow> 'db \<Rightarrow> rtext \<Rightarrow> rtext \<Rightarrow> bool mt_result" where
  "sqlite_column_exists Q p table column =
     (if \<not> plain_name table then Inr False
      else case sq_fetch_all Q p (TableInfo table) [] of
             Inl e \<Rightarrow> Inl (inspect_error table e)
           | Inr rows \<Rightarrow> Inr (list_ex (\<lambda>row. get_text row (lit ''name'') = Some column) rows))"

fun require_columns :: "'db sqlite \<Rightarrow> 'db \<Rightarrow> rtext \<Rightarrow> rtext list \<Rightarrow> unit mt_result" where
  "require_columns Q p table [] = Inr ()"
| "require_columns Q p table (c # cs) =
     (case sqlite_column_exists Q p table c of
        Inl e \<Rightarrow> Inl e
      | Inr False \<Rightarrow> Inl (schema_error (table @ lit '' has no '' @ quoted c @ lit '' column''))
      | Inr True \<Rightarrow> require_columns Q p table cs)"

fun require_tables :: "'db sqlite \<Rightarrow> 'db \<Rightarrow> (rtext \<times> rtext list) list \<Rightarrow> unit mt_result" where
  "require_tables Q p [] = Inr ()"
| "require_tables Q p ((table, columns) # rest) =
     (case sqlite_table_exists Q p table of
        Inl e \<Rightarrow> Inl e
      | Inr False \<Rightarrow> Inl (schema_error (lit ''no '' @ quoted table @ lit '' table''))
      | Inr True \<Rightarrow> (case require_columns Q p table columns of
            Inl e \<Rightarrow> Inl e
          | Inr _ \<Rightarrow> require_tables Q p rest))"

definition require_schema :: "'db sqlite \<Rightarrow> 'db \<Rightarrow> unit mt_result" where
  "require_schema Q p = require_tables Q p schema"

definition declared_default :: "rtext \<Rightarrow> rtext" where
  "declared_default v = lit ''TEXT NOT NULL DEFAULT '' @ quoted v"

definition migration_statements :: "statement list" where
  "migration_statements =
     [CreateTable (lit ''contacts'')
        [(lit ''id'', lit ''TEXT PRIMARY KEY''), (lit ''name'', lit ''TEXT NOT NULL''),
         (lit ''public_key'', lit ''BLOB NOT NULL''), (lit ''status'', lit ''TEXT NOT NULL''),
         (lit ''status_message'', lit ''TEXT''), (lit ''added_at'', lit ''TEXT NOT NULL''),
         (lit ''last_seen'', lit ''TEXT''), (lit ''avatar_hash'', lit ''TEXT''),
         (lit ''note'', lit ''TEXT''), (lit ''is_blocked'', lit ''INTEGER NOT NULL DEFAULT 0'')],
      CreateTable (lit ''messages'')
        [(lit ''id'', lit ''INTEGER PRIMARY KEY AUTOINCREMENT''),
         (lit ''direction'', lit ''TEXT NOT NULL''), (lit ''peer'', lit ''TEXT NOT NULL''),
         (lit ''body'', lit ''TEXT NOT NULL''), (lit ''wire_bytes'', lit ''INTEGER NOT NULL DEFAULT 0''),
         (lit ''kind'', declared_default (lit ''text'')),
         (lit ''content_type'', declared_default (lit ''text'')),
         (lit ''conversation'', declared_default (lit ''direct'')),
         (lit ''group_id'', declared_default []),
         (lit ''created_at'', lit ''TEXT NOT NULL'')],
      CreateIndex (lit ''idx_messages_created_at'') (lit ''messages'') (lit ''created_at''),
      CreateIndex (lit ''idx_messages_peer'') (lit ''messages'') (lit ''peer'')]"

definition added_columns :: "(rtext \<times> rtext) list" where
  "added_columns =
     [(lit ''kind'', declared_default (lit ''text'')),
      (lit ''content_type'', declared_default (lit ''text'')),
      (lit ''conversation'', declared_default (lit ''direct'')),
      (lit ''group_id'', declared_default [])]"

fun run_statements :: "'db sqlite \<Rightarrow> statement list \<Rightarrow> 'db \<Rightarrow> 'db mt_result" where
  "run_statements Q [] p = Inr p"
| "run_statements Q (s # ss) p =
     (case sq_execute Q p s [] of
        Inl e \<Rightarrow> Inl (db_fail ''migrate'' (lit ''Schema migration failed: '' @ e))
      | Inr p' \<Rightarrow> run_statements Q ss p')"

fun add_missing_columns :: "'db sqlite \<Rightarrow> (rtext \<times> rtext) list \<Rightarrow> 'db \<Rightarrow> 'db mt_result" where
  "add_missing_columns Q [] p = Inr p"
| "add_missing_columns Q ((column, declared) # rest) p =
     (case sqlite_column_exists Q p (lit ''messages'') column of
        Inl e \<Rightarrow> Inl e
      | Inr True \<Rightarrow> add_missing_columns Q rest p
      | Inr False \<Rightarrow>
          (case sq_execute Q p (AddColumn (lit ''messages'') column declared) [] of
             Inl e \<Rightarrow> Inl (db_fail ''migrate''
                        (lit ''Failed to add messages.'' @ column @ lit '': '' @ e))
           | Inr p' \<Rightarrow> add_missing_columns Q rest p'))"

definition run_migrations :: "'db sqlite \<Rightarrow> 'db \<Rightarrow> 'db mt_result" where
  "run_migrations Q p =
     (case run_statements Q migration_statements p of
        Inl e \<Rightarrow> Inl e
      | Inr p' \<Rightarrow> add_missing_columns Q added_columns p')"

text \<open>The directory of a file database is created first; \<^verbatim>\<open>:memory:\<close> has none.\<close>

definition prepare_directory :: "'db sqlite \<Rightarrow> rtext \<Rightarrow> MetaTextError option" where
  "prepare_directory Q path =
     (if path = lit '':memory:'' then None
      else case sq_parent Q path of
             None \<Rightarrow> None
           | Some parent \<Rightarrow>
               if parent = [] then None
               else map_option
                      (\<lambda>e. db_fail ''connect'' (lit ''Failed to create database directory '' @ parent @ lit '': '' @ e))
                      (sq_create_dir Q parent))"

text \<open>\<^verbatim>\<open>start\<close>, of a build with the \<^verbatim>\<open>sqlite\<close> feature: the manager it leaves and its result.\<close>

definition open_pool :: "'db sqlite \<Rightarrow> 'db Database \<Rightarrow> 'db mt_result" where
  "open_pool Q D =
     (case prepare_directory Q (db_connection_string D) of
        Some e \<Rightarrow> Inl e
      | None \<Rightarrow>
          (case sq_connect Q (db_connection_string D) (max (db_max_connections D) 1) of
             Inl e \<Rightarrow> Inl (db_fail ''connect'' (lit ''Failed to open SQLite database '' @
                        db_connection_string D @ lit '': '' @ e))
           | Inr p \<Rightarrow>
               if db_enable_migrations D then run_migrations Q p
               else case require_schema Q p of Inl e \<Rightarrow> Inl e | Inr _ \<Rightarrow> Inr p))"

definition database_start :: "'db sqlite \<Rightarrow> 'db Database \<Rightarrow> 'db Database \<times> unit mt_result" where
  "database_start Q D =
     (if db_initialized D then (D, Inr ())
      else if eq_ignore_ascii_case (db_type D) (lit ''sqlite'') then
        (case open_pool Q D of
           Inl e \<Rightarrow> (D, Inl e)
         | Inr p \<Rightarrow> (D\<lparr>db_pool := Some p, db_initialized := True\<rparr>, Inr ()))
      else (D\<lparr>db_initialized := True\<rparr>, Inr ()))"

definition database_shutdown :: "'db Database \<Rightarrow> 'db Database \<times> unit mt_result" where
  "database_shutdown D = (D\<lparr>db_pool := None, db_initialized := False\<rparr>, Inr ())"

subsection \<open>Rows in and out\<close>

definition parse_uuid :: "'db sqlite \<Rightarrow> rtext \<Rightarrow> uuid mt_result" where
  "parse_uuid Q v = (case sq_uuid_parse Q v of
       Inl e \<Rightarrow> Inl (db_fail ''load_contacts'' (lit ''Invalid contact id '' @ quoted v @ lit '': '' @ e))
     | Inr u \<Rightarrow> Inr u)"

definition parse_datetime :: "'db sqlite \<Rightarrow> rtext \<Rightarrow> timestamp mt_result" where
  "parse_datetime Q v = (case sq_parse_rfc3339 Q v of
       Inl e \<Rightarrow> Inl (db_fail ''timestamp'' (lit ''Invalid timestamp '' @ quoted v @ lit '': '' @ e))
     | Inr t \<Rightarrow> Inr t)"

text \<open>An operation that changes the tables: the pool, or the error of a manager without one.\<close>

definition database_execute ::
    "'db sqlite \<Rightarrow> statement \<Rightarrow> sql_value list \<Rightarrow> (rtext \<Rightarrow> MetaTextError) \<Rightarrow> 'db Database
      \<Rightarrow> 'db Database \<times> unit mt_result" where
  "database_execute Q s vs fail D =
     (case database_pool D of
        Inl e \<Rightarrow> (D, Inl e)
      | Inr p \<Rightarrow> (case sq_execute Q p s vs of
            Inl e \<Rightarrow> (D, Inl (fail e))
          | Inr p' \<Rightarrow> (D\<lparr>db_pool := Some p'\<rparr>, Inr ())))"

definition contact_values :: "'db sqlite \<Rightarrow> Contact \<Rightarrow> sql_value list" where
  "contact_values Q c =
     [SqlText (sq_uuid_text Q (ct_id c)), SqlText (ct_name c), SqlBlob (ct_public_key c),
      SqlText (status_as_name (ct_status c)), bind_option (ct_status_message c),
      SqlText (sq_rfc3339 Q (ct_added_at c)),
      bind_option (map_option (sq_rfc3339 Q) (ct_last_seen c)), bind_option (ct_avatar_hash c),
      bind_option (ct_note c), SqlInt (if ct_is_blocked c then 1 else 0)]"

definition save_contact :: "'db sqlite \<Rightarrow> Contact \<Rightarrow> 'db Database \<Rightarrow> 'db Database \<times> unit mt_result" where
  "save_contact Q c D =
     database_execute Q (InsertOrReplace (lit ''contacts'') contact_columns) (contact_values Q c)
       (\<lambda>e. db_fail ''save_contact'' (lit ''Failed to save contact '' @ ct_name c @ lit '': '' @ e)) D"

definition contact_of_row :: "'db sqlite \<Rightarrow> sql_row \<Rightarrow> Contact mt_result" where
  "contact_of_row Q row =
     (case get_text row (lit ''status'') of
        None \<Rightarrow> Inl (db_fail ''load_contacts'' (lit ''Missing contact status column: '' @ sq_column_error Q (lit ''status'')))
      | Some status_name \<Rightarrow>
      (case get_text row (lit ''added_at'') of
        None \<Rightarrow> Inl (db_fail ''load_contacts'' (lit ''Missing contact added_at column: '' @ sq_column_error Q (lit ''added_at'')))
      | Some added_at \<Rightarrow>
      (case get_text row (lit ''id'') of
        None \<Rightarrow> Inl (db_fail ''load_contacts'' (lit ''Missing contact id column: '' @ sq_column_error Q (lit ''id'')))
      | Some i \<Rightarrow>
      (case parse_uuid Q i of Inl e \<Rightarrow> Inl e | Inr u \<Rightarrow>
      (case parse_datetime Q added_at of Inl e \<Rightarrow> Inl e | Inr added \<Rightarrow>
      (case (case get_text row (lit ''last_seen'') of
               None \<Rightarrow> Inr None
             | Some t \<Rightarrow> (case parse_datetime Q t of Inl e \<Rightarrow> Inl e | Inr x \<Rightarrow> Inr (Some x)))
       of Inl e \<Rightarrow> Inl e | Inr seen \<Rightarrow>
         Inr \<lparr>ct_id = u, ct_name = unwrap_or [] (get_text row (lit ''name'')),
              ct_public_key = unwrap_or [] (get_blob row (lit ''public_key'')),
              ct_status = status_from_name status_name,
              ct_status_message = get_text row (lit ''status_message''),
              ct_added_at = added, ct_last_seen = seen,
              ct_avatar_hash = get_text row (lit ''avatar_hash''),
              ct_note = get_text row (lit ''note''),
              ct_is_blocked = unwrap_or False (get_bool row (lit ''is_blocked''))\<rparr>))))))"

fun read_rows :: "(sql_row \<Rightarrow> 'a mt_result) \<Rightarrow> sql_row list \<Rightarrow> 'a list mt_result" where
  "read_rows f [] = Inr []"
| "read_rows f (r # rs) = (case f r of
     Inl e \<Rightarrow> Inl e
   | Inr x \<Rightarrow> (case read_rows f rs of Inl e \<Rightarrow> Inl e | Inr xs \<Rightarrow> Inr (x # xs)))"

definition load_contacts :: "'db sqlite \<Rightarrow> 'db Database \<Rightarrow> Contact list mt_result" where
  "load_contacts Q D =
     (case database_pool D of
        Inl e \<Rightarrow> Inl e
      | Inr p \<Rightarrow>
          (case sq_fetch_all Q p (SelectOrdered (lit ''contacts'') contact_columns (lit ''added_at'')) [] of
             Inl e \<Rightarrow> Inl (db_fail ''load_contacts'' (lit ''Failed to load contacts: '' @ e))
           | Inr rows \<Rightarrow> read_rows (contact_of_row Q) rows))"

definition i64_max :: int where
  "i64_max = 2 ^ 63 - 1"

definition message_values :: "'db sqlite \<Rightarrow> StoredMessage \<Rightarrow> sql_value list" where
  "message_values Q m =
     [SqlText (direction_as_str (sm_direction m)), SqlText (sm_peer m), SqlText (sm_body m),
      SqlInt (min (uint (sm_wire_bytes m)) i64_max), SqlText (kind_as_str (sm_kind m)),
      SqlText (content_as_str (sm_content_type m)), SqlText (conversation_as_str (sm_conversation m)),
      SqlText (sm_group_id m), SqlText (sq_rfc3339 Q (sm_created_at m))]"

definition save_message :: "'db sqlite \<Rightarrow> StoredMessage \<Rightarrow> 'db Database \<Rightarrow> 'db Database \<times> unit mt_result" where
  "save_message Q m D =
     database_execute Q (Insert (lit ''messages'') (tl message_columns)) (message_values Q m)
       (\<lambda>e. db_fail ''save_message'' (lit ''Failed to save message for '' @ sm_peer m @ lit '': '' @ e)) D"

definition message_of_row :: "'db sqlite \<Rightarrow> sql_row \<Rightarrow> StoredMessage mt_result" where
  "message_of_row Q row =
     (let direction = unwrap_or [] (get_text row (lit ''direction''));
          created_at = unwrap_or [] (get_text row (lit ''created_at'')) in
      case parse_datetime Q created_at of
        Inl e \<Rightarrow> Inl e
      | Inr t \<Rightarrow>
         Inr \<lparr>sm_id = unwrap_or 0 (get_int row (lit ''id'')),
              sm_direction = direction_from_db direction,
              sm_peer = unwrap_or [] (get_text row (lit ''peer'')),
              sm_body = unwrap_or [] (get_text row (lit ''body'')),
              sm_wire_bytes = word_of_int (max (unwrap_or 0 (get_int row (lit ''wire_bytes''))) 0),
              sm_kind = kind_from_db (unwrap_or [] (get_text row (lit ''kind''))),
              sm_content_type = content_from_db (unwrap_or [] (get_text row (lit ''content_type''))),
              sm_conversation = conversation_from_db (unwrap_or [] (get_text row (lit ''conversation''))),
              sm_group_id = unwrap_or [] (get_text row (lit ''group_id'')),
              sm_created_at = t\<rparr>)"

definition recent_messages :: "'db sqlite \<Rightarrow> nat \<Rightarrow> 'db Database \<Rightarrow> StoredMessage list mt_result" where
  "recent_messages Q limit D =
     (case database_pool D of
        Inl e \<Rightarrow> Inl e
      | Inr p \<Rightarrow>
          (case sq_fetch_all Q p (SelectNewest (lit ''messages'') message_columns)
                  [SqlInt (min (int limit) i64_max)] of
             Inl e \<Rightarrow> Inl (db_fail ''recent_messages'' (lit ''Failed to load message history: '' @ e))
           | Inr rows \<Rightarrow>
               (case read_rows (message_of_row Q) rows of
                  Inl e \<Rightarrow> Inl e
                | Inr messages \<Rightarrow> Inr (rev messages))))"

text \<open>\<^verbatim>\<open>COUNT(*)\<close> comes back as the one value of one row.\<close>

definition message_count :: "'db sqlite \<Rightarrow> 'db Database \<Rightarrow> u64 mt_result" where
  "message_count Q D =
     (case database_pool D of
        Inl e \<Rightarrow> Inl e
      | Inr p \<Rightarrow>
          (case sq_fetch_all Q p (CountRows (lit ''messages'')) [] of
             Inl e \<Rightarrow> Inl (db_fail ''message_count'' (lit ''Failed to count messages: '' @ e))
           | Inr rows \<Rightarrow>
               (case rows of
                  [(c, SqlInt n)] # _ \<Rightarrow> Inr (if n < 0 then 0 else word_of_int n)
                | _ \<Rightarrow> Inl (db_fail ''message_count'' (lit ''Failed to count messages: '' @
                          sq_column_error Q (lit ''COUNT(*)''))))))"

text \<open>The same operations of a build without the \<^verbatim>\<open>sqlite\<close> feature.\<close>

definition persistence_disabled :: "string \<Rightarrow> MetaTextError" where
  "persistence_disabled operation =
     db_fail operation (lit ''Persistence requires a build with the `sqlite` feature'')"

subsection \<open>What the engine is documented to do\<close>

text \<open>
  A view of a database: the rows of \<^verbatim>\<open>messages\<close> in the order of their identifiers, and the rows
  of \<^verbatim>\<open>contacts\<close>. Under \<open>sqlite_laws\<close> an insert appends a row under a fresh identifier, the
  newest rows come last row first, the primary key of a contact replaces, the ordered select
  gives every row, and each text is parsed back to what it was printed from. A statement may
  still fail.
\<close>

record 'db sql_view =
  vw_messages :: "'db \<Rightarrow> (int \<times> sql_value list) list"
  vw_contacts :: "'db \<Rightarrow> sql_value list list"

definition message_row :: "int \<times> sql_value list \<Rightarrow> sql_row" where
  "message_row r = zip message_columns (SqlInt (fst r) # snd r)"

definition insert_message_law :: "'db sqlite \<Rightarrow> 'db sql_view \<Rightarrow> bool" where
  "insert_message_law Q V \<longleftrightarrow> (\<forall>p vs p'.
     sq_execute Q p (Insert (lit ''messages'') (tl message_columns)) vs = Inr p' \<longrightarrow>
     vw_contacts V p' = vw_contacts V p \<and>
     (\<exists>i. (\<forall>r \<in> set (vw_messages V p). fst r < i) \<and> vw_messages V p' = vw_messages V p @ [(i, vs)]))"

definition newest_messages_law :: "'db sqlite \<Rightarrow> 'db sql_view \<Rightarrow> bool" where
  "newest_messages_law Q V \<longleftrightarrow> (\<forall>p k rows. 0 \<le> k \<longrightarrow>
     sq_fetch_all Q p (SelectNewest (lit ''messages'') message_columns) [SqlInt k] = Inr rows \<longrightarrow>
     rows = map message_row (take (nat k) (rev (vw_messages V p))))"

definition count_messages_law :: "'db sqlite \<Rightarrow> 'db sql_view \<Rightarrow> bool" where
  "count_messages_law Q V \<longleftrightarrow> (\<forall>p rows.
     sq_fetch_all Q p (CountRows (lit ''messages'')) [] = Inr rows \<longrightarrow>
     rows = [[(lit ''COUNT(*)'', SqlInt (int (length (vw_messages V p))))]])"

definition replace_contact_law :: "'db sqlite \<Rightarrow> 'db sql_view \<Rightarrow> bool" where
  "replace_contact_law Q V \<longleftrightarrow> (\<forall>p v vs p'.
     sq_execute Q p (InsertOrReplace (lit ''contacts'') contact_columns) (v # vs) = Inr p' \<longrightarrow>
     vw_messages V p' = vw_messages V p \<and>
     mset (vw_contacts V p') = mset ((v # vs) # filter (\<lambda>r. hd r \<noteq> v) (vw_contacts V p)))"

definition ordered_contacts_law :: "'db sqlite \<Rightarrow> 'db sql_view \<Rightarrow> bool" where
  "ordered_contacts_law Q V \<longleftrightarrow> (\<forall>p rows.
     sq_fetch_all Q p (SelectOrdered (lit ''contacts'') contact_columns (lit ''added_at'')) [] = Inr rows \<longrightarrow>
     mset rows = mset (map (zip contact_columns) (vw_contacts V p)))"

definition text_laws :: "'db sqlite \<Rightarrow> bool" where
  "text_laws Q \<longleftrightarrow> (\<forall>u. sq_uuid_parse Q (sq_uuid_text Q u) = Inr u) \<and>
     (\<forall>t. sq_parse_rfc3339 Q (sq_rfc3339 Q t) = Inr t)"

definition sqlite_laws :: "'db sqlite \<Rightarrow> 'db sql_view \<Rightarrow> bool" where
  "sqlite_laws Q V \<longleftrightarrow> insert_message_law Q V \<and> newest_messages_law Q V \<and>
     count_messages_law Q V \<and> replace_contact_law Q V \<and> ordered_contacts_law Q V \<and> text_laws Q"

subsection \<open>The history and the contacts a manager holds\<close>

text \<open>What a row keeps of a message: its identifier is the engine's, its size is capped at the
  largest signed value.\<close>

definition as_stored :: "int \<Rightarrow> StoredMessage \<Rightarrow> StoredMessage" where
  "as_stored i m = m\<lparr>sm_id := i,
     sm_wire_bytes := word_of_int (min (uint (sm_wire_bytes m)) i64_max)\<rparr>"

definition holds_row :: "'db sqlite \<Rightarrow> int \<times> sql_value list \<Rightarrow> StoredMessage \<Rightarrow> bool" where
  "holds_row Q r m \<longleftrightarrow> sm_id m = fst r \<and> snd r = message_values Q m \<and> uint (sm_wire_bytes m) \<le> i64_max"

definition holds_history :: "'db sqlite \<Rightarrow> 'db sql_view \<Rightarrow> 'db Database \<Rightarrow> StoredMessage list \<Rightarrow> bool" where
  "holds_history Q V D ms \<longleftrightarrow>
     (\<exists>p. db_pool D = Some p \<and> list_all2 (holds_row Q) (vw_messages V p) ms \<and>
          sorted_wrt (<) (map sm_id ms))"

definition holds_contacts :: "'db sqlite \<Rightarrow> 'db sql_view \<Rightarrow> 'db Database \<Rightarrow> Contact list \<Rightarrow> bool" where
  "holds_contacts Q V D cs \<longleftrightarrow>
     (\<exists>p. db_pool D = Some p \<and> mset (vw_contacts V p) = mset (map (contact_values Q) cs) \<and>
          distinct (map ct_id cs))"

lemma direction_from_db_as_str [simp]: "direction_from_db (direction_as_str d) = d"
  by (induction d; code_simp)

lemma conversation_from_db_as_str [simp]: "conversation_from_db (conversation_as_str c) = c"
  by (induction c; code_simp)

lemma get_cells:
  "get_text ((k, v) # row) c = (if k = c then (case v of SqlText t \<Rightarrow> Some t | _ \<Rightarrow> None) else get_text row c)"
  "get_int ((k, v) # row) c = (if k = c then (case v of SqlInt i \<Rightarrow> Some i | _ \<Rightarrow> None) else get_int row c)"
  "get_blob ((k, v) # row) c = (if k = c then (case v of SqlBlob b \<Rightarrow> Some b | _ \<Rightarrow> None) else get_blob row c)"
  by (auto simp: get_text_def get_int_def get_blob_def split: sql_value.splits)

lemma parse_printed:
  assumes "text_laws Q"
  shows "parse_datetime Q (sq_rfc3339 Q t) = Inr t" "parse_uuid Q (sq_uuid_text Q u) = Inr u"
  using assms by (simp_all add: text_laws_def parse_datetime_def parse_uuid_def)

lemma message_of_stored_row:
  assumes "text_laws Q" and "holds_row Q r m"
  shows "message_of_row Q (message_row r) = Inr m"
proof -
  have wire: "(word_of_int (max (min (uint (sm_wire_bytes m)) i64_max) 0) :: u64) = sm_wire_bytes m"
    using assms(2) by (simp add: holds_row_def)
  show ?thesis
    using assms(2) wire
    by (cases r; cases m)
       (simp add: holds_row_def message_of_row_def message_row_def message_columns_def
         message_values_def get_cells lit_def unwrap_or_def parse_printed(1)[OF assms(1)]
         kind_from_db_as_str content_from_db_as_str)
qed

lemma contact_of_stored_row:
  assumes "text_laws Q"
  shows "contact_of_row Q (zip contact_columns (contact_values Q c)) = Inr c"
  by (cases c; cases "ct_last_seen c")
     (simp_all add: contact_of_row_def contact_columns_def contact_values_def get_cells get_bool_def lit_def
        unwrap_or_def bind_option_def parse_printed[OF assms] status_from_as_name split: option.split)

lemma read_rows_all:
  "list_all2 (\<lambda>r x. f r = Inr x) rows xs \<Longrightarrow> read_rows f rows = Inr xs"
  by (induction rows arbitrary: xs) (auto simp: list_all2_Cons1)

lemma as_stored_values:
  "message_values Q (as_stored i m) = message_values Q m"
  "sm_id (as_stored i m) = i" "uint (sm_wire_bytes (as_stored i m)) \<le> i64_max"
proof -
  have "uint (word_of_int (min (uint (sm_wire_bytes m)) i64_max) :: u64) = min (uint (sm_wire_bytes m)) i64_max"
    by (rule uint_word_of_int_eq[THEN trans]) (use uint_ge_0 [of "sm_wire_bytes m"] uint_lt2p [of "sm_wire_bytes m"] in \<open>auto simp: take_bit_int_eq_self_iff i64_max_def\<close>)
  then show "message_values Q (as_stored i m) = message_values Q m"
    "sm_id (as_stored i m) = i" "uint (sm_wire_bytes (as_stored i m)) \<le> i64_max"
    by (simp_all add: message_values_def as_stored_def)
qed

lemma as_stored_exact: "uint (sm_wire_bytes m) \<le> i64_max \<Longrightarrow> as_stored i m = m\<lparr>sm_id := i\<rparr>"
  by (cases m) (simp add: as_stored_def min_def)

lemma holds_history_pool: "holds_history Q V D ms \<Longrightarrow> \<exists>p. database_pool D = Inr p"
  by (auto simp: holds_history_def database_pool_def)

lemma list_all2_ids:
  "list_all2 (holds_row Q) rows ms \<Longrightarrow> map sm_id ms = map fst rows"
  by (induction rows ms rule: list_all2_induct) (auto simp: holds_row_def)

lemma save_message_appends:
  assumes laws: "sqlite_laws Q V" and held: "holds_history Q V D ms"
    and saved: "save_message Q m D = (D', Inr ())"
  shows "\<exists>i. holds_history Q V D' (ms @ [as_stored i m])"
proof -
  from held obtain p where p: "db_pool D = Some p" "list_all2 (holds_row Q) (vw_messages V p) ms"
      "sorted_wrt (<) (map sm_id ms)"
    by (auto simp: holds_history_def)
  from saved p(1) obtain p' where p': "D' = D\<lparr>db_pool := Some p'\<rparr>"
      "sq_execute Q p (Insert (lit ''messages'') (tl message_columns)) (message_values Q m) = Inr p'"
    by (auto simp: save_message_def database_execute_def database_pool_def split: sum.splits)
  from laws p'(2) obtain i where i: "\<forall>r \<in> set (vw_messages V p). fst r < i"
      "vw_messages V p' = vw_messages V p @ [(i, message_values Q m)]"
    unfolding sqlite_laws_def insert_message_law_def by blast
  have row: "holds_row Q (i, message_values Q m) (as_stored i m)"
    by (simp add: holds_row_def as_stored_values)
  have below: "\<forall>x \<in> set (map sm_id ms). x < i"
    unfolding list_all2_ids[OF p(2)] using i(1) by simp
  have "list_all2 (holds_row Q) (vw_messages V p') (ms @ [as_stored i m])"
    using p(2) row i(2) by (simp add: list_all2_appendI)
  moreover have "sorted_wrt (<) (map sm_id (ms @ [as_stored i m]))"
    using p(3) below by (simp add: sorted_wrt_append as_stored_values)
  ultimately have "holds_history Q V D' (ms @ [as_stored i m])"
    using p'(1) by (simp add: holds_history_def)
  then show ?thesis ..
qed

lemma database_execute_failed:
  "database_execute Q s vs fail D = (D', Inl e) \<Longrightarrow> D' = D"
  by (auto simp: database_execute_def split: sum.splits)

lemma save_message_keeps_contacts:
  assumes laws: "sqlite_laws Q V" and held: "holds_contacts Q V D cs"
    and saved: "save_message Q m D = (D', Inr ())"
  shows "holds_contacts Q V D' cs"
  using assms unfolding holds_contacts_def sqlite_laws_def insert_message_law_def
  by (auto simp: save_message_def database_execute_def database_pool_def split: sum.splits)

lemma recent_messages_newest:
  assumes laws: "sqlite_laws Q V" and held: "holds_history Q V D ms"
    and few: "int (length ms) \<le> i64_max" and read: "recent_messages Q limit D = Inr out"
  shows "out = drop (length ms - limit) ms"
proof -
  from held obtain p where p: "db_pool D = Some p" "list_all2 (holds_row Q) (vw_messages V p) ms"
    by (auto simp: holds_history_def)
  have len: "length (vw_messages V p) = length ms"
    using p(2) by (rule list_all2_lengthD)
  from read p(1) obtain rows found where rows:
      "sq_fetch_all Q p (SelectNewest (lit ''messages'') message_columns) [SqlInt (min (int limit) i64_max)] = Inr rows"
      "read_rows (message_of_row Q) rows = Inr found" "out = rev found"
    by (auto simp: recent_messages_def database_pool_def split: sum.splits)
  have k: "0 \<le> min (int limit) i64_max" by (simp add: i64_max_def)
  have "rows = map message_row (take (nat (min (int limit) i64_max)) (rev (vw_messages V p)))"
    using laws rows(1) k unfolding sqlite_laws_def newest_messages_law_def by blast
  also have "take (nat (min (int limit) i64_max)) (rev (vw_messages V p)) = take limit (rev (vw_messages V p))"
  proof (cases "int limit \<le> i64_max")
    case True
    then show ?thesis by (simp add: min_def)
  next
    case False
    with few len have "length (vw_messages V p) \<le> limit" "length (vw_messages V p) \<le> nat i64_max"
      by linarith+
    with False show ?thesis by (simp add: min_def)
  qed
  finally have rows': "rows = map message_row (take limit (rev (vw_messages V p)))" .
  have "list_all2 (holds_row Q) (take limit (rev (vw_messages V p))) (take limit (rev ms))"
    using p(2) by (simp add: list_all2_takeI)
  then have "list_all2 (\<lambda>r x. message_of_row Q r = Inr x) rows (take limit (rev ms))"
    unfolding rows' list_all2_map1
    using laws by (auto simp: sqlite_laws_def elim!: list_all2_mono intro: message_of_stored_row)
  from read_rows_all[OF this] rows(2,3) show ?thesis
    by (simp add: take_rev)
qed

lemma message_count_length:
  assumes laws: "sqlite_laws Q V" and held: "holds_history Q V D ms"
    and few: "length ms < 2 ^ 64" and read: "message_count Q D = Inr n"
  shows "unat n = length ms"
proof -
  from held obtain p where p: "db_pool D = Some p" "list_all2 (holds_row Q) (vw_messages V p) ms"
    by (auto simp: holds_history_def)
  have len: "length (vw_messages V p) = length ms"
    using p(2) by (rule list_all2_lengthD)
  from read p(1) obtain rows where rows: "sq_fetch_all Q p (CountRows (lit ''messages'')) [] = Inr rows"
    by (auto simp: message_count_def database_pool_def split: sum.splits)
  have "rows = [[(lit ''COUNT(*)'', SqlInt (int (length ms)))]]"
    using laws rows unfolding sqlite_laws_def count_messages_law_def len[symmetric] by blast
  with read p(1) rows have "n = word_of_nat (length ms)"
    by (simp add: message_count_def database_pool_def)
  then show ?thesis
    using few by (simp add: unat_of_nat)
qed

lemma save_contact_replaces:
  assumes laws: "sqlite_laws Q V" and held: "holds_contacts Q V D cs"
    and saved: "save_contact Q c D = (D', Inr ())"
  shows "holds_contacts Q V D' (c # filter (\<lambda>d. ct_id d \<noteq> ct_id c) cs)"
proof -
  from held obtain p where p: "db_pool D = Some p" "mset (vw_contacts V p) = mset (map (contact_values Q) cs)"
      "distinct (map ct_id cs)"
    by (auto simp: holds_contacts_def)
  let ?v = "SqlText (sq_uuid_text Q (ct_id c))"
  have hd: "contact_values Q d = SqlText (sq_uuid_text Q (ct_id d)) # tl (contact_values Q d)" for d
    by (simp add: contact_values_def)
  from saved p(1) obtain p' where p': "D' = D\<lparr>db_pool := Some p'\<rparr>"
      "sq_execute Q p (InsertOrReplace (lit ''contacts'') contact_columns) (contact_values Q c) = Inr p'"
    by (auto simp: save_contact_def database_execute_def database_pool_def split: sum.splits)
  have "sq_uuid_text Q (ct_id d) = sq_uuid_text Q (ct_id c) \<longleftrightarrow> ct_id d = ct_id c" for d
    using laws unfolding sqlite_laws_def text_laws_def by (metis sum.inject(2))
  then have same: "hd (contact_values Q d) \<noteq> ?v \<longleftrightarrow> ct_id d \<noteq> ct_id c" for d
    by (simp add: contact_values_def)
  have "mset (vw_contacts V p') = mset (contact_values Q c # filter (\<lambda>r. hd r \<noteq> ?v) (vw_contacts V p))"
    using laws p'(2) hd[of c] unfolding sqlite_laws_def replace_contact_law_def by metis
  also have "\<dots> = mset (contact_values Q c # filter (\<lambda>r. hd r \<noteq> ?v) (map (contact_values Q) cs))"
    using p(2) by (simp only: mset.simps mset_filter)
  also have "\<dots> = mset (map (contact_values Q) (c # filter (\<lambda>d. ct_id d \<noteq> ct_id c) cs))"
    by (simp add: filter_map o_def same)
  finally show ?thesis
    using p(3) p'(1) by (auto simp: holds_contacts_def distinct_map_filter)
qed

lemma load_contacts_all:
  assumes laws: "sqlite_laws Q V" and held: "holds_contacts Q V D cs"
    and read: "load_contacts Q D = Inr out"
  shows "mset out = mset cs"
proof -
  from held obtain p where p: "db_pool D = Some p" "mset (vw_contacts V p) = mset (map (contact_values Q) cs)"
    by (auto simp: holds_contacts_def)
  from read p(1) obtain rows where rows:
      "sq_fetch_all Q p (SelectOrdered (lit ''contacts'') contact_columns (lit ''added_at'')) [] = Inr rows"
      "read_rows (contact_of_row Q) rows = Inr out"
    by (auto simp: load_contacts_def database_pool_def split: sum.splits)
  let ?row = "\<lambda>c. zip contact_columns (contact_values Q c)"
  have "mset rows = mset (map (zip contact_columns) (vw_contacts V p))"
    using laws rows(1) unfolding sqlite_laws_def ordered_contacts_law_def by blast
  also have "\<dots> = mset (map ?row cs)"
    using p(2) by (simp add: multiset.map_comp o_def)
  finally have rows_of: "mset rows = mset (map ?row cs)" .
  let ?unrow = "\<lambda>r. projr (contact_of_row Q r)"
  have unrow: "contact_of_row Q (?row c) = Inr c" for c
    using laws by (simp add: sqlite_laws_def contact_of_stored_row)
  have "mset (map ?unrow rows) = mset (map ?unrow (map ?row cs))"
    using rows_of by (metis mset_map)
  then have ds: "mset (map ?unrow rows) = mset cs"
    by (simp add: o_def unrow)
  have "set rows = set (map ?row cs)"
    using rows_of by (rule mset_eq_setD)
  then have "list_all2 (\<lambda>r x. contact_of_row Q r = Inr x) rows (map ?unrow rows)"
    by (auto simp: list_all2_map2 unrow intro!: list.rel_refl_strong)
  from read_rows_all[OF this] rows(2) ds show ?thesis by simp
qed

lemma save_contact_keeps_history:
  assumes laws: "sqlite_laws Q V" and held: "holds_history Q V D ms"
    and saved: "save_contact Q c D = (D', r)"
  shows "holds_history Q V D' ms"
proof -
  from held obtain p where p: "db_pool D = Some p" by (auto simp: holds_history_def)
  have cells: "contact_values Q c = hd (contact_values Q c) # tl (contact_values Q c)"
    by (simp add: contact_values_def)
  show ?thesis
  proof (cases "sq_execute Q p (InsertOrReplace (lit ''contacts'') contact_columns) (contact_values Q c)")
    case (Inl e)
    with saved p held show ?thesis
      by (simp add: save_contact_def database_execute_def database_pool_def)
  next
    case (Inr p')
    then have "vw_messages V p' = vw_messages V p"
      using laws cells unfolding sqlite_laws_def replace_contact_law_def by metis
    with Inr saved p held show ?thesis
      by (auto simp: save_contact_def database_execute_def database_pool_def holds_history_def)
  qed
qed

subsection \<open>Opening\<close>

lemma require_columns_all:
  "require_columns Q p t cs = Inr () \<longleftrightarrow> (\<forall>c \<in> set cs. sqlite_column_exists Q p t c = Inr True)"
  by (induction cs) (auto split: sum.splits bool.splits)

lemma require_tables_all:
  "require_tables Q p ts = Inr () \<longleftrightarrow>
     (\<forall>(t, cs) \<in> set ts. sqlite_table_exists Q p t = Inr True \<and>
        (\<forall>c \<in> set cs. sqlite_column_exists Q p t c = Inr True))"
proof (induction ts)
  case (Cons a ts)
  obtain t cs where a: "a = (t, cs)" by fastforce
  show ?case
    using Cons.IH require_columns_all [of Q p t cs]
    by (cases "require_columns Q p t cs") (auto simp: a split: sum.splits bool.splits)
qed simp

lemma database_start_failed:
  "database_start Q D = (D', Inl e) \<Longrightarrow> D' = D"
  by (auto simp: database_start_def split: if_splits sum.splits)

lemma database_start_initialized:
  "database_start Q D = (D', Inr ()) \<Longrightarrow> db_initialized D'"
  by (auto simp: database_start_def split: if_splits sum.splits)

lemma database_start_unmigrated:
  assumes "database_start Q D = (D', Inr ())" "\<not> db_initialized D"
    and "eq_ignore_ascii_case (db_type D) (lit ''sqlite'')" "\<not> db_enable_migrations D"
  shows "\<exists>p. db_pool D' = Some p \<and>
     sq_connect Q (db_connection_string D) (max (db_max_connections D) 1) = Inr p \<and>
     (\<forall>(t, cs) \<in> set schema. sqlite_table_exists Q p t = Inr True \<and>
        (\<forall>c \<in> set cs. sqlite_column_exists Q p t c = Inr True))"
  using assms
  by (auto simp: database_start_def open_pool_def require_schema_def require_tables_all
      split: if_splits sum.splits option.splits)

end
