(* ===== verification/StoreGuarantees.thy ===== *)
theory StoreGuarantees
  imports Database Samples
begin

section \<open>What the stores guarantee\<close>

text \<open>
  The message database against its abstract history. \<open>sample_sqlite\<close> is one engine that meets
  the laws: two lists of rows, identifiers counted from one, every statement succeeding.
\<close>

type_synonym sample_db = "(int \<times> sql_value list) list \<times> sql_value list list"

definition sample_insert :: "sample_db \<Rightarrow> statement \<Rightarrow> sql_value list \<Rightarrow> sample_db" where
  "sample_insert p s vs =
     (case s of
        Insert t cs \<Rightarrow> (fst p @ [(1 + Max (insert 0 (set (map fst (fst p)))), vs)], snd p)
      | InsertOrReplace t cs \<Rightarrow> (fst p, vs # filter (\<lambda>r. hd r \<noteq> hd vs) (snd p))
      | _ \<Rightarrow> p)"

definition sample_select :: "sample_db \<Rightarrow> statement \<Rightarrow> sql_value list \<Rightarrow> sql_row list" where
  "sample_select p s vs =
     (case s of
        SelectNewest t cs \<Rightarrow>
          (case vs of [SqlInt k] \<Rightarrow> map message_row (take (nat k) (rev (fst p))) | _ \<Rightarrow> [])
      | SelectOrdered t cs c \<Rightarrow> map (zip contact_columns) (snd p)
      | CountRows t \<Rightarrow> [[(lit ''COUNT(*)'', SqlInt (int (length (fst p))))]]
      | SelectTableNames t \<Rightarrow> [[(lit ''name'', SqlText t)]]
      | TableInfo t \<Rightarrow> map (\<lambda>c. [(lit ''name'', SqlText c)]) (contact_columns @ message_columns)
      | _ \<Rightarrow> [])"

definition sample_sqlite :: "sample_db sqlite" where
  "sample_sqlite = \<lparr>sq_create_dir = (\<lambda>d. None), sq_parent = (\<lambda>d. None),
     sq_connect = (\<lambda>d n. Inr ([], [])), sq_execute = (\<lambda>p s vs. Inr (sample_insert p s vs)),
     sq_fetch_all = (\<lambda>p s vs. Inr (sample_select p s vs)), sq_column_error = (\<lambda>c. c),
     sq_uuid_text = (\<lambda>u. [unat u]), sq_uuid_parse = (\<lambda>t. Inr (word_of_nat (hd t))),
     sq_rfc3339 = (\<lambda>t. if t < 0 then [1, nat (- t)] else [0, nat t]),
     sq_parse_rfc3339 = (\<lambda>t. case t of
        [a, b] \<Rightarrow> Inr (if a = 1 then - int b else int b) | _ \<Rightarrow> Inl (lit ''input is invalid''))\<rparr>"

lemma sample_newest:
  "sq_fetch_all sample_sqlite p (SelectNewest t cs) [SqlInt k] = Inr (map message_row (take (nat k) (rev (fst p))))"
  by (simp add: sample_sqlite_def sample_select_def)

definition sample_view :: "sample_db sql_view" where
  "sample_view = \<lparr>vw_messages = fst, vw_contacts = snd\<rparr>"

lemma sample_sqlite_laws: "sqlite_laws sample_sqlite sample_view"
proof -
  have "r < 1 + Max (insert 0 (set (map fst l)))" if "r \<in> set (map fst l)" for r and l :: "(int \<times> sql_value list) list"
  proof -
    have "r \<le> Max (insert 0 (set (map fst l)))" using that by (intro Max_ge) auto
    then show ?thesis by simp
  qed
  then have "insert_message_law sample_sqlite sample_view"
    by (fastforce simp: insert_message_law_def sample_sqlite_def sample_insert_def sample_view_def)
  moreover have "newest_messages_law sample_sqlite sample_view" "count_messages_law sample_sqlite sample_view"
      "replace_contact_law sample_sqlite sample_view" "ordered_contacts_law sample_sqlite sample_view"
    by (auto simp: newest_messages_law_def count_messages_law_def replace_contact_law_def ordered_contacts_law_def
        sample_sqlite_def sample_insert_def sample_select_def sample_view_def)
  moreover have "text_laws sample_sqlite"
    by (simp add: text_laws_def sample_sqlite_def)
  ultimately show ?thesis by (simp add: sqlite_laws_def)
qed

definition sample_database :: "sample_db Database" where
  "sample_database = \<lparr>db_connection_string = lit '':memory:'', db_max_connections = 1,
     db_type = lit ''SQLite'', db_enable_migrations = False, db_initialized = True,
     db_pool = Some ([], [])\<rparr>"

definition sample_message :: "rtext \<Rightarrow> StoredMessage" where
  "sample_message body = stored_message_new 7 Incoming (lit ''bob'') body 12 KText CText"

lemma sample_holds: "holds_history sample_sqlite sample_view sample_database []"
    "holds_contacts sample_sqlite sample_view sample_database []"
  by (simp_all add: holds_history_def holds_contacts_def sample_database_def sample_view_def)

text \<open>C25: the database refines the list of messages saved so far, oldest first: a successful save
  appends the message under the engine's identifier (its size capped at the largest signed
  64-bit value), a failed one changes nothing, saving a contact leaves the history alone,
  \<open>recent_messages\<close> returns exactly the newest \<open>limit\<close> of them oldest first, and
  \<open>message_count\<close> is their number.
\<close>

theorem database_refines_history:
  assumes "sqlite_laws Q V" and "holds_history Q V D ms"
    and "int (length ms) \<le> i64_max"
  shows "(\<forall>D'. save_message Q m D = (D', Inr ()) \<longrightarrow>
             (\<exists>i. holds_history Q V D' (ms @ [as_stored i m]))) \<and>
         (\<forall>D' e. save_message Q m D = (D', Inl e) \<longrightarrow> D' = D) \<and>
         (\<forall>D' r. save_contact Q c D = (D', r) \<longrightarrow> holds_history Q V D' ms) \<and>
         (\<forall>out. recent_messages Q limit D = Inr out \<longrightarrow> out = drop (length ms - limit) ms) \<and>
         (\<forall>n. message_count Q D = Inr n \<longrightarrow> unat n = length ms)"
proof (intro conjI allI impI)
  show "\<exists>i. holds_history Q V D' (ms @ [as_stored i m])" if "save_message Q m D = (D', Inr ())" for D'
    by (rule save_message_appends [OF assms(1,2) that])
  show "D' = D" if "save_message Q m D = (D', Inl e)" for D' e
    using that unfolding save_message_def by (rule database_execute_failed)
  show "holds_history Q V D' ms" if "save_contact Q c D = (D', r)" for D' r
    by (rule save_contact_keeps_history [OF assms(1,2) that])
  show "out = drop (length ms - limit) ms" if "recent_messages Q limit D = Inr out" for out
    by (rule recent_messages_newest [OF assms that])
  show "unat n = length ms" if "message_count Q D = Inr n" for n
  proof (rule message_count_length [OF assms(1,2) _ that])
    show "length ms < 2 ^ 64" using assms(3) by (simp add: i64_max_def)
  qed
qed

theorem database_refines_history_witness:
  "\<exists>D1 D2 i j. save_message sample_sqlite (sample_message (lit ''a'')) sample_database = (D1, Inr ()) \<and>
     save_message sample_sqlite (sample_message (lit ''b'')) D1 = (D2, Inr ()) \<and>
     recent_messages sample_sqlite 1 D2 = Inr [as_stored j (sample_message (lit ''b''))] \<and>
     holds_history sample_sqlite sample_view D2
       [as_stored i (sample_message (lit ''a'')), as_stored j (sample_message (lit ''b''))]"
proof -
  obtain D1 where D1: "save_message sample_sqlite (sample_message (lit ''a'')) sample_database = (D1, Inr ())"
    by (simp add: save_message_def database_execute_def database_pool_def sample_database_def sample_sqlite_def)
  have small: "int (length l) \<le> i64_max" if "length l \<le> 2" for l :: "StoredMessage list"
    using that by (simp add: i64_max_def)
  from database_refines_history [OF sample_sqlite_laws sample_holds(1) small] D1
  obtain i where i: "holds_history sample_sqlite sample_view D1 [as_stored i (sample_message (lit ''a''))]"
    by fastforce
  then obtain p where p: "db_pool D1 = Some p" by (auto simp: holds_history_def)
  then obtain D2 where D2: "save_message sample_sqlite (sample_message (lit ''b'')) D1 = (D2, Inr ())"
    by (simp add: save_message_def database_execute_def database_pool_def sample_sqlite_def)
  from database_refines_history [OF sample_sqlite_laws i small] D2
  obtain j where j: "holds_history sample_sqlite sample_view D2
      [as_stored i (sample_message (lit ''a'')), as_stored j (sample_message (lit ''b''))]"
    by fastforce
  obtain out where out: "recent_messages sample_sqlite 1 D2 = Inr out"
  proof -
    from j obtain q where q: "db_pool D2 = Some q" "list_all2 (holds_row sample_sqlite) (fst q)
        [as_stored i (sample_message (lit ''a'')), as_stored j (sample_message (lit ''b''))]"
      by (auto simp: holds_history_def sample_view_def)
    then obtain x y where "fst q = [x, y]" "holds_row sample_sqlite y (as_stored j (sample_message (lit ''b'')))"
      by (auto simp: list_all2_Cons2)
    with q message_of_stored_row[of sample_sqlite y] sample_sqlite_laws that show thesis
      by (simp add: recent_messages_def database_pool_def sample_newest i64_max_def sqlite_laws_def)
  qed
  from database_refines_history [OF sample_sqlite_laws j small] out
  have "out = [as_stored j (sample_message (lit ''b''))]" by fastforce
  with D1 D2 j out show ?thesis by blast
qed

text \<open>contacts survive the database exactly, every field included: once a contact is saved,
  loading gives it and the other contacts held before, the one it replaced excepted; a message
  saved in between changes nothing.
\<close>

theorem contacts_roundtrip:
  assumes "sqlite_laws Q V" and "holds_contacts Q V D cs"
    and "save_contact Q c D = (D1, Inr ())" and "save_message Q m D1 = (D2, Inr ())"
    and "load_contacts Q D2 = Inr out"
  shows "mset out = mset (c # filter (\<lambda>d. ct_id d \<noteq> ct_id c) cs)"
  using save_message_keeps_contacts [OF assms(1) save_contact_replaces [OF assms(1,2,3)] assms(4)]
  by (rule load_contacts_all [OF assms(1) _ assms(5)])

definition sample_contact :: "rtext \<Rightarrow> Contact" where
  "sample_contact name = (contact_new 5 7 name [1, 2])\<lparr>ct_last_seen := Some (- 3), ct_status := UsAway\<rparr>"

theorem contacts_roundtrip_witness:
  "\<exists>D1 D2 D3 out. save_contact sample_sqlite (sample_contact (lit ''bob'')) sample_database = (D1, Inr ()) \<and>
     save_contact sample_sqlite (sample_contact (lit ''bobby'')) D1 = (D2, Inr ()) \<and>
     save_message sample_sqlite (sample_message (lit ''hi'')) D2 = (D3, Inr ()) \<and>
     load_contacts sample_sqlite D3 = Inr out \<and> mset out = mset [sample_contact (lit ''bobby'')]"
proof -
  have total: "\<exists>D'. save_contact sample_sqlite c D = (D', Inr ()) \<and> db_pool D' \<noteq> None"
      "\<exists>D'. save_message sample_sqlite m D = (D', Inr ()) \<and> db_pool D' \<noteq> None" if "db_pool D \<noteq> None" for D c m
    using that by (auto simp: save_contact_def save_message_def database_execute_def database_pool_def sample_sqlite_def)
  have open_pool_there: "db_pool sample_database \<noteq> None" by (simp add: sample_database_def)
  obtain D1 where D1: "save_contact sample_sqlite (sample_contact (lit ''bob'')) sample_database = (D1, Inr ())"
      "db_pool D1 \<noteq> None"
    using total(1) [OF open_pool_there] by blast
  have one: "holds_contacts sample_sqlite sample_view D1 [sample_contact (lit ''bob'')]"
    using save_contact_replaces [OF sample_sqlite_laws sample_holds(2) D1(1)] by simp
  obtain D2 where D2: "save_contact sample_sqlite (sample_contact (lit ''bobby'')) D1 = (D2, Inr ())" "db_pool D2 \<noteq> None"
    using total(1)[OF D1(2)] by blast
  obtain D3 where D3: "save_message sample_sqlite (sample_message (lit ''hi'')) D2 = (D3, Inr ())" "db_pool D3 \<noteq> None"
    using total(2)[OF D2(2)] by blast
  have "holds_contacts sample_sqlite sample_view D3 [sample_contact (lit ''bobby'')]"
    using save_message_keeps_contacts [OF sample_sqlite_laws save_contact_replaces [OF sample_sqlite_laws one D2(1)] D3(1)]
    by (simp add: sample_contact_def contact_new_def)
  then obtain p where p: "db_pool D3 = Some p" "mset (snd p) = mset [contact_values sample_sqlite (sample_contact (lit ''bobby''))]"
    by (auto simp: holds_contacts_def sample_view_def)
  then have "snd p = [contact_values sample_sqlite (sample_contact (lit ''bobby''))]" by simp
  moreover have "contact_of_row sample_sqlite (zip contact_columns (contact_values sample_sqlite (sample_contact (lit ''bobby''))))
      = Inr (sample_contact (lit ''bobby''))"
    using sample_sqlite_laws by (simp add: contact_of_stored_row sqlite_laws_def)
  moreover have fetch: "sq_fetch_all sample_sqlite p (SelectOrdered t cs c) [] = Inr (map (zip contact_columns) (snd p))" for t cs c
    by (simp add: sample_sqlite_def sample_select_def)
  ultimately obtain out where out: "load_contacts sample_sqlite D3 = Inr out"
    using p(1) by (simp add: load_contacts_def database_pool_def fetch)
  have "mset out = mset [sample_contact (lit ''bobby'')]"
    using contacts_roundtrip [OF sample_sqlite_laws one D2(1) D3(1) out]
    by (simp add: sample_contact_def contact_new_def)
  with D1(1) D2(1) D3(1) out show ?thesis by blast
qed




end
