(* ===== verification/Tox.thy ===== *)
theory Tox
  imports Cli Types External
begin

section \<open>Tox vocabulary (\<^verbatim>\<open>meta-text-backend/src/tox.rs\<close>)\<close>

text \<open>
  Limits, errors, hexadecimal text, bootstrap nodes, the configuration of an instance and the
  values its worker reports. Lengths are in bytes of UTF-8, as in the source. A call that panics
  (a slice of a text off a character boundary) is \<open>TPanic\<close>.
\<close>

definition ADDRESS_SIZE :: nat where "ADDRESS_SIZE = 38"
definition PUBLIC_KEY_SIZE :: nat where "PUBLIC_KEY_SIZE = 32"
definition TOX_MAX_MESSAGE_LENGTH :: nat where "TOX_MAX_MESSAGE_LENGTH = 1372"
definition MAX_NAME_LENGTH :: nat where "MAX_NAME_LENGTH = 128"
definition MAX_STATUS_LENGTH :: nat where "MAX_STATUS_LENGTH = 1007"
definition MAX_FRIEND_REQUEST_LENGTH :: nat where "MAX_FRIEND_REQUEST_LENGTH = 1016"
definition CONFERENCE_ID_SIZE :: nat where "CONFERENCE_ID_SIZE = 32"
definition MAX_CONFERENCE_TITLE_LENGTH :: nat where "MAX_CONFERENCE_TITLE_LENGTH = 128"
definition EVENT_QUEUE_CAPACITY :: nat where "EVENT_QUEUE_CAPACITY = 4096"

datatype ToxError =
    TeUnavailable
  | TeWorkerStopped
  | TeNotHex rtext
  | TeBadAddressLength nat
  | TeBadKeyLength nat
  | TeTooLong rtext nat nat          \<comment> \<open>field, length, limit\<close>
  | TeEmptyMessage
  | TePortRange u16 u16
  | TeSavedata rtext int             \<comment> \<open>path, code\<close>
  | TeNew int
  | TeFriendAdd int rtext
  | TeSendMessage int rtext
  | TeFriendQuery int
  | TeSetInfo int
  | TeBootstrap int
  | TeMalformedBootstrap rtext
  | TeUnknownFriend rtext
  | TeConference rtext int rtext     \<comment> \<open>operation, code, name\<close>
  | TeUnknownConference rtext
  | TeBadConferenceIdLength nat
  | TeIo rtext

datatype 'a tox_result = TOk 'a | TErr ToxError | TPanic

fun tox_bind :: "'a tox_result \<Rightarrow> ('a \<Rightarrow> 'b tox_result) \<Rightarrow> 'b tox_result" where
  "tox_bind (TOk x) f = f x"
| "tox_bind (TErr e) f = TErr e"
| "tox_bind TPanic f = TPanic"

definition dec_int :: "int \<Rightarrow> rtext" where
  "dec_int i = (if i < 0 then 45 # dec (nat (- i)) else dec (nat i))"

definition single_quoted :: "rtext \<Rightarrow> rtext" where
  "single_quoted v = [39] @ v @ [39]"

text \<open>The text of an error: its \<^verbatim>\<open>Display\<close>.\<close>

fun tox_error_display :: "ToxError \<Rightarrow> rtext" where
  "tox_error_display TeUnavailable =
     lit ''this build has no usable libtoxcore; install it and rebuild with `--features tox-protocol`''"
| "tox_error_display TeWorkerStopped = lit ''the Tox worker thread is no longer running''"
| "tox_error_display (TeNotHex v) = single_quoted v @ lit '' is not a hexadecimal string''"
| "tox_error_display (TeBadAddressLength n) =
     lit ''a Tox address must be 38 bytes (76 hex characters); got '' @ dec n @ lit '' bytes''"
| "tox_error_display (TeBadKeyLength n) =
     lit ''a Tox public key must be 32 bytes (64 hex characters); got '' @ dec n @ lit '' bytes''"
| "tox_error_display (TeTooLong field len limit) =
     lit ''the '' @ field @ lit '' is '' @ dec len @ lit '' bytes, but toxcore allows at most '' @ dec limit"
| "tox_error_display TeEmptyMessage = lit ''a message body is required''"
| "tox_error_display (TePortRange s e) =
     lit ''start_port ('' @ dec (unat s) @ lit '') is greater than end_port ('' @ dec (unat e) @ lit '')''"
| "tox_error_display (TeSavedata path code) =
     lit ''the Tox savedata at '' @ path @ lit '' could not be loaded (toxcore error '' @ dec_int code @
     lit ''); move it aside to start with a fresh identity''"
| "tox_error_display (TeNew code) = lit ''tox_new failed with error code '' @ dec_int code"
| "tox_error_display (TeFriendAdd code name) =
     lit ''tox_friend_add failed with error code '' @ dec_int code @ lit '' ('' @ name @ lit '')''"
| "tox_error_display (TeSendMessage code name) =
     lit ''tox_friend_send_message failed with error code '' @ dec_int code @ lit '' ('' @ name @ lit '')''"
| "tox_error_display (TeFriendQuery code) = lit ''a tox_friend query failed with error code '' @ dec_int code"
| "tox_error_display (TeSetInfo code) = lit ''tox_self_set_* failed with error code '' @ dec_int code"
| "tox_error_display (TeBootstrap code) = lit ''tox_bootstrap failed with error code '' @ dec_int code"
| "tox_error_display (TeMalformedBootstrap v) =
     single_quoted v @ lit '' is not a valid Tox bootstrap node (expected host:port:PUBLIC_KEY, where PUBLIC_KEY is 64 hexadecimal characters)''"
| "tox_error_display (TeUnknownFriend v) = single_quoted v @ lit '' does not match a friend of this Tox instance''"
| "tox_error_display (TeConference operation code name) =
     lit ''a tox_conference '' @ operation @ lit '' failed with error code '' @ dec_int code @ lit '' ('' @ name @ lit '')''"
| "tox_error_display (TeUnknownConference v) = single_quoted v @ lit '' does not match a group of this Tox instance''"
| "tox_error_display (TeBadConferenceIdLength n) =
     lit ''a group id must be 32 bytes (64 hex characters); got '' @ dec n @ lit '' bytes''"
| "tox_error_display (TeIo e) = lit ''tox savedata i/o error: '' @ e"

subsection \<open>Hexadecimal text\<close>

definition upper_nibble :: "nat \<Rightarrow> rchar" where
  "upper_nibble n = (if n < 10 then 48 + n else 55 + n)"

definition encode_hex :: "bytes \<Rightarrow> rtext" where
  "encode_hex bs = concat (map (\<lambda>b. [upper_nibble (unat b div 16), upper_nibble (unat b mod 16)]) bs)"

definition nibble :: "rchar \<Rightarrow> nat option" where
  "nibble c = (if 48 \<le> c \<and> c \<le> 57 then Some (c - 48)
               else if 65 \<le> c \<and> c \<le> 70 then Some (c - 55)
               else if 97 \<le> c \<and> c \<le> 102 then Some (c - 87) else None)"

text \<open>\<^verbatim>\<open>u8::from_str_radix(_, 16)\<close> of two characters: the first may be a plus sign.\<close>

definition radix16 :: "rchar \<Rightarrow> rchar \<Rightarrow> u8 option" where
  "radix16 c d =
     (if c = 43 then map_option word_of_nat (nibble d)
      else case nibble c of
             None \<Rightarrow> None
           | Some h \<Rightarrow> map_option (\<lambda>l. word_of_nat (16 * h + l)) (nibble d))"

text \<open>
  The two-byte slices of the text, one after another: a slice is one two-byte character or two
  one-byte characters; any other pair cuts a character, and the slice panics. \<^verbatim>\<open>collect\<close> stops at the
  first error.
\<close>

fun hex_slices :: "rtext \<Rightarrow> rtext \<Rightarrow> bytes tox_result" where
  "hex_slices whole [] = TOk []"
| "hex_slices whole [c] = (if utf8_width c = 2 then TErr (TeNotHex whole) else TPanic)"
| "hex_slices whole (c # d # rest) =
     (if utf8_width c = 2 then TErr (TeNotHex whole)
      else if utf8_width c > 2 \<or> utf8_width d > 1 then TPanic
      else case radix16 c d of
             None \<Rightarrow> TErr (TeNotHex whole)
           | Some b \<Rightarrow> tox_bind (hex_slices whole rest) (\<lambda>bs. TOk (b # bs)))"

definition decode_hex :: "rtext \<Rightarrow> bytes tox_result" where
  "decode_hex v =
     (let t = trim v in if odd (utf8_len t) then TErr (TeNotHex v) else hex_slices v t)"

subsection \<open>Bootstrap nodes\<close>

record BootstrapNode =
  bn_host :: rtext
  bn_port :: u16
  bn_public_key :: rtext

definition bootstrap_node_new :: "rtext \<Rightarrow> u16 \<Rightarrow> rtext \<Rightarrow> BootstrapNode tox_result" where
  "bootstrap_node_new host port public_key =
     tox_bind (decode_hex public_key) (\<lambda>bs.
       if length bs \<noteq> PUBLIC_KEY_SIZE then TErr (TeBadKeyLength (length bs))
       else TOk \<lparr>bn_host = host, bn_port = port, bn_public_key = public_key\<rparr>)"

definition split_host_port :: "rtext \<Rightarrow> (rtext \<times> u16) option" where
  "split_host_port v =
     (case (case strip_prefix [91] v of
              Some r \<Rightarrow> (case split_once 93 r of
                  None \<Rightarrow> None
                | Some (inside, after) \<Rightarrow> map_option (Pair inside) (strip_prefix [58] after))
            | None \<Rightarrow> rsplit_once 58 v) of
        None \<Rightarrow> None
      | Some (host, port) \<Rightarrow>
          (case parse_u16 port of
             None \<Rightarrow> None
           | Some p \<Rightarrow> if p = 0 then None else Some (host, word_of_nat p)))"

definition bootstrap_node_parse :: "rtext \<Rightarrow> BootstrapNode tox_result" where
  "bootstrap_node_parse v =
     (let trimmed = trim v; malformed = TErr (TeMalformedBootstrap trimmed) in
      case rsplit_once 58 trimmed of
        None \<Rightarrow> malformed
      | Some (host_port, public_key) \<Rightarrow>
          (case split_host_port host_port of
             None \<Rightarrow> malformed
           | Some (host, port) \<Rightarrow>
               if host = [] then malformed
               else (case bootstrap_node_new host port public_key of
                       TOk n \<Rightarrow> TOk n | TErr e \<Rightarrow> malformed | TPanic \<Rightarrow> TPanic)))"

definition DEFAULT_NODES :: "(rtext \<times> u16 \<times> rtext) list" where
  "DEFAULT_NODES =
     [(lit ''144.217.167.73'', 33445, lit ''7E5668E0EE09E19F320AD47902419331FFEE147BB3606769CFBE921A2A2FD34C''),
      (lit ''172.105.109.31'', 33445, lit ''D46E97CF995DC1820B92B7D899E152A217D36ABE22730FEA4B6BF1BFC06C617C''),
      (lit ''128.199.199.197'', 33445, lit ''B05C8869DBB4EDDD308F43C1A974A20A725A36EACCA123862FDE9945BF9D3E09''),
      (lit ''46.101.197.175'', 33445, lit ''CD133B521159541FB1D326DE9850F5E56A6C724B5B8E5EB5CD8D950408E95707''),
      (lit ''195.201.7.101'', 33445, lit ''B84E865125B4EC4C368CD047C72BCE447644A2DC31EF75BD2CDA345BFD310107''),
      (lit ''137.74.42.224'', 33445, lit ''A95177FA018066CF044E811178D26B844CBF7E1E76F140095B3A1807E081A204''),
      (lit ''188.225.9.167'', 33445, lit ''1911341A83E02503AB1FD6561BD64AF3A9D6C3F12B5FBB656976B2E678644A67''),
      (lit ''195.123.208.139'', 33445, lit ''534A589BA7427C631773D13083570F529238211893640C99D1507300F055FE73'')]"

definition default_bootstrap_nodes :: "BootstrapNode list" where
  "default_bootstrap_nodes =
     concat (map (\<lambda>(host, port, key). case bootstrap_node_new host port key of TOk n \<Rightarrow> [n] | _ \<Rightarrow> []) DEFAULT_NODES)"

subsection \<open>Configuration\<close>

record ToxConfig =
  tc_data_dir :: rtext
  tc_nickname :: rtext
  tc_status_message :: rtext
  tc_bootstrap_nodes :: "BootstrapNode list"
  tc_start_port :: u16
  tc_end_port :: u16
  tc_udp_enabled :: bool
  tc_ipv6_enabled :: bool

definition tox_config_new :: "rtext \<Rightarrow> rtext \<Rightarrow> ToxConfig" where
  "tox_config_new data_dir nick = \<lparr>tc_data_dir = data_dir, tc_nickname = nick,
     tc_status_message = [], tc_bootstrap_nodes = [], tc_start_port = 0, tc_end_port = 0,
     tc_udp_enabled = True, tc_ipv6_enabled = True\<rparr>"

definition tox_config_validate :: "ToxConfig \<Rightarrow> unit tox_result" where
  "tox_config_validate c =
     (if tc_end_port c \<noteq> 0 \<and> tc_end_port c < tc_start_port c then TErr (TePortRange (tc_start_port c) (tc_end_port c))
      else if MAX_NAME_LENGTH < utf8_len (tc_nickname c) then
        TErr (TeTooLong (lit ''nickname'') (utf8_len (tc_nickname c)) MAX_NAME_LENGTH)
      else if MAX_STATUS_LENGTH < utf8_len (tc_status_message c) then
        TErr (TeTooLong (lit ''status message'') (utf8_len (tc_status_message c)) MAX_STATUS_LENGTH)
      else TOk ())"

subsection \<open>What the worker reports\<close>

datatype ToxConnection = TcOffline | TcTcp | TcUdp

definition connection_from_raw :: "int \<Rightarrow> ToxConnection" where
  "connection_from_raw v = (if v = 1 then TcTcp else if v = 2 then TcUdp else TcOffline)"

fun connection_as_str :: "ToxConnection \<Rightarrow> rtext" where
  "connection_as_str TcOffline = lit ''offline''"
| "connection_as_str TcTcp = lit ''tcp''"
| "connection_as_str TcUdp = lit ''udp''"

datatype ToxMessageKind = TmNormal | TmAction

definition tox_kind_from_raw :: "int \<Rightarrow> ToxMessageKind" where
  "tox_kind_from_raw v = (if v = 1 then TmAction else TmNormal)"

fun tox_kind_as_raw :: "ToxMessageKind \<Rightarrow> int" where
  "tox_kind_as_raw TmNormal = 0"
| "tox_kind_as_raw TmAction = 1"

datatype ToxConferenceType = CfText | CfAv

definition conference_type_from_raw :: "int \<Rightarrow> ToxConferenceType" where
  "conference_type_from_raw v = (if v = 1 then CfAv else CfText)"

fun conference_type_as_str :: "ToxConferenceType \<Rightarrow> rtext" where
  "conference_type_as_str CfText = lit ''text''"
| "conference_type_as_str CfAv = lit ''audio/video''"

record ToxConference =
  cf_id :: rtext
  cf_title :: rtext
  cf_peers :: nat
  cf_connected :: bool

text \<open>
  Fields in the source's order: \<open>EvFriendConnection friend status name\<close>, \<open>EvMessage friend kind
  body\<close>, \<open>EvConferenceInvite friend kind cookie\<close>, \<open>EvConferenceMessage id peer name kind body\<close>;
  the three conference changes carry id, title and peers.
\<close>

datatype ToxEvent =
    EvSelfConnection ToxConnection
  | EvFriendRequest rtext rtext
  | EvFriendConnection u32 ToxConnection rtext
  | EvFriendName u32 rtext
  | EvMessage u32 ToxMessageKind bytes
  | EvConferenceInvite u32 ToxConferenceType bytes
  | EvConferenceConnected rtext rtext nat
  | EvConferencePeersChanged rtext rtext nat
  | EvConferenceTitleChanged rtext rtext nat
  | EvConferenceMessage rtext u32 rtext ToxMessageKind bytes

fun event_text :: "ToxEvent \<Rightarrow> rtext option" where
  "event_text (EvMessage f k body) = from_utf8 body"
| "event_text (EvConferenceMessage i p n k body) = from_utf8 body"
| "event_text _ = None"

record ToxFriend =
  tf_number :: u32
  tf_public_key :: rtext
  tf_name :: rtext
  tf_status :: ToxConnection

record ToxSnapshot =
  ts_self_connection :: ToxConnection
  ts_friends :: "ToxFriend list"
  ts_conferences :: "ToxConference list"
  ts_nickname :: rtext

record ToxIdentity =
  ti_address :: rtext
  ti_public_key :: rtext
  ti_nickname :: rtext

definition checksum_is_valid :: "ToxIdentity \<Rightarrow> bool tox_result" where
  "checksum_is_valid i =
     tox_bind (decode_hex (ti_address i)) (\<lambda>bs. TOk (foldl (\<lambda>acc b. xor acc b) 0 bs = 0))"

subsection \<open>Names of the library's error codes\<close>

definition code_name :: "string list \<Rightarrow> int \<Rightarrow> rtext" where
  "code_name names code =
     (if 0 \<le> code \<and> nat code < length names then lit (names ! nat code) else lit ''UNKNOWN'')"

definition friend_add_error_name :: "int \<Rightarrow> rtext" where
  "friend_add_error_name = code_name [''OK'', ''NULL'', ''TOO_LONG'', ''NO_MESSAGE'', ''OWN_KEY'',
     ''ALREADY_SENT'', ''BAD_CHECKSUM'', ''SET_NEW_NOSPAM'', ''MALLOC'']"

definition send_message_error_name :: "int \<Rightarrow> rtext" where
  "send_message_error_name = code_name [''OK'', ''NULL'', ''FRIEND_NOT_FOUND'', ''FRIEND_NOT_CONNECTED'',
     ''SENDQ'', ''TOO_LONG'', ''EMPTY'']"

definition conference_new_error_name :: "int \<Rightarrow> rtext" where
  "conference_new_error_name = code_name [''OK'', ''INIT'']"

definition conference_delete_error_name :: "int \<Rightarrow> rtext" where
  "conference_delete_error_name = code_name [''OK'', ''CONFERENCE_NOT_FOUND'']"

definition conference_join_error_name :: "int \<Rightarrow> rtext" where
  "conference_join_error_name = code_name [''OK'', ''INVALID_LENGTH'', ''WRONG_TYPE'', ''FRIEND_NOT_FOUND'',
     ''DUPLICATE'', ''INIT_FAIL'', ''FAIL_SEND'']"

definition conference_invite_error_name :: "int \<Rightarrow> rtext" where
  "conference_invite_error_name = code_name [''OK'', ''CONFERENCE_NOT_FOUND'', ''FAIL_SEND'', ''NO_CONNECTION'']"

definition conference_send_error_name :: "int \<Rightarrow> rtext" where
  "conference_send_error_name = code_name [''OK'', ''CONFERENCE_NOT_FOUND'', ''TOO_LONG'', ''NO_CONNECTION'', ''FAIL_SEND'']"

definition conference_title_error_name :: "int \<Rightarrow> rtext" where
  "conference_title_error_name = code_name [''OK'', ''CONFERENCE_NOT_FOUND'', ''INVALID_LENGTH'']"

subsection \<open>Facts\<close>

lemma nibble_upper: "n < 16 \<Longrightarrow> nibble (upper_nibble n) = Some n"
  by (auto simp: nibble_def upper_nibble_def)

lemma upper_nibble_plain:
  "n < 16 \<Longrightarrow> upper_nibble n < 128 \<and> upper_nibble n \<noteq> 43 \<and> \<not> is_whitespace (upper_nibble n) \<and>
     is_ascii_hexdigit (upper_nibble n)"
  by (auto simp: upper_nibble_def is_whitespace_def is_ascii_hexdigit_def)

lemma byte_nibbles: "unat (b :: u8) div 16 < 16" "unat b mod 16 < 16"
  using unsigned_less [where 'a = nat, of b] by simp_all

lemma radix16_byte: "radix16 (upper_nibble (unat (b :: u8) div 16)) (upper_nibble (unat b mod 16)) = Some b"
proof -
  have "(word_of_nat (16 * (unat b div 16) + unat b mod 16) :: u8) = b"
    by simp
  then show ?thesis
    using upper_nibble_plain [OF byte_nibbles(1) [of b]] byte_nibbles [of b]
    by (simp only: radix16_def nibble_upper if_False option.case option.map)
qed

lemma encode_hex_simps [simp]:
  "encode_hex [] = []"
  "encode_hex (b # bs) = upper_nibble (unat b div 16) # upper_nibble (unat b mod 16) # encode_hex bs"
  by (simp_all add: encode_hex_def)

lemma length_encode_hex [simp]: "length (encode_hex bs) = 2 * length bs"
  by (induction bs) auto

lemma encode_hex_digits: "list_all is_ascii_hexdigit (encode_hex bs)"
  by (induction bs) (simp_all add: upper_nibble_plain byte_nibbles)

lemma utf8_len_ascii: "list_all (\<lambda>c. c < 128) s \<Longrightarrow> utf8_len s = length s"
  by (induction s) (auto simp: utf8_len_def utf8_width_def)

lemma hexdigits_ascii: "list_all is_ascii_hexdigit s \<Longrightarrow> list_all (\<lambda>c. c < 128 \<and> \<not> is_whitespace c) s"
  by (induction s) (auto simp: is_ascii_hexdigit_def is_whitespace_def)

lemma hex_slices_encode: "hex_slices whole (encode_hex bs) = TOk bs"
  by (induction bs) (simp_all add: utf8_width_def upper_nibble_plain byte_nibbles radix16_byte)

lemma decode_encode_hex: "decode_hex (encode_hex bs) = TOk bs"
proof -
  have "list_all (\<lambda>c. c < 128 \<and> \<not> is_whitespace c) (encode_hex bs)"
    by (rule hexdigits_ascii [OF encode_hex_digits])
  then have "utf8_len (encode_hex bs) = 2 * length bs"
    by (simp add: utf8_len_ascii list_all_iff)
  with trim_hexdigits [OF encode_hex_digits [of bs]] show ?thesis by (simp add: decode_hex_def Let_def hex_slices_encode)
qed

text \<open>Text of one-byte characters never panics; what decodes has one byte per two of the text.\<close>

lemma hex_slices_ascii: "list_all (\<lambda>c. c < 128) s \<Longrightarrow> even (length s) \<Longrightarrow> hex_slices w s \<noteq> TPanic"
proof (induction w s rule: hex_slices.induct)
  case (3 w c d rest)
  then show ?case
    by (cases "hex_slices w rest"; cases "radix16 c d") (auto simp: utf8_width_def)
qed auto

lemma decode_hex_ascii:
  assumes "list_all (\<lambda>c. c < 128) (trim s)"
  shows "decode_hex s \<noteq> TPanic"
  using assms hex_slices_ascii by (auto simp: decode_hex_def Let_def utf8_len_ascii)

lemma hex_slices_length: "hex_slices w s = TOk bs \<Longrightarrow> length s = 2 * length bs"
proof (induction w s arbitrary: bs rule: hex_slices.induct)
  case (3 w c d rest)
  then show ?case
    by (cases "hex_slices w rest") (auto split: if_splits option.splits)
qed (auto split: if_splits)

lemma decode_hex_length: "decode_hex s = TOk bs \<Longrightarrow> length (trim s) = 2 * length bs"
  by (auto simp: decode_hex_def Let_def dest: hex_slices_length split: if_splits)

lemma tox_bind_ok: "tox_bind r f = TOk y \<longleftrightarrow> (\<exists>x. r = TOk x \<and> f x = TOk y)"
  by (cases r) auto

end
