(* ===== verification/ToxWorker.thy ===== *)
theory ToxWorker
  imports Tox Validation Identity
begin

section \<open>The Tox worker and its handles (\<^verbatim>\<open>meta-text-backend/src/tox.rs\<close>)\<close>

text \<open>
  One thread owns the instance of the C library: it lets the library work, turns its callbacks
  into events on a bounded queue, and serves commands one at a time. The library is a parameter:
  \<open>toxcore\<close> has one field per foreign function, over an abstract instance \<open>'x\<close>. A function that
  returns a flag and an error code gives both; one that fills a buffer gives its bytes.
  \<open>wk_disk\<close> is the error the file system would report for a write, if any; \<open>wk_file\<close> the
  savedata file.
\<close>

datatype callback =
    CbSelfConnection int
  | CbFriendConnection u32 int
  | CbFriendName u32 bytes
  | CbFriendRequest "bytes option" bytes
  | CbFriendMessage u32 int bytes
  | CbConferenceInvite u32 int bytes
  | CbConferenceConnected u32
  | CbConferencePeersChanged u32
  | CbConferenceTitle u32 u32 bytes
  | CbConferenceMessage u32 u32 int bytes

record tox_options =
  to_start_port :: u16
  to_end_port :: u16
  to_udp_enabled :: bool
  to_ipv6_enabled :: bool
  to_savedata :: "bytes option"

record 'x toxcore =
  tox_options_available :: bool
  tox_new :: "tox_options \<Rightarrow> int + 'x"
  tox_self_set_name :: "'x \<Rightarrow> bytes \<Rightarrow> 'x \<times> bool \<times> int"
  tox_self_set_status_message :: "'x \<Rightarrow> bytes \<Rightarrow> 'x \<times> bool \<times> int"
  tox_self_get_address :: "'x \<Rightarrow> bytes"
  tox_self_get_public_key :: "'x \<Rightarrow> bytes"
  tox_self_get_name_size :: "'x \<Rightarrow> nat"
  tox_self_get_name :: "'x \<Rightarrow> bytes"
  tox_self_get_connection_status :: "'x \<Rightarrow> int"
  tox_bootstrap :: "'x \<Rightarrow> rtext \<Rightarrow> u16 \<Rightarrow> bytes \<Rightarrow> 'x"
  tox_friend_add :: "'x \<Rightarrow> bytes \<Rightarrow> bytes \<Rightarrow> 'x \<times> u32 \<times> int"
  tox_friend_add_norequest :: "'x \<Rightarrow> bytes \<Rightarrow> 'x \<times> u32 \<times> int"
  tox_friend_send_message :: "'x \<Rightarrow> u32 \<Rightarrow> int \<Rightarrow> bytes \<Rightarrow> 'x \<times> u32 \<times> int"
  tox_self_get_friend_list :: "'x \<Rightarrow> u32 list"
  tox_friend_get_connection_status :: "'x \<Rightarrow> u32 \<Rightarrow> int"
  tox_friend_get_public_key :: "'x \<Rightarrow> u32 \<Rightarrow> bytes option"
  tox_friend_get_name_size :: "'x \<Rightarrow> u32 \<Rightarrow> nat \<times> int"
  tox_friend_get_name :: "'x \<Rightarrow> u32 \<Rightarrow> bytes option"
  tox_conference_new :: "'x \<Rightarrow> 'x \<times> u32 \<times> int"
  tox_conference_join :: "'x \<Rightarrow> u32 \<Rightarrow> bytes \<Rightarrow> 'x \<times> u32 \<times> int"
  tox_conference_invite :: "'x \<Rightarrow> u32 \<Rightarrow> u32 \<Rightarrow> 'x \<times> bool \<times> int"
  tox_conference_set_title :: "'x \<Rightarrow> u32 \<Rightarrow> bytes \<Rightarrow> 'x \<times> bool \<times> int"
  tox_conference_send_message :: "'x \<Rightarrow> u32 \<Rightarrow> int \<Rightarrow> bytes \<Rightarrow> 'x \<times> bool \<times> int"
  tox_conference_delete :: "'x \<Rightarrow> u32 \<Rightarrow> 'x \<times> bool \<times> int"
  tox_conference_get_title_size :: "'x \<Rightarrow> u32 \<Rightarrow> nat \<times> int"
  tox_conference_get_title :: "'x \<Rightarrow> u32 \<Rightarrow> bytes option"
  tox_conference_peer_count :: "'x \<Rightarrow> u32 \<Rightarrow> u32 \<times> int"
  tox_conference_peer_get_name_size :: "'x \<Rightarrow> u32 \<Rightarrow> u32 \<Rightarrow> nat \<times> int"
  tox_conference_peer_get_name :: "'x \<Rightarrow> u32 \<Rightarrow> u32 \<Rightarrow> bytes option"
  tox_conference_id_size :: nat
  tox_conference_get_id :: "'x \<Rightarrow> u32 \<Rightarrow> bytes option"
  tox_conference_get_chatlist :: "'x \<Rightarrow> u32 list"
  tox_get_savedata :: "'x \<Rightarrow> bytes"
  tox_iterate :: "'x \<Rightarrow> 'x \<times> ('x \<times> callback) list" \<comment> \<open>each callback with the instance it sees\<close>
  tox_iteration_interval :: "'x \<Rightarrow> nat"

subsection \<open>Reading the instance\<close>

text \<open>A name of a peer: its size within the limit, its bytes lossily decoded, shown only when it
  can be.\<close>

definition read_label :: "nat \<times> int \<Rightarrow> nat \<Rightarrow> bytes option \<Rightarrow> rtext" where
  "read_label sz limit body =
     (if snd sz \<noteq> 0 \<or> fst sz = 0 \<or> limit < fst sz then []
      else case body of
             None \<Rightarrow> []
           | Some b \<Rightarrow> unwrap_or [] (peer_label (from_utf8_lossy b)))"

definition friend_name :: "'x toxcore \<Rightarrow> 'x \<Rightarrow> u32 \<Rightarrow> rtext" where
  "friend_name T x f = read_label (tox_friend_get_name_size T x f) 128 (tox_friend_get_name T x f)"

definition friend_public_key :: "'x toxcore \<Rightarrow> 'x \<Rightarrow> u32 \<Rightarrow> rtext" where
  "friend_public_key T x f =
     (case tox_friend_get_public_key T x f of None \<Rightarrow> [] | Some b \<Rightarrow> encode_hex b)"

definition self_name :: "'x toxcore \<Rightarrow> 'x \<Rightarrow> rtext" where
  "self_name T x =
     (let sz = tox_self_get_name_size T x in
      if sz = 0 \<or> 128 < sz then [] else from_utf8_lossy (tox_self_get_name T x))"

definition conference_title :: "'x toxcore \<Rightarrow> 'x \<Rightarrow> u32 \<Rightarrow> rtext" where
  "conference_title T x c =
     read_label (tox_conference_get_title_size T x c) MAX_CONFERENCE_TITLE_LENGTH (tox_conference_get_title T x c)"

definition conference_peer_count :: "'x toxcore \<Rightarrow> 'x \<Rightarrow> u32 \<Rightarrow> nat" where
  "conference_peer_count T x c =
     (let r = tox_conference_peer_count T x c in if snd r = 0 then unat (fst r) else 0)"

definition conference_peer_name :: "'x toxcore \<Rightarrow> 'x \<Rightarrow> u32 \<Rightarrow> u32 \<Rightarrow> rtext" where
  "conference_peer_name T x c p =
     read_label (tox_conference_peer_get_name_size T x c p) MAX_NAME_LENGTH (tox_conference_peer_get_name T x c p)"

definition conference_id :: "'x toxcore \<Rightarrow> 'x \<Rightarrow> u32 \<Rightarrow> rtext" where
  "conference_id T x c =
     (if tox_conference_id_size T = 0 then []
      else case tox_conference_get_id T x c of None \<Rightarrow> [] | Some b \<Rightarrow> encode_hex b)"

definition conference_info :: "'x toxcore \<Rightarrow> 'x \<Rightarrow> u32 \<Rightarrow> bool \<Rightarrow> ToxConference" where
  "conference_info T x c handshake_finished =
     (let peers = conference_peer_count T x c in
      \<lparr>cf_id = conference_id T x c, cf_title = conference_title T x c, cf_peers = peers,
       cf_connected = (handshake_finished \<or> 1 < peers)\<rparr>)"

definition set_conference_title :: "'x toxcore \<Rightarrow> 'x \<Rightarrow> u32 \<Rightarrow> rtext \<Rightarrow> 'x \<times> unit tox_result" where
  "set_conference_title T x c title =
     (case tox_conference_set_title T x c (utf8_bytes title) of
        (x', ok, error) \<Rightarrow>
          (x', if ok then TOk ()
               else TErr (TeConference (lit ''set the title of'') error (conference_title_error_name error))))"

text \<open>The number of the conference with that identifier. The library's own identifiers are
  upper-case digits, so only the given one can fail to decode.\<close>

definition conference_numbers :: "'x toxcore \<Rightarrow> 'x \<Rightarrow> u32 list" where
  "conference_numbers T x = tox_conference_get_chatlist T x"

definition conference_number_for :: "'x toxcore \<Rightarrow> 'x \<Rightarrow> rtext \<Rightarrow> u32 tox_result" where
  "conference_number_for T x group_id =
     tox_bind (decode_hex group_id) (\<lambda>wanted.
       if length wanted \<noteq> CONFERENCE_ID_SIZE then TErr (TeBadConferenceIdLength (length wanted))
       else case find (\<lambda>n. decode_hex (conference_id T x n) = TOk wanted) (conference_numbers T x) of
              None \<Rightarrow> TErr (TeUnknownConference group_id)
            | Some n \<Rightarrow> TOk n)"

subsection \<open>Events of the callbacks\<close>

record 'x Worker =
  wk_tox :: 'x
  wk_events :: "ToxEvent list"     \<comment> \<open>the bounded queue\<close>
  wk_receiving :: bool             \<comment> \<open>its receiver exists\<close>
  wk_dropped :: u64
  wk_connected :: "rtext set"      \<comment> \<open>conferences whose handshake finished\<close>
  wk_path :: rtext
  wk_file :: stored_file
  wk_disk :: "rtext option"
  wk_running :: bool

definition send_event :: "ToxEvent \<Rightarrow> 'x Worker \<Rightarrow> 'x Worker" where
  "send_event e W =
     (if \<not> wk_receiving W then W
      else if EVENT_QUEUE_CAPACITY \<le> length (wk_events W) then W\<lparr>wk_dropped := wk_dropped W + 1\<rparr>
      else W\<lparr>wk_events := wk_events W @ [e]\<rparr>)"

definition on_self_connection_status :: "int \<Rightarrow> 'x Worker \<Rightarrow> 'x Worker" where
  "on_self_connection_status status = send_event (EvSelfConnection (connection_from_raw status))"

definition on_friend_connection_status :: "'x toxcore \<Rightarrow> 'x \<Rightarrow> u32 \<Rightarrow> int \<Rightarrow> 'x Worker \<Rightarrow> 'x Worker" where
  "on_friend_connection_status T x f status =
     send_event (EvFriendConnection f (connection_from_raw status) (friend_name T x f))"

definition on_friend_name :: "u32 \<Rightarrow> bytes \<Rightarrow> 'x Worker \<Rightarrow> 'x Worker" where
  "on_friend_name f name = send_event (EvFriendName f (from_utf8_lossy name))"

definition on_friend_request :: "bytes option \<Rightarrow> bytes \<Rightarrow> 'x Worker \<Rightarrow> 'x Worker" where
  "on_friend_request public_key m W =
     (case public_key of
        None \<Rightarrow> W
      | Some key \<Rightarrow> send_event (EvFriendRequest (encode_hex key) (from_utf8_lossy m)) W)"

definition on_friend_message :: "u32 \<Rightarrow> int \<Rightarrow> bytes \<Rightarrow> 'x Worker \<Rightarrow> 'x Worker" where
  "on_friend_message f kind body = send_event (EvMessage f (tox_kind_from_raw kind) body)"

definition on_conference_invite :: "u32 \<Rightarrow> int \<Rightarrow> bytes \<Rightarrow> 'x Worker \<Rightarrow> 'x Worker" where
  "on_conference_invite f kind cookie =
     send_event (EvConferenceInvite f (conference_type_from_raw kind) cookie)"

definition on_conference_connected :: "'x toxcore \<Rightarrow> 'x \<Rightarrow> u32 \<Rightarrow> 'x Worker \<Rightarrow> 'x Worker" where
  "on_conference_connected T x c W =
     (let i = conference_id T x c in
      send_event (EvConferenceConnected i (conference_title T x c) (conference_peer_count T x c))
        (W\<lparr>wk_connected := insert i (wk_connected W)\<rparr>))"

definition on_conference_peers_changed :: "'x toxcore \<Rightarrow> 'x \<Rightarrow> u32 \<Rightarrow> 'x Worker \<Rightarrow> 'x Worker" where
  "on_conference_peers_changed T x c =
     send_event (EvConferencePeersChanged (conference_id T x c) (conference_title T x c) (conference_peer_count T x c))"

definition on_conference_title :: "'x toxcore \<Rightarrow> 'x \<Rightarrow> u32 \<Rightarrow> bytes \<Rightarrow> 'x Worker \<Rightarrow> 'x Worker" where
  "on_conference_title T x c title =
     (let t = from_utf8_lossy title in
      send_event (EvConferenceTitleChanged (conference_id T x c)
        (if t = [] then conference_title T x c else t) (conference_peer_count T x c)))"

definition on_conference_message :: "'x toxcore \<Rightarrow> 'x \<Rightarrow> u32 \<Rightarrow> u32 \<Rightarrow> int \<Rightarrow> bytes \<Rightarrow> 'x Worker \<Rightarrow> 'x Worker" where
  "on_conference_message T x c p kind body =
     send_event (EvConferenceMessage (conference_id T x c) p (conference_peer_name T x c p)
       (tox_kind_from_raw kind) body)"

fun on_callback :: "'x toxcore \<Rightarrow> 'x \<times> callback \<Rightarrow> 'x Worker \<Rightarrow> 'x Worker" where
  "on_callback T (x, CbSelfConnection s) W = on_self_connection_status s W"
| "on_callback T (x, CbFriendConnection f s) W = on_friend_connection_status T x f s W"
| "on_callback T (x, CbFriendName f n) W = on_friend_name f n W"
| "on_callback T (x, CbFriendRequest k m) W = on_friend_request k m W"
| "on_callback T (x, CbFriendMessage f k b) W = on_friend_message f k b W"
| "on_callback T (x, CbConferenceInvite f k c) W = on_conference_invite f k c W"
| "on_callback T (x, CbConferenceConnected c) W = on_conference_connected T x c W"
| "on_callback T (x, CbConferencePeersChanged c) W = on_conference_peers_changed T x c W"
| "on_callback T (x, CbConferenceTitle c p t) W = on_conference_title T x c t W"
| "on_callback T (x, CbConferenceMessage c p k b) W = on_conference_message T x c p k b W"

definition worker_iterate :: "'x toxcore \<Rightarrow> 'x Worker \<Rightarrow> 'x Worker" where
  "worker_iterate T W =
     (case tox_iterate T (wk_tox W) of
        (x', cbs) \<Rightarrow> foldl (\<lambda>W cb. on_callback T cb W) W cbs\<lparr>wk_tox := x'\<rparr>)"

definition worker_interval :: "'x toxcore \<Rightarrow> 'x Worker \<Rightarrow> duration" where
  "worker_interval T W = millis (max 20 (min (tox_iteration_interval T (wk_tox W)) 1000))"

definition save_savedata :: "'x toxcore \<Rightarrow> 'x Worker \<Rightarrow> 'x Worker \<times> rtext tox_result" where
  "save_savedata T W =
     (case wk_disk W of
        Some e \<Rightarrow> (W, TErr (TeIo e))
      | None \<Rightarrow> (W\<lparr>wk_file := FileBytes (tox_get_savedata T (wk_tox W))\<rparr>, TOk (wk_path W)))"

subsection \<open>Commands\<close>

datatype ToxCommand =
    CmSetName rtext
  | CmSetStatusMessage rtext
  | CmAddFriend bytes rtext
  | CmAcceptFriend bytes
  | CmSendMessage u32 bytes ToxMessageKind
  | CmSnapshot
  | CmConferenceNew rtext
  | CmConferenceJoin u32 bytes
  | CmConferenceInvite rtext u32
  | CmConferenceSetTitle rtext rtext
  | CmConferenceSend rtext bytes ToxMessageKind
  | CmConferenceLeave rtext
  | CmSave
  | CmShutdown

text \<open>What a command is answered with: the types of its reply channel.\<close>

datatype ToxReply = TrUnit | TrNumber u32 | TrSnapshot ToxSnapshot | TrConference ToxConference | TrPath rtext

definition set_info_result :: "bool \<Rightarrow> int \<Rightarrow> ToxReply tox_result" where
  "set_info_result ok error = (if ok then TOk TrUnit else TErr (TeSetInfo error))"

definition friend_add_result :: "u32 \<Rightarrow> int \<Rightarrow> ToxReply tox_result" where
  "friend_add_result n error =
     (if error = 0 then TOk (TrNumber n) else TErr (TeFriendAdd error (friend_add_error_name error)))"

definition handle_set_name :: "'x toxcore \<Rightarrow> rtext \<Rightarrow> 'x Worker \<Rightarrow> 'x Worker \<times> ToxReply tox_result" where
  "handle_set_name T name W = (case tox_self_set_name T (wk_tox W) (utf8_bytes name) of
     (x', ok, error) \<Rightarrow> (W\<lparr>wk_tox := x'\<rparr>, set_info_result ok error))"

definition handle_set_status :: "'x toxcore \<Rightarrow> rtext \<Rightarrow> 'x Worker \<Rightarrow> 'x Worker \<times> ToxReply tox_result" where
  "handle_set_status T m W = (case tox_self_set_status_message T (wk_tox W) (utf8_bytes m) of
     (x', ok, error) \<Rightarrow> (W\<lparr>wk_tox := x'\<rparr>, set_info_result ok error))"

definition handle_add_friend :: "'x toxcore \<Rightarrow> bytes \<Rightarrow> rtext \<Rightarrow> 'x Worker \<Rightarrow> 'x Worker \<times> ToxReply tox_result" where
  "handle_add_friend T address m W = (case tox_friend_add T (wk_tox W) address (utf8_bytes m) of
     (x', n, error) \<Rightarrow> (W\<lparr>wk_tox := x'\<rparr>, friend_add_result n error))"

definition handle_accept_friend :: "'x toxcore \<Rightarrow> bytes \<Rightarrow> 'x Worker \<Rightarrow> 'x Worker \<times> ToxReply tox_result" where
  "handle_accept_friend T public_key W = (case tox_friend_add_norequest T (wk_tox W) public_key of
     (x', n, error) \<Rightarrow> (W\<lparr>wk_tox := x'\<rparr>, friend_add_result n error))"

definition handle_send_message ::
    "'x toxcore \<Rightarrow> u32 \<Rightarrow> bytes \<Rightarrow> ToxMessageKind \<Rightarrow> 'x Worker \<Rightarrow> 'x Worker \<times> ToxReply tox_result" where
  "handle_send_message T f body kind W =
     (case tox_friend_send_message T (wk_tox W) f (tox_kind_as_raw kind) body of
        (x', i, error) \<Rightarrow>
          (W\<lparr>wk_tox := x'\<rparr>,
           if error = 0 then TOk (TrNumber i)
           else TErr (TeSendMessage error (send_message_error_name error))))"

definition handle_conference_new :: "'x toxcore \<Rightarrow> rtext \<Rightarrow> 'x Worker \<Rightarrow> 'x Worker \<times> ToxReply tox_result" where
  "handle_conference_new T title W =
     (case tox_conference_new T (wk_tox W) of
        (x1, n, error) \<Rightarrow>
          if error = 0 then
            (let x2 = (if title = [] then x1 else fst (set_conference_title T x1 n title)) in
             (W\<lparr>wk_tox := x2\<rparr>, TOk (TrConference (conference_info T x2 n False))))
          else (W\<lparr>wk_tox := x1\<rparr>,
                TErr (TeConference (lit ''new'') error (conference_new_error_name error))))"

definition handle_conference_join :: "'x toxcore \<Rightarrow> u32 \<Rightarrow> bytes \<Rightarrow> 'x Worker \<Rightarrow> 'x Worker \<times> ToxReply tox_result" where
  "handle_conference_join T f cookie W =
     (case tox_conference_join T (wk_tox W) f cookie of
        (x', n, error) \<Rightarrow>
          (W\<lparr>wk_tox := x'\<rparr>,
           if error = 0 then TOk (TrConference (conference_info T x' n False))
           else TErr (TeConference (lit ''join'') error (conference_join_error_name error))))"

text \<open>A command on a group: its number first, then the library, whose flag decides.\<close>

definition on_conference ::
    "'x toxcore \<Rightarrow> rtext \<Rightarrow> (u32 \<Rightarrow> 'x Worker \<Rightarrow> 'x Worker \<times> ToxReply tox_result) \<Rightarrow> 'x Worker
      \<Rightarrow> 'x Worker \<times> ToxReply tox_result" where
  "on_conference T group_id f W =
     (case conference_number_for T (wk_tox W) group_id of
        TOk n \<Rightarrow> f n W
      | TErr e \<Rightarrow> (W, TErr e)
      | TPanic \<Rightarrow> (W, TPanic))"

definition flag_result :: "string \<Rightarrow> (int \<Rightarrow> rtext) \<Rightarrow> bool \<Rightarrow> int \<Rightarrow> ToxReply tox_result" where
  "flag_result operation name ok error =
     (if ok then TOk TrUnit else TErr (TeConference (lit operation) error (name error)))"

definition handle_conference_invite ::
    "'x toxcore \<Rightarrow> rtext \<Rightarrow> u32 \<Rightarrow> 'x Worker \<Rightarrow> 'x Worker \<times> ToxReply tox_result" where
  "handle_conference_invite T group_id f =
     on_conference T group_id (\<lambda>n W. case tox_conference_invite T (wk_tox W) f n of
       (x', ok, error) \<Rightarrow> (W\<lparr>wk_tox := x'\<rparr>, flag_result ''invite'' conference_invite_error_name ok error))"

definition handle_conference_set_title ::
    "'x toxcore \<Rightarrow> rtext \<Rightarrow> rtext \<Rightarrow> 'x Worker \<Rightarrow> 'x Worker \<times> ToxReply tox_result" where
  "handle_conference_set_title T group_id title =
     on_conference T group_id (\<lambda>n W. case set_conference_title T (wk_tox W) n title of
       (x', r) \<Rightarrow> (W\<lparr>wk_tox := x'\<rparr>, tox_bind r (\<lambda>_. TOk TrUnit)))"

definition handle_conference_send ::
    "'x toxcore \<Rightarrow> rtext \<Rightarrow> bytes \<Rightarrow> ToxMessageKind \<Rightarrow> 'x Worker \<Rightarrow> 'x Worker \<times> ToxReply tox_result" where
  "handle_conference_send T group_id body kind =
     on_conference T group_id (\<lambda>n W.
       case tox_conference_send_message T (wk_tox W) n (tox_kind_as_raw kind) body of
         (x', ok, error) \<Rightarrow>
           (W\<lparr>wk_tox := x'\<rparr>, flag_result ''send_message'' conference_send_error_name ok error))"

definition handle_conference_leave :: "'x toxcore \<Rightarrow> rtext \<Rightarrow> 'x Worker \<Rightarrow> 'x Worker \<times> ToxReply tox_result" where
  "handle_conference_leave T group_id =
     on_conference T group_id (\<lambda>n W. case tox_conference_delete T (wk_tox W) n of
       (x', ok, error) \<Rightarrow>
         ((if ok then W\<lparr>wk_tox := x', wk_connected := wk_connected W - {group_id}\<rparr> else W\<lparr>wk_tox := x'\<rparr>),
          flag_result ''delete'' conference_delete_error_name ok error))"

definition tox_friend_of :: "'x toxcore \<Rightarrow> 'x \<Rightarrow> u32 \<Rightarrow> ToxFriend" where
  "tox_friend_of T x n = \<lparr>tf_number = n, tf_public_key = friend_public_key T x n,
     tf_name = friend_name T x n,
     tf_status = connection_from_raw (tox_friend_get_connection_status T x n)\<rparr>"

text \<open>A snapshot also forgets the handshakes of conferences that are gone.\<close>

definition worker_snapshot :: "'x toxcore \<Rightarrow> 'x Worker \<Rightarrow> 'x Worker \<times> ToxSnapshot" where
  "worker_snapshot T W =
     (let x = wk_tox W;
          conferences = map (\<lambda>n. conference_info T x n (conference_id T x n \<in> wk_connected W)) (conference_numbers T x);
          live = map cf_id conferences
      in (W\<lparr>wk_connected := {i \<in> wk_connected W. list_ex (\<lambda>l. eq_ignore_ascii_case l i) live}\<rparr>,
          \<lparr>ts_self_connection = connection_from_raw (tox_self_get_connection_status T x),
           ts_friends = map (tox_friend_of T x) (tox_self_get_friend_list T x),
           ts_conferences = conferences, ts_nickname = self_name T x\<rparr>))"

text \<open>The worker after a command, its answer, and whether the thread stops.\<close>

fun worker_handle :: "'x toxcore \<Rightarrow> ToxCommand \<Rightarrow> 'x Worker \<Rightarrow> ('x Worker \<times> ToxReply tox_result) \<times> bool" where
  "worker_handle T (CmSetName name) W = (handle_set_name T name W, False)"
| "worker_handle T (CmSetStatusMessage m) W = (handle_set_status T m W, False)"
| "worker_handle T (CmAddFriend address m) W = (handle_add_friend T address m W, False)"
| "worker_handle T (CmAcceptFriend k) W = (handle_accept_friend T k W, False)"
| "worker_handle T (CmSendMessage f body kind) W = (handle_send_message T f body kind W, False)"
| "worker_handle T CmSnapshot W =
     (let r = worker_snapshot T W in ((fst r, TOk (TrSnapshot (snd r))), False))"
| "worker_handle T (CmConferenceNew title) W = (handle_conference_new T title W, False)"
| "worker_handle T (CmConferenceJoin f cookie) W = (handle_conference_join T f cookie W, False)"
| "worker_handle T (CmConferenceInvite g f) W = (handle_conference_invite T g f W, False)"
| "worker_handle T (CmConferenceSetTitle g title) W = (handle_conference_set_title T g title W, False)"
| "worker_handle T (CmConferenceSend g body kind) W = (handle_conference_send T g body kind W, False)"
| "worker_handle T (CmConferenceLeave g) W = (handle_conference_leave T g W, False)"
| "worker_handle T CmSave W =
     (let r = save_savedata T W in ((fst r, tox_bind (snd r) (\<lambda>p. TOk (TrPath p))), False))"
| "worker_handle T CmShutdown W =
     (let r = save_savedata T W in ((fst r, tox_bind (snd r) (\<lambda>p. TOk TrUnit)), True))"

text \<open>
  \<^verbatim>\<open>round_trip\<close>: a command reaches a worker that still runs and is answered; a worker that is
  gone, or that panics on the command, leaves the caller with \<open>TeWorkerStopped\<close>.
\<close>

definition request :: "'x toxcore \<Rightarrow> ToxCommand \<Rightarrow> 'x Worker \<Rightarrow> 'x Worker \<times> ToxReply tox_result" where
  "request T c W =
     (if \<not> wk_running W then (W, TErr TeWorkerStopped)
      else case worker_handle T c W of
             ((W', TPanic), stop) \<Rightarrow> (W'\<lparr>wk_running := False\<rparr>, TErr TeWorkerStopped)
           | ((W', r), stop) \<Rightarrow> (if stop then W'\<lparr>wk_running := False\<rparr> else W', r))"

fun reply_unit :: "ToxReply tox_result \<Rightarrow> unit tox_result" where
  "reply_unit (TOk TrUnit) = TOk ()" | "reply_unit (TErr e) = TErr e" | "reply_unit _ = TPanic"

fun reply_number :: "ToxReply tox_result \<Rightarrow> u32 tox_result" where
  "reply_number (TOk (TrNumber n)) = TOk n" | "reply_number (TErr e) = TErr e" | "reply_number _ = TPanic"

fun reply_snapshot :: "ToxReply tox_result \<Rightarrow> ToxSnapshot tox_result" where
  "reply_snapshot (TOk (TrSnapshot s)) = TOk s" | "reply_snapshot (TErr e) = TErr e" | "reply_snapshot _ = TPanic"

fun reply_conference :: "ToxReply tox_result \<Rightarrow> ToxConference tox_result" where
  "reply_conference (TOk (TrConference c)) = TOk c" | "reply_conference (TErr e) = TErr e" | "reply_conference _ = TPanic"

fun reply_path :: "ToxReply tox_result \<Rightarrow> rtext tox_result" where
  "reply_path (TOk (TrPath p)) = TOk p" | "reply_path (TErr e) = TErr e" | "reply_path _ = TPanic"

subsection \<open>The handle\<close>

definition ask :: "(ToxReply tox_result \<Rightarrow> 'a tox_result) \<Rightarrow> 'x toxcore \<Rightarrow> ToxCommand \<Rightarrow> 'x Worker \<Rightarrow> 'x Worker \<times> 'a tox_result" where
  "ask reply T c W = (let r = request T c W in (fst r, reply (snd r)))"

definition sender_set_nickname :: "'x toxcore \<Rightarrow> rtext \<Rightarrow> 'x Worker \<Rightarrow> 'x Worker \<times> unit tox_result" where
  "sender_set_nickname T name = ask reply_unit T (CmSetName name)"

definition sender_set_status_message :: "'x toxcore \<Rightarrow> rtext \<Rightarrow> 'x Worker \<Rightarrow> 'x Worker \<times> unit tox_result" where
  "sender_set_status_message T m = ask reply_unit T (CmSetStatusMessage m)"

text \<open>Decoding in the caller: an error or a panic there reaches no worker.\<close>

definition with_decoded ::
    "rtext \<Rightarrow> (bytes \<Rightarrow> 'x Worker \<Rightarrow> 'x Worker \<times> 'a tox_result) \<Rightarrow> 'x Worker \<Rightarrow> 'x Worker \<times> 'a tox_result" where
  "with_decoded s f W =
     (case decode_hex s of TOk bs \<Rightarrow> f bs W | TErr e \<Rightarrow> (W, TErr e) | TPanic \<Rightarrow> (W, TPanic))"

definition sender_add_friend :: "'x toxcore \<Rightarrow> rtext \<Rightarrow> rtext \<Rightarrow> 'x Worker \<Rightarrow> 'x Worker \<times> u32 tox_result" where
  "sender_add_friend T address m =
     with_decoded address (\<lambda>bs W.
       if length bs \<noteq> ADDRESS_SIZE then (W, TErr (TeBadAddressLength (length bs)))
       else if m = [] then (W, TErr TeEmptyMessage)
       else if MAX_FRIEND_REQUEST_LENGTH < utf8_len m then
         (W, TErr (TeTooLong (lit ''friend request'') (utf8_len m) MAX_FRIEND_REQUEST_LENGTH))
       else ask reply_number T (CmAddFriend bs m) W)"

definition sender_accept_friend :: "'x toxcore \<Rightarrow> rtext \<Rightarrow> 'x Worker \<Rightarrow> 'x Worker \<times> u32 tox_result" where
  "sender_accept_friend T public_key =
     with_decoded public_key (\<lambda>bs W.
       if length bs \<noteq> PUBLIC_KEY_SIZE then (W, TErr (TeBadKeyLength (length bs)))
       else ask reply_number T (CmAcceptFriend bs) W)"

definition sender_send_message_typed ::
    "'x toxcore \<Rightarrow> u32 \<Rightarrow> bytes \<Rightarrow> ToxMessageKind \<Rightarrow> 'x Worker \<Rightarrow> 'x Worker \<times> u32 tox_result" where
  "sender_send_message_typed T f body kind W =
     (if body = [] then (W, TErr TeEmptyMessage)
      else if TOX_MAX_MESSAGE_LENGTH < length body then
        (W, TErr (TeTooLong (lit ''message'') (length body) TOX_MAX_MESSAGE_LENGTH))
      else ask reply_number T (CmSendMessage f body kind) W)"

definition sender_send_message_bytes :: "'x toxcore \<Rightarrow> u32 \<Rightarrow> bytes \<Rightarrow> 'x Worker \<Rightarrow> 'x Worker \<times> u32 tox_result" where
  "sender_send_message_bytes T f body = sender_send_message_typed T f body TmNormal"

definition sender_send_message :: "'x toxcore \<Rightarrow> u32 \<Rightarrow> rtext \<Rightarrow> 'x Worker \<Rightarrow> 'x Worker \<times> u32 tox_result" where
  "sender_send_message T f m W =
     (if m = [] then (W, TErr TeEmptyMessage) else sender_send_message_bytes T f (utf8_bytes m) W)"

definition sender_snapshot :: "'x toxcore \<Rightarrow> 'x Worker \<Rightarrow> 'x Worker \<times> ToxSnapshot tox_result" where
  "sender_snapshot T = ask reply_snapshot T CmSnapshot"

definition title_too_long :: "rtext \<Rightarrow> ToxError" where
  "title_too_long title = TeTooLong (lit ''conference title'') (utf8_len title) MAX_CONFERENCE_TITLE_LENGTH"

definition sender_conference_new :: "'x toxcore \<Rightarrow> rtext \<Rightarrow> 'x Worker \<Rightarrow> 'x Worker \<times> ToxConference tox_result" where
  "sender_conference_new T title W =
     (if MAX_CONFERENCE_TITLE_LENGTH < utf8_len title then (W, TErr (title_too_long title))
      else ask reply_conference T (CmConferenceNew title) W)"

definition sender_conference_join :: "'x toxcore \<Rightarrow> u32 \<Rightarrow> bytes \<Rightarrow> 'x Worker \<Rightarrow> 'x Worker \<times> ToxConference tox_result" where
  "sender_conference_join T f cookie W =
     (if cookie = [] then (W, TErr TeEmptyMessage)
      else ask reply_conference T (CmConferenceJoin f cookie) W)"

definition sender_conference_invite :: "'x toxcore \<Rightarrow> rtext \<Rightarrow> u32 \<Rightarrow> 'x Worker \<Rightarrow> 'x Worker \<times> unit tox_result" where
  "sender_conference_invite T g f = ask reply_unit T (CmConferenceInvite g f)"

definition sender_conference_set_title :: "'x toxcore \<Rightarrow> rtext \<Rightarrow> rtext \<Rightarrow> 'x Worker \<Rightarrow> 'x Worker \<times> unit tox_result" where
  "sender_conference_set_title T g title W =
     (if MAX_CONFERENCE_TITLE_LENGTH < utf8_len title then (W, TErr (title_too_long title))
      else ask reply_unit T (CmConferenceSetTitle g title) W)"

definition sender_conference_send ::
    "'x toxcore \<Rightarrow> rtext \<Rightarrow> bytes \<Rightarrow> ToxMessageKind \<Rightarrow> 'x Worker \<Rightarrow> 'x Worker \<times> unit tox_result" where
  "sender_conference_send T g body kind W =
     (if body = [] then (W, TErr TeEmptyMessage)
      else if TOX_MAX_MESSAGE_LENGTH < length body then
        (W, TErr (TeTooLong (lit ''conference message'') (length body) TOX_MAX_MESSAGE_LENGTH))
      else ask reply_unit T (CmConferenceSend g body kind) W)"

definition sender_conference_leave :: "'x toxcore \<Rightarrow> rtext \<Rightarrow> 'x Worker \<Rightarrow> 'x Worker \<times> unit tox_result" where
  "sender_conference_leave T g = ask reply_unit T (CmConferenceLeave g)"

definition sender_save :: "'x toxcore \<Rightarrow> 'x Worker \<Rightarrow> 'x Worker \<times> rtext tox_result" where
  "sender_save T = ask reply_path T CmSave"

text \<open>\<^verbatim>\<open>ToxClient::shutdown\<close>: save, stop and join the worker.\<close>

definition client_shutdown :: "'x toxcore \<Rightarrow> 'x Worker \<Rightarrow> 'x Worker \<times> unit tox_result" where
  "client_shutdown T = ask reply_unit T CmShutdown"

definition next_event :: "'x Worker \<Rightarrow> 'x Worker \<times> ToxEvent option" where
  "next_event W = (case wk_events W of
     [] \<Rightarrow> (W, None) | e # es \<Rightarrow> (W\<lparr>wk_events := es\<rparr>, Some e))"

subsection \<open>Starting\<close>

definition create_tox :: "'x toxcore \<Rightarrow> ToxConfig \<Rightarrow> bytes option \<Rightarrow> ToxError + 'x" where
  "create_tox T c savedata =
     (if \<not> tox_options_available T then Inl (TeNew 1)
      else case tox_new T \<lparr>to_start_port = tc_start_port c, to_end_port = tc_end_port c,
               to_udp_enabled = tc_udp_enabled c, to_ipv6_enabled = tc_ipv6_enabled c,
               to_savedata = savedata\<rparr> of
             Inl error \<Rightarrow> Inl (TeNew error)
           | Inr x \<Rightarrow> Inr x)"

definition initialize_identity :: "'x toxcore \<Rightarrow> ToxConfig \<Rightarrow> 'x \<Rightarrow> 'x \<times> ToxIdentity" where
  "initialize_identity T c x =
     (let x1 = (if tc_nickname c = [] then x else fst (tox_self_set_name T x (utf8_bytes (tc_nickname c))));
          x2 = (if tc_status_message c = [] then x1
                else fst (tox_self_set_status_message T x1 (utf8_bytes (tc_status_message c))))
      in (x2, \<lparr>ti_address = encode_hex (tox_self_get_address T x2),
               ti_public_key = encode_hex (tox_self_get_public_key T x2),
               ti_nickname = tc_nickname c\<rparr>))"

text \<open>A node whose key does not decode or whose host holds a NUL is skipped.\<close>

fun bootstrap :: "'x toxcore \<Rightarrow> BootstrapNode list \<Rightarrow> 'x \<Rightarrow> 'x tox_result" where
  "bootstrap T [] x = TOk x"
| "bootstrap T (n # ns) x =
     (case decode_hex (bn_public_key n) of
        TPanic \<Rightarrow> TPanic
      | TErr e \<Rightarrow> bootstrap T ns x
      | TOk key \<Rightarrow>
          if 0 \<in> set (bn_host n) then bootstrap T ns x
          else bootstrap T ns (tox_bootstrap T x (bn_host n) (bn_port n) key))"

definition savedata_of :: "stored_file \<Rightarrow> bytes option" where
  "savedata_of f = (case f of FileBytes b \<Rightarrow> (if b = [] then None else Some b) | _ \<Rightarrow> None)"

text \<open>\<^verbatim>\<open>run_worker\<close> until its loop: the worker and the identity it reports, or the error.\<close>

definition run_worker ::
    "'x toxcore \<Rightarrow> ToxConfig \<Rightarrow> rtext \<Rightarrow> stored_file \<Rightarrow> rtext option \<Rightarrow> ('x Worker \<times> ToxIdentity) tox_result" where
  "run_worker T c path file disk =
     (let savedata = savedata_of file in
      case create_tox T c savedata of
        Inl error \<Rightarrow>
          TErr (case (savedata, error) of (Some _, TeNew code) \<Rightarrow> TeSavedata path code | (_, other) \<Rightarrow> other)
      | Inr x \<Rightarrow>
          (case initialize_identity T c x of
             (x1, identity) \<Rightarrow>
               tox_bind (bootstrap T (tc_bootstrap_nodes c) x1) (\<lambda>x2.
                 TOk (\<lparr>wk_tox = x2, wk_events = [], wk_receiving = True, wk_dropped = 0,
                       wk_connected = {}, wk_path = path, wk_file = file, wk_disk = disk,
                       wk_running = True\<rparr>, identity))))"

text \<open>\<^verbatim>\<open>ToxClient::start\<close>: a worker that panicked while starting is a stopped one.\<close>

definition client_start ::
    "'x toxcore \<Rightarrow> ToxConfig \<Rightarrow> rtext \<Rightarrow> stored_file \<Rightarrow> rtext option \<Rightarrow> ('x Worker \<times> ToxIdentity) tox_result" where
  "client_start T c path file disk =
     tox_bind (tox_config_validate c) (\<lambda>_.
       case run_worker T c path file disk of TPanic \<Rightarrow> TErr TeWorkerStopped | r \<Rightarrow> r)"

definition client_start_unlinked :: "ToxConfig \<Rightarrow> ('x Worker \<times> ToxIdentity) tox_result" where
  "client_start_unlinked c = TErr TeUnavailable"

text \<open>One turn of the worker's loop: the library works, then a command, a timeout, or the end
  of every handle, on which it saves and stops.\<close>

datatype worker_input = WiCommand ToxCommand | WiTimeout | WiDisconnected

definition worker_turn :: "'x toxcore \<Rightarrow> worker_input \<Rightarrow> 'x Worker \<Rightarrow> 'x Worker" where
  "worker_turn T i W =
     (if \<not> wk_running W then W
      else let W1 = worker_iterate T W in
           case i of
             WiCommand c \<Rightarrow> fst (request T c W1)
           | WiTimeout \<Rightarrow> W1
           | WiDisconnected \<Rightarrow> fst (save_savedata T W1)\<lparr>wk_running := False\<rparr>)"

subsection \<open>Answers have the type of their command\<close>

fun reply_fits :: "ToxCommand \<Rightarrow> ToxReply \<Rightarrow> bool" where
  "reply_fits (CmAddFriend a m) r \<longleftrightarrow> (\<exists>n. r = TrNumber n)"
| "reply_fits (CmAcceptFriend k) r \<longleftrightarrow> (\<exists>n. r = TrNumber n)"
| "reply_fits (CmSendMessage f b k) r \<longleftrightarrow> (\<exists>n. r = TrNumber n)"
| "reply_fits CmSnapshot r \<longleftrightarrow> (\<exists>s. r = TrSnapshot s)"
| "reply_fits (CmConferenceNew t) r \<longleftrightarrow> (\<exists>c. r = TrConference c)"
| "reply_fits (CmConferenceJoin f c) r \<longleftrightarrow> (\<exists>c. r = TrConference c)"
| "reply_fits CmSave r \<longleftrightarrow> (\<exists>p. r = TrPath p)"
| "reply_fits c r \<longleftrightarrow> r = TrUnit"

lemma set_info_fits: "set_info_result ok e = TOk r \<Longrightarrow> r = TrUnit"
  and flag_fits: "flag_result op nm ok e = TOk r \<Longrightarrow> r = TrUnit"
  and friend_add_fits: "friend_add_result n e = TOk r \<Longrightarrow> \<exists>n. r = TrNumber n"
  by (auto simp: set_info_result_def flag_result_def friend_add_result_def split: if_splits)

lemma on_conference_ok:
  "snd (on_conference T g f W) = TOk r \<Longrightarrow> \<exists>n. snd (f n W) = TOk r"
  by (auto simp: on_conference_def split: tox_result.splits)

lemma worker_handle_fits: "snd (fst (worker_handle T c W)) = TOk r \<Longrightarrow> reply_fits c r"
proof (cases c)
  case (CmConferenceInvite g f)
  assume "snd (fst (worker_handle T c W)) = TOk r"
  then show ?thesis unfolding CmConferenceInvite
    by (auto simp: handle_conference_invite_def dest!: on_conference_ok split: prod.splits dest: flag_fits)
next
  case (CmConferenceSetTitle g t)
  assume "snd (fst (worker_handle T c W)) = TOk r"
  then show ?thesis unfolding CmConferenceSetTitle
    by (auto simp: handle_conference_set_title_def tox_bind_ok dest!: on_conference_ok split: prod.splits)
next
  case (CmConferenceSend g b k)
  assume "snd (fst (worker_handle T c W)) = TOk r"
  then show ?thesis unfolding CmConferenceSend
    by (auto simp: handle_conference_send_def dest!: on_conference_ok split: prod.splits dest: flag_fits)
next
  case (CmConferenceLeave g)
  assume "snd (fst (worker_handle T c W)) = TOk r"
  then show ?thesis unfolding CmConferenceLeave
    by (auto simp: handle_conference_leave_def dest!: on_conference_ok split: prod.splits dest: flag_fits)
qed (auto simp: handle_set_name_def handle_set_status_def handle_add_friend_def handle_accept_friend_def
      handle_send_message_def handle_conference_new_def handle_conference_join_def Let_def tox_bind_ok
      split: prod.splits if_splits dest: set_info_fits friend_add_fits)

lemma request_fits: "snd (request T c W) = TOk r \<Longrightarrow> reply_fits c r"
  using worker_handle_fits [of T c W r]
  by (auto simp: request_def split: if_splits prod.splits tox_result.splits)

lemma request_no_panic: "snd (request T c W) \<noteq> TPanic"
  by (auto simp: request_def split: prod.splits tox_result.splits)

lemma reply_shapes:
  "(\<exists>e. r = TErr e) \<or> r = TOk TrUnit \<Longrightarrow> reply_unit r \<noteq> TPanic"
  "(\<exists>e. r = TErr e) \<or> (\<exists>n. r = TOk (TrNumber n)) \<Longrightarrow> reply_number r \<noteq> TPanic"
  "(\<exists>e. r = TErr e) \<or> (\<exists>s. r = TOk (TrSnapshot s)) \<Longrightarrow> reply_snapshot r \<noteq> TPanic"
  "(\<exists>e. r = TErr e) \<or> (\<exists>c. r = TOk (TrConference c)) \<Longrightarrow> reply_conference r \<noteq> TPanic"
  "(\<exists>e. r = TErr e) \<or> (\<exists>p. r = TOk (TrPath p)) \<Longrightarrow> reply_path r \<noteq> TPanic"
  by auto

lemma ask_no_panic:
  assumes "\<And>r. reply_fits c r \<Longrightarrow> reply (TOk r) \<noteq> TPanic" and "\<And>e. reply (TErr e) \<noteq> TPanic"
  shows "snd (ask reply T c W) \<noteq> TPanic"
  using assms request_no_panic [of T c W] request_fits [of T c W]
  by (cases "snd (request T c W)") (auto simp: ask_def Let_def)

subsection \<open>The event queue\<close>

text \<open>What a list of callbacks adds: the first events that fit, in order; every other one is
  counted.\<close>

definition adds_events :: "'x Worker \<Rightarrow> 'x Worker \<Rightarrow> bool" where
  "adds_events W W' \<longleftrightarrow> (\<exists>new lost. wk_events W' = wk_events W @ new \<and>
     wk_dropped W' = wk_dropped W + word_of_nat lost \<and>
     (wk_receiving W \<and> 0 < lost \<longrightarrow> EVENT_QUEUE_CAPACITY \<le> length (wk_events W')) \<and>
     wk_receiving W' = wk_receiving W)"

lemma adds_events_refl: "adds_events W W"
  unfolding adds_events_def by (intro exI [of _ "[]"] exI [of _ "0 :: nat"]) simp

lemma adds_events_trans:
  assumes "adds_events W W1" "adds_events W1 W2"
  shows "adds_events W W2"
proof -
  obtain n1 l1 where 1: "wk_events W1 = wk_events W @ n1" "wk_dropped W1 = wk_dropped W + word_of_nat l1"
      "wk_receiving W \<and> 0 < l1 \<longrightarrow> EVENT_QUEUE_CAPACITY \<le> length (wk_events W1)" "wk_receiving W1 = wk_receiving W"
    using assms(1) unfolding adds_events_def by blast
  obtain n2 l2 where 2: "wk_events W2 = wk_events W1 @ n2" "wk_dropped W2 = wk_dropped W1 + word_of_nat l2"
      "wk_receiving W1 \<and> 0 < l2 \<longrightarrow> EVENT_QUEUE_CAPACITY \<le> length (wk_events W2)" "wk_receiving W2 = wk_receiving W1"
    using assms(2) unfolding adds_events_def by blast
  show ?thesis
    unfolding adds_events_def
    by (intro exI [of _ "n1 @ n2"] exI [of _ "l1 + l2"]) (use 1 2 in \<open>auto simp: add.assoc\<close>)
qed

lemma send_event_adds: "adds_events W (send_event e W)"
proof -
  consider "\<not> wk_receiving W" | "wk_receiving W" "EVENT_QUEUE_CAPACITY \<le> length (wk_events W)"
    | "wk_receiving W" "length (wk_events W) < EVENT_QUEUE_CAPACITY" by linarith
  then show ?thesis
  proof cases
    case 1
    then show ?thesis by (simp add: send_event_def adds_events_refl)
  next
    case 2
    then show ?thesis unfolding adds_events_def
      by (intro exI [of _ "[]"] exI [of _ "1 :: nat"]) (simp add: send_event_def)
  next
    case 3
    then show ?thesis unfolding adds_events_def
      by (intro exI [of _ "[e]"] exI [of _ "0 :: nat"]) (simp add: send_event_def)
  qed
qed

lemma send_event_bounded:
  "length (wk_events W) \<le> EVENT_QUEUE_CAPACITY \<Longrightarrow> length (wk_events (send_event e W)) \<le> EVENT_QUEUE_CAPACITY"
  by (simp add: send_event_def)

lemma on_callback_event:
  "\<exists>W1 e. on_callback T cb W = W \<or> (on_callback T cb W = send_event e W1 \<and> wk_events W1 = wk_events W \<and>
     wk_dropped W1 = wk_dropped W \<and> wk_receiving W1 = wk_receiving W)"
  by (cases "(T, cb, W)" rule: on_callback.cases)
     (auto simp: on_self_connection_status_def on_friend_connection_status_def on_friend_name_def
        on_friend_request_def on_friend_message_def on_conference_invite_def on_conference_connected_def
        on_conference_peers_changed_def on_conference_title_def on_conference_message_def Let_def
        split: option.splits)

lemma on_callback_adds: "adds_events W (on_callback T cb W)"
proof -
  obtain W1 e where "on_callback T cb W = W \<or> (on_callback T cb W = send_event e W1 \<and>
      wk_events W1 = wk_events W \<and> wk_dropped W1 = wk_dropped W \<and> wk_receiving W1 = wk_receiving W)"
    using on_callback_event [of T cb W] by blast
  then show ?thesis
    using adds_events_refl [of W] send_event_adds [of W1 e]
    by (elim disjE conjE) (simp_all add: adds_events_def)
qed

lemma on_callback_bounded:
  "length (wk_events W) \<le> EVENT_QUEUE_CAPACITY \<Longrightarrow> length (wk_events (on_callback T cb W)) \<le> EVENT_QUEUE_CAPACITY"
  using on_callback_event [of T cb W] send_event_bounded by metis

lemma callbacks_add: "adds_events W (foldl (\<lambda>W cb. on_callback T cb W) W cbs)"
  by (induction cbs arbitrary: W) (auto intro: adds_events_refl adds_events_trans on_callback_adds)

lemma callbacks_bounded:
  "length (wk_events W) \<le> EVENT_QUEUE_CAPACITY \<Longrightarrow>
   length (wk_events (foldl (\<lambda>W cb. on_callback T cb W) W cbs)) \<le> EVENT_QUEUE_CAPACITY"
  by (induction cbs arbitrary: W) (auto simp: on_callback_bounded)

end
