(* ===== verification/ToxStore.thy ===== *)
theory ToxStore
  imports ToxWorker Outbox
begin

section \<open>The stored Tox queue (\<^verbatim>\<open>meta-text-backend/src/tox_store.rs\<close>)\<close>

text \<open>
  Friend requests not yet answered and messages not yet delivered, as one JSON file beside the
  savedata. The file system and JSON are parameters: the file is a \<open>stored_file\<close>, a write
  succeeds or not (\<open>writable\<close>). Times are nanoseconds since the Unix epoch.
\<close>

definition STORE_VERSION :: u32 where "STORE_VERSION = 1"

record StoredRequest =
  sr_public_key :: rtext
  sr_message :: rtext

record ToxStoredMessage =
  tsm_public_key :: rtext
  tsm_message_id :: u64
  tsm_kind :: MessageKind
  tsm_body :: rtext
  tsm_queued_at_unix_ms :: u64

record ToxState =
  ts_version :: u32
  ts_next_message_id :: u64
  ts_requests :: "StoredRequest list"
  ts_outbox :: "ToxStoredMessage list"

definition tox_state_default :: ToxState where
  "tox_state_default = \<lparr>ts_version = STORE_VERSION, ts_next_message_id = 1, ts_requests = [], ts_outbox = []\<rparr>"

definition tox_state_is_empty :: "ToxState \<Rightarrow> bool" where
  "tox_state_is_empty s \<longleftrightarrow> ts_requests s = [] \<and> ts_outbox s = []"

definition unix_ms :: "instant \<Rightarrow> u64" where
  "unix_ms t = word_of_nat (min (t div 1000000) (2 ^ 64 - 1))"

definition from_unix_ms :: "u64 \<Rightarrow> instant" where
  "from_unix_ms m = millis (unat m)"

definition tox_store_load :: "ToxState json_codec \<Rightarrow> stored_file \<Rightarrow> ToxState" where
  "tox_store_load J f =
     (case f of
        FileBytes b \<Rightarrow>
          (case from_json J b of
             Inr state \<Rightarrow> if ts_version state = STORE_VERSION then state else tox_state_default
           | Inl e \<Rightarrow> tox_state_default)
      | _ \<Rightarrow> tox_state_default)"

text \<open>A write replaces the file as a whole: the rename is atomic.\<close>

definition tox_store_update :: "ToxState json_codec \<Rightarrow> bool \<Rightarrow> ToxState \<Rightarrow> stored_file \<Rightarrow> bool \<times> stored_file" where
  "tox_store_update J writable state f =
     (case to_json J state of
        Inl e \<Rightarrow> (False, f)
      | Inr b \<Rightarrow> if writable then (True, FileBytes b) else (False, f))"

lemma unix_ms_back: "t div 1000000 < 2 ^ 64 \<Longrightarrow> from_unix_ms (unix_ms t) = t div 1000000 * 1000000"
  by (simp add: unix_ms_def from_unix_ms_def millis_def unat_of_nat min_def)

lemma from_unix_ms_back: "unix_ms (from_unix_ms m) = m"
  using unsigned_less [where 'a = nat, of m]
  by (simp add: unix_ms_def from_unix_ms_def millis_def min_def)

text \<open>What a write stored is what a later start loads, when JSON round-trips.\<close>

lemma tox_store_roundtrip:
  assumes "\<And>b. to_json J state = Inr b \<Longrightarrow> from_json J b = Inr state"
    and "ts_version state = STORE_VERSION" and "tox_store_update J w state f = (True, f')"
  shows "tox_store_load J f' = state"
  using assms by (auto simp: tox_store_update_def tox_store_load_def split: sum.splits if_splits)

lemma tox_store_update_failed: "tox_store_update J w state f = (False, f') \<Longrightarrow> f' = f"
  by (auto simp: tox_store_update_def split: sum.splits if_splits)

end
