(* ===== verification/ToxTransport.thy ===== *)
theory ToxTransport
  imports ToxStore Config
begin

section \<open>Transport over Tox (\<^verbatim>\<open>meta-text-backend/src/transport.rs\<close>)\<close>

text \<open>
  The state the transport shares with its bridge: the friends it knows, the requests and
  invitations that wait for an answer, and the outbox of messages to friends who are offline.
  Maps are association lists with distinct keys, in whatever order the hash map iterates. Every
  method and every event of the bridge is one step on the whole state, the worker of \<open>ToxWorker\<close>
  included; \<open>now\<close> is the clock. Unicode case mapping, JSON and the text of a failed task are
  parameters.
\<close>

definition PENDING_REQUESTS_CAPACITY :: nat where "PENDING_REQUESTS_CAPACITY = 128"
definition PENDING_INVITES_CAPACITY :: nat where "PENDING_INVITES_CAPACITY = 128"
definition TOX_OUTBOX_CAPACITY :: nat where "TOX_OUTBOX_CAPACITY = 32"
definition TOX_OUTBOX_TTL :: duration where "TOX_OUTBOX_TTL = secs 300"

record PeerRequest =
  pr_public_key :: rtext
  pr_message :: rtext

record GroupInvite =
  gi_peer :: rtext
  gi_peer_id :: rtext
  gi_token :: rtext

record PendingInvite =
  pi_friend_number :: u32
  pi_peer_id :: rtext
  pi_token :: rtext
  pi_conference_type :: ToxConferenceType

record FriendEntry =
  fe_public_key :: rtext
  fe_name :: rtext
  fe_connected :: bool

record QueuedMessage =
  qm_message_id :: u64
  qm_body :: bytes
  qm_kind :: MessageKind
  qm_queued_at :: instant

type_synonym tox_outbox = "(u32 \<times> QueuedMessage list) list"
type_synonym friend_table = "(u32 \<times> FriendEntry) list"

record 'x tox_env =
  te_core :: "'x toxcore"
  te_hex :: hex_lib
  te_json :: "ToxState json_codec"
  te_lower :: "rtext \<Rightarrow> rtext"
  te_upper :: "rtext \<Rightarrow> rtext"
  te_join_error :: rtext

definition network_error :: "rtext \<Rightarrow> string \<Rightarrow> MetaTextError" where
  "network_error m operation = MtNetwork m (lit operation) None"

definition group_unsupported_error :: "string \<Rightarrow> MetaTextError" where
  "group_unsupported_error operation =
     MtValidation (lit ''the tcp transport has no groups, so it cannot '' @ lit operation @
        lit ''; start with --transport tox'') (lit ''transport'')
       (Some (lit ''a transport that supports groups (--transport tox)''))"

definition group_from_tox :: "ToxConference \<Rightarrow> Group" where
  "group_from_tox c = \<lparr>g_id = cf_id c, g_name = cf_title c, g_members = cf_peers c, g_joined = cf_connected c\<rparr>"

definition queued_age :: "instant \<Rightarrow> instant \<Rightarrow> duration" where
  "queued_age now queued_at = now - queued_at"

fun tox_message_kind :: "MessageKind \<Rightarrow> ToxMessageKind" where
  "tox_message_kind KText = TmNormal"
| "tox_message_kind KAction = TmAction"

fun domain_message_kind :: "ToxMessageKind \<Rightarrow> MessageKind" where
  "domain_message_kind TmNormal = KText"
| "domain_message_kind TmAction = KAction"

subsection \<open>The outbox\<close>

definition tox_queue :: "u32 \<Rightarrow> tox_outbox \<Rightarrow> QueuedMessage list" where
  "tox_queue n q = unwrap_or [] (map_of q n)"

definition queued_fresh :: "instant \<Rightarrow> QueuedMessage \<Rightarrow> bool" where
  "queued_fresh now e \<longleftrightarrow> queued_age now (qm_queued_at e) < TOX_OUTBOX_TTL"

definition tox_prune_outbox :: "instant \<Rightarrow> tox_outbox \<Rightarrow> tox_outbox \<times> nat" where
  "tox_prune_outbox now q =
     (filter (\<lambda>(n, es). es \<noteq> []) (map (\<lambda>(n, es). (n, filter (queued_fresh now) es)) q),
      sum_list (map (\<lambda>(n, es). length es - length (filter (queued_fresh now) es)) q))"

definition tox_outbox_len :: "tox_outbox \<Rightarrow> nat" where
  "tox_outbox_len q = sum_list (map (\<lambda>(n, es). length es) q)"

definition tox_pop_outbox :: "u32 \<Rightarrow> tox_outbox \<Rightarrow> QueuedMessage option \<times> tox_outbox" where
  "tox_pop_outbox n q =
     (case map_of q n of
        None \<Rightarrow> (None, q)
      | Some [] \<Rightarrow> (None, AList.delete n q)
      | Some (e # es) \<Rightarrow> (Some e, AList.update n es q))"

text \<open>
  Flushing: pop, send, and put the message back where it was when the send fails. Each turn
  that goes on shortens the queue; the recursion is on what the queue holds.
\<close>

fun tox_flush_loop ::
    "'x toxcore \<Rightarrow> u32 \<Rightarrow> nat \<Rightarrow> tox_outbox \<Rightarrow> 'x Worker \<Rightarrow> nat \<times> tox_outbox \<times> 'x Worker" where
  "tox_flush_loop T n 0 q W = (0, q, W)"
| "tox_flush_loop T n (Suc k) q W =
     (case tox_pop_outbox n q of
        (None, q1) \<Rightarrow> (0, q1, W)
      | (Some e, q1) \<Rightarrow>
          (case sender_send_message_typed T n (qm_body e) (tox_message_kind (qm_kind e)) W of
             (W1, TOk i) \<Rightarrow> (case tox_flush_loop T n k q1 W1 of (sent, q2, W2) \<Rightarrow> (Suc sent, q2, W2))
           | (W1, r) \<Rightarrow> (0, AList.update n (e # tox_queue n q1) q1, W1)))"

definition tox_flush_outbox :: "'x toxcore \<Rightarrow> u32 \<Rightarrow> tox_outbox \<Rightarrow> 'x Worker \<Rightarrow> nat \<times> tox_outbox \<times> 'x Worker" where
  "tox_flush_outbox T n q W = tox_flush_loop T n (Suc (length (tox_queue n q))) q W"

subsection \<open>Restoring and storing\<close>

record RestoredState =
  rs_requests :: "PeerRequest list"
  rs_outbox :: tox_outbox
  rs_next_message_id :: u64
  rs_requests_dropped :: nat
  rs_expired :: nat
  rs_undeliverable :: nat

definition restored_default :: RestoredState where
  "restored_default = \<lparr>rs_requests = [], rs_outbox = [], rs_next_message_id = 0,
     rs_requests_dropped = 0, rs_expired = 0, rs_undeliverable = 0\<rparr>"

definition restore_request :: "RestoredState \<Rightarrow> StoredRequest \<Rightarrow> RestoredState" where
  "restore_request R s =
     (if list_ex (\<lambda>r. eq_ignore_ascii_case (pr_public_key r) (sr_public_key s)) (rs_requests R) then R
      else if PENDING_REQUESTS_CAPACITY \<le> length (rs_requests R) then
        R\<lparr>rs_requests_dropped := rs_requests_dropped R + 1\<rparr>
      else R\<lparr>rs_requests := rs_requests R @ [\<lparr>pr_public_key = sr_public_key s, pr_message = sr_message s\<rparr>]\<rparr>)"

text \<open>Friends by key in lower case; of two friends with one key the map keeps one.\<close>

definition friends_by_key :: "'x tox_env \<Rightarrow> friend_table \<Rightarrow> (rtext \<times> u32) list" where
  "friends_by_key E table =
     foldl (\<lambda>m (n, f). AList.update (te_lower E (fe_public_key f)) n m) [] table"

definition restore_message ::
    "'x tox_env \<Rightarrow> instant \<Rightarrow> (rtext \<times> u32) list \<Rightarrow> RestoredState \<Rightarrow> ToxStoredMessage \<Rightarrow> RestoredState" where
  "restore_message E now by_key R m =
     (case map_of by_key (te_lower E (tsm_public_key m)) of
        None \<Rightarrow> R\<lparr>rs_undeliverable := rs_undeliverable R + 1\<rparr>
      | Some n \<Rightarrow>
          (case hex_decode (te_hex E) (tsm_body m) of
             Inl e \<Rightarrow> R\<lparr>rs_undeliverable := rs_undeliverable R + 1\<rparr>
           | Inr body \<Rightarrow>
               (let queued_at = from_unix_ms (tsm_queued_at_unix_ms m) in
                if TOX_OUTBOX_TTL \<le> queued_age now queued_at then R\<lparr>rs_expired := rs_expired R + 1\<rparr>
                else let queue = tox_queue n (rs_outbox R) in
                  if TOX_OUTBOX_CAPACITY \<le> length queue then
                    R\<lparr>rs_outbox := AList.update n queue (rs_outbox R),
                      rs_undeliverable := rs_undeliverable R + 1\<rparr>
                  else R\<lparr>rs_outbox := AList.update n
                     (queue @ [\<lparr>qm_message_id = tsm_message_id m, qm_body = body,
                                qm_kind = tsm_kind m, qm_queued_at = queued_at\<rparr>]) (rs_outbox R)\<rparr>)))"

text \<open>\<^verbatim>\<open>saturating_add(1)\<close> on the highest identifier.\<close>

definition saturating_succ :: "u64 \<Rightarrow> u64" where
  "saturating_succ w = (if w = - 1 then w else w + 1)"

definition highest_id :: "ToxStoredMessage list \<Rightarrow> u64" where
  "highest_id ms = foldl max 0 (map tsm_message_id ms)"

definition restore_state :: "'x tox_env \<Rightarrow> instant \<Rightarrow> ToxState \<Rightarrow> friend_table \<Rightarrow> RestoredState" where
  "restore_state E now state friends =
     (let R1 = foldl restore_request restored_default (ts_requests state);
          R2 = foldl (restore_message E now (friends_by_key E friends)) R1 (ts_outbox state)
      in R2\<lparr>rs_next_message_id :=
              max (max (ts_next_message_id state) (saturating_succ (highest_id (ts_outbox state)))) 1\<rparr>)"

definition stored_queue :: "'x tox_env \<Rightarrow> FriendEntry \<Rightarrow> QueuedMessage list \<Rightarrow> ToxStoredMessage list" where
  "stored_queue E f es =
     map (\<lambda>e. \<lparr>tsm_public_key = fe_public_key f, tsm_message_id = qm_message_id e, tsm_kind = qm_kind e,
               tsm_body = hex_encode (te_hex E) (qm_body e),
               tsm_queued_at_unix_ms = unix_ms (qm_queued_at e)\<rparr>) es"

definition snapshot_state ::
    "'x tox_env \<Rightarrow> friend_table \<Rightarrow> PeerRequest list \<Rightarrow> tox_outbox \<Rightarrow> u64 \<Rightarrow> ToxState" where
  "snapshot_state E friends requests q next_id =
     \<lparr>ts_version = STORE_VERSION, ts_next_message_id = next_id,
      ts_requests = map (\<lambda>r. \<lparr>sr_public_key = pr_public_key r, sr_message = pr_message r\<rparr>) requests,
      ts_outbox = concat (map (\<lambda>n. case (map_of friends n, map_of q n) of
         (Some f, Some es) \<Rightarrow> stored_queue E f es | _ \<Rightarrow> []) (sort (map fst q)))\<rparr>"

subsection \<open>Talking to the worker\<close>

fun tox_error :: "ToxError \<Rightarrow> MetaTextError" where
  "tox_error TeUnavailable = MtConfiguration (tox_error_display TeUnavailable) None"
| "tox_error e = network_error (tox_error_display e) ''tox''"

definition call_result :: "'x tox_env \<Rightarrow> 'a tox_result \<Rightarrow> 'a mt_result" where
  "call_result E r =
     (case r of
        TOk v \<Rightarrow> Inr v
      | TErr e \<Rightarrow> Inl (tox_error e)
      | TPanic \<Rightarrow> Inl (network_error (lit ''the Tox command task failed: '' @ te_join_error E) ''tox''))"

definition store_friends :: "ToxFriend list \<Rightarrow> friend_table" where
  "store_friends fs =
     foldl (\<lambda>m f. AList.update (tf_number f)
              \<lparr>fe_public_key = tf_public_key f, fe_name = tf_name f,
               fe_connected = (tf_status f \<noteq> TcOffline)\<rparr> m) [] fs"

definition public_key_prefix :: "rtext \<Rightarrow> rtext" where
  "public_key_prefix identifier = take (PUBLIC_KEY_SIZE * 2) identifier"

definition remember_group :: "rtext \<Rightarrow> rtext \<Rightarrow> (rtext \<times> rtext) list \<Rightarrow> (rtext \<times> rtext) list" where
  "remember_group i title names = AList.update i title names"

definition forget_group :: "rtext \<Rightarrow> (rtext \<times> rtext) list \<Rightarrow> (rtext \<times> rtext) list" where
  "forget_group i names = filter (\<lambda>(k, t). \<not> eq_ignore_ascii_case k i) names"

text \<open>The list, whether the value was kept, and the counter of refused ones.\<close>

definition keep_pending :: "'a \<Rightarrow> nat \<Rightarrow> 'a list \<Rightarrow> u64 \<Rightarrow> bool \<times> 'a list \<times> u64" where
  "keep_pending v capacity l dropped =
     (if capacity \<le> length l then (False, l, dropped + 1) else (True, l @ [v], dropped))"

definition short_key :: "rtext \<Rightarrow> rtext" where
  "short_key public_key = abbreviate public_key"

definition reported_nickname :: "rtext option \<Rightarrow> bool \<Rightarrow> rtext \<Rightarrow> rtext option" where
  "reported_nickname previous connected name =
     (let learned = trim name in
      if \<not> connected \<or> learned = [] then None
      else case previous of
             Some old \<Rightarrow> if eq_ignore_ascii_case old learned then None else Some learned
           | None \<Rightarrow> Some learned)"

subsection \<open>The transport\<close>

record 'x ToxTransport =
  tx_worker :: "'x Worker"
  tx_identity :: ToxIdentity
  tx_nickname :: rtext
  tx_savedata :: rtext
  tx_store :: stored_file
  tx_writable :: bool
  tx_bootstrap :: "rtext list"
  tx_desired :: "rtext list"
  tx_friends :: friend_table
  tx_requests :: "PeerRequest list"
  tx_invites :: "PendingInvite list"
  tx_group_names :: "(rtext \<times> rtext) list"
  tx_outbox :: tox_outbox
  tx_next_message_id :: u64
  tx_expired :: u64
  tx_dropped_requests :: u64
  tx_dropped_invites :: u64
  tx_stop :: bool
  tx_bridge :: bool                \<comment> \<open>the bridge task has not been joined\<close>
  tx_bridge_running :: bool
  tx_port :: u16
  tx_max_connections :: nat
  tx_started :: bool
  tx_events :: "AppEvent list"     \<comment> \<open>what the bridge sent to the core\<close>
  tx_events_open :: bool

definition tox_seed_friends :: "'x tox_env \<Rightarrow> 'x Worker \<Rightarrow> friend_table \<Rightarrow> 'x Worker \<times> friend_table" where
  "tox_seed_friends E W friends =
     (case sender_snapshot (te_core E) W of
        (W1, TOk s) \<Rightarrow> (W1, store_friends (ts_friends s))
      | (W1, r) \<Rightarrow> (W1, friends))"

definition seed_friends :: "'x tox_env \<Rightarrow> 'x ToxTransport \<Rightarrow> 'x ToxTransport" where
  "seed_friends E X =
     (let r = tox_seed_friends E (tx_worker X) (tx_friends X) in X\<lparr>tx_worker := fst r, tx_friends := snd r\<rparr>)"

definition restore_queue ::
    "'x tox_env \<Rightarrow> instant \<Rightarrow> stored_file \<Rightarrow> 'x Worker \<Rightarrow> 'x Worker \<times> friend_table \<times> RestoredState" where
  "restore_queue E now f W =
     (let stored = tox_store_load (te_json E) f;
          seeded = (if tox_state_is_empty stored then (W, []) else tox_seed_friends E W [])
      in (fst seeded, snd seeded, restore_state E now stored (snd seeded)))"

text \<open>The configuration of the instance: the arguments over the settings, the node of the
  arguments before the built-in ones.\<close>

definition tox_settings :: "AppConfig \<Rightarrow> CliArgs \<Rightarrow> rtext \<Rightarrow> ToxConfig tox_result" where
  "tox_settings cfg a data_dir =
     (let base = (tox_config_new data_dir (unwrap_or (app_default_nickname (cfg_app cfg)) (cl_nickname a)))
            \<lparr>tc_status_message := app_default_status (cfg_app cfg),
             tc_bootstrap_nodes := default_bootstrap_nodes,
             tc_ipv6_enabled := net_enable_ipv6 (cfg_network cfg)\<rparr>;
          port = unwrap_or 0 (cl_port a)
      in tox_bind (case cl_bootstrap_node a of
             None \<Rightarrow> TOk base
           | Some entry \<Rightarrow> tox_bind (bootstrap_node_parse entry) (\<lambda>n.
               TOk (base\<lparr>tc_bootstrap_nodes := n # tc_bootstrap_nodes base\<rparr>)))
         (\<lambda>c. TOk (if port = 0 then c else c\<lparr>tc_start_port := port, tc_end_port := port\<rparr>)))"

text \<open>
  \<^verbatim>\<open>new\<close>: settings, worker, restored queue, bridge. A panic while parsing the node is the
  caller's; \<open>path\<close> and \<open>file\<close> are the savedata, \<open>stored\<close> the queue file.
\<close>

definition tox_transport_new ::
    "'x tox_env \<Rightarrow> instant \<Rightarrow> AppConfig \<Rightarrow> CliArgs \<Rightarrow> rtext \<Rightarrow> rtext \<Rightarrow> stored_file \<Rightarrow> stored_file \<Rightarrow> bool
      \<Rightarrow> (MetaTextError + 'x ToxTransport) option" where
  "tox_transport_new E now cfg a data_dir path file stored writable =
     (case tox_settings cfg a data_dir of
        TPanic \<Rightarrow> None
      | TErr e \<Rightarrow> Some (Inl (tox_error e))
      | TOk c \<Rightarrow>
          (case client_start (te_core E) c path file None of
             TPanic \<Rightarrow> None
           | TErr e \<Rightarrow> Some (Inl (tox_error e))
           | TOk (W, identity) \<Rightarrow>
               (case restore_queue E now stored W of
                  (W1, friends, R) \<Rightarrow>
                    Some (Inr (seed_friends E
                      \<lparr>tx_worker = W1, tx_identity = identity, tx_nickname = ti_nickname identity,
                       tx_savedata = path, tx_store = stored, tx_writable = writable,
                       tx_bootstrap = map (\<lambda>n. bn_host n @ [58] @ dec (unat (bn_port n))) (tc_bootstrap_nodes c),
                       tx_desired = [], tx_friends = friends, tx_requests = rs_requests R,
                       tx_invites = [], tx_group_names = [], tx_outbox = rs_outbox R,
                       tx_next_message_id = rs_next_message_id R,
                       tx_expired = word_of_nat (rs_expired R), tx_dropped_requests = 0,
                       tx_dropped_invites = 0, tx_stop = False, tx_bridge = True,
                       tx_bridge_running = True, tx_port = unwrap_or 0 (cl_port a),
                       tx_max_connections = net_max_connections (cfg_network cfg),
                       tx_started = True, tx_events = [], tx_events_open = True\<rparr>)))))"

text \<open>\<^verbatim>\<open>persist\<close>: the file of the whole queue, or the old one when it cannot be written.\<close>

definition tox_persist :: "'x tox_env \<Rightarrow> 'x ToxTransport \<Rightarrow> 'x ToxTransport" where
  "tox_persist E X =
     X\<lparr>tx_store := snd (tox_store_update (te_json E) (tx_writable X)
         (snapshot_state E (tx_friends X) (tx_requests X) (tx_outbox X) (tx_next_message_id X)) (tx_store X))\<rparr>"

definition call_tox ::
    "'x tox_env \<Rightarrow> ('x Worker \<Rightarrow> 'x Worker \<times> 'a tox_result) \<Rightarrow> 'x ToxTransport \<Rightarrow> 'x ToxTransport \<times> 'a mt_result" where
  "call_tox E command X =
     (let r = command (tx_worker X) in (X\<lparr>tx_worker := fst r\<rparr>, call_result E (snd r)))"

subsection \<open>Counters\<close>

definition tox_connected_peers :: "'x ToxTransport \<Rightarrow> nat" where
  "tox_connected_peers X = length (filter (\<lambda>(n, f). fe_connected f) (tx_friends X))"

definition tox_pending_peers :: "'x ToxTransport \<Rightarrow> nat" where
  "tox_pending_peers X = length (filter (\<lambda>(n, f). \<not> fe_connected f) (tx_friends X))"

definition tox_queued_messages :: "'x tox_env \<Rightarrow> instant \<Rightarrow> 'x ToxTransport \<Rightarrow> 'x ToxTransport \<times> nat" where
  "tox_queued_messages E now X =
     (case tox_prune_outbox now (tx_outbox X) of
        (q, expired) \<Rightarrow>
          (let X1 = X\<lparr>tx_outbox := q\<rparr>;
               X2 = (if 0 < expired
                     then tox_persist E (X1\<lparr>tx_expired := tx_expired X1 + word_of_nat expired\<rparr>) else X1)
           in (X2, tox_outbox_len (tx_outbox X2))))"

definition tox_peer_nicknames :: "'x ToxTransport \<Rightarrow> rtext list" where
  "tox_peer_nicknames X =
     map (\<lambda>(n, f). fe_name f) (filter (\<lambda>(n, f). fe_connected f \<and> fe_name f \<noteq> []) (tx_friends X))"

definition tox_dropped_payloads :: "'x ToxTransport \<Rightarrow> u64" where
  "tox_dropped_payloads X = wk_dropped (tx_worker X)"

definition tox_pending_group_invites :: "'x ToxTransport \<Rightarrow> GroupInvite list" where
  "tox_pending_group_invites X =
     map (\<lambda>i. \<lparr>gi_peer = (case map_of (tx_friends X) (pi_friend_number i) of None \<Rightarrow> [] | Some f \<Rightarrow> fe_name f),
               gi_peer_id = pi_peer_id i, gi_token = pi_token i\<rparr>) (tx_invites X)"

subsection \<open>Methods\<close>

definition tox_start :: "'x ToxTransport \<Rightarrow> 'x ToxTransport \<times> unit mt_result" where
  "tox_start X = (X\<lparr>tx_started := True\<rparr>, Inr ())"

text \<open>\<^verbatim>\<open>shutdown\<close>: the flag, then the bridge is joined, whose last act stops the worker.\<close>

definition tox_shutdown :: "'x tox_env \<Rightarrow> 'x ToxTransport \<Rightarrow> 'x ToxTransport \<times> unit mt_result" where
  "tox_shutdown E X =
     (let X1 = X\<lparr>tx_stop := True\<rparr> in
      if \<not> tx_bridge X1 then (X1, Inr ())
      else let W = (if tx_bridge_running X1 then fst (client_shutdown (te_core E) (tx_worker X1)) else tx_worker X1)
           in (X1\<lparr>tx_bridge := False, tx_started := False, tx_bridge_running := False,
                  tx_worker := W\<lparr>wk_receiving := False\<rparr>\<rparr>, Inr ()))"

definition tox_set_nickname :: "'x tox_env \<Rightarrow> rtext \<Rightarrow> 'x ToxTransport \<Rightarrow> 'x ToxTransport" where
  "tox_set_nickname E nick X =
     (case call_tox E (sender_set_nickname (te_core E) nick) X of
        (X1, Inr u) \<Rightarrow> X1\<lparr>tx_nickname := nick\<rparr>
      | (X1, Inl e) \<Rightarrow> X1)"

definition tox_set_status :: "'x tox_env \<Rightarrow> rtext \<Rightarrow> 'x ToxTransport \<Rightarrow> 'x ToxTransport" where
  "tox_set_status E m X = fst (call_tox E (sender_set_status_message (te_core E) m) X)"

definition remember_desired :: "rtext \<Rightarrow> 'x ToxTransport \<Rightarrow> 'x ToxTransport" where
  "remember_desired i X = (if i \<in> set (tx_desired X) then X else X\<lparr>tx_desired := tx_desired X @ [i]\<rparr>)"

definition tox_request_peer :: "'x tox_env \<Rightarrow> rtext \<Rightarrow> 'x ToxTransport \<Rightarrow> 'x ToxTransport \<times> rtext mt_result" where
  "tox_request_peer E identifier X =
     (let trimmed = te_upper E (trim identifier);
          public_key = public_key_prefix trimmed;
          m = (if trim (tx_nickname X) = [] then lit ''metaText friend request''
               else tx_nickname X @ lit '' via metaText'')
      in case call_tox E (sender_add_friend (te_core E) trimmed m) X of
           (X1, Inl e) \<Rightarrow> (X1, Inl e)
         | (X1, Inr n) \<Rightarrow> (seed_friends E (remember_desired trimmed X1), Inr public_key))"

definition resolve_friend :: "'x tox_env \<Rightarrow> rtext \<Rightarrow> 'x ToxTransport \<Rightarrow> u32 option" where
  "resolve_friend E peer X =
     (let trimmed = trim peer; wanted = public_key_prefix (te_upper E trimmed) in
      map_option fst (find (\<lambda>(n, f). eq_ignore_ascii_case (fe_public_key f) wanted \<or>
         eq_ignore_ascii_case (fe_name f) trimmed) (tx_friends X)))"

text \<open>A queued message takes an identifier even when the queue of its friend is full.\<close>

definition tox_enqueue ::
    "'x tox_env \<Rightarrow> instant \<Rightarrow> u32 \<Rightarrow> bytes \<Rightarrow> MessageKind \<Rightarrow> 'x ToxTransport \<Rightarrow> 'x ToxTransport \<times> SendOutcome" where
  "tox_enqueue E now n payload kind X =
     (case tox_prune_outbox now (tx_outbox X) of
        (q, expired) \<Rightarrow>
          (let message_id = tx_next_message_id X;
               X1 = X\<lparr>tx_outbox := q, tx_expired := tx_expired X + word_of_nat expired,
                      tx_next_message_id := message_id + 1\<rparr>;
               queue = tox_queue n q
           in if TOX_OUTBOX_CAPACITY \<le> length queue then
                (X1\<lparr>tx_outbox := AList.update n queue q\<rparr>, SoDropped)
              else let queue' = queue @ [\<lparr>qm_message_id = message_id, qm_body = payload, qm_kind = kind, qm_queued_at = now\<rparr>]
                   in (tox_persist E (X1\<lparr>tx_outbox := AList.update n queue' q\<rparr>),
                       SoQueued message_id (length queue'))))"

definition unknown_friend :: "rtext \<Rightarrow> MetaTextError" where
  "unknown_friend peer = tox_error (TeUnknownFriend peer)"

definition tox_send_payload ::
    "'x tox_env \<Rightarrow> instant \<Rightarrow> rtext \<Rightarrow> bytes \<Rightarrow> MessageKind \<Rightarrow> 'x ToxTransport \<Rightarrow> 'x ToxTransport \<times> SendOutcome mt_result" where
  "tox_send_payload E now peer payload kind X =
     (case resolve_friend E peer X of
        None \<Rightarrow> (X, Inl (unknown_friend peer))
      | Some n \<Rightarrow>
          (case sender_send_message_typed (te_core E) n payload (tox_message_kind kind) (tx_worker X) of
             (W, r) \<Rightarrow>
               (let X1 = X\<lparr>tx_worker := W\<rparr> in
                case r of
                  TOk i \<Rightarrow> (X1, Inr (SoSent \<lparr>dr_message_id = word_of_nat (unat i), dr_peers = 1\<rparr>))
                | TErr (TeSendMessage code name) \<Rightarrow>
                    if code = 3 then (case tox_enqueue E now n payload kind X1 of (X2, o') \<Rightarrow> (X2, Inr o'))
                    else (X1, Inl (tox_error (TeSendMessage code name)))
                | TErr e \<Rightarrow> (X1, Inl (tox_error e))
                | TPanic \<Rightarrow> (X1, Inl (network_error (lit ''the Tox send task failed: '' @ te_join_error E) ''send_message'')))))"

definition no_such_request :: "rtext \<Rightarrow> string \<Rightarrow> MetaTextError" where
  "no_such_request public_key operation =
     network_error (lit ''no pending friend request matches '' @ single_quoted public_key) operation"

definition tox_reject_request :: "'x tox_env \<Rightarrow> rtext \<Rightarrow> 'x ToxTransport \<Rightarrow> 'x ToxTransport \<times> rtext mt_result" where
  "tox_reject_request E public_key X =
     (let wanted = te_upper E (trim public_key) in
      case position (\<lambda>r. eq_ignore_ascii_case (pr_public_key r) wanted) (tx_requests X) of
        None \<Rightarrow> (X, Inl (no_such_request public_key ''reject_request''))
      | Some i \<Rightarrow>
          (tox_persist E (X\<lparr>tx_requests := remove_at i (tx_requests X)\<rparr>),
           Inr (pr_public_key (tx_requests X ! i))))"

definition tox_accept_request :: "'x tox_env \<Rightarrow> rtext \<Rightarrow> 'x ToxTransport \<Rightarrow> 'x ToxTransport \<times> rtext mt_result" where
  "tox_accept_request E public_key X =
     (let wanted = te_upper E (trim public_key) in
      case find (\<lambda>r. eq_ignore_ascii_case (pr_public_key r) wanted) (tx_requests X) of
        None \<Rightarrow> (X, Inl (no_such_request public_key ''accept_request''))
      | Some r \<Rightarrow>
          (let key = pr_public_key r in
           case call_tox E (sender_accept_friend (te_core E) key) X of
             (X1, Inl e) \<Rightarrow> (X1, Inl e)
           | (X1, Inr n) \<Rightarrow>
               (seed_friends E (remember_desired key (tox_persist E
                  (X1\<lparr>tx_requests := filter (\<lambda>r. \<not> eq_ignore_ascii_case (pr_public_key r) key) (tx_requests X1)\<rparr>))),
                Inr key)))"

subsection \<open>Groups\<close>

definition tox_groups :: "'x tox_env \<Rightarrow> 'x ToxTransport \<Rightarrow> 'x ToxTransport \<times> Group list mt_result" where
  "tox_groups E X =
     (case call_tox E (sender_snapshot (te_core E)) X of
        (X1, Inl e) \<Rightarrow> (X1, Inl e)
      | (X1, Inr s) \<Rightarrow>
          (let groups = map group_from_tox (ts_conferences s) in
           (X1\<lparr>tx_group_names := foldl (\<lambda>m g. remember_group (g_id g) (g_name g) m) (tx_group_names X1) groups\<rparr>,
            Inr groups)))"

definition remembered :: "ToxConference \<Rightarrow> 'x ToxTransport \<Rightarrow> 'x ToxTransport \<times> Group mt_result" where
  "remembered c X =
     (let g = group_from_tox c in
      (X\<lparr>tx_group_names := remember_group (g_id g) (g_name g) (tx_group_names X)\<rparr>, Inr g))"

definition tox_create_group :: "'x tox_env \<Rightarrow> rtext \<Rightarrow> 'x ToxTransport \<Rightarrow> 'x ToxTransport \<times> Group mt_result" where
  "tox_create_group E title X =
     (case call_tox E (sender_conference_new (te_core E) title) X of
        (X1, Inl e) \<Rightarrow> (X1, Inl e)
      | (X1, Inr c) \<Rightarrow> remembered c X1)"

definition no_such_invite :: "rtext \<Rightarrow> string \<Rightarrow> MetaTextError" where
  "no_such_invite token operation =
     network_error (lit ''no pending group invitation matches '' @ single_quoted token) operation"

definition drop_invite :: "rtext \<Rightarrow> 'x ToxTransport \<Rightarrow> 'x ToxTransport" where
  "drop_invite token X = X\<lparr>tx_invites := filter (\<lambda>i. pi_token i \<noteq> token) (tx_invites X)\<rparr>"

definition tox_join_group :: "'x tox_env \<Rightarrow> rtext \<Rightarrow> 'x ToxTransport \<Rightarrow> 'x ToxTransport \<times> Group mt_result" where
  "tox_join_group E token X =
     (let wanted = te_lower E (trim token) in
      case find (\<lambda>i. pi_token i = wanted) (tx_invites X) of
        None \<Rightarrow> (X, Inl (no_such_invite token ''join_group''))
      | Some i \<Rightarrow>
          if pi_conference_type i \<noteq> CfText then
            (drop_invite wanted X,
             Inl (network_error (lit ''the invitation is for an audio/video conference, which this client cannot join'') ''join_group''))
          else case hex_decode (te_hex E) wanted of
                 Inl e \<Rightarrow> (X, Inl (network_error (lit ''the invitation token is not valid hexadecimal'') ''join_group''))
               | Inr cookie \<Rightarrow>
                   (case call_tox E (sender_conference_join (te_core E) (pi_friend_number i) cookie) X of
                      (X1, Inl e) \<Rightarrow> (X1, Inl e)
                    | (X1, Inr c) \<Rightarrow> remembered c (drop_invite wanted X1)))"

definition tox_decline_group_invite :: "'x tox_env \<Rightarrow> rtext \<Rightarrow> 'x ToxTransport \<Rightarrow> 'x ToxTransport \<times> rtext mt_result" where
  "tox_decline_group_invite E token X =
     (let wanted = te_lower E (trim token) in
      if wanted = [] then
        (X, Inl (network_error (lit ''a group invitation token is required'') ''decline_group_invite''))
      else case position (\<lambda>i. pi_token i = wanted) (tx_invites X) of
             None \<Rightarrow> (X, Inl (no_such_invite token ''decline_group_invite''))
           | Some p \<Rightarrow> (X\<lparr>tx_invites := remove_at p (tx_invites X)\<rparr>, Inr (pi_token (tx_invites X ! p))))"

definition tox_invite_to_group :: "'x tox_env \<Rightarrow> rtext \<Rightarrow> rtext \<Rightarrow> 'x ToxTransport \<Rightarrow> 'x ToxTransport \<times> unit mt_result" where
  "tox_invite_to_group E group_id peer X =
     (case resolve_friend E peer X of
        None \<Rightarrow> (X, Inl (unknown_friend peer))
      | Some n \<Rightarrow> call_tox E (sender_conference_invite (te_core E) group_id n) X)"

definition tox_send_group_payload ::
    "'x tox_env \<Rightarrow> rtext \<Rightarrow> bytes \<Rightarrow> MessageKind \<Rightarrow> 'x ToxTransport \<Rightarrow> 'x ToxTransport \<times> unit mt_result" where
  "tox_send_group_payload E group_id payload kind =
     call_tox E (sender_conference_send (te_core E) group_id payload (tox_message_kind kind))"

definition tox_rename_group :: "'x tox_env \<Rightarrow> rtext \<Rightarrow> rtext \<Rightarrow> 'x ToxTransport \<Rightarrow> 'x ToxTransport \<times> unit mt_result" where
  "tox_rename_group E group_id title X =
     (case call_tox E (sender_conference_set_title (te_core E) group_id title) X of
        (X1, Inl e) \<Rightarrow> (X1, Inl e)
      | (X1, Inr u) \<Rightarrow> (X1\<lparr>tx_group_names := remember_group group_id title (tx_group_names X1)\<rparr>, Inr ()))"

definition tox_leave_group :: "'x tox_env \<Rightarrow> rtext \<Rightarrow> 'x ToxTransport \<Rightarrow> 'x ToxTransport \<times> unit mt_result" where
  "tox_leave_group E group_id X =
     (case call_tox E (sender_conference_leave (te_core E) group_id) X of
        (X1, Inl e) \<Rightarrow> (X1, Inl e)
      | (X1, Inr u) \<Rightarrow> (X1\<lparr>tx_group_names := forget_group group_id (tx_group_names X1)\<rparr>, Inr ()))"

subsection \<open>The bridge\<close>

text \<open>An event handed to the core; nothing once its receiver is gone.\<close>

definition emit :: "AppEvent \<Rightarrow> 'x ToxTransport \<Rightarrow> 'x ToxTransport \<times> bool" where
  "emit e X = (if tx_events_open X then (X\<lparr>tx_events := tx_events X @ [e]\<rparr>, True) else (X, False))"

definition forward_friend_request :: "'x tox_env \<Rightarrow> rtext \<Rightarrow> rtext \<Rightarrow> 'x ToxTransport \<Rightarrow> 'x ToxTransport \<times> AppEvent" where
  "forward_friend_request E public_key m X =
     (let already = list_ex (\<lambda>r. eq_ignore_ascii_case (pr_public_key r) public_key) (tx_requests X);
          kept = keep_pending \<lparr>pr_public_key = public_key, pr_message = m\<rparr> PENDING_REQUESTS_CAPACITY
                   (tx_requests X) (tx_dropped_requests X);
          X1 = (if already then X
                else X\<lparr>tx_requests := fst (snd kept), tx_dropped_requests := snd (snd kept)\<rparr>);
          X2 = (if \<not> already \<and> fst kept then tox_persist E X1 else X1)
      in (X2, AePeerRequestReceived public_key m))"

definition forward_friend_connection ::
    "'x tox_env \<Rightarrow> instant \<Rightarrow> u32 \<Rightarrow> ToxConnection \<Rightarrow> rtext \<Rightarrow> 'x ToxTransport \<Rightarrow> 'x ToxTransport \<times> AppEvent" where
  "forward_friend_connection E now n status name X =
     (let X1 = seed_friends E X;
          entry = map_of (tx_friends X1) n;
          peer_id = (case entry of None \<Rightarrow> dec (unat n) | Some f \<Rightarrow> fe_public_key f)
      in if status = TcOffline then
           (X1, AeNetworkEvent (NePeerDisconnected peer_id (lit ''friend is offline'')))
         else (case tox_prune_outbox now (tx_outbox X1) of
           (q, expired) \<Rightarrow>
             (case tox_flush_outbox (te_core E) n q (tx_worker X1) of
                (sent, q', W') \<Rightarrow>
                  (let X2 = X1\<lparr>tx_outbox := q', tx_worker := W',
                              tx_expired := tx_expired X1 + word_of_nat expired\<rparr>;
                       X3 = (if 0 < expired \<or> 0 < sent then tox_persist E X2 else X2);
                       nick = (if name = [] then (case entry of None \<Rightarrow> [] | Some f \<Rightarrow> fe_name f) else name)
                   in (X3, AeNetworkEvent (NePeerConnected peer_id [(lit ''nickname'', nick)]))))))"

definition nickname_event :: "'x tox_env \<Rightarrow> u32 \<Rightarrow> rtext \<Rightarrow> 'x ToxTransport \<Rightarrow> 'x ToxTransport \<times> AppEvent option" where
  "nickname_event E n name X =
     (let previous = map_option fe_name (map_of (tx_friends X) n);
          X1 = seed_friends E X
      in (X1, case map_of (tx_friends X1) n of
            None \<Rightarrow> None
          | Some f \<Rightarrow>
              map_option (\<lambda>nick. AeNetworkEvent (NePeerConnected (fe_public_key f) [(lit ''nickname'', nick)]))
                (reported_nickname previous (fe_connected f) name)))"

definition friend_entry :: "'x tox_env \<Rightarrow> u32 \<Rightarrow> 'x ToxTransport \<Rightarrow> 'x ToxTransport \<times> FriendEntry option" where
  "friend_entry E n X =
     (let nameless = (case map_of (tx_friends X) n of None \<Rightarrow> True | Some f \<Rightarrow> fe_name f = []);
          X1 = (if nameless then seed_friends E X else X)
      in (X1, map_of (tx_friends X1) n))"

definition payload_content :: "bytes \<Rightarrow> ContentType" where
  "payload_content body = (if from_utf8 body \<noteq> None then CText else CBinary)"

definition forward_message ::
    "'x tox_env \<Rightarrow> u32 \<Rightarrow> ToxMessageKind \<Rightarrow> bytes \<Rightarrow> 'x ToxTransport \<Rightarrow> 'x ToxTransport \<times> AppEvent" where
  "forward_message E n kind body X =
     (case friend_entry E n X of
        (X1, entry) \<Rightarrow>
          (let who = (case entry of
                 None \<Rightarrow> (lit ''friend #'' @ dec (unat n), dec (unat n))
               | Some f \<Rightarrow> (if fe_name f = [] then short_key (fe_public_key f) else fe_name f, fe_public_key f))
           in (X1, AeMessageReceived (fst who) (snd who) body (domain_message_kind kind) (payload_content body))))"

definition resolve_group_name :: "'x tox_env \<Rightarrow> rtext \<Rightarrow> 'x ToxTransport \<Rightarrow> 'x ToxTransport \<times> rtext" where
  "resolve_group_name E i X =
     (case map_of (tx_group_names X) i of
        Some name \<Rightarrow> (X, name)
      | None \<Rightarrow>
          (case sender_snapshot (te_core E) (tx_worker X) of
             (W, TOk s) \<Rightarrow>
               (let names = foldl (\<lambda>m c. AList.update (cf_id c) (cf_title c) m) (tx_group_names X) (ts_conferences s)
                in (X\<lparr>tx_worker := W, tx_group_names := names\<rparr>, unwrap_or [] (map_of names i)))
           | (W, r) \<Rightarrow> (X\<lparr>tx_worker := W\<rparr>, [])))"

definition forward_conference_message ::
    "'x tox_env \<Rightarrow> rtext \<Rightarrow> u32 \<Rightarrow> rtext \<Rightarrow> ToxMessageKind \<Rightarrow> bytes \<Rightarrow> 'x ToxTransport \<Rightarrow> 'x ToxTransport \<times> AppEvent" where
  "forward_conference_message E i p peer_name kind body X =
     (case resolve_group_name E i X of
        (X1, name) \<Rightarrow>
          (let peer = (if peer_name = [] then lit ''peer '' @ dec (unat p) else peer_name) in
           (X1, AeGroupMessageReceived i name peer (i @ [35] @ dec (unat p)) body
                  (domain_message_kind kind) (payload_content body))))"

definition forward_conference_change :: "rtext \<Rightarrow> rtext \<Rightarrow> nat \<Rightarrow> 'x ToxTransport \<Rightarrow> 'x ToxTransport \<times> AppEvent" where
  "forward_conference_change i title peers X =
     (X\<lparr>tx_group_names := remember_group i title (tx_group_names X)\<rparr>, AeGroupChanged i title peers True)"

definition forward_conference_invite ::
    "'x tox_env \<Rightarrow> u32 \<Rightarrow> ToxConferenceType \<Rightarrow> bytes \<Rightarrow> 'x ToxTransport \<Rightarrow> 'x ToxTransport \<times> AppEvent" where
  "forward_conference_invite E n kind cookie X =
     (let token = hex_encode (te_hex E) cookie;
          peer_id = (case map_of (tx_friends X) n of
             None \<Rightarrow> public_key_prefix (dec (unat n)) | Some f \<Rightarrow> fe_public_key f);
          kept = keep_pending \<lparr>pi_friend_number = n, pi_peer_id = peer_id, pi_token = token, pi_conference_type = kind\<rparr>
                   PENDING_INVITES_CAPACITY (tx_invites X) (tx_dropped_invites X);
          X1 = (if list_ex (\<lambda>i. pi_token i = token) (tx_invites X) then X
                else X\<lparr>tx_invites := fst (snd kept), tx_dropped_invites := snd (snd kept)\<rparr>);
          peer = (case map_of (tx_friends X) n of None \<Rightarrow> [] | Some f \<Rightarrow> fe_name f)
      in (X1, AeGroupInviteReceived peer peer_id token))"

text \<open>\<^verbatim>\<open>forward_event\<close>: false ends the bridge.\<close>

definition emit_of :: "'x ToxTransport \<times> AppEvent \<Rightarrow> 'x ToxTransport \<times> bool" where
  "emit_of r = emit (snd r) (fst r)"

fun forward_event :: "'x tox_env \<Rightarrow> instant \<Rightarrow> ToxEvent \<Rightarrow> 'x ToxTransport \<Rightarrow> 'x ToxTransport \<times> bool" where
  "forward_event E now (EvSelfConnection status) X =
     emit (AeNetworkEvent (NeBootstrapStatus (lit ''tox-dht'') (status \<noteq> TcOffline))) X"
| "forward_event E now (EvFriendRequest k m) X = emit_of (forward_friend_request E k m X)"
| "forward_event E now (EvFriendConnection n status name) X =
     emit_of (forward_friend_connection E now n status name X)"
| "forward_event E now (EvFriendName n name) X =
     (case nickname_event E n name X of (X1, None) \<Rightarrow> (X1, True) | (X1, Some e) \<Rightarrow> emit e X1)"
| "forward_event E now (EvMessage n kind body) X = emit_of (forward_message E n kind body X)"
| "forward_event E now (EvConferenceMessage i p name kind body) X =
     emit_of (forward_conference_message E i p name kind body X)"
| "forward_event E now (EvConferenceConnected i title peers) X = emit_of (forward_conference_change i title peers X)"
| "forward_event E now (EvConferencePeersChanged i title peers) X = emit_of (forward_conference_change i title peers X)"
| "forward_event E now (EvConferenceTitleChanged i title peers) X = emit_of (forward_conference_change i title peers X)"
| "forward_event E now (EvConferenceInvite n kind cookie) X = emit_of (forward_conference_invite E n kind cookie X)"

text \<open>The end of the bridge: its client is shut down and the events' receiver dropped.\<close>

definition bridge_end :: "'x tox_env \<Rightarrow> 'x ToxTransport \<Rightarrow> 'x ToxTransport" where
  "bridge_end E X = X\<lparr>tx_bridge_running := False,
     tx_worker := fst (client_shutdown (te_core E) (tx_worker X))\<lparr>wk_receiving := False\<rparr>\<rparr>"

definition bridge_step :: "'x tox_env \<Rightarrow> instant \<Rightarrow> 'x ToxTransport \<Rightarrow> 'x ToxTransport" where
  "bridge_step E now X =
     (if \<not> tx_bridge_running X then X
      else if tx_stop X then bridge_end E X
      else case next_event (tx_worker X) of
             (W, None) \<Rightarrow> X
           | (W, Some e) \<Rightarrow>
               (case forward_event E now e (X\<lparr>tx_worker := W\<rparr>) of
                  (X1, True) \<Rightarrow> X1
                | (X1, False) \<Rightarrow> bridge_end E X1))"

end
