(* ===== verification/ToxFacts.thy ===== *)
theory ToxFacts
  imports ToxTransport
begin

section \<open>The Tox transport: what its steps keep\<close>

text \<open>
  The outbox as bounded queues, one per friend; flushing in order; the bounds on everything a
  peer can make this node keep; and the stored queue, which restores what it was taken from.
\<close>

definition tox_outbox_wf :: "tox_outbox \<Rightarrow> bool" where
  "tox_outbox_wf q \<longleftrightarrow> distinct (map fst q) \<and> (\<forall>(n, es) \<in> set q. length es \<le> TOX_OUTBOX_CAPACITY)"

lemma tox_queue_update: "tox_queue n (AList.update m es q) = (if n = m then es else tox_queue n q)"
  by (simp add: tox_queue_def update_conv' unwrap_or_def)

lemma tox_queue_delete: "tox_queue n (AList.delete m q) = (if n = m then [] else tox_queue n q)"
  by (simp add: tox_queue_def delete_conv' unwrap_or_def)

lemma tox_queue_bound: "tox_outbox_wf q \<Longrightarrow> length (tox_queue n q) \<le> TOX_OUTBOX_CAPACITY"
  by (auto simp: tox_outbox_wf_def tox_queue_def unwrap_or_def split: option.splits dest: map_of_SomeD)

lemma tox_outbox_wf_update:
  assumes "tox_outbox_wf q" "length es \<le> TOX_OUTBOX_CAPACITY"
  shows "tox_outbox_wf (AList.update n es q)"
proof -
  have "distinct (map fst (AList.update n es q))"
    using assms(1) by (simp add: tox_outbox_wf_def distinct_update)
  moreover have "set (AList.update n es q) \<subseteq> insert (n, es) (set q)"
    by (induction q) auto
  ultimately show ?thesis using assms by (fastforce simp: tox_outbox_wf_def)
qed

lemma tox_outbox_wf_delete: "tox_outbox_wf q \<Longrightarrow> tox_outbox_wf (AList.delete n q)"
  unfolding tox_outbox_wf_def by (intro conjI distinct_delete) (auto simp: AList.delete_eq)

lemma prune_keys: "map fst (map (\<lambda>(n, es). (n, filter p es)) q) = map fst q"
  by (simp add: case_prod_beta' comp_def)

lemma tox_prune_wf: "tox_outbox_wf q \<Longrightarrow> tox_outbox_wf (fst (tox_prune_outbox now q))"
proof -
  assume wf: "tox_outbox_wf q"
  then have "distinct (map fst (filter (\<lambda>(n, es). es \<noteq> []) (map (\<lambda>(n, es). (n, filter (queued_fresh now) es)) q)))"
    by (intro distinct_filter_keys) (simp only: prune_keys tox_outbox_wf_def)
  then show ?thesis
    using wf by (auto simp: tox_outbox_wf_def tox_prune_outbox_def intro: order_trans [OF length_filter_le])
qed

lemma prune_queue:
  "distinct (map fst q) \<Longrightarrow>
   tox_queue n (filter (\<lambda>(n, es). es \<noteq> []) (map (\<lambda>(n, es). (n, filter p es)) q)) = filter p (tox_queue n q)"
proof (induction q)
  case Nil
  then show ?case by (simp add: tox_queue_def unwrap_or_def)
next
  case (Cons a q)
  obtain m es where a: "a = (m, es)" by (cases a)
  show ?case
  proof (cases "n = m")
    case True
    then have "map_of q n = None" using Cons.prems a by (simp add: map_of_eq_None_iff)
    then show ?thesis using Cons a True by (simp add: tox_queue_def unwrap_or_def split: option.splits)
  next
    case False
    then show ?thesis using Cons a by (simp add: tox_queue_def)
  qed
qed

lemma tox_prune_queue:
  "tox_outbox_wf q \<Longrightarrow> tox_queue n (fst (tox_prune_outbox now q)) = filter (queued_fresh now) (tox_queue n q)"
  by (simp add: tox_prune_outbox_def tox_outbox_wf_def prune_queue)

subsection \<open>One queue as a bounded queue\<close>

text \<open>Adding to the queue of one friend, as \<open>tox_enqueue\<close> does after pruning.\<close>

definition queue_push :: "u32 \<Rightarrow> QueuedMessage \<Rightarrow> tox_outbox \<Rightarrow> bool \<times> tox_outbox" where
  "queue_push n e q =
     (let queue = tox_queue n q in
      if TOX_OUTBOX_CAPACITY \<le> length queue then (False, AList.update n queue q)
      else (True, AList.update n (queue @ [e]) q))"

interpretation tox_fifo: bounded_queue "queue_push n" "tox_queue n" TOX_OUTBOX_CAPACITY for n
  by unfold_locales (auto simp: queue_push_def Let_def tox_queue_update split: if_splits)

lemma tox_persist_simps [simp]:
  "tx_worker (tox_persist E X) = tx_worker X" "tx_identity (tox_persist E X) = tx_identity X"
  "tx_nickname (tox_persist E X) = tx_nickname X" "tx_desired (tox_persist E X) = tx_desired X"
  "tx_friends (tox_persist E X) = tx_friends X" "tx_requests (tox_persist E X) = tx_requests X"
  "tx_invites (tox_persist E X) = tx_invites X" "tx_group_names (tox_persist E X) = tx_group_names X"
  "tx_outbox (tox_persist E X) = tx_outbox X" "tx_next_message_id (tox_persist E X) = tx_next_message_id X"
  "tx_expired (tox_persist E X) = tx_expired X" "tx_dropped_requests (tox_persist E X) = tx_dropped_requests X"
  "tx_dropped_invites (tox_persist E X) = tx_dropped_invites X" "tx_events (tox_persist E X) = tx_events X"
  "tx_events_open (tox_persist E X) = tx_events_open X" "tx_bridge_running (tox_persist E X) = tx_bridge_running X"
  "tx_stop (tox_persist E X) = tx_stop X" "tx_writable (tox_persist E X) = tx_writable X"
  by (simp_all add: tox_persist_def)

lemma tox_enqueue_queue:
  assumes "tox_outbox_wf (tx_outbox X)"
    and "tox_enqueue E now n payload kind X = (X', r)"
  shows "let fresh = filter (queued_fresh now) (tox_queue n (tx_outbox X)) in
    (if TOX_OUTBOX_CAPACITY \<le> length fresh
     then r = SoDropped \<and> tox_queue n (tx_outbox X') = fresh
     else r = SoQueued (tx_next_message_id X) (Suc (length fresh)) \<and>
          tox_queue n (tx_outbox X') = fresh @ [\<lparr>qm_message_id = tx_next_message_id X, qm_body = payload,
            qm_kind = kind, qm_queued_at = now\<rparr>]) \<and>
    (\<forall>m. m \<noteq> n \<longrightarrow> tox_queue m (tx_outbox X') = filter (queued_fresh now) (tox_queue m (tx_outbox X))) \<and>
    tox_outbox_wf (tx_outbox X')"
proof -
  obtain q expired where p: "tox_prune_outbox now (tx_outbox X) = (q, expired)" by fastforce
  have q: "tox_queue m q = filter (queued_fresh now) (tox_queue m (tx_outbox X))" for m
    using tox_prune_queue [OF assms(1), of m now] by (simp add: p)
  have wf: "tox_outbox_wf q" using tox_prune_wf [OF assms(1), of now] by (simp add: p)
  have bound: "length (filter (queued_fresh now) (tox_queue n (tx_outbox X))) \<le> TOX_OUTBOX_CAPACITY"
    using tox_queue_bound [OF wf, of n] by (simp only: q)
  show ?thesis
    using assms(2) bound wf
    by (auto simp: tox_enqueue_def p q Let_def tox_queue_update intro!: tox_outbox_wf_update split: if_splits)
qed

subsection \<open>Flushing\<close>

text \<open>The sends of a flush that the library took, in order: the worker after them.\<close>

fun sends_accepted :: "'x toxcore \<Rightarrow> u32 \<Rightarrow> QueuedMessage list \<Rightarrow> 'x Worker \<Rightarrow> 'x Worker \<Rightarrow> bool" where
  "sends_accepted T n [] W W' \<longleftrightarrow> W' = W"
| "sends_accepted T n (e # es) W W' \<longleftrightarrow>
     (\<exists>W1 i. sender_send_message_typed T n (qm_body e) (tox_message_kind (qm_kind e)) W = (W1, TOk i) \<and>
        sends_accepted T n es W1 W')"

definition flush_result ::
    "'x toxcore \<Rightarrow> u32 \<Rightarrow> tox_outbox \<Rightarrow> 'x Worker \<Rightarrow> nat \<Rightarrow> tox_outbox \<Rightarrow> 'x Worker \<Rightarrow> bool" where
  "flush_result T n q W sent q' W' \<longleftrightarrow>
     sent \<le> length (tox_queue n q) \<and> tox_queue n q' = drop sent (tox_queue n q) \<and>
     (\<forall>m. m \<noteq> n \<longrightarrow> tox_queue m q' = tox_queue m q) \<and>
     (\<exists>W1. sends_accepted T n (take sent (tox_queue n q)) W W1 \<and>
        (if sent = length (tox_queue n q) then W' = W1
         else \<exists>r. sender_send_message_typed T n (qm_body (tox_queue n q ! sent))
                    (tox_message_kind (qm_kind (tox_queue n q ! sent))) W1 = (W', r) \<and> (\<forall>i. r \<noteq> TOk i)))"

lemma tox_pop_outbox_cases:
  assumes "tox_pop_outbox n q = (r, q1)"
  shows "(r = None \<and> tox_queue n q = [] \<and> (\<forall>m. tox_queue m q1 = tox_queue m q)) \<or>
    (\<exists>e. r = Some e \<and> tox_queue n q = e # tox_queue n q1 \<and> (\<forall>m. m \<noteq> n \<longrightarrow> tox_queue m q1 = tox_queue m q))"
  using assms
  by (auto simp: tox_pop_outbox_def tox_queue_update tox_queue_delete split: option.splits list.splits)
     (auto simp: tox_queue_def unwrap_or_def)

lemma tox_flush_loop_result:
  "length (tox_queue n q) < k \<Longrightarrow> tox_flush_loop T n k q W = (sent, q', W') \<Longrightarrow> flush_result T n q W sent q' W'"
proof (induction k arbitrary: q W sent q' W')
  case 0
  then show ?case by simp
next
  case (Suc k)
  obtain r q1 where pop: "tox_pop_outbox n q = (r, q1)" by fastforce
  from tox_pop_outbox_cases [OF pop] show ?case
  proof (elim disjE exE conjE)
    assume "r = None" "tox_queue n q = []" "\<forall>m. tox_queue m q1 = tox_queue m q"
    then show ?thesis using Suc.prems(2) by (simp add: pop flush_result_def)
  next
    fix e assume e: "r = Some e" "tox_queue n q = e # tox_queue n q1" "\<forall>m. m \<noteq> n \<longrightarrow> tox_queue m q1 = tox_queue m q"
    obtain W1 res where send: "sender_send_message_typed T n (qm_body e) (tox_message_kind (qm_kind e)) W = (W1, res)"
      by fastforce
    show ?thesis
    proof (cases res)
      case (TOk i)
      obtain s2 q2 W2 where loop: "tox_flush_loop T n k q1 W1 = (s2, q2, W2)" by (metis prod_cases3)
      have rest: "flush_result T n q1 W1 s2 q2 W2"
        using Suc.prems(1) e(2) loop by (intro Suc.IH) auto
      have out: "sent = Suc s2" "q' = q2" "W' = W2"
        using Suc.prems(2) by (simp_all add: pop e(1) send TOk loop)
      show ?thesis
        using rest e(2,3) send TOk unfolding flush_result_def out by (auto split: if_splits)
    next
      case (TErr x)
      then have "sent = 0" "q' = AList.update n (e # tox_queue n q1) q1" "W' = W1"
        using Suc.prems(2) by (simp_all add: pop e(1) send)
      then show ?thesis
        using e send TErr by (auto simp: flush_result_def tox_queue_update)
    next
      case TPanic
      then have "sent = 0" "q' = AList.update n (e # tox_queue n q1) q1" "W' = W1"
        using Suc.prems(2) by (simp_all add: pop e(1) send)
      then show ?thesis
        using e send TPanic by (auto simp: flush_result_def tox_queue_update)
    qed
  qed
qed

lemma tox_flush_outbox_result:
  "tox_flush_outbox T n q W = (sent, q', W') \<Longrightarrow> flush_result T n q W sent q' W'"
  unfolding tox_flush_outbox_def by (rule tox_flush_loop_result [OF lessI])

subsection \<open>Commands leave the event queue alone\<close>

lemma on_conference_events:
  "(\<And>n W. wk_events (fst (f n W)) = wk_events W) \<Longrightarrow> wk_events (fst (on_conference T g f W)) = wk_events W"
  by (simp add: on_conference_def split: tox_result.split)

lemma save_savedata_events: "wk_events (fst (save_savedata T W)) = wk_events W"
  by (simp add: save_savedata_def split: option.split)

lemma worker_handle_events: "wk_events (fst (fst (worker_handle T c W))) = wk_events W"
  by (cases c)
     (auto simp: handle_set_name_def handle_set_status_def handle_add_friend_def handle_accept_friend_def
        handle_send_message_def handle_conference_new_def handle_conference_join_def Let_def
        handle_conference_invite_def handle_conference_set_title_def handle_conference_send_def
        handle_conference_leave_def worker_snapshot_def save_savedata_events
        intro!: on_conference_events split: prod.splits)

lemma request_events: "wk_events (fst (request T c W)) = wk_events W"
  using worker_handle_events [of T c W]
  by (auto simp: request_def split: prod.splits tox_result.splits)

lemma ask_events [simp]: "wk_events (fst (ask reply T c W)) = wk_events W"
  by (simp add: ask_def Let_def request_events)

lemma with_decoded_events:
  "(\<And>bs W. wk_events (fst (f bs W)) = wk_events W) \<Longrightarrow> wk_events (fst (with_decoded s f W)) = wk_events W"
  by (simp add: with_decoded_def split: tox_result.split)

lemma sender_events [simp]:
  "wk_events (fst (sender_set_nickname T a W)) = wk_events W"
  "wk_events (fst (sender_set_status_message T a W)) = wk_events W"
  "wk_events (fst (sender_add_friend T a m W)) = wk_events W"
  "wk_events (fst (sender_accept_friend T a W)) = wk_events W"
  "wk_events (fst (sender_send_message_typed T n b k W)) = wk_events W"
  "wk_events (fst (sender_snapshot T W)) = wk_events W"
  "wk_events (fst (sender_conference_new T a W)) = wk_events W"
  "wk_events (fst (sender_conference_join T n b W)) = wk_events W"
  "wk_events (fst (sender_conference_invite T a n W)) = wk_events W"
  "wk_events (fst (sender_conference_set_title T a m W)) = wk_events W"
  "wk_events (fst (sender_conference_send T a b k W)) = wk_events W"
  "wk_events (fst (sender_conference_leave T a W)) = wk_events W"
  "wk_events (fst (sender_save T W)) = wk_events W"
  "wk_events (fst (client_shutdown T W)) = wk_events W"
  by (simp_all add: sender_set_nickname_def sender_set_status_message_def sender_add_friend_def
      sender_accept_friend_def sender_send_message_typed_def sender_snapshot_def sender_conference_new_def
      sender_conference_join_def sender_conference_invite_def sender_conference_set_title_def
      sender_conference_send_def sender_conference_leave_def sender_save_def client_shutdown_def
      with_decoded_events)

lemma flush_loop_events: "wk_events (snd (snd (tox_flush_loop T n k q W))) = wk_events W"
proof (induction k arbitrary: q W)
  case (Suc k)
  have "wk_events W1 = wk_events W" if "sender_send_message_typed T n b kd W = (W1, r)" for b kd W1 r
    using sender_events(5) [of T n b kd W] that by simp
  then show ?case
    using Suc.IH by (auto split: prod.splits option.splits tox_result.splits) (metis snd_conv)+
qed simp

lemma flush_outbox_events: "tox_flush_outbox T n q W = (s, q', W') \<Longrightarrow> wk_events W' = wk_events W"
  using flush_loop_events [of T n _ q W] unfolding tox_flush_outbox_def by (metis snd_conv)

lemma tox_flush_loop_wf: "tox_outbox_wf q \<Longrightarrow> tox_outbox_wf (fst (snd (tox_flush_loop T n k q W)))"
proof (induction k arbitrary: q W)
  case (Suc k)
  have pop: "tox_outbox_wf q1 \<and> (\<forall>e. r = Some e \<longrightarrow> length (e # tox_queue n q1) \<le> TOX_OUTBOX_CAPACITY)"
    if "tox_pop_outbox n q = (r, q1)" for r q1
  proof
    show "tox_outbox_wf q1"
      using that Suc.prems tox_queue_bound [OF Suc.prems, of n]
      by (auto simp: tox_pop_outbox_def tox_queue_def unwrap_or_def
          split: option.splits list.splits intro!: tox_outbox_wf_update tox_outbox_wf_delete)
    show "\<forall>e. r = Some e \<longrightarrow> length (e # tox_queue n q1) \<le> TOX_OUTBOX_CAPACITY"
      using tox_pop_outbox_cases [OF that] tox_queue_bound [OF Suc.prems, of n] by auto
  qed
  obtain r q1 where q1: "tox_pop_outbox n q = (r, q1)" by fastforce
  show ?case
  proof (cases r)
    case None
    then show ?thesis using pop [OF q1] q1 by simp
  next
    case (Some e)
    obtain W1 res where send: "sender_send_message_typed T n (qm_body e) (tox_message_kind (qm_kind e)) W = (W1, res)"
      by fastforce
    have "tox_outbox_wf (AList.update n (e # tox_queue n q1) q1)"
      using pop [OF q1] Some by (auto intro: tox_outbox_wf_update)
    moreover have "tox_outbox_wf (fst (snd (tox_flush_loop T n k q1 W1)))"
      using pop [OF q1] by (intro Suc.IH) blast
    ultimately show ?thesis
      by (cases res; cases "tox_flush_loop T n k q1 W1") (simp_all add: q1 Some send)
  qed
qed simp

lemma tox_flush_outbox_wf: "tox_outbox_wf q \<Longrightarrow> tox_flush_outbox T n q W = (s, q', W') \<Longrightarrow> tox_outbox_wf q'"
  using tox_flush_loop_wf [of q T n _ W] unfolding tox_flush_outbox_def by (metis fst_conv snd_conv)

subsection \<open>The bounds of the shared state\<close>

definition requests_wf :: "PeerRequest list \<Rightarrow> bool" where
  "requests_wf rs \<longleftrightarrow> length rs \<le> PENDING_REQUESTS_CAPACITY \<and>
     distinct (map (\<lambda>r. to_ascii_lowercase (pr_public_key r)) rs)"

definition invites_wf :: "PendingInvite list \<Rightarrow> bool" where
  "invites_wf is \<longleftrightarrow> length is \<le> PENDING_INVITES_CAPACITY \<and> distinct (map pi_token is)"

definition tox_wf :: "'x ToxTransport \<Rightarrow> bool" where
  "tox_wf X \<longleftrightarrow> distinct (map fst (tx_friends X)) \<and> tox_outbox_wf (tx_outbox X) \<and>
     requests_wf (tx_requests X) \<and> invites_wf (tx_invites X) \<and>
     length (wk_events (tx_worker X)) \<le> EVENT_QUEUE_CAPACITY"

lemma store_friends_keys: "distinct (map fst (store_friends fs))"
proof -
  have "distinct (map fst m) \<Longrightarrow> distinct (map fst (foldl (\<lambda>m f. AList.update (tf_number f)
      \<lparr>fe_public_key = tf_public_key f, fe_name = tf_name f, fe_connected = (tf_status f \<noteq> TcOffline)\<rparr> m) m fs))"
    for m by (induction fs arbitrary: m) (simp_all add: distinct_update)
  then show ?thesis by (simp add: store_friends_def)
qed

lemma tox_seed_friends_keeps:
  assumes "tox_seed_friends E W friends = (W', friends')" "distinct (map fst friends)"
  shows "wk_events W' = wk_events W" "distinct (map fst friends')"
proof -
  have "wk_events W1 = wk_events W" if "sender_snapshot (te_core E) W = (W1, r)" for W1 r
    using sender_events(6) [of "te_core E" W] that by simp
  then show "wk_events W' = wk_events W" "distinct (map fst friends')"
    using assms by (auto simp: tox_seed_friends_def store_friends_keys split: prod.splits tox_result.splits)
qed

lemma tox_wf_worker:
  "tox_wf X \<Longrightarrow> wk_events W = wk_events (tx_worker X) \<Longrightarrow> tox_wf (X\<lparr>tx_worker := W\<rparr>)"
  by (simp add: tox_wf_def)

lemma tox_wf_persist [simp]: "tox_wf (tox_persist E X) = tox_wf X"
  by (simp add: tox_wf_def)

lemma seed_friends_wf: "tox_wf X \<Longrightarrow> tox_wf (seed_friends E X)"
  using tox_seed_friends_keeps [of E "tx_worker X" "tx_friends X" "fst (tox_seed_friends E (tx_worker X) (tx_friends X))"
      "snd (tox_seed_friends E (tx_worker X) (tx_friends X))"]
  by (simp add: seed_friends_def Let_def tox_wf_def)

lemma seed_friends_simps [simp]:
  "tx_requests (seed_friends E X) = tx_requests X" "tx_outbox (seed_friends E X) = tx_outbox X"
  "tx_invites (seed_friends E X) = tx_invites X" "tx_next_message_id (seed_friends E X) = tx_next_message_id X"
  "tx_events (seed_friends E X) = tx_events X" "tx_events_open (seed_friends E X) = tx_events_open X"
  by (simp_all add: seed_friends_def Let_def)

lemma call_tox_wf:
  assumes "tox_wf X" "call_tox E command X = (X1, r)"
    and "\<And>W. wk_events (fst (command W)) = wk_events W"
  shows "tox_wf X1"
  using assms by (auto simp: call_tox_def Let_def intro: tox_wf_worker)

lemma map_remove_at: "map f (remove_at i xs) = remove_at i (map f xs)"
  by (simp add: remove_at_def take_map drop_map)

lemma length_remove_at_le: "length (remove_at i xs) \<le> length xs"
  by (simp add: remove_at_def)

lemma distinct_remove: "distinct xs \<Longrightarrow> distinct (remove_at i xs)"
  by (simp add: remove_at_def set_take_disj_set_drop_if_distinct)

lemma requests_wf_remove: "requests_wf rs \<Longrightarrow> requests_wf (remove_at i rs)"
  using length_remove_at_le [of i rs] by (simp add: requests_wf_def map_remove_at distinct_remove)

lemma invites_wf_remove: "invites_wf l \<Longrightarrow> invites_wf (remove_at i l)"
  using length_remove_at_le [of i l] by (simp add: invites_wf_def map_remove_at distinct_remove)

lemma requests_wf_filter: "requests_wf rs \<Longrightarrow> requests_wf (filter p rs)"
  by (auto simp: requests_wf_def distinct_map_filter intro: order_trans [OF length_filter_le])

lemma invites_wf_filter: "invites_wf l \<Longrightarrow> invites_wf (filter p l)"
  by (auto simp: invites_wf_def distinct_map_filter intro: order_trans [OF length_filter_le])

lemma requests_wf_add:
  assumes "requests_wf rs" "\<not> list_ex (\<lambda>r. eq_ignore_ascii_case (pr_public_key r) k) rs"
  shows "requests_wf (fst (snd (keep_pending \<lparr>pr_public_key = k, pr_message = m\<rparr> PENDING_REQUESTS_CAPACITY rs d)))"
  using assms by (auto simp: requests_wf_def keep_pending_def list_ex_iff eq_ignore_ascii_case_def)

lemma invites_wf_add:
  assumes "invites_wf l" "\<not> list_ex (\<lambda>i. pi_token i = pi_token v) l"
  shows "invites_wf (fst (snd (keep_pending v PENDING_INVITES_CAPACITY l d)))"
  using assms by (auto simp: invites_wf_def keep_pending_def list_ex_iff)


subsection \<open>Steps\<close>

text \<open>
  Everything that changes the transport, in any order: the worker's own turns, the bridge, and
  the methods. The send of a message and the queueing that follows a refusal are two steps, as
  the bridge may run between them.
\<close>

inductive tox_step :: "'x tox_env \<Rightarrow> 'x ToxTransport \<Rightarrow> 'x ToxTransport \<Rightarrow> bool" for E where
  worker: "tox_step E X (X\<lparr>tx_worker := worker_turn (te_core E) i (tx_worker X)\<rparr>)"
| bridge: "tox_step E X (bridge_step E now X)"
| set_nickname: "tox_step E X (tox_set_nickname E nick X)"
| set_status: "tox_step E X (tox_set_status E m X)"
| request_peer: "tox_step E X (fst (tox_request_peer E identifier X))"
| accept_request: "tox_step E X (fst (tox_accept_request E key X))"
| reject_request: "tox_step E X (fst (tox_reject_request E key X))"
| send_payload: "tox_step E X (fst (tox_send_payload E now peer payload kind X))"
| enqueue: "tox_step E X (fst (tox_enqueue E now n payload kind X))"
| queued: "tox_step E X (fst (tox_queued_messages E now X))"
| groups: "tox_step E X (fst (tox_groups E X))"
| create_group: "tox_step E X (fst (tox_create_group E title X))"
| join_group: "tox_step E X (fst (tox_join_group E token X))"
| decline: "tox_step E X (fst (tox_decline_group_invite E token X))"
| invite: "tox_step E X (fst (tox_invite_to_group E g peer X))"
| send_group: "tox_step E X (fst (tox_send_group_payload E g payload kind X))"
| rename: "tox_step E X (fst (tox_rename_group E g title X))"
| leave: "tox_step E X (fst (tox_leave_group E g X))"
| shutdown: "tox_step E X (fst (tox_shutdown E X))"

lemma worker_turn_bounded:
  assumes "length (wk_events W) \<le> EVENT_QUEUE_CAPACITY"
  shows "length (wk_events (worker_turn T i W)) \<le> EVENT_QUEUE_CAPACITY"
proof -
  have "length (wk_events (worker_iterate T W)) \<le> EVENT_QUEUE_CAPACITY"
    using callbacks_bounded [OF assms, of T] by (simp add: worker_iterate_def split: prod.split)
  then show ?thesis
    using assms by (simp add: worker_turn_def Let_def request_events save_savedata_events split: worker_input.split)
qed

lemma tox_enqueue_wf: "tox_wf X \<Longrightarrow> tox_wf (fst (tox_enqueue E now n payload kind X))"
proof -
  assume wf: "tox_wf X"
  obtain X' r where e: "tox_enqueue E now n payload kind X = (X', r)" by fastforce
  have "tox_outbox_wf (tx_outbox X')"
    using tox_enqueue_queue [OF _ e] wf by (simp add: tox_wf_def Let_def)
  moreover have "tx_friends X' = tx_friends X \<and> tx_requests X' = tx_requests X \<and> tx_invites X' = tx_invites X \<and>
      tx_worker X' = tx_worker X"
    using e by (auto simp: tox_enqueue_def Let_def split: prod.splits if_splits)
  ultimately show ?thesis using wf e by (simp add: tox_wf_def)
qed

lemma tox_send_payload_wf:
  assumes "tox_wf X"
  shows "tox_wf (fst (tox_send_payload E now peer payload kind X))"
proof (cases "resolve_friend E peer X")
  case None
  then show ?thesis using assms by (simp add: tox_send_payload_def)
next
  case (Some n)
  obtain W r where send: "sender_send_message_typed (te_core E) n payload (tox_message_kind kind) (tx_worker X) = (W, r)"
    by fastforce
  then have "wk_events W = wk_events (tx_worker X)"
    using sender_events(5) [of "te_core E" n payload "tox_message_kind kind" "tx_worker X"] by simp
  then have wf: "tox_wf (X\<lparr>tx_worker := W\<rparr>)" using assms by (rule tox_wf_worker [rotated])
  show ?thesis
    using wf tox_enqueue_wf [OF wf, of E now n payload kind]
    by (auto simp: tox_send_payload_def Some send Let_def split: tox_result.split ToxError.split prod.split)
qed

lemma tox_wf_fields [simp]:
  "tox_wf (X\<lparr>tx_nickname := v1\<rparr>) = tox_wf X" "tox_wf (X\<lparr>tx_desired := v2\<rparr>) = tox_wf X"
  "tox_wf (X\<lparr>tx_group_names := v3\<rparr>) = tox_wf X" "tox_wf (X\<lparr>tx_events := v4\<rparr>) = tox_wf X"
  "tox_wf (X\<lparr>tx_expired := v5\<rparr>) = tox_wf X" "tox_wf (X\<lparr>tx_stop := v6\<rparr>) = tox_wf X"
  "tox_wf (X\<lparr>tx_bridge_running := v7\<rparr>) = tox_wf X" "tox_wf (X\<lparr>tx_dropped_requests := d1\<rparr>) = tox_wf X"
  "tox_wf (X\<lparr>tx_dropped_invites := d2\<rparr>) = tox_wf X" "tox_wf (X\<lparr>tx_bridge := d3\<rparr>) = tox_wf X"
  "tox_wf (X\<lparr>tx_started := d4\<rparr>) = tox_wf X"
  by (simp_all add: tox_wf_def)

lemma tox_wf_requests: "tox_wf X \<Longrightarrow> requests_wf rs \<Longrightarrow> tox_wf (X\<lparr>tx_requests := rs\<rparr>)"
  and tox_wf_invites: "tox_wf X \<Longrightarrow> invites_wf l \<Longrightarrow> tox_wf (X\<lparr>tx_invites := l\<rparr>)"
  and tox_wf_outbox: "tox_wf X \<Longrightarrow> tox_outbox_wf q \<Longrightarrow> tox_wf (X\<lparr>tx_outbox := q\<rparr>)"
  and tox_wf_parts: "tox_wf X \<Longrightarrow> requests_wf (tx_requests X) \<and> invites_wf (tx_invites X) \<and> tox_outbox_wf (tx_outbox X)"
  by (simp_all add: tox_wf_def)

lemma remember_desired_wf [simp]: "tox_wf (remember_desired i X) = tox_wf X"
  by (simp add: remember_desired_def)

lemma remembered_wf [simp]: "tox_wf (fst (remembered c X)) = tox_wf X"
  by (simp add: remembered_def Let_def)

lemma drop_invite_wf: "tox_wf X \<Longrightarrow> tox_wf (drop_invite t X)"
  by (simp add: drop_invite_def tox_wf_invites invites_wf_filter tox_wf_parts)

lemma tox_emit_wf [simp]: "tox_wf (fst (emit e X)) = tox_wf X"
  by (simp add: emit_def)

lemma call_tox_command_wf:
  assumes "tox_wf X" and "\<And>W. wk_events (fst (command W)) = wk_events W"
  shows "tox_wf (fst (call_tox E command X))"
  using assms by (simp add: call_tox_def Let_def tox_wf_worker)

lemma group_methods_wf:
  assumes wf: "tox_wf X"
  shows "tox_wf (fst (tox_groups E X))" "tox_wf (fst (tox_create_group E title X))"
    "tox_wf (fst (tox_decline_group_invite E token X))" "tox_wf (fst (tox_invite_to_group E g peer X))"
    "tox_wf (fst (tox_send_group_payload E g payload kind X))" "tox_wf (fst (tox_rename_group E g title X))"
    "tox_wf (fst (tox_leave_group E g X))"
proof -
  show "tox_wf (fst (tox_groups E X))"
    using call_tox_command_wf [OF wf, of "sender_snapshot (te_core E)" E]
    by (auto simp: tox_groups_def Let_def split: prod.split sum.split)
  show "tox_wf (fst (tox_create_group E title X))"
    using call_tox_command_wf [OF wf, of "sender_conference_new (te_core E) title" E]
    by (auto simp: tox_create_group_def split: prod.split sum.split)
  show "tox_wf (fst (tox_decline_group_invite E token X))"
    using wf tox_wf_parts [OF wf]
    by (auto simp: tox_decline_group_invite_def Let_def tox_wf_invites invites_wf_remove split: option.split)
  show "tox_wf (fst (tox_invite_to_group E g peer X))"
    using call_tox_command_wf [OF wf, of "sender_conference_invite (te_core E) g _" E] wf
    by (auto simp: tox_invite_to_group_def split: option.split)
  show "tox_wf (fst (tox_send_group_payload E g payload kind X))"
    unfolding tox_send_group_payload_def by (rule call_tox_command_wf [OF wf]) simp
  show "tox_wf (fst (tox_rename_group E g title X))"
    using call_tox_command_wf [OF wf, of "sender_conference_set_title (te_core E) g title" E]
    by (auto simp: tox_rename_group_def split: prod.split sum.split)
  show "tox_wf (fst (tox_leave_group E g X))"
    using call_tox_command_wf [OF wf, of "sender_conference_leave (te_core E) g" E]
    by (auto simp: tox_leave_group_def split: prod.split sum.split)
qed

lemma tox_join_group_wf:
  assumes wf: "tox_wf X"
  shows "tox_wf (fst (tox_join_group E token X))"
proof -
  have called: "tox_wf (drop_invite w (fst (call_tox E (sender_conference_join (te_core E) n c) X)))"
    "tox_wf (fst (call_tox E (sender_conference_join (te_core E) n c) X))" for w n c
    using call_tox_command_wf [OF wf, of "sender_conference_join (te_core E) n c" E] by (simp_all add: drop_invite_wf)
  show ?thesis
    using wf called drop_invite_wf [OF wf]
    by (auto simp: tox_join_group_def Let_def split: option.split prod.split sum.split) (metis fst_conv)+
qed

lemma friend_methods_wf:
  assumes wf: "tox_wf X"
  shows "tox_wf (tox_set_nickname E nick X)" "tox_wf (tox_set_status E m X)"
    "tox_wf (fst (tox_request_peer E identifier X))" "tox_wf (fst (tox_reject_request E key X))"
    "tox_wf (fst (tox_accept_request E key X))"
proof -
  show "tox_wf (tox_set_nickname E nick X)"
    using call_tox_command_wf [OF wf, of "sender_set_nickname (te_core E) nick" E]
    by (auto simp: tox_set_nickname_def split: prod.split sum.split)
  show "tox_wf (tox_set_status E m X)"
    unfolding tox_set_status_def by (rule call_tox_command_wf [OF wf]) simp
  show "tox_wf (fst (tox_request_peer E identifier X))"
    using call_tox_command_wf [OF wf, of "sender_add_friend (te_core E) _ _" E]
    by (auto simp: tox_request_peer_def Let_def intro!: seed_friends_wf split: prod.split sum.split) (metis fst_conv)+
  show "tox_wf (fst (tox_reject_request E key X))"
    using wf tox_wf_parts [OF wf]
    by (auto simp: tox_reject_request_def Let_def tox_wf_requests requests_wf_remove split: option.split)
  have "tox_wf (X1\<lparr>tx_requests := filter p (tx_requests X1)\<rparr>)"
    if "call_tox E (sender_accept_friend (te_core E) k) X = (X1, r)" for X1 r k p
    using call_tox_wf [OF wf that] tox_wf_parts by (auto intro!: tox_wf_requests requests_wf_filter)
  moreover have "tox_wf X1" if "call_tox E (sender_accept_friend (te_core E) k) X = (X1, r)" for X1 r k
    using call_tox_wf [OF wf that] by simp
  ultimately show "tox_wf (fst (tox_accept_request E key X))"
    using wf
    by (auto simp: tox_accept_request_def Let_def intro!: seed_friends_wf split: option.split prod.split sum.split)
qed


subsection \<open>Events of the bridge\<close>

lemma friend_entry_wf: "tox_wf X \<Longrightarrow> tox_wf (fst (friend_entry E n X))"
  by (simp add: friend_entry_def Let_def seed_friends_wf)

lemma resolve_group_name_wf: "tox_wf X \<Longrightarrow> tox_wf (fst (resolve_group_name E i X))"
proof -
  assume wf: "tox_wf X"
  have "tox_wf (X\<lparr>tx_worker := W\<rparr>)" "tox_wf (X\<lparr>tx_worker := W, tx_group_names := g\<rparr>)"
    if "sender_snapshot (te_core E) (tx_worker X) = (W, r)" for W r g
  proof -
    have "wk_events W = wk_events (tx_worker X)"
      using sender_events(6) [of "te_core E" "tx_worker X"] that by simp
    then show "tox_wf (X\<lparr>tx_worker := W\<rparr>)" "tox_wf (X\<lparr>tx_worker := W, tx_group_names := g\<rparr>)"
      using wf by (simp_all add: tox_wf_worker)
  qed
  then show ?thesis
    using wf by (auto simp: resolve_group_name_def Let_def split: option.split prod.split tox_result.split)
qed

lemma forward_friend_request_wf: "tox_wf X \<Longrightarrow> tox_wf (fst (forward_friend_request E k m X))"
  using requests_wf_add [of "tx_requests X" k m "tx_dropped_requests X"] tox_wf_parts [of X]
  by (auto simp: forward_friend_request_def Let_def tox_wf_requests)

lemma forward_conference_invite_wf: "tox_wf X \<Longrightarrow> tox_wf (fst (forward_conference_invite E n kind cookie X))"
  using tox_wf_parts [of X]
  by (auto simp: forward_conference_invite_def Let_def intro!: tox_wf_invites invites_wf_add)

lemma forward_friend_connection_wf:
  assumes "tox_wf X"
  shows "tox_wf (fst (forward_friend_connection E now n status name X))"
proof -
  have wf1: "tox_wf (seed_friends E X)" by (rule seed_friends_wf [OF assms])
  obtain q expired where p: "tox_prune_outbox now (tx_outbox X) = (q, expired)" by fastforce
  obtain sent q' W' where f: "tox_flush_outbox (te_core E) n q (tx_worker (seed_friends E X)) = (sent, q', W')"
    by (metis prod_cases3)
  have "tox_outbox_wf q"
    using tox_prune_wf [of "tx_outbox X" now] tox_wf_parts [OF assms] by (simp add: p)
  then have q': "tox_outbox_wf q'" using f by (rule tox_flush_outbox_wf)
  have "tox_wf (seed_friends E X\<lparr>tx_outbox := q', tx_worker := W'\<rparr>)"
    using tox_wf_outbox [OF wf1 q'] flush_outbox_events [OF f] by (simp add: tox_wf_def)
  then show ?thesis
    using wf1 by (simp add: forward_friend_connection_def Let_def p f)
qed

lemma forward_event_wf:
  assumes "tox_wf X"
  shows "tox_wf (fst (forward_event E now e X))"
proof (cases e)
  case (EvFriendName n name)
  then show ?thesis
    using seed_friends_wf [OF assms]
    by (auto simp: nickname_event_def Let_def split: option.split prod.split)
next
  case (EvMessage n kind body)
  then show ?thesis
    using friend_entry_wf [OF assms, of E n]
    by (auto simp: emit_of_def forward_message_def Let_def split: prod.split)
next
  case (EvConferenceMessage i p name kind body)
  then show ?thesis
    using resolve_group_name_wf [OF assms, of E i]
    by (auto simp: emit_of_def forward_conference_message_def Let_def split: prod.split)
qed (use assms in \<open>simp_all add: emit_of_def forward_conference_change_def forward_friend_request_wf
      forward_friend_connection_wf forward_conference_invite_wf\<close>)

lemma bridge_end_wf: "tox_wf X \<Longrightarrow> tox_wf (bridge_end E X)"
  by (simp add: bridge_end_def tox_wf_def)

lemma bridge_step_wf:
  assumes "tox_wf X"
  shows "tox_wf (bridge_step E now X)"
proof (cases "next_event (tx_worker X)")
  case (Pair W oe)
  show ?thesis
  proof (cases oe)
    case None
    then show ?thesis using assms Pair by (simp add: bridge_step_def bridge_end_wf)
  next
    case (Some e)
    have "tox_wf (X\<lparr>tx_worker := W\<rparr>)"
      using Pair Some assms by (auto simp: next_event_def tox_wf_def split: list.splits)
    then have "tox_wf (fst (forward_event E now e (X\<lparr>tx_worker := W\<rparr>)))"
      by (rule forward_event_wf)
    then show ?thesis
      using assms Pair Some
      by (cases "forward_event E now e (X\<lparr>tx_worker := W\<rparr>)") (simp add: bridge_step_def bridge_end_wf split: bool.split)
  qed
qed

lemma tox_shutdown_wf: "tox_wf X \<Longrightarrow> tox_wf (fst (tox_shutdown E X))"
  by (simp add: tox_shutdown_def Let_def tox_wf_def)

lemma tox_queued_messages_wf: "tox_wf X \<Longrightarrow> tox_wf (fst (tox_queued_messages E now X))"
proof -
  assume wf: "tox_wf X"
  obtain q expired where p: "tox_prune_outbox now (tx_outbox X) = (q, expired)" by fastforce
  have "tox_outbox_wf q" using tox_prune_wf [of "tx_outbox X" now] tox_wf_parts [OF wf] by (simp add: p)
  then have "tox_wf (X\<lparr>tx_outbox := q\<rparr>)" by (rule tox_wf_outbox [OF wf])
  then show ?thesis by (simp add: tox_queued_messages_def p Let_def)
qed

lemma tox_step_wf: "tox_step E X X' \<Longrightarrow> tox_wf X \<Longrightarrow> tox_wf X'"
proof (induction rule: tox_step.induct)
  case (worker X i)
  then show ?case using worker_turn_bounded [of "tx_worker X" "te_core E" i] by (simp add: tox_wf_def)
qed (simp_all add: bridge_step_wf friend_methods_wf tox_send_payload_wf tox_enqueue_wf tox_queued_messages_wf
      group_methods_wf tox_join_group_wf tox_shutdown_wf)

subsection \<open>The stored queue restores what it was taken from\<close>

text \<open>What a stored queue cannot tell apart: fresh messages, their times at millisecond grain.\<close>

definition stored_view :: "QueuedMessage \<Rightarrow> QueuedMessage" where
  "stored_view e = e\<lparr>qm_queued_at := qm_queued_at e div 1000000 * 1000000\<rparr>"

lemma stored_view_fields:
  "stored_view e = \<lparr>qm_message_id = qm_message_id e, qm_body = qm_body e, qm_kind = qm_kind e,
     qm_queued_at = qm_queued_at e div 1000000 * 1000000\<rparr>"
  by (simp add: stored_view_def)

lemma restore_requests_all:
  assumes "requests_wf (acc @ rs)" "rs_requests R = acc"
  shows "foldl restore_request R (map (\<lambda>r. \<lparr>sr_public_key = pr_public_key r, sr_message = pr_message r\<rparr>) rs)
    = R\<lparr>rs_requests := acc @ rs\<rparr>"
  using assms
proof (induction rs arbitrary: acc R)
  case Nil
  then show ?case by (cases R) simp
next
  case (Cons r rs)
  have fresh: "\<not> list_ex (\<lambda>x. eq_ignore_ascii_case (pr_public_key x) (pr_public_key r)) acc"
      "length acc < PENDING_REQUESTS_CAPACITY"
  proof -
    from Cons.prems(1) have d: "to_ascii_lowercase (pr_public_key r) \<notin> (\<lambda>x. to_ascii_lowercase (pr_public_key x)) ` set acc"
      by (auto simp: requests_wf_def)
    then show "\<not> list_ex (\<lambda>x. eq_ignore_ascii_case (pr_public_key x) (pr_public_key r)) acc"
      unfolding list_ex_iff eq_ignore_ascii_case_def by (metis image_eqI)
    from Cons.prems(1) show "length acc < PENDING_REQUESTS_CAPACITY"
      by (simp add: requests_wf_def)
  qed
  have "restore_request R \<lparr>sr_public_key = pr_public_key r, sr_message = pr_message r\<rparr> = R\<lparr>rs_requests := acc @ [r]\<rparr>"
    using fresh Cons.prems(2) by (simp add: restore_request_def)
  then show ?case
    using Cons.IH [of "acc @ [r]" "R\<lparr>rs_requests := acc @ [r]\<rparr>"] Cons.prems(1) by simp
qed

lemma restore_queue_one:
  assumes laws: "\<And>b. hex_decode (te_hex E) (hex_encode (te_hex E) b) = Inr b"
    and key: "map_of by_key (te_lower E (fe_public_key f)) = Some n"
    and fresh: "\<forall>e \<in> set es. now - qm_queued_at e div 1000000 * 1000000 < TOX_OUTBOX_TTL \<and> qm_queued_at e div 1000000 < 2 ^ 64"
    and room: "length (tox_queue n (rs_outbox R)) + length es \<le> TOX_OUTBOX_CAPACITY"
  shows "\<exists>q. foldl (restore_message E now by_key) R (stored_queue E f es) = R\<lparr>rs_outbox := q\<rparr> \<and>
    tox_queue n q = tox_queue n (rs_outbox R) @ map stored_view es \<and>
    (\<forall>m. m \<noteq> n \<longrightarrow> tox_queue m q = tox_queue m (rs_outbox R))"
  using fresh room
proof (induction es arbitrary: R)
  case Nil
  then show ?case by (intro exI [of _ "rs_outbox R"]) (simp add: stored_queue_def)
next
  case (Cons e es)
  let ?q = "AList.update n (tox_queue n (rs_outbox R) @ [stored_view e]) (rs_outbox R)"
  have "restore_message E now by_key R (hd (stored_queue E f (e # es))) = R\<lparr>rs_outbox := ?q\<rparr>"
    using Cons.prems
    by (simp add: restore_message_def stored_queue_def key laws unix_ms_back queued_age_def Let_def stored_view_fields)
  moreover have "stored_queue E f (e # es) = hd (stored_queue E f (e # es)) # stored_queue E f es"
    by (simp add: stored_queue_def)
  ultimately have "foldl (restore_message E now by_key) R (stored_queue E f (e # es)) =
      foldl (restore_message E now by_key) (R\<lparr>rs_outbox := ?q\<rparr>) (stored_queue E f es)"
    by (metis foldl_Cons)
  moreover from Cons.IH [of "R\<lparr>rs_outbox := ?q\<rparr>"] Cons.prems obtain q where
      "foldl (restore_message E now by_key) (R\<lparr>rs_outbox := ?q\<rparr>) (stored_queue E f es) = R\<lparr>rs_outbox := q\<rparr>"
      "tox_queue n q = tox_queue n (rs_outbox R) @ map stored_view (e # es)"
      "\<forall>m. m \<noteq> n \<longrightarrow> tox_queue m q = tox_queue m (rs_outbox R)"
    by (auto simp: tox_queue_update)
  ultimately show ?case by auto
qed

lemma friends_by_key_lookup:
  assumes "(n, f) \<in> set friends" and "distinct (map (\<lambda>(n, f). te_lower E (fe_public_key f)) friends)"
  shows "map_of (friends_by_key E friends) (te_lower E (fe_public_key f)) = Some n"
proof -
  let ?up = "\<lambda>m (n, f). AList.update (te_lower E (fe_public_key f)) n m"
  have other: "map_of (foldl ?up m l) k = map_of m k"
    if "k \<notin> set (map (\<lambda>(n, f). te_lower E (fe_public_key f)) l)" for m l k
    using that by (induction l arbitrary: m) (auto simp: update_conv')
  have "map_of (foldl ?up m friends) (te_lower E (fe_public_key f)) = Some n" for m
    using assms
  proof (induction friends arbitrary: m)
    case (Cons a l)
    show ?case
    proof (cases "a = (n, f)")
      case True
      with Cons.prems(2) have "te_lower E (fe_public_key f) \<notin> set (map (\<lambda>(n, f). te_lower E (fe_public_key f)) l)"
        by simp
      from other [OF this] True show ?thesis by (simp add: update_conv')
    next
      case False
      then show ?thesis using Cons by (auto simp: case_prod_beta)
    qed
  qed simp
  then show ?thesis by (simp add: friends_by_key_def)
qed

text \<open>A queue that can be restored: its friend is known, its messages fresh and not of a time the
  file cannot hold.\<close>

definition restorable :: "instant \<Rightarrow> friend_table \<Rightarrow> tox_outbox \<Rightarrow> bool" where
  "restorable now friends q \<longleftrightarrow>
     (\<forall>(n, es) \<in> set q. map_of friends n \<noteq> None \<and>
        (\<forall>e \<in> set es. now - qm_queued_at e div 1000000 * 1000000 < TOX_OUTBOX_TTL \<and>
           qm_queued_at e div 1000000 < 2 ^ 64))"

lemma restore_queues:
  assumes laws: "\<And>b. hex_decode (te_hex E) (hex_encode (te_hex E) b) = Inr b"
    and wf: "tox_outbox_wf q" and rest: "restorable now friends q"
    and keys: "distinct (map (\<lambda>(n, f). te_lower E (fe_public_key f)) friends)"
  shows "distinct ns \<Longrightarrow> set ns \<subseteq> set (map fst q) \<Longrightarrow> \<forall>n \<in> set ns. tox_queue n (rs_outbox R) = [] \<Longrightarrow>
    \<exists>q'. foldl (restore_message E now (friends_by_key E friends)) R
           (concat (map (\<lambda>n. case (map_of friends n, map_of q n) of
              (Some f, Some es) \<Rightarrow> stored_queue E f es | _ \<Rightarrow> []) ns)) = R\<lparr>rs_outbox := q'\<rparr> \<and>
       (\<forall>m. tox_queue m q' = (if m \<in> set ns then map stored_view (tox_queue m q) else tox_queue m (rs_outbox R)))"
proof (induction ns arbitrary: R)
  case Nil
  then show ?case by (intro exI [of _ "rs_outbox R"]) simp
next
  case (Cons n ns)
  from Cons.prems(2) obtain es where es: "map_of q n = Some es"
    using weak_map_of_SomeI by (metis insert_subset list.simps(15) map_of_eq_None_iff not_Some_eq set_map)
  then have mem: "(n, es) \<in> set q" by (rule map_of_SomeD)
  with rest obtain f where f: "map_of friends n = Some f" by (auto simp: restorable_def)
  have es_fresh: "\<forall>e \<in> set es. now - qm_queued_at e div 1000000 * 1000000 < TOX_OUTBOX_TTL \<and> qm_queued_at e div 1000000 < 2 ^ 64"
    using mem rest by (auto simp: restorable_def)
  have queue: "tox_queue n q = es" by (simp add: tox_queue_def es unwrap_or_def)
  have room: "length (tox_queue n (rs_outbox R)) + length es \<le> TOX_OUTBOX_CAPACITY"
    using Cons.prems(3) wf mem by (auto simp: tox_outbox_wf_def)
  from restore_queue_one [OF laws friends_by_key_lookup [OF map_of_SomeD [OF f] keys] es_fresh room]
  obtain q1 where q1: "foldl (restore_message E now (friends_by_key E friends)) R (stored_queue E f es) = R\<lparr>rs_outbox := q1\<rparr>"
      "tox_queue n q1 = tox_queue n (rs_outbox R) @ map stored_view es"
      "\<forall>m. m \<noteq> n \<longrightarrow> tox_queue m q1 = tox_queue m (rs_outbox R)"
    by blast
  have "\<forall>m \<in> set ns. tox_queue m (rs_outbox (R\<lparr>rs_outbox := q1\<rparr>)) = []"
    using Cons.prems(1,3) q1(3) by auto
  from Cons.IH [OF _ _ this] Cons.prems(1,2) obtain q2 where q2:
      "foldl (restore_message E now (friends_by_key E friends)) (R\<lparr>rs_outbox := q1\<rparr>)
         (concat (map (\<lambda>n. case (map_of friends n, map_of q n) of
              (Some f, Some es) \<Rightarrow> stored_queue E f es | _ \<Rightarrow> []) ns)) = R\<lparr>rs_outbox := q2\<rparr>"
      "\<forall>m. tox_queue m q2 = (if m \<in> set ns then map stored_view (tox_queue m q) else tox_queue m q1)"
    by auto
  have "n \<notin> set ns" using Cons.prems(1) by simp
  then have "\<forall>m. tox_queue m q2 = (if m \<in> set (n # ns) then map stored_view (tox_queue m q) else tox_queue m (rs_outbox R))"
    using q1(2,3) q2(2) Cons.prems(3) queue by simp
  then show ?case
    using q1(1) q2(1) by (intro exI [of _ q2]) (simp add: f es)
qed

lemma highest_id_below:
  assumes "\<forall>m \<in> set ms. tsm_message_id m < k" "1 \<le> (k :: u64)"
  shows "max (max k (saturating_succ (highest_id ms))) 1 = k"
proof -
  have "foldl max a (map tsm_message_id ms) < k" if "a < k" for a
    using assms(1) that by (induction ms arbitrary: a) auto
  moreover have "(0 :: u64) < k" using assms(2) by (simp add: word_gt_0 word_less_1 flip: linorder_not_less)
  ultimately have "highest_id ms < k" by (simp add: highest_id_def)
  then have "saturating_succ (highest_id ms) \<le> k"
    by (auto simp: saturating_succ_def inc_le)
  then show ?thesis using assms(2) by (simp add: max_def)
qed

lemma restore_snapshot:
  assumes laws: "\<And>b. hex_decode (te_hex E) (hex_encode (te_hex E) b) = Inr b"
    and wf: "tox_outbox_wf q" and rest: "restorable now friends q" and reqs: "requests_wf requests"
    and keys: "distinct (map (\<lambda>(n, f). te_lower E (fe_public_key f)) friends)"
    and ids: "\<forall>(n, es) \<in> set q. \<forall>e \<in> set es. qm_message_id e < next_id" and next_id: "1 \<le> next_id"
  shows "\<exists>q'. restore_state E now (snapshot_state E friends requests q next_id) friends =
    restored_default\<lparr>rs_requests := requests, rs_outbox := q', rs_next_message_id := next_id\<rparr> \<and>
    (\<forall>n. tox_queue n q' = map stored_view (tox_queue n q))"
proof -
  let ?S = "snapshot_state E friends requests q next_id"
  let ?R1 = "restored_default\<lparr>rs_requests := requests\<rparr>"
  have R1: "foldl restore_request restored_default (ts_requests ?S) = ?R1"
    using restore_requests_all [of "[]" requests restored_default] reqs
    by (simp add: snapshot_state_def restored_default_def)
  have "\<forall>n \<in> set (sort (map fst q)). tox_queue n (rs_outbox ?R1) = []"
    by (simp add: restored_default_def tox_queue_def unwrap_or_def)
  from restore_queues [OF laws wf rest keys _ _ this] wf obtain q' where q':
      "foldl (restore_message E now (friends_by_key E friends)) ?R1 (ts_outbox ?S) = ?R1\<lparr>rs_outbox := q'\<rparr>"
      "\<forall>m. tox_queue m q' = (if m \<in> set (map fst q) then map stored_view (tox_queue m q) else tox_queue m [])"
    by (auto simp: snapshot_state_def tox_outbox_wf_def restored_default_def)
  have "\<forall>m. m \<notin> set (map fst q) \<longrightarrow> tox_queue m q = []"
    by (auto simp: tox_queue_def unwrap_or_def split: option.split dest!: map_of_SomeD) force
  then have queues: "\<forall>n. tox_queue n q' = map stored_view (tox_queue n q)"
    using q'(2) by (auto simp: tox_queue_def unwrap_or_def)
  have "\<forall>m \<in> set (ts_outbox ?S). tsm_message_id m < next_id"
  proof
    fix m assume "m \<in> set (ts_outbox ?S)"
    then obtain n f es where f: "map_of q n = Some es" "m \<in> set (stored_queue E f es)"
      by (auto simp: snapshot_state_def eq_commute [of "Some _"] split: option.splits)
    then obtain e where "e \<in> set es" "tsm_message_id m = qm_message_id e"
      by (auto simp: stored_queue_def)
    with ids map_of_SomeD [OF f(1)] show "tsm_message_id m < next_id" by fastforce
  qed
  from highest_id_below [OF this next_id] q'(1) R1 queues show ?thesis
    by (intro exI [of _ q']) (simp add: restore_state_def snapshot_state_def Let_def)
qed

end
