(* ===== verification/ToxGuarantees.thy ===== *)
theory ToxGuarantees
  imports ToxFacts Samples
begin

section \<open>What the Tox transport guarantees\<close>

text \<open>
  The properties of the worker, its handles and the transport, each with a witness on
  \<open>sample_toxcore\<close>: a library with one friend, who is online or not, that records what it sends.
\<close>

type_synonym sample_tox = "bool \<times> bytes list"

definition sample_toxcore :: "sample_tox toxcore" where
  "sample_toxcore = \<lparr>tox_options_available = True, tox_new = (\<lambda>o'. Inr (False, [])),
     tox_self_set_name = (\<lambda>x b. (x, True, 0)), tox_self_set_status_message = (\<lambda>x b. (x, True, 0)),
     tox_self_get_address = (\<lambda>x. replicate 38 0), tox_self_get_public_key = (\<lambda>x. replicate 32 0),
     tox_self_get_name_size = (\<lambda>x. 0), tox_self_get_name = (\<lambda>x. []),
     tox_self_get_connection_status = (\<lambda>x. 1), tox_bootstrap = (\<lambda>x h p k. x),
     tox_friend_add = (\<lambda>x a m. (x, 0, 0)), tox_friend_add_norequest = (\<lambda>x k. (x, 0, 0)),
     tox_friend_send_message = (\<lambda>x f k b. if fst x then ((fst x, snd x @ [b]), 9, 0) else (x, 0, 3)),
     tox_self_get_friend_list = (\<lambda>x. [0]),
     tox_friend_get_connection_status = (\<lambda>x f. if fst x then 2 else 0),
     tox_friend_get_public_key = (\<lambda>x f. Some (replicate 32 7)),
     tox_friend_get_name_size = (\<lambda>x f. (3, 0)), tox_friend_get_name = (\<lambda>x f. Some [98, 111, 98]),
     tox_conference_new = (\<lambda>x. (x, 0, 1)), tox_conference_join = (\<lambda>x f c. (x, 0, 1)),
     tox_conference_invite = (\<lambda>x f c. (x, False, 1)), tox_conference_set_title = (\<lambda>x c t. (x, False, 1)),
     tox_conference_send_message = (\<lambda>x c k b. (x, False, 1)), tox_conference_delete = (\<lambda>x c. (x, False, 1)),
     tox_conference_get_title_size = (\<lambda>x c. (0, 1)), tox_conference_get_title = (\<lambda>x c. None),
     tox_conference_peer_count = (\<lambda>x c. (0, 1)), tox_conference_peer_get_name_size = (\<lambda>x c p. (0, 1)),
     tox_conference_peer_get_name = (\<lambda>x c p. None), tox_conference_id_size = 32,
     tox_conference_get_id = (\<lambda>x c. None), tox_conference_get_chatlist = (\<lambda>x. []),
     tox_get_savedata = (\<lambda>x. [1]), tox_iterate = (\<lambda>x. (x, [(x, CbSelfConnection 1)])),
     tox_iteration_interval = (\<lambda>x. 50)\<rparr>"

definition sample_worker :: "bool \<Rightarrow> sample_tox Worker" where
  "sample_worker online = \<lparr>wk_tox = (online, []), wk_events = [], wk_receiving = True, wk_dropped = 0,
     wk_connected = {}, wk_path = lit ''tox-savedata.bin'', wk_file = FileMissing, wk_disk = None,
     wk_running = True\<rparr>"

definition sample_tox_json :: "ToxState json_codec" where
  "sample_tox_json = \<lparr>to_json = (\<lambda>s. Inl []), from_json = (\<lambda>b. Inl [])\<rparr>"

definition sample_tox_env :: "sample_tox tox_env" where
  "sample_tox_env = \<lparr>te_core = sample_toxcore, te_hex = sample_hex, te_json = sample_tox_json,
     te_lower = to_ascii_lowercase, te_upper = to_ascii_uppercase, te_join_error = lit ''panic''\<rparr>"

definition sample_queued :: "nat \<Rightarrow> bytes \<Rightarrow> QueuedMessage" where
  "sample_queued i b = \<lparr>qm_message_id = word_of_nat i, qm_body = b, qm_kind = KText, qm_queued_at = secs 1000\<rparr>"

definition sample_friends :: friend_table where
  "sample_friends = [(0, \<lparr>fe_public_key = encode_hex (replicate 32 7), fe_name = lit ''bob'', fe_connected = False\<rparr>)]"

definition sample_transport :: "bool \<Rightarrow> sample_tox ToxTransport" where
  "sample_transport online = \<lparr>tx_worker = sample_worker online,
     tx_identity = \<lparr>ti_address = [], ti_public_key = [], ti_nickname = []\<rparr>, tx_nickname = lit ''ann'',
     tx_savedata = lit ''tox-savedata.bin'', tx_store = FileMissing, tx_writable = True, tx_bootstrap = [],
     tx_desired = [], tx_friends = sample_friends, tx_requests = [\<lparr>pr_public_key = lit ''AB'', pr_message = []\<rparr>],
     tx_invites = [], tx_group_names = [],
     tx_outbox = [(0, [sample_queued 1 [1], sample_queued 2 [2]])], tx_next_message_id = 3,
     tx_expired = 0, tx_dropped_requests = 0, tx_dropped_invites = 0, tx_stop = False, tx_bridge = True,
     tx_bridge_running = True, tx_port = 0, tx_max_connections = 10, tx_started = True, tx_events = [],
     tx_events_open = True\<rparr>"

lemma sample_transport_wf: "tox_wf (sample_transport online)"
  by (simp add: tox_wf_def sample_transport_def sample_friends_def tox_outbox_wf_def requests_wf_def invites_wf_def
      sample_worker_def TOX_OUTBOX_CAPACITY_def PENDING_REQUESTS_CAPACITY_def)



lemma seed_friends_expired [simp]: "tx_expired (seed_friends E X) = tx_expired X"
  by (simp add: seed_friends_def Let_def)

text \<open>C27: when a friend comes online, the queued messages that have not expired are sent in the
  order they were queued, up to the first that the library refuses: exactly the sent ones leave
  the queue, the refused one and everything behind it stay in order, no other friend's queue
  loses a message that is still fresh, and the expired ones are counted.
\<close>

theorem friend_online_flushes:
  assumes "tox_wf X" and "status \<noteq> TcOffline"
    and "forward_friend_connection E now n status name X = (X', e)"
  shows "let fresh = filter (queued_fresh now) (tox_queue n (tx_outbox X)) in \<exists>sent W1. sent \<le> length fresh \<and> tox_queue n (tx_outbox X') = drop sent fresh \<and>
    sends_accepted (te_core E) n (take sent fresh) (tx_worker (seed_friends E X)) W1 \<and>
    (if sent = length fresh then tx_worker X' = W1
     else \<exists>r. sender_send_message_typed (te_core E) n (qm_body (fresh ! sent))
                (tox_message_kind (qm_kind (fresh ! sent))) W1 = (tx_worker X', r) \<and> (\<forall>i. r \<noteq> TOk i)) \<and>
    (\<forall>m. m \<noteq> n \<longrightarrow> tox_queue m (tx_outbox X') = filter (queued_fresh now) (tox_queue m (tx_outbox X))) \<and>
    tx_expired X' = tx_expired X + word_of_nat (snd (tox_prune_outbox now (tx_outbox X)))"
proof -
  obtain q expired where p: "tox_prune_outbox now (tx_outbox X) = (q, expired)" by fastforce
  obtain sent q' W' where f: "tox_flush_outbox (te_core E) n q (tx_worker (seed_friends E X)) = (sent, q', W')"
    by (metis prod_cases3)
  have queue: "tox_queue m q = filter (queued_fresh now) (tox_queue m (tx_outbox X))" for m
    using tox_prune_queue [of "tx_outbox X" m now] assms(1) by (simp add: tox_wf_def p)
  have X': "tx_outbox X' = q'" "tx_worker X' = W'" "tx_expired X' = tx_expired X + word_of_nat expired"
    using assms(2,3) by (auto simp: forward_friend_connection_def Let_def p f)
  show ?thesis
    using tox_flush_outbox_result [OF f]
    unfolding flush_result_def Let_def X' queue p snd_conv by blast
qed

theorem friend_online_flushes_witness:
  "\<exists>X' e. forward_friend_connection sample_tox_env (secs 1001) 0 TcUdp [] (sample_transport True) = (X', e) \<and>
     tox_queue 0 (tx_outbox X') = [] \<and> snd (wk_tox (tx_worker X')) = [[1], [2]]"
proof -
  obtain X' e where r: "forward_friend_connection sample_tox_env (secs 1001) 0 TcUdp [] (sample_transport True) = (X', e)"
    by fastforce
  have fresh: "filter (queued_fresh (secs 1001)) (tox_queue 0 (tx_outbox (sample_transport True))) =
      [sample_queued 1 [1], sample_queued 2 [2]]"
    by (simp add: sample_transport_def tox_queue_def unwrap_or_def queued_fresh_def queued_age_def sample_queued_def
        TOX_OUTBOX_TTL_def secs_def)
  have send: "sender_send_message_typed sample_toxcore 0 b k W =
      (W\<lparr>wk_tox := (True, snd (wk_tox W) @ [b])\<rparr>, TOk 9)"
    if "wk_running W" "fst (wk_tox W)" "length b = 1" for b k W
    using that by (cases b)
      (auto simp: sender_send_message_typed_def ask_def request_def handle_send_message_def sample_toxcore_def
        TOX_MAX_MESSAGE_LENGTH_def Let_def)
  have worker: "wk_tox (tx_worker (seed_friends sample_tox_env (sample_transport True))) = (True, [])"
      "wk_running (tx_worker (seed_friends sample_tox_env (sample_transport True)))"
    by (simp_all add: seed_friends_def tox_seed_friends_def sender_snapshot_def ask_def request_def
        worker_snapshot_def Let_def sample_tox_env_def sample_transport_def sample_worker_def)
  let ?fresh = "[sample_queued 1 [1], sample_queued 2 [2]]"
  let ?W = "tx_worker (seed_friends sample_tox_env (sample_transport True))"
  have core: "te_core sample_tox_env = sample_toxcore" by (simp add: sample_tox_env_def)
  obtain sent W1 where s: "sent \<le> length ?fresh" "tox_queue 0 (tx_outbox X') = drop sent ?fresh"
      "sends_accepted sample_toxcore 0 (take sent ?fresh) ?W W1"
      "if sent = length ?fresh then tx_worker X' = W1
       else \<exists>r. sender_send_message_typed sample_toxcore 0 (qm_body (?fresh ! sent))
              (tox_message_kind (qm_kind (?fresh ! sent))) W1 = (tx_worker X', r) \<and> (\<forall>i. r \<noteq> TOk i)"
    using friend_online_flushes [OF sample_transport_wf _ r]
    unfolding fresh Let_def core by blast
  have one: "wk_running W1 \<and> fst (wk_tox W1)" if "sent \<le> 1"
    using that s(3) worker by (cases sent) (auto simp: send sample_queued_def)
  have two: "sent = 2"
  proof (rule ccontr)
    assume "sent \<noteq> 2"
    then have "sent = 0 \<or> sent = 1" using s(1) by (simp add: numeral_2_eq_2) linarith
    then show False using s(4) one send [of W1] by (auto simp: sample_queued_def)
  qed
  have "tox_queue 0 (tx_outbox X') = [] \<and> snd (wk_tox (tx_worker X')) = [[1], [2]]"
    using s [unfolded two] worker by (auto simp: send sample_queued_def numeral_2_eq_2)
  with r show ?thesis by blast
qed

text \<open>C28: what the transport stores it restores. Written by \<open>persist\<close> and read again with the same
  friends, the file gives back every pending request, every queue in order with its identifiers,
  kinds and bodies (the time of queueing at millisecond grain) and the next identifier, and
  drops nothing, as long as the messages are still fresh.
\<close>

theorem tox_queue_restored:
  assumes "\<And>b. hex_decode (te_hex E) (hex_encode (te_hex E) b) = Inr b"
    and "\<And>s b. to_json (te_json E) s = Inr b \<Longrightarrow> from_json (te_json E) b = Inr s"
    and "tox_wf X" and "tx_writable X"
    and "to_json (te_json E) (snapshot_state E (tx_friends X) (tx_requests X) (tx_outbox X) (tx_next_message_id X)) = Inr b"
    and "restorable now (tx_friends X) (tx_outbox X)"
    and "distinct (map (\<lambda>(n, f). te_lower E (fe_public_key f)) (tx_friends X))"
    and "\<forall>(n, es) \<in> set (tx_outbox X). \<forall>e \<in> set es. qm_message_id e < tx_next_message_id X"
    and "1 \<le> tx_next_message_id X"
  shows "\<exists>q'. restore_state E now (tox_store_load (te_json E) (tx_store (tox_persist E X))) (tx_friends X) =
      \<lparr>rs_requests = tx_requests X, rs_outbox = q', rs_next_message_id = tx_next_message_id X,
       rs_requests_dropped = 0, rs_expired = 0, rs_undeliverable = 0\<rparr> \<and>
    (\<forall>n. tox_queue n q' = map stored_view (tox_queue n (tx_outbox X)))"
proof -
  let ?S = "snapshot_state E (tx_friends X) (tx_requests X) (tx_outbox X) (tx_next_message_id X)"
  have "tox_store_update (te_json E) (tx_writable X) ?S (tx_store X) = (True, tx_store (tox_persist E X))"
    using assms(4,5) by (simp add: tox_store_update_def tox_persist_def)
  then have "tox_store_load (te_json E) (tx_store (tox_persist E X)) = ?S"
    by (rule tox_store_roundtrip [OF assms(2), rotated 2]) (simp_all add: snapshot_state_def)
  then show ?thesis
    using restore_snapshot [OF assms(1) _ assms(6) _ assms(7-9), of "tx_requests X"] assms(3)
    by (simp add: tox_wf_def restored_default_def)
qed

definition sample_saved :: ToxState where
  "sample_saved = snapshot_state sample_tox_env sample_friends [\<lparr>pr_public_key = lit ''AB'', pr_message = []\<rparr>]
     [(0, [sample_queued 1 [1], sample_queued 2 [2]])] 3"

definition saving_env :: "sample_tox tox_env" where
  "saving_env = sample_tox_env\<lparr>te_json :=
     \<lparr>to_json = (\<lambda>s. if s = sample_saved then Inr [1] else Inl []),
      from_json = (\<lambda>b. if b = [1] then Inr sample_saved else Inl [])\<rparr>\<rparr>"

theorem tox_queue_restored_witness:
  "\<exists>q'. restore_state saving_env (secs 1001)
       (tox_store_load (te_json saving_env) (tx_store (tox_persist saving_env (sample_transport False)))) sample_friends =
     \<lparr>rs_requests = [\<lparr>pr_public_key = lit ''AB'', pr_message = []\<rparr>], rs_outbox = q', rs_next_message_id = 3,
      rs_requests_dropped = 0, rs_expired = 0, rs_undeliverable = 0\<rparr> \<and>
     tox_queue 0 q' = [sample_queued 1 [1], sample_queued 2 [2]]"
proof -
  let ?X = "sample_transport False"
  have saved: "snapshot_state saving_env (tx_friends ?X) (tx_requests ?X) (tx_outbox ?X) (tx_next_message_id ?X) = sample_saved"
  proof -
    have "stored_queue saving_env = stored_queue sample_tox_env"
      by (intro ext) (simp add: stored_queue_def saving_env_def)
    then show ?thesis
      by (simp add: sample_saved_def sample_transport_def snapshot_state_def split: option.split)
  qed
  have 1: "\<And>b. hex_decode (te_hex saving_env) (hex_encode (te_hex saving_env) b) = Inr b"
    using sample_hex_laws by (simp add: saving_env_def sample_tox_env_def hex_laws_def)
  have 2: "\<And>s b. to_json (te_json saving_env) s = Inr b \<Longrightarrow> from_json (te_json saving_env) b = Inr s"
    by (simp add: saving_env_def split: if_splits)
  have 3: "tx_writable ?X" "1 \<le> tx_next_message_id ?X" "tx_friends ?X = sample_friends"
    by (simp_all add: sample_transport_def)
  have 4: "to_json (te_json saving_env)
      (snapshot_state saving_env (tx_friends ?X) (tx_requests ?X) (tx_outbox ?X) (tx_next_message_id ?X)) = Inr [1]"
    unfolding saved by (simp add: saving_env_def)
  have 5: "restorable (secs 1001) (tx_friends ?X) (tx_outbox ?X)"
    by (simp add: restorable_def sample_transport_def sample_friends_def sample_queued_def secs_def TOX_OUTBOX_TTL_def)
  have 6: "distinct (map (\<lambda>(n, f). te_lower saving_env (fe_public_key f)) (tx_friends ?X))"
    by (simp add: sample_transport_def sample_friends_def)
  have 7: "\<forall>(n, es) \<in> set (tx_outbox ?X). \<forall>e \<in> set es. qm_message_id e < tx_next_message_id ?X"
    by (simp add: sample_transport_def sample_queued_def)
  have view: "stored_view (sample_queued i b) = sample_queued i b" for i b
    by (simp add: stored_view_fields sample_queued_def secs_def)
  from tox_queue_restored [OF 1 2 sample_transport_wf 3(1) 4 5 6 7 3(2)] obtain q' where
      "restore_state saving_env (secs 1001) (tox_store_load (te_json saving_env) (tx_store (tox_persist saving_env ?X))) (tx_friends ?X) =
       \<lparr>rs_requests = tx_requests ?X, rs_outbox = q', rs_next_message_id = tx_next_message_id ?X,
        rs_requests_dropped = 0, rs_expired = 0, rs_undeliverable = 0\<rparr>"
      "tox_queue 0 q' = map stored_view (tox_queue 0 (tx_outbox ?X))"
    by blast
  then show ?thesis
    unfolding 3(3) by (intro exI [of _ q']) (simp add: sample_transport_def tox_queue_def unwrap_or_def view)
qed



text \<open>the event queue never grows beyond 4096 events; what the library reports in one turn joins
  it in order, and only when it is full is an event lost, and then it is counted.
\<close>

theorem tox_events_bounded:
  assumes "length (wk_events W) \<le> 4096" and "wk_receiving W"
  shows "length (wk_events (worker_iterate T W)) \<le> 4096 \<and>
    (\<exists>new lost. wk_events (worker_iterate T W) = wk_events W @ new \<and>
       wk_dropped (worker_iterate T W) = wk_dropped W + word_of_nat lost \<and>
       (0 < lost \<longrightarrow> length (wk_events (worker_iterate T W)) = 4096))"
proof -
  obtain x' cbs where i: "tox_iterate T (wk_tox W) = (x', cbs)" by fastforce
  have bound: "length (wk_events (worker_iterate T W)) \<le> 4096"
    using callbacks_bounded [of W T cbs] assms(1) by (simp add: worker_iterate_def i EVENT_QUEUE_CAPACITY_def)
  obtain new lost where n: "wk_events (worker_iterate T W) = wk_events W @ new"
      "wk_dropped (worker_iterate T W) = wk_dropped W + word_of_nat lost"
      "0 < lost \<longrightarrow> 4096 \<le> length (wk_events (worker_iterate T W))"
    using callbacks_add [of W T cbs] assms(2) unfolding adds_events_def
    by (auto simp: worker_iterate_def i EVENT_QUEUE_CAPACITY_def)
  show ?thesis
  proof (intro conjI exI)
    show "0 < lost \<longrightarrow> length (wk_events (worker_iterate T W)) = 4096" using n(3) bound by linarith
  qed (rule bound n(1) n(2))+
qed

theorem tox_events_bounded_witness:
  "length (wk_events (worker_iterate sample_toxcore (sample_worker True))) \<le> 4096"
  using tox_events_bounded [of "sample_worker True" sample_toxcore] by (simp add: sample_worker_def)

text \<open>Identifiers in hexadecimal text. Decoding inverts encoding, accepts a plus sign in front of
  the second digit of any pair, and text of one-byte characters is decoded or refused; but a
  character of two bytes at an odd place makes the call panic, and a group command whose
  identifier does so ends the worker without saving, after which every handle is told that the
  worker stopped.
\<close>

theorem hex_text_outcomes:
  "decode_hex (encode_hex bs) = TOk bs \<and>
   decode_hex (encode_hex bs @ [43, 102]) = TOk (bs @ [15]) \<and>
   (list_all (\<lambda>c. c < 128) (trim s) \<longrightarrow> decode_hex s \<noteq> TPanic) \<and>
   (128 \<le> c \<and> c < 2048 \<longrightarrow> decode_hex (encode_hex bs @ [97, c, 98]) = TPanic \<and>
      (let r = sender_conference_leave T (encode_hex bs @ [97, c, 98]) (W\<lparr>wk_running := True\<rparr>) in
       r = (W\<lparr>wk_running := False\<rparr>, TErr TeWorkerStopped) \<and>
       snd (sender_snapshot T (fst r)) = TErr TeWorkerStopped))"
proof (intro conjI impI)
  have append: "hex_slices w (encode_hex bs @ t) = tox_bind (hex_slices w t) (\<lambda>cs. TOk (bs @ cs))" for w t
    by (induction bs)
       (cases "hex_slices w t"; simp add: utf8_width_def upper_nibble_plain byte_nibbles radix16_byte)+
  have digits: "list_all (\<lambda>c. c < 128 \<and> \<not> is_whitespace c) (encode_hex bs)"
    by (rule hexdigits_ascii [OF encode_hex_digits])
  have len: "utf8_len (encode_hex bs) = 2 * length bs"
    using digits by (simp add: utf8_len_ascii list_all_iff)
  have width: "utf8_len [43, 102] = 2" by (simp add: utf8_len_def utf8_width_def)
  have trimmed: "trim (encode_hex bs @ t) = encode_hex bs @ t"
    if "t \<noteq> []" "\<not> is_whitespace (hd t)" "\<not> is_whitespace (last t)" for t
    by (rule trim_id) (use that digits in \<open>cases bs; auto simp: upper_nibble_plain byte_nibbles\<close>)
  show "decode_hex (encode_hex bs) = TOk bs" by (rule decode_encode_hex)
  show "decode_hex (encode_hex bs @ [43, 102]) = TOk (bs @ [15])"
    by (simp add: decode_hex_def Let_def trimmed is_whitespace_def len append width utf8_width_def radix16_def nibble_def)
  show "decode_hex s \<noteq> TPanic" if "list_all (\<lambda>c. c < 128) (trim s)"
    by (rule decode_hex_ascii [OF that])
  assume c: "128 \<le> c \<and> c < 2048"
  show panic: "decode_hex (encode_hex bs @ [97, c, 98]) = TPanic"
  proof -
    have "utf8_len [97, c, 98] = 4" using c by (simp add: utf8_len_def utf8_width_def)
    then show ?thesis using c by (simp add: decode_hex_def Let_def trimmed is_whitespace_def len append utf8_width_def)
  qed
  have "worker_handle T (CmConferenceLeave (encode_hex bs @ [97, c, 98])) (W\<lparr>wk_running := True\<rparr>) =
      ((W\<lparr>wk_running := True\<rparr>, TPanic), False)"
    by (simp add: handle_conference_leave_def on_conference_def conference_number_for_def panic)
  then show "let r = sender_conference_leave T (encode_hex bs @ [97, c, 98]) (W\<lparr>wk_running := True\<rparr>) in
      r = (W\<lparr>wk_running := False\<rparr>, TErr TeWorkerStopped) \<and>
      snd (sender_snapshot T (fst r)) = TErr TeWorkerStopped"
    by (simp add: sender_conference_leave_def sender_snapshot_def ask_def request_def Let_def)
qed

theorem hex_text_outcomes_witness:
  "decode_hex (encode_hex [1] @ [97, 233, 98]) = TPanic \<and>
   decode_hex (encode_hex [1] @ [43, 102]) = TOk [1, 15]"
  using hex_text_outcomes [of "[1]" "[]" 233 sample_toxcore "sample_worker True"] by simp

end
