(* ===== verification/Transport.thy ===== *)
theory Transport
  imports ToxFacts NetworkFacts
begin

section \<open>The transport of the core (\<^verbatim>\<open>meta-text-backend/src/transport.rs\<close>)\<close>

text \<open>
  One of two transports behind the same methods. Over TCP it is the peer network of \<open>Network\<close>,
  which has no friend requests and no groups and refuses what needs them; over Tox it is
  \<open>ToxTransport\<close>. The surroundings of a step (clocks, fresh values, what a dial answers) are the
  record \<open>core_now\<close>; the third-party code is \<open>core_env\<close>.
\<close>

record 'x transport_env =
  re_pins :: pin_env
  re_tox :: "'x tox_env"

record core_now =
  cn_step :: step_ctx
  cn_clock :: instant                                              \<comment> \<open>the system clock\<close>
  cn_time :: timestamp                                             \<comment> \<open>the same, as the date code has it\<close>
  cn_nonce :: bytes
  cn_uuid :: uuid
  cn_bind :: "MetaTextError + socket_addr"                         \<comment> \<open>what binding the listener gives\<close>
  cn_dial :: "rtext \<Rightarrow> (MetaTextError + socket_addr) \<times> bytes"      \<comment> \<open>a dial, with the fresh secret\<close>

datatype 'x CoreTransport = Tcp Network | Tox "'x ToxTransport"

text \<open>Construction: the pinned keys are loaded for TCP, the library is started for Tox. \<open>None\<close> is
  a panic; a build without the Tox feature refuses it.\<close>

definition transport_new ::
    "'x transport_env \<Rightarrow> bool \<Rightarrow> core_now \<Rightarrow> AppConfig \<Rightarrow> CliArgs \<Rightarrow> rtext \<Rightarrow> CryptoManager \<Rightarrow> PinStore
      \<Rightarrow> rtext \<Rightarrow> stored_file \<Rightarrow> stored_file \<Rightarrow> bool \<Rightarrow> (MetaTextError + 'x CoreTransport) option" where
  "transport_new E built now cfg a data_dir crypto pins path file stored writable =
     (case cl_transport a of
        TransTcp \<Rightarrow>
          Some (case network_new (cfg_network cfg) crypto pins of Inl e \<Rightarrow> Inl e | Inr N \<Rightarrow> Inr (Tcp N))
      | TransTox \<Rightarrow>
          if \<not> built then
            Some (Inl (MtConfiguration (lit ''the tox transport is not compiled into this build; rebuild with `--features tox-protocol`'') None))
          else map_option (\<lambda>r. case r of Inl e \<Rightarrow> Inl e | Inr X \<Rightarrow> Inr (Tox X))
                 (tox_transport_new (re_tox E) (cn_clock now) cfg a data_dir path file stored writable))"

fun transport_name :: "'x CoreTransport \<Rightarrow> rtext" where
  "transport_name (Tcp N) = lit ''tcp''"
| "transport_name (Tox X) = lit ''tox''"

fun provides_encryption :: "'x CoreTransport \<Rightarrow> bool" where
  "provides_encryption (Tcp N) = False"
| "provides_encryption (Tox X) = True"

fun transport_is_started :: "'x CoreTransport \<Rightarrow> bool" where
  "transport_is_started (Tcp N) = nw_started N"
| "transport_is_started (Tox X) = tx_started X"

fun transport_port :: "'x CoreTransport \<Rightarrow> u16" where
  "transport_port (Tcp N) = nw_port N"
| "transport_port (Tox X) = tx_port X"

fun transport_bootstrap_nodes :: "'x CoreTransport \<Rightarrow> rtext list" where
  "transport_bootstrap_nodes (Tcp N) = nw_bootstrap_nodes N"
| "transport_bootstrap_nodes (Tox X) = tx_bootstrap X"

fun transport_connected_peers :: "'x CoreTransport \<Rightarrow> nat" where
  "transport_connected_peers (Tcp N) = connected_peers N"
| "transport_connected_peers (Tox X) = tox_connected_peers X"

fun transport_pending_peers :: "'x CoreTransport \<Rightarrow> nat" where
  "transport_pending_peers (Tcp N) = pending_peers N"
| "transport_pending_peers (Tox X) = tox_pending_peers X"

fun transport_max_connections :: "'x CoreTransport \<Rightarrow> nat" where
  "transport_max_connections (Tcp N) = nw_max_connections N"
| "transport_max_connections (Tox X) = tx_max_connections X"

text \<open>Over Tox, counting the queue also prunes it.\<close>

fun transport_queued_messages :: "'x transport_env \<Rightarrow> core_now \<Rightarrow> 'x CoreTransport \<Rightarrow> 'x CoreTransport \<times> nat" where
  "transport_queued_messages E now (Tcp N) = (Tcp N, queued_messages (nw_outbox N))"
| "transport_queued_messages E now (Tox X) =
     (case tox_queued_messages (re_tox E) (cn_clock now) X of (X', n) \<Rightarrow> (Tox X', n))"

fun transport_desired_peers :: "'x CoreTransport \<Rightarrow> rtext list" where
  "transport_desired_peers (Tcp N) = desired_peers N"
| "transport_desired_peers (Tox X) = tx_desired X"

fun transport_peer_nicknames :: "'x CoreTransport \<Rightarrow> rtext list" where
  "transport_peer_nicknames (Tcp N) = peer_nicknames N"
| "transport_peer_nicknames (Tox X) = tox_peer_nicknames X"

fun transport_peer_identities :: "'x transport_env \<Rightarrow> 'x CoreTransport \<Rightarrow> PeerIdentity list" where
  "transport_peer_identities E (Tcp N) = identities (re_pins E) (nw_pins N)"
| "transport_peer_identities E (Tox X) = []"

fun pinned_identity_changes :: "'x CoreTransport \<Rightarrow> u64" where
  "pinned_identity_changes (Tcp N) = ps_changed (nw_pins N)"
| "pinned_identity_changes (Tox X) = 0"

fun pinned_identity_refusals :: "'x CoreTransport \<Rightarrow> u64" where
  "pinned_identity_refusals (Tcp N) = ps_refused (nw_pins N)"
| "pinned_identity_refusals (Tox X) = 0"

fun refused_greetings :: "'x CoreTransport \<Rightarrow> u64" where
  "refused_greetings (Tcp N) = nw_greetings_refused N"
| "refused_greetings (Tox X) = 0"

fun transport_local_address :: "'x CoreTransport \<Rightarrow> rtext option" where
  "transport_local_address (Tcp N) = map_option socket_display (nw_listener_addr N)"
| "transport_local_address (Tox X) = Some (ti_address (tx_identity X))"

fun transport_public_identity :: "'x CoreTransport \<Rightarrow> rtext option" where
  "transport_public_identity (Tcp N) = None"
| "transport_public_identity (Tox X) = Some (ti_address (tx_identity X))"

fun transport_start :: "core_now \<Rightarrow> 'x CoreTransport \<Rightarrow> 'x CoreTransport \<times> unit mt_result" where
  "transport_start now (Tcp N) = (case network_start (cn_bind now) N of (r, N') \<Rightarrow> (Tcp N', r))"
| "transport_start now (Tox X) = (case tox_start X of (X', r) \<Rightarrow> (Tox X', r))"

fun transport_shutdown :: "'x transport_env \<Rightarrow> 'x CoreTransport \<Rightarrow> 'x CoreTransport \<times> unit mt_result" where
  "transport_shutdown E (Tcp N) = (Tcp (network_shutdown N), Inr ())"
| "transport_shutdown E (Tox X) = (case tox_shutdown (re_tox E) X of (X', r) \<Rightarrow> (Tox X', r))"

fun transport_set_nickname :: "'x transport_env \<Rightarrow> rtext \<Rightarrow> 'x CoreTransport \<Rightarrow> 'x CoreTransport" where
  "transport_set_nickname E nick (Tcp N) = Tcp (set_nickname nick N)"
| "transport_set_nickname E nick (Tox X) = Tox (tox_set_nickname (re_tox E) nick X)"

fun transport_set_identity :: "'x transport_env \<Rightarrow> NetworkIdentity \<Rightarrow> 'x CoreTransport \<Rightarrow> 'x CoreTransport" where
  "transport_set_identity E i (Tcp N) = Tcp (set_identity (re_pins E) i N)"
| "transport_set_identity E i (Tox X) = Tox X"

fun transport_contact_key :: "'x transport_env \<Rightarrow> core_now \<Rightarrow> rtext \<Rightarrow> 'x CoreTransport \<Rightarrow> bytes option" where
  "transport_contact_key E now peer (Tcp N) = network_contact_key (re_pins E) (cn_step now) N peer"
| "transport_contact_key E now peer (Tox X) = None"

fun transport_set_status :: "'x transport_env \<Rightarrow> rtext \<Rightarrow> 'x CoreTransport \<Rightarrow> 'x CoreTransport" where
  "transport_set_status E m (Tcp N) = Tcp N"
| "transport_set_status E m (Tox X) = Tox (tox_set_status (re_tox E) m X)"

fun transport_request_peer ::
    "'x transport_env \<Rightarrow> core_now \<Rightarrow> rtext \<Rightarrow> 'x CoreTransport \<Rightarrow> 'x CoreTransport \<times> rtext option mt_result" where
  "transport_request_peer E now identifier (Tcp N) =
     (case connect_peer (re_pins E) (snd (cn_dial now identifier)) (fst (cn_dial now identifier)) identifier N of
        (Inl e, N') \<Rightarrow> (Tcp N', Inl e)
      | (Inr remote, N') \<Rightarrow> (Tcp N', Inr (Some (socket_display remote))))"
| "transport_request_peer E now identifier (Tox X) =
     (case tox_request_peer (re_tox E) identifier X of
        (X', Inl e) \<Rightarrow> (Tox X', Inl e)
      | (X', Inr key) \<Rightarrow> (Tox X', Inr (Some key)))"

fun transport_connect_all ::
    "'x transport_env \<Rightarrow> core_now \<Rightarrow> rtext list \<Rightarrow> 'x CoreTransport \<Rightarrow> nat \<times> 'x CoreTransport" where
  "transport_connect_all E now [] R = (0, R)"
| "transport_connect_all E now (address # rest) R =
     (case transport_request_peer E now address R of
        (R', r) \<Rightarrow>
          (case transport_connect_all E now rest R' of
             (n, R'') \<Rightarrow> (case r of Inl e \<Rightarrow> n | Inr d \<Rightarrow> Suc n, R'')))"

fun transport_send_payload ::
    "'x transport_env \<Rightarrow> core_now \<Rightarrow> rtext \<Rightarrow> bytes \<Rightarrow> MessageKind \<Rightarrow> ContentType \<Rightarrow> 'x CoreTransport
      \<Rightarrow> 'x CoreTransport \<times> SendOutcome mt_result" where
  "transport_send_payload E now peer payload kind content (Tcp N) =
     (case send_ciphertext_to_peer (cn_step now) peer payload kind content N of (o', N') \<Rightarrow> (Tcp N', Inr o'))"
| "transport_send_payload E now peer payload kind content (Tox X) =
     (case tox_send_payload (re_tox E) (cn_clock now) peer payload kind X of (X', r) \<Rightarrow> (Tox X', r))"

fun transport_pending_requests :: "'x CoreTransport \<Rightarrow> PeerRequest list" where
  "transport_pending_requests (Tcp N) = []"
| "transport_pending_requests (Tox X) = tx_requests X"

fun transport_accept_request :: "'x transport_env \<Rightarrow> rtext \<Rightarrow> 'x CoreTransport \<Rightarrow> 'x CoreTransport \<times> rtext mt_result" where
  "transport_accept_request E key (Tcp N) =
     (Tcp N, Inl (network_error (lit ''the tcp transport has no friend requests to accept'') ''accept_request''))"
| "transport_accept_request E key (Tox X) =
     (case tox_accept_request (re_tox E) key X of (X', r) \<Rightarrow> (Tox X', r))"

fun transport_reject_request :: "'x transport_env \<Rightarrow> rtext \<Rightarrow> 'x CoreTransport \<Rightarrow> 'x CoreTransport \<times> rtext mt_result" where
  "transport_reject_request E key (Tcp N) =
     (Tcp N, Inl (network_error (lit ''the tcp transport has no friend requests to reject'') ''reject_request''))"
| "transport_reject_request E key (Tox X) =
     (case tox_reject_request (re_tox E) key X of (X', r) \<Rightarrow> (Tox X', r))"

fun supports_friend_requests :: "'x CoreTransport \<Rightarrow> bool" where
  "supports_friend_requests (Tcp N) = False"
| "supports_friend_requests (Tox X) = True"

fun supports_groups :: "'x CoreTransport \<Rightarrow> bool" where
  "supports_groups (Tcp N) = False"
| "supports_groups (Tox X) = True"

fun transport_pending_group_invites :: "'x CoreTransport \<Rightarrow> GroupInvite list" where
  "transport_pending_group_invites (Tcp N) = []"
| "transport_pending_group_invites (Tox X) = tox_pending_group_invites X"

fun transport_groups :: "'x transport_env \<Rightarrow> 'x CoreTransport \<Rightarrow> 'x CoreTransport \<times> Group list mt_result" where
  "transport_groups E (Tcp N) = (Tcp N, Inl (group_unsupported_error ''list groups''))"
| "transport_groups E (Tox X) = (case tox_groups (re_tox E) X of (X', r) \<Rightarrow> (Tox X', r))"

fun transport_create_group :: "'x transport_env \<Rightarrow> rtext \<Rightarrow> 'x CoreTransport \<Rightarrow> 'x CoreTransport \<times> Group mt_result" where
  "transport_create_group E title (Tcp N) = (Tcp N, Inl (group_unsupported_error ''create a group''))"
| "transport_create_group E title (Tox X) = (case tox_create_group (re_tox E) title X of (X', r) \<Rightarrow> (Tox X', r))"

fun transport_join_group :: "'x transport_env \<Rightarrow> rtext \<Rightarrow> 'x CoreTransport \<Rightarrow> 'x CoreTransport \<times> Group mt_result" where
  "transport_join_group E token (Tcp N) = (Tcp N, Inl (group_unsupported_error ''join a group''))"
| "transport_join_group E token (Tox X) = (case tox_join_group (re_tox E) token X of (X', r) \<Rightarrow> (Tox X', r))"

fun transport_decline_group_invite ::
    "'x transport_env \<Rightarrow> rtext \<Rightarrow> 'x CoreTransport \<Rightarrow> 'x CoreTransport \<times> rtext mt_result" where
  "transport_decline_group_invite E token (Tcp N) =
     (Tcp N, Inl (group_unsupported_error ''decline a group invitation''))"
| "transport_decline_group_invite E token (Tox X) =
     (case tox_decline_group_invite (re_tox E) token X of (X', r) \<Rightarrow> (Tox X', r))"

fun transport_invite_to_group ::
    "'x transport_env \<Rightarrow> rtext \<Rightarrow> rtext \<Rightarrow> 'x CoreTransport \<Rightarrow> 'x CoreTransport \<times> unit mt_result" where
  "transport_invite_to_group E g peer (Tcp N) = (Tcp N, Inl (group_unsupported_error ''invite to a group''))"
| "transport_invite_to_group E g peer (Tox X) = (case tox_invite_to_group (re_tox E) g peer X of (X', r) \<Rightarrow> (Tox X', r))"

fun transport_send_group_payload ::
    "'x transport_env \<Rightarrow> rtext \<Rightarrow> bytes \<Rightarrow> MessageKind \<Rightarrow> 'x CoreTransport \<Rightarrow> 'x CoreTransport \<times> unit mt_result" where
  "transport_send_group_payload E g payload kind (Tcp N) = (Tcp N, Inl (group_unsupported_error ''send to a group''))"
| "transport_send_group_payload E g payload kind (Tox X) =
     (case tox_send_group_payload (re_tox E) g payload kind X of (X', r) \<Rightarrow> (Tox X', r))"

fun transport_rename_group ::
    "'x transport_env \<Rightarrow> rtext \<Rightarrow> rtext \<Rightarrow> 'x CoreTransport \<Rightarrow> 'x CoreTransport \<times> unit mt_result" where
  "transport_rename_group E g title (Tcp N) = (Tcp N, Inl (group_unsupported_error ''rename a group''))"
| "transport_rename_group E g title (Tox X) = (case tox_rename_group (re_tox E) g title X of (X', r) \<Rightarrow> (Tox X', r))"

fun transport_leave_group :: "'x transport_env \<Rightarrow> rtext \<Rightarrow> 'x CoreTransport \<Rightarrow> 'x CoreTransport \<times> unit mt_result" where
  "transport_leave_group E g (Tcp N) = (Tcp N, Inl (group_unsupported_error ''leave a group''))"
| "transport_leave_group E g (Tox X) = (case tox_leave_group (re_tox E) g X of (X', r) \<Rightarrow> (Tox X', r))"

fun expired_messages :: "'x CoreTransport \<Rightarrow> u64" where
  "expired_messages (Tcp N) = nw_outbox_expired N"
| "expired_messages (Tox X) = tx_expired X"

fun dropped_payloads :: "'x CoreTransport \<Rightarrow> u64" where
  "dropped_payloads (Tcp N) = nw_frames_dropped N"
| "dropped_payloads (Tox X) = tox_dropped_payloads X"

fun dropped_requests :: "'x CoreTransport \<Rightarrow> u64" where
  "dropped_requests (Tcp N) = 0"
| "dropped_requests (Tox X) = tx_dropped_requests X"

fun dropped_invites :: "'x CoreTransport \<Rightarrow> u64" where
  "dropped_invites (Tcp N) = 0"
| "dropped_invites (Tox X) = tx_dropped_invites X"

end
