(* ===== verification/Core.thy ===== *)
theory Core
  imports Transport Database
begin

section \<open>Core service: its state (\<^verbatim>\<open>meta-text-core/src/ipc/core.rs\<close>)\<close>

text \<open>
  The one task that owns the session: its record, the views it reports, the contact and group
  tables, the session file and its construction. The handlers of requests are in \<open>CoreRequests\<close>,
  the loop with the transport's events in \<open>CoreLoop\<close>.

  An awaited call of the transport or the database is one step: no request is served while
  another one runs. \<open>co_published\<close> is every event broadcast so far; who is subscribed is a number
  of the surroundings. Logging is left out.
\<close>

definition DEFAULT_COMMAND_CAPACITY :: nat where
  "DEFAULT_COMMAND_CAPACITY = 64"

definition DEFAULT_EVENT_CAPACITY :: nat where
  "DEFAULT_EVENT_CAPACITY = 256"

definition SESSION_STATE_FILE :: rtext where
  "SESSION_STATE_FILE = lit ''metatext-session.json''"

definition FALLBACK_NICKNAME :: rtext where
  "FALLBACK_NICKNAME = lit ''metaText''"

record CoreServiceOptions =
  cso_command_capacity :: nat
  cso_event_capacity :: nat

definition core_options_default :: CoreServiceOptions where
  "core_options_default = \<lparr>cso_command_capacity = DEFAULT_COMMAND_CAPACITY,
     cso_event_capacity = DEFAULT_EVENT_CAPACITY\<rparr>"

record SessionState =
  ss_nickname :: rtext
  ss_status_message :: rtext
  ss_contacts :: "Contact list"
  ss_statistics :: AppStatistics

text \<open>Third-party code, and the surroundings of one step of the task.\<close>

record ('x, 'db) core_env =
  ce_transport :: "'x transport_env"
  ce_sql :: "'db sqlite"
  ce_session :: "SessionState json_codec"
  ce_version :: rtext

record core_ctx =
  cx_now :: core_now
  cx_create_dir :: "rtext option"        \<comment> \<open>the error of each file operation\<close>
  cx_write :: "rtext option"
  cx_rename :: "rtext option"
  cx_subscribers :: nat

abbreviation ce_hex :: "('x, 'db) core_env \<Rightarrow> hex_lib" where
  "ce_hex E \<equiv> pe_hex (re_pins (ce_transport E))"

abbreviation ce_crypto :: "('x, 'db) core_env \<Rightarrow> crypto_lib" where
  "ce_crypto E \<equiv> pe_crypto (re_pins (ce_transport E))"

record ('x, 'db) CoreService =
  co_config :: AppConfig
  co_args :: CliArgs
  co_state :: AppState
  co_crypto :: CryptoManager
  co_transport :: "'x CoreTransport"
  co_database :: "'db Database"
  co_nickname :: rtext
  co_status_message :: rtext
  co_identity :: NetworkIdentity
  co_contacts :: "Contact list"
  co_active_chat :: "uuid option"
  co_groups :: "Group list"
  co_active_group :: "rtext option"
  co_started_at :: timestamp
  co_last_auto_save :: instant
  co_inbox :: bool                       \<comment> \<open>the receiver of the transport's events is held\<close>
  co_session_path :: rtext
  co_session_file :: stored_file
  co_data_dir :: rtext
  co_options :: CoreServiceOptions
  co_command_queue_depth :: nat
  co_request_wait_last :: duration
  co_request_wait_max :: duration
  co_request_service_last :: duration
  co_request_service_max :: duration
  co_requests_served :: u64
  co_published :: "CoreEvent list"

definition core_publish :: "CoreEvent \<Rightarrow> ('x, 'db) CoreService \<Rightarrow> ('x, 'db) CoreService" where
  "core_publish e C = C\<lparr>co_published := co_published C @ [e]\<rparr>"

definition core_ok :: "Reply \<Rightarrow> ResponseResult" where
  "core_ok r = response_ok r"

definition core_err :: "ErrorInfo \<Rightarrow> ResponseResult" where
  "core_err e = response_err e"

definition micros :: "duration \<Rightarrow> u64" where
  "micros d = (let us = d div 1000 in if us < 2 ^ 64 then of_nat us else - 1)"

definition no_such_group :: ErrorInfo where
  "no_such_group = error_info_new EcNotFound
     (lit ''no such group; use /group list to see the groups this session is in'')"

definition group_error :: "string \<Rightarrow> MetaTextError \<Rightarrow> ErrorInfo" where
  "group_error operation e =
     (let info = error_info_of e in
      info\<lparr>ei_message := lit ''could not '' @ lit operation @ lit '': '' @ ei_message info\<rparr>)"

subsection \<open>Views\<close>

definition group_view :: "Group \<Rightarrow> GroupView" where
  "group_view g = \<lparr>gv_id = g_id g, gv_name = g_name g, gv_members = g_members g,
     gv_joined = g_joined g, gv_short_id = abbreviate (g_id g)\<rparr>"

definition contact_view :: "'db sqlite \<Rightarrow> Contact \<Rightarrow> ContactView" where
  "contact_view Q c = \<lparr>cv_id = sq_uuid_text Q (ct_id c), cv_name = ct_name c,
     cv_status = status_as_name (ct_status c), cv_online = contact_is_online c,
     cv_note = ct_note c, cv_blocked = ct_is_blocked c,
     cv_last_seen = map_option (sq_rfc3339 Q) (ct_last_seen c)\<rparr>"

definition message_view :: "'db sqlite \<Rightarrow> StoredMessage \<Rightarrow> MessageView" where
  "message_view Q m = \<lparr>msv_direction = direction_as_str (sm_direction m), msv_peer = sm_peer m,
     msv_body = sm_body m, msv_wire_bytes = sm_wire_bytes m, msv_kind = sm_kind m,
     msv_content_type = sm_content_type m, msv_created_at = sq_rfc3339 Q (sm_created_at m)\<rparr>"

fun send_outcome_parts :: "SendOutcome \<Rightarrow> SendOutcomeKind \<times> u64 option \<times> nat \<times> nat option" where
  "send_outcome_parts (SoSent receipt) = (OkSent, Some (dr_message_id receipt), dr_peers receipt, None)"
| "send_outcome_parts (SoQueued i at) = (OkQueued, Some i, 0, Some at)"
| "send_outcome_parts SoDropped = (OkDropped, None, 0, None)"

definition send_report :: "SendOutcome \<Rightarrow> nat \<Rightarrow> bool \<Rightarrow> bool \<Rightarrow> SendReport" where
  "send_report outcome wire_bytes encrypted persisted =
     (case send_outcome_parts outcome of
        (kind, sent_id, reached, queue_position) \<Rightarrow>
          \<lparr>sr_outcome = kind, sr_message_id = sent_id, sr_queued_for = reached,
           sr_queue_position = queue_position, sr_wire_bytes = of_nat wire_bytes,
           sr_ciphertext_preview = [], sr_encrypted = encrypted, sr_persisted = persisted\<rparr>)"

text \<open>The text of a received payload, or why it has none.\<close>

definition body_of :: "hex_lib \<Rightarrow> bytes \<Rightarrow> ContentType \<Rightarrow> rtext + rtext" where
  "body_of H payload content =
     (if is_binary content then Inr (hex_encode H payload)
      else case from_utf8 payload of
             None \<Rightarrow> Inl (lit ''is not valid UTF-8 text'')
           | Some t \<Rightarrow>
               if contains_forbidden_control t ALLOWED_MESSAGE_CONTROLS
               then Inl (lit ''contains control characters'') else Inr t)"

text \<open>How a body is stored: text as it is, bytes in hexadecimal.\<close>

definition stored_form :: "hex_lib \<Rightarrow> ContentType \<Rightarrow> bytes \<Rightarrow> rtext" where
  "stored_form H content body =
     (case content of CText \<Rightarrow> from_utf8_lossy body | CBinary \<Rightarrow> hex_encode H body)"

subsection \<open>Contacts and groups\<close>

definition friend_limit_error :: "('x, 'db) CoreService \<Rightarrow> ErrorInfo option" where
  "friend_limit_error C =
     (let limit = app_max_friends (cfg_app (co_config C)) in
      if limit \<le> length (co_contacts C) then
        Some (error_info_new EcBackpressure
          (lit ''contact limit reached ('' @ dec limit @ lit ''); cannot add more friends''))
      else None)"

text \<open>A number selects by position, anything else by a part of the name.\<close>

definition find_contact_index :: "Contact list \<Rightarrow> rtext \<Rightarrow> nat option" where
  "find_contact_index contacts target =
     (case parse_usize target of
        Some index \<Rightarrow>
          (if index = 0 then None
           else if index - 1 < length contacts then Some (index - 1) else None)
      | None \<Rightarrow>
          position (\<lambda>c. contains_str (to_ascii_lowercase (ct_name c)) (to_ascii_lowercase target)) contacts)"

definition active_conversation :: "('x, 'db) CoreService \<Rightarrow> rtext option \<times> nat option" where
  "active_conversation C =
     (case co_active_chat C of
        None \<Rightarrow> (None, None)
      | Some chat \<Rightarrow>
          (case position (\<lambda>c. ct_id c = chat) (co_contacts C) of
             None \<Rightarrow> (None, None)
           | Some i \<Rightarrow> (Some (ct_name (co_contacts C ! i)), Some (i + 1))))"

definition resolve_group :: "rtext \<Rightarrow> ('x, 'db) CoreService \<Rightarrow> Group option" where
  "resolve_group selector C =
     (let wanted = trim selector; groups = co_groups C in
      if wanted = [] then
        (case (case co_active_group C of
                 Some i \<Rightarrow> Some i
               | None \<Rightarrow> (case groups of [only] \<Rightarrow> Some (g_id only) | _ \<Rightarrow> None)) of
           None \<Rightarrow> None
         | Some i \<Rightarrow> List.find (\<lambda>g. g_id g = i) groups)
      else
        (case (case parse_usize wanted of
                 Some index \<Rightarrow> if 1 \<le> index then get_at (index - 1) groups else None
               | None \<Rightarrow> None) of
           Some g \<Rightarrow> Some g
         | None \<Rightarrow>
             (case List.find (\<lambda>g. eq_ignore_ascii_case (g_id g) wanted) groups of
                Some g \<Rightarrow> Some g
              | None \<Rightarrow> List.find (\<lambda>g. eq_ignore_ascii_case (g_name g) wanted) groups)))"

definition core_remember_group ::
    "rtext \<Rightarrow> rtext \<Rightarrow> nat \<Rightarrow> bool \<Rightarrow> ('x, 'db) CoreService \<Rightarrow> ('x, 'db) CoreService" where
  "core_remember_group group_id name members joined C =
     (let known = (\<lambda>g. eq_ignore_ascii_case (g_id g) group_id) in
      if list_ex known (co_groups C) then
        C\<lparr>co_groups := update_first known
            (\<lambda>g. g\<lparr>g_name := (if name \<noteq> [] then name else g_name g), g_members := members,
                    g_joined := joined\<rparr>) (co_groups C)\<rparr>
      else C\<lparr>co_groups := co_groups C @
            [\<lparr>g_id = group_id, g_name = name, g_members = members, g_joined = joined\<rparr>]\<rparr>)"

definition refresh_group_cache :: "('x, 'db) core_env \<Rightarrow> ('x, 'db) CoreService \<Rightarrow> ('x, 'db) CoreService" where
  "refresh_group_cache E C =
     (if \<not> supports_groups (co_transport C) then C\<lparr>co_groups := []\<rparr>
      else case transport_groups (ce_transport E) (co_transport C) of
             (R, Inl e) \<Rightarrow> C\<lparr>co_transport := R\<rparr>
           | (R, Inr groups) \<Rightarrow>
               fold (\<lambda>g. core_remember_group (g_id g) (g_name g) (g_members g) (g_joined g)) groups
                 (C\<lparr>co_transport := R\<rparr>))"

definition capability_refusal :: "string \<Rightarrow> ('x, 'db) CoreService \<Rightarrow> ErrorInfo option" where
  "capability_refusal operation C =
     (if \<not> supports_groups (co_transport C) then Some (error_info_of (group_unsupported_error operation))
      else None)"

subsection \<open>Reports\<close>

definition uptime_seconds :: "core_now \<Rightarrow> ('x, 'db) CoreService \<Rightarrow> int" where
  "uptime_seconds now C = max 0 ((cn_time now - co_started_at C) div 1000)"

definition core_data_dir :: "rtext option \<Rightarrow> CliArgs \<Rightarrow> rtext" where
  "core_data_dir system_dir args = unwrap_or (lit ''.'') (data_directory system_dir args)"

definition peer_identity_view :: "PeerIdentity \<Rightarrow> PeerIdentityView" where
  "peer_identity_view p = \<lparr>piv_nickname = pid_nickname p, piv_identity = pid_public_key p,
     piv_fingerprint = pid_fingerprint p, piv_changed = pid_changed p\<rparr>"

text \<open>Counting the queue over Tox also prunes it, so a report returns the service it leaves.\<close>

definition session_info ::
    "('x, 'db) core_env \<Rightarrow> core_now \<Rightarrow> ('x, 'db) CoreService \<Rightarrow> ('x, 'db) CoreService \<times> SessionInfo" where
  "session_info E now C =
     (case transport_queued_messages (ce_transport E) now (co_transport C) of
        (R, queued) \<Rightarrow>
          (C\<lparr>co_transport := R\<rparr>,
           \<lparr>si_nickname = co_nickname C, si_status_message = co_status_message C,
            si_identity = public_hex (ce_hex E) (co_identity C),
            si_mode = app_mode_display (effective_mode (co_args C)), si_version = ce_version E,
            si_encryption = cm_algorithm (co_crypto C), si_encryption_enabled = cm_enabled (co_crypto C),
            si_network_running = transport_is_started R, si_network_port = transport_port R,
            si_network_bootstrap_nodes = length (transport_bootstrap_nodes R),
            si_connected_peers = transport_connected_peers R, si_pending_peers = transport_pending_peers R,
            si_max_connections = of_nat (transport_max_connections R), si_queued_messages = queued,
            si_desired_peers = transport_desired_peers R, si_peer_nicknames = transport_peer_nicknames R,
            si_local_address = transport_local_address R,
            si_database_connected = is_initialized (co_database C),
            si_database = db_connection_string (co_database C), si_persistent = is_persistent (co_database C),
            si_database_max_connections = of_nat (db_max_connections (co_database C)),
            si_friend_count = length (co_contacts C), si_max_friends = app_max_friends (cfg_app (co_config C)),
            si_active_chat = fst (active_conversation C), si_uptime_seconds = uptime_seconds now C,
            si_config_path = cl_config_path (co_args C), si_data_dir = co_data_dir C,
            si_app_name = app_name (cfg_app (co_config C)), si_app_version = app_version (cfg_app (co_config C)),
            si_max_message_length = app_max_message_length (cfg_app (co_config C)),
            si_auto_save_interval = of_nat (app_auto_save_interval (cfg_app (co_config C))),
            si_transport = transport_name R, si_public_identity = transport_public_identity R,
            si_pending_requests = length (transport_pending_requests R),
            si_supports_friend_requests = supports_friend_requests R, si_groups = length (co_groups C),
            si_pending_group_invites = length (transport_pending_group_invites R),
            si_supports_groups = supports_groups R,
            si_identity_fingerprint = fingerprint (ce_crypto E) (ce_hex E) (ni_public (co_identity C)),
            si_peer_identities = map peer_identity_view (transport_peer_identities (ce_transport E) R)\<rparr>))"

definition statistics_view :: "core_now \<Rightarrow> ('x, 'db) CoreService \<Rightarrow> StatisticsView" where
  "statistics_view now C =
     (let n = st_statistics (co_state C) in
      \<lparr>sv_messages_sent = as_messages_sent n, sv_messages_received = as_messages_received n,
       sv_active_connections = as_active_connections n, sv_bytes_sent = as_bytes_sent n,
       sv_bytes_received = as_bytes_received n, sv_uptime_seconds = uptime_seconds now C\<rparr>)"

definition metrics_view ::
    "('x, 'db) core_env \<Rightarrow> core_ctx \<Rightarrow> ('x, 'db) CoreService \<Rightarrow> ('x, 'db) CoreService \<times> MetricsView" where
  "metrics_view E cx C =
     (case transport_queued_messages (ce_transport E) (cx_now cx) (co_transport C) of
        (R, queued) \<Rightarrow>
          (let n = st_statistics (co_state C) in
           (C\<lparr>co_transport := R\<rparr>,
            \<lparr>mv_uptime_seconds = uptime_seconds (cx_now cx) C, mv_transport = transport_name R,
             mv_peers_connected = transport_connected_peers R, mv_peers_pending = transport_pending_peers R,
             mv_payloads_queued = queued, mv_payloads_expired = expired_messages R,
             mv_payloads_dropped = dropped_payloads R, mv_friend_count = length (co_contacts C),
             mv_max_friends = app_max_friends (cfg_app (co_config C)), mv_groups = length (co_groups C),
             mv_groups_supported = supports_groups R,
             mv_friend_requests_pending = length (transport_pending_requests R),
             mv_friend_requests_dropped = dropped_requests R, mv_group_invites_dropped = dropped_invites R,
             mv_request_queue_depth = co_command_queue_depth C,
             mv_request_queue_capacity = cso_command_capacity (co_options C),
             mv_event_subscribers = cx_subscribers cx,
             mv_request_wait_last_us = micros (co_request_wait_last C),
             mv_request_wait_max_us = micros (co_request_wait_max C),
             mv_request_service_last_us = micros (co_request_service_last C),
             mv_request_service_max_us = micros (co_request_service_max C),
             mv_requests_served = co_requests_served C,
             mv_messages_sent = as_messages_sent n, mv_messages_received = as_messages_received n,
             mv_bytes_sent = as_bytes_sent n, mv_bytes_received = as_bytes_received n,
             mv_database_connected = is_initialized (co_database C),
             mv_persistent = is_persistent (co_database C),
             mv_peer_identities_changed = pinned_identity_changes R,
             mv_peer_identities_refused = pinned_identity_refusals R,
             mv_greetings_refused = refused_greetings R\<rparr>)))"

subsection \<open>The session file\<close>

text \<open>\<^verbatim>\<open>Path::parent\<close> and \<^verbatim>\<open>Path::with_extension\<close> of a path that ends in a file name.\<close>

definition path_parent :: "rtext \<Rightarrow> rtext" where
  "path_parent p = (case rsplit_once 47 p of None \<Rightarrow> [] | Some (dir, name) \<Rightarrow> dir)"

definition with_extension :: "rtext \<Rightarrow> rtext \<Rightarrow> rtext" where
  "with_extension p ext =
     (let parts = (case rsplit_once 47 p of None \<Rightarrow> ([], p) | Some (dir, name) \<Rightarrow> (dir @ [47], name));
          stem = (case rsplit_once 46 (snd parts) of
                    Some (before, after) \<Rightarrow> if before = [] then snd parts else before
                  | None \<Rightarrow> snd parts)
      in fst parts @ stem @ [46] @ ext)"

definition session_snapshot :: "('x, 'db) CoreService \<Rightarrow> SessionState" where
  "session_snapshot C = \<lparr>ss_nickname = co_nickname C, ss_status_message = co_status_message C,
     ss_contacts = co_contacts C,
     ss_statistics = (st_statistics (co_state C))\<lparr>as_start_time := None\<rparr>\<rparr>"

text \<open>The text an error shows is its outermost context.\<close>

definition save_session ::
    "('x, 'db) core_env \<Rightarrow> core_ctx \<Rightarrow> ('x, 'db) CoreService \<Rightarrow> ('x, 'db) CoreService \<times> (rtext + unit)" where
  "save_session E cx C =
     (let path = co_session_path C; temporary = with_extension path (lit ''tmp'') in
      case cx_create_dir cx of
        Some e \<Rightarrow> (C, Inl (lit ''Failed to create data directory '' @ path_parent path))
      | None \<Rightarrow>
          (case to_json (ce_session E) (session_snapshot C) of
             Inl e \<Rightarrow> (C, Inl (lit ''Failed to serialize session state''))
           | Inr json \<Rightarrow>
               (case cx_write cx of
                  Some e \<Rightarrow> (C, Inl (lit ''Failed to write '' @ temporary))
                | None \<Rightarrow>
                    (case cx_rename cx of
                       Some e \<Rightarrow> (C, Inl (lit ''Failed to replace '' @ path @ lit '' with the new snapshot''))
                     | None \<Rightarrow> (C\<lparr>co_session_file := FileBytes json\<rparr>, Inr ())))))"

definition load_session :: "('x, 'db) core_env \<Rightarrow> ('x, 'db) CoreService \<Rightarrow> ('x, 'db) CoreService" where
  "load_session E C =
     (case co_session_file C of
        FileMissing \<Rightarrow> C
      | FileUnreadable \<Rightarrow> C
      | FileBytes raw \<Rightarrow>
          if from_utf8 raw = None then C
          else case from_json (ce_session E) raw of
                 Inl e \<Rightarrow> C
               | Inr saved \<Rightarrow>
                   C\<lparr>co_nickname := (if ss_nickname saved \<noteq> [] \<and> cl_nickname (co_args C) = None
                                    then ss_nickname saved else co_nickname C),
                     co_status_message := (if ss_status_message saved \<noteq> []
                                    then ss_status_message saved else co_status_message C),
                     co_contacts := ss_contacts saved,
                     co_state := (co_state C)\<lparr>st_statistics := ss_statistics saved\<rparr>\<rparr>)"

subsection \<open>Construction and start\<close>

text \<open>What a new service finds on disk and draws at random.\<close>

record core_files =
  cf_system_dir :: "rtext option"
  cf_tox_built :: bool
  cf_savedata_path :: rtext
  cf_savedata :: stored_file
  cf_tox_store :: stored_file
  cf_pins :: stored_file
  cf_identity :: stored_file
  cf_session :: stored_file
  cf_writable :: bool
  cf_random_key :: bytes
  cf_random_secret :: bytes
  cf_identity_json :: "StoredIdentity json_codec"

definition initial_nickname :: "AppConfig \<Rightarrow> rtext" where
  "initial_nickname c =
     (case validate_nickname (app_default_nickname (cfg_app c)) of Inr n \<Rightarrow> n | Inl e \<Rightarrow> FALLBACK_NICKNAME)"

definition initial_status :: "AppConfig \<Rightarrow> rtext" where
  "initial_status c =
     (case validate_status (app_default_status (cfg_app c)) of Inr s \<Rightarrow> s | Inl e \<Rightarrow> [])"

definition core_crypto ::
    "('x, 'db) core_env \<Rightarrow> bytes \<Rightarrow> AppConfig \<Rightarrow> CliArgs \<Rightarrow> rtext + CryptoManager" where
  "core_crypto E random_key c args =
     (case cl_passphrase args of
        Some passphrase \<Rightarrow>
          (case from_passphrase (ce_crypto E) (cfg_crypto c) passphrase of
             Inl e \<Rightarrow> Inl (lit ''Failed to derive the encryption key from the passphrase'')
           | Inr m \<Rightarrow> Inr m)
      | None \<Rightarrow>
          (case crypto_manager_new (cfg_crypto c) random_key of
             Inl e \<Rightarrow> Inl (lit ''Failed to initialise the crypto manager'')
           | Inr m \<Rightarrow> Inr m))"

definition core_initial ::
    "('x, 'db) core_env \<Rightarrow> core_now \<Rightarrow> core_files \<Rightarrow> AppConfig \<Rightarrow> CliArgs \<Rightarrow> CryptoManager
      \<Rightarrow> 'db Database \<Rightarrow> 'x CoreTransport \<Rightarrow> ('x, 'db) CoreService" where
  "core_initial E now F c args crypto database transport =
     (let data_dir = core_data_dir (cf_system_dir F) args in
      \<lparr>co_config = c, co_args = args, co_state = app_state_new, co_crypto = crypto,
       co_transport = transport, co_database = database, co_nickname = initial_nickname c,
       co_status_message = initial_status c,
       co_identity = fst (load_or_create (ce_crypto E) (ce_hex E) (cf_identity_json F) (cf_writable F)
                            (cf_random_secret F) (cf_identity F)),
       co_contacts = [], co_active_chat = None, co_groups = [], co_active_group = None,
       co_started_at = cn_time now, co_last_auto_save = cn_clock now, co_inbox = True,
       co_session_path = path_join data_dir SESSION_STATE_FILE, co_session_file = cf_session F,
       co_data_dir = data_dir, co_options = core_options_default, co_command_queue_depth = 0,
       co_request_wait_last = 0, co_request_wait_max = 0, co_request_service_last = 0,
       co_request_service_max = 0, co_requests_served = 0, co_published = []\<rparr>)"

text \<open>\<^verbatim>\<open>CoreService::new\<close>; \<open>None\<close> is a panic of the transport's start.\<close>

definition core_new ::
    "('x, 'db) core_env \<Rightarrow> core_now \<Rightarrow> core_files \<Rightarrow> AppConfig \<Rightarrow> CliArgs
      \<Rightarrow> (rtext + ('x, 'db) CoreService) option" where
  "core_new E now F config args =
     (let c = apply_overrides (cf_system_dir F) config args;
          data_dir = core_data_dir (cf_system_dir F) args in
      case core_crypto E (cf_random_key F) c args of
        Inl e \<Rightarrow> Some (Inl e)
      | Inr crypto \<Rightarrow>
          (case database_new (cfg_database c) of
             Inl e \<Rightarrow> Some (Inl (lit ''Failed to initialise the database manager''))
           | Inr database \<Rightarrow>
               (case transport_new (ce_transport E) (cf_tox_built F) now c args data_dir crypto
                       (pin_store_load (re_pins (ce_transport E)) (cf_pins F))
                       (cf_savedata_path F) (cf_savedata F) (cf_tox_store F) (cf_writable F) of
                  None \<Rightarrow> None
                | Some (Inl e) \<Rightarrow> Some (Inl (lit ''Failed to initialise the transport''))
                | Some (Inr transport) \<Rightarrow>
                    Some (Inr (load_session E (core_initial E now F c args crypto database transport))))))"

definition wanted_peers :: "CliArgs \<Rightarrow> rtext list" where
  "wanted_peers args =
     cl_peers args @ (if cl_transport args = TransTcp
                      then (case cl_bootstrap_node args of Some node \<Rightarrow> [node] | None \<Rightarrow> []) else [])"

definition core_start ::
    "('x, 'db) core_env \<Rightarrow> core_now \<Rightarrow> ('x, 'db) CoreService \<Rightarrow> ('x, 'db) CoreService \<times> (rtext + unit)" where
  "core_start E now C =
     (case database_start (ce_sql E) (co_database C) of
        (D, Inl e) \<Rightarrow> (C\<lparr>co_database := D\<rparr>, Inl (lit ''Failed to start the database''))
      | (D, Inr _) \<Rightarrow>
          (let T = ce_transport E;
               R = transport_set_status T (co_status_message C)
                     (transport_set_identity T (co_identity C)
                        (transport_set_nickname T (co_nickname C) (co_transport C))) in
           case transport_start now R of
             (R', Inl e) \<Rightarrow> (C\<lparr>co_database := D, co_transport := R'\<rparr>, Inl (lit ''Failed to start the transport''))
           | (R', Inr _) \<Rightarrow>
               (C\<lparr>co_database := D,
                  co_transport := snd (transport_connect_all T now (wanted_peers (co_args C)) R'),
                  co_started_at := cn_time now,
                  co_state := (co_state C)\<lparr>st_statistics :=
                     (st_statistics (co_state C))\<lparr>as_start_time := Some (cn_time now)\<rparr>\<rparr>\<rparr>, Inr ())))"

definition with_options :: "CoreServiceOptions \<Rightarrow> ('x, 'db) CoreService \<Rightarrow> ('x, 'db) CoreService" where
  "with_options o' C = C\<lparr>co_options := o'\<rparr>"

end
