(* ===== verification/CoreRequests.thy ===== *)
theory CoreRequests
  imports Core
begin

section \<open>Core service: the request handlers (\<^verbatim>\<open>meta-text-core/src/ipc/core.rs\<close>)\<close>

text \<open>
  One definition for each handler, then \<open>core_handle\<close>, which dispatches a request to it. Each
  returns the service it leaves and the answer. A failure to store something the session can live
  without (a contact row, a history row, the session file) is logged by the code and leaves no
  trace in the answer; \<open>persist_contact\<close>, \<open>record_message\<close> and \<open>save_session\<close> keep whatever the
  database or the disk still holds.
\<close>

definition required :: "string \<Rightarrow> ResponseResult" where
  "required m = core_err (error_info_new EcInvalidRequest (lit m))"

definition persist_contact ::
    "('x, 'db) core_env \<Rightarrow> Contact \<Rightarrow> ('x, 'db) CoreService \<Rightarrow> ('x, 'db) CoreService" where
  "persist_contact E c C =
     (if is_persistent (co_database C)
      then C\<lparr>co_database := fst (save_contact (ce_sql E) c (co_database C))\<rparr> else C)"

definition count_sent :: "u64 \<Rightarrow> ('x, 'db) CoreService \<Rightarrow> ('x, 'db) CoreService" where
  "count_sent wire C =
     (let n = st_statistics (co_state C) in
      C\<lparr>co_state := (co_state C)\<lparr>st_statistics := n\<lparr>as_messages_sent := as_messages_sent n + 1,
          as_bytes_sent := as_bytes_sent n + wire\<rparr>\<rparr>\<rparr>)"

definition count_received :: "u64 \<Rightarrow> ('x, 'db) CoreService \<Rightarrow> ('x, 'db) CoreService" where
  "count_received wire C =
     (let n = st_statistics (co_state C) in
      C\<lparr>co_state := (co_state C)\<lparr>st_statistics := n\<lparr>as_messages_received := as_messages_received n + 1,
          as_bytes_received := as_bytes_received n + wire\<rparr>\<rparr>\<rparr>)"

text \<open>A row of the history, where there is a database; whether it was stored.\<close>

definition record_message ::
    "('x, 'db) core_env \<Rightarrow> StoredMessage \<Rightarrow> ('x, 'db) CoreService \<Rightarrow> ('x, 'db) CoreService \<times> bool" where
  "record_message E m C =
     (if \<not> is_persistent (co_database C) then (C, False)
      else case save_message (ce_sql E) m (co_database C) of
             (D, Inl e) \<Rightarrow> (C\<lparr>co_database := D\<rparr>, False)
           | (D, Inr _) \<Rightarrow> (C\<lparr>co_database := D\<rparr>, True))"

subsection \<open>Contacts\<close>

definition core_add_contact ::
    "('x, 'db) core_env \<Rightarrow> core_ctx \<Rightarrow> rtext \<Rightarrow> rtext option \<Rightarrow> ('x, 'db) CoreService
      \<Rightarrow> ('x, 'db) CoreService \<times> ResponseResult" where
  "core_add_contact E cx raw_identifier raw_note C =
     (case validate_identifier raw_identifier of
        Inl e \<Rightarrow> (C, core_err e)
      | Inr who \<Rightarrow>
     (case validate_note raw_note of
        Inl e \<Rightarrow> (C, core_err e)
      | Inr remark \<Rightarrow>
     (case friend_limit_error C of
        Some e \<Rightarrow> (C, core_err e)
      | None \<Rightarrow>
     (if list_ex (\<lambda>c. eq_ignore_ascii_case (from_utf8_lossy (ct_public_key c)) who \<or>
                      eq_ignore_ascii_case (ct_name c) who) (co_contacts C)
      then (C, core_ok (RpContactExists who))
      else
        (let contact = (contact_new (cn_uuid (cx_now cx)) (cn_time (cx_now cx)) who (utf8_bytes who))
                         \<lparr>ct_note := remark\<rparr>;
             asked = (if supports_friend_requests (co_transport C)
                      then (case transport_request_peer (ce_transport E) (cx_now cx) who (co_transport C) of
                              (R, Inl e) \<Rightarrow> (R, Inl e)
                            | (R, Inr (Some key)) \<Rightarrow> (R, Inr (contact\<lparr>ct_public_key := utf8_bytes key\<rparr>))
                            | (R, Inr None) \<Rightarrow> (R, Inr contact))
                      else (co_transport C, Inr contact)) in
         case asked of
           (R, Inl e) \<Rightarrow>
             (C\<lparr>co_transport := R\<rparr>, core_err (error_info_new EcNetwork
                (lit ''could not send a friend request to '' @ who @ lit '': '' @ error_display e)))
         | (R, Inr c) \<Rightarrow>
             (let C1 = persist_contact E c (C\<lparr>co_transport := R\<rparr>);
                  C2 = C1\<lparr>co_contacts := co_contacts C1 @ [c]\<rparr> in
              (C2, core_ok (RpContactAdded (length (co_contacts C2)) who))))))))"

definition core_remove_contact ::
    "('x, 'db) core_env \<Rightarrow> core_ctx \<Rightarrow> rtext \<Rightarrow> ('x, 'db) CoreService
      \<Rightarrow> ('x, 'db) CoreService \<times> ResponseResult" where
  "core_remove_contact E cx raw_target C =
     (let target = trim raw_target in
      if target = [] then (C, required ''a contact index or name is required'')
      else case find_contact_index (co_contacts C) target of
             None \<Rightarrow> (C, core_err (error_info_new EcNotFound
                         (lit ''no friend matches '' @ quoted target)))
           | Some i \<Rightarrow>
               (let removed = co_contacts C ! i;
                    C1 = C\<lparr>co_contacts := remove_at i (co_contacts C),
                           co_active_chat := (if co_active_chat C = Some (ct_id removed) then None
                                              else co_active_chat C)\<rparr> in
                (fst (save_session E cx C1), core_ok (RpContactRemoved (i + 1) (ct_name removed)))))"

definition core_select_conversation ::
    "rtext \<Rightarrow> ('x, 'db) CoreService \<Rightarrow> ('x, 'db) CoreService \<times> ResponseResult" where
  "core_select_conversation raw_target C =
     (let target = trim raw_target in
      if target = [] then
        (case active_conversation C of (active, index) \<Rightarrow> (C, core_ok (RpConversation active index)))
      else if parse_usize target = Some 0 then (C, required ''friend numbers start at 1'')
      else case find_contact_index (co_contacts C) target of
             None \<Rightarrow> (C, core_err (error_info_new EcNotFound
                         (lit ''no friend matches '' @ quoted target)))
           | Some i \<Rightarrow>
               (C\<lparr>co_active_chat := Some (ct_id (co_contacts C ! i))\<rparr>,
                core_ok (RpConversation (Some (ct_name (co_contacts C ! i))) (Some (i + 1)))))"

definition core_accept_request ::
    "('x, 'db) core_env \<Rightarrow> core_ctx \<Rightarrow> rtext \<Rightarrow> ('x, 'db) CoreService
      \<Rightarrow> ('x, 'db) CoreService \<times> ResponseResult" where
  "core_accept_request E cx public_key C =
     (let key = trim public_key in
      if key = [] then (C, required ''a friend request public key is required'')
      else case friend_limit_error C of
        Some e \<Rightarrow> (C, core_err e)
      | None \<Rightarrow>
     (case transport_accept_request (ce_transport E) key (co_transport C) of
        (R, Inl e) \<Rightarrow>
          (C\<lparr>co_transport := R\<rparr>, core_err (error_info_new EcNetwork
             (lit ''could not accept the friend request: '' @ error_display e)))
      | (R, Inr accepted) \<Rightarrow>
     (let C0 = C\<lparr>co_transport := R\<rparr> in
      case validate_identifier accepted of
        Inl e \<Rightarrow> (C0, core_err e)
      | Inr who \<Rightarrow>
          if list_ex (\<lambda>c. eq_ignore_ascii_case (ct_name c) who) (co_contacts C0)
          then (C0, core_ok (RpPeerRequestAccepted accepted))
          else
            (let c = contact_new (cn_uuid (cx_now cx)) (cn_time (cx_now cx)) who (utf8_bytes who);
                 C1 = persist_contact E c C0;
                 C2 = C1\<lparr>co_contacts := co_contacts C1 @ [c]\<rparr> in
             (fst (save_session E cx C2), core_ok (RpPeerRequestAccepted accepted))))))"

definition core_reject_request ::
    "('x, 'db) core_env \<Rightarrow> rtext \<Rightarrow> ('x, 'db) CoreService \<Rightarrow> ('x, 'db) CoreService \<times> ResponseResult" where
  "core_reject_request E public_key C =
     (let key = trim public_key in
      if key = [] then (C, required ''a friend request public key is required'')
      else case transport_reject_request (ce_transport E) key (co_transport C) of
             (R, Inl e) \<Rightarrow> (C\<lparr>co_transport := R\<rparr>, core_err (error_info_of e))
           | (R, Inr rejected) \<Rightarrow> (C\<lparr>co_transport := R\<rparr>, core_ok (RpPeerRequestRejected rejected)))"

subsection \<open>Nickname, status and connections\<close>

definition core_set_nickname ::
    "('x, 'db) core_env \<Rightarrow> rtext \<Rightarrow> ('x, 'db) CoreService \<Rightarrow> ('x, 'db) CoreService \<times> ResponseResult" where
  "core_set_nickname E raw C =
     (let wanted = trim raw in
      if wanted = [] then (C, core_ok (RpUpdated (lit ''nickname'') (co_nickname C)))
      else case validate_nickname wanted of
             Inl e \<Rightarrow> (C, core_err e)
           | Inr nick \<Rightarrow>
               (core_publish (CeNicknameChanged nick)
                  (C\<lparr>co_nickname := nick,
                     co_transport := transport_set_nickname (ce_transport E) nick (co_transport C)\<rparr>),
                core_ok (RpUpdated (lit ''nickname'') nick)))"

definition core_set_status ::
    "rtext \<Rightarrow> ('x, 'db) CoreService \<Rightarrow> ('x, 'db) CoreService \<times> ResponseResult" where
  "core_set_status raw C =
     (let wanted = trim raw in
      if wanted = [] then (C, core_ok (RpUpdated (lit ''status'') (co_status_message C)))
      else case validate_status wanted of
             Inl e \<Rightarrow> (C, core_err e)
           | Inr t \<Rightarrow>
               (core_publish (CeStatusChanged t) (C\<lparr>co_status_message := t\<rparr>),
                core_ok (RpUpdated (lit ''status'') t)))"

definition core_connect ::
    "('x, 'db) core_env \<Rightarrow> core_ctx \<Rightarrow> rtext \<Rightarrow> ('x, 'db) CoreService
      \<Rightarrow> ('x, 'db) CoreService \<times> ResponseResult" where
  "core_connect E cx raw C =
     (let address = trim raw; tox = (cl_transport (co_args C) = TransTox) in
      if address = [] then (C, required ''a peer address is required'')
      else if \<not> (if tox then is_valid_tox_address address else is_valid_peer_address address) then
        (C, core_err (error_info_new EcInvalidRequest (quoted address @ lit '' is not '' @
           (if tox then lit ''a valid 76 character Tox address'' else lit ''a valid host:port address''))))
      else case transport_request_peer (ce_transport E) (cx_now cx) address (co_transport C) of
             (R, Inl e) \<Rightarrow> (C\<lparr>co_transport := R\<rparr>, core_err (error_info_new EcNetwork
                (lit ''could not reach '' @ address @ lit '': '' @ error_display e)))
           | (R, Inr detail) \<Rightarrow>
               (C\<lparr>co_transport := R\<rparr>, core_ok (RpUpdated (lit ''connection'') (unwrap_or address detail))))"

subsection \<open>Messages\<close>

text \<open>The body of a message: validated text, or bytes from hexadecimal.\<close>

definition message_body ::
    "hex_lib \<Rightarrow> nat \<Rightarrow> rtext \<Rightarrow> ContentType \<Rightarrow> ErrorInfo + bytes" where
  "message_body H max_length t content =
     (case content of
        CText \<Rightarrow> (case validate_message t max_length of Inl e \<Rightarrow> Inl e | Inr m \<Rightarrow> Inr (utf8_bytes m))
      | CBinary \<Rightarrow> validate_binary H t max_length)"

text \<open>Who a message goes to: the given name, or the active conversation.\<close>

definition message_destination ::
    "'db sqlite \<Rightarrow> rtext option \<Rightarrow> ('x, 'db) CoreService \<Rightarrow> rtext option" where
  "message_destination Q target C =
     (case (case target of Some t \<Rightarrow> if trim t = [] then None else Some (trim t) | None \<Rightarrow> None) of
        Some name \<Rightarrow> Some name
      | None \<Rightarrow>
          (case co_active_chat C of
             None \<Rightarrow> None
           | Some chat \<Rightarrow>
               (case List.find (\<lambda>c. ct_id c = chat) (co_contacts C) of
                  None \<Rightarrow> Some (sq_uuid_text Q chat)
                | Some c \<Rightarrow> Some (ct_name c))))"

text \<open>The payload of a direct message and whether it is encrypted: as it is where the transport
  encrypts, else under the key of that peer's connection, else under the session key.\<close>

definition seal_message ::
    "('x, 'db) core_env \<Rightarrow> core_ctx \<Rightarrow> rtext \<Rightarrow> bytes \<Rightarrow> ('x, 'db) CoreService
      \<Rightarrow> MetaTextError + (bytes \<times> bool)" where
  "seal_message E cx destination body C =
     (if provides_encryption (co_transport C) then Inr (body, True)
      else
        (let L = ce_crypto E; nonce = cn_nonce (cx_now cx);
             sealed = (case transport_contact_key (ce_transport E) (cx_now cx) destination (co_transport C) of
                         Some key \<Rightarrow> encrypt_with L nonce (co_crypto C) key body
                       | None \<Rightarrow> encrypt L nonce (co_crypto C) body) in
         case sealed of
           Inl e \<Rightarrow> Inl e
         | Inr ciphertext \<Rightarrow> Inr (ciphertext, cm_enabled (co_crypto C))))"

definition binary_action :: "ContentType \<Rightarrow> MessageKind \<Rightarrow> bool" where
  "binary_action content kind \<longleftrightarrow> is_binary content \<and> kind = KAction"

definition core_send_message ::
    "('x, 'db) core_env \<Rightarrow> core_ctx \<Rightarrow> rtext option \<Rightarrow> rtext \<Rightarrow> MessageKind \<Rightarrow> ContentType
      \<Rightarrow> ('x, 'db) CoreService \<Rightarrow> ('x, 'db) CoreService \<times> ResponseResult" where
  "core_send_message E cx target raw kind content C =
     (let t = trim raw; H = ce_hex E in
      if t = [] then (C, required ''a message body is required'')
      else if binary_action content kind then (C, required ''a binary payload cannot be a third-person action'')
      else case message_body H (app_max_message_length (cfg_app (co_config C))) t content of
        Inl e \<Rightarrow> (C, core_err e)
      | Inr body \<Rightarrow>
     (case message_destination (ce_sql E) target C of
        None \<Rightarrow> (C, core_err (error_info_new EcNotFound (lit ''no active conversation; select one first'')))
      | Some destination \<Rightarrow>
     (case seal_message E cx destination body C of
        Inl e \<Rightarrow> (C, core_err (error_info_of e))
      | Inr (payload, encrypted) \<Rightarrow>
     (case transport_send_payload (ce_transport E) (cx_now cx) destination payload kind content (co_transport C) of
        (R, Inl e) \<Rightarrow> (C\<lparr>co_transport := R\<rparr>, core_err (error_info_of e))
      | (R, Inr outcome) \<Rightarrow>
          (let wire = of_nat (length payload);
               C1 = count_sent wire (C\<lparr>co_transport := R\<rparr>);
               row = stored_message_new (cn_time (cx_now cx)) Outgoing destination
                       (stored_form H content body) wire kind content in
           case record_message E row C1 of
             (C2, persisted) \<Rightarrow>
               (C2, core_ok (RpSent destination (send_report outcome (length payload) encrypted persisted))))))))"

definition core_history ::
    "('x, 'db) core_env \<Rightarrow> nat option \<Rightarrow> ('x, 'db) CoreService \<Rightarrow> ResponseResult" where
  "core_history E limit C =
     (if \<not> is_persistent (co_database C) then core_ok (RpHistory False [])
      else case recent_messages (ce_sql E)
                  (min MAX_HISTORY_LIMIT (max 1 (unwrap_or (cl_history_limit (co_args C)) limit)))
                  (co_database C) of
             Inl e \<Rightarrow> core_err (error_info_of e)
           | Inr messages \<Rightarrow> core_ok (RpHistory True (map (message_view (ce_sql E)) messages)))"

subsection \<open>Groups\<close>

definition core_list_groups ::
    "('x, 'db) core_env \<Rightarrow> ('x, 'db) CoreService \<Rightarrow> ('x, 'db) CoreService \<times> ResponseResult" where
  "core_list_groups E C =
     (let C1 = refresh_group_cache E C in
      (C1, core_ok (RpGroups (supports_groups (co_transport C)) (map group_view (co_groups C1)))))"

definition enter_group :: "Group \<Rightarrow> ('x, 'db) CoreService \<Rightarrow> ('x, 'db) CoreService" where
  "enter_group g C =
     (core_remember_group (g_id g) (g_name g) (g_members g) (g_joined g) C)\<lparr>co_active_group := Some (g_id g)\<rparr>"

definition core_create_group ::
    "('x, 'db) core_env \<Rightarrow> rtext \<Rightarrow> ('x, 'db) CoreService \<Rightarrow> ('x, 'db) CoreService \<times> ResponseResult" where
  "core_create_group E raw C =
     (case validate_group_name raw of
        Inl e \<Rightarrow> (C, core_err e)
      | Inr title \<Rightarrow>
          (case transport_create_group (ce_transport E) title (co_transport C) of
             (R, Inl e) \<Rightarrow> (C\<lparr>co_transport := R\<rparr>, core_err (group_error ''create a group'' e))
           | (R, Inr g) \<Rightarrow> (enter_group g (C\<lparr>co_transport := R\<rparr>), core_ok (RpGroupCreated (group_view g)))))"

definition core_join_group ::
    "('x, 'db) core_env \<Rightarrow> rtext \<Rightarrow> ('x, 'db) CoreService \<Rightarrow> ('x, 'db) CoreService \<times> ResponseResult" where
  "core_join_group E raw C =
     (let token = trim raw in
      if token = [] then (C, required ''a group invitation token is required'')
      else case transport_join_group (ce_transport E) token (co_transport C) of
             (R, Inl e) \<Rightarrow> (C\<lparr>co_transport := R\<rparr>, core_err (group_error ''join the group'' e))
           | (R, Inr g) \<Rightarrow> (enter_group g (C\<lparr>co_transport := R\<rparr>), core_ok (RpGroupJoined (group_view g))))"

definition core_decline_group_invite ::
    "('x, 'db) core_env \<Rightarrow> rtext \<Rightarrow> ('x, 'db) CoreService \<Rightarrow> ('x, 'db) CoreService \<times> ResponseResult" where
  "core_decline_group_invite E raw C =
     (case capability_refusal ''discard a group invitation'' C of
        Some e \<Rightarrow> (C, core_err e)
      | None \<Rightarrow>
          (let token = trim raw in
           if token = [] then (C, required ''a group invitation token is required'')
           else case transport_decline_group_invite (ce_transport E) token (co_transport C) of
                  (R, Inl e) \<Rightarrow> (C\<lparr>co_transport := R\<rparr>, core_err (group_error ''discard the group invitation'' e))
                | (R, Inr declined) \<Rightarrow> (C\<lparr>co_transport := R\<rparr>, core_ok (RpGroupInviteDeclined declined))))"

definition core_rename_group ::
    "('x, 'db) core_env \<Rightarrow> rtext option \<Rightarrow> rtext \<Rightarrow> ('x, 'db) CoreService
      \<Rightarrow> ('x, 'db) CoreService \<times> ResponseResult" where
  "core_rename_group E group_id raw C =
     (case capability_refusal ''rename a group'' C of
        Some e \<Rightarrow> (C, core_err e)
      | None \<Rightarrow>
     (case validate_group_name raw of
        Inl e \<Rightarrow> (C, core_err e)
      | Inr name \<Rightarrow>
     (if name = [] then (C, required ''a group name is required to rename a group'')
      else case resolve_group (unwrap_or [] group_id) C of
        None \<Rightarrow> (C, core_err no_such_group)
      | Some g \<Rightarrow>
          (case transport_rename_group (ce_transport E) (g_id g) name (co_transport C) of
             (R, Inl e) \<Rightarrow> (C\<lparr>co_transport := R\<rparr>, core_err (group_error ''rename the group'' e))
           | (R, Inr _) \<Rightarrow>
               (core_remember_group (g_id g) name (g_members g) (g_joined g) (C\<lparr>co_transport := R\<rparr>),
                core_ok (RpGroupRenamed (g_id g) name))))))"

definition core_invite_to_group ::
    "('x, 'db) core_env \<Rightarrow> rtext \<Rightarrow> rtext \<Rightarrow> ('x, 'db) CoreService
      \<Rightarrow> ('x, 'db) CoreService \<times> ResponseResult" where
  "core_invite_to_group E group_id raw_peer C =
     (case capability_refusal ''invite to a group'' C of
        Some e \<Rightarrow> (C, core_err e)
      | None \<Rightarrow>
     (case resolve_group group_id C of
        None \<Rightarrow> (C, core_err no_such_group)
      | Some g \<Rightarrow>
          (let peer = trim raw_peer in
           if peer = [] then (C, required ''a peer to invite is required'')
           else case transport_invite_to_group (ce_transport E) (g_id g) peer (co_transport C) of
                  (R, Inl e) \<Rightarrow> (C\<lparr>co_transport := R\<rparr>, core_err (group_error ''invite the peer'' e))
                | (R, Inr _) \<Rightarrow> (C\<lparr>co_transport := R\<rparr>, core_ok (RpGroupInvited (g_id g) peer)))))"

text \<open>The history row of a group message; a failure is only logged.\<close>

definition save_group_message ::
    "('x, 'db) core_env \<Rightarrow> timestamp \<Rightarrow> Group \<Rightarrow> rtext \<Rightarrow> u64 \<Rightarrow> MessageKind \<Rightarrow> ContentType \<Rightarrow> bool
      \<Rightarrow> ('x, 'db) CoreService \<Rightarrow> ('x, 'db) CoreService" where
  "save_group_message E now g body wire kind content incoming C =
     fst (record_message E (stored_message_in_group now (if incoming then Incoming else Outgoing) g body
                              wire kind content) C)"

definition core_send_group_message ::
    "('x, 'db) core_env \<Rightarrow> core_ctx \<Rightarrow> rtext option \<Rightarrow> rtext \<Rightarrow> MessageKind \<Rightarrow> ContentType
      \<Rightarrow> ('x, 'db) CoreService \<Rightarrow> ('x, 'db) CoreService \<times> ResponseResult" where
  "core_send_group_message E cx group_id raw kind content C =
     (let t = trim raw; H = ce_hex E in
      if t = [] then (C, required ''a message body is required'')
      else if binary_action content kind then (C, required ''a binary payload cannot be a third-person action'')
      else case capability_refusal ''send to a group'' C of
        Some e \<Rightarrow> (C, core_err e)
      | None \<Rightarrow>
     (case resolve_group (unwrap_or [] group_id) C of
        None \<Rightarrow> (C, core_err no_such_group)
      | Some g \<Rightarrow>
     (case message_body H (app_max_message_length (cfg_app (co_config C))) t content of
        Inl e \<Rightarrow> (C, core_err e)
      | Inr body \<Rightarrow>
     (case (if provides_encryption (co_transport C) then Inr body
            else encrypt (ce_crypto E) (cn_nonce (cx_now cx)) (co_crypto C) body) of
        Inl e \<Rightarrow> (C, core_err (error_info_of e))
      | Inr payload \<Rightarrow>
     (case transport_send_group_payload (ce_transport E) (g_id g) payload kind (co_transport C) of
        (R, Inl e) \<Rightarrow> (C\<lparr>co_transport := R\<rparr>, core_err (group_error ''send to the group'' e))
      | (R, Inr _) \<Rightarrow>
          (let wire = of_nat (length payload) in
           (save_group_message E (cn_time (cx_now cx)) g (stored_form H content body) wire kind content False
              (count_sent wire (C\<lparr>co_transport := R\<rparr>)),
            core_ok (RpGroupSent (g_id g) (g_name g) wire))))))))"

definition core_leave_group ::
    "('x, 'db) core_env \<Rightarrow> rtext option \<Rightarrow> ('x, 'db) CoreService
      \<Rightarrow> ('x, 'db) CoreService \<times> ResponseResult" where
  "core_leave_group E group_id C =
     (case capability_refusal ''leave a group'' C of
        Some e \<Rightarrow> (C, core_err e)
      | None \<Rightarrow>
     (case resolve_group (unwrap_or [] group_id) C of
        None \<Rightarrow> (C, core_err no_such_group)
      | Some g \<Rightarrow>
          (case transport_leave_group (ce_transport E) (g_id g) (co_transport C) of
             (R, Inl e) \<Rightarrow> (C\<lparr>co_transport := R\<rparr>, core_err (group_error ''leave the group'' e))
           | (R, Inr _) \<Rightarrow>
               (C\<lparr>co_transport := R, co_groups := filter (\<lambda>h. g_id h \<noteq> g_id g) (co_groups C),
                  co_active_group := (if co_active_group C = Some (g_id g) then None else co_active_group C)\<rparr>,
                core_ok (RpGroupLeft (g_id g))))))"

subsection \<open>Dispatch\<close>

definition peer_request_view :: "PeerRequest \<Rightarrow> PeerRequestView" where
  "peer_request_view r = \<lparr>prv_public_key = pr_public_key r, prv_message = pr_message r,
     prv_short_key = abbreviate (pr_public_key r)\<rparr>"

definition group_invite_view :: "GroupInvite \<Rightarrow> GroupInviteView" where
  "group_invite_view i = \<lparr>giv_peer = gi_peer i, giv_peer_id = gi_peer_id i, giv_token = gi_token i\<rparr>"

fun core_handle ::
    "('x, 'db) core_env \<Rightarrow> core_ctx \<Rightarrow> Request \<Rightarrow> ('x, 'db) CoreService
      \<Rightarrow> ('x, 'db) CoreService \<times> ResponseResult" where
  "core_handle E cx (RqPing echo) C = (C, core_ok (RpPong echo))"
| "core_handle E cx RqSessionInfo C =
     (case session_info E (cx_now cx) (refresh_group_cache E C) of (C', i) \<Rightarrow> (C', core_ok (RpSession i)))"
| "core_handle E cx RqStatistics C = (C, core_ok (RpStatistics (statistics_view (cx_now cx) C)))"
| "core_handle E cx RqListContacts C =
     (C, core_ok (RpContacts (map (contact_view (ce_sql E)) (co_contacts C))))"
| "core_handle E cx (RqAddContact who remark) C = core_add_contact E cx who remark C"
| "core_handle E cx (RqRemoveContact target) C = core_remove_contact E cx target C"
| "core_handle E cx (RqSetNickname nick) C = core_set_nickname E nick C"
| "core_handle E cx (RqSetStatus t) C = core_set_status t C"
| "core_handle E cx (RqSelectConversation target) C = core_select_conversation target C"
| "core_handle E cx (RqConnect address) C = core_connect E cx address C"
| "core_handle E cx (RqSendMessage target t kind content) C = core_send_message E cx target t kind content C"
| "core_handle E cx (RqHistory limit) C = (C, core_history E limit C)"
| "core_handle E cx RqSaveSession C =
     (case save_session E cx C of
        (C', Inr _) \<Rightarrow> (C', core_ok (RpSaved (co_session_path C)))
      | (C', Inl e) \<Rightarrow> (C', core_err (error_info_critical EcInternal e)))"
| "core_handle E cx RqShutdown C = (C, core_ok (RpShuttingDown True))"
| "core_handle E cx RqGroupInvites C =
     (C, core_ok (RpGroupInvites (supports_groups (co_transport C))
            (map group_invite_view (transport_pending_group_invites (co_transport C)))))"
| "core_handle E cx RqPeerRequests C =
     (C, core_ok (RpPeerRequests (map peer_request_view (transport_pending_requests (co_transport C)))))"
| "core_handle E cx (RqAcceptPeerRequest key) C = core_accept_request E cx key C"
| "core_handle E cx (RqRejectPeerRequest key) C = core_reject_request E key C"
| "core_handle E cx RqGroups C = core_list_groups E C"
| "core_handle E cx (RqCreateGroup title) C = core_create_group E (unwrap_or [] title) C"
| "core_handle E cx (RqJoinGroup token) C = core_join_group E token C"
| "core_handle E cx (RqDeclineGroupInvite token) C = core_decline_group_invite E token C"
| "core_handle E cx (RqRenameGroup group_id name) C = core_rename_group E group_id name C"
| "core_handle E cx (RqInviteToGroup group_id peer) C = core_invite_to_group E group_id peer C"
| "core_handle E cx (RqSendGroupMessage group_id t kind content) C =
     core_send_group_message E cx group_id t kind content C"
| "core_handle E cx (RqLeaveGroup group_id) C = core_leave_group E group_id C"
| "core_handle E cx RqMetrics C = (case metrics_view E cx C of (C', m) \<Rightarrow> (C', core_ok (RpMetrics m)))"

end
