(* ===== verification/CoreLoop.thy ===== *)
theory CoreLoop
  imports CoreRequests
begin

section \<open>Core service: events and the loop (\<^verbatim>\<open>meta-text-core/src/ipc/core.rs\<close>)\<close>

text \<open>
  What the transport pushes, the ticker and the loop that serves commands. The events waiting in
  the channel are kept by the transport that sent them (\<open>nw_events\<close>, \<open>tx_events\<close>).
\<close>

subsection \<open>Events of the transport\<close>

definition core_on_group_message ::
    "('x, 'db) core_env \<Rightarrow> core_ctx \<Rightarrow> rtext \<Rightarrow> rtext \<Rightarrow> rtext \<Rightarrow> rtext \<Rightarrow> bytes \<Rightarrow> MessageKind \<Rightarrow> ContentType
      \<Rightarrow> ('x, 'db) CoreService \<Rightarrow> ('x, 'db) CoreService" where
  "core_on_group_message E cx group_id name peer peer_id payload kind content C =
     (let wire = of_nat (length payload); C0 = count_received wire C in
      case body_of (ce_hex E) payload content of
        Inl reason \<Rightarrow>
          core_publish (CeMessageUndecodable peer peer_id wire reason (Some group_id)
                          (if name = [] then None else Some name)) C0
      | Inr body \<Rightarrow>
          (let group_name =
                 (if name = [] then
                    (case List.find (\<lambda>g. eq_ignore_ascii_case (g_id g) group_id) (co_groups C0) of
                       None \<Rightarrow> [] | Some g \<Rightarrow> g_name g)
                  else name);
               C1 = core_remember_group group_id group_name 0 True C0;
               g = \<lparr>g_id = group_id, g_name = group_name, g_members = 0, g_joined = True\<rparr>;
               C2 = save_group_message E (cn_time (cx_now cx)) g body wire kind content True C1 in
           core_publish (CeGroupMessageReceived group_id group_name peer peer_id wire body kind content) C2))"

definition core_on_message ::
    "('x, 'db) core_env \<Rightarrow> core_ctx \<Rightarrow> rtext \<Rightarrow> rtext \<Rightarrow> bytes \<Rightarrow> MessageKind \<Rightarrow> ContentType
      \<Rightarrow> ('x, 'db) CoreService \<Rightarrow> ('x, 'db) CoreService" where
  "core_on_message E cx peer peer_id payload kind content C =
     (let wire = of_nat (length payload); C0 = count_received wire C in
      case body_of (ce_hex E) payload content of
        Inl reason \<Rightarrow> core_publish (CeMessageUndecodable peer peer_id wire reason None None) C0
      | Inr body \<Rightarrow>
          core_publish (CeMessageReceived peer peer_id body wire kind content)
            (fst (record_message E
               (stored_message_new (cn_time (cx_now cx)) Incoming peer body wire kind content) C0)))"

fun core_on_network_event :: "NetworkEvent \<Rightarrow> ('x, 'db) CoreService \<Rightarrow> ('x, 'db) CoreService" where
  "core_on_network_event (NePeerConnected peer_id metadata) C =
     core_publish (CePeerConnected peer_id (unwrap_or [] (map_of metadata (lit ''nickname'')))) C"
| "core_on_network_event (NePeerDisconnected peer_id reason) C =
     core_publish (CePeerDisconnected peer_id reason) C"
| "core_on_network_event (NeBootstrapStatus address connected) C = C"

definition friend_status_changed :: "timestamp \<Rightarrow> uuid \<Rightarrow> bool \<Rightarrow> Contact list \<Rightarrow> Contact list" where
  "friend_status_changed now friend_id is_online =
     update_first (\<lambda>c. ct_id c = friend_id)
       (\<lambda>c. let c' = c\<lparr>ct_status := (if is_online then UsOnline else UsOffline)\<rparr> in
            if is_online then update_last_seen now c' else c')"

text \<open>The service after an event, and whether the loop ends.\<close>

fun core_on_app_event ::
    "('x, 'db) core_env \<Rightarrow> core_ctx \<Rightarrow> AppEvent \<Rightarrow> ('x, 'db) CoreService \<Rightarrow> ('x, 'db) CoreService \<times> bool" where
  "core_on_app_event E cx (AeMessageReceived peer peer_id payload kind content) C =
     (core_on_message E cx peer peer_id payload kind content C, False)"
| "core_on_app_event E cx (AeMessageDelivered peer peer_id message_id) C =
     (core_publish (CeMessageDelivered peer peer_id message_id) C, False)"
| "core_on_app_event E cx (AePeerRequestReceived peer_id m) C =
     (core_publish (CePeerRequestReceived peer_id (abbreviate peer_id) m) C, False)"
| "core_on_app_event E cx (AeNetworkEvent e) C = (core_on_network_event e C, False)"
| "core_on_app_event E cx (AeFriendStatusChanged friend_id is_online) C =
     (C\<lparr>co_contacts := friend_status_changed (cn_time (cx_now cx)) friend_id is_online (co_contacts C)\<rparr>, False)"
| "core_on_app_event E cx (AeUserInput t) C = (C, False)"
| "core_on_app_event E cx (AeGroupMessageReceived group_id name peer peer_id payload kind content) C =
     (core_on_group_message E cx group_id name peer peer_id payload kind content C, False)"
| "core_on_app_event E cx (AeGroupChanged group_id name members joined) C =
     (core_publish (CeGroupChanged group_id name members joined)
        (core_remember_group group_id name members joined C), False)"
| "core_on_app_event E cx (AeGroupInviteReceived peer peer_id token) C =
     (core_publish (CeGroupInviteReceived peer peer_id token) C, False)"
| "core_on_app_event E cx AeShutdown C = (C, True)"

subsection \<open>The loop\<close>

fun transport_next_event :: "'x CoreTransport \<Rightarrow> 'x CoreTransport \<times> AppEvent option" where
  "transport_next_event (Tcp N) =
     (case nw_events N of [] \<Rightarrow> (Tcp N, None) | e # es \<Rightarrow> (Tcp (N\<lparr>nw_events := es\<rparr>), Some e))"
| "transport_next_event (Tox X) =
     (case tx_events X of [] \<Rightarrow> (Tox X, None) | e # es \<Rightarrow> (Tox (X\<lparr>tx_events := es\<rparr>), Some e))"

text \<open>Dropping the receiver: what waits is lost, and later events are never read.\<close>

fun transport_close_inbox :: "'x CoreTransport \<Rightarrow> 'x CoreTransport" where
  "transport_close_inbox (Tcp N) = Tcp (N\<lparr>nw_events := []\<rparr>)"
| "transport_close_inbox (Tox X) = Tox (X\<lparr>tx_events := [], tx_events_open := False\<rparr>)"

definition core_drop_inbox :: "('x, 'db) CoreService \<Rightarrow> ('x, 'db) CoreService" where
  "core_drop_inbox C =
     (if co_inbox C then C\<lparr>co_inbox := False, co_transport := transport_close_inbox (co_transport C)\<rparr> else C)"

definition record_request :: "duration \<Rightarrow> duration \<Rightarrow> ('x, 'db) CoreService \<Rightarrow> ('x, 'db) CoreService" where
  "record_request waited served C =
     C\<lparr>co_request_wait_last := waited, co_request_service_last := served,
       co_request_wait_max := max (co_request_wait_max C) waited,
       co_request_service_max := max (co_request_service_max C) served,
       co_requests_served := co_requests_served C + 1\<rparr>"

definition u32_capped :: "nat \<Rightarrow> u32" where
  "u32_capped n = (if n < 2 ^ 32 then of_nat n else - 1)"

definition core_on_tick ::
    "('x, 'db) core_env \<Rightarrow> core_ctx \<Rightarrow> ('x, 'db) CoreService \<Rightarrow> ('x, 'db) CoreService" where
  "core_on_tick E cx C =
     (let C0 = C\<lparr>co_state := (co_state C)\<lparr>st_statistics := (st_statistics (co_state C))
                  \<lparr>as_active_connections := u32_capped (transport_connected_peers (co_transport C))\<rparr>\<rparr>\<rparr>;
          interval = app_auto_save_interval (cfg_app (co_config C)); now = cn_clock (cx_now cx) in
      if 0 < interval \<and> interval \<le> (now - co_last_auto_save C) div secs 1
      then (fst (save_session E cx C0))\<lparr>co_last_auto_save := now\<rparr> else C0)"

definition core_finish ::
    "('x, 'db) core_env \<Rightarrow> core_ctx \<Rightarrow> ('x, 'db) CoreService \<Rightarrow> ('x, 'db) CoreService" where
  "core_finish E cx C =
     (let C1 = fst (save_session E cx C);
          C2 = C1\<lparr>co_transport := fst (transport_shutdown (ce_transport E) (co_transport C1))\<rparr>;
          C3 = C2\<lparr>co_database := fst (database_shutdown (co_database C2))\<rparr> in
      core_publish (CeShutdown (lit ''the core service stopped'')) C3)"

text \<open>What the loop wakes up for: a command with its waiting and service times and the number of
  commands behind it, the end of the commands, the next event, the end of the events, a tick.\<close>

datatype core_input =
    CiCommand Request duration duration nat
  | CiNoCommands
  | CiEvent
  | CiNoEvents
  | CiTick

text \<open>One turn: the service it leaves, the answer it sends, and whether the task ends.\<close>

fun core_turn ::
    "('x, 'db) core_env \<Rightarrow> core_ctx \<Rightarrow> core_input \<Rightarrow> ('x, 'db) CoreService
      \<Rightarrow> ('x, 'db) CoreService \<times> ResponseResult option \<times> bool" where
  "core_turn E cx (CiCommand r waited served behind) C =
     (case core_handle E cx r (C\<lparr>co_command_queue_depth := behind\<rparr>) of
        (C1, answer) \<Rightarrow>
          (if r = RqShutdown
           then (core_finish E cx (core_drop_inbox (record_request waited served C1)), Some answer, True)
           else (record_request waited served C1, Some answer, False)))"
| "core_turn E cx CiNoCommands C = (core_finish E cx (core_drop_inbox C), None, True)"
| "core_turn E cx CiEvent C =
     (if \<not> co_inbox C then (C, None, False)
      else case transport_next_event (co_transport C) of
             (R, None) \<Rightarrow> (C, None, False)
           | (R, Some e) \<Rightarrow>
               (case core_on_app_event E cx e (C\<lparr>co_transport := R\<rparr>) of
                  (C1, stop) \<Rightarrow>
                    (if stop then (core_finish E cx (core_drop_inbox C1), None, True) else (C1, None, False))))"
| "core_turn E cx CiNoEvents C = (C\<lparr>co_inbox := False\<rparr>, None, False)"
| "core_turn E cx CiTick C = (core_on_tick E cx C, None, False)"

text \<open>\<^verbatim>\<open>run\<close>: a ready event, then turns until one ends the task; inputs after that are not served.\<close>

definition core_ready ::
    "('x, 'db) core_env \<Rightarrow> core_ctx \<Rightarrow> ('x, 'db) CoreService \<Rightarrow> ('x, 'db) CoreService" where
  "core_ready E cx C =
     (case session_info E (cx_now cx) C of (C', i) \<Rightarrow> core_publish (CeReady i) C')"

fun core_loop ::
    "('x, 'db) core_env \<Rightarrow> (core_ctx \<times> core_input) list \<Rightarrow> ('x, 'db) CoreService
      \<Rightarrow> ('x, 'db) CoreService \<times> ResponseResult list \<times> bool" where
  "core_loop E [] C = (C, [], False)"
| "core_loop E ((cx, i) # rest) C =
     (case core_turn E cx i C of
        (C1, answer, True) \<Rightarrow> (C1, (case answer of None \<Rightarrow> [] | Some a \<Rightarrow> [a]), True)
      | (C1, answer, False) \<Rightarrow>
          (case core_loop E rest C1 of
             (C2, answers, stopped) \<Rightarrow>
               (C2, (case answer of None \<Rightarrow> answers | Some a \<Rightarrow> a # answers), stopped)))"

text \<open>\<^verbatim>\<open>CoreHandle::request\<close>: the answer of a task that runs, an error of one that does not.\<close>

definition handle_request :: "bool \<Rightarrow> ResponseResult option \<Rightarrow> ErrorInfo + Reply" where
  "handle_request alive answer =
     (if \<not> alive then Inl (error_info_critical EcInternal (lit ''the core service is not running''))
      else case answer of
             None \<Rightarrow> Inl (error_info_critical EcInternal (lit ''the core service dropped the reply channel''))
           | Some r \<Rightarrow> into_result r)"

end
