(* ===== verification/TransportFacts.thy ===== *)
theory TransportFacts
  imports CoreLoop
begin

section \<open>What the transports keep\<close>

text \<open>
  The interface between the core and its transport, as a locale: a property of the transport that
  every operation the core uses keeps is kept by every handler and every turn of the core's loop.
  It is interpreted twice on the model's own definitions: with the bounds of both transports, and
  with the choice of the transport, which never changes.
\<close>

locale transport_kept =
  fixes E :: "('x, 'db) core_env" and ok :: "'x CoreTransport \<Rightarrow> bool"
  assumes queued: "transport_queued_messages (ce_transport E) now R = (R', n) \<Longrightarrow> ok R \<Longrightarrow> ok R'"
    and shutdown: "ok R \<Longrightarrow> ok (fst (transport_shutdown (ce_transport E) R))"
    and set_nickname: "ok R \<Longrightarrow> ok (transport_set_nickname (ce_transport E) nick R)"
    and request_peer: "transport_request_peer (ce_transport E) now who R = (R', r1) \<Longrightarrow> ok R \<Longrightarrow> ok R'"
    and send_payload: "transport_send_payload (ce_transport E) now who body k t R = (R', r2) \<Longrightarrow> ok R \<Longrightarrow> ok R'"
    and accept_request: "transport_accept_request (ce_transport E) key R = (R', r3) \<Longrightarrow> ok R \<Longrightarrow> ok R'"
    and reject_request: "transport_reject_request (ce_transport E) key R = (R', r3) \<Longrightarrow> ok R \<Longrightarrow> ok R'"
    and groups: "transport_groups (ce_transport E) R = (R', r4) \<Longrightarrow> ok R \<Longrightarrow> ok R'"
    and create_group: "transport_create_group (ce_transport E) title R = (R', r5) \<Longrightarrow> ok R \<Longrightarrow> ok R'"
    and join_group: "transport_join_group (ce_transport E) token R = (R', r5) \<Longrightarrow> ok R \<Longrightarrow> ok R'"
    and decline: "transport_decline_group_invite (ce_transport E) token R = (R', r3) \<Longrightarrow> ok R \<Longrightarrow> ok R'"
    and invite: "transport_invite_to_group (ce_transport E) g who R = (R', r6) \<Longrightarrow> ok R \<Longrightarrow> ok R'"
    and send_group: "transport_send_group_payload (ce_transport E) g body k R = (R', r6) \<Longrightarrow> ok R \<Longrightarrow> ok R'"
    and rename_group: "transport_rename_group (ce_transport E) g title R = (R', r6) \<Longrightarrow> ok R \<Longrightarrow> ok R'"
    and leave_group: "transport_leave_group (ce_transport E) g R = (R', r6) \<Longrightarrow> ok R \<Longrightarrow> ok R'"
    and next_event: "transport_next_event R = (R', e) \<Longrightarrow> ok R \<Longrightarrow> ok R'"
    and close_inbox: "ok R \<Longrightarrow> ok (transport_close_inbox R)"

subsection \<open>Parts of the core that leave the transport alone\<close>

lemma core_remember_group_transport [simp]: "co_transport (core_remember_group i n m j C) = co_transport C"
  by (simp add: core_remember_group_def Let_def)

lemma remember_fold_transport [simp]:
  "co_transport (fold (\<lambda>g. core_remember_group (g_id g) (g_name g) (g_members g) (g_joined g)) gs C) = co_transport C"
  by (induction gs arbitrary: C) simp_all

lemma persist_contact_transport [simp]: "co_transport (persist_contact E c C) = co_transport C"
  by (simp add: persist_contact_def)

lemma count_transport [simp]:
  "co_transport (count_sent w C) = co_transport C" "co_transport (count_received w C) = co_transport C"
  by (simp_all add: count_sent_def count_received_def Let_def)

lemma record_message_transport [simp]: "co_transport (fst (record_message E m C)) = co_transport C"
  by (simp add: record_message_def split: prod.split sum.split)

lemma save_group_message_transport [simp]: "co_transport (save_group_message E n g b w k t i C) = co_transport C"
  by (simp add: save_group_message_def)

lemma save_session_transport [simp]: "co_transport (fst (save_session E cx C)) = co_transport C"
  by (simp add: save_session_def Let_def split: option.split sum.split)

lemma core_publish_transport [simp]: "co_transport (core_publish e C) = co_transport C"
  by (simp add: core_publish_def)

lemma enter_group_transport [simp]: "co_transport (enter_group g C) = co_transport C"
  by (simp add: enter_group_def)

lemma record_request_transport [simp]: "co_transport (record_request w s C) = co_transport C"
  by (simp add: record_request_def)

lemma core_on_tick_transport [simp]: "co_transport (core_on_tick E cx C) = co_transport C"
  by (simp add: core_on_tick_def Let_def)

lemma core_on_app_event_transport [simp]: "co_transport (fst (core_on_app_event E cx e C)) = co_transport C"
proof (cases e)
  case (AeNetworkEvent n)
  then show ?thesis by (cases n) simp_all
qed (simp_all add: core_on_message_def core_on_group_message_def Let_def split: sum.split)

subsection \<open>Handlers and turns\<close>

context transport_kept
begin

lemma session_info_kept:
  "ok (co_transport C) \<Longrightarrow> ok (co_transport (fst (session_info E now C)))"
  by (auto simp: session_info_def split: prod.split dest: queued)

lemma metrics_view_kept:
  "ok (co_transport C) \<Longrightarrow> ok (co_transport (fst (metrics_view E cx C)))"
  by (auto simp: metrics_view_def Let_def split: prod.split dest: queued)

lemma refresh_kept:
  "ok (co_transport C) \<Longrightarrow> ok (co_transport (refresh_group_cache E C))"
  by (auto simp: refresh_group_cache_def split: prod.split sum.split dest: groups)

lemma contact_handlers_kept:
  assumes "ok (co_transport C)"
  shows "ok (co_transport (fst (core_add_contact E cx who remark C)))"
    and "ok (co_transport (fst (core_remove_contact E cx target C)))"
    and "ok (co_transport (fst (core_select_conversation target C)))"
    and "ok (co_transport (fst (core_accept_request E cx key C)))"
    and "ok (co_transport (fst (core_reject_request E key C)))"
proof -
  show "ok (co_transport (fst (core_add_contact E cx who remark C)))"
    using assms by (auto simp: core_add_contact_def Let_def split: sum.split option.split prod.split dest: request_peer)
  show "ok (co_transport (fst (core_remove_contact E cx target C)))"
    using assms by (auto simp: core_remove_contact_def Let_def split: option.split)
  show "ok (co_transport (fst (core_select_conversation target C)))"
    using assms by (simp add: core_select_conversation_def Let_def split: option.split prod.split)
  show "ok (co_transport (fst (core_accept_request E cx key C)))"
    using assms by (auto simp: core_accept_request_def Let_def split: sum.split option.split prod.split dest: accept_request)
  show "ok (co_transport (fst (core_reject_request E key C)))"
    using assms by (auto simp: core_reject_request_def Let_def split: sum.split prod.split dest: reject_request)
qed

lemma profile_handlers_kept:
  assumes "ok (co_transport C)"
  shows "ok (co_transport (fst (core_set_nickname E nick C)))"
    and "ok (co_transport (fst (core_set_status t C)))"
    and "ok (co_transport (fst (core_connect E cx address C)))"
    and "ok (co_transport (fst (core_send_message E cx target t kind content C)))"
proof -
  show "ok (co_transport (fst (core_set_nickname E nick C)))"
    using assms by (auto simp: core_set_nickname_def Let_def set_nickname split: sum.split)
  show "ok (co_transport (fst (core_set_status t C)))"
    using assms by (auto simp: core_set_status_def Let_def split: sum.split)
  show "ok (co_transport (fst (core_connect E cx address C)))"
    using assms by (auto simp: core_connect_def Let_def split: sum.split prod.split dest: request_peer)
  have "ok (co_transport C2)" if "record_message E m (count_sent w (C\<lparr>co_transport := R\<rparr>)) = (C2, p)" "ok R" for C2 p m w R
    using that record_message_transport [of E m "count_sent w (C\<lparr>co_transport := R\<rparr>)"] by simp
  then show "ok (co_transport (fst (core_send_message E cx target t kind content C)))"
    using assms by (auto simp: core_send_message_def Let_def split: sum.split option.split prod.split dest: send_payload)
qed

lemma group_handlers_kept:
  assumes "ok (co_transport C)"
  shows "ok (co_transport (fst (core_list_groups E C)))"
    and "ok (co_transport (fst (core_create_group E t C)))"
    and "ok (co_transport (fst (core_join_group E t C)))"
    and "ok (co_transport (fst (core_decline_group_invite E t C)))"
    and "ok (co_transport (fst (core_rename_group E gid t C)))"
    and "ok (co_transport (fst (core_invite_to_group E g who C)))"
    and "ok (co_transport (fst (core_send_group_message E cx gid t kind content C)))"
    and "ok (co_transport (fst (core_leave_group E gid C)))"
proof -
  show "ok (co_transport (fst (core_list_groups E C)))"
    using refresh_kept [OF assms] by (simp add: core_list_groups_def Let_def)
  show "ok (co_transport (fst (core_create_group E t C)))"
    using assms by (auto simp: core_create_group_def split: sum.split prod.split dest: create_group)
  show "ok (co_transport (fst (core_join_group E t C)))"
    using assms by (auto simp: core_join_group_def Let_def split: sum.split prod.split dest: join_group)
  show "ok (co_transport (fst (core_decline_group_invite E t C)))"
    using assms by (auto simp: core_decline_group_invite_def Let_def split: sum.split option.split prod.split dest: decline)
  show "ok (co_transport (fst (core_rename_group E gid t C)))"
    using assms by (auto simp: core_rename_group_def split: sum.split option.split prod.split dest: rename_group)
  show "ok (co_transport (fst (core_invite_to_group E g who C)))"
    using assms by (auto simp: core_invite_to_group_def Let_def split: sum.split option.split prod.split dest: invite)
  show "ok (co_transport (fst (core_send_group_message E cx gid t kind content C)))"
    using assms by (auto simp: core_send_group_message_def Let_def split: sum.split option.split prod.split dest: send_group)
  show "ok (co_transport (fst (core_leave_group E gid C)))"
    using assms by (auto simp: core_leave_group_def split: sum.split option.split prod.split dest: leave_group)
qed

lemma handle_kept:
  assumes "ok (co_transport C)"
  shows "ok (co_transport (fst (core_handle E cx r C)))"
proof (cases r)
  case RqSessionInfo
  then show ?thesis
    using session_info_kept [OF refresh_kept [OF assms], of "cx_now cx"] by (auto split: prod.splits)
next
  case RqMetrics
  then show ?thesis using metrics_view_kept [OF assms, of cx] by (auto split: prod.splits)
next
  case RqSaveSession
  obtain C1 a where e: "save_session E cx C = (C1, a)" by fastforce
  then have "co_transport C1 = co_transport C" using save_session_transport [of E cx C] by simp
  then show ?thesis using assms by (cases a) (simp_all add: RqSaveSession e)
qed (simp_all add: assms contact_handlers_kept profile_handlers_kept group_handlers_kept)

lemma finish_kept:
  "ok (co_transport C) \<Longrightarrow> ok (co_transport (core_finish E cx (core_drop_inbox C)))"
  by (simp add: core_finish_def core_drop_inbox_def Let_def shutdown close_inbox)

lemma turn_kept:
  assumes "ok (co_transport C)"
  shows "ok (co_transport (fst (core_turn E cx i C)))"
proof (cases i)
  case (CiCommand r w s b)
  obtain C1 a where h: "core_handle E cx r (C\<lparr>co_command_queue_depth := b\<rparr>) = (C1, a)" by fastforce
  have "ok (co_transport C1)"
    using handle_kept [of "C\<lparr>co_command_queue_depth := b\<rparr>" cx r] assms h by simp
  then show ?thesis by (simp add: CiCommand h finish_kept)
next
  case CiNoCommands
  then show ?thesis using finish_kept assms by simp
next
  case CiEvent
  obtain R e where n: "transport_next_event (co_transport C) = (R, e)" by fastforce
  have R: "ok R" by (rule next_event [OF n assms])
  show ?thesis
  proof (cases e)
    case None
    then show ?thesis by (simp add: CiEvent n assms)
  next
    case (Some ev)
    obtain C1 stop where a: "core_on_app_event E cx ev (C\<lparr>co_transport := R\<rparr>) = (C1, stop)" by fastforce
    have "ok (co_transport C1)"
      using core_on_app_event_transport [of E cx ev "C\<lparr>co_transport := R\<rparr>"] a R by simp
    then show ?thesis by (simp add: CiEvent n Some a finish_kept assms)
  qed
qed (simp_all add: assms)

end

subsection \<open>The bounds of the transports\<close>

fun transport_wf :: "pin_env \<Rightarrow> 'x CoreTransport \<Rightarrow> bool" where
  "transport_wf P (Tcp N) = network_wf P N"
| "transport_wf P (Tox X) = tox_wf X"

definition same_kind :: "'x CoreTransport \<Rightarrow> 'x CoreTransport \<Rightarrow> bool" where
  "same_kind R0 R \<longleftrightarrow> transport_name R = transport_name R0"

lemma network_methods_wf:
  assumes wf: "network_wf P N"
  shows "network_wf P (network_shutdown N)" and "network_wf P (set_nickname nick N)"
    and "network_wf P (snd (connect_peer P s d who N))" and "network_wf P (snd (network_start b N))"
    and "network_wf P (set_identity P i N)"
proof -
  show "network_wf P (network_shutdown N)"
    using wf by (simp add: network_shutdown_def network_wf_def peers_wf_def outbox_wf_def)
  show "network_wf P (set_nickname nick N)" "network_wf P (set_identity P i N)"
    using wf by (simp_all add: set_nickname_def set_identity_def Let_def queue_all_wf)
  show "network_wf P (snd (connect_peer P s d who N))"
    using wf by (simp add: connect_peer_def Let_def desire_peer_wf register_wf mark_resolved_wf split: sum.split)
  have "network_wf P (N\<lparr>nw_listener_addr := a, nw_port := p, nw_started := True\<rparr>)" for a p
    using wf by (simp add: network_wf_def)
  then show "network_wf P (snd (network_start b N))" using wf by (simp add: network_start_def split: sum.split)
qed

lemma tox_close_wf [simp]: "tox_wf (X\<lparr>tx_events := es, tx_events_open := b\<rparr>) = tox_wf X"
  by (simp add: tox_wf_def)

lemma request_peer_transport:
  "fst (transport_request_peer T now who (Tcp N)) =
     Tcp (snd (connect_peer (re_pins T) (snd (cn_dial now who)) (fst (cn_dial now who)) who N))"
  "fst (transport_request_peer T now who (Tox X)) = Tox (fst (tox_request_peer (re_tox T) who X))"
  by (simp_all split: prod.split sum.split)

text \<open>Every operation keeps the bounds and the choice of the transport.\<close>

lemma transport_wf_kept:
  assumes "transport_wf (re_pins T) R"
  shows "transport_wf (re_pins T) (fst (transport_queued_messages T now R))"
    and "transport_wf (re_pins T) (fst (transport_shutdown T R))"
    and "transport_wf (re_pins T) (transport_set_nickname T nick R)"
    and "transport_wf (re_pins T) (fst (transport_request_peer T now who R))"
    and "transport_wf (re_pins T) (fst (transport_send_payload T now who body k t R))"
    and "transport_wf (re_pins T) (fst (transport_accept_request T key R))"
    and "transport_wf (re_pins T) (fst (transport_reject_request T key R))"
    and "transport_wf (re_pins T) (fst (transport_groups T R))"
    and "transport_wf (re_pins T) (fst (transport_create_group T title R))"
    and "transport_wf (re_pins T) (fst (transport_join_group T token R))"
    and "transport_wf (re_pins T) (fst (transport_decline_group_invite T token R))"
    and "transport_wf (re_pins T) (fst (transport_invite_to_group T g who R))"
    and "transport_wf (re_pins T) (fst (transport_send_group_payload T g body k R))"
    and "transport_wf (re_pins T) (fst (transport_rename_group T g title R))"
    and "transport_wf (re_pins T) (fst (transport_leave_group T g R))"
    and "transport_wf (re_pins T) (fst (transport_next_event R))"
    and "transport_wf (re_pins T) (transport_close_inbox R)"
  using assms
  by (cases R; simp add: split_beta request_peer_transport network_methods_wf send_ciphertext_to_peer_wf
      tox_queued_messages_wf tox_shutdown_wf friend_methods_wf tox_send_payload_wf group_methods_wf tox_join_group_wf
      split: list.split del: transport_request_peer.simps)+

lemma same_kind_kept:
  assumes "same_kind R0 R"
  shows "same_kind R0 (fst (transport_queued_messages T now R))"
    and "same_kind R0 (fst (transport_shutdown T R))"
    and "same_kind R0 (transport_set_nickname T nick R)"
    and "same_kind R0 (fst (transport_request_peer T now who R))"
    and "same_kind R0 (fst (transport_send_payload T now who body k t R))"
    and "same_kind R0 (fst (transport_accept_request T key R))"
    and "same_kind R0 (fst (transport_reject_request T key R))"
    and "same_kind R0 (fst (transport_groups T R))"
    and "same_kind R0 (fst (transport_create_group T title R))"
    and "same_kind R0 (fst (transport_join_group T token R))"
    and "same_kind R0 (fst (transport_decline_group_invite T token R))"
    and "same_kind R0 (fst (transport_invite_to_group T g who R))"
    and "same_kind R0 (fst (transport_send_group_payload T g body k R))"
    and "same_kind R0 (fst (transport_rename_group T g title R))"
    and "same_kind R0 (fst (transport_leave_group T g R))"
    and "same_kind R0 (fst (transport_next_event R))"
    and "same_kind R0 (transport_close_inbox R)"
  using assms
  by (cases R; simp add: same_kind_def split_beta request_peer_transport split: list.split del: transport_request_peer.simps)+

lemma kept_from_fst: "(\<And>R. ok R \<Longrightarrow> ok (fst (f R))) \<Longrightarrow> f R = (R', r) \<Longrightarrow> ok R \<Longrightarrow> ok R'"
  by (metis fst_conv)

interpretation bounded: transport_kept E "transport_wf (re_pins (ce_transport E))"
  for E :: "('x, 'db) core_env"
  by unfold_locales (erule (1) kept_from_fst [rotated] | rule transport_wf_kept; assumption)+

interpretation fixed: transport_kept E "same_kind R0"
  for E :: "('x, 'db) core_env" and R0 :: "'x CoreTransport"
  by unfold_locales (erule (1) kept_from_fst [rotated] | rule same_kind_kept; assumption)+

end
