(* ===== verification/CoreFacts.thy ===== *)
theory CoreFacts
  imports TransportFacts Supervisor
begin

section \<open>What the core keeps\<close>

text \<open>
  The invariant of the service under every interleaving of its own turns with the tasks of its
  transport, what a request is answered with, and what a failed request leaves.
\<close>

subsection \<open>What is shown to a front end\<close>

text \<open>Text without control characters other than newline and tab.\<close>

definition clean_body :: "rtext \<Rightarrow> bool" where
  "clean_body t \<longleftrightarrow> (\<forall>c \<in> set t. is_control c \<longrightarrow> c = 10 \<or> c = 9)"

fun event_clean :: "CoreEvent \<Rightarrow> bool" where
  "event_clean (CeMessageReceived peer peer_id body wire kind content) = clean_body body"
| "event_clean (CeGroupMessageReceived group_id g peer peer_id wire body kind content) = clean_body body"
| "event_clean (CeNicknameChanged n) = (n \<noteq> [] \<and> displayable MAX_NICKNAME_LEN n)"
| "event_clean (CeStatusChanged t) = displayable MAX_STATUS_LEN t"
| "event_clean _ = True"

lemma hexdigit_not_control: "is_ascii_hexdigit c \<Longrightarrow> \<not> is_control c"
  by (auto simp: is_ascii_hexdigit_def is_control_def)

lemma body_of_clean:
  assumes "hex_laws H" "body_of H payload content = Inr body"
  shows "clean_body body"
proof (cases "is_binary content")
  case True
  then have "body = hex_encode H payload" using assms(2) by (simp add: body_of_def)
  then show ?thesis
    using hex_laws_digits [OF assms(1), of payload] hexdigit_not_control
    by (auto simp: clean_body_def list_all_iff)
next
  case False
  then show ?thesis
    using assms(2) by (auto simp: body_of_def clean_body_def contains_forbidden_control_iff
        ALLOWED_MESSAGE_CONTROLS_def split: option.splits if_splits)
qed

subsection \<open>The invariant\<close>

definition profile_ok :: "('x, 'db) CoreService \<Rightarrow> bool" where
  "profile_ok C \<longleftrightarrow> co_nickname C \<noteq> [] \<and> displayable MAX_NICKNAME_LEN (co_nickname C) \<and>
     displayable MAX_STATUS_LEN (co_status_message C)"

definition contacts_ok :: "('x, 'db) CoreService \<Rightarrow> bool" where
  "contacts_ok C \<longleftrightarrow> length (co_contacts C) \<le> app_max_friends (cfg_app (co_config C)) \<and>
     (\<forall>chat. co_active_chat C = Some chat \<longrightarrow> chat \<in> ct_id ` set (co_contacts C))"

definition service_ok :: "('x, 'db) CoreService \<Rightarrow> bool" where
  "service_ok C \<longleftrightarrow> profile_ok C \<and> contacts_ok C \<and> (\<forall>e \<in> set (co_published C). event_clean e)"

text \<open>The fields that the invariant reads: a change of any other one is of no effect.\<close>

definition core_view ::
    "('x, 'db) CoreService \<Rightarrow> rtext \<times> rtext \<times> Contact list \<times> uuid option \<times> nat \<times> CoreEvent list" where
  "core_view C = (co_nickname C, co_status_message C, co_contacts C, co_active_chat C,
     app_max_friends (cfg_app (co_config C)), co_published C)"

lemma service_ok_view: "core_view C' = core_view C \<Longrightarrow> service_ok C' = service_ok C"
  by (simp add: core_view_def service_ok_def profile_ok_def contacts_ok_def)

lemma core_view_fields [simp]:
  "core_view (C\<lparr>co_transport := v1\<rparr>) = core_view C" "core_view (C\<lparr>co_database := v2\<rparr>) = core_view C"
  "core_view (C\<lparr>co_groups := v3\<rparr>) = core_view C" "core_view (C\<lparr>co_active_group := v4\<rparr>) = core_view C"
  "core_view (C\<lparr>co_state := v5\<rparr>) = core_view C" "core_view (C\<lparr>co_session_file := v6\<rparr>) = core_view C"
  "core_view (C\<lparr>co_inbox := v7\<rparr>) = core_view C" "core_view (C\<lparr>co_last_auto_save := v8\<rparr>) = core_view C"
  "core_view (C\<lparr>co_command_queue_depth := v9\<rparr>) = core_view C"
  by (simp_all add: core_view_def)

lemma core_view_remember [simp]: "core_view (core_remember_group i n m j C) = core_view C"
  by (simp add: core_remember_group_def Let_def)

lemma core_view_record [simp]: "core_view (fst (record_message E row C)) = core_view C"
  by (simp add: record_message_def split: prod.split sum.split)

lemma core_view_save [simp]: "core_view (fst (save_session E cx C)) = core_view C"
  by (simp add: save_session_def Let_def split: option.split sum.split)

lemma core_view_steps [simp]:
  "core_view (persist_contact E c C) = core_view C"
  "core_view (count_sent w C) = core_view C" "core_view (count_received w C) = core_view C"
  "core_view (save_group_message E now g b w k t inc C) = core_view C"
  "core_view (enter_group g C) = core_view C"
  "core_view (record_request wt sv C) = core_view C"
  "core_view (core_on_tick E cx C) = core_view C"
  "core_view (core_drop_inbox C) = core_view C"
  "core_view (fst (session_info E nw C)) = core_view C"
  "core_view (fst (metrics_view E cx C)) = core_view C"
  by (simp_all add: persist_contact_def count_sent_def count_received_def Let_def save_group_message_def enter_group_def
      core_on_tick_def core_drop_inbox_def session_info_def metrics_view_def split: prod.split)
    (simp_all add: record_request_def core_drop_inbox_def core_view_def)

lemma core_view_remember_fold [simp]:
  "core_view (fold (\<lambda>g. core_remember_group (g_id g) (g_name g) (g_members g) (g_joined g)) gs C) = core_view C"
  by (induction gs arbitrary: C) simp_all

lemma core_view_refresh [simp]: "core_view (refresh_group_cache E C) = core_view C"
  by (simp add: refresh_group_cache_def split: prod.split sum.split)

lemma core_view_record_pair:
  "record_message E row C = (C', p) \<Longrightarrow> core_view C' = core_view C"
  using core_view_record [of E row C] by simp

lemma service_ok_same: "service_ok C \<Longrightarrow> core_view C' = core_view C \<Longrightarrow> service_ok C'"
  using service_ok_view by blast

text \<open>Handlers that leave all of it as it was.\<close>

lemma core_view_handlers:
  "core_view (fst (core_reject_request E key C)) = core_view C"
  "core_view (fst (core_connect E cx address C)) = core_view C"
  "core_view (fst (core_send_message E cx target t kind content C)) = core_view C"
  "core_view (fst (core_list_groups E C)) = core_view C"
  "core_view (fst (core_create_group E t C)) = core_view C"
  "core_view (fst (core_join_group E t C)) = core_view C"
  "core_view (fst (core_decline_group_invite E t C)) = core_view C"
  "core_view (fst (core_rename_group E gid t C)) = core_view C"
  "core_view (fst (core_invite_to_group E g who C)) = core_view C"
  "core_view (fst (core_send_group_message E cx gid t kind content C)) = core_view C"
  "core_view (fst (core_leave_group E gid C)) = core_view C"
proof -
  show "core_view (fst (core_reject_request E key C)) = core_view C"
    by (simp add: core_reject_request_def Let_def split: prod.split sum.split)
  show "core_view (fst (core_connect E cx address C)) = core_view C"
    by (simp add: core_connect_def Let_def split: prod.split sum.split)
  show "core_view (fst (core_send_message E cx target t kind content C)) = core_view C"
    by (auto simp: core_send_message_def Let_def dest: core_view_record_pair split: prod.split sum.split option.split)
  show "core_view (fst (core_list_groups E C)) = core_view C" by (simp add: core_list_groups_def Let_def)
  show "core_view (fst (core_create_group E t C)) = core_view C"
    by (simp add: core_create_group_def split: prod.split sum.split)
  show "core_view (fst (core_join_group E t C)) = core_view C"
    by (simp add: core_join_group_def Let_def split: prod.split sum.split)
  show "core_view (fst (core_decline_group_invite E t C)) = core_view C"
    by (simp add: core_decline_group_invite_def Let_def split: prod.split sum.split option.split)
  show "core_view (fst (core_rename_group E gid t C)) = core_view C"
    by (simp add: core_rename_group_def split: prod.split sum.split option.split)
  show "core_view (fst (core_invite_to_group E g who C)) = core_view C"
    by (simp add: core_invite_to_group_def Let_def split: prod.split sum.split option.split)
  show "core_view (fst (core_send_group_message E cx gid t kind content C)) = core_view C"
    by (simp add: core_send_group_message_def Let_def split: prod.split sum.split option.split)
  show "core_view (fst (core_leave_group E gid C)) = core_view C"
    by (simp add: core_leave_group_def split: prod.split sum.split option.split)
qed

lemma service_ok_handlers:
  assumes "service_ok C"
  shows "service_ok (fst (core_reject_request E key C))"
    and "service_ok (fst (core_connect E cx address C))"
    and "service_ok (fst (core_send_message E cx target t kind content C))"
    and "service_ok (fst (core_list_groups E C))"
    and "service_ok (fst (core_create_group E t C))"
    and "service_ok (fst (core_join_group E t C))"
    and "service_ok (fst (core_decline_group_invite E t C))"
    and "service_ok (fst (core_rename_group E gid t C))"
    and "service_ok (fst (core_invite_to_group E g who C))"
    and "service_ok (fst (core_send_group_message E cx gid t kind content C))"
    and "service_ok (fst (core_leave_group E gid C))"
  using assms by (simp_all add: service_ok_view [OF core_view_handlers(1)] service_ok_view [OF core_view_handlers(2)]
    service_ok_view [OF core_view_handlers(3)] service_ok_view [OF core_view_handlers(4)]
    service_ok_view [OF core_view_handlers(5)] service_ok_view [OF core_view_handlers(6)]
    service_ok_view [OF core_view_handlers(7)] service_ok_view [OF core_view_handlers(8)]
    service_ok_view [OF core_view_handlers(9)] service_ok_view [OF core_view_handlers(10)]
    service_ok_view [OF core_view_handlers(11)])

lemma friend_limit_None: "friend_limit_error C = None \<longleftrightarrow> length (co_contacts C) < app_max_friends (cfg_app (co_config C))"
  by (auto simp: friend_limit_error_def Let_def)

text \<open>A contact joins the list where the limit allows one more.\<close>

lemma service_ok_contact:
  assumes "service_ok C" "core_view C' = core_view C" "friend_limit_error C = None"
  shows "service_ok (C'\<lparr>co_contacts := co_contacts C' @ [c]\<rparr>)"
  using assms by (auto simp: service_ok_def profile_ok_def contacts_ok_def core_view_def friend_limit_None)

lemma add_contact_ok: "service_ok C \<Longrightarrow> service_ok (fst (core_add_contact E cx who remark C))"
proof -
  assume ok: "service_ok C"
  have added: "service_ok (persist_contact E c C'\<lparr>co_contacts := co_contacts (persist_contact E c C') @ [c]\<rparr>)"
    if "core_view C' = core_view C" "friend_limit_error C = None" for C' c
    by (rule service_ok_contact [OF ok _ that(2)]) (simp add: that(1))
  have moved: "service_ok (C\<lparr>co_transport := R\<rparr>)" for R
    using ok service_ok_view [OF core_view_fields(1)] by blast
  show ?thesis
    using ok by (auto simp: core_add_contact_def Let_def moved added split: sum.split option.split prod.split)
qed

lemma accept_request_ok: "service_ok C \<Longrightarrow> service_ok (fst (core_accept_request E cx key C))"
proof -
  assume ok: "service_ok C"
  have added: "service_ok (fst (save_session E cx
      (persist_contact E c C'\<lparr>co_contacts := co_contacts (persist_contact E c C') @ [c]\<rparr>)))"
    if "core_view C' = core_view C" "friend_limit_error C = None" for C' c
  proof -
    have "service_ok (persist_contact E c C'\<lparr>co_contacts := co_contacts (persist_contact E c C') @ [c]\<rparr>)"
      by (rule service_ok_contact [OF ok _ that(2)]) (simp add: that(1))
    then show ?thesis using service_ok_view [OF core_view_save] by blast
  qed
  have moved: "service_ok (C\<lparr>co_transport := R\<rparr>)" for R
    using ok service_ok_view [OF core_view_fields(1)] by blast
  show ?thesis
    using ok by (auto simp: core_accept_request_def Let_def moved added split: sum.split option.split prod.split)
qed

lemma find_contact_index_bound: "find_contact_index cs t = Some i \<Longrightarrow> i < length cs"
  by (auto simp: find_contact_index_def dest: position_SomeD split: option.splits if_splits)

lemma set_remove_at_nth: "i < length xs \<Longrightarrow> x \<in> set xs \<Longrightarrow> x = xs ! i \<or> x \<in> set (remove_at i xs)"
  by (subst (asm) id_take_nth_drop [of i xs]) (auto simp: remove_at_def)

lemma remove_contact_ok: "service_ok C \<Longrightarrow> service_ok (fst (core_remove_contact E cx target C))"
proof -
  assume ok: "service_ok C"
  have removed: "service_ok (C\<lparr>co_contacts := remove_at i (co_contacts C),
      co_active_chat := (if co_active_chat C = Some (ct_id (co_contacts C ! i)) then None else co_active_chat C)\<rparr>)"
    (is "service_ok ?C") if i: "i < length (co_contacts C)" for i
  proof -
    have "length (remove_at i (co_contacts C)) \<le> app_max_friends (cfg_app (co_config C))"
      using ok i unfolding service_ok_def contacts_ok_def by (simp add: length_remove_at) linarith
    moreover have "chat \<in> ct_id ` set (remove_at i (co_contacts C))"
      if "co_active_chat C = Some chat" "chat \<noteq> ct_id (co_contacts C ! i)" for chat
      using ok that set_remove_at_nth [OF i] unfolding service_ok_def contacts_ok_def by blast
    ultimately show ?thesis
      using ok by (auto simp: service_ok_def profile_ok_def contacts_ok_def)
  qed
  show ?thesis
    using ok removed [OF find_contact_index_bound]
    by (auto simp: core_remove_contact_def Let_def service_ok_view [OF core_view_save] simp del: if_split
        split: option.split split: if_split)
qed

lemma select_conversation_ok: "service_ok C \<Longrightarrow> service_ok (fst (core_select_conversation target C))"
proof -
  assume ok: "service_ok C"
  have "service_ok (C\<lparr>co_active_chat := Some (ct_id (co_contacts C ! i))\<rparr>)"
    if "find_contact_index (co_contacts C) t = Some i" for i t
    using ok find_contact_index_bound [OF that] by (auto simp: service_ok_def profile_ok_def contacts_ok_def)
  then show ?thesis using ok by (auto simp: core_select_conversation_def Let_def split: option.split prod.split)
qed

lemma set_nickname_ok: "service_ok C \<Longrightarrow> service_ok (fst (core_set_nickname E nick C))"
  by (auto simp: core_set_nickname_def Let_def core_publish_def service_ok_def profile_ok_def contacts_ok_def
      validate_nickname_Inr split: sum.split)

lemma set_status_ok: "service_ok C \<Longrightarrow> service_ok (fst (core_set_status t C))"
  by (auto simp: core_set_status_def Let_def core_publish_def service_ok_def profile_ok_def contacts_ok_def
      validate_status_Inr split: sum.split)

lemma core_handle_ok:
  assumes "service_ok C"
  shows "service_ok (fst (core_handle E cx r C))"
proof (cases r)
  case RqSessionInfo
  have "service_ok (fst (session_info E (cx_now cx) (refresh_group_cache E C)))"
    by (rule service_ok_same [OF assms]) simp
  then show ?thesis by (auto simp: RqSessionInfo split: prod.splits)
next
  case RqMetrics
  have "service_ok (fst (metrics_view E cx C))" by (rule service_ok_same [OF assms]) simp
  then show ?thesis by (auto simp: RqMetrics split: prod.splits)
next
  case RqSaveSession
  obtain C1 a where e: "save_session E cx C = (C1, a)" by fastforce
  then have "service_ok C1" using assms service_ok_view [OF core_view_save, of E cx C] by simp
  then show ?thesis by (cases a) (simp_all add: RqSaveSession e)
qed (simp_all add: assms service_ok_handlers add_contact_ok accept_request_ok remove_contact_ok
    select_conversation_ok set_nickname_ok set_status_ok)

lemma service_ok_publish: "event_clean e \<Longrightarrow> service_ok (core_publish e C) = service_ok C"
  by (auto simp: core_publish_def service_ok_def profile_ok_def contacts_ok_def)

lemma friend_status_changed_ids [simp]:
  "map ct_id (friend_status_changed now i b cs) = map ct_id cs"
  "length (friend_status_changed now i b cs) = length cs"
  by (induction cs) (simp_all add: friend_status_changed_def Let_def update_last_seen_def)

lemma friend_status_changed_set [simp]: "ct_id ` set (friend_status_changed now i b cs) = ct_id ` set cs"
  using friend_status_changed_ids(1) [of now i b cs] by (metis list.set_map)

lemma core_on_app_event_ok:
  assumes "hex_laws (ce_hex E)" "service_ok C"
  shows "service_ok (fst (core_on_app_event E cx e C))"
proof -
  have same: "service_ok C'" if "core_view C' = core_view C" for C'
    by (rule service_ok_same [OF assms(2) that])
  show ?thesis
  proof (cases e)
    case (AeMessageReceived peer peer_id payload kind content)
    then show ?thesis
      by (auto simp: core_on_message_def Let_def service_ok_publish same body_of_clean [OF assms(1)] split: sum.split)
  next
    case (AeGroupMessageReceived group_id name peer peer_id payload kind content)
    then show ?thesis
      by (auto simp: core_on_group_message_def Let_def service_ok_publish same body_of_clean [OF assms(1)] split: sum.split)
  next
    case (AeNetworkEvent n)
    then show ?thesis using assms by (cases n) (simp_all add: service_ok_publish)
  next
    case (AeFriendStatusChanged i b)
    then show ?thesis using assms(2) by (simp add: service_ok_def profile_ok_def contacts_ok_def)
  qed (simp_all add: service_ok_publish same)
qed

lemma core_finish_ok: "service_ok C \<Longrightarrow> service_ok (core_finish E cx (core_drop_inbox C))"
  unfolding core_finish_def Let_def by (rule iffD2 [OF service_ok_publish]) (simp, erule service_ok_same, simp)

lemma core_turn_ok:
  assumes "hex_laws (ce_hex E)" "service_ok C"
  shows "service_ok (fst (core_turn E cx i C))"
proof (cases i)
  case (CiCommand r w sv b)
  obtain C1 a where h: "core_handle E cx r (C\<lparr>co_command_queue_depth := b\<rparr>) = (C1, a)" by fastforce
  have "service_ok (C\<lparr>co_command_queue_depth := b\<rparr>)" by (rule service_ok_same [OF assms(2)]) simp
  then have "service_ok C1" using core_handle_ok [of "C\<lparr>co_command_queue_depth := b\<rparr>" E cx r] h by simp
  then have "service_ok (record_request w sv C1)" by (rule service_ok_same) simp
  then show ?thesis by (simp add: CiCommand h core_finish_ok)
next
  case CiEvent
  obtain R e where n: "transport_next_event (co_transport C) = (R, e)" by fastforce
  have R: "service_ok (C\<lparr>co_transport := R\<rparr>)" by (rule service_ok_same [OF assms(2)]) simp
  show ?thesis
  proof (cases e)
    case None
    then show ?thesis using assms by (simp add: CiEvent n)
  next
    case (Some ev)
    obtain C1 stop where a: "core_on_app_event E cx ev (C\<lparr>co_transport := R\<rparr>) = (C1, stop)" by fastforce
    have "service_ok C1" using core_on_app_event_ok [OF assms(1) R, of cx ev] a by simp
    then show ?thesis using assms by (simp add: CiEvent n Some a core_finish_ok)
  qed
qed (simp_all add: core_finish_ok service_ok_same [OF assms(2)])

subsection \<open>Every interleaving\<close>

text \<open>
  A turn of the core, or a step of a task of its transport: of the peer network's (its shared
  tables; which addresses are being dialled is any), or of the Tox worker and bridge.
\<close>

inductive service_step :: "('x, 'db) core_env \<Rightarrow> ('x, 'db) CoreService \<Rightarrow> ('x, 'db) CoreService \<Rightarrow> bool"
  for E :: "('x, 'db) core_env" where
  service_turn: "service_step E C (fst (core_turn E cx i C))"
| service_tcp:
    "co_transport C = Tcp (tk_network t) \<Longrightarrow> task_step (re_pins (ce_transport E)) t t' \<Longrightarrow>
     service_step E C (C\<lparr>co_transport := Tcp (tk_network t')\<rparr>)"
| service_tox:
    "co_transport C = Tox X \<Longrightarrow> tox_step (re_tox (ce_transport E)) X X' \<Longrightarrow>
     service_step E C (C\<lparr>co_transport := Tox X'\<rparr>)"

lemma service_step_keeps:
  assumes "service_step E C C'" "env_ok (re_pins (ce_transport E))" "service_ok C"
    "transport_wf (re_pins (ce_transport E)) (co_transport C)"
  shows "service_ok C' \<and> transport_wf (re_pins (ce_transport E)) (co_transport C') \<and>
    same_kind (co_transport C) (co_transport C')"
proof -
  have moved: "service_ok (C\<lparr>co_transport := R\<rparr>)" for R by (rule service_ok_same [OF assms(3)]) simp
  from assms(1) show ?thesis
  proof cases
    case (service_turn cx i)
    have "hex_laws (ce_hex E)" using assms(2) by (simp add: env_ok_def)
    then show ?thesis
      using core_turn_ok assms(3) bounded.turn_kept [OF assms(4), of cx i]
        fixed.turn_kept [of "co_transport C" C E cx i]
      by (simp add: service_turn same_kind_def)
  next
    case (service_tcp t t')
    then show ?thesis
      using assms(2,4) moved task_step_wf [of "re_pins (ce_transport E)" t t'] by (simp add: same_kind_def)
  next
    case (service_tox X X')
    then show ?thesis
      using assms(4) moved tox_step_wf [of "re_tox (ce_transport E)" X X'] by (simp add: same_kind_def)
  qed
qed

lemma service_steps_keep:
  assumes "(service_step E)\<^sup>*\<^sup>* C C'" "env_ok (re_pins (ce_transport E))" "service_ok C"
    "transport_wf (re_pins (ce_transport E)) (co_transport C)"
  shows "service_ok C' \<and> transport_wf (re_pins (ce_transport E)) (co_transport C') \<and>
    same_kind (co_transport C) (co_transport C')"
  using assms(1)
proof (induction rule: rtranclp_induct)
  case base
  then show ?case using assms by (simp add: same_kind_def)
next
  case (step C1 C2)
  then show ?case using service_step_keeps [OF step.hyps(2) assms(2)] by (auto simp: same_kind_def)
qed

end
