(* ===== verification/CoreOutcomes.thy ===== *)
theory CoreOutcomes
  imports CoreFacts Delivery
begin

section \<open>What a request is answered with\<close>

text \<open>
  The answer of each request and what a refused or failed request leaves behind; the session file
  across a restart; and a text message from the request of one session to the event of another.
\<close>

subsection \<open>Answers of their own kind\<close>

text \<open>The reply a request may have in the state it leaves.\<close>

fun answer_fits :: "('x, 'db) CoreService \<Rightarrow> Request \<Rightarrow> Reply \<Rightarrow> bool" where
  "answer_fits C (RqPing echo) a = (a = RpPong echo)"
| "answer_fits C RqSessionInfo a =
     (case a of RpSession i \<Rightarrow> si_nickname i = co_nickname C \<and> si_friend_count i = length (co_contacts C) \<and>
        si_active_chat i = fst (active_conversation C) \<and> si_groups i = length (co_groups C) | _ \<Rightarrow> False)"
| "answer_fits C RqStatistics a = (case a of RpStatistics v \<Rightarrow> True | _ \<Rightarrow> False)"
| "answer_fits C RqListContacts a =
     (case a of RpContacts cs \<Rightarrow> map cv_name cs = map ct_name (co_contacts C) | _ \<Rightarrow> False)"
| "answer_fits C (RqAddContact who remark) a =
     (case a of RpContactAdded n name \<Rightarrow> name = trim who \<and> n = length (co_contacts C) \<and>
                  ct_name (last (co_contacts C)) = name
              | RpContactExists name \<Rightarrow> name = trim who | _ \<Rightarrow> False)"
| "answer_fits C (RqRemoveContact target) a =
     (case a of RpContactRemoved n name \<Rightarrow> 1 \<le> n \<and> n \<le> Suc (length (co_contacts C)) | _ \<Rightarrow> False)"
| "answer_fits C (RqSetNickname nick) a = (a = RpUpdated (lit ''nickname'') (co_nickname C))"
| "answer_fits C (RqSetStatus t) a = (a = RpUpdated (lit ''status'') (co_status_message C))"
| "answer_fits C (RqSelectConversation target) a = (case a of RpConversation active i \<Rightarrow> True | _ \<Rightarrow> False)"
| "answer_fits C (RqConnect address) a =
     (case a of RpUpdated subject detail \<Rightarrow> subject = lit ''connection'' | _ \<Rightarrow> False)"
| "answer_fits C (RqSendMessage target t kind content) a =
     (case a of RpSent who report \<Rightarrow>
          (case target of Some name \<Rightarrow> if trim name \<noteq> [] then who = trim name else co_active_chat C \<noteq> None
                        | None \<Rightarrow> co_active_chat C \<noteq> None)
      | _ \<Rightarrow> False)"
| "answer_fits C (RqHistory limit) a =
     (case a of RpHistory persistent ms \<Rightarrow> persistent = is_persistent (co_database C) | _ \<Rightarrow> False)"
| "answer_fits C RqSaveSession a = (a = RpSaved (co_session_path C))"
| "answer_fits C RqPeerRequests a = (case a of RpPeerRequests rs \<Rightarrow> True | _ \<Rightarrow> False)"
| "answer_fits C (RqAcceptPeerRequest key) a = (case a of RpPeerRequestAccepted k \<Rightarrow> True | _ \<Rightarrow> False)"
| "answer_fits C (RqRejectPeerRequest key) a = (case a of RpPeerRequestRejected k \<Rightarrow> True | _ \<Rightarrow> False)"
| "answer_fits C RqGroups a = (case a of RpGroups s gs \<Rightarrow> gs = map group_view (co_groups C) | _ \<Rightarrow> False)"
| "answer_fits C RqGroupInvites a = (case a of RpGroupInvites s vs \<Rightarrow> True | _ \<Rightarrow> False)"
| "answer_fits C (RqDeclineGroupInvite token) a = (case a of RpGroupInviteDeclined t \<Rightarrow> True | _ \<Rightarrow> False)"
| "answer_fits C (RqCreateGroup title) a =
     (case a of RpGroupCreated g \<Rightarrow> co_active_group C = Some (gv_id g) | _ \<Rightarrow> False)"
| "answer_fits C (RqJoinGroup token) a =
     (case a of RpGroupJoined g \<Rightarrow> co_active_group C = Some (gv_id g) | _ \<Rightarrow> False)"
| "answer_fits C (RqRenameGroup gid name) a = (case a of RpGroupRenamed i n \<Rightarrow> n = trim name | _ \<Rightarrow> False)"
| "answer_fits C (RqInviteToGroup gid peer) a = (case a of RpGroupInvited i p \<Rightarrow> p = trim peer | _ \<Rightarrow> False)"
| "answer_fits C (RqSendGroupMessage gid t kind content) a =
     (case a of RpGroupSent i n w \<Rightarrow> True | _ \<Rightarrow> False)"
| "answer_fits C (RqLeaveGroup gid) a =
     (case a of RpGroupLeft i \<Rightarrow> i \<notin> g_id ` set (co_groups C) \<and> co_active_group C \<noteq> Some i | _ \<Rightarrow> False)"
| "answer_fits C RqMetrics a = (case a of RpMetrics m \<Rightarrow> mv_friend_count m = length (co_contacts C) | _ \<Rightarrow> False)"
| "answer_fits C RqShutdown a = (a = RpShuttingDown True)"

text \<open>The outcome of a request: a fitting answer, or an error that left everything but the
  transport as it was, and the transport too where what was named does not exist.\<close>

definition outcome_ok ::
    "Request \<Rightarrow> ('x, 'db) CoreService \<Rightarrow> ('x, 'db) CoreService \<times> ResponseResult \<Rightarrow> bool" where
  "outcome_ok r C result =
     (case result of
        (C', RrOk a) \<Rightarrow> answer_fits C' r a
      | (C', RrErr e) \<Rightarrow> C' = C\<lparr>co_transport := co_transport C'\<rparr> \<and> (ei_code e = EcNotFound \<longrightarrow> C' = C))"

named_theorems outcome_simps \<open>evaluation of outcomes\<close>

lemma outcome_answers [outcome_simps]:
  "outcome_ok r C (C', core_ok a) = answer_fits C' r a"
  "outcome_ok r C (C, core_err e) = True"
  "outcome_ok r C (C, required m) = True"
  "outcome_ok r C (C\<lparr>co_transport := R\<rparr>, core_err e) =
     (ei_code e = EcNotFound \<longrightarrow> C\<lparr>co_transport := R\<rparr> = C)"
  by (simp_all add: outcome_ok_def core_ok_def core_err_def required_def response_ok_def response_err_def)

lemma codes_found [simp]:
  "ei_code (error_info_of e) \<noteq> EcNotFound"
  "ei_code (group_error operation e) = ei_code (error_info_of e)"
  by (cases e; simp add: error_info_new_def error_info_critical_def)
    (simp add: group_error_def Let_def)

lemma error_info_new_code [simp]: "ei_code (error_info_new c m) = c" "ei_code (error_info_critical c m) = c"
  by (simp_all add: error_info_new_def error_info_critical_def)

lemma validate_identifier_code: "validate_identifier v = Inl e \<Longrightarrow> ei_code e = EcInvalidRequest"
  by (auto simp: validate_identifier_def Let_def split: if_splits)

lemma identifier_trimmed: "validate_identifier v = Inr t \<Longrightarrow> t = trim v"
  by (simp add: validate_identifier_Inr)

lemma save_session_fields [simp]:
  "co_contacts (fst (save_session E cx C)) = co_contacts C"
  "co_session_path (fst (save_session E cx C)) = co_session_path C"
  by (simp_all add: save_session_def Let_def split: option.split sum.split)

lemma persist_contact_contacts [simp]: "co_contacts (persist_contact E c C) = co_contacts C"
  by (simp add: persist_contact_def)

lemma record_message_chat: "record_message E m C = (C', p) \<Longrightarrow> co_active_chat C' = co_active_chat C"
  using core_view_record_pair [of E m C C' p] by (simp add: core_view_def)

lemma outcome_contacts:
  "outcome_ok (RqAddContact who remark) C (core_add_contact E cx who remark C)"
  "outcome_ok (RqRemoveContact target) C (core_remove_contact E cx target C)"
  "outcome_ok (RqSelectConversation target) C (core_select_conversation target C)"
  "outcome_ok (RqAcceptPeerRequest key) C (core_accept_request E cx key C)"
  "outcome_ok (RqRejectPeerRequest key) C (core_reject_request E key C)"
proof -
  show "outcome_ok (RqAddContact who remark) C (core_add_contact E cx who remark C)"
    by (auto simp: core_add_contact_def Let_def outcome_simps contact_new_def dest: identifier_trimmed
        split: sum.split option.split prod.split)
  show "outcome_ok (RqRemoveContact target) C (core_remove_contact E cx target C)"
    by (auto simp: core_remove_contact_def Let_def outcome_simps length_remove_at dest: find_contact_index_bound
        split: option.split)
  show "outcome_ok (RqSelectConversation target) C (core_select_conversation target C)"
    by (auto simp: core_select_conversation_def Let_def outcome_simps split: option.split prod.split)
  show "outcome_ok (RqAcceptPeerRequest key) C (core_accept_request E cx key C)"
    by (auto simp: core_accept_request_def Let_def outcome_simps dest: validate_identifier_code
        split: sum.split option.split prod.split)
  show "outcome_ok (RqRejectPeerRequest key) C (core_reject_request E key C)"
    by (auto simp: core_reject_request_def Let_def outcome_simps split: sum.split prod.split)
qed

lemma core_publish_fields [simp]:
  "co_nickname (core_publish e C) = co_nickname C" "co_status_message (core_publish e C) = co_status_message C"
  by (simp_all add: core_publish_def)

lemma outcome_profile:
  "outcome_ok (RqSetNickname nick) C (core_set_nickname E nick C)"
  "outcome_ok (RqSetStatus t) C (core_set_status t C)"
  "outcome_ok (RqConnect address) C (core_connect E cx address C)"
proof -
  show "outcome_ok (RqSetNickname nick) C (core_set_nickname E nick C)"
    by (auto simp: core_set_nickname_def Let_def outcome_simps split: sum.split)
  show "outcome_ok (RqSetStatus t) C (core_set_status t C)"
    by (auto simp: core_set_status_def Let_def outcome_simps split: sum.split)
  show "outcome_ok (RqConnect address) C (core_connect E cx address C)"
    by (auto simp: core_connect_def Let_def outcome_simps split: sum.split prod.split)
qed

lemma message_destination_given:
  assumes "message_destination Q target C = Some who"
  shows "case target of Some name \<Rightarrow> if trim name \<noteq> [] then who = trim name else co_active_chat C \<noteq> None
         | None \<Rightarrow> co_active_chat C \<noteq> None"
  using assms by (auto simp: message_destination_def split: option.splits if_splits)

lemma count_sent_chat [simp]: "co_active_chat (count_sent w C) = co_active_chat C"
  by (simp add: count_sent_def Let_def)

lemma outcome_send_message: "outcome_ok (RqSendMessage target t kind content) C (core_send_message E cx target t kind content C)"
  by (auto simp: core_send_message_def Let_def outcome_simps dest!: record_message_chat message_destination_given
      split: sum.split option.splits prod.split if_splits)

lemma group_view_id [simp]: "gv_id (group_view g) = g_id g"
  by (simp add: group_view_def)

lemma enter_group_active [simp]: "co_active_group (enter_group g C) = Some (g_id g)"
  by (simp add: enter_group_def)

lemma outcome_groups:
  "outcome_ok RqGroups C (core_list_groups E C)"
  "outcome_ok (RqCreateGroup title) C (core_create_group E t C)"
  "outcome_ok (RqJoinGroup t) C (core_join_group E t C)"
  "outcome_ok (RqDeclineGroupInvite t) C (core_decline_group_invite E t C)"
  "outcome_ok (RqRenameGroup gid t) C (core_rename_group E gid t C)"
  "outcome_ok (RqInviteToGroup g who) C (core_invite_to_group E g who C)"
  "outcome_ok (RqSendGroupMessage gid t kind content) C (core_send_group_message E cx gid t kind content C)"
  "outcome_ok (RqLeaveGroup gid) C (core_leave_group E gid C)"
proof -
  show "outcome_ok RqGroups C (core_list_groups E C)"
    by (simp add: core_list_groups_def Let_def outcome_simps)
  show "outcome_ok (RqCreateGroup title) C (core_create_group E t C)"
    by (auto simp: core_create_group_def outcome_simps split: sum.split prod.split)
  show "outcome_ok (RqJoinGroup t) C (core_join_group E t C)"
    by (auto simp: core_join_group_def Let_def outcome_simps split: sum.split prod.split)
  show "outcome_ok (RqDeclineGroupInvite t) C (core_decline_group_invite E t C)"
    by (auto simp: core_decline_group_invite_def Let_def outcome_simps split: sum.split option.split prod.split)
  show "outcome_ok (RqRenameGroup gid t) C (core_rename_group E gid t C)"
    by (auto simp: core_rename_group_def outcome_simps no_such_group_def validate_group_name_Inr
        split: sum.split option.split prod.split)
  show "outcome_ok (RqInviteToGroup g who) C (core_invite_to_group E g who C)"
    by (auto simp: core_invite_to_group_def Let_def outcome_simps split: sum.split option.split prod.split)
  show "outcome_ok (RqSendGroupMessage gid t kind content) C (core_send_group_message E cx gid t kind content C)"
    by (auto simp: core_send_group_message_def Let_def outcome_simps split: sum.split option.split prod.split)
  show "outcome_ok (RqLeaveGroup gid) C (core_leave_group E gid C)"
    by (auto simp: core_leave_group_def outcome_simps split: sum.split option.split prod.split)
qed

lemma session_info_fields:
  "session_info E now C = (C', i) \<Longrightarrow> C' = C\<lparr>co_transport := co_transport C'\<rparr> \<and>
     si_nickname i = co_nickname C \<and> si_friend_count i = length (co_contacts C) \<and>
     si_active_chat i = fst (active_conversation C) \<and> si_groups i = length (co_groups C)"
  by (auto simp: session_info_def split: prod.splits)

lemma active_conversation_transport [simp]:
  "active_conversation (C\<lparr>co_transport := R\<rparr>) = active_conversation C"
  by (simp add: active_conversation_def cong: option.case_cong)

lemma metrics_view_fields:
  "metrics_view E cx C = (C', m) \<Longrightarrow> C' = C\<lparr>co_transport := co_transport C'\<rparr> \<and>
     mv_friend_count m = length (co_contacts C)"
  by (auto simp: metrics_view_def Let_def split: prod.splits)

lemma outcome_session_info: "outcome_ok RqSessionInfo C (core_handle E cx RqSessionInfo C)"
proof -
  obtain C' i where e: "session_info E (cx_now cx) (refresh_group_cache E C) = (C', i)" by fastforce
  let ?D = "refresh_group_cache E C"
  have f: "C' = ?D\<lparr>co_transport := co_transport C'\<rparr>" "si_nickname i = co_nickname ?D"
    "si_friend_count i = length (co_contacts ?D)" "si_active_chat i = fst (active_conversation ?D)"
    "si_groups i = length (co_groups ?D)"
    using session_info_fields [OF e] by simp_all
  have "co_nickname C' = co_nickname ?D" "co_contacts C' = co_contacts ?D"
    "active_conversation C' = active_conversation ?D" "co_groups C' = co_groups ?D"
    by (subst f(1), simp)+
  then show ?thesis by (simp add: e outcome_simps f(2-5))
qed

lemma outcome_metrics: "outcome_ok RqMetrics C (core_handle E cx RqMetrics C)"
proof -
  obtain C' m where e: "metrics_view E cx C = (C', m)" by fastforce
  have f: "C' = C\<lparr>co_transport := co_transport C'\<rparr>" "mv_friend_count m = length (co_contacts C)"
    using metrics_view_fields [OF e] by simp_all
  have "co_contacts C' = co_contacts C" by (subst f(1), simp)
  then show ?thesis by (simp add: e outcome_simps f(2))
qed

lemma outcome_save: "outcome_ok RqSaveSession C (core_handle E cx RqSaveSession C)"
  by (auto simp: save_session_def Let_def outcome_simps split: option.split sum.split)

lemma outcome_history: "outcome_ok (RqHistory limit) C (core_handle E cx (RqHistory limit) C)"
  by (auto simp: core_history_def outcome_simps split: sum.split)

lemma core_handle_outcome: "outcome_ok r C (core_handle E cx r C)"
proof (cases r)
  case RqListContacts
  then show ?thesis by (simp add: outcome_simps contact_view_def comp_def)
next
  case RqSessionInfo
  then show ?thesis by (simp only: outcome_session_info)
next
  case RqMetrics
  then show ?thesis by (simp only: outcome_metrics)
next
  case RqSaveSession
  then show ?thesis by (simp only: outcome_save)
next
  case (RqHistory limit)
  then show ?thesis by (simp only: outcome_history)
qed (simp_all only: core_handle.simps outcome_contacts outcome_profile outcome_send_message outcome_groups,
    simp_all add: outcome_simps)

subsection \<open>The session file across a restart\<close>

lemma save_session_result:
  assumes "save_session E cx C = (C', r)"
  shows "(case r of Inl e \<Rightarrow> C' = C
     | Inr _ \<Rightarrow> \<exists>b. to_json (ce_session E) (session_snapshot C) = Inr b \<and> C' = C\<lparr>co_session_file := FileBytes b\<rparr>)"
  using assms by (auto simp: save_session_def Let_def split: option.splits sum.splits)

lemma core_new_loads:
  assumes "core_new E now F config args = Some (Inr S)"
  shows "\<exists>crypto D R. S = load_session E
    (core_initial E now F (apply_overrides (cf_system_dir F) config args) args crypto D R)"
  using assms by (auto simp: core_new_def Let_def split: sum.splits option.splits)

lemma core_new_tcp:
  assumes "cl_transport args = TransTcp" "cl_passphrase args = None"
  shows "\<exists>S. core_new E now F config args = Some (Inr S)"
  using assms by (simp add: core_new_def core_crypto_def crypto_manager_new_def database_new_def transport_new_def
      network_new_def Let_def)

text \<open>A service started without a session file satisfies the invariant.\<close>

lemma initial_profile:
  "initial_nickname c \<noteq> []" "displayable MAX_NICKNAME_LEN (initial_nickname c)"
  "displayable MAX_STATUS_LEN (initial_status c)"
proof -
  have "displayable MAX_NICKNAME_LEN FALLBACK_NICKNAME \<and> FALLBACK_NICKNAME \<noteq> []"
    by (simp add: displayable_def FALLBACK_NICKNAME_def lit_def MAX_NICKNAME_LEN_def is_control_def trim_id is_whitespace_def)
  then show "initial_nickname c \<noteq> []" "displayable MAX_NICKNAME_LEN (initial_nickname c)"
    by (auto simp: initial_nickname_def validate_nickname_Inr split: sum.split)
  have "displayable MAX_STATUS_LEN []" by (simp add: displayable_def)
  then show "displayable MAX_STATUS_LEN (initial_status c)"
    by (auto simp: initial_status_def validate_status_Inr split: sum.split)
qed

lemma core_new_ok:
  assumes "core_new E now F config args = Some (Inr S)" "cf_session F = FileMissing"
  shows "service_ok S"
proof -
  obtain crypto D R where S: "S = load_session E
      (core_initial E now F (apply_overrides (cf_system_dir F) config args) args crypto D R)"
    using core_new_loads [OF assms(1)] by blast
  show ?thesis
    by (simp add: S load_session_def core_initial_def Let_def assms(2) service_ok_def profile_ok_def contacts_ok_def
        initial_profile)
qed

subsection \<open>From a request to the event of another session\<close>

lemma send_to_peer_events: "nw_events (snd (send_to_peer P cx nonce nick body k t N)) = nw_events N"
  by (simp add: send_to_peer_def send_ciphertext_to_peer_def network_enqueue_def dispatch_to_def Let_def split_beta
      queue_all_rest split: sum.split option.split)

lemma core_send_to_peer:
  fixes E :: "('x, 'db) core_env"
  assumes "co_transport C = Tcp N" "co_crypto C = nw_crypto N" "trim raw \<noteq> []" "\<not> binary_action content kind"
    "message_body (ce_hex E) (app_max_message_length (cfg_app (co_config C))) (trim raw) content = Inr body"
    "trim nick \<noteq> []"
    "send_to_peer (re_pins (ce_transport E)) (cn_step (cx_now cx)) (cn_nonce (cx_now cx)) (trim nick) body kind content N = (Inr outcome, N')"
  shows "\<exists>C' w p. core_send_message E cx (Some nick) raw kind content C =
      (C', RrOk (RpSent (trim nick) (send_report outcome w (cm_enabled (co_crypto C)) p))) \<and>
    co_transport C' = Tcp N' \<and> co_published C' = co_published C \<and> co_inbox C' = co_inbox C"
proof -
  let ?P = "re_pins (ce_transport E)" and ?cx = "cn_step (cx_now cx)" and ?nonce = "cn_nonce (cx_now cx)"
  obtain c where c: "(case network_contact_key ?P ?cx N (trim nick) of
      Some key \<Rightarrow> encrypt_with (pe_crypto ?P) ?nonce (nw_crypto N) key body
    | None \<Rightarrow> encrypt (pe_crypto ?P) ?nonce (nw_crypto N) body) = Inr c"
    and sent: "send_ciphertext_to_peer ?cx (trim nick) c kind content N = (outcome, N')"
    using assms(7) by (auto simp: send_to_peer_def Let_def split: sum.splits prod.splits)
  have seal: "seal_message E cx (trim nick) body C = Inr (c, cm_enabled (co_crypto C))"
    using c by (simp add: seal_message_def Let_def assms(1,2) cong: option.case_cong)
  have dest: "message_destination (ce_sql E) (Some nick) C = Some (trim nick)"
    by (simp add: message_destination_def assms(6))
  obtain C' p where r: "record_message E (stored_message_new (cn_time (cx_now cx)) Outgoing (trim nick)
      (stored_form (ce_hex E) content body) (of_nat (length c)) kind content)
      (count_sent (of_nat (length c)) (C\<lparr>co_transport := Tcp N'\<rparr>)) = (C', p)" by fastforce
  have "co_transport C' = Tcp N'"
    using record_message_transport [of E _ "count_sent (of_nat (length c)) (C\<lparr>co_transport := Tcp N'\<rparr>)"] r
    by (auto simp: prod_eq_iff)
  moreover have "co_published C' = co_published C \<and> co_inbox C' = co_inbox C"
    using r by (auto simp: record_message_def count_sent_def Let_def split: prod.splits sum.splits if_splits)
  ultimately show ?thesis
    by (simp add: core_send_message_def Let_def assms(1,3,4,5) dest seal sent r core_ok_def response_ok_def) blast
qed

lemma core_receives_text:
  assumes "co_inbox C" "co_transport C = Tcp N" "nw_events N = [AeMessageReceived who at (utf8_bytes t) kind CText]"
    "valid_text t" "clean_body t"
  shows "co_published (fst (core_turn E cx CiEvent C)) =
    co_published C @ [CeMessageReceived who at t (of_nat (utf8_len t)) kind CText]"
proof -
  have b: "body_of (ce_hex E) (utf8_bytes t) CText = Inr t"
    using assms(4,5) by (auto simp: body_of_def clean_body_def contains_forbidden_control_iff ALLOWED_MESSAGE_CONTROLS_def
        from_utf8_utf8_bytes)
  have "co_published (fst (record_message E m D)) = co_published D" for m and D
    by (simp add: record_message_def split: prod.split sum.split)
  then show ?thesis
    by (simp add: assms core_on_message_def Let_def b core_publish_def count_received_def)
qed

lemma core_receives_delivery:
  assumes "co_inbox C" "co_transport C = Tcp N" "nw_events N = [AeMessageDelivered who at i]"
  shows "co_published (fst (core_turn E cx CiEvent C)) = co_published C @ [CeMessageDelivered who at i]"
  using assms by (simp add: core_publish_def)

subsection \<open>What a send records\<close>

lemma count_sent_database [simp]: "co_database (count_sent w C) = co_database C"
  by (simp add: count_sent_def Let_def)

lemma record_message_state: "co_state (fst (record_message E m C)) = co_state C"
  by (simp add: record_message_def split: prod.split sum.split)

lemma record_message_saves:
  assumes "record_message E m C = (C', persisted)"
  shows "if is_persistent (co_database C)
    then \<exists>saved. save_message (ce_sql E) m (co_database C) = (co_database C', saved) \<and> (saved = Inr () \<longleftrightarrow> persisted)
    else C' = C \<and> \<not> persisted"
  using assms by (auto simp: record_message_def split: if_splits prod.splits sum.splits)

lemma core_send_message_records:
  assumes "core_send_message E cx target raw kind content C = (C', RrOk (RpSent who report))"
  obtains C1 and payload :: bytes and encrypted outcome row persisted where
    "co_state C1 = co_state C" "co_database C1 = co_database C"
    "sm_direction row = Outgoing" "sm_peer row = who" "sm_wire_bytes row = of_nat (length payload)"
    "record_message E row (count_sent (of_nat (length payload)) C1) = (C', persisted)"
    "report = send_report outcome (length payload) encrypted persisted"
proof -
  show thesis
    using assms
    by (auto simp: core_send_message_def Let_def core_ok_def core_err_def required_def response_ok_def
        response_err_def split: if_splits sum.splits option.splits prod.splits)
      (rule that [rotated 5], assumption, assumption, simp_all add: stored_message_new_def)
qed

end
