(* ===== verification/CoreGuarantees.thy ===== *)
theory CoreGuarantees
  imports CoreOutcomes NetworkGuarantees StoreGuarantees ToxGuarantees
begin

section \<open>Guarantees of the core service\<close>

text \<open>
  The properties of the service as a whole, over both transports and the database, each followed
  by an instance on a concrete service. The parameters are the sample instances of the other
  theories; the session file holds one snapshot.
\<close>

subsection \<open>A concrete service\<close>

definition sample_session :: SessionState where
  "sample_session = \<lparr>ss_nickname = lit ''Alice'', ss_status_message = lit ''here'',
     ss_contacts = [contact_new 5 0 (lit ''bob'') [1]], ss_statistics = app_statistics_default\<rparr>"

definition sample_core_env :: "(sample_tox, sample_db) core_env" where
  "sample_core_env = \<lparr>ce_transport = \<lparr>re_pins = sample_env, re_tox = sample_tox_env\<rparr>,
     ce_sql = sample_sqlite,
     ce_session = \<lparr>to_json = (\<lambda>s. if s = sample_session then Inr [] else Inl (lit ''no'')),
                   from_json = (\<lambda>b. Inr sample_session)\<rparr>,
     ce_version = lit ''0.4.0''\<rparr>"

definition sample_now :: core_now where
  "sample_now = \<lparr>cn_step = sample_ctx, cn_clock = 0, cn_time = 0, cn_nonce = replicate 12 0, cn_uuid = 7,
     cn_bind = Inr sample_address, cn_dial = (\<lambda>a. (Inl (MtNetwork (lit ''refused'') (lit ''connect'') None), []))\<rparr>"

definition sample_cx :: core_ctx where
  "sample_cx = \<lparr>cx_now = sample_now, cx_create_dir = None, cx_write = None, cx_rename = None, cx_subscribers = 1\<rparr>"

definition sample_files :: "stored_file \<Rightarrow> core_files" where
  "sample_files session = \<lparr>cf_system_dir = None, cf_tox_built = True, cf_savedata_path = lit ''tox-savedata.bin'',
     cf_savedata = FileMissing, cf_tox_store = FileMissing, cf_pins = FileMissing, cf_identity = FileMissing,
     cf_session = session, cf_writable = True, cf_random_key = replicate 32 7, cf_random_secret = replicate 32 9,
     cf_identity_json = sample_json\<rparr>"

definition sample_core :: "Network \<Rightarrow> (sample_tox, sample_db) CoreService" where
  "sample_core N = (core_initial sample_core_env sample_now (sample_files FileMissing) config_default cli_default
      sample_manager sample_database (Tcp N))
     \<lparr>co_nickname := lit ''Alice'', co_status_message := lit ''here'',
      co_contacts := [contact_new 5 0 (lit ''bob'') [1]], co_active_chat := Some 5\<rparr>"

lemma sample_core_env_simps [simp]:
  "re_pins (ce_transport sample_core_env) = sample_env" "re_tox (ce_transport sample_core_env) = sample_tox_env"
  "ce_sql sample_core_env = sample_sqlite"
  by (simp_all add: sample_core_env_def)

lemma sample_cx_simps [simp]:
  "cn_step (cx_now sample_cx) = sample_ctx" "cn_nonce (cx_now sample_cx) = replicate 12 0"
  by (simp_all add: sample_cx_def sample_now_def)

lemma sample_core_simps [simp]:
  "co_transport (sample_core N) = Tcp N" "co_crypto (sample_core N) = sample_manager" "co_inbox (sample_core N)"
  "co_config (sample_core N) = config_default" "co_args (sample_core N) = cli_default"
  "co_published (sample_core N) = []" "co_database (sample_core N) = sample_database"
  "co_contacts (sample_core N) = [contact_new 5 0 (lit ''bob'') [1]]" "co_active_chat (sample_core N) = Some 5"
  "co_nickname (sample_core N) = lit ''Alice''" "co_status_message (sample_core N) = lit ''here''"
  "co_state (sample_core N) = app_state_new"
  by (simp_all add: sample_core_def core_initial_def Let_def)






text \<open>C4: what a session saved the next one has: started on the file a successful save wrote, a
  service has the saved contacts and statistics (but no start time), the saved status unless it
  was empty, and the saved nickname unless the command line names one; no conversation or group is
  active. A save that failed has changed nothing, so the previous file is still there.\<close>

theorem session_survives_restart:
  assumes "\<forall>s b. to_json (ce_session E) s = Inr b \<longrightarrow> from_json (ce_session E) b = Inr s \<and> from_utf8 b \<noteq> None"
    and "save_session E cx C = (C', saved)"
    and "core_new E now F config args = Some (Inr S)" and "cf_session F = co_session_file C'"
  shows "case saved of
      Inl e \<Rightarrow> C' = C
    | Inr _ \<Rightarrow> co_contacts S = co_contacts C \<and>
        st_statistics (co_state S) = (st_statistics (co_state C))\<lparr>as_start_time := None\<rparr> \<and>
        co_status_message S = (if co_status_message C \<noteq> [] then co_status_message C
          else initial_status (apply_overrides (cf_system_dir F) config args)) \<and>
        co_nickname S = (if cl_nickname args = None \<and> co_nickname C \<noteq> [] then co_nickname C
          else initial_nickname (apply_overrides (cf_system_dir F) config args)) \<and>
        co_active_chat S = None \<and> co_active_group S = None \<and> co_groups S = []"
proof (cases saved)
  case (Inl e)
  then show ?thesis using save_session_result [OF assms(2)] by simp
next
  case (Inr u)
  obtain b where b: "to_json (ce_session E) (session_snapshot C) = Inr b" "C' = C\<lparr>co_session_file := FileBytes b\<rparr>"
    using save_session_result [OF assms(2)] Inr by auto
  obtain crypto D R where S: "S = load_session E
      (core_initial E now F (apply_overrides (cf_system_dir F) config args) args crypto D R)"
    using core_new_loads [OF assms(3)] by blast
  have "from_json (ce_session E) b = Inr (session_snapshot C)" "from_utf8 b \<noteq> None" using assms(1) b(1) by blast+
  moreover obtain t where "from_utf8 b = Some t" using \<open>from_utf8 b \<noteq> None\<close> by blast
  ultimately show ?thesis
    using Inr by (simp add: S load_session_def core_initial_def Let_def assms(4) b(2) session_snapshot_def)
qed

theorem session_survives_restart_witness:
  "\<exists>C' S. save_session sample_core_env sample_cx (sample_core sample_network) = (C', Inr ()) \<and>
     core_new sample_core_env sample_now (sample_files (co_session_file C')) config_default cli_default = Some (Inr S) \<and>
     co_contacts S = [contact_new 5 0 (lit ''bob'') [1]] \<and> co_nickname S = lit ''Alice''"
proof -
  have "session_snapshot (sample_core sample_network) = sample_session"
    by (simp add: session_snapshot_def sample_session_def app_state_new_def app_statistics_default_def)
  then obtain C' where C': "save_session sample_core_env sample_cx (sample_core sample_network) = (C', Inr ())"
    by (simp add: save_session_def Let_def sample_cx_def sample_core_env_def)
  have cli: "cl_transport cli_default = TransTcp" "cl_passphrase cli_default = None" by (simp_all add: cli_default_def)
  obtain S where S: "core_new sample_core_env sample_now (sample_files (co_session_file C')) config_default cli_default = Some (Inr S)"
    using core_new_tcp [of cli_default] cli by blast
  have laws: "\<forall>s b. to_json (ce_session sample_core_env) s = Inr b \<longrightarrow>
      from_json (ce_session sample_core_env) b = Inr s \<and> from_utf8 b \<noteq> None"
    using from_utf8_utf8_bytes [of "[]"] by (simp add: sample_core_env_def valid_text_def)
  have "lit ''Alice'' \<noteq> []" by (simp add: lit_def)
  then show ?thesis
    using session_survives_restart [OF laws C' S] C' S by (simp add: sample_files_def cli_default_def)
qed

text \<open>C1: a text message end to end, from the request of one session to the event of another: over a
  paired connection the sender is told it was sent, the receiver publishes exactly the trimmed text
  under the sender's nickname, and the acknowledgement makes the sender publish the delivery under
  the identifier it had reported.\<close>

theorem text_reaches_other_session:
  fixes E :: "('x, 'db) core_env"
  assumes "env_ok (re_pins (ce_transport E))" "dh_laws (ce_crypto E)" "aead_laws (ce_crypto E)"
    "length (cn_nonce (cx_now cx)) = NONCE_LENGTH"
    "co_transport CA = Tcp A" "co_crypto CA = nw_crypto A" "co_inbox CA" "nw_events A = []"
    "co_transport CB = Tcp B" "co_inbox CB" "nw_events B = []" "nw_crypto A = nw_crypto B"
    "network_wf (re_pins (ce_transport E)) A"
    "paired (re_pins (ce_transport E)) a ea b eb at_a pa A" "paired (re_pins (ce_transport E)) b eb a ea at_b pb B"
    "filter (\<lambda>(r, p). nickname_matches (to_ascii_lowercase (trim nick)) p) (nw_peers A) = [(at_a, pa)]"
    "trim nick \<noteq> []" "\<not> sx_identity_busy (cn_step (cx_now cx))" "\<not> sx_identity_busy cy"
    "can_queue at_a A" "can_queue at_b B"
    "\<forall>s \<in> {a, ea, b, eb}. length (x25519 (ce_crypto E) s (x25519_base (ce_crypto E))) = 32"
    "x25519 (ce_crypto E) a (x25519_base (ce_crypto E)) \<noteq> x25519 (ce_crypto E) b (x25519_base (ce_crypto E))"
    "pair_key (ce_crypto E) (cm_key (nw_crypto A)) (identity_from_secret (ce_crypto E) a)
       (ephemeral_from_secret (ce_crypto E) ea) (ni_public (identity_from_secret (ce_crypto E) b))
       (ni_public (ephemeral_from_secret (ce_crypto E) eb)) = Inr key"
    "encrypt_with (ce_crypto E) (cn_nonce (cx_now cx)) (nw_crypto A) key (utf8_bytes (trim raw)) = Inr c"
    "8 + length c \<le> 65536" "valid_text raw"
    "validate_message (trim raw) (app_max_message_length (cfg_app (co_config CA))) = Inr (trim raw)"
  shows "\<exists>CA' report f ack A' i.
    core_handle E cx (RqSendMessage (Some nick) raw kind CText) CA = (CA', RrOk (RpSent (trim nick) report)) \<and>
    sr_outcome report = OkSent \<and> sr_message_id report = Some i \<and>
    co_transport CA' = Tcp A' \<and> queued_for at_a A' = queued_for at_a A @ [f] \<and>
    co_published (fst (core_turn E cx' CiEvent
        (CB\<lparr>co_transport := Tcp (deliver_frame (re_pins (ce_transport E)) cy at_b f B)\<rparr>))) =
      co_published CB @ [CeMessageReceived (nickname_of at_b B) (socket_display at_b) (trim raw)
        (of_nat (utf8_len (trim raw))) kind CText] \<and>
    queued_for at_b (deliver_frame (re_pins (ce_transport E)) cy at_b f B) = queued_for at_b B @ [ack] \<and>
    co_published (fst (core_turn E cx'' CiEvent
        (CA'\<lparr>co_transport := Tcp (deliver_frame (re_pins (ce_transport E)) cz at_a ack A')\<rparr>))) =
      co_published CA @ [CeMessageDelivered (nickname_of at_a A') (socket_display at_a) i]"
proof -
  let ?P = "re_pins (ce_transport E)" and ?L = "ce_crypto E" and ?n = "nw_next_message_id A"
  let ?send = "send_to_peer ?P (cn_step (cx_now cx)) (cn_nonce (cx_now cx)) (trim nick) (utf8_bytes (trim raw)) kind CText A"
  have one: "filter (\<lambda>(r, p). nickname_matches (to_ascii_lowercase (trim (trim nick))) p) (nw_peers A) = [(at_a, pa)]"
    "trim (trim nick) \<noteq> []" using assms(16,17) by simp_all
  have len: "length (x25519 ?L s (x25519_base ?L)) = 32" if "s \<in> {a, ea, b, eb}" for s using assms(22) that by blast
  obtain r where r: "fst ?send = Inr (SoSent r)" "dr_message_id r = ?n"
    using send_to_peer_paired(1) [OF assms(1,13,14) one assms(18,20) len len assms(24,25)] by blast
  have q: "queued_for at_a (snd ?send) = queued_for at_a A @ [encode_message_frame ?n c kind CText]"
    by (rule send_to_peer_paired(2) [OF assms(1,13,14) one assms(18,20) len len assms(24,25)]) simp_all
  have d: "nw_events (deliver_frame ?P cy at_b (encode_message_frame ?n c kind CText) B) =
        [AeMessageReceived (nickname_of at_b B) (socket_display at_b) (utf8_bytes (trim raw)) kind CText]"
      "queued_for at_b (deliver_frame ?P cy at_b (encode_message_frame ?n c kind CText) B) =
        queued_for at_b B @ [encode_frame FRAME_ACK (to_be_bytes64 ?n)]"
    using deliver_paired [OF assms(1-4,15,19,21) len len assms(23) assms(24) [unfolded assms(12)] assms(25) _ assms(26),
        of ?n kind CText] by (simp_all add: assms(11,12))
  obtain A' where A': "?send = (Inr (SoSent r), A')" using r(1) by (metis prod.collapse)
  then have still: "nw_events A' = []" using send_to_peer_events [of ?P "cn_step (cx_now cx)" "cn_nonce (cx_now cx)"
      "trim nick" "utf8_bytes (trim raw)" kind CText A] assms(8) by simp
  have body: "message_body (ce_hex E) (app_max_message_length (cfg_app (co_config CA))) (trim raw) CText = Inr (utf8_bytes (trim raw))"
    by (simp add: message_body_def assms(28))
  have shown: "trim raw \<noteq> []" "clean_body (trim raw)" "valid_text (trim raw)"
    using assms(27,28) by (auto simp: validate_message_Inr clean_body_def valid_text_trim)
  obtain CA' w p where CA': "core_send_message E cx (Some nick) raw kind CText CA =
      (CA', RrOk (RpSent (trim nick) (send_report (SoSent r) w (cm_enabled (co_crypto CA)) p)))"
    "co_transport CA' = Tcp A'" "co_published CA' = co_published CA" "co_inbox CA' = co_inbox CA"
    using core_send_to_peer [OF assms(5,6) shown(1) _ body assms(17) A'] by (auto simp: binary_action_def)
  have sent: "core_handle E cx (RqSendMessage (Some nick) raw kind CText) CA =
      (CA', RrOk (RpSent (trim nick) (send_report (SoSent r) w (cm_enabled (co_crypto CA)) p)))"
    using CA'(1) by simp
  have queued: "queued_for at_a A' = queued_for at_a A @ [encode_message_frame ?n c kind CText]"
    using q A' by simp
  have received: "co_published (fst (core_turn E cx' CiEvent
        (CB\<lparr>co_transport := Tcp (deliver_frame ?P cy at_b (encode_message_frame ?n c kind CText) B)\<rparr>))) =
      co_published CB @ [CeMessageReceived (nickname_of at_b B) (socket_display at_b) (trim raw)
        (of_nat (utf8_len (trim raw))) kind CText]"
    using core_receives_text [OF _ _ _ shown(3,2), of "CB\<lparr>co_transport := Tcp (deliver_frame ?P cy at_b (encode_message_frame ?n c kind CText) B)\<rparr>"] d(1) assms(10)
    by (simp del: core_turn.simps)
  have delivered: "co_published (fst (core_turn E cx'' CiEvent
        (CA'\<lparr>co_transport := Tcp (deliver_frame ?P cz at_a (encode_frame FRAME_ACK (to_be_bytes64 ?n)) A')\<rparr>))) =
      co_published CA @ [CeMessageDelivered (nickname_of at_a A') (socket_display at_a) ?n]"
    using core_receives_delivery [of "CA'\<lparr>co_transport := Tcp (deliver_frame ?P cz at_a (encode_frame FRAME_ACK (to_be_bytes64 ?n)) A')\<rparr>"]
    by (simp add: assms(7) CA'(3,4) deliver_ack still del: core_turn.simps)
  show ?thesis
    by (intro exI conjI, rule sent, simp add: send_report_def, simp add: send_report_def r(2), rule CA'(2),
        rule queued, rule received, rule d(2), rule delivered)
qed

theorem text_reaches_other_session_witness:
  "\<exists>CA' report f ack A' i.
    core_handle sample_core_env sample_cx (RqSendMessage (Some (lit ''bob'')) (lit ''hi'') KText CText)
      (sample_core (sample_linked 1 3 2 4)) = (CA', RrOk (RpSent (lit ''bob'') report)) \<and>
    queued_for sample_address A' = [f] \<and>
    co_published (fst (core_turn sample_core_env sample_cx CiEvent ((sample_core (sample_linked 2 4 1 3))
      \<lparr>co_transport := Tcp (deliver_frame sample_env sample_ctx sample_address f (sample_linked 2 4 1 3))\<rparr>))) =
      [CeMessageReceived (nickname_of sample_address (sample_linked 2 4 1 3)) (socket_display sample_address)
        (lit ''hi'') 2 KText CText] \<and>
    co_published (fst (core_turn sample_core_env sample_cx CiEvent
      (CA'\<lparr>co_transport := Tcp (deliver_frame sample_env sample_ctx sample_address ack A')\<rparr>))) =
      [CeMessageDelivered (nickname_of sample_address A') (socket_display sample_address) i] \<and>
    sr_message_id report = Some i"
proof -
  let ?key = "take 32 (pair_info sample_crypto (identity_from_secret sample_crypto (sample_secret 1))
    (ephemeral_from_secret sample_crypto (sample_secret 3)) (ni_public (identity_from_secret sample_crypto (sample_secret 2)))
    (ni_public (ephemeral_from_secret sample_crypto (sample_secret 4))) @ replicate 32 0)"
  have bob: "to_ascii_lowercase (lit ''bob'') = lit ''bob''" "trim (lit ''bob'') = lit ''bob''" "lit ''bob'' \<noteq> []"
    "to_ascii_lowercase (lit ''Bob'') = lit ''bob''"
    by (simp_all add: lit_def trim_id is_whitespace_def to_ascii_lowercase_def ascii_lower_def)
  have hi: "trim (lit ''hi'') = lit ''hi''" "utf8_bytes (lit ''hi'') = [104, 105]" "utf8_len (lit ''hi'') = 2"
      "valid_text (lit ''hi'')"
      "validate_message (lit ''hi'') (app_max_message_length (cfg_app config_default)) = Inr (lit ''hi'')"
    by (simp_all add: lit_def trim_id is_whitespace_def utf8_bytes_def utf8_len_def utf8_char_def is_scalar_def utf8_width_def valid_text_def
        validate_message_Inr config_default_def app_settings_default_def is_control_def)
  have one: "nickname_matches (lit ''bob'') (sample_peer 3 2 4)"
    by (simp add: nickname_matches_def) (simp add: sample_peer_def bob)
  have few: "\<not> sx_identity_busy sample_ctx" "length sample_tag = 16" "sample_secret 1 \<noteq> sample_secret 2"
    by (simp_all add: sample_ctx_def sample_tag_def sample_secret_def)
  have sealed: "encrypt_with sample_crypto (replicate 12 0) sample_manager ?key [104, 105] =
      Inr (replicate 12 0 @ [104, 105] @ sample_tag)"
    by (rule sample_encrypt) simp
  show ?thesis
    using sealed text_reaches_other_session [where E = sample_core_env and cx = sample_cx and cx' = sample_cx and cx'' = sample_cx
        and cy = sample_ctx and cz = sample_ctx and nick = "lit ''bob''" and raw = "lit ''hi''" and kind = KText
        and CA = "sample_core (sample_linked 1 3 2 4)" and CB = "sample_core (sample_linked 2 4 1 3)"
        and A = "sample_linked 1 3 2 4" and B = "sample_linked 2 4 1 3" and key = ?key
        and c = "replicate 12 0 @ [104, 105] @ sample_tag" and a = "sample_secret 1"
        and ea = "sample_secret 3" and b = "sample_secret 2" and eb = "sample_secret 4" and at_a = sample_address
        and at_b = sample_address and pa = "sample_peer 3 2 4" and pb = "sample_peer 4 1 3"]
    by (simp add: sample_paired sample_env_ok sample_dh_laws sample_aead_laws sample_linked_wf sample_linked_queue sample_public
        sample_pair_key NONCE_LENGTH_def few bob hi one del: core_handle.simps core_turn.simps) blast
qed

text \<open>C24: what a send records: whenever a message request is answered with a report, the counters of
  the session grow by one message and by the reported wire size, whether the message was written to
  a connection, queued or dropped; the report has an identifier unless the message was dropped, and
  it says a row was stored exactly when an outgoing row of that size, to the reported peer, was.\<close>

theorem sends_counted:
  assumes "core_handle E cx (RqSendMessage target raw kind content) C = (C', RrOk (RpSent who report))"
  shows "st_statistics (co_state C') = (st_statistics (co_state C))
      \<lparr>as_messages_sent := as_messages_sent (st_statistics (co_state C)) + 1,
        as_bytes_sent := as_bytes_sent (st_statistics (co_state C)) + sr_wire_bytes report\<rparr> \<and>
    (sr_message_id report = None \<longleftrightarrow> sr_outcome report = OkDropped) \<and>
    (if is_persistent (co_database C)
     then \<exists>row saved. save_message (ce_sql E) row (co_database C) = (co_database C', saved) \<and>
       (saved = Inr () \<longleftrightarrow> sr_persisted report) \<and>
       sm_direction row = Outgoing \<and> sm_peer row = who \<and> sm_wire_bytes row = sr_wire_bytes report
     else co_database C' = co_database C \<and> \<not> sr_persisted report)"
proof -
  obtain C1 and payload :: bytes and encrypted outcome row persisted where
    C1: "co_state C1 = co_state C" "co_database C1 = co_database C" and
    row: "sm_direction row = Outgoing" "sm_peer row = who" "sm_wire_bytes row = of_nat (length payload)" and
    stored: "record_message E row (count_sent (of_nat (length payload)) C1) = (C', persisted)" and
    report: "report = send_report outcome (length payload) encrypted persisted"
    by (rule core_send_message_records [OF assms [unfolded core_handle.simps]])
  have wire: "sr_wire_bytes report = of_nat (length payload)" "sr_persisted report = persisted"
    "sr_message_id report = None \<longleftrightarrow> sr_outcome report = OkDropped"
    unfolding report by (cases outcome; simp add: send_report_def)+
  have counted: "co_state C' = co_state (count_sent (of_nat (length payload)) C1)"
    using record_message_state [of E row "count_sent (of_nat (length payload)) C1"] stored by simp
  show ?thesis
  proof (intro conjI)
    show "st_statistics (co_state C') = (st_statistics (co_state C))
      \<lparr>as_messages_sent := as_messages_sent (st_statistics (co_state C)) + 1,
        as_bytes_sent := as_bytes_sent (st_statistics (co_state C)) + sr_wire_bytes report\<rparr>"
      unfolding counted wire(1) by (simp add: count_sent_def Let_def C1(1))
    show "(sr_message_id report = None) = (sr_outcome report = OkDropped)" by (rule wire(3))
    show "if is_persistent (co_database C)
     then \<exists>row saved. save_message (ce_sql E) row (co_database C) = (co_database C', saved) \<and>
       (saved = Inr () \<longleftrightarrow> sr_persisted report) \<and>
       sm_direction row = Outgoing \<and> sm_peer row = who \<and> sm_wire_bytes row = sr_wire_bytes report
     else co_database C' = co_database C \<and> \<not> sr_persisted report"
      using record_message_saves [OF stored] row C1(2)
      by (cases "is_persistent (co_database C)") (auto simp: wire(1,2))
  qed
qed

definition full_outbox :: Network where
  "full_outbox = sample_network\<lparr>nw_outbox := [(lit ''bob'', replicate 32 \<lparr>ob_message_id = 1, ob_ciphertext = [],
     ob_kind = KText, ob_content = CText, ob_queued_at = 0\<rparr>)]\<rparr>"

theorem sends_counted_witness:
  "\<exists>C' report. core_handle sample_core_env sample_cx (RqSendMessage (Some (lit ''bob'')) (lit ''hi'') KText CText)
      (sample_core full_outbox) = (C', RrOk (RpSent (lit ''bob'') report)) \<and>
    sr_outcome report = OkDropped \<and> as_messages_sent (st_statistics (co_state C')) = 1"
proof -
  have bob: "to_ascii_lowercase (lit ''bob'') = lit ''bob''" "trim (lit ''bob'') = lit ''bob''" "lit ''bob'' \<noteq> []"
    by (simp_all add: lit_def trim_id is_whitespace_def to_ascii_lowercase_def ascii_lower_def)
  have hi: "trim (lit ''hi'') = lit ''hi''" "utf8_bytes (lit ''hi'') = [104, 105]" "lit ''hi'' \<noteq> []"
      "validate_message (lit ''hi'') (app_max_message_length (cfg_app config_default)) = Inr (lit ''hi'')"
    by (simp_all add: lit_def trim_id is_whitespace_def utf8_bytes_def utf8_len_def utf8_char_def is_scalar_def utf8_width_def
        validate_message_Inr config_default_def app_settings_default_def is_control_def)
  have c: "encrypt sample_crypto (replicate 12 0) sample_manager [104, 105] = Inr (replicate 12 0 @ [104, 105] @ sample_tag)"
    unfolding encrypt_def by (rule sample_encrypt) (simp add: sample_manager_def)
  have N: "nw_identity full_outbox = None" "nw_peers full_outbox = []" "nw_crypto full_outbox = sample_manager"
    "outbox_queue (lit ''bob'') (nw_outbox full_outbox) = replicate 32 \<lparr>ob_message_id = 1, ob_ciphertext = [],
     ob_kind = KText, ob_content = CText, ob_queued_at = 0\<rparr>"
    by (simp_all add: full_outbox_def sample_network_def network_new_def Let_def outbox_queue_def unwrap_or_def)
  obtain N' where N': "send_to_peer sample_env sample_ctx (replicate 12 0) (lit ''bob'') [104, 105] KText CText full_outbox =
      (Inr SoDropped, N')"
    by (simp add: send_to_peer_def send_ciphertext_to_peer_def network_contact_key_def network_enqueue_def enqueue_def
        peer_senders_def Let_def N bob c OUTBOX_CAPACITY_def)
  obtain C' w p where C': "core_send_message sample_core_env sample_cx (Some (lit ''bob'')) (lit ''hi'') KText CText
      (sample_core full_outbox) = (C', RrOk (RpSent (lit ''bob'') (send_report SoDropped w True p)))"
    using core_send_to_peer [where E = sample_core_env and cx = sample_cx and nick = "lit ''bob''" and raw = "lit ''hi''"
        and kind = KText and content = CText and C = "sample_core full_outbox" and body = "[104, 105]"
        and N = full_outbox and outcome = SoDropped and N' = N'] N'
    by (auto simp: N bob hi message_body_def binary_action_def) (simp add: sample_manager_def)
  then show ?thesis
    using sends_counted [of sample_core_env sample_cx "Some (lit ''bob'')" "lit ''hi''" KText CText "sample_core full_outbox"]
    by (simp add: send_report_def app_state_new_def app_statistics_default_def)
qed

end
