(* ===== verification/TerminalFacts.thy ===== *)
theory TerminalFacts
  imports Terminal
begin

section \<open>Facts on the full screen interface\<close>

text \<open>
  The greedy wrapping of a line, the window of the newest rows against the wrapping of the whole
  log, the place of the caret, and the invariant of the line editor under every key and paste.
\<close>

subsection \<open>Wrapping\<close>

lemma width_of_simps [simp]:
  "width_of columns [] = 0" "width_of columns (c # cs) = columns c + width_of columns cs"
  "width_of columns (xs @ ys) = width_of columns xs + width_of columns ys"
  by (simp_all add: width_of_def)

lemma width_of_take: "width_of columns (take n s) \<le> width_of columns s"
  by (metis append_take_drop_id le_add1 width_of_simps(3))

lemma wrap_rows_concat: "concat (wrap_rows columns width row used cs) = row @ cs"
  by (induction columns width row used cs rule: wrap_rows.induct) auto

lemma wrap_line_concat: "concat (wrap_line columns line width) = line"
  using wrap_rows_concat [of columns width "[]" 0 line] by (auto simp: wrap_line_def split: list.split)

lemma wrap_line_nonempty [simp]: "wrap_line columns line width \<noteq> []"
  by (auto simp: wrap_line_def split: list.split)

text \<open>A row is within the width or ends with the one character that is wider than it.\<close>

definition fits :: "(rchar \<Rightarrow> nat) \<Rightarrow> nat \<Rightarrow> rtext \<Rightarrow> bool" where
  "fits columns width row \<longleftrightarrow>
     width_of columns row \<le> width \<or>
     (\<exists>zs x. row = zs @ [x] \<and> width_of columns zs = 0 \<and> width < columns x)"

lemma fits_single: "fits columns width [c]"
  by (cases "columns c \<le> width") (auto simp: fits_def)

lemma wrap_rows_fit:
  assumes "used = width_of columns row" "fits columns width row"
  shows "\<forall>r \<in> set (wrap_rows columns width row used cs). fits columns width r"
  using assms
proof (induction columns width row used cs rule: wrap_rows.induct)
  case (1 columns width row used)
  then show ?case by simp
next
  case (2 columns width row used c cs)
  show ?case
  proof (cases "0 < used \<and> width < used + columns c")
    case True
    then have "\<forall>r \<in> set (wrap_rows columns width [c] (columns c) cs). fits columns width r"
      by (rule "2.IH"(1)) (simp_all add: fits_single)
    then show ?thesis using True "2.prems"(2) by simp
  next
    case False
    have "fits columns width (row @ [c])"
    proof (cases "used + columns c \<le> width")
      case True
      then show ?thesis using "2.prems"(1) by (simp add: fits_def)
    next
      case wide: False
      then show ?thesis using False "2.prems"(1) unfolding fits_def by (intro disjI2 exI [of _ row] exI [of _ c]) simp
    qed
    then have "\<forall>r \<in> set (wrap_rows columns width (row @ [c]) (used + columns c) cs). fits columns width r"
      by (intro "2.IH"(2) [OF False]) (simp_all add: "2.prems"(1))
    then show ?thesis by (simp only: wrap_rows.simps if_not_P [OF False])
  qed
qed

text \<open>A row ends only where the next character would not fit.\<close>

fun greedy :: "(rchar \<Rightarrow> nat) \<Rightarrow> nat \<Rightarrow> rtext list \<Rightarrow> bool" where
  "greedy columns width (r # s # rows) \<longleftrightarrow>
     s \<noteq> [] \<and> width < width_of columns r + columns (hd s) \<and> greedy columns width (s # rows)"
| "greedy columns width rows \<longleftrightarrow> True"

lemma wrap_rows_head:
  "row \<noteq> [] \<Longrightarrow> \<exists>more rest. wrap_rows columns width row used cs = (row @ more) # rest"
proof (induction cs arbitrary: row used)
  case (Cons c cs)
  then show ?case using Cons.IH [of "row @ [c]" "used + columns c"] by auto
qed auto

lemma wrap_rows_greedy:
  "used = width_of columns row \<Longrightarrow> greedy columns width (wrap_rows columns width row used cs)"
proof (induction columns width row used cs rule: wrap_rows.induct)
  case (1 columns width row used)
  then show ?case by simp
next
  case (2 columns width row used c cs)
  show ?case
  proof (cases "0 < used \<and> width < used + columns c")
    case True
    obtain more rest where m: "wrap_rows columns width [c] (columns c) cs = ([c] @ more) # rest"
      using wrap_rows_head [of "[c]"] by blast
    have "greedy columns width (([c] @ more) # rest)"
      unfolding m [symmetric] using True by (rule "2.IH"(1)) simp
    then show ?thesis using True "2.prems" m by simp
  next
    case False
    then have "greedy columns width (wrap_rows columns width (row @ [c]) (used + columns c) cs)"
      by (rule "2.IH"(2)) (simp add: "2.prems")
    then show ?thesis by (simp only: wrap_rows.simps if_not_P [OF False])
  qed
qed

subsection \<open>The window of the log\<close>

definition all_rows :: "(rchar \<Rightarrow> nat) \<Rightarrow> nat \<Rightarrow> rtext list \<Rightarrow> rtext list" where
  "all_rows columns width lines = concat (map (\<lambda>line. wrap_line columns line width) lines)"

lemma all_rows_append [simp]:
  "all_rows columns width (xs @ ys) = all_rows columns width xs @ all_rows columns width ys"
  by (simp add: all_rows_def)

lemma all_rows_simps [simp]:
  "all_rows columns width [] = []" "all_rows columns width [line] = wrap_line columns line width"
  by (simp_all add: all_rows_def)

lemma newest_rows_suffix:
  assumes "newest_rows columns width wanted rows ls = (r, reached)"
  shows "\<exists>older. all_rows columns width (rev ls) @ rows = older @ r \<and>
    (if reached then older = [] else wanted \<le> length r)"
  using assms
proof (induction ls arbitrary: rows)
  case (Cons line ls)
  show ?case
  proof (cases "wanted \<le> length (wrap_line columns line width @ rows)")
    case True
    then have "r = wrap_line columns line width @ rows" "\<not> reached" using Cons.prems by auto
    then show ?thesis using True by auto
  next
    case False
    then have "newest_rows columns width wanted (wrap_line columns line width @ rows) ls = (r, reached)"
      using Cons.prems by (auto simp: Let_def)
    from Cons.IH [OF this] show ?thesis by simp
  qed
qed auto

text \<open>The rows a pane of that height shows when it is scrolled back by so many rows, cut from the whole
  log wrapped.\<close>

definition window :: "nat \<Rightarrow> nat \<Rightarrow> 'a list \<Rightarrow> 'a list" where
  "window visible scroll rows =
     (let clamped = min scroll (length rows - visible) in take visible (drop (length rows - clamped - visible) rows))"

lemma window_suffix:
  assumes "visible + scroll \<le> length r"
  shows "window visible scroll (older @ r) = take visible (drop (length r - scroll - visible) r)"
  using assms by (simp add: window_def Let_def min_absorb1)

lemma take_window:
  assumes "c \<le> length r - v"
  shows "take (length r - c - (length r - c - v)) (drop (length r - c - v) r) = take v (drop (length r - c - v) r)"
proof (cases "v \<le> length r - c")
  case True
  then show ?thesis by (simp only: diff_diff_cancel)
next
  case False
  then have "c = 0" using assms by linarith
  then show ?thesis using False by simp
qed

lemma visible_log_rows_window:
  assumes "0 < visible" "scroll \<le> usize_max"
  shows "fst (visible_log_rows columns lines width visible scroll) = window visible scroll (all_rows columns width lines)"
    and "snd (visible_log_rows columns lines width visible scroll) = length (all_rows columns width lines) - visible \<or>
      snd (visible_log_rows columns lines width visible scroll) = usize_max \<and>
      visible + scroll \<le> length (all_rows columns width lines)"
proof -
  obtain r reached where n: "newest_rows columns width (visible + scroll) [] (rev lines) = (r, reached)" by fastforce
  obtain older where o': "all_rows columns width lines = older @ r" "if reached then older = [] else visible + scroll \<le> length r"
    using newest_rows_suffix [OF n] by auto
  show "fst (visible_log_rows columns lines width visible scroll) = window visible scroll (all_rows columns width lines)"
  proof (cases reached)
    case True
    then show ?thesis using o' assms(1) take_window [of "min scroll (length r - visible)" r visible]
      by (simp add: visible_log_rows_def n Let_def window_def)
  next
    case False
    then show ?thesis using o' assms
      by (simp add: visible_log_rows_def n Let_def window_suffix min_absorb1)
  qed
  show "snd (visible_log_rows columns lines width visible scroll) = length (all_rows columns width lines) - visible \<or>
      snd (visible_log_rows columns lines width visible scroll) = usize_max \<and>
      visible + scroll \<le> length (all_rows columns width lines)"
    using o' assms(1) by (auto simp: visible_log_rows_def n Let_def)
qed

subsection \<open>The caret\<close>

lemma view_start_bounds:
  assumes "start \<le> cursor"
  shows "start \<le> view_start columns cs cursor width start \<and> view_start columns cs cursor width start \<le> cursor"
  using assms
proof (induction columns cs cursor width start rule: view_start.induct)
  case (1 columns cs cursor width start)
  show ?case
  proof (cases "cursor \<le> start \<or>
      width_of columns (take cursor cs) - width_of columns (take start cs) + (if 0 < start then 1 else 0) < width")
    case True
    then show ?thesis using "1.prems" by (subst view_start.simps, subst (1 2) view_start.simps) simp
  next
    case False
    then have "Suc start \<le> cursor" by simp
    then show ?thesis using "1.IH" [OF False] False by (subst (1 2) view_start.simps) auto
  qed
qed

lemma view_start_shows:
  assumes "start \<le> cursor" "view_start columns cs cursor width start = v" "v < cursor"
  shows "width_of columns (take cursor cs) - width_of columns (take v cs) + (if 0 < v then 1 else 0) < width"
  using assms
proof (induction columns cs cursor width start rule: view_start.induct)
  case (1 columns cs cursor width start)
  show ?case
  proof (cases "cursor \<le> start \<or>
      width_of columns (take cursor cs) - width_of columns (take start cs) + (if 0 < start then 1 else 0) < width")
    case True
    then have "v = start" using "1.prems"(2) by (subst (asm) view_start.simps) simp
    then show ?thesis using True "1.prems"(3) by simp
  next
    case False
    then have "view_start columns cs cursor width (start + 1) = v"
      using "1.prems"(2) by (subst (asm) view_start.simps) simp
    then show ?thesis using "1.IH" [OF False] False "1.prems"(3) by simp
  qed
qed

lemma view_start_whole: "width_of columns (take cursor cs) < width \<Longrightarrow> view_start columns cs cursor width 0 = 0"
  by (subst view_start.simps) simp

lemma width_of_between:
  "v \<le> cursor \<Longrightarrow> width_of columns (take cursor cs) - width_of columns (take v cs) = width_of columns (take (cursor - v) (drop v cs))"
  by (subst le_add_diff_inverse [of v cursor, symmetric], assumption, subst take_add) simp

subsection \<open>The line editor\<close>

definition editor_ok :: "InputBuffer \<Rightarrow> bool" where
  "editor_ok B \<longleftrightarrow>
     ib_cursor B \<le> length (ib_chars B) \<and>
     length (ib_history B) \<le> INPUT_HISTORY_CAPACITY \<and>
     (\<forall>line \<in> set (ib_history B). trim line \<noteq> []) \<and>
     distinct_adj (ib_history B) \<and>
     (\<forall>i. ib_history_index B = Some i \<longrightarrow> i < length (ib_history B))"

lemma length_insert_at [simp]: "length (insert_at i x xs) = Suc (length xs)"
  by (simp add: insert_at_def)

lemma editor_ok_new: "editor_ok input_buffer_new"
  by (simp add: editor_ok_def input_buffer_new_def)

lemma ib_insert_chars_fields [simp]:
  "ib_history (ib_insert_chars s B) = ib_history B"
  "ib_history_index (ib_insert_chars s B) = ib_history_index B"
  by (induction s arbitrary: B) (auto split: option.split)

lemma ib_insert_chars_cursor:
  "ib_cursor B \<le> length (ib_chars B) \<Longrightarrow> ib_cursor (ib_insert_chars s B) \<le> length (ib_chars (ib_insert_chars s B))"
  by (induction s arbitrary: B) (auto split: option.split)

lemma editor_ok_edits:
  assumes "editor_ok B"
  shows "editor_ok (ib_insert c B)" "editor_ok (ib_insert_str s B)" "editor_ok (ib_backspace B)"
    "editor_ok (ib_delete B)" "editor_ok (ib_clear B)" "editor_ok (ib_move_left B)" "editor_ok (ib_move_right B)"
    "editor_ok (ib_move_home B)" "editor_ok (ib_move_end B)"
  using assms ib_insert_chars_cursor [of B s]
  by (auto simp: editor_ok_def ib_insert_def ib_insert_str_def ib_backspace_def ib_delete_def ib_clear_def
      ib_stop_browsing_def ib_move_left_def ib_move_right_def ib_move_home_def ib_move_end_def length_remove_at)

lemma distinct_adj_tl: "distinct_adj xs \<Longrightarrow> distinct_adj (tl xs)"
  by (cases xs) (auto dest: distinct_adj_ConsD)

lemma editor_ok_submit: "editor_ok B \<Longrightarrow> editor_ok (fst (ib_submit B))"
  by (auto simp: editor_ok_def ib_submit_def ib_stop_browsing_def remembers_def Let_def INPUT_HISTORY_CAPACITY_def
      distinct_adj_append_iff distinct_adj_tl last_tl dest: list.set_sel(2) [rotated])

lemma editor_ok_history:
  assumes "editor_ok B"
  shows "editor_ok (ib_history_previous B)" "editor_ok (ib_history_next B)"
  using assms
  by (auto simp: editor_ok_def ib_history_previous_def ib_history_next_def ib_set_from_history_def get_at_def Let_def
      split: option.splits if_splits)

lemma editor_ok_key: "editor_ok B \<Longrightarrow> editor_ok (fst (apply_key key B))"
  by (simp add: apply_key_def apply_char_def editor_ok_edits editor_ok_submit editor_ok_history case_prod_beta
      split: key_code.split)

subsection \<open>Browsing the history\<close>

text \<open>The editor while it shows the entry at a position.\<close>

definition browsing :: "nat \<Rightarrow> rtext \<Rightarrow> rtext list \<Rightarrow> InputBuffer \<Rightarrow> bool" where
  "browsing i draft history B \<longleftrightarrow>
     i < length history \<and>
     B = \<lparr>ib_chars = history ! i, ib_cursor = length (history ! i), ib_history = history,
          ib_history_index = Some i, ib_draft = draft\<rparr>"

lemma browsing_previous: "browsing i draft history B \<Longrightarrow> browsing (i - 1) draft history (ib_history_previous B)"
  by (auto simp: browsing_def ib_history_previous_def ib_set_from_history_def get_at_def Let_def)

lemma browsing_previous_n: "browsing i draft history B \<Longrightarrow> browsing (i - n) draft history ((ib_history_previous ^^ n) B)"
proof (induction n)
  case (Suc n)
  then show ?case using browsing_previous [of "i - n" draft history "(ib_history_previous ^^ n) B"] by simp
qed simp

lemma browsing_starts:
  "ib_history B \<noteq> [] \<Longrightarrow> ib_history_index B = None \<Longrightarrow>
   browsing (length (ib_history B) - 1) (ib_chars B) (ib_history B) (ib_history_previous B)"
  by (cases B) (simp add: browsing_def ib_history_previous_def ib_set_from_history_def get_at_def Let_def)

lemma browsing_next:
  "browsing i draft history B \<Longrightarrow> Suc i < length history \<Longrightarrow> browsing (Suc i) draft history (ib_history_next B)"
  by (auto simp: browsing_def ib_history_next_def ib_set_from_history_def get_at_def)

lemma browsing_next_n:
  "browsing i draft history B \<Longrightarrow> i + n < length history \<Longrightarrow> browsing (i + n) draft history ((ib_history_next ^^ n) B)"
proof (induction n)
  case (Suc n)
  then show ?case using browsing_next [of "i + n" draft history "(ib_history_next ^^ n) B"] by simp
qed simp

lemma browsing_ends:
  "browsing i draft history B \<Longrightarrow> Suc i = length history \<Longrightarrow>
   ib_history_next B = \<lparr>ib_chars = draft, ib_cursor = length draft, ib_history = history,
     ib_history_index = None, ib_draft = []\<rparr>"
  by (auto simp: browsing_def ib_history_next_def)

subsection \<open>Typing\<close>

definition char_key :: "rchar \<Rightarrow> key_event" where
  "char_key c = \<lparr>ke_press = True, ke_control = False, ke_code = KcChar c\<rparr>"

definition plain_key :: "key_code \<Rightarrow> key_event" where
  "plain_key k = \<lparr>ke_press = True, ke_control = False, ke_code = k\<rparr>"

fun apply_keys :: "key_event list \<Rightarrow> InputBuffer \<Rightarrow> InputBuffer \<times> KeyAction list" where
  "apply_keys [] B = (B, [])"
| "apply_keys (k # ks) B =
     (case apply_key k B of (B1, a) \<Rightarrow> (case apply_keys ks B1 of (B2, as) \<Rightarrow> (B2, a # as)))"

lemma apply_keys_append:
  "apply_keys (ks @ ls) B =
    (case apply_keys ks B of (B1, as) \<Rightarrow> (case apply_keys ls B1 of (B2, bs) \<Rightarrow> (B2, as @ bs)))"
  by (induction ks arbitrary: B) (auto split: prod.splits)

lemma apply_char_keys:
  "apply_keys (map char_key s) B =
    (if s = [] then B
     else ib_stop_browsing (B\<lparr>ib_chars := take (ib_cursor B) (ib_chars B) @ s @ drop (ib_cursor B) (ib_chars B),
            ib_cursor := ib_cursor B + length s\<rparr>),
     replicate (length s) KaNone)"
  if "ib_cursor B \<le> length (ib_chars B)"
  using that
proof (induction s arbitrary: B)
  case (Cons c s)
  have "ib_cursor (ib_insert c B) \<le> length (ib_chars (ib_insert c B))"
    using Cons.prems by (simp add: ib_insert_def ib_stop_browsing_def)
  from Cons.IH [OF this] show ?case
    using Cons.prems
    by (auto simp: apply_key_def apply_char_def char_key_def ib_insert_def ib_stop_browsing_def insert_at_def
        split: prod.split)
qed simp

text \<open>The caret of the input line is inside the width it is given.\<close>

lemma caret_offset_inside:
  assumes "2 \<le> width" "v = view_start columns input cursor width 0"
  shows "width_of columns (take cursor input) - width_of columns (take v input) + (if 0 < v then 1 else 0) < width"
proof -
  have "v \<le> cursor" using view_start_bounds [of 0 cursor columns input width] by (simp add: assms(2))
  then show ?thesis
    using view_start_shows [of 0 cursor columns input width v] assms by (cases "v < cursor") simp_all
qed

lemma input_view_inside:
  assumes "2 \<le> width" "width \<le> 65535" "cursor \<le> length input"
  shows "snd (input_view columns input cursor width) < width"
  using caret_offset_inside [OF assms(1) refl, of columns cursor input] assms
  by (auto simp: input_view_def Let_def u16_capped_def min_absorb1)

end
