(* ===== verification/PresenterFacts.thy ===== *)
theory PresenterFacts
  imports FrontEnds
begin

section \<open>Facts on the presenter\<close>

text \<open>
  Two front ends are alike when they differ at most in what is on the screen and in the group a
  \<open>select\<close> named; every command and event keeps them alike. And the requests a command makes, seen
  through a core that records them.
\<close>

subsection \<open>What a command depends on\<close>

definition alike :: "'c front \<Rightarrow> 'c front \<Rightarrow> bool" where
  "alike F G \<longleftrightarrow> fr_core F = fr_core G \<and>
     (fr_presenter F)\<lparr>pr_active_group := None\<rparr> = (fr_presenter G)\<lparr>pr_active_group := None\<rparr>"

named_theorems alike_intros \<open>operations that keep front ends alike\<close>

lemma alike_refl [simp]: "alike F F"
  by (simp add: alike_def)

lemma alike_emit [simp]:
  "alike (emit a F) G = alike F G" "alike F (emit b G) = alike F G"
  by (simp_all add: alike_def emit_def)

lemma alike_emit_all_left [simp]: "alike (emit_all as F) G = alike F G"
  by (induction as arbitrary: F) simp_all

lemma alike_emit_all_right [simp]: "alike F (emit_all bs G) = alike F G"
  by (induction bs arbitrary: G) simp_all

lemma alike_warn [simp]: "alike (warn_error e F) G = alike F G" "alike F (warn_error e G) = alike F G"
  by (simp_all add: warn_error_def)

lemma alike_screen [simp]:
  "alike (F\<lparr>fr_screen := s\<rparr>) G = alike F G" "alike F (G\<lparr>fr_screen := s\<rparr>) = alike F G"
  by (simp_all add: alike_def)

lemma alike_core: "alike F G \<Longrightarrow> fr_core F = fr_core G"
  by (simp add: alike_def)

lemma presenter_eqI:
  "P\<lparr>pr_active_group := None\<rparr> = Q\<lparr>pr_active_group := None\<rparr> \<longleftrightarrow>
   pr_session P = pr_session Q \<and> pr_contacts P = pr_contacts Q \<and> pr_statistics P = pr_statistics Q \<and>
   pr_events_taken P = pr_events_taken Q \<and> pr_stop P = pr_stop Q \<and> pr_announced P = pr_announced (Q :: Presenter)"
  by (cases P; cases Q) simp

lemma alike_session: "alike F G \<Longrightarrow> fr_session F = fr_session G"
  by (simp add: alike_def fr_session_def presenter_eqI)

lemma alike_presenter:
  "alike F G \<Longrightarrow> pr_contacts (fr_presenter F) = pr_contacts (fr_presenter G) \<and>
     pr_statistics (fr_presenter F) = pr_statistics (fr_presenter G) \<and>
     pr_stop (fr_presenter F) = pr_stop (fr_presenter G) \<and> pr_announced (fr_presenter F) = pr_announced (fr_presenter G)"
  by (simp add: alike_def presenter_eqI)

lemma alike_set_session [alike_intros]: "alike F G \<Longrightarrow> alike (set_session s F) (set_session s G)"
  by (simp add: alike_def set_session_def presenter_eqI)

lemma alike_updates [alike_intros]:
  "alike F G \<Longrightarrow> alike (F\<lparr>fr_core := c\<rparr>) (G\<lparr>fr_core := c\<rparr>)"
  "alike F G \<Longrightarrow> alike (F\<lparr>fr_presenter := (fr_presenter F)\<lparr>pr_contacts := cs\<rparr>\<rparr>)
     (G\<lparr>fr_presenter := (fr_presenter G)\<lparr>pr_contacts := cs\<rparr>\<rparr>)"
  "alike F G \<Longrightarrow> alike (F\<lparr>fr_presenter := (fr_presenter F)\<lparr>pr_statistics := v\<rparr>\<rparr>)
     (G\<lparr>fr_presenter := (fr_presenter G)\<lparr>pr_statistics := v\<rparr>\<rparr>)"
  "alike F G \<Longrightarrow> alike (F\<lparr>fr_presenter := (fr_presenter F)\<lparr>pr_stop := b\<rparr>\<rparr>)
     (G\<lparr>fr_presenter := (fr_presenter G)\<lparr>pr_stop := b\<rparr>\<rparr>)"
  "alike F G \<Longrightarrow> alike (F\<lparr>fr_presenter := (fr_presenter F)\<lparr>pr_active_group := g\<rparr>\<rparr>)
     (G\<lparr>fr_presenter := (fr_presenter G)\<lparr>pr_active_group := h\<rparr>\<rparr>)"
  by (simp_all add: alike_def presenter_eqI)

text \<open>A request is the same request of the same core, so both get the same answer.\<close>

lemma ask_core_eq: "ask_core P r F = (F\<lparr>fr_core := fst (P r (fr_core F))\<rparr>, snd (P r (fr_core F)))"
  by (simp add: ask_core_def split_beta)

lemma alike_ask:
  assumes "alike F G" "\<And>F' G' a. alike F' G' \<Longrightarrow> alike (k F' a) (k G' a)"
  shows "alike (case ask_core P r F of (F1, a) \<Rightarrow> k F1 a) (case ask_core P r G of (G1, a) \<Rightarrow> k G1 a)"
  using assms by (simp add: ask_core_eq alike_core [OF assms(1)] alike_updates(1))

text \<open>\<open>refresh\<close> as its three readings.\<close>

definition read_session :: "'c core_port \<Rightarrow> 'c front \<Rightarrow> 'c front" where
  "read_session P F =
     (let (F1, a) = ask_core P RqSessionInfo F in case a of Inr (RpSession s) \<Rightarrow> set_session s F1 | _ \<Rightarrow> F1)"

definition read_contacts :: "'c core_port \<Rightarrow> 'c front \<Rightarrow> 'c front" where
  "read_contacts P F =
     (let (F1, a) = ask_core P RqListContacts F in
      case a of Inr (RpContacts cs) \<Rightarrow> F1\<lparr>fr_presenter := (fr_presenter F1)\<lparr>pr_contacts := cs\<rparr>\<rparr> | _ \<Rightarrow> F1)"

definition read_statistics :: "'c core_port \<Rightarrow> 'c front \<Rightarrow> 'c front" where
  "read_statistics P F =
     (let (F1, a) = ask_core P RqStatistics F in
      case a of Inr (RpStatistics v) \<Rightarrow> F1\<lparr>fr_presenter := (fr_presenter F1)\<lparr>pr_statistics := v\<rparr>\<rparr> | _ \<Rightarrow> F1)"

lemma refresh_steps: "refresh P F = read_statistics P (read_contacts P (read_session P F))"
  by (simp add: refresh_def read_session_def read_contacts_def read_statistics_def Let_def split_beta)

lemma alike_reads [alike_intros]:
  assumes "alike F G"
  shows "alike (read_session P F) (read_session P G)" "alike (read_contacts P F) (read_contacts P G)"
    "alike (read_statistics P F) (read_statistics P G)"
proof -
  show "alike (read_session P F) (read_session P G)" unfolding read_session_def Let_def
    by (intro alike_ask assms) (auto split: sum.split Reply.split intro!: alike_intros)
  show "alike (read_contacts P F) (read_contacts P G)" unfolding read_contacts_def Let_def
    by (intro alike_ask assms) (auto split: sum.split Reply.split intro!: alike_intros)
  show "alike (read_statistics P F) (read_statistics P G)" unfolding read_statistics_def Let_def
    by (intro alike_ask assms) (auto split: sum.split Reply.split intro!: alike_intros)
qed

lemma alike_refresh [alike_intros]: "alike F G \<Longrightarrow> alike (refresh P F) (refresh P G)"
  by (simp only: refresh_steps alike_intros)

text \<open>The commands, one by one.\<close>

lemma alike_listings [alike_intros]:
  assumes "alike F G"
  shows "alike (list_groups P F) (list_groups P G)" "alike (list_group_invites P F) (list_group_invites P G)"
    "alike (show_metrics P F) (show_metrics P G)" "alike (presenter_save_session P F) (presenter_save_session P G)"
    "alike (show_history T P limit F) (show_history T P limit G)" "alike (show_requests P F) (show_requests P G)"
proof -
  show "alike (list_groups P F) (list_groups P G)" unfolding list_groups_def Let_def
    by (intro alike_ask assms) (simp split: sum.split Reply.split)
  show "alike (list_group_invites P F) (list_group_invites P G)" unfolding list_group_invites_def Let_def
    by (intro alike_ask assms) (simp split: sum.split Reply.split)
  show "alike (show_metrics P F) (show_metrics P G)" unfolding show_metrics_def Let_def
    by (intro alike_ask assms) (simp split: sum.split Reply.split)
  show "alike (presenter_save_session P F) (presenter_save_session P G)" unfolding presenter_save_session_def Let_def
    by (intro alike_ask assms) (simp split: sum.split Reply.split)
  show "alike (show_history T P limit F) (show_history T P limit G)" unfolding show_history_def Let_def
    by (intro alike_ask assms) (simp split: sum.split prod.split)
  show "alike (show_requests P F) (show_requests P G)"
    unfolding show_requests_def Let_def alike_session [OF assms]
    using assms by (simp add: alike_ask split: sum.split Reply.split)
qed

lemma alike_screens [alike_intros]:
  assumes "alike F G"
  shows "alike (show_info F) (show_info G)" "alike (show_whoami F) (show_whoami G)"
    "alike (show_version F) (show_version G)" "alike (show_peers F) (show_peers G)"
    "alike (show_contacts F) (show_contacts G)" "alike (show_statistics P F) (show_statistics P G)"
  using assms alike_refresh [OF assms, of P]
  by (simp_all add: show_info_def show_whoami_def show_version_def show_peers_def show_contacts_def
      show_statistics_def Let_def)

lemma alike_group_commands [alike_intros]:
  assumes "alike F G"
  shows "alike (create_group P t F) (create_group P t G)" "alike (rename_group P gid t F) (rename_group P gid t G)"
    "alike (join_group P t F) (join_group P t G)" "alike (decline_group_invite P t F) (decline_group_invite P t G)"
    "alike (invite_to_group P gid t F) (invite_to_group P gid t G)" "alike (leave_group P t F) (leave_group P t G)"
    "alike (send_group_message T P gid t kind content F) (send_group_message T P gid t kind content G)"
proof -
  show "alike (create_group P t F) (create_group P t G)" unfolding create_group_def Let_def
    by (intro alike_ask assms alike_refresh) (simp split: sum.split Reply.split)
  show "alike (rename_group P gid t F) (rename_group P gid t G)" unfolding rename_group_def Let_def
    using assms by (auto intro!: alike_ask alike_refresh split: sum.split Reply.split)
  show "alike (join_group P t F) (join_group P t G)" unfolding join_group_def Let_def
    by (intro alike_ask assms alike_refresh) (simp split: sum.split Reply.split)
  show "alike (decline_group_invite P t F) (decline_group_invite P t G)" unfolding decline_group_invite_def Let_def
    using assms by (auto intro!: alike_ask alike_refresh split: sum.split Reply.split)
  show "alike (invite_to_group P gid t F) (invite_to_group P gid t G)" unfolding invite_to_group_def Let_def
    using assms by (auto intro!: alike_ask alike_refresh split: sum.split Reply.split)
  show "alike (leave_group P t F) (leave_group P t G)" unfolding leave_group_def Let_def
    by (intro alike_ask assms alike_refresh) (simp split: sum.split Reply.split)
  show "alike (send_group_message T P gid t kind content F) (send_group_message T P gid t kind content G)"
    unfolding send_group_message_def Let_def
    using assms by (auto intro!: alike_ask split: sum.split Reply.split)
qed

lemma alike_if:
  "(b \<Longrightarrow> alike F G) \<Longrightarrow> (\<not> b \<Longrightarrow> alike F' G') \<Longrightarrow> alike (if b then F else F') (if b then G else G')"
  by simp

lemma alike_group_command [alike_intros]:
  assumes "alike F G"
  shows "alike (run_group_command T P sub arguments F) (run_group_command T P sub arguments G)"
  unfolding run_group_command_def Let_def split_beta
  by (intro alike_if) (simp_all only: alike_emit, (intro alike_intros assms | rule assms)+)

lemma alike_profile [alike_intros]:
  assumes "alike F G"
  shows "alike (set_nickname P t F) (set_nickname P t G)" "alike (set_status P t F) (set_status P t G)"
    "alike (add_contact P t remark F) (add_contact P t remark G)" "alike (remove_contact P t F) (remove_contact P t G)"
    "alike (connect P t F) (connect P t G)" "alike (select_conversation P t F) (select_conversation P t G)"
proof -
  show "alike (set_nickname P t F) (set_nickname P t G)" unfolding set_nickname_def Let_def
    by (intro alike_ask assms) (auto simp: alike_session split: sum.split Reply.split intro!: alike_set_session)
  show "alike (set_status P t F) (set_status P t G)" unfolding set_status_def Let_def
    by (intro alike_ask assms) (auto simp: alike_session split: sum.split Reply.split intro!: alike_set_session)
  show "alike (add_contact P t remark F) (add_contact P t remark G)" unfolding add_contact_def Let_def
    using assms by (auto intro!: alike_ask alike_refresh split: sum.split Reply.split)
  show "alike (remove_contact P t F) (remove_contact P t G)" unfolding remove_contact_def Let_def
    using assms by (auto intro!: alike_ask alike_refresh split: sum.split Reply.split)
  show "alike (connect P t F) (connect P t G)" unfolding connect_def Let_def
    using assms by (auto intro!: alike_ask split: sum.split Reply.split)
  show "alike (select_conversation P t F) (select_conversation P t G)" unfolding select_conversation_def Let_def
    using assms
    by (auto simp: alike_session intro!: alike_ask alike_refresh alike_set_session split: sum.split Reply.split option.split)
qed

lemma alike_resolve:
  assumes "alike F G"
  shows "alike (fst (resolve_pending_request P t F)) (fst (resolve_pending_request P t G)) \<and>
    snd (resolve_pending_request P t F) = snd (resolve_pending_request P t G)"
  using assms alike_updates(1) [OF assms]
  by (auto simp: resolve_pending_request_def ask_core_eq alike_core [OF assms] Let_def
      split: option.split sum.split Reply.split)

lemma alike_answers [alike_intros]:
  assumes "alike F G"
  shows "alike (accept_request P t F) (accept_request P t G)" "alike (reject_request P t F) (reject_request P t G)"
proof -
  obtain F1 G1 key where r: "resolve_pending_request P t F = (F1, key)" "resolve_pending_request P t G = (G1, key)"
    "alike F1 G1" using alike_resolve [OF assms, of P t] by (metis prod.collapse)
  show "alike (accept_request P t F) (accept_request P t G)" unfolding accept_request_def Let_def
    using assms r
    by (auto simp: alike_session split: option.split sum.split Reply.split intro!: alike_ask alike_refresh)
  show "alike (reject_request P t F) (reject_request P t G)" unfolding reject_request_def Let_def
    using assms r
    by (auto simp: alike_session split: option.split sum.split Reply.split intro!: alike_ask alike_refresh)
qed

lemma alike_send_message [alike_intros]:
  "alike F G \<Longrightarrow> alike (send_message T P target t kind content F) (send_message T P target t kind content G)"
  unfolding send_message_def Let_def
  by (auto simp: alike_session split: sum.split Reply.split intro!: alike_ask alike_refresh)

lemma alike_run_command:
  assumes "alike F G"
  shows "alike (run_command T P c F) (run_command T P c G)"
proof (cases c)
  case (CmHelp topic)
  then show ?thesis using assms by (cases topic) (simp_all add: run_command_def)
next
  case (CmAction t)
  then show ?thesis using assms by (simp add: run_command_def alike_intros)
next
  case (CmBinary t)
  then show ?thesis using assms by (simp add: run_command_def alike_intros)
qed (use assms in \<open>simp_all add: run_command_def alike_intros Let_def\<close>)

lemma lit_eq_iff: "lit a = lit b \<longleftrightarrow> a = b"
proof -
  have "inj (of_char :: char \<Rightarrow> rchar)" by (simp add: inj_on_def)
  then show ?thesis by (simp add: lit_def inj_map_eq_map)
qed

lemma among_lit: "among ns (lit n) \<longleftrightarrow> n \<in> set ns"
  by (auto simp: among_def lit_eq_iff)

lemma alike_select_group: "alike (run_command T P (CmGroup (lit ''select'') g) F) F"
  by (simp add: run_command_def run_group_command_def Let_def split_beta among_lit)
    (simp add: alike_def presenter_eqI)

subsection \<open>The requests a command makes\<close>

text \<open>A core that records the requests it is asked.\<close>

definition recorded :: "'c core_port \<Rightarrow> ('c \<times> Request list) core_port" where
  "recorded P r c = (case P r (fst c) of (c1, a) \<Rightarrow> ((c1, snd c @ [r]), a))"

definition trace :: "('c \<times> Request list) front \<Rightarrow> Request list" where
  "trace F = snd (fr_core F)"

named_theorems trace_simps \<open>requests made so far\<close>

lemma trace_quiet [trace_simps]:
  "trace (emit a F) = trace F" "trace (warn_error e F) = trace F" "trace (set_session s F) = trace F"
  "trace (F\<lparr>fr_presenter := p\<rparr>) = trace F" "trace (F\<lparr>fr_screen := shown\<rparr>) = trace F"
  by (simp_all add: trace_def emit_def warn_error_def set_session_def)

lemma trace_emit_all [trace_simps]: "trace (emit_all as F) = trace F"
  by (induction as arbitrary: F) (simp_all add: trace_simps)

lemma trace_ask [trace_simps]: "trace (fst (ask_core (recorded P) r F)) = trace F @ [r]"
  by (simp add: ask_core_def trace_def recorded_def split_beta)

definition refresh_requests :: "Request list" where
  "refresh_requests = [RqSessionInfo, RqListContacts, RqStatistics]"

lemma trace_refresh [trace_simps]: "trace (refresh (recorded P) F) = trace F @ refresh_requests"
proof -
  have "trace (read_session (recorded P) F) = trace F @ [RqSessionInfo]" for F
    by (simp add: read_session_def split_beta Let_def trace_simps split: sum.split Reply.split)
  moreover have "trace (read_contacts (recorded P) F) = trace F @ [RqListContacts]" for F
    by (simp add: read_contacts_def split_beta Let_def trace_simps split: sum.split Reply.split)
  moreover have "trace (read_statistics (recorded P) F) = trace F @ [RqStatistics]" for F
    by (simp add: read_statistics_def split_beta Let_def trace_simps split: sum.split Reply.split)
  ultimately show ?thesis by (simp add: refresh_steps refresh_requests_def)
qed

lemma trace_send_message:
  assumes "trim t \<noteq> []" "target = None \<Longrightarrow> si_active_chat (fr_session F) \<noteq> None"
    "\<And>x. target = Some x \<Longrightarrow> trim x \<noteq> []"
  shows "trace (send_message T (recorded P) target t kind content F) =
    trace F @ RqSendMessage target (trim t) kind content # refresh_requests"
  using assms
  by (auto simp: send_message_def Let_def split_beta trace_simps split: option.split sum.split Reply.split)

end
