(* ===== verification/FrontOverCore.thy ===== *)
theory FrontOverCore
  imports CoreOutcomes PresenterFacts
begin

section \<open>The presenter over the core\<close>

text \<open>
  What the presenter relies on in the core it asks, as a locale, and that the core service of this
  development provides it: the client of the same process answers a request by a turn of the core.
\<close>

subsection \<open>The interface\<close>

text \<open>The requests after which the presenter does not read its copies again: none of them may change
  what is copied, but for a new nickname or status, which the answer tells.\<close>

fun quiet_request :: "Request \<Rightarrow> bool" where
  "quiet_request (RqConnect address) = True"
| "quiet_request (RqHistory limit) = True"
| "quiet_request RqSaveSession = True"
| "quiet_request RqPeerRequests = True"
| "quiet_request RqGroups = True"
| "quiet_request RqGroupInvites = True"
| "quiet_request (RqSendGroupMessage g t kind content) = True"
| "quiet_request RqMetrics = True"
| "quiet_request RqSessionInfo = True"
| "quiet_request RqListContacts = True"
| "quiet_request RqStatistics = True"
| "quiet_request r = False"

text \<open>The profile in a session: nickname, status and active conversation.\<close>

definition session_profile :: "SessionInfo \<Rightarrow> rtext \<times> rtext \<times> rtext option" where
  "session_profile s = (si_nickname s, si_status_message s, si_active_chat s)"

definition mirrors ::
    "('c \<Rightarrow> rtext \<times> rtext \<times> rtext option) \<Rightarrow> ('c \<Rightarrow> ContactView list) \<Rightarrow> 'c front \<Rightarrow> bool" where
  "mirrors profile friends F \<longleftrightarrow> session_profile (fr_session F) = profile (fr_core F) \<and>
     pr_contacts (fr_presenter F) = friends (fr_core F)"

lemma mirrors_screen [simp]:
  "mirrors p f (emit a F) = mirrors p f F" "mirrors p f (warn_error e F) = mirrors p f F"
  "mirrors p f (F\<lparr>fr_screen := s\<rparr>) = mirrors p f F"
  "mirrors p f (F\<lparr>fr_presenter := (fr_presenter F)\<lparr>pr_statistics := v\<rparr>\<rparr>) = mirrors p f F"
  "mirrors p f (F\<lparr>fr_presenter := (fr_presenter F)\<lparr>pr_stop := b\<rparr>\<rparr>) = mirrors p f F"
  "mirrors p f (F\<lparr>fr_presenter := (fr_presenter F)\<lparr>pr_active_group := g\<rparr>\<rparr>) = mirrors p f F"
  by (simp_all add: mirrors_def emit_def warn_error_def fr_session_def)

lemma mirrors_emit_all [simp]: "mirrors p f (emit_all as F) = mirrors p f F"
  by (induction as arbitrary: F) simp_all

locale readable_core =
  fixes port :: "'c core_port"
    and profile :: "'c \<Rightarrow> rtext \<times> rtext \<times> rtext option"
    and friends :: "'c \<Rightarrow> ContactView list"
  assumes session_read: "\<exists>i. snd (port RqSessionInfo c) = Inr (RpSession i) \<and> session_profile i = profile c"
    and friends_read: "snd (port RqListContacts c) = Inr (RpContacts (friends c))"
    and quiet: "quiet_request r \<Longrightarrow> profile (fst (port r c)) = profile c \<and> friends (fst (port r c)) = friends c"
    and nickname_set: "(case port (RqSetNickname t) c of (c', a) \<Rightarrow> friends c' = friends c \<and> snd (profile c') = snd (profile c) \<and>
      (case a of Inr (RpUpdated w d) \<Rightarrow> fst (profile c') = d | _ \<Rightarrow> profile c' = profile c))"
    and status_set: "(case port (RqSetStatus t) c of (c', a) \<Rightarrow> friends c' = friends c \<and> fst (profile c') = fst (profile c) \<and>
      snd (snd (profile c')) = snd (snd (profile c)) \<and>
      (case a of Inr (RpUpdated w d) \<Rightarrow> fst (snd (profile c')) = d | _ \<Rightarrow> profile c' = profile c))"
begin

lemma refresh_mirrors [simp]: "mirrors profile friends (refresh port F)"
proof -
  obtain i where i: "snd (port RqSessionInfo (fr_core F)) = Inr (RpSession i)" "session_profile i = profile (fr_core F)"
    using session_read by blast
  have "session_profile (fr_session (read_session port F)) = profile (fr_core (read_session port F))"
    using i quiet [of RqSessionInfo "fr_core F"]
    by (simp add: read_session_def ask_core_eq set_session_def fr_session_def)
  then have "mirrors profile friends (read_contacts port (read_session port F))"
    using quiet [of RqListContacts "fr_core (read_session port F)"]
    by (simp add: read_contacts_def ask_core_eq friends_read mirrors_def fr_session_def)
  then have "mirrors profile friends (read_statistics port (read_contacts port (read_session port F)))"
    using quiet [of RqStatistics "fr_core (read_contacts port (read_session port F))"]
    by (auto simp: read_statistics_def ask_core_eq mirrors_def fr_session_def split: sum.split Reply.split)
  then show ?thesis by (simp add: refresh_steps)
qed

lemma quiet_mirrors: "quiet_request r \<Longrightarrow> mirrors profile friends F \<Longrightarrow> mirrors profile friends (fst (ask_core port r F))"
  using quiet [of r "fr_core F"] by (simp add: ask_core_eq mirrors_def fr_session_def)

lemma ask_mirrors:
  assumes "quiet_request r" "mirrors profile friends F"
    "\<And>F1 a. mirrors profile friends F1 \<Longrightarrow> mirrors profile friends (k F1 a)"
  shows "mirrors profile friends (case ask_core port r F of (F1, a) \<Rightarrow> k F1 a)"
  using assms(3) [OF quiet_mirrors [OF assms(1,2)]] by (simp add: split_beta)

lemma ask_refreshed: "mirrors profile friends (case ask_core port r F of (F1, a) \<Rightarrow> refresh port (k F1 a))"
  by (simp add: split_beta)

lemma listings_mirror:
  assumes "mirrors profile friends F"
  shows "mirrors profile friends (list_groups port F)" "mirrors profile friends (list_group_invites port F)"
    "mirrors profile friends (show_metrics port F)" "mirrors profile friends (presenter_save_session port F)"
    "mirrors profile friends (show_history T port limit F)" "mirrors profile friends (show_requests port F)"
    "mirrors profile friends (connect port t F)" "mirrors profile friends (send_group_message T port gid t kind content F)"
proof -
  note ask = ask_mirrors [OF _ assms]
  show "mirrors profile friends (list_groups port F)" unfolding list_groups_def Let_def
    by (rule ask) (simp_all split: sum.split Reply.split)
  show "mirrors profile friends (list_group_invites port F)" unfolding list_group_invites_def Let_def
    by (rule ask) (simp_all split: sum.split Reply.split)
  show "mirrors profile friends (show_metrics port F)" unfolding show_metrics_def Let_def
    by (rule ask) (simp_all split: sum.split Reply.split)
  show "mirrors profile friends (presenter_save_session port F)" unfolding presenter_save_session_def Let_def
    by (rule ask) (simp_all split: sum.split Reply.split)
  show "mirrors profile friends (show_history T port limit F)" unfolding show_history_def Let_def
    by (rule ask) (simp_all split: sum.split prod.split)
  have "mirrors profile friends (case ask_core port RqPeerRequests F of (F1, a) \<Rightarrow> k F1 a)"
    if "\<And>F1 a. mirrors profile friends F1 \<Longrightarrow> mirrors profile friends (k F1 a)" for k
    by (rule ask) (simp_all add: that)
  then show "mirrors profile friends (show_requests port F)" unfolding show_requests_def Let_def
    using assms by (auto split: sum.split Reply.split)
  have "mirrors profile friends (case ask_core port (RqConnect (trim t)) F of (F1, a) \<Rightarrow> k F1 a)"
    if "\<And>F1 a. mirrors profile friends F1 \<Longrightarrow> mirrors profile friends (k F1 a)" for k
    by (rule ask) (simp_all add: that)
  then show "mirrors profile friends (connect port t F)" unfolding connect_def Let_def
    using assms by (auto split: sum.split Reply.split)
  have "mirrors profile friends (case ask_core port (RqSendGroupMessage gid (trim t) kind content) F of (F1, a) \<Rightarrow> k F1 a)"
    if "\<And>F1 a. mirrors profile friends F1 \<Longrightarrow> mirrors profile friends (k F1 a)" for k
    by (rule ask) (simp_all add: that)
  then show "mirrors profile friends (send_group_message T port gid t kind content F)"
    unfolding send_group_message_def Let_def using assms by (auto split: sum.split Reply.split)
qed

lemma resolve_mirrors:
  assumes "mirrors profile friends F"
  shows "mirrors profile friends (fst (resolve_pending_request port t F))"
proof (cases "parse_usize (trim t)")
  case None
  then show ?thesis using assms by (simp add: resolve_pending_request_def)
next
  case (Some i)
  have "mirrors profile friends (fst (ask_core port RqPeerRequests F))" by (rule quiet_mirrors [OF _ assms]) simp
  then show ?thesis
    by (auto simp: resolve_pending_request_def Some Let_def split_beta split: sum.split Reply.split option.split)
qed

lemma refreshing_mirror:
  assumes "mirrors profile friends F"
  shows "mirrors profile friends (create_group port t F)" "mirrors profile friends (rename_group port gid t F)"
    "mirrors profile friends (join_group port t F)" "mirrors profile friends (decline_group_invite port t F)"
    "mirrors profile friends (invite_to_group port gid t F)" "mirrors profile friends (leave_group port t F)"
    "mirrors profile friends (add_contact port t remark F)" "mirrors profile friends (select_conversation port t F)"
    "mirrors profile friends (remove_contact port t F)" "mirrors profile friends (send_message T port target t kind content F)"
    "mirrors profile friends (accept_request port t F)" "mirrors profile friends (reject_request port t F)"
  using assms resolve_mirrors [OF assms, of t]
  by (simp_all add: create_group_def rename_group_def join_group_def decline_group_invite_def invite_to_group_def
      leave_group_def add_contact_def select_conversation_def remove_contact_def send_message_def
      accept_request_def reject_request_def Let_def split_beta split: option.split)

lemma profile_commands_mirror:
  assumes "mirrors profile friends F"
  shows "mirrors profile friends (PresenterCommands.set_nickname port t F)" "mirrors profile friends (PresenterCommands.set_status port t F)"
proof -
  obtain c1 a1 where n: "port (RqSetNickname t) (fr_core F) = (c1, a1)" by (cases "port (RqSetNickname t) (fr_core F)")
  have "friends c1 = friends (fr_core F)" "snd (profile c1) = snd (profile (fr_core F))"
    "case a1 of Inr (RpUpdated w d) \<Rightarrow> fst (profile c1) = d | _ \<Rightarrow> profile c1 = profile (fr_core F)"
    using nickname_set [of "fr_core F" t] by (simp_all add: n)
  then show "mirrors profile friends (PresenterCommands.set_nickname port t F)"
    using assms unfolding PresenterCommands.set_nickname_def ask_core_def n Let_def prod.case
    by (cases "profile c1"; cases "profile (fr_core F)")
      (auto simp: mirrors_def session_profile_def fr_session_def set_session_def emit_def split: sum.splits Reply.splits)
  obtain c2 a2 where t: "port (RqSetStatus t) (fr_core F) = (c2, a2)" by (cases "port (RqSetStatus t) (fr_core F)")
  have "friends c2 = friends (fr_core F)" "fst (profile c2) = fst (profile (fr_core F))"
    "snd (snd (profile c2)) = snd (snd (profile (fr_core F)))"
    "case a2 of Inr (RpUpdated w d) \<Rightarrow> fst (snd (profile c2)) = d | _ \<Rightarrow> profile c2 = profile (fr_core F)"
    using status_set [of "fr_core F" t] by (simp_all add: t)
  then show "mirrors profile friends (PresenterCommands.set_status port t F)"
    using assms unfolding PresenterCommands.set_status_def ask_core_def t Let_def prod.case
    by (cases "profile c2"; cases "profile (fr_core F)")
      (auto simp: mirrors_def session_profile_def fr_session_def set_session_def emit_def split: sum.splits Reply.splits)
qed

lemma mirrors_if: "mirrors p f X \<Longrightarrow> mirrors p f Y \<Longrightarrow> mirrors p f (if b then X else Y)"
  by simp

lemma group_command_mirrors:
  assumes "mirrors profile friends F"
  shows "mirrors profile friends (run_group_command T port sub arguments F)"
  unfolding run_group_command_def Let_def split_beta
  by (intro mirrors_if; (rule listings_mirror refreshing_mirror, rule assms)?) (simp_all only: mirrors_screen assms)

lemma command_mirrors:
  assumes "mirrors profile friends F"
  shows "mirrors profile friends (run_command T port c F)"
proof (cases c)
  case (CmHelp topic)
  then show ?thesis using assms by (cases topic) (simp_all add: run_command_def)
qed (use assms in \<open>simp_all add: run_command_def listings_mirror refreshing_mirror profile_commands_mirror
      group_command_mirrors show_info_def show_contacts_def show_peers_def show_whoami_def show_version_def
      show_statistics_def Let_def\<close>)

lemma lines_mirror:
  assumes "mirrors profile friends F"
  shows "mirrors profile friends (fold (\<lambda>line F. fst (handle_line T port line F)) lines F)"
  using assms
proof (induction lines arbitrary: F)
  case (Cons line lines)
  then have "mirrors profile friends (fst (handle_line T port line F))"
    by (auto simp: handle_line_def handle_command_def Let_def command_mirrors split: Command.split list.split)
  then show ?case using Cons.IH by simp
qed simp

end

subsection \<open>The core of the same process\<close>

text \<open>\<^verbatim>\<open>LocalClient::request\<close>: the n-th request of the client is one turn of the core task, in the context
  and after the wait given for it. A shutdown ends the task; the presenter asks for it last.\<close>

type_synonym turn_context = "core_ctx \<times> duration \<times> duration \<times> nat"

definition local_port ::
    "('x, 'db) core_env \<Rightarrow> (nat \<Rightarrow> turn_context) \<Rightarrow> (('x, 'db) CoreService \<times> nat) core_port" where
  "local_port E turns r Cn =
     (case Cn of (C, n) \<Rightarrow>
        case turns n of (cx, waited, served, behind) \<Rightarrow>
          case core_turn E cx (CiCommand r waited served behind) C of
            (C', answer, stopped) \<Rightarrow> ((C', Suc n), handle_request True answer))"

definition core_profile :: "('x, 'db) CoreService \<Rightarrow> rtext \<times> rtext \<times> rtext option" where
  "core_profile C = (co_nickname C, co_status_message C, fst (active_conversation C))"

definition core_friends :: "('x, 'db) core_env \<Rightarrow> ('x, 'db) CoreService \<Rightarrow> ContactView list" where
  "core_friends E C = map (contact_view (ce_sql E)) (co_contacts C)"

lemma core_view_told:
  "core_view C' = core_view C \<Longrightarrow> core_profile C' = core_profile C \<and> core_friends E C' = core_friends E C"
  by (simp add: core_view_def core_profile_def core_friends_def active_conversation_def cong: option.case_cong)

lemma local_port_handles:
  assumes "r \<noteq> RqShutdown" "turns n = (cx, waited, served, behind)"
    "core_handle E cx r (C\<lparr>co_command_queue_depth := behind\<rparr>) = (C1, answer)"
  shows "local_port E turns r (C, n) = ((record_request waited served C1, Suc n), into_result answer)"
  using assms by (simp add: local_port_def handle_request_def)

lemma quiet_view:
  "quiet_request r \<Longrightarrow> core_view (fst (core_handle E cx r C)) = core_view C"
  by (cases r) (auto simp: core_view_handlers split_beta split: sum.split)

lemma into_result_ok [simp]: "into_result (core_ok a) = Inr a" "into_result (core_err e) = Inl e"
  by (simp_all add: core_ok_def core_err_def response_ok_def response_err_def)

lemma session_told:
  "session_info E now C = (C', i) \<Longrightarrow> session_profile i = core_profile C"
  by (auto simp: session_info_def session_profile_def core_profile_def split: prod.splits)

lemma profile_set:
  assumes "core_handle E cx (RqSetNickname t) C = (C1, a)"
  shows "core_friends E C1 = core_friends E C \<and> snd (core_profile C1) = snd (core_profile C) \<and>
    (case into_result a of Inr (RpUpdated w d) \<Rightarrow> fst (core_profile C1) = d | _ \<Rightarrow> core_profile C1 = core_profile C)"
  using assms
  by (auto simp: core_set_nickname_def Let_def core_publish_def core_profile_def core_friends_def active_conversation_def
      split: if_splits sum.splits cong: option.case_cong)

lemma status_set_told:
  assumes "core_handle E cx (RqSetStatus t) C = (C1, a)"
  shows "core_friends E C1 = core_friends E C \<and> fst (core_profile C1) = fst (core_profile C) \<and>
    snd (snd (core_profile C1)) = snd (snd (core_profile C)) \<and>
    (case into_result a of Inr (RpUpdated w d) \<Rightarrow> fst (snd (core_profile C1)) = d | _ \<Rightarrow> core_profile C1 = core_profile C)"
  using assms
  by (auto simp: core_set_status_def Let_def core_publish_def core_profile_def core_friends_def active_conversation_def
      split: if_splits sum.splits cong: option.case_cong)

text \<open>A request other than a shutdown, as its handling between two fields the front end does not see.\<close>

lemma local_port_cases:
  assumes "r \<noteq> RqShutdown"
  obtains cx C0 C1 a where "core_view C0 = core_view (fst Cn)" "core_handle E cx r C0 = (C1, a)"
    "core_view (fst (fst (local_port E turns r Cn))) = core_view C1" "snd (local_port E turns r Cn) = into_result a"
proof -
  obtain C n where Cn: "Cn = (C, n)" by (cases Cn)
  obtain cx waited served behind where t: "turns n = (cx, waited, served, behind)" by (cases "turns n")
  obtain C1 a where h: "core_handle E cx r (C\<lparr>co_command_queue_depth := behind\<rparr>) = (C1, a)"
    by (cases "core_handle E cx r (C\<lparr>co_command_queue_depth := behind\<rparr>)")
  show thesis
    using that [of "C\<lparr>co_command_queue_depth := behind\<rparr>" cx C1 a] h local_port_handles [OF assms, of turns n, OF t h] by (simp add: Cn)
qed

interpretation here: readable_core "local_port E turns" "\<lambda>Cn. core_profile (fst Cn)" "\<lambda>Cn. core_friends E (fst Cn)" for E turns
proof (unfold_locales, goal_cases)
  case (1 Cn)
  obtain cx C0 C1 a where c: "core_view C0 = core_view (fst Cn)" "core_handle E cx RqSessionInfo C0 = (C1, a)"
    "snd (local_port E turns RqSessionInfo Cn) = into_result a" by (rule local_port_cases [of RqSessionInfo Cn E turns]) auto
  obtain C2 i where i: "session_info E (cx_now cx) (refresh_group_cache E C0) = (C2, i)" by fastforce
  have "session_profile i = core_profile (fst Cn)"
    using session_told [OF i] core_view_told c(1) core_view_refresh by metis
  then show ?case using c i by auto
next
  case (2 Cn)
  obtain cx C0 C1 a where c: "core_view C0 = core_view (fst Cn)" "core_handle E cx RqListContacts C0 = (C1, a)"
    "snd (local_port E turns RqListContacts Cn) = into_result a" by (rule local_port_cases [of RqListContacts Cn E turns]) auto
  then show ?case using core_view_told [OF c(1), of E] by (auto simp: core_friends_def)
next
  case (3 r Cn)
  then have "r \<noteq> RqShutdown" by auto
  then obtain cx C0 C1 a where c: "core_view C0 = core_view (fst Cn)" "core_handle E cx r C0 = (C1, a)"
    "core_view (fst (fst (local_port E turns r Cn))) = core_view C1" by (rule local_port_cases)
  then show ?case using quiet_view [OF 3, of E cx C0] by (intro core_view_told) simp
next
  case (4 Cn t)
  obtain cx C0 C1 a where c: "core_view C0 = core_view (fst Cn)" "core_handle E cx (RqSetNickname t) C0 = (C1, a)"
    "core_view (fst (fst (local_port E turns (RqSetNickname t) Cn))) = core_view C1"
    "snd (local_port E turns (RqSetNickname t) Cn) = into_result a" by (rule local_port_cases [of "RqSetNickname t" Cn E turns]) auto
  show ?case
    using profile_set [OF c(2)] core_view_told [OF c(1), of E] core_view_told [OF c(3), of E] c(4)
    by (simp add: split_beta cong: sum.case_cong Reply.case_cong)
next
  case (5 Cn t)
  obtain cx C0 C1 a where c: "core_view C0 = core_view (fst Cn)" "core_handle E cx (RqSetStatus t) C0 = (C1, a)"
    "core_view (fst (fst (local_port E turns (RqSetStatus t) Cn))) = core_view C1"
    "snd (local_port E turns (RqSetStatus t) Cn) = into_result a" by (rule local_port_cases [of "RqSetStatus t" Cn E turns]) auto
  show ?case
    using status_set_told [OF c(2)] core_view_told [OF c(1), of E] core_view_told [OF c(3), of E] c(4)
    by (simp add: split_beta cong: sum.case_cong Reply.case_cong)
qed

end
