(* ===== verification/FrontGuarantees.thy ===== *)
theory FrontGuarantees
  imports CoreGuarantees TerminalFacts FrontOverCore
begin

section \<open>Guarantees of the front ends\<close>

text \<open>
  What the conversation pane, the input line, the line editor and the presenter promise the user,
  each followed by an instance.
\<close>

definition one_column :: "rchar \<Rightarrow> nat" where
  "one_column c = 1"

definition sample_text_lib :: text_lib where
  "sample_text_lib = \<lparr>tl_lower = to_ascii_lowercase, tl_stamp = (\<lambda>s. None)\<rparr>"

text \<open>C36: The conversation pane shows exactly the rows that a window of its height, scrolled back by the
  offset but not past the oldest row, cuts from the whole log wrapped, although the code wraps only
  the newest lines it needs; the limit it reports is where that window stops, or none when there
  are rows left. Wrapping loses no character, and a row ends only where the next character would
  not have fitted; a row wider than the pane holds a single character that is.\<close>

theorem log_window_exact:
  assumes "0 < visible" "scroll \<le> usize_max" "0 < width"
  shows "fst (visible_log_rows columns lines width visible scroll) =
      window visible scroll (concat (map (\<lambda>line. wrap_line columns line width) lines)) \<and>
    (let total = length (concat (map (\<lambda>line. wrap_line columns line width) lines));
         limit = snd (visible_log_rows columns lines width visible scroll) in
     limit = total - visible \<or> limit = usize_max \<and> visible + scroll \<le> total) \<and>
    (\<forall>line. concat (wrap_line columns line width) = line \<and> greedy columns width (wrap_line columns line width) \<and>
      (\<forall>row \<in> set (wrap_line columns line width). fits columns width row))"
proof -
  have "greedy columns width (wrap_line columns line width)" for line
    using assms(3) wrap_rows_greedy [of 0 columns "[]" width line] by (auto simp: wrap_line_def split: list.split)
  moreover have "fits columns width row" if "row \<in> set (wrap_line columns line width)" for line row
    using assms(3) that wrap_rows_fit [of 0 columns "[]" width line]
    by (auto simp: wrap_line_def fits_def split: list.splits)
  ultimately show ?thesis
    using visible_log_rows_window [OF assms(1,2), of columns lines width] wrap_line_concat [of columns _ width]
    by (simp add: all_rows_def Let_def)
qed

theorem log_window_exact_witness:
  "fst (visible_log_rows one_column [[1, 2, 3], [4], [5, 6]] 2 2 1) = [[3], [4]]"
proof -
  have "fst (visible_log_rows one_column [[1, 2, 3], [4], [5, 6]] 2 2 1) =
      window 2 1 (concat (map (\<lambda>line. wrap_line one_column line 2) [[1, 2, 3], [4], [5, 6]]))"
    using log_window_exact [of 2 1 2 one_column "[[1, 2, 3], [4], [5, 6]]"] by (simp add: usize_max_def)
  then show ?thesis by (simp add: wrap_line_def one_column_def window_def)
qed

text \<open>The input line keeps the caret in sight: for a pane of at least two columns the line shown is the
  text from some character on, with an ellipsis before it when characters are cut; the caret stands
  exactly behind the columns of what is shown before the cursor, inside the width, and nothing is
  cut when the text before the cursor fits.\<close>

theorem caret_stays_visible:
  assumes "2 \<le> width" "width \<le> 65535" "columns 8230 = 1" "cursor \<le> length input"
  shows "\<exists>start \<le> cursor.
    fst (input_view columns input cursor width) = (if start = 0 then input else 8230 # drop start input) \<and>
    snd (input_view columns input cursor width) =
      (if start = 0 then 0 else 1) + width_of columns (take (cursor - start) (drop start input)) \<and>
    snd (input_view columns input cursor width) < width \<and>
    (width_of columns (take cursor input) < width \<longrightarrow> start = 0)"
proof -
  let ?v = "view_start columns input cursor width 0"
  let ?offset = "width_of columns (take cursor input) - width_of columns (take ?v input) + (if 0 < ?v then 1 else 0)"
  have v: "?v \<le> cursor" using view_start_bounds [of 0 cursor columns input width] by simp
  have inside: "?offset < width" by (rule caret_offset_inside [OF assms(1) refl])
  have whole: "?v = 0" if "width_of columns (take cursor input) < width" by (rule view_start_whole [OF that])
  have "width_of columns (take cursor input) - width_of columns (take ?v input) =
      width_of columns (take (cursor - ?v) (drop ?v input))" by (rule width_of_between [OF v])
  moreover have "input_view columns input cursor width =
      (if ?v = 0 then input else 8230 # drop ?v input, ?offset)"
    using assms(1,2,4) inside by (auto simp: input_view_def Let_def u16_capped_def min_absorb1)
  ultimately show ?thesis
    using v inside whole by (intro exI [of _ ?v]) auto
qed

theorem caret_stays_visible_witness:
  "\<exists>start \<le> 5. fst (input_view one_column [1, 2, 3, 4, 5] 5 4) = (if start = 0 then [1, 2, 3, 4, 5] else 8230 # drop start [1, 2, 3, 4, 5]) \<and>
    snd (input_view one_column [1, 2, 3, 4, 5] 5 4) < 4"
  using caret_stays_visible [of 4 one_column 5 "[1, 2, 3, 4, 5]"] by (auto simp: one_column_def)

text \<open>C37: Whatever keys are pressed and texts pasted, in any order, the cursor stays within the text and
  the history within its hundred entries, none of them blank and none equal to the one before it.
  Going back through the history any number of times and forward again as far leaves the text as it
  was, with the cursor at its end.\<close>

theorem editor_sound:
  assumes "editor_ok B"
  shows "editor_ok (fold (\<lambda>i. case i of Inl key \<Rightarrow> fst \<circ> apply_key key | Inr s \<Rightarrow> ib_insert_str s) inputs B) \<and>
    (ib_history B \<noteq> [] \<and> ib_history_index B = None \<and> 0 < n \<longrightarrow>
      (ib_history_next ^^ min n (length (ib_history B))) ((ib_history_previous ^^ n) B) =
        B\<lparr>ib_cursor := length (ib_chars B), ib_draft := []\<rparr>)"
proof (intro conjI impI)
  show "editor_ok (fold (\<lambda>i. case i of Inl key \<Rightarrow> fst \<circ> apply_key key | Inr s \<Rightarrow> ib_insert_str s) inputs B)"
    using assms by (induction inputs arbitrary: B) (auto simp: editor_ok_key editor_ok_edits(2) split: sum.split)
next
  assume a: "ib_history B \<noteq> [] \<and> ib_history_index B = None \<and> 0 < n"
  let ?h = "ib_history B" and ?d = "ib_chars B"
  let ?i = "length ?h - 1 - (n - 1)" and ?k = "min n (length ?h)"
  have "browsing (length ?h - 1) ?d ?h (ib_history_previous B)"
    using a by (intro browsing_starts) auto
  from browsing_previous_n [OF this, of "n - 1"]
  have gone: "browsing ?i ?d ?h ((ib_history_previous ^^ n) B)"
    using a by (metis One_nat_def Suc_pred funpow_Suc_right comp_apply)
  have "0 < length ?h" "0 < n" using a by auto
  then have k: "?i + (?k - 1) < length ?h" "Suc (?i + (?k - 1)) = length ?h" "?k = Suc (?k - 1)" by linarith+
  have "ib_history_next ((ib_history_next ^^ (?k - 1)) ((ib_history_previous ^^ n) B)) =
      \<lparr>ib_chars = ?d, ib_cursor = length ?d, ib_history = ?h, ib_history_index = None, ib_draft = []\<rparr>"
    by (rule browsing_ends [OF browsing_next_n [OF gone k(1)] k(2)])
  also have "\<dots> = B\<lparr>ib_cursor := length ?d, ib_draft := []\<rparr>" using a by (cases B) simp
  finally show "(ib_history_next ^^ ?k) ((ib_history_previous ^^ n) B) = B\<lparr>ib_cursor := length ?d, ib_draft := []\<rparr>"
    by (subst k(3)) simp
qed

theorem editor_sound_witness:
  "(ib_history_next ^^ 1) ((ib_history_previous ^^ 3)
     \<lparr>ib_chars = [104], ib_cursor = 0, ib_history = [[97]], ib_history_index = None, ib_draft = []\<rparr>) =
   \<lparr>ib_chars = [104], ib_cursor = 1, ib_history = [[97]], ib_history_index = None, ib_draft = []\<rparr>"
proof -
  let ?B = "\<lparr>ib_chars = [104], ib_cursor = 0, ib_history = [[97]], ib_history_index = None, ib_draft = []\<rparr>"
  have "editor_ok ?B" by (simp add: editor_ok_def INPUT_HISTORY_CAPACITY_def trim_id is_whitespace_def)
  from editor_sound [OF this, of "[]" 3] show ?thesis by simp
qed

text \<open>C33: A text typed into the empty editor and sent with Enter reaches the core as one message request
  for the active conversation, its body the text without the blanks around it, followed only by the
  three requests that read the state again; a blank line makes no request, and neither stops the
  front end.\<close>

theorem typed_text_is_sent:
  assumes "ib_chars B = []" "ib_cursor B = 0" "trim s \<noteq> []" "strip_prefix (lit ''/'') (trim s) = None"
    "si_active_chat (fr_session F) \<noteq> None" "trim blank = []"
  shows "\<exists>B'. apply_keys (map char_key s @ [plain_key KcEnter]) B = (B', replicate (length s) KaNone @ [KaLine s]) \<and>
      ib_chars B' = [] \<and> ib_cursor B' = 0 \<and>
    trace (fst (handle_line T (recorded P) s F)) =
      trace F @ [RqSendMessage None (trim s) KText CText, RqSessionInfo, RqListContacts, RqStatistics] \<and>
    handle_line T (recorded P) blank F = (F, False)"
proof -
  have ne: "s \<noteq> []" using assms(3) by auto
  have keys: "apply_keys (map char_key s) B =
      (ib_stop_browsing (B\<lparr>ib_chars := s, ib_cursor := length s\<rparr>), replicate (length s) KaNone)"
    using apply_char_keys [of B s] assms(1,2) ne by simp
  have "parse_command (tl_lower T) s = CmMessage (trim s)" by (rule parse_plain [OF assms(4)])
  then have sent: "trace (fst (handle_line T (recorded P) s F)) = trace F @ RqSendMessage None (trim s) KText CText # refresh_requests"
    using trace_send_message [of "trim s" None F T P KText CText] assms(3,5)
    by (simp add: handle_line_def handle_command_def run_command_def Let_def)
  have "strip_prefix (lit ''/'') (trim blank) = None" using assms(6) by (simp add: lit_def)
  then have "parse_command (tl_lower T) blank = CmMessage []" using parse_plain assms(6) by metis
  then have idle: "handle_line T (recorded P) blank F = (F, False)" by (simp add: handle_line_def)
  have enter: "apply_key (plain_key KcEnter) D = (fst (ib_submit D), KaLine (ib_chars D))" for D
    by (simp add: apply_key_def plain_key_def ib_submit_def Let_def)
  have "ib_chars (fst (ib_submit D)) = []" "ib_cursor (fst (ib_submit D)) = 0" for D
    by (simp_all add: ib_submit_def ib_stop_browsing_def Let_def)
  then show ?thesis
    using sent idle by (simp add: apply_keys_append keys enter refresh_requests_def) (simp add: ib_stop_browsing_def)
qed

definition nothing_said :: "unit core_port" where
  "nothing_said r c = (c, Inr (RpPong None))"

definition chatting :: "(unit \<times> Request list) front" where
  "chatting = \<lparr>fr_core = ((), []), fr_presenter = presenter_new\<lparr>pr_session := session_info_default\<lparr>si_active_chat := Some (lit ''bob'')\<rparr>\<rparr>,
     fr_screen = \<lparr>sc_sink = output_sink_default, sc_printed = []\<rparr>\<rparr>"

theorem typed_text_is_sent_witness:
  "trace (fst (handle_line sample_text_lib (recorded nothing_said) [32, 104, 105] chatting)) =
     [RqSendMessage None [104, 105] KText CText, RqSessionInfo, RqListContacts, RqStatistics]"
proof -
  have t: "trim [32, 104, 105] = [104, 105]" "trim [32 :: rchar] = []"
    by (simp_all add: trim_def trim_start_def trim_end_def is_whitespace_def)
  have "trace chatting = []" "si_active_chat (fr_session chatting) \<noteq> None"
    by (simp_all add: chatting_def trace_def fr_session_def)
  with typed_text_is_sent [of input_buffer_new "[32, 104, 105]" chatting "[32]" sample_text_lib nothing_said]
  show ?thesis by (auto simp: t input_buffer_new_def lit_def)
qed

text \<open>\<^verbatim>\<open>/group select\<close> changes no later command: whatever it named, the core is asked the same and
  is left in the same state by every command that follows.\<close>

theorem selected_group_ignored:
  "fr_core (run_command T P c (run_command T P (CmGroup (lit ''select'') g) F)) = fr_core (run_command T P c F)"
  by (rule alike_core [OF alike_run_command [OF alike_select_group]])






text \<open>C32: What the user sees of himself is what the core has: once the front end of the same process has
  announced itself, after every sequence of lines typed, whatever commands they are and whether they
  succeed or fail, its nickname, status, active conversation and contacts are those of the core.\<close>

theorem presenter_mirrors_core:
  assumes "\<not> pr_announced (fr_presenter F)"
  shows "let G = fold (\<lambda>line F. fst (handle_line T (local_port E turns) line F)) lines (announce (local_port E turns) full F);
             C = fst (fr_core G) in
    si_nickname (fr_session G) = co_nickname C \<and> si_status_message (fr_session G) = co_status_message C \<and>
    si_active_chat (fr_session G) = fst (active_conversation C) \<and>
    pr_contacts (fr_presenter G) = map (contact_view (ce_sql E)) (co_contacts C)"
proof -
  have "mirrors (\<lambda>Cn. core_profile (fst Cn)) (\<lambda>Cn. core_friends E (fst Cn)) (announce (local_port E turns) full F)"
    using assms by (simp add: announce_def show_info_def)
  from here.lines_mirror [where T = T and lines = lines, OF this] show ?thesis
    by (simp add: Let_def mirrors_def session_profile_def core_profile_def core_friends_def)
qed

definition sample_turns :: "nat \<Rightarrow> turn_context" where
  "sample_turns n = (sample_cx, 0, 0, 0)"

definition sample_front :: "((sample_tox, sample_db) CoreService \<times> nat) front" where
  "sample_front = \<lparr>fr_core = (sample_core sample_network, 0), fr_presenter = presenter_new,
     fr_screen = \<lparr>sc_sink = output_sink_default, sc_printed = []\<rparr>\<rparr>"

theorem presenter_mirrors_core_witness:
  "let G = fst (handle_line sample_text_lib (local_port sample_core_env sample_turns) (lit ''/nick carol'')
       (announce (local_port sample_core_env sample_turns) False sample_front)) in
   si_nickname (fr_session G) = co_nickname (fst (fr_core G))"
proof -
  have "\<not> pr_announced (fr_presenter sample_front)" by (simp add: sample_front_def presenter_new_def)
  from presenter_mirrors_core [OF this, of sample_text_lib sample_core_env sample_turns "[lit ''/nick carol'']" False]
  show ?thesis by (simp add: Let_def)
qed

end
