(* ===== verification/LogFiles.thy ===== *)
theory LogFiles
  imports Utf8 Utils Config "HOL-Library.List_Lexorder" "HOL-Library.Product_Lexorder"
begin

section \<open>Log files (\<^verbatim>\<open>meta-text-backend/src/logging.rs\<close>)\<close>

text \<open>
  The appender that rolls its file by size and by day and deletes the oldest files. The directory
  is an association list of names and contents, in the order in which the file system lists them;
  names that are not text are left out, as the code skips them. What the file system does is an
  input of each step: which files can be opened and removed, whose length can be read, and how far
  a write gets. Lengths are natural numbers, since no file comes near the end of a 64 bit count.
\<close>

type_synonym log_dir = "(rtext \<times> bytes) list"

record log_io =
  li_directory :: bool                   \<comment> \<open>the directory exists or can be created\<close>
  li_open :: "rtext \<Rightarrow> bool"
  li_length :: "rtext \<Rightarrow> bool"
  li_remove :: "rtext \<Rightarrow> bool"
  li_write :: "nat option"               \<comment> \<open>where a failing write stops\<close>

subsection \<open>Names\<close>

definition dec3 :: "nat \<Rightarrow> rtext" where
  "dec3 n = (if n < 10 then [48, 48] @ dec n else if n < 100 then 48 # dec n else dec n)"

definition log_file_name :: "rtext \<Rightarrow> rtext \<Rightarrow> nat \<Rightarrow> rtext" where
  "log_file_name prefix stamp index =
     (if index = 0 then prefix @ [46] @ stamp else prefix @ [46] @ stamp @ [46] @ dec3 index)"

definition u32_max :: nat where "u32_max = 2 ^ 32 - 1"

definition parse_log_name :: "rtext \<Rightarrow> rtext \<Rightarrow> (rtext \<times> nat) option" where
  "parse_log_name name prefix =
     (case strip_prefix prefix name of
        None \<Rightarrow> None
      | Some after \<Rightarrow>
     (case strip_prefix [46] after of
        None \<Rightarrow> None
      | Some rest \<Rightarrow>
          if utf8_len rest < 10 \<or> get_at 4 (utf8_bytes rest) \<noteq> Some 45 then None
          else case split_once 46 rest of
                 None \<Rightarrow> Some (rest, 0)
               | Some (stamp, index) \<Rightarrow> map_option (Pair stamp) (parse_unsigned u32_max index)))"

subsection \<open>The appender\<close>

record OpenFile =
  of_stamp :: rtext
  of_index :: nat
  of_written :: nat

record SizeRotatingWriter =
  lw_prefix :: rtext
  lw_max_bytes :: nat
  lw_max_files :: nat
  lw_open :: "OpenFile option"

definition writer_new :: "rtext \<Rightarrow> nat \<Rightarrow> nat \<Rightarrow> SizeRotatingWriter" where
  "writer_new prefix max_bytes max_files =
     \<lparr>lw_prefix = (if prefix = [] then lit ''meta-text.log'' else prefix), lw_max_bytes = max 1 max_bytes,
      lw_max_files = max 1 max_files, lw_open = None\<rparr>"

definition rotation_bytes :: "nat \<Rightarrow> nat" where
  "rotation_bytes megabytes =
     (let n = min (2 ^ 64 - 1) (megabytes * (1024 * 1024)) in if n = 0 then 1 else n)"

definition path_for :: "SizeRotatingWriter \<Rightarrow> OpenFile \<Rightarrow> rtext" where
  "path_for W f = log_file_name (lw_prefix W) (of_stamp f) (of_index f)"

definition active_name :: "SizeRotatingWriter \<Rightarrow> rtext option" where
  "active_name W = map_option (path_for W) (lw_open W)"

text \<open>The log files of the directory, each with its stamp and index.\<close>

definition scan :: "SizeRotatingWriter \<Rightarrow> log_dir \<Rightarrow> (rtext \<times> rtext \<times> nat) list" where
  "scan W d =
     List.map_filter (\<lambda>(name, content). map_option (Pair name) (parse_log_name name (lw_prefix W))) d"

definition next_index :: "SizeRotatingWriter \<Rightarrow> rtext \<Rightarrow> log_dir \<Rightarrow> nat" where
  "next_index W stamp d =
     (case map (\<lambda>(name, s, i). i) (filter (\<lambda>(name, s, i). s = stamp) (scan W d)) of
        [] \<Rightarrow> 0
      | is \<Rightarrow> min u32_max (Suc (Max (set is))))"

definition open_log_file ::
    "log_io \<Rightarrow> rtext \<Rightarrow> nat \<Rightarrow> SizeRotatingWriter \<times> log_dir \<Rightarrow> (SizeRotatingWriter \<times> log_dir) \<times> bool" where
  "open_log_file io stamp index Wd =
     (case Wd of (W, d) \<Rightarrow>
        let name = log_file_name (lw_prefix W) stamp index in
        if \<not> li_directory io \<or> \<not> li_open io name then ((W, d), False)
        else
          (let d1 = (if map_of d name = None then d @ [(name, [])] else d);
               written = (if li_length io name then length (unwrap_or [] (map_of d1 name)) else 0) in
           ((W\<lparr>lw_open := Some \<lparr>of_stamp = stamp, of_index = index, of_written = written\<rparr>\<rparr>, d1), True)))"

definition prune_files :: "log_io \<Rightarrow> SizeRotatingWriter \<Rightarrow> log_dir \<Rightarrow> log_dir" where
  "prune_files io W d =
     (let files = sort_key (\<lambda>(name, stamp, index). (stamp, index)) (scan W d);
          oldest = map fst (take (length files - lw_max_files W) files) in
      filter (\<lambda>(name, content). \<not> (name \<in> set oldest \<and> active_name W \<noteq> Some name \<and> li_remove io name)) d)"

definition roll_to ::
    "log_io \<Rightarrow> rtext \<Rightarrow> nat \<Rightarrow> SizeRotatingWriter \<times> log_dir \<Rightarrow> (SizeRotatingWriter \<times> log_dir) \<times> bool" where
  "roll_to io stamp index Wd =
     (case open_log_file io stamp index Wd of
        ((W1, d1), False) \<Rightarrow> ((W1, d1), False)
      | ((W1, d1), True) \<Rightarrow> ((W1, prune_files io W1 d1), True))"

definition must_roll :: "nat \<Rightarrow> SizeRotatingWriter \<Rightarrow> OpenFile \<Rightarrow> bool" where
  "must_roll pending W f \<longleftrightarrow> 0 < of_written f \<and> lw_max_bytes W < of_written f + pending"

definition prepare_day ::
    "log_io \<Rightarrow> rtext \<Rightarrow> SizeRotatingWriter \<times> log_dir \<Rightarrow> (SizeRotatingWriter \<times> log_dir) \<times> bool" where
  "prepare_day io today Wd =
     (case Wd of (W, d) \<Rightarrow>
        case lw_open W of
          None \<Rightarrow> roll_to io today 0 (W, d)
        | Some f \<Rightarrow>
            if of_stamp f \<noteq> today then roll_to io today (next_index W today d) (W, d) else ((W, d), True))"

definition prepare ::
    "log_io \<Rightarrow> rtext \<Rightarrow> nat \<Rightarrow> SizeRotatingWriter \<times> log_dir \<Rightarrow> (SizeRotatingWriter \<times> log_dir) \<times> bool" where
  "prepare io today pending Wd =
     (case prepare_day io today Wd of
        ((W, d), False) \<Rightarrow> ((W, d), False)
      | ((W, d), True) \<Rightarrow>
          (case lw_open W of
             None \<Rightarrow> ((W, d), True)
           | Some f \<Rightarrow>
               if must_roll pending W f then roll_to io (of_stamp f) (min u32_max (Suc (of_index f))) (W, d)
               else ((W, d), True)))"

definition open_writer ::
    "log_io \<Rightarrow> rtext \<Rightarrow> SizeRotatingWriter \<times> log_dir \<Rightarrow> (SizeRotatingWriter \<times> log_dir) \<times> bool" where
  "open_writer io today Wd = prepare io today 0 Wd"

text \<open>Appending to a file of the directory; \<open>None\<close> is a failure.\<close>

definition append_to :: "rtext \<Rightarrow> bytes \<Rightarrow> log_dir \<Rightarrow> log_dir" where
  "append_to name buf d = map (\<lambda>(n, content). if n = name then (n, content @ buf) else (n, content)) d"

definition write_log ::
    "log_io \<Rightarrow> rtext \<Rightarrow> bytes \<Rightarrow> SizeRotatingWriter \<times> log_dir \<Rightarrow> (SizeRotatingWriter \<times> log_dir) \<times> nat option" where
  "write_log io today buf Wd =
     (if buf = [] then (Wd, Some 0)
      else case prepare io today (length buf) Wd of
             ((W, d), False) \<Rightarrow> ((W, d), None)
           | ((W, d), True) \<Rightarrow>
               (case lw_open W of
                  None \<Rightarrow> ((W, d), None)
                | Some f \<Rightarrow>
                    (case li_write io of
                       Some k \<Rightarrow> ((W, append_to (path_for W f) (take k buf) d), None)
                     | None \<Rightarrow>
                         ((W\<lparr>lw_open := Some (f\<lparr>of_written := of_written f + length buf\<rparr>)\<rparr>,
                           append_to (path_for W f) buf d), Some (length buf)))))"

text \<open>
  \<^verbatim>\<open>Path::file_name\<close> and the nonempty \<^verbatim>\<open>Path::parent\<close>: the components of a path without those at its end
  that are empty or a dot.
\<close>

definition end_trimmed :: "rtext list \<Rightarrow> rtext list" where
  "end_trimmed cs = rev (dropWhile (\<lambda>c. c = [] \<or> c = [46]) (rev cs))"

definition path_file_name :: "rtext \<Rightarrow> rtext option" where
  "path_file_name path =
     (case rev (end_trimmed (split_on 47 path)) of
        [] \<Rightarrow> None
      | name # _ \<Rightarrow> if name = [46, 46] then None else Some name)"

definition path_directory :: "rtext \<Rightarrow> rtext option" where
  "path_directory path =
     (case end_trimmed (split_on 47 path) of
        [] \<Rightarrow> None
      | cs \<Rightarrow>
          (let dir = join_with [47] (end_trimmed (butlast cs)) in
           if dir \<noteq> [] then Some dir else if starts_with path [47] then Some [47] else None))"

text \<open>The appender of a \<^verbatim>\<open>[logging]\<close> section and its directory.\<close>

definition file_writer :: "LoggingConfig \<Rightarrow> SizeRotatingWriter \<times> rtext" where
  "file_writer c =
     (let path = trim (log_file_path c) in
      (writer_new (unwrap_or (lit ''meta-text.log'') (path_file_name path))
         (rotation_bytes (log_rotation_size_mb c)) (log_max_files c),
       unwrap_or (lit ''.'') (path_directory path)))"

end
