(* ===== verification/LogGuarantees.thy ===== *)
theory LogGuarantees
  imports LogFiles "HOL-Library.Multiset"
begin

section \<open>Guarantees of the log files\<close>

text \<open>
  Names and their order, one write after another, and a whole run of the appender: what a write
  does to each file of the directory, and how large and how many the files may become.
\<close>

subsection \<open>Names\<close>

text \<open>A stamp as the clock gives it.\<close>

definition stamp_ok :: "rtext \<Rightarrow> bool" where
  "stamp_ok s \<longleftrightarrow> length s = 10 \<and> s ! 4 = 45 \<and> (\<forall>c \<in> set s. c < 128 \<and> c \<noteq> 46)"

lemma utf8_bytes_append [simp]: "utf8_bytes (s @ t) = utf8_bytes s @ utf8_bytes t"
  by (simp add: utf8_bytes_def)

lemma utf8_bytes_ascii: "\<forall>c \<in> set s. c < 128 \<Longrightarrow> utf8_bytes s = map word_of_nat s"
  by (induction s) (simp_all add: utf8_bytes_def utf8_char_def)

lemma stamp_found: "stamp_ok s \<Longrightarrow> 10 \<le> utf8_len (s @ t) \<and> get_at 4 (utf8_bytes (s @ t)) = Some 45"
  by (simp add: stamp_ok_def utf8_bytes_ascii get_at_def nth_append flip: length_utf8_bytes)

lemma digits_value_dec3: "digits_value 0 (dec3 n) = Some n"
  by (simp add: dec3_def digits_value_dec)

lemma dec3_starts: "\<exists>c cs. dec3 n = c # cs \<and> 48 \<le> c"
proof -
  obtain c cs where "dec n = c # cs" using dec_ne by (metis neq_Nil_conv)
  then show ?thesis using dec_digits [of c n] by (auto simp: dec3_def)
qed

lemma parse_unsigned_dec3: "n \<le> m \<Longrightarrow> parse_unsigned m (dec3 n) = Some n"
proof -
  assume le: "n \<le> m"
  obtain c cs where d: "dec3 n = c # cs" "48 \<le> c" using dec3_starts by blast
  then have "c \<noteq> 43" "digits_value 0 (c # cs) = Some n" using digits_value_dec3 [of n] by auto
  with le d(1) show ?thesis by (simp add: parse_unsigned_def Let_def del: digits_value.simps)
qed

lemma parse_log_file_name:
  assumes "stamp_ok stamp" "index \<le> u32_max"
  shows "parse_log_name (log_file_name prefix stamp index) prefix = Some (stamp, index)"
proof -
  have "46 \<notin> set stamp" using assms(1) by (auto simp: stamp_ok_def)
  then have "split_once 46 (stamp @ 46 # dec3 index) = Some (stamp, dec3 index)" "split_once 46 stamp = None"
    by (simp_all add: split_once_Some split_once_None)
  then show ?thesis
    using stamp_found [OF assms(1), of "[]"] stamp_found [OF assms(1), of "46 # dec3 index"] assms(2)
    by (simp add: parse_log_name_def log_file_name_def strip_prefix_Some [THEN iffD2] parse_unsigned_dec3)
qed

subsection \<open>The steps\<close>

text \<open>The open file is one of the directory, and no two files have the same name.\<close>

definition log_ok :: "SizeRotatingWriter \<times> log_dir \<Rightarrow> bool" where
  "log_ok Wd \<longleftrightarrow> distinct (map fst (snd Wd)) \<and>
     (\<forall>n. active_name (fst Wd) = Some n \<longrightarrow> map_of (snd Wd) n \<noteq> None)"

text \<open>The settings of an appender stay.\<close>

definition same_log :: "SizeRotatingWriter \<Rightarrow> SizeRotatingWriter \<Rightarrow> bool" where
  "same_log W V \<longleftrightarrow> lw_prefix V = lw_prefix W \<and> lw_max_bytes V = lw_max_bytes W \<and> lw_max_files V = lw_max_files W"

lemma same_log_trans: "same_log W V \<Longrightarrow> same_log V U \<Longrightarrow> same_log W U"
  by (simp add: same_log_def)

lemma open_log_file_opens:
  assumes "open_log_file io stamp index (W, d) = ((V, e), True)"
  shows "V = W\<lparr>lw_open := Some \<lparr>of_stamp = stamp, of_index = index, of_written = of_written (the (lw_open V))\<rparr>\<rparr>"
    and "e = (if map_of d (log_file_name (lw_prefix W) stamp index) = None
         then d @ [(log_file_name (lw_prefix W) stamp index, [])] else d)"
    and "active_name V = Some (log_file_name (lw_prefix W) stamp index)"
    and "of_written (the (lw_open V)) = (if li_length io (log_file_name (lw_prefix W) stamp index)
         then length (unwrap_or [] (map_of e (log_file_name (lw_prefix W) stamp index))) else 0)"
  using assms by (auto simp: open_log_file_def Let_def active_name_def path_for_def split: if_splits)

lemma open_log_file_fails:
  "open_log_file io stamp index (W, d) = ((V, e), False) \<Longrightarrow> V = W \<and> e = d"
  by (auto simp: open_log_file_def Let_def split: if_splits)

lemma map_of_add_empty:
  "map_of (if map_of d name = None then d @ [(name, [])] else d) n =
     (if n = name then Some (unwrap_or [] (map_of d name)) else map_of d n)"
  by (auto simp: unwrap_or_def map_of_append map_add_def split: option.split)

lemma distinct_add_empty:
  "distinct (map fst d) \<Longrightarrow> distinct (map fst (if map_of d name = None then d @ [(name, [])] else d))"
  by (auto simp: map_of_eq_None_iff)

lemma map_of_filter_names: "map_of (filter (\<lambda>(n, c). Q n) d) n = (if Q n then map_of d n else None)"
  by (induction d) auto

lemma distinct_filter_names: "distinct (map fst d) \<Longrightarrow> distinct (map fst (filter P d))"
  by (simp add: distinct_map inj_on_subset [of _ "set d"] inj_on_def)

lemma in_scan: "(n, s, i) \<in> set (scan W d) \<longleftrightarrow> n \<in> fst ` set d \<and> parse_log_name n (lw_prefix W) = Some (s, i)"
  by (force simp: scan_def map_filter_def)

text \<open>The names that retention gives up.\<close>

definition given_up :: "SizeRotatingWriter \<Rightarrow> log_dir \<Rightarrow> rtext set" where
  "given_up W d =
     set (map fst (take (length (scan W d) - lw_max_files W) (sort_key (\<lambda>(name, stamp, index). (stamp, index)) (scan W d))))"

lemma prune_files_eq:
  "prune_files io W d = filter (\<lambda>(n, c). \<not> (n \<in> given_up W d \<and> active_name W \<noteq> Some n \<and> li_remove io n)) d"
  by (simp add: prune_files_def given_up_def Let_def)

lemma given_up_is_log: "n \<in> given_up W d \<Longrightarrow> parse_log_name n (lw_prefix W) \<noteq> None"
proof -
  assume "n \<in> given_up W d"
  then obtain s i where "(n, s, i) \<in> set (take (length (scan W d) - lw_max_files W) (sort_key (\<lambda>(name, stamp, index). (stamp, index)) (scan W d)))"
    by (auto simp: given_up_def)
  then have "(n, s, i) \<in> set (scan W d)" by (metis in_set_takeD set_sort)
  then show ?thesis by (simp add: in_scan)
qed

lemma map_of_prune:
  "map_of (prune_files io W d) n =
     (if n \<in> given_up W d \<and> active_name W \<noteq> Some n \<and> li_remove io n then None else map_of d n)"
  by (simp add: prune_files_eq map_of_filter_names)

text \<open>What preparing a write may do to the files: those given up are removed, and the
  active one may be new and empty.\<close>

definition prepared :: "SizeRotatingWriter \<times> log_dir \<Rightarrow> SizeRotatingWriter \<times> log_dir \<Rightarrow> bool" where
  "prepared Wd Ve \<longleftrightarrow> same_log (fst Wd) (fst Ve) \<and> log_ok Ve \<and>
     (\<forall>n. map_of (snd Ve) n = map_of (snd Wd) n
        \<or> map_of (snd Ve) n = None \<and> parse_log_name n (lw_prefix (fst Wd)) \<noteq> None
        \<or> active_name (fst Ve) = Some n \<and> map_of (snd Ve) n = Some [])"

lemma prepared_refl: "log_ok Wd \<Longrightarrow> prepared Wd Wd"
  by (simp add: prepared_def same_log_def)

lemma roll_to_prepared:
  assumes "roll_to io stamp index (W, d) = (Ve, ok)" "log_ok (W, d)"
  shows "prepared (W, d) Ve" and "ok \<Longrightarrow> lw_open (fst Ve) \<noteq> None"
    and "ok \<Longrightarrow> 0 < of_written (the (lw_open (fst Ve))) \<Longrightarrow> map_of (snd Ve) (the (active_name (fst Ve))) \<noteq> Some []"
proof -
  let ?name = "log_file_name (lw_prefix W) stamp index"
  consider (bad) V e where "open_log_file io stamp index (W, d) = ((V, e), False)" "Ve = (V, e)" "\<not> ok"
    | (good) V e where "open_log_file io stamp index (W, d) = ((V, e), True)" "Ve = (V, prune_files io V e)" "ok"
    using assms(1) by (auto simp: roll_to_def split: prod.splits bool.splits)
  then have "prepared (W, d) Ve \<and> (ok \<longrightarrow> lw_open (fst Ve) \<noteq> None \<and>
      (0 < of_written (the (lw_open (fst Ve))) \<longrightarrow> map_of (snd Ve) (the (active_name (fst Ve))) \<noteq> Some []))"
  proof cases
    case bad
    then show ?thesis using open_log_file_fails assms(2) prepared_refl by blast
  next
    case good
    note o' = open_log_file_opens [OF good(1)]
    have prefix: "lw_prefix V = lw_prefix W" and same: "same_log W V" by (subst o'(1), simp add: same_log_def)+
    have opened: "lw_open V \<noteq> None" by (subst o'(1)) simp
    have e: "map_of e n = (if n = ?name then Some (unwrap_or [] (map_of d ?name)) else map_of d n)" for n
      by (simp only: o'(2) map_of_add_empty)
    have "distinct (map fst (prune_files io V e))"
      unfolding prune_files_eq o'(2)
      by (intro distinct_filter_names distinct_add_empty) (use assms(2) in \<open>simp add: log_ok_def\<close>)
    moreover have "map_of (prune_files io V e) n = map_of d n
        \<or> map_of (prune_files io V e) n = None \<and> parse_log_name n (lw_prefix W) \<noteq> None
        \<or> active_name V = Some n \<and> map_of (prune_files io V e) n = Some []" for n
      using given_up_is_log [of n V e] prefix
      by (cases "map_of d n") (auto simp: map_of_prune e o'(3) unwrap_or_def)
    moreover have "map_of (prune_files io V e) ?name \<noteq> None" by (simp add: map_of_prune e o'(3))
    ultimately have "prepared (W, d) Ve"
      using same o'(3) good(2) by (simp add: prepared_def log_ok_def)
    moreover have "map_of (prune_files io V e) ?name \<noteq> Some []" if "0 < of_written (the (lw_open V))"
      using that by (subst (asm) o'(4)) (auto simp: map_of_prune o'(3) unwrap_or_def split: if_splits)
    ultimately show ?thesis using good opened o'(3) by simp
  qed
  then show "prepared (W, d) Ve" "ok \<Longrightarrow> lw_open (fst Ve) \<noteq> None"
    "ok \<Longrightarrow> 0 < of_written (the (lw_open (fst Ve))) \<Longrightarrow> map_of (snd Ve) (the (active_name (fst Ve))) \<noteq> Some []" by auto
qed

lemma prepared_trans:
  assumes "prepared Wd Ve" "prepared Ve Uf"
    "\<And>n. active_name (fst Ve) = Some n \<Longrightarrow> map_of (snd Ve) n \<noteq> Some []"
  shows "prepared Wd Uf"
  using assms unfolding prepared_def same_log_def by metis

lemma prepare_prepared:
  assumes "prepare io today pending (W, d) = (Ve, ok)" "log_ok (W, d)"
  shows "prepared (W, d) Ve" and "ok \<Longrightarrow> lw_open (fst Ve) \<noteq> None"
proof -
  obtain V e ok1 where day: "prepare_day io today (W, d) = ((V, e), ok1)" by (metis prod.collapse)
  have first: "prepared (W, d) (V, e) \<and> (ok1 \<longrightarrow> lw_open V \<noteq> None) \<and>
      (ok1 \<and> (V, e) \<noteq> (W, d) \<and> 0 < of_written (the (lw_open V)) \<longrightarrow> map_of e (the (active_name V)) \<noteq> Some [])"
    using day assms(2) prepared_refl [OF assms(2)] roll_to_prepared [OF _ assms(2)]
    by (fastforce simp: prepare_day_def split: option.splits if_splits)
  have "prepared (W, d) Ve \<and> (ok \<longrightarrow> lw_open (fst Ve) \<noteq> None)"
  proof (cases "ok1 \<and> (\<exists>f. lw_open V = Some f \<and> must_roll pending V f)")
    case False
    then have "Ve = (V, e)" "ok = ok1"
      using assms(1) first by (auto simp: prepare_def day split: bool.splits option.splits if_splits)
    then show ?thesis using first by simp
  next
    case True
    then obtain f where f: "ok1" "lw_open V = Some f" "must_roll pending V f" by auto
    let ?next = "min u32_max (Suc (of_index f))"
    have roll: "roll_to io (of_stamp f) ?next (V, e) = (Ve, ok)"
      using assms(1) f by (simp add: prepare_def day)
    have ve: "log_ok (V, e)" using first by (simp add: prepared_def)
    have two: "prepared (V, e) Ve" "ok \<longrightarrow> lw_open (fst Ve) \<noteq> None" using roll_to_prepared [OF roll ve] by auto
    show ?thesis
    proof (cases "(V, e) = (W, d)")
      case True
      with two show ?thesis by simp
    next
      case False
      then have "prepared (W, d) Ve"
        using f first by (intro prepared_trans [OF _ two(1)]) (auto simp: must_roll_def)
      then show ?thesis using two by simp
    qed
  qed
  then show "prepared (W, d) Ve" "ok \<Longrightarrow> lw_open (fst Ve) \<noteq> None" by auto
qed

text \<open>Below the number of files to keep, nothing is removed.\<close>

lemma roll_to_room:
  assumes "roll_to io stamp index (W, d) = ((V, e), ok)" "length (scan W d) < lw_max_files W"
  shows "e = d \<or> (\<exists>name. e = d @ [(name, [])] \<and> map_of d name = None \<and> of_written (the (lw_open V)) = 0)"
    and "same_log W V"
proof -
  consider (bad) V1 e1 where "open_log_file io stamp index (W, d) = ((V1, e1), False)" "V = V1" "e = e1"
    | (good) e1 where "open_log_file io stamp index (W, d) = ((V, e1), True)" "e = prune_files io V e1"
    using assms(1) by (auto simp: roll_to_def split: prod.splits bool.splits)
  then have "(e = d \<or> (\<exists>name. e = d @ [(name, [])] \<and> map_of d name = None \<and> of_written (the (lw_open V)) = 0)) \<and> same_log W V"
  proof cases
    case bad
    then show ?thesis using open_log_file_fails by (fastforce simp: same_log_def)
  next
    case good
    note o' = open_log_file_opens [OF good(1)]
    have same: "same_log W V" by (subst o'(1), simp add: same_log_def)
    then have "length (scan V e1) \<le> Suc (length (scan W d))"
      by (auto simp: o'(2) scan_def map_filter_def same_log_def)
    then have "given_up V e1 = {}" using assms(2) same by (simp add: given_up_def same_log_def)
    then have "e = e1" using good(2) by (simp add: prune_files_eq case_prod_beta)
    then show ?thesis using o'(2,4) same by (auto simp: unwrap_or_def map_add_def)
  qed
  then show "e = d \<or> (\<exists>name. e = d @ [(name, [])] \<and> map_of d name = None \<and> of_written (the (lw_open V)) = 0)"
    "same_log W V" by auto
qed

lemma prepare_room:
  assumes "prepare io today pending (W, d) = ((V, e), ok)" "length (scan W d) < lw_max_files W"
  shows "e = d \<or> (\<exists>name. e = d @ [(name, [])] \<and> map_of d name = None)"
proof -
  obtain V1 e1 ok1 where day: "prepare_day io today (W, d) = ((V1, e1), ok1)" by (metis prod.collapse)
  have first: "(e1 = d \<or> (\<exists>name. e1 = d @ [(name, [])] \<and> map_of d name = None \<and> of_written (the (lw_open V1)) = 0)) \<and>
      same_log W V1"
    using day roll_to_room [OF _ assms(2)]
    by (auto simp: prepare_day_def same_log_def split: option.splits if_splits)
  show ?thesis
  proof (cases "ok1 \<and> (\<exists>f. lw_open V1 = Some f \<and> must_roll pending V1 f)")
    case False
    then have "e = e1"
      using assms(1) by (auto simp: prepare_def day split: bool.splits option.splits if_splits)
    then show ?thesis using first by blast
  next
    case True
    then obtain f where f: "ok1" "lw_open V1 = Some f" "must_roll pending V1 f" by auto
    then have d: "e1 = d" using first by (auto simp: must_roll_def)
    moreover have "scan V1 d = scan W d" "lw_max_files V1 = lw_max_files W"
      using first by (simp_all add: same_log_def scan_def)
    moreover have "roll_to io (of_stamp f) (min u32_max (Suc (of_index f))) (V1, e1) = ((V, e), ok)"
      using assms(1) f by (simp add: prepare_def day)
    ultimately show ?thesis using roll_to_room(1) assms(2) by metis
  qed
qed

lemma prepare_room_keeps:
  "prepare io today pending (W, d) = ((V, e), ok) \<Longrightarrow> length (scan W d) < lw_max_files W \<Longrightarrow>
   map_of d n = Some c \<Longrightarrow> map_of e n = Some c"
  using prepare_room [of io today pending W d V e ok] by (auto simp: map_of_append map_add_def)

text \<open>Appending.\<close>

lemma map_of_append_to:
  "map_of (append_to name buf d) n = (if n = name then map_option (\<lambda>c. c @ buf) (map_of d n) else map_of d n)"
  by (induction d) (auto simp: append_to_def)

lemma names_append_to [simp]: "map fst (append_to name buf d) = map fst d"
  by (induction d) (auto simp: append_to_def)

lemma write_log_cases:
  assumes "write_log io today buf (W, d) = ((V, e), r)" "buf \<noteq> []" "log_ok (W, d)"
  obtains (unopened) "prepare io today (length buf) (W, d) = ((V, e), False)" "r = None"
    | (failed) e1 f k where "prepare io today (length buf) (W, d) = ((V, e1), True)" "lw_open V = Some f"
        "li_write io = Some k" "e = append_to (path_for V f) (take k buf) e1" "r = None"
    | (written) V1 e1 f where "prepare io today (length buf) (W, d) = ((V1, e1), True)" "lw_open V1 = Some f"
        "li_write io = None" "V = V1\<lparr>lw_open := Some (f\<lparr>of_written := of_written f + length buf\<rparr>)\<rparr>"
        "e = append_to (path_for V1 f) buf e1" "r = Some (length buf)"
proof -
  obtain V1 e1 ok where p: "prepare io today (length buf) (W, d) = ((V1, e1), ok)" by (metis prod.collapse)
  show ?thesis
  proof (cases ok)
    case False
    then show ?thesis using assms(1,2) p unopened by (simp add: write_log_def)
  next
    case True
    then obtain f where f: "lw_open V1 = Some f" using prepare_prepared(2) [OF p assms(3)] by auto
    show ?thesis using assms(1,2) p True f failed written
      by (cases "li_write io") (auto simp: write_log_def)
  qed
qed

lemma write_log_whole:
  assumes "write_log io today buf (W, d) = ((V, e), r)" "log_ok (W, d)"
  obtains k where "log_ok (V, e)" "same_log W V" "r = None \<or> r = Some (length buf)"
    "r \<noteq> None \<Longrightarrow> take k buf = buf" "r \<noteq> None \<Longrightarrow> buf \<noteq> [] \<Longrightarrow> active_name V \<noteq> None"
    "\<And>n. active_name V = Some n \<Longrightarrow>
       \<exists>old. map_of e n = Some (old @ take k buf) \<and> (map_of d n = Some old \<or> old = [])"
    "\<And>n. active_name V \<noteq> Some n \<Longrightarrow> map_of e n = map_of d n \<or>
       map_of e n = None \<and> parse_log_name n (lw_prefix W) \<noteq> None"
    "\<And>n c. length (scan W d) < lw_max_files W \<Longrightarrow> map_of d n = Some c \<Longrightarrow>
       map_of e n = Some (if active_name V = Some n then c @ take k buf else c)"
proof (cases "buf = []")
  case True
  then have "V = W" "e = d" "r = Some 0" using assms(1) by (simp_all add: write_log_def)
  then show ?thesis using that [of 0] True assms(2) by (fastforce simp: log_ok_def same_log_def)
next
  case False
  note facts = that
  have goal: thesis
    if p: "prepare io today (length buf) (W, d) = ((V1, e1), ok)" and a: "active_name V = active_name V1"
      and s: "same_log V1 V" and n: "map fst e = map fst e1"
      and m: "\<And>n. map_of e n = (if active_name V = Some n then map_option (\<lambda>c. c @ take k buf) (map_of e1 n) else map_of e1 n)"
      and r: "r = None \<or> r = Some (length buf) \<and> ok \<and> length buf \<le> k" for V1 e1 ok k
  proof -
    note pr = prepare_prepared [OF p assms(2)]
    have "log_ok (V, e)" using pr(1) a n by (auto simp: prepared_def log_ok_def m)
    moreover have "same_log W V" using pr(1) s same_log_trans by (auto simp: prepared_def)
    moreover have "\<exists>old. map_of e n = Some (old @ take k buf) \<and> (map_of d n = Some old \<or> old = [])"
      if "active_name V = Some n" for n
      using pr(1) that a by (auto simp: prepared_def log_ok_def m dest!: spec [of _ n])
    moreover have "map_of e n = map_of d n \<or> map_of e n = None \<and> parse_log_name n (lw_prefix W) \<noteq> None"
      if "active_name V \<noteq> Some n" for n
      using pr(1) that a by (auto simp: prepared_def m)
    moreover have "active_name V \<noteq> None" if "r \<noteq> None" using pr(2) that r a by (auto simp: active_name_def)
    moreover have "map_of e n = Some (if active_name V = Some n then c @ take k buf else c)"
      if "length (scan W d) < lw_max_files W" "map_of d n = Some c" for n c
      using prepare_room_keeps [OF p that] by (simp add: m)
    ultimately show ?thesis using r by (intro facts [of k]) auto
  qed
  from assms(1) False assms(2) show ?thesis
  proof (cases rule: write_log_cases)
    case unopened
    show ?thesis by (rule goal [OF unopened(1), of 0]) (simp_all add: unopened same_log_def option.map_ident)
  next
    case (failed e1 f k)
    show ?thesis by (rule goal [OF failed(1), of k])
        (auto simp: failed same_log_def map_of_append_to active_name_def path_for_def)
  next
    case (written V1 e1 f)
    show ?thesis by (rule goal [OF written(1), of "length buf"])
        (auto simp: written same_log_def map_of_append_to active_name_def path_for_def)
  qed
qed

text \<open>C35: A write puts its bytes whole into one file, behind what that file holds: the active one. No other
  file gains a byte; a file that disappears is one the appender recognises as its own, and none disappears while there
  are fewer than the number to keep. A write that fails leaves at most a part of its bytes, in the active file only.\<close>

theorem log_lines_whole:
  assumes "write_log io today buf (W, d) = ((V, e), r)" "log_ok (W, d)"
  shows "log_ok (V, e) \<and> same_log W V \<and> (r = None \<or> r = Some (length buf)) \<and>
    (\<exists>k. (r \<noteq> None \<longrightarrow> take k buf = buf \<and> (buf \<noteq> [] \<longrightarrow> active_name V \<noteq> None)) \<and>
      (\<forall>n. active_name V = Some n \<longrightarrow>
         (\<exists>old. map_of e n = Some (old @ take k buf) \<and> (map_of d n = Some old \<or> old = []))) \<and>
      (\<forall>n. active_name V \<noteq> Some n \<longrightarrow> map_of e n = map_of d n \<or>
         map_of e n = None \<and> parse_log_name n (lw_prefix W) \<noteq> None) \<and>
      (length (scan W d) < lw_max_files W \<longrightarrow> (\<forall>n c. map_of d n = Some c \<longrightarrow>
         map_of e n = Some (if active_name V = Some n then c @ take k buf else c))))"
  by (rule write_log_whole [OF assms]) blast

definition log_io_ok :: log_io where
  "log_io_ok = \<lparr>li_directory = True, li_open = (\<lambda>n. True), li_length = (\<lambda>n. True), li_remove = (\<lambda>n. True), li_write = None\<rparr>"

definition sample_day :: rtext where
  "sample_day = lit ''2026-09-14''"

theorem log_lines_whole_witness:
  "\<exists>V. write_log log_io_ok sample_day [104, 105] (writer_new [] 10 2, []) =
       ((V, [(log_file_name (lit ''meta-text.log'') sample_day 0, [104, 105])]), Some 2) \<and>
     log_ok (V, [(log_file_name (lit ''meta-text.log'') sample_day 0, [104, 105])])"
proof -
  let ?name = "log_file_name (lit ''meta-text.log'') sample_day 0"
  obtain V e r where w: "write_log log_io_ok sample_day [104, 105] (writer_new [] 10 2, []) = ((V, e), r)"
    by (metis prod.collapse)
  have "scan W d = (case parse_log_name ?name (lw_prefix W) of None \<Rightarrow> [] | Some si \<Rightarrow> [(?name, si)])"
    if "d = [(?name, [])]" for W d
    using that by (simp add: scan_def map_filter_def split: option.split)
  then have "given_up W [(?name, [])] = {}" if "lw_max_files W = 2" for W
    using that by (auto simp: given_up_def split: option.splits)
  then have "e = [(?name, [104, 105])]" "r = Some 2"
    using w by (auto simp: write_log_def prepare_def prepare_day_def roll_to_def open_log_file_def writer_new_def
        log_io_ok_def Let_def prune_files_eq append_to_def path_for_def unwrap_or_def must_roll_def)
  moreover have "log_ok (writer_new [] 10 2, [])" by (simp add: log_ok_def writer_new_def active_name_def)
  then have "log_ok (V, e)" using log_lines_whole [OF w] by blast
  ultimately show ?thesis using w by blast
qed

subsection \<open>A run of the appender\<close>












lemma given_up_few: "length (scan W d) \<le> lw_max_files W \<Longrightarrow> given_up W d = {}"
  by (simp add: given_up_def)






















text \<open>The name of every file the appender makes is read back as the day and the index it was made for,
  whatever the prefix, so two files never share a name; and a file of a shorter or other form is not
  taken for one of its own.\<close>

theorem log_names_roundtrip:
  assumes "stamp_ok stamp" "index \<le> u32_max"
  shows "parse_log_name (log_file_name prefix stamp index) prefix = Some (stamp, index) \<and>
    (stamp_ok other \<and> i \<le> u32_max \<longrightarrow>
      (log_file_name prefix other i = log_file_name prefix stamp index \<longleftrightarrow> other = stamp \<and> i = index)) \<and>
    (parse_log_name name prefix \<noteq> None \<longrightarrow> (\<exists>rest. name = prefix @ 46 # rest \<and> 10 \<le> utf8_len rest))"
proof (intro conjI impI)
  show parse: "parse_log_name (log_file_name prefix stamp index) prefix = Some (stamp, index)"
    by (rule parse_log_file_name [OF assms])
  assume "stamp_ok other \<and> i \<le> u32_max"
  then have "parse_log_name (log_file_name prefix other i) prefix = Some (other, i)" by (intro parse_log_file_name) auto
  then show "log_file_name prefix other i = log_file_name prefix stamp index \<longleftrightarrow> other = stamp \<and> i = index"
    using parse by (metis option.inject prod.inject)
next
  assume "parse_log_name name prefix \<noteq> None"
  then show "\<exists>rest. name = prefix @ 46 # rest \<and> 10 \<le> utf8_len rest"
    by (auto simp: parse_log_name_def strip_prefix_Some split: option.splits if_splits)
qed

lemma sample_day_ok: "stamp_ok sample_day"
  by (simp add: stamp_ok_def sample_day_def lit_def)

theorem log_names_roundtrip_witness:
  "parse_log_name (log_file_name (lit ''a.log'') sample_day 7) (lit ''a.log'') = Some (sample_day, 7)"
  using log_names_roundtrip [OF sample_day_ok, of 7 "lit ''a.log''"] by (simp add: u32_max_def)



text \<open>C39: A restart within a day starts again at the first file of that day: when that file is full, the
  line goes to the second one however full it is; and where retention had already removed the first
  file, it is made again, as the oldest, beside the number of files to keep.\<close>

theorem restart_within_a_day:
  assumes "stamp_ok today" "prefix \<noteq> []" "buf \<noteq> []" "first \<noteq> []" "max 1 max_bytes < length first + length buf"
  shows "let n0 = log_file_name prefix today 0; n1 = log_file_name prefix today 1;
      full = write_log log_io_ok today buf (writer_new prefix max_bytes 2, [(n0, first), (n1, second)]);
      kept = write_log log_io_ok today buf (writer_new prefix max_bytes 1, [(n1, second)]) in
    snd full = Some (length buf) \<and> map_of (snd (fst full)) n1 = Some (second @ buf) \<and>
    snd kept = Some (length buf) \<and> snd (fst kept) = [(n1, second), (n0, buf)]"
proof -
  define n0 n1 where "n0 = log_file_name prefix today 0" and "n1 = log_file_name prefix today 1"
  then have names: "log_file_name prefix today 0 = n0" "log_file_name prefix today (Suc 0) = n1" by simp_all
  define m where "m = max 1 max_bytes"
  let ?W = "\<lambda>files f. \<lparr>lw_prefix = prefix, lw_max_bytes = m, lw_max_files = files, lw_open = f\<rparr>"
  let ?f = "\<lambda>i n. Some \<lparr>of_stamp = today, of_index = i, of_written = n\<rparr>"
  have parse: "parse_log_name n0 prefix = Some (today, 0)" "parse_log_name n1 prefix = Some (today, 1)"
    unfolding n0_def n1_def by (rule parse_log_file_name [OF assms(1)], simp add: u32_max_def)+
  then have ne: "n0 \<noteq> n1" "n1 \<noteq> n0" by auto
  have scans: "scan (?W k f) [(n0, a), (n1, b)] = [(n0, today, 0), (n1, today, 1)]"
    "scan (?W k f) [(n1, b), (n0, a)] = [(n1, today, 1), (n0, today, 0)]" for k f a b
    by (simp_all add: scan_def map_filter_simps parse)
  have given: "given_up (?W 2 f) [(n0, a), (n1, b)] = {}" "given_up (?W (Suc 0) f) [(n1, b), (n0, a)] = {n0}" for f a b
    by (simp_all add: given_up_def scans)
  have new: "writer_new prefix max_bytes 2 = ?W 2 None" "writer_new prefix max_bytes 1 = ?W (Suc 0) None"
    using assms(2) by (simp_all add: writer_new_def m_def)
  have io: "li_write log_io_ok = None" by (simp add: log_io_ok_def)
  note steps = roll_to_def open_log_file_def log_io_ok_def Let_def prune_files_eq unwrap_or_def names
  have roll0: "roll_to log_io_ok today 0 (?W 2 f, [(n0, a), (n1, b)]) = ((?W 2 (?f 0 (length a)), [(n0, a), (n1, b)]), True)" for f a b
    using ne by (simp add: steps given)
  have roll1: "roll_to log_io_ok today (Suc 0) (?W 2 f, [(n0, a), (n1, b)]) = ((?W 2 (?f 1 (length b)), [(n0, a), (n1, b)]), True)" for f a b
    using ne by (simp add: steps given)
  have new0: "roll_to log_io_ok today 0 (?W (Suc 0) f, [(n1, b)]) = ((?W (Suc 0) (?f 0 0), [(n1, b), (n0, [])]), True)" for f b
    using ne by (simp add: steps given active_name_def path_for_def)
  have "prepare log_io_ok today (length buf) (?W 2 None, [(n0, first), (n1, second)]) =
      ((?W 2 (?f 1 (length second)), [(n0, first), (n1, second)]), True)"
    using assms(4) assms(5) [folded m_def] by (simp add: prepare_def prepare_day_def roll0 roll1 must_roll_def u32_max_def)
  then have full: "write_log log_io_ok today buf (?W 2 None, [(n0, first), (n1, second)]) =
      ((?W 2 (?f 1 (length second + length buf)), [(n0, first), (n1, second @ buf)]), Some (length buf))"
    using assms(3) ne by (simp add: write_log_def append_to_def path_for_def names io)
  have "prepare log_io_ok today (length buf) (?W (Suc 0) None, [(n1, second)]) =
      ((?W (Suc 0) (?f 0 0), [(n1, second), (n0, [])]), True)"
    by (simp add: prepare_def prepare_day_def new0 must_roll_def)
  then have kept: "write_log log_io_ok today buf (?W (Suc 0) None, [(n1, second)]) =
      ((?W (Suc 0) (?f 0 (length buf)), [(n1, second), (n0, buf)]), Some (length buf))"
    using assms(3) ne by (simp add: write_log_def append_to_def path_for_def names io)
  show ?thesis unfolding Let_def new n0_def [symmetric] n1_def [symmetric] full kept using ne by simp
qed

theorem restart_within_a_day_witness:
  "map_of (snd (fst (write_log log_io_ok sample_day [7] (writer_new (lit ''a.log'') 3 2,
     [(log_file_name (lit ''a.log'') sample_day 0, [1, 2, 3]), (log_file_name (lit ''a.log'') sample_day 1, [4, 5, 6])]))))
     (log_file_name (lit ''a.log'') sample_day 1) = Some [4, 5, 6, 7]"
  using restart_within_a_day [OF sample_day_ok, of "lit ''a.log''" "[7]" "[1, 2, 3]" 3 "[4, 5, 6]"]
  by (simp add: Let_def lit_def)

end
