(* ===== verification/StartUp.thy ===== *)
theory StartUp
  imports CoreLoop Endpoint FrontEnds
begin

section \<open>Configuration file and process start (\<^verbatim>\<open>config.rs\<close>, \<^verbatim>\<open>utils.rs\<close>, \<^verbatim>\<open>src/main.rs\<close>)\<close>

text \<open>
  Loading and saving the configuration file, and what the process does from its arguments to an
  attached interface. TOML is a parameter; the outcome of each file operation is an input, a text
  being its error. A path ends in a file name. A write that fails leaves what it wrote so far in
  the temporary file.
\<close>

subsection \<open>The configuration file\<close>

record toml_codec =
  to_toml :: "AppConfig \<Rightarrow> rtext + rtext"
  from_toml :: "rtext \<Rightarrow> rtext + AppConfig"

record config_io =
  ci_read :: rtext                             \<comment> \<open>the error of reading an unreadable file\<close>
  ci_create_dir :: "rtext option"
  ci_write :: "(rtext \<times> stored_file) option"  \<comment> \<open>with what is left of the temporary file\<close>
  ci_rename :: "rtext option"

record config_files =
  cf_config :: stored_file
  cf_temporary :: stored_file

definition configuration_failed :: "string \<Rightarrow> rtext \<Rightarrow> MetaTextError" where
  "configuration_failed what e = MtConfiguration (lit what @ e) (Some e)"

definition config_save :: "toml_codec \<Rightarrow> config_io \<Rightarrow> AppConfig \<Rightarrow> config_files \<Rightarrow> unit mt_result \<times> config_files" where
  "config_save T io c fs =
     (case ci_create_dir io of
        Some e \<Rightarrow> (Inl (configuration_failed ''Failed to create config directory: '' e), fs)
      | None \<Rightarrow>
          (case to_toml T c of
             Inl e \<Rightarrow> (Inl (configuration_failed ''Failed to serialize config: '' e), fs)
           | Inr content \<Rightarrow>
               (case ci_write io of
                  Some (e, left) \<Rightarrow>
                    (Inl (configuration_failed ''Failed to write config file: '' e), fs\<lparr>cf_temporary := left\<rparr>)
                | None \<Rightarrow>
                    (case ci_rename io of
                       Some e \<Rightarrow>
                         (Inl (configuration_failed ''Failed to replace config file: '' e),
                          fs\<lparr>cf_temporary := FileBytes (utf8_bytes content)\<rparr>)
                     | None \<Rightarrow>
                         (Inr (), fs\<lparr>cf_config := FileBytes (utf8_bytes content), cf_temporary := FileMissing\<rparr>)))))"

definition not_utf8 :: rtext where
  "not_utf8 = lit ''stream did not contain valid UTF-8''"

definition config_load :: "toml_codec \<Rightarrow> config_io \<Rightarrow> config_files \<Rightarrow> AppConfig mt_result \<times> config_files" where
  "config_load T io fs =
     (case cf_config fs of
        FileMissing \<Rightarrow>
          (case config_save T io config_default fs of
             (Inl e, fs') \<Rightarrow> (Inl e, fs')
           | (Inr _, fs') \<Rightarrow> (Inr config_default, fs'))
      | FileUnreadable \<Rightarrow> (Inl (configuration_failed ''Failed to read config file: '' (ci_read io)), fs)
      | FileBytes raw \<Rightarrow>
          (case from_utf8 raw of
             None \<Rightarrow> (Inl (configuration_failed ''Failed to read config file: '' not_utf8), fs)
           | Some content \<Rightarrow>
               (case from_toml T content of
                  Inl e \<Rightarrow> (Inl (configuration_failed ''Failed to parse config file: '' e), fs)
                | Inr c \<Rightarrow> (Inr c, fs))))"

text \<open>\<^verbatim>\<open>utils::ensure_directory\<close>: whether the path exists, and the outcome of creating it.\<close>

definition ensure_directory :: "bool \<Rightarrow> rtext option \<Rightarrow> rtext \<Rightarrow> unit mt_result" where
  "ensure_directory exists created path =
     (if exists then Inr ()
      else case created of
             None \<Rightarrow> Inr ()
           | Some e \<Rightarrow> Inl (MtConfiguration (lit ''Failed to create directory '' @ path @ lit '': '' @ e) (Some e)))"

text \<open>What serde promises of TOML: text that was written reads back, and it is text.\<close>

definition toml_laws :: "toml_codec \<Rightarrow> bool" where
  "toml_laws T \<longleftrightarrow> (\<forall>c content. to_toml T c = Inr content \<longrightarrow> from_toml T content = Inr c \<and> valid_text content)"

lemma config_save_failed:
  "config_save T io c fs = (Inl e, fs') \<Longrightarrow> cf_config fs' = cf_config fs"
  by (auto simp: config_save_def split: option.splits sum.splits prod.splits)

lemma config_saved_loads:
  "toml_laws T \<Longrightarrow> config_save T io c fs = (Inr (), fs') \<Longrightarrow> config_load T io' fs' = (Inr c, fs')"
  by (auto simp: config_save_def config_load_def toml_laws_def from_utf8_utf8_bytes
      split: option.splits sum.splits prod.splits)

lemma config_load_keeps:
  "config_load T io fs = (r, fs') \<Longrightarrow> cf_config fs \<noteq> FileMissing \<Longrightarrow> fs' = fs"
  by (auto simp: config_load_def split: stored_file.splits option.splits sum.splits)

lemma config_load_failed: "config_load T io fs = (Inl e, fs') \<Longrightarrow> cf_config fs' = cf_config fs"
  using config_save_failed
  by (fastforce simp: config_load_def split: stored_file.splits option.splits sum.splits prod.splits)

text \<open>A load leaves the file alone or was the first one, which wrote the defaults.\<close>

lemma config_load_files:
  assumes "toml_laws T" "config_load T io fs = (r, fs')"
  shows "cf_config fs' = cf_config fs \<or>
    cf_config fs = FileMissing \<and> (\<forall>io'. config_load T io' fs' = (Inr config_default, fs'))"
proof (cases "cf_config fs = FileMissing")
  case True
  obtain r1 fs1 where s: "config_save T io config_default fs = (r1, fs1)" by (cases "config_save T io config_default fs")
  then have "fs' = fs1" using assms(2) True by (simp add: config_load_def split: sum.splits)
  then show ?thesis
    using s True config_save_failed config_saved_loads [OF assms(1)] by (cases r1) auto
next
  case False
  then show ?thesis using config_load_keeps [OF assms(2)] by simp
qed

subsection \<open>The process\<close>

text \<open>What the process meets while it starts.\<close>

record start_inputs =
  sp_path_exists :: "rtext \<Rightarrow> bool"
  sp_toml :: toml_codec
  sp_config_io :: config_io
  sp_log_open :: "rtext option"
  sp_now :: core_now
  sp_files :: core_files
  sp_bind_endpoint :: "rtext \<Rightarrow> rtext + socket_addr"

text \<open>A start that fails with the core not running, one that fails after the core was started, or an
  attached interface; a panic of \<^verbatim>\<open>CoreService::new\<close> is one as well.\<close>

datatype ('x, 'db) started =
    StartFailed rtext
  | StartPanicked
  | CoreLeftRunning rtext "('x, 'db) CoreService"
  | Attached interface "('x, 'db) CoreService" "('x, 'db) CoreService endpoint option"

definition run_interface ::
    "start_inputs \<Rightarrow> CliArgs \<Rightarrow> AppConfig \<Rightarrow> interface \<Rightarrow> ('x, 'db) CoreService \<Rightarrow> ('x, 'db) started" where
  "run_interface S args config i C =
     (if i \<noteq> IfHeadless then Attached i C None
      else case headless_endpoint args (cfg_ipc config) of
             Inl e \<Rightarrow> CoreLeftRunning e C
           | Inr None \<Rightarrow> Attached IfHeadless C None
           | Inr (Some (address, opts)) \<Rightarrow>
               (case server_bind (sp_bind_endpoint S address) of
                  Inl e \<Rightarrow> CoreLeftRunning (lit ''Failed to bind the core protocol to '' @ address) C
                | Inr server \<Rightarrow> Attached IfHeadless C (Some (server_run opts C server))))"

definition main_start ::
    "('x, 'db) core_env \<Rightarrow> start_inputs \<Rightarrow> CliArgs \<Rightarrow> config_files \<Rightarrow> ('x, 'db) started \<times> config_files" where
  "main_start E S args fs =
     (case cli_validate (sp_path_exists S) args of
        Inl errors \<Rightarrow>
          (StartFailed (lit ''Invalid command line arguments: '' @ join_with (lit ''; '') errors), fs)
      | Inr _ \<Rightarrow>
          (case config_load (sp_toml S) (sp_config_io S) fs of
             (Inl e, fs') \<Rightarrow> (StartFailed (lit ''Failed to load application configuration''), fs')
           | (Inr config, fs') \<Rightarrow>
               (case config_validate config of
                  Inl e \<Rightarrow> StartFailed (error_display e)
                | Inr _ \<Rightarrow>
                    if log_enable_file (cfg_logging config) \<and> sp_log_open S \<noteq> None
                    then StartFailed (lit ''Failed to initialize logging system'')
                    else
                      (case core_new E (sp_now S) (sp_files S) config args of
                         None \<Rightarrow> StartPanicked
                       | Some (Inl e) \<Rightarrow> StartFailed (lit ''Failed to create the core service'')
                       | Some (Inr C) \<Rightarrow>
                           (case core_start E (sp_now S) C of
                              (C', Inl e) \<Rightarrow> StartFailed (lit ''Failed to start the core service'')
                            | (C', Inr _) \<Rightarrow>
                                run_interface S args config
                                  (choose_interface (effective_mode args) (cl_headless args)) C')), fs')))"

text \<open>
  How a headless process ends: an interrupt, or a termination signal when its handler could be
  installed (without one the system ends the process). \<open>headless_stop\<close> is the shutdown of the core
  that follows; the endpoint is gone by then.
\<close>

datatype os_signal = SigInterrupt | SigTerminate

datatype wait_end = WaitOn | WaitOver "os_signal list" | WaitKilled

fun wait_for_termination :: "bool \<Rightarrow> os_signal list \<Rightarrow> wait_end" where
  "wait_for_termination installed [] = WaitOn"
| "wait_for_termination installed (SigInterrupt # sigs) = WaitOver sigs"
| "wait_for_termination installed (SigTerminate # sigs) = (if installed then WaitOver sigs else WaitKilled)"

definition headless_stop ::
    "('x, 'db) core_env \<Rightarrow> core_ctx \<Rightarrow> ('x, 'db) CoreService \<Rightarrow> ('x, 'db) CoreService" where
  "headless_stop E cx C = fst (core_turn E cx (CiCommand RqShutdown 0 0 0) C)"

subsection \<open>Facts\<close>

lemma run_interface_kind: "run_interface S args config i C = Attached i' C' endpoint \<Longrightarrow> i' = i \<and> C' = C"
  by (auto simp: run_interface_def split: if_splits sum.splits option.splits prod.splits)

lemma headless_endpoint_safe:
  "headless_endpoint args ipc = Inr (Some (address, opts)) \<Longrightarrow>
   cl_ipc_listen args = Some address \<and> (cl_ipc_token args \<noteq> None \<or> is_loopback_host address) \<and>
   so_token opts = cl_ipc_token args"
  by (auto simp: headless_endpoint_def split: option.splits if_splits)

lemma run_interface_endpoint:
  assumes "run_interface S args config i C = Attached i C (Some P)"
  shows "i = IfHeadless \<and> ep_core P = C \<and>
    (\<exists>address opts. cl_ipc_listen args = Some address \<and> (cl_ipc_token args \<noteq> None \<or> is_loopback_host address) \<and>
       so_token opts = cl_ipc_token args \<and> (\<forall>core F. endpoint_reach core opts F P))"
proof -
  obtain address opts local server where h: "headless_endpoint args (cfg_ipc config) = Inr (Some (address, opts))"
      "server_bind (Inr local) = Inr server" "P = server_run opts C server" "i = IfHeadless"
    using assms by (auto simp: run_interface_def server_bind_def split: if_splits sum.splits option.splits prod.splits)
  then have "\<forall>core F. endpoint_reach core opts F P" by (auto intro: reach_start)
  then show ?thesis using h headless_endpoint_safe [OF h(1)] by (auto simp: server_run_def)
qed

lemma main_start_attached:
  assumes "main_start E S args fs = (Attached i C endpoint, fs')"
  shows "cli_validate (sp_path_exists S) args = Inr () \<and>
    (\<exists>config C0. config_load (sp_toml S) (sp_config_io S) fs = (Inr config, fs') \<and> config_validate config = Inr () \<and>
       core_new E (sp_now S) (sp_files S) config args = Some (Inr C0) \<and> core_start E (sp_now S) C0 = (C, Inr ()) \<and>
       run_interface S args config (choose_interface (effective_mode args) (cl_headless args)) C = Attached i C endpoint)"
proof -
  have v: "cli_validate (sp_path_exists S) args = Inr ()"
    using assms by (auto simp: main_start_def split: sum.splits)
  obtain config where l: "config_load (sp_toml S) (sp_config_io S) fs = (Inr config, fs')" "config_validate config = Inr ()"
    using assms v by (auto simp: main_start_def split: prod.splits sum.splits)
  obtain C0 where n: "core_new E (sp_now S) (sp_files S) config args = Some (Inr C0)"
    using assms v l by (auto simp: main_start_def split: if_splits option.splits sum.splits)
  obtain C' where s: "core_start E (sp_now S) C0 = (C', Inr ())"
    using assms v l n by (auto simp: main_start_def split: if_splits prod.splits sum.splits)
  then have r: "run_interface S args config (choose_interface (effective_mode args) (cl_headless args)) C' = Attached i C endpoint"
    using assms v l n by (simp add: main_start_def split: if_splits)
  then show ?thesis using v l n s run_interface_kind [OF r] by auto
qed

lemma main_start_files:
  assumes "toml_laws (sp_toml S)" "main_start E S args fs = (started, fs')"
  shows "cf_config fs' = cf_config fs \<or>
    cf_config fs = FileMissing \<and> (\<forall>io. config_load (sp_toml S) io fs' = (Inr config_default, fs'))"
proof (cases "cli_validate (sp_path_exists S) args")
  case (Inl errors)
  then show ?thesis using assms(2) by (simp add: main_start_def)
next
  case (Inr u)
  obtain r fs1 where l: "config_load (sp_toml S) (sp_config_io S) fs = (r, fs1)"
    by (cases "config_load (sp_toml S) (sp_config_io S) fs")
  then have "fs' = fs1" using assms(2) Inr by (cases r) (simp_all add: main_start_def)
  then show ?thesis using config_load_files [OF assms(1) l] by simp
qed

end
