(* ===== verification/RemoteCore.thy ===== *)
theory RemoteCore
  imports CoreFacts Endpoint
begin

section \<open>Remote clients of the core service (\<^verbatim>\<open>ipc/server.rs\<close> over \<^verbatim>\<open>ipc/core.rs\<close>)\<close>

text \<open>
  The endpoint with the core service behind it. What the endpoint calls its core is the task of the
  service as its handle shows it: a request is one turn of the loop, answered as long as the task
  runs. The surroundings of the next turn are part of that state and may change before every step.
  A run interleaves the tasks of the endpoint with the turns the service takes for others and with
  the tasks of its transport.
\<close>

record ('x, 'db) running =
  rn_service :: "('x, 'db) CoreService"
  rn_alive :: bool
  rn_next :: "core_ctx \<times> duration \<times> duration \<times> nat"

definition served_core :: "('x, 'db) core_env \<Rightarrow> ('x, 'db) running core_fun" where
  "served_core E r R =
     (if \<not> rn_alive R then (handle_request False None, R)
      else case rn_next R of
             (cx, waited, served, behind) \<Rightarrow>
               (case core_turn E cx (CiCommand r waited served behind) (rn_service R) of
                  (C, answer, stopped) \<Rightarrow>
                    (handle_request True answer, R\<lparr>rn_service := C, rn_alive := \<not> stopped\<rparr>)))"

inductive remote_step ::
    "('x, 'db) core_env \<Rightarrow> ServerOptions \<Rightarrow> float_ops \<Rightarrow> ('x, 'db) running endpoint \<Rightarrow> ('x, 'db) running endpoint \<Rightarrow> bool"
  for E :: "('x, 'db) core_env" and opts :: ServerOptions and F :: float_ops where
  remote_task: "endpoint_step (served_core E) opts F P P' \<Longrightarrow> remote_step E opts F P P'"
| remote_turn:
    "rn_alive (ep_core P) \<Longrightarrow> core_turn E cx i (rn_service (ep_core P)) = (C, answer, stopped) \<Longrightarrow>
     remote_step E opts F P (P\<lparr>ep_core := (ep_core P)\<lparr>rn_service := C, rn_alive := \<not> stopped\<rparr>\<rparr>)"
| remote_tcp:
    "co_transport C = Tcp (tk_network t) \<Longrightarrow> task_step (re_pins (ce_transport E)) t t' \<Longrightarrow> C = rn_service (ep_core P) \<Longrightarrow>
     remote_step E opts F P (P\<lparr>ep_core := (ep_core P)\<lparr>rn_service := C\<lparr>co_transport := Tcp (tk_network t')\<rparr>\<rparr>\<rparr>)"
| remote_tox:
    "co_transport C = Tox X \<Longrightarrow> tox_step (re_tox (ce_transport E)) X X' \<Longrightarrow> C = rn_service (ep_core P) \<Longrightarrow>
     remote_step E opts F P (P\<lparr>ep_core := (ep_core P)\<lparr>rn_service := C\<lparr>co_transport := Tox X'\<rparr>\<rparr>\<rparr>)"
| remote_surroundings: "remote_step E opts F P (P\<lparr>ep_core := (ep_core P)\<lparr>rn_next := n\<rparr>\<rparr>)"

inductive remote_reach ::
    "('x, 'db) core_env \<Rightarrow> ServerOptions \<Rightarrow> float_ops \<Rightarrow> ('x, 'db) CoreService \<Rightarrow> ('x, 'db) running endpoint \<Rightarrow> bool"
  for E :: "('x, 'db) core_env" and opts :: ServerOptions and F :: float_ops and C :: "('x, 'db) CoreService" where
  remote_start:
    "server_bind (Inr local) = Inr S \<Longrightarrow>
     remote_reach E opts F C (server_run opts \<lparr>rn_service = C, rn_alive = True, rn_next = n\<rparr> S)"
| remote_next: "remote_reach E opts F C P \<Longrightarrow> remote_step E opts F P P' \<Longrightarrow> remote_reach E opts F C P'"

inductive_cases remote_step_cases: "remote_step E opts F P P'"

subsection \<open>One request\<close>

lemma served_core_turn:
  assumes "served_core E r R = (answer, R')" "rn_alive R"
  shows "\<exists>cx w sv b C a stopped. core_turn E cx (CiCommand r w sv b) (rn_service R) = (C, a, stopped) \<and>
    R' = R\<lparr>rn_service := C, rn_alive := \<not> stopped\<rparr>"
proof -
  obtain cx w sv b where n: "rn_next R = (cx, w, sv, b)" by (metis prod_cases4)
  obtain C a stopped where t: "core_turn E cx (CiCommand r w sv b) (rn_service R) = (C, a, stopped)" by (metis prod_cases3)
  then have "R' = R\<lparr>rn_service := C, rn_alive := \<not> stopped\<rparr>" using assms n by (simp add: served_core_def)
  then show ?thesis using t by blast
qed

lemma served_core_dead: "served_core E r R = (answer, R') \<Longrightarrow> \<not> rn_alive R \<Longrightarrow> R' = R"
  by (simp add: served_core_def)

lemma served_core_step:
  assumes "served_core E r R = (answer, R')"
  shows "R' = R \<or> service_step E (rn_service R) (rn_service R')"
proof (cases "rn_alive R")
  case True
  then obtain cx w sv b C a stopped where t: "core_turn E cx (CiCommand r w sv b) (rn_service R) = (C, a, stopped)"
      "R' = R\<lparr>rn_service := C, rn_alive := \<not> stopped\<rparr>"
    using served_core_turn [OF assms] by blast
  then show ?thesis using service_turn [of E "rn_service R" cx "CiCommand r w sv b"] by simp
qed (simp add: served_core_dead [OF assms])

lemma served_core_alive:
  assumes "served_core E r R = (answer, R')" "r \<noteq> RqShutdown"
  shows "rn_alive R' = rn_alive R"
proof (cases "rn_alive R")
  case True
  then obtain cx w sv b C a stopped where t: "core_turn E cx (CiCommand r w sv b) (rn_service R) = (C, a, stopped)"
      "R' = R\<lparr>rn_service := C, rn_alive := \<not> stopped\<rparr>"
    using served_core_turn [OF assms(1)] by blast
  then have "\<not> stopped" using assms(2) by (auto split: prod.splits)
  then show ?thesis using True t(2) by simp
qed (simp add: served_core_dead [OF assms(1)])

subsection \<open>A run is a run of the service and a run of the endpoint\<close>

lemma remote_step_service:
  assumes "remote_step E opts F P P'"
  shows "(service_step E)\<^sup>*\<^sup>* (rn_service (ep_core P)) (rn_service (ep_core P'))"
  using assms
proof cases
  case remote_task
  then show ?thesis
    using endpoint_step_core [OF remote_task] served_core_step by (metis prod.collapse r_into_rtranclp rtranclp.rtrancl_refl)
next
  case (remote_turn cx i C answer stopped)
  then have "service_step E (rn_service (ep_core P)) C" using service_turn [of E "rn_service (ep_core P)" cx i] by simp
  then show ?thesis using remote_turn(1) by (simp add: r_into_rtranclp)
next
  case (remote_tcp C t t')
  then show ?thesis using service_tcp [of C t E t'] by (simp add: r_into_rtranclp)
next
  case (remote_tox C X X')
  then show ?thesis using service_tox [of C X E X'] by (simp add: r_into_rtranclp)
next
  case (remote_surroundings n)
  then show ?thesis by simp
qed

lemma remote_reach_service:
  "remote_reach E opts F C P \<Longrightarrow> (service_step E)\<^sup>*\<^sup>* C (rn_service (ep_core P))"
proof (induction rule: remote_reach.induct)
  case (remote_start local S n)
  then show ?case by (simp add: server_run_def)
next
  case (remote_next P P')
  then show ?case using remote_step_service rtranclp_trans by metis
qed

lemma remote_step_endpoint:
  assumes "remote_step E opts F P P'" "endpoint_reach (served_core E) opts F P"
  shows "endpoint_reach (served_core E) opts F P'"
  using assms by cases (auto intro: reach_next reach_core)

lemma remote_reach_endpoint: "remote_reach E opts F C P \<Longrightarrow> endpoint_reach (served_core E) opts F P"
  by (induction rule: remote_reach.induct) (auto intro: reach_start remote_step_endpoint)

lemma endpoint_keeps_alive:
  assumes "endpoint_step (served_core E) opts F P P'"
  shows "rn_alive (ep_core P') = rn_alive (ep_core P)"
  using endpoint_step_core [OF assms] served_core_alive by (metis prod.collapse)

end
