(* ===== verification/ProcessGuarantees.thy ===== *)
theory ProcessGuarantees
  imports CoreGuarantees StartUp RemoteCore
begin

section \<open>Guarantees of the configuration file and of the start\<close>

text \<open>
  What loading and saving the configuration promise, and what holds of a process that reached an
  attached interface. Each is followed by a concrete instance.
\<close>

subsection \<open>The configuration file\<close>

text \<open>C40: The configuration is never lost or half written: what a successful save wrote is what every
  later load returns, without touching the file; a first start without a file gets the defaults,
  which are valid, and so does every start after it; and a save or load that fails leaves the
  configuration file as it was.\<close>

theorem configuration_kept:
  assumes "toml_laws T"
  shows "(config_save T io c fs = (Inr (), fs') \<longrightarrow> config_load T io' fs' = (Inr c, fs')) \<and>
    (cf_config fs = FileMissing \<and> config_load T io fs = (Inr c, fs') \<longrightarrow>
       c = config_default \<and> config_validate c = Inr () \<and> config_load T io' fs' = (Inr c, fs')) \<and>
    (config_save T io c fs = (Inl e, fs') \<or> config_load T io fs = (Inl e, fs') \<longrightarrow> cf_config fs' = cf_config fs)"
proof (intro conjI impI)
  show "config_load T io' fs' = (Inr c, fs')" if "config_save T io c fs = (Inr (), fs')"
    by (rule config_saved_loads [OF assms that])
  assume first: "cf_config fs = FileMissing \<and> config_load T io fs = (Inr c, fs')"
  then have c: "c = config_default" "config_save T io config_default fs = (Inr (), fs')"
    by (auto simp: config_load_def split: prod.splits sum.splits)
  then show "c = config_default" "config_validate c = Inr ()" "config_load T io' fs' = (Inr c, fs')"
    using config_saved_loads [OF assms c(2)] by (simp_all add: config_default_valid)
next
  assume "config_save T io c fs = (Inl e, fs') \<or> config_load T io fs = (Inl e, fs')"
  then show "cf_config fs' = cf_config fs"
    using config_save_failed config_load_failed by blast
qed

definition sample_toml :: toml_codec where
  "sample_toml = \<lparr>to_toml = (\<lambda>c. if c = config_default then Inr [120] else Inl (lit ''unsupported'')),
     from_toml = (\<lambda>t. Inr config_default)\<rparr>"

definition sample_config_io :: config_io where
  "sample_config_io = \<lparr>ci_read = lit ''denied'', ci_create_dir = None, ci_write = None, ci_rename = None\<rparr>"

theorem configuration_kept_witness:
  "\<exists>fs'. config_load sample_toml sample_config_io \<lparr>cf_config = FileMissing, cf_temporary = FileMissing\<rparr> =
       (Inr config_default, fs') \<and>
     config_load sample_toml sample_config_io fs' = (Inr config_default, fs') \<and> cf_config fs' \<noteq> FileMissing"
proof -
  have laws: "toml_laws sample_toml"
    by (simp add: toml_laws_def sample_toml_def valid_text_def is_scalar_def)
  let ?fs = "\<lparr>cf_config = FileMissing, cf_temporary = FileMissing\<rparr>"
  obtain fs' where fs': "config_load sample_toml sample_config_io ?fs = (Inr config_default, fs')" "cf_config fs' \<noteq> FileMissing"
    by (simp add: config_load_def config_save_def sample_toml_def sample_config_io_def)
  then show ?thesis
    using configuration_kept [OF laws, of sample_config_io config_default ?fs fs' sample_config_io] by auto
qed

subsection \<open>The start\<close>

text \<open>C31: A process attaches an interface only after its arguments and its configuration were valid,
  the log could be opened and the core was created and started from them, and the interface is the
  one its mode asks for. Only a headless process serves an endpoint, and only at the address it was
  given, for a loopback address or with a token; the endpoint begins with sixteen free places, no
  connection, the token and limits of the command line, and that core. When a start fails, the
  configuration file holds what it held, or the defaults if there was none.\<close>

theorem process_start_sound:
  assumes "toml_laws (sp_toml S)" "main_start E S args fs = (started, fs')"
  shows "(\<forall>i C endpoint. started = Attached i C endpoint \<longrightarrow>
      cli_validate (sp_path_exists S) args = Inr () \<and>
      (\<exists>config C0. config_load (sp_toml S) (sp_config_io S) fs = (Inr config, fs') \<and> config_validate config = Inr () \<and>
         core_new E (sp_now S) (sp_files S) config args = Some (Inr C0) \<and> core_start E (sp_now S) C0 = (C, Inr ())) \<and>
      i = choose_interface (effective_mode args) (cl_headless args) \<and>
      (\<forall>P. endpoint = Some P \<longrightarrow> i = IfHeadless \<and> ep_core P = C \<and>
         (\<exists>address opts. cl_ipc_listen args = Some address \<and>
            (cl_ipc_token args \<noteq> None \<or> is_loopback_host address) \<and> so_token opts = cl_ipc_token args \<and>
            (\<forall>core F. endpoint_reach core opts F P)))) \<and>
    (cf_config fs' = cf_config fs \<or>
       cf_config fs = FileMissing \<and> (\<forall>io. config_load (sp_toml S) io fs' = (Inr config_default, fs')))"
proof (intro conjI allI impI)
  fix i C endpoint assume s: "started = Attached i C endpoint"
  have m: "main_start E S args fs = (Attached i C endpoint, fs')" using assms(2) s by simp
  note parts = main_start_attached [OF m]
  show "cli_validate (sp_path_exists S) args = Inr ()" using parts by blast
  show "\<exists>config C0. config_load (sp_toml S) (sp_config_io S) fs = (Inr config, fs') \<and> config_validate config = Inr () \<and>
         core_new E (sp_now S) (sp_files S) config args = Some (Inr C0) \<and> core_start E (sp_now S) C0 = (C, Inr ())"
    using parts by blast
  show "i = choose_interface (effective_mode args) (cl_headless args)" using parts run_interface_kind by metis
  fix P assume "endpoint = Some P"
  then obtain config where r: "run_interface S args config i C = Attached i C (Some P)" using parts run_interface_kind by metis
  show "i = IfHeadless" "ep_core P = C"
    "\<exists>address opts. cl_ipc_listen args = Some address \<and>
            (cl_ipc_token args \<noteq> None \<or> is_loopback_host address) \<and> so_token opts = cl_ipc_token args \<and>
            (\<forall>core F. endpoint_reach core opts F P)"
    using run_interface_endpoint [OF r] by blast+
next
  show "cf_config fs' = cf_config fs \<or>
      cf_config fs = FileMissing \<and> (\<forall>io. config_load (sp_toml S) io fs' = (Inr config_default, fs'))"
    using main_start_files [OF assms] by blast
qed

definition sample_config :: AppConfig where
  "sample_config = config_default\<lparr>cfg_database := database_config_default\<lparr>dbc_type := lit ''postgres''\<rparr>\<rparr>"

definition sample_start :: start_inputs where
  "sample_start = \<lparr>sp_path_exists = (\<lambda>p. False),
     sp_toml = \<lparr>to_toml = (\<lambda>c. if c = sample_config then Inr [120] else Inl []), from_toml = (\<lambda>t. Inr sample_config)\<rparr>,
     sp_config_io = sample_config_io, sp_log_open = None, sp_now = sample_now, sp_files = sample_files FileMissing,
     sp_bind_endpoint = (\<lambda>a. Inr sample_address)\<rparr>"

definition sample_args :: CliArgs where
  "sample_args = cli_default\<lparr>cl_headless := True, cl_ipc_listen := Some (lit ''127.0.0.1:7000'')\<rparr>"

lemma sample_config_valid: "config_validate sample_config = Inr ()"
  using config_default_valid
  by (simp add: config_validate_problems problems_def sample_config_def config_default_def database_problems_def
      database_config_default_def supported_def SUPPORTED_DATABASES_def trim_id lit_def is_whitespace_def)

lemma sample_args_valid: "cli_validate (\<lambda>p. False) sample_args = Inr ()"
  by (simp add: cli_validate_def cli_problems_def sample_args_def cli_default_def DEFAULT_HISTORY_LIMIT_def
      MAX_HISTORY_LIMIT_def path_eq_def)

lemma core_new_tcp_parts:
  assumes "cl_transport args = TransTcp" "cl_passphrase args = None" "core_new E now F config args = Some (Inr C)"
  shows "(\<exists>N. co_transport C = Tcp N \<and> \<not> nw_started N) \<and> \<not> db_initialized (co_database C) \<and>
    db_type (co_database C) = dbc_type (cfg_database (apply_overrides (cf_system_dir F) config args))"
proof -
  have load: "co_transport (load_session E D) = co_transport D \<and> co_database (load_session E D) = co_database D" for D
    by (auto simp: load_session_def split: stored_file.splits sum.splits)
  show ?thesis
    using assms by (auto simp: core_new_def database_new_def transport_new_def network_new_def Let_def load
        core_initial_def split: sum.splits)
qed

lemma core_start_without_sqlite:
  assumes "co_transport C = Tcp N" "\<not> nw_started N" "\<not> eq_ignore_ascii_case (db_type (co_database C)) (lit ''sqlite'')"
    "\<not> db_initialized (co_database C)" "cn_bind now = Inr local"
  shows "\<exists>C'. core_start E now C = (C', Inr ())"
  using assms by (simp add: core_start_def database_start_def Let_def network_start_def set_identity_def Network.set_nickname_def
      split: prod.split)

lemma sample_core_starts:
  "\<exists>C0 C. core_new sample_core_env sample_now (sample_files FileMissing) sample_config sample_args = Some (Inr C0) \<and>
     core_start sample_core_env sample_now C0 = (C, Inr ())"
proof -
  have args: "cl_transport sample_args = TransTcp" "cl_passphrase sample_args = None"
    by (simp_all add: sample_args_def cli_default_def)
  have pg: "\<not> eq_ignore_ascii_case (lit ''postgres'') (lit ''sqlite'')"
    by (simp add: eq_ignore_ascii_case_def to_ascii_lowercase_def ascii_lower_def lit_def)
  then have db: "dbc_type (cfg_database (apply_overrides d sample_config sample_args)) = lit ''postgres''" for d
    by (simp add: apply_overrides_def Let_def override_database_def sample_config_def split: option.split)
  obtain C0 where C0: "core_new sample_core_env sample_now (sample_files FileMissing) sample_config sample_args = Some (Inr C0)"
    using core_new_tcp [OF args] by blast
  have "cn_bind sample_now = Inr sample_address" by (simp add: sample_now_def)
  then show ?thesis
    using core_new_tcp_parts [OF args C0] core_start_without_sqlite pg C0 unfolding db by metis
qed

theorem process_start_sound_witness:
  "\<exists>C P opts fs'. main_start sample_core_env sample_start sample_args
       \<lparr>cf_config = FileBytes [], cf_temporary = FileMissing\<rparr> = (Attached IfHeadless C (Some P), fs') \<and>
     so_token opts = None \<and> ep_core P = C \<and> endpoint_reach (\<lambda>r s. (Inr (RpPong None), s)) opts exact_floats P"
proof -
  have laws: "toml_laws (sp_toml sample_start)"
    by (simp add: toml_laws_def sample_start_def valid_text_def is_scalar_def)
  have sel: "sp_path_exists sample_start = (\<lambda>p. False)" "sp_log_open sample_start = None"
      "sp_now sample_start = sample_now" "sp_files sample_start = sample_files FileMissing"
    by (simp_all add: sample_start_def)
  let ?fs = "\<lparr>cf_config = FileBytes [], cf_temporary = FileMissing\<rparr>"
  have load: "config_load (sp_toml sample_start) (sp_config_io sample_start) ?fs = (Inr sample_config, ?fs)"
    using from_utf8_utf8_bytes [of "[]"] by (simp add: config_load_def sample_start_def valid_text_def)
  obtain C0 C where C: "core_new sample_core_env sample_now (sample_files FileMissing) sample_config sample_args = Some (Inr C0)"
      "core_start sample_core_env sample_now C0 = (C, Inr ())"
    using sample_core_starts by blast
  have "is_loopback_host (lit ''127.0.0.1:7000'')" by code_simp
  then obtain P where P: "run_interface sample_start sample_args sample_config IfHeadless C = Attached IfHeadless C (Some P)"
    by (simp add: run_interface_def headless_endpoint_def sample_args_def sample_start_def server_bind_def)
  have "choose_interface (effective_mode sample_args) (cl_headless sample_args) = IfHeadless"
    by (simp add: choose_interface_def sample_args_def)
  then have m: "main_start sample_core_env sample_start sample_args ?fs = (Attached IfHeadless C (Some P), ?fs)"
    using sample_args_valid load C P
    by (simp add: main_start_def sample_config_valid sel)
  have "cl_ipc_token sample_args = None" by (simp add: sample_args_def cli_default_def)
  then show ?thesis using process_start_sound [OF laws m] m by (metis (no_types, lifting))
qed

subsection \<open>Remote clients\<close>




end
