(* ===== verification/TerminalModes.thy ===== *)
theory TerminalModes
  imports TerminalFacts
begin

section \<open>The terminal itself (\<^verbatim>\<open>meta-text-tui/src/tui.rs\<close>)\<close>

text \<open>
  The modes the full screen interface switches on and off around its loop, the styles it draws with
  and where it puts the cursor. A call on the terminal is modelled by its effect on the modes; its
  outcome is an argument, and one that fails changes nothing.
\<close>

subsection \<open>Modes\<close>

record terminal_modes =
  tty_raw :: bool
  tty_alternate :: bool
  tty_paste :: bool
  tty_mouse :: bool
  tty_cursor_hidden :: bool

definition plain_terminal :: terminal_modes where
  "plain_terminal = \<lparr>tty_raw = False, tty_alternate = False, tty_paste = False, tty_mouse = False,
     tty_cursor_hidden = False\<rparr>"

record setup_calls =
  tc_enable_raw_mode :: "rtext option"
  tc_enter_screen :: "rtext option"
  tc_enable_mouse :: "rtext option"
  tc_terminal_new :: "rtext option"

definition setup_terminal :: "setup_calls \<Rightarrow> UiOptions \<Rightarrow> terminal_modes \<Rightarrow> (rtext + unit) \<times> terminal_modes" where
  "setup_terminal calls o' M =
     (case tc_enable_raw_mode calls of
        Some e \<Rightarrow> (Inl e, M)
      | None \<Rightarrow>
          (let M1 = M\<lparr>tty_raw := True\<rparr> in
           case tc_enter_screen calls of
             Some e \<Rightarrow> (Inl e, M1)
           | None \<Rightarrow>
               (let M2 = M1\<lparr>tty_alternate := True, tty_paste := True\<rparr> in
                case (if uo_mouse o' then tc_enable_mouse calls else None) of
                  Some e \<Rightarrow> (Inl e, M2)
                | None \<Rightarrow>
                    (let M3 = (if uo_mouse o' then M2\<lparr>tty_mouse := True\<rparr> else M2) in
                     case tc_terminal_new calls of
                       Some e \<Rightarrow> (Inl e, M3)
                     | None \<Rightarrow> (Inr (), M3)))))"

definition restore_terminal :: "UiOptions \<Rightarrow> terminal_modes \<Rightarrow> terminal_modes" where
  "restore_terminal o' M =
     (let M1 = M\<lparr>tty_cursor_hidden := False, tty_raw := False, tty_alternate := False, tty_paste := False\<rparr> in
      if uo_mouse o' then M1\<lparr>tty_mouse := False\<rparr> else M1)"

text \<open>\<open>run_interface\<close>; \<open>hidden\<close> tells whether the last frame left the cursor hidden.\<close>

definition run_terminal :: "setup_calls \<Rightarrow> UiOptions \<Rightarrow> bool \<Rightarrow> terminal_modes \<Rightarrow> unit mt_result \<times> terminal_modes" where
  "run_terminal calls o' hidden M =
     (case setup_terminal calls o' M of
        (Inl e, M1) \<Rightarrow>
          (Inl (MtUserInterface (lit ''Failed to initialise the terminal interface: '' @ e) (lit ''Tui'') (Some e)), M1)
      | (Inr _, M1) \<Rightarrow> (Inr (), restore_terminal o' (M1\<lparr>tty_cursor_hidden := hidden\<rparr>)))"

text \<open>
  An interface that ran gives the terminal back as it was. One that could not be set up does not:
  every call before the one that failed stays in force.
\<close>

lemma run_terminal_restores: "run_terminal calls o' hidden plain_terminal = (Inr (), M) \<Longrightarrow> M = plain_terminal"
  by (auto simp: run_terminal_def setup_terminal_def restore_terminal_def plain_terminal_def Let_def
      split: option.splits if_splits)

lemma run_terminal_failed_raw:
  "run_terminal calls o' hidden M = (Inl e, M') \<Longrightarrow> tc_enable_raw_mode calls = None \<Longrightarrow> tty_raw M'"
  by (auto simp: run_terminal_def setup_terminal_def Let_def split: option.splits if_splits)

subsection \<open>Styles\<close>

datatype tui_color = CoBlack | CoCyan | CoDarkGray | CoGreen | CoWhite | CoBlue | CoGray

record tui_style =
  sy_fg :: "tui_color option"
  sy_bg :: "tui_color option"
  sy_bold :: bool

definition style_default :: tui_style where
  "style_default = \<lparr>sy_fg = None, sy_bg = None, sy_bold = False\<rparr>"

record Palette =
  pal_nickname :: tui_style
  pal_dim :: tui_style
  pal_prompt :: tui_style

definition palette_dark :: Palette where
  "palette_dark =
     \<lparr>pal_nickname = \<lparr>sy_fg = Some CoBlack, sy_bg = Some CoCyan, sy_bold = True\<rparr>,
      pal_dim = style_default\<lparr>sy_fg := Some CoDarkGray\<rparr>, pal_prompt = style_default\<lparr>sy_fg := Some CoGreen\<rparr>\<rparr>"

definition palette_light :: Palette where
  "palette_light =
     \<lparr>pal_nickname = \<lparr>sy_fg = Some CoWhite, sy_bg = Some CoBlue, sy_bold = True\<rparr>,
      pal_dim = style_default\<lparr>sy_fg := Some CoGray\<rparr>, pal_prompt = style_default\<lparr>sy_fg := Some CoBlue\<rparr>\<rparr>"

definition palette_plain :: Palette where
  "palette_plain = \<lparr>pal_nickname = style_default, pal_dim = style_default, pal_prompt = style_default\<rparr>"

definition palette_from_options :: "UiOptions \<Rightarrow> Palette" where
  "palette_from_options o' =
     (if uo_colors o' then (case uo_theme o' of ThDark \<Rightarrow> palette_dark | ThLight \<Rightarrow> palette_light)
      else palette_plain)"

subsection \<open>The input line\<close>

record area =
  ar_x :: nat
  ar_y :: nat
  ar_width :: nat
  ar_height :: nat

definition draw_input ::
    "(rchar \<Rightarrow> nat) \<Rightarrow> Palette \<Rightarrow> rtext \<Rightarrow> nat \<Rightarrow> area \<Rightarrow> (rtext \<times> tui_style) list \<times> (nat \<times> nat) option" where
  "draw_input columns P input cursor A =
     (case input_view columns input cursor (ar_width A - 4) of
        (draft, caret) \<Rightarrow>
          ([(lit ''> '', pal_prompt P), (draft, style_default)],
           if 2 < ar_height A \<and> 5 < ar_width A
           then Some (u16_capped (u16_capped (ar_x A + 3) + caret), ar_y A + 1) else None))"

text \<open>The cursor is put inside the border of the pane, never on it.\<close>

lemma draw_input_cursor:
  assumes "draw_input columns P input cursor A = (spans, Some (x, y))" "cursor \<le> length input"
    "ar_x A + ar_width A \<le> 65535"
  shows "ar_x A + 2 < x \<and> x < ar_x A + ar_width A - 1 \<and> y = ar_y A + 1 \<and> y < ar_y A + ar_height A - 1"
proof -
  have size: "2 < ar_height A" "5 < ar_width A" using assms(1) by (auto simp: draw_input_def split: prod.splits if_splits)
  obtain draft caret where v: "input_view columns input cursor (ar_width A - 4) = (draft, caret)" by fastforce
  have "caret < ar_width A - 4"
    using input_view_inside [of "ar_width A - 4" cursor input columns] size assms(2,3) v by simp
  then show ?thesis
    using assms(1,3) size v by (auto simp: draw_input_def u16_capped_def)
qed

end
