(* ===== verification/Spec2Isabelle.thy ===== *)
theory Spec2Isabelle
  imports WireGuarantees NetworkGuarantees SecurityGuarantees ServiceGuarantees ConfigGuarantees
    StoreGuarantees ToxGuarantees CoreGuarantees FrontGuarantees LogGuarantees ProcessGuarantees TerminalModes
begin

text \<open>
  metaText, a peer-to-peer messenger: a verification development.

  The program. A front end (terminal, remote client) talks to a core service; the core service owns
  the profile, the contacts, the groups and the history and talks to one of two transports: a TCP
  network of its own, with encrypted frames, pinned identities and an outbox for absent peers, or
  Tox, through the C library on a worker thread. A database keeps contacts and messages. The paths
  below are relative to \<^verbatim>\<open>src/crates/\<close>; every definition models the function or type of the same name
  there, and where a name clashed with one of the library it has a prefix (\<open>tox_\<close>, \<open>core_\<close>, \<open>peer_\<close>,
  \<open>ipc_\<close>).

  Foundations.
  \<^item> \<open>Prelude\<close>: texts as lists of code points with the string functions of Rust's library that the
    program uses, byte orders, association lists, the locale of bounded queues, named collections.
  \<^item> \<open>Utf8\<close>: the encoder, the strict and the lossy decoder; the strict one inverts the encoder.
  \<^item> \<open>External\<close>: the code that is not here, as records of functions (ciphers and key agreement, hex,
    JSON, lower-casing, the SQL engine and the Tox library are introduced where they are used), with
    the laws that some properties name as hypotheses (\<open>aead_laws\<close>, \<open>dh_laws\<close>, \<open>hex_laws\<close>, \<open>lower_laws\<close>,
    \<open>text_laws\<close>, \<open>sqlite_laws\<close>, \<open>float_laws\<close>, \<open>toml_laws\<close>); \<open>Samples\<close> and the guarantee theories instantiate each of them.

  Shared vocabulary.
  \<^item> \<open>Errors\<close> (\<^verbatim>\<open>meta-text-proto/src/error.rs\<close>), \<open>Types\<close> (\<^verbatim>\<open>types.rs\<close>), \<open>Protocol\<close> and \<open>Validation\<close> and
    \<open>Framing\<close> (\<^verbatim>\<open>ipc/protocol.rs\<close>, \<^verbatim>\<open>ipc/validation.rs\<close>, \<^verbatim>\<open>ipc/framing.rs\<close>), \<open>Utils\<close> (\<^verbatim>\<open>utils.rs\<close>),
    \<open>Codec\<close> (big-endian numbers and length-prefixed streams, shared by both frame formats).
  \<^item> \<open>Cli\<close> and \<open>Config\<close> (\<^verbatim>\<open>meta-text-backend/src/cli.rs\<close>, \<^verbatim>\<open>config.rs\<close>, and \<open>apply_overrides\<close> of the core).

  TCP transport (\<^verbatim>\<open>meta-text-backend/src\<close>).
  \<^item> \<open>Crypto\<close> (\<^verbatim>\<open>crypto.rs\<close>), \<open>Identity\<close> (\<^verbatim>\<open>identity.rs\<close>), \<open>Trust\<close> (\<^verbatim>\<open>trust.rs\<close>).
  \<^item> \<open>PeerFrames\<close>, \<open>Outbox\<close>, \<open>Network\<close>, \<open>Supervisor\<close> (\<^verbatim>\<open>network.rs\<close>): the frame format, the channels and
    the outbox, the methods on the shared state with the read loop, and the supervisor. \<open>NetworkFacts\<close>
    and \<open>Delivery\<close> hold the invariant and the path of a message from one node to the other. \<open>Sockets\<close>:
    the listener, dialling, the accept and keepalive loops, and the queue of a connection with the
    loop that writes it.

  Tox transport.
  \<^item> \<open>Tox\<close> and \<open>ToxWorker\<close> (\<^verbatim>\<open>tox.rs\<close>): types, the callbacks, the command handlers and the loop of the
    worker thread, and the handles that ask it. The C library is a record of its documented calls.
  \<^item> \<open>ToxStore\<close> (\<^verbatim>\<open>tox_store.rs\<close>): the file of the undelivered messages and open requests.
  \<^item> \<open>ToxTransport\<close> and \<open>Transport\<close> (\<^verbatim>\<open>transport.rs\<close>): the transport over the worker with its bridge
    of events, and the choice between the two transports. \<open>ToxFacts\<close> holds the invariant.

  Storage. \<open>Database\<close> (\<^verbatim>\<open>database.rs\<close>): schema, migrations, opening, contacts, messages.

  Core service (\<^verbatim>\<open>meta-text-core/src/ipc/core.rs\<close>).
  \<^item> \<open>Core\<close>: the state, the views, the session file, construction and start; \<open>CoreRequests\<close>: one
    definition per request handler; \<open>CoreLoop\<close>: the application events, the tick, the loop.
  \<^item> \<open>TransportFacts\<close>: a locale of what an operation of the service may do to its transport, with an
    interpretation for the bounds of the transport and one for its kind; \<open>CoreFacts\<close>: the invariant
    of the service over a step relation of turns and transport tasks; \<open>CoreOutcomes\<close>: what each
    request answers, the session file across a restart, a message through both services.

  Remote front ends (\<^verbatim>\<open>meta-text-core/src/ipc\<close>). \<open>Budget\<close> and \<open>Server\<close> (\<^verbatim>\<open>server.rs\<close>): rate limits and the tasks
  of a connection; \<open>Endpoint\<close> (\<^verbatim>\<open>server.rs\<close>): the accept loop, its sixteen places and the tasks of all
  connections beside each other; \<open>Client\<close> (\<^verbatim>\<open>client.rs\<close>): requests, timeouts and the pump.
  \<open>RemoteCore\<close>: the endpoint over the core service as modelled, whose runs are runs of the service;
  \<open>RemoteCall\<close>: one client, its connection and the core, for what a call may return. \<open>ReaderTasks\<close>: the tasks that read and write whole messages on a connection, and
  the thread that reads the keyboard.

  Terminal front ends (\<^verbatim>\<open>meta-text-tui/src\<close>, \<^verbatim>\<open>meta-text-cli/src/ui.rs\<close>, \<^verbatim>\<open>src/src/main.rs\<close>).
  \<^item> \<open>FrontText\<close> and \<open>Commands\<close> (\<^verbatim>\<open>text.rs\<close>, \<^verbatim>\<open>commands.rs\<close>): the texts shown and the parser of a line.
  \<^item> \<open>Terminal\<close> (\<^verbatim>\<open>tui.rs\<close>): the line editor with its history, the output sink, wrapping, scrolling and
    the input line, the titles and lists, and one round of the interface loop. \<open>TerminalFacts\<close> relates
    the rows shown to the whole log wrapped and holds the invariant of the editor.
  \<^item> \<open>Presenter\<close> and \<open>PresenterCommands\<close> (\<^verbatim>\<open>presenter.rs\<close>): every command and event, over a core that is
    a function from a request to an answer, with the lines shown. \<open>PresenterFacts\<close>: what a command
    depends on and which requests it makes. \<open>FrontOverCore\<close>: the locale of what the presenter relies on
    in its core, interpreted by turns of the core service.
  \<^item> \<open>FrontEnds\<close>: the loops of both front ends over sequences of inputs, the manager of the full screen
    interface, the choices of the entry point. \<open>TerminalModes\<close>: the modes of the terminal around the
    loop, the styles and the place of the cursor.
  \<^item> \<open>StartUp\<close> (\<^verbatim>\<open>config.rs\<close>, \<^verbatim>\<open>src/src/main.rs\<close>): loading and saving the configuration file, and the start
    of the process from its arguments to an attached interface or a served endpoint.

  Log files. \<open>LogFiles\<close> (\<^verbatim>\<open>meta-text-backend/src/logging.rs\<close>): the appender that rolls by size and day, over
  a directory that is a list of names and contents.

  Properties. \<open>WireGuarantees\<close>: round trips and limits of the frames. \<open>NetworkGuarantees\<close>: pairing,
  delivery, outbox, deadlines, reconnection. \<open>SecurityGuarantees\<close>: encryption, agreement of keys,
  pinned identities. \<open>ServiceGuarantees\<close>: requests, budgets, tokens, calls from end to end. \<open>ConfigGuarantees\<close>:
  configuration and labels. \<open>StoreGuarantees\<close>: the database against an abstract history of messages.
  \<open>ToxGuarantees\<close>: bounds, flushing and restoring of the Tox transport, the worker's answers and
  events. \<open>CoreGuarantees\<close>: the service as a whole. \<open>FrontGuarantees\<close>: the pane, the editor and the
  presenter against its core. \<open>LogGuarantees\<close>: names, lines, sizes and retention of the log files.
  \<open>ProcessGuarantees\<close>: the configuration file, the start of the process and remote clients over the service. A property with a hypothesis is followed by a
  theorem that applies it to a concrete input.

  Conventions. State is a record that every operation returns updated; failures are \<open>Inl\<close> of the
  program's errors; a panic is \<open>None\<close>. Handlers that hold a lock or run on one task are one step;
  tasks that run beside each other are step relations (\<open>task_step\<close>, \<open>tox_step\<close>, \<open>serve_step\<close>, \<open>endpoint_step\<close>,
  \<open>service_step\<close>, \<open>remote_step\<close>, \<open>call_step\<close>), whose
  invariants hold for every interleaving. Clocks, random bytes, results of file operations and of
  dialling are inputs of the step that uses them. Fixed-width numbers are words and wrap; \<open>usize\<close> is a
  natural number where it counts elements of a list. Loops are structural recursion, except the
  flush of the Tox outbox, whose fuel is the length of the queue plus one: every round removes an
  entry or stops.

  Not modelled: sockets, files and threads themselves; the C memory of the Tox binding; TOML and JSON
  text; the tracing subscriber; poisoned locks, which the code recovers from without looking; the
  painting and layout of the terminal interface, which the tui crate does; starting the runtime; the
  tests. Lower-casing beyond ASCII is a parameter, and floating point numbers of the budgets are
  rationals with a rounding function. \<open>co_published\<close>, \<open>co_session_file\<close> and \<open>co_data_dir\<close> of the service record
  are what the code sends and stores, kept so that properties can speak about it.
\<close>

end
